(* ===== verification/Prelude.thy ===== *)
theory Prelude
  imports Main "HOL-Library.Word" "HOL-Library.List_Lexorder"
begin

text \<open>
  Shared vocabulary of the development: byte strings, the machine-integer
  conversions of Rust's standard library that the sources call, the
  \<open>Result\<close> combinators that Rust's question-mark operator stands for, and
  big-endian encodings.

  Conventions. A Rust \<open>Result<T, E>\<close> is \<open>'e + 'a\<close> with \<open>Inl\<close> the error.
  \<open>u8\<close> payloads are words of eight bits, byte strings are lists of them; the
  fixed arrays of the sources (\<open>[u8; 16]\<close>, \<open>[u8; 32]\<close>) and the UUID newtypes
  are byte strings whose width is checked exactly where the sources check it.
  Counters and revisions (\<open>u64\<close>, \<open>u32\<close>) are naturals and timestamps
  (\<open>i64\<close>) are integers; every conversion or addition that can leave the
  machine range is written out below.  The order on byte strings is the
  lexicographic one, which is both \<open>memcmp\<close> of SQLite and \<open>Ord\<close> of
  \<open>Uuid\<close>.
\<close>

named_theorems result_simps \<open>case analysis of the result combinators\<close>
named_theorems codec_simps \<open>lengths and round trips of the byte encodings\<close>

type_synonym byte = "8 word"
type_synonym bytes = "byte list"
type_synonym uuid = bytes
type_synonym unix_ms = int

section \<open>Results\<close>

text \<open>\<open>rbind\<close> is the question-mark operator: the first error ends the computation.\<close>

definition rbind :: "'e + 'a \<Rightarrow> ('a \<Rightarrow> 'e + 'b) \<Rightarrow> 'e + 'b" where
  "rbind m f = (case m of Inl e \<Rightarrow> Inl e | Inr x \<Rightarrow> f x)"

definition ensure :: "bool \<Rightarrow> 'e \<Rightarrow> 'e + unit" where
  "ensure b e = (if b then Inr () else Inl e)"

definition ok_or :: "'e \<Rightarrow> 'a option \<Rightarrow> 'e + 'a" where
  "ok_or e m = (case m of None \<Rightarrow> Inl e | Some x \<Rightarrow> Inr x)"

definition map_err :: "('e \<Rightarrow> 'f) \<Rightarrow> 'e + 'a \<Rightarrow> 'f + 'a" where
  "map_err g m = (case m of Inl e \<Rightarrow> Inl (g e) | Inr x \<Rightarrow> Inr x)"

text \<open>\<open>Option::map(..).transpose()\<close> and \<open>Iterator::map(..).collect()\<close> into a result.\<close>

definition transpose_map :: "('a \<Rightarrow> 'e + 'b) \<Rightarrow> 'a option \<Rightarrow> 'e + 'b option" where
  "transpose_map f m = (case m of None \<Rightarrow> Inr None | Some x \<Rightarrow> rbind (f x) (\<lambda>y. Inr (Some y)))"

fun traverse :: "('a \<Rightarrow> 'e + 'b) \<Rightarrow> 'a list \<Rightarrow> 'e + 'b list" where
  "traverse f [] = Inr []"
| "traverse f (x # xs) = rbind (f x) (\<lambda>y. rbind (traverse f xs) (\<lambda>ys. Inr (y # ys)))"

text \<open>A \<open>for\<close> loop whose body may return early with an error.\<close>

fun try_fold :: "('s \<Rightarrow> 'a \<Rightarrow> 'e + 's) \<Rightarrow> 's \<Rightarrow> 'a list \<Rightarrow> 'e + 's" where
  "try_fold f s [] = Inr s"
| "try_fold f s (x # xs) = rbind (f s x) (\<lambda>s'. try_fold f s' xs)"

lemma rbind_simps [simp]:
  "rbind (Inl e) f = Inl e"
  "rbind (Inr x) f = f x"
  by (simp_all add: rbind_def)

lemma rbind_eq_Inr [result_simps]: "rbind m f = Inr y \<longleftrightarrow> (\<exists>x. m = Inr x \<and> f x = Inr y)"
  by (cases m) auto

lemma rbind_eq_Inl: "rbind m f = Inl e \<longleftrightarrow> m = Inl e \<or> (\<exists>x. m = Inr x \<and> f x = Inl e)"
  by (cases m) auto

lemma rbind_cong [fundef_cong]:
  "m = m' \<Longrightarrow> (\<And>x. m' = Inr x \<Longrightarrow> f x = f' x) \<Longrightarrow> rbind m f = rbind m' f'"
  by (cases m') auto

lemma ensure_eq_Inr [result_simps]: "ensure b e = Inr u \<longleftrightarrow> b"
  by (simp add: ensure_def)

lemma ensure_simps [simp]:
  "ensure True e = Inr ()"
  "ensure False e = Inl e"
  by (simp_all add: ensure_def)

lemma ensure_eq_Inl: "ensure b e = Inl e' \<longleftrightarrow> \<not> b \<and> e' = e"
  by (auto simp: ensure_def)

lemma ok_or_simps [simp]:
  "ok_or e None = Inl e"
  "ok_or e (Some x) = Inr x"
  by (simp_all add: ok_or_def)

lemma ok_or_eq_Inr [result_simps]: "ok_or e m = Inr x \<longleftrightarrow> m = Some x"
  by (cases m) auto

lemma map_err_simps [simp]:
  "map_err g (Inl e) = Inl (g e)"
  "map_err g (Inr x) = Inr x"
  by (simp_all add: map_err_def)

lemma map_err_eq_Inr [result_simps]: "map_err g m = Inr x \<longleftrightarrow> m = Inr x"
  by (cases m) auto

lemma transpose_map_simps [simp]:
  "transpose_map f None = Inr None"
  "transpose_map f (Some x) = rbind (f x) (\<lambda>y. Inr (Some y))"
  by (simp_all add: transpose_map_def)

lemma traverse_length: "traverse f xs = Inr ys \<Longrightarrow> length ys = length xs"
  by (induction xs arbitrary: ys) (auto simp: result_simps)

lemma traverse_Inr_iff:
  "traverse f xs = Inr ys \<longleftrightarrow> list_all2 (\<lambda>x y. f x = Inr y) xs ys"
proof (induction xs arbitrary: ys)
  case Nil
  then show ?case by (cases ys) auto
next
  case (Cons x xs)
  then show ?case by (cases ys) (auto simp: result_simps)
qed

lemma traverse_all_Inr:
  assumes "\<And>x. x \<in> set xs \<Longrightarrow> f x = Inr (g x)"
  shows "traverse f xs = Inr (map g xs)"
  using assms by (induction xs) auto

lemma try_fold_append:
  "try_fold f s (xs @ ys) = rbind (try_fold f s xs) (\<lambda>s'. try_fold f s' ys)"
proof (induction xs arbitrary: s)
  case Nil
  then show ?case by simp
next
  case (Cons x xs)
  then show ?case by (cases "f s x") auto
qed

lemma try_fold_invariant:
  assumes "try_fold f s xs = Inr s'" and "P s"
    and "\<And>s x s'. x \<in> set xs \<Longrightarrow> P s \<Longrightarrow> f s x = Inr s' \<Longrightarrow> P s'"
  shows "P s'"
  using assms by (induction xs arbitrary: s) (auto simp: result_simps)

section \<open>Machine integers\<close>

definition u16_max :: nat where "u16_max = 2 ^ 16 - 1"
definition u32_max :: nat where "u32_max = 2 ^ 32 - 1"
definition u64_max :: nat where "u64_max = 2 ^ 64 - 1"
definition i64_max :: int where "i64_max = 2 ^ 63 - 1"
definition i64_min :: int where "i64_min = - (2 ^ 63)"

definition checked_add_u64 :: "nat \<Rightarrow> nat \<Rightarrow> nat option" where
  "checked_add_u64 a b = (if a + b \<le> u64_max then Some (a + b) else None)"

definition checked_add_u32 :: "nat \<Rightarrow> nat \<Rightarrow> nat option" where
  "checked_add_u32 a b = (if a + b \<le> u32_max then Some (a + b) else None)"

definition saturating_add_u32 :: "nat \<Rightarrow> nat \<Rightarrow> nat" where
  "saturating_add_u32 a b = min (a + b) u32_max"

definition checked_add_i64 :: "int \<Rightarrow> int \<Rightarrow> int option" where
  "checked_add_i64 a b = (if i64_min \<le> a + b \<and> a + b \<le> i64_max then Some (a + b) else None)"

text \<open>\<open>i64::try_from(u64)\<close> and the conversions back used on database integers.\<close>

definition i64_of_u64 :: "nat \<Rightarrow> int option" where
  "i64_of_u64 n = (if int n \<le> i64_max then Some (int n) else None)"

definition u64_of_i64 :: "int \<Rightarrow> nat option" where
  "u64_of_i64 i = (if 0 \<le> i \<and> i \<le> i64_max then Some (nat i) else None)"

definition u32_of_i64 :: "int \<Rightarrow> nat option" where
  "u32_of_i64 i = (if 0 \<le> i \<and> i \<le> int u32_max then Some (nat i) else None)"

definition u16_of_i64 :: "int \<Rightarrow> nat option" where
  "u16_of_i64 i = (if 0 \<le> i \<and> i \<le> int u16_max then Some (nat i) else None)"

definition u8_of_i64 :: "int \<Rightarrow> nat option" where
  "u8_of_i64 i = (if 0 \<le> i \<and> i \<le> 255 then Some (nat i) else None)"

lemma i64_of_u64_Some [result_simps]: "i64_of_u64 n = Some i \<longleftrightarrow> i = int n \<and> int n \<le> i64_max"
  by (auto simp: i64_of_u64_def)

lemma u64_of_i64_Some [result_simps]:
  "u64_of_i64 i = Some n \<longleftrightarrow> i = int n \<and> int n \<le> i64_max"
  by (auto simp: u64_of_i64_def)

lemma u32_of_i64_Some [result_simps]: "u32_of_i64 i = Some n \<longleftrightarrow> i = int n \<and> n \<le> u32_max"
  by (auto simp: u32_of_i64_def)

lemma u8_of_i64_Some [result_simps]: "u8_of_i64 i = Some n \<longleftrightarrow> i = int n \<and> n \<le> 255"
  by (auto simp: u8_of_i64_def)

lemma u16_of_i64_Some [result_simps]: "u16_of_i64 i = Some n \<longleftrightarrow> i = int n \<and> n \<le> u16_max"
  by (auto simp: u16_of_i64_def)

lemma checked_add_u64_Some [result_simps]:
  "checked_add_u64 a b = Some c \<longleftrightarrow> c = a + b \<and> a + b \<le> u64_max"
  by (auto simp: checked_add_u64_def)

lemma checked_add_i64_Some [result_simps]:
  "checked_add_i64 a b = Some c \<longleftrightarrow> c = a + b \<and> i64_min \<le> a + b \<and> a + b \<le> i64_max"
  by (auto simp: checked_add_i64_def)

lemma i64_le_u64 [simp]: "int n \<le> i64_max \<Longrightarrow> n \<le> u64_max"
  by (simp add: i64_max_def u64_max_def)

lemma i64_of_u64_int [simp]: "int n \<le> i64_max \<Longrightarrow> i64_of_u64 n = Some (int n)"
  by (simp add: i64_of_u64_def)

lemma u64_of_i64_int [simp]: "int n \<le> i64_max \<Longrightarrow> u64_of_i64 (int n) = Some n"
  by (simp add: u64_of_i64_def)

lemma u32_of_i64_int [simp]: "n \<le> u32_max \<Longrightarrow> u32_of_i64 (int n) = Some n"
  by (simp add: u32_of_i64_def)

text \<open>\<open>Vec<u8>::try_into::<[u8; N]>()\<close> and \<open>Uuid::from_slice\<close>: a width check.\<close>

definition try_into_array :: "nat \<Rightarrow> 'e \<Rightarrow> bytes \<Rightarrow> 'e + bytes" where
  "try_into_array n e b = (if length b = n then Inr b else Inl e)"

lemma try_into_array_eq_Inr [result_simps]:
  "try_into_array n e b = Inr c \<longleftrightarrow> c = b \<and> length b = n"
  by (auto simp: try_into_array_def)

lemma try_into_array_ok [simp]: "length b = n \<Longrightarrow> try_into_array n e b = Inr b"
  by (simp add: try_into_array_def)

section \<open>Big-endian encodings\<close>

text \<open>\<open>be_bytes k n\<close> is \<open>to_be_bytes\<close> of a \<open>k\<close>-byte unsigned integer and
  \<open>from_be\<close> is \<open>from_be_bytes\<close>.\<close>

fun be_bytes :: "nat \<Rightarrow> nat \<Rightarrow> bytes" where
  "be_bytes 0 n = []"
| "be_bytes (Suc k) n = be_bytes k (n div 256) @ [word_of_nat (n mod 256)]"

definition from_be :: "bytes \<Rightarrow> nat" where
  "from_be bs = foldl (\<lambda>acc b. acc * 256 + unat b) 0 bs"

text \<open>Two's complement for \<open>i64::to_be_bytes\<close>.\<close>

definition i64_be_bytes :: "int \<Rightarrow> bytes" where
  "i64_be_bytes i = be_bytes 8 (nat (i mod 2 ^ 64))"

lemma length_be_bytes [simp, codec_simps]: "length (be_bytes k n) = k"
  by (induction k n rule: be_bytes.induct) auto

lemma from_be_Nil [simp]: "from_be [] = 0"
  by (simp add: from_be_def)

lemma from_be_snoc [simp]: "from_be (bs @ [b]) = from_be bs * 256 + unat b"
  by (simp add: from_be_def)

lemma unat_byte_of_nat: "n < 256 \<Longrightarrow> unat (word_of_nat n :: byte) = n"
  by (simp add: unat_of_nat)

lemma unat_byte_less: "unat (b :: byte) < 256"
  using unsigned_less [of b, where 'a = nat] by simp

lemma from_be_be_bytes [simp, codec_simps]: "n < 256 ^ k \<Longrightarrow> from_be (be_bytes k n) = n"
proof (induction k n rule: be_bytes.induct)
  case (1 n)
  then show ?case by simp
next
  case (2 k n)
  have "n div 256 < 256 ^ k" using 2(2) by (simp add: div_less_iff_less_mult mult.commute)
  then have "from_be (be_bytes k (n div 256)) = n div 256" by (rule 2(1))
  then show ?case by (simp add: unat_byte_of_nat)
qed

lemma be_bytes_from_be [simp, codec_simps]: "length bs = k \<Longrightarrow> be_bytes k (from_be bs) = bs"
proof (induction k arbitrary: bs)
  case 0
  then show ?case by simp
next
  case (Suc k)
  then obtain cs c where bs: "bs = cs @ [c]" and "length cs = k"
    by (metis length_Suc_conv_rev)
  have c: "unat c < 256" by (rule unat_byte_less)
  have "be_bytes k (from_be cs) = cs" using Suc.IH \<open>length cs = k\<close> by simp
  then show ?case using c by (simp add: bs)
qed

lemma be_bytes_inject: "m < 256 ^ k \<Longrightarrow> n < 256 ^ k \<Longrightarrow> be_bytes k m = be_bytes k n \<longleftrightarrow> m = n"
  by (metis from_be_be_bytes)

lemma from_be_less: "from_be bs < 256 ^ length bs"
proof (induction bs rule: rev_induct)
  case Nil
  then show ?case by simp
next
  case (snoc b bs)
  have "unat b < 256" by (rule unat_byte_less)
  then have "from_be bs * 256 + unat b < (from_be bs + 1) * 256" by simp
  also have "\<dots> \<le> 256 ^ length bs * 256" using snoc by (simp add: Suc_le_eq)
  finally show ?case by simp
qed

lemma i64_be_bytes_inject:
  assumes "i64_min \<le> i" "i \<le> i64_max" "i64_min \<le> j" "j \<le> i64_max"
  shows "i64_be_bytes i = i64_be_bytes j \<longleftrightarrow> i = j"
proof
  assume eq: "i64_be_bytes i = i64_be_bytes j"
  have "nat (i mod 2 ^ 64) < 256 ^ 8" and "nat (j mod 2 ^ 64) < 256 ^ 8" by simp_all
  then have "nat (i mod 2 ^ 64) = nat (j mod 2 ^ 64)"
    using eq be_bytes_inject by (auto simp: i64_be_bytes_def)
  then have "i mod 2 ^ 64 = j mod 2 ^ 64" by (simp add: eq_nat_nat_iff)
  then have dvd: "2 ^ 64 dvd i - j" by (rule mod_eq_dvd_iff [THEN iffD1])
  have "\<bar>i - j\<bar> < 2 ^ 64" using assms by (simp add: i64_min_def i64_max_def abs_if)
  then show "i = j" using dvd zdvd_not_zless [of "\<bar>i - j\<bar>" "2 ^ 64"] by auto
qed simp

lemma length_i64_be_bytes [simp, codec_simps]: "length (i64_be_bytes i) = 8"
  by (simp add: i64_be_bytes_def)

text \<open>A string literal of the sources as bytes (\<open>b"..."\<close>, \<open>str::as_bytes\<close>).\<close>

definition ascii :: "string \<Rightarrow> bytes" where
  "ascii s = map (\<lambda>c. word_of_nat (of_char c)) s"

lemma length_ascii [simp, codec_simps]: "length (ascii s) = length s"
  by (simp add: ascii_def)

lemma ascii_inject: "ascii s = ascii t \<longleftrightarrow> s = t"
proof
  have inj: "inj (\<lambda>c::char. word_of_nat (of_char c) :: byte)"
  proof (rule injI)
    fix c d :: char
    assume "(word_of_nat (of_char c) :: byte) = word_of_nat (of_char d)"
    then have "(of_char c :: nat) mod 256 = of_char d mod 256"
      by (metis of_char_mod_256 unat_byte_of_nat mod_less_divisor zero_less_numeral)
    then show "c = d" by simp
  qed
  show "s = t" if "ascii s = ascii t"
    using that inj by (auto simp: ascii_def inj_map_eq_map)
qed simp

end
