(* ===== verification/Sql_Table.thy ===== *)
theory Sql_Table
  imports Prelude
begin

text \<open>
  The tables of the SQLite schema in \<open>src/crates/smcv-storage/src/lib.rs\<close>.
  A rowid table is the list of its rows with their rowids, in rowid order;
  an insert takes the largest rowid plus one, as SQLite does below the end of
  the rowid range.  The statements of the sources are written with the
  operations below: \<open>SELECT\<close> with a \<open>WHERE\<close> clause, \<open>count(*)\<close>,
  \<open>INSERT\<close>, \<open>UPDATE\<close> and \<open>DELETE\<close>; each \<open>ORDER BY\<close> is a sort by the
  column's key.
\<close>

named_theorems table_simps \<open>what the statements leave in a table\<close>

type_synonym 'r table = "(int \<times> 'r) list"

definition rows :: "'r table \<Rightarrow> 'r list" where
  "rows t = map snd t"

definition next_rowid :: "'r table \<Rightarrow> int" where
  "next_rowid t = 1 + foldr max (map fst t) 0"

definition tbl_insert :: "'r \<Rightarrow> 'r table \<Rightarrow> 'r table" where
  "tbl_insert r t = t @ [(next_rowid t, r)]"

definition tbl_update_at :: "(int \<Rightarrow> 'r \<Rightarrow> bool) \<Rightarrow> ('r \<Rightarrow> 'r) \<Rightarrow> 'r table \<Rightarrow> 'r table" where
  "tbl_update_at p f t = map (\<lambda>(i, r). (i, if p i r then f r else r)) t"

definition tbl_update :: "('r \<Rightarrow> bool) \<Rightarrow> ('r \<Rightarrow> 'r) \<Rightarrow> 'r table \<Rightarrow> 'r table" where
  "tbl_update p f t = tbl_update_at (\<lambda>_. p) f t"

definition tbl_delete :: "('r \<Rightarrow> bool) \<Rightarrow> 'r table \<Rightarrow> 'r table" where
  "tbl_delete p t = filter (\<lambda>(i, r). \<not> p r) t"

definition tbl_select :: "('r \<Rightarrow> bool) \<Rightarrow> 'r table \<Rightarrow> 'r list" where
  "tbl_select p t = filter p (rows t)"

definition tbl_find :: "('r \<Rightarrow> bool) \<Rightarrow> 'r table \<Rightarrow> 'r option" where
  "tbl_find p t = find p (rows t)"

definition tbl_count :: "('r \<Rightarrow> bool) \<Rightarrow> 'r table \<Rightarrow> nat" where
  "tbl_count p t = length (tbl_select p t)"

definition tbl_exists :: "('r \<Rightarrow> bool) \<Rightarrow> 'r table \<Rightarrow> bool" where
  "tbl_exists p t = list_ex p (rows t)"

text \<open>Distinct values of a key column or of a tuple of key columns.\<close>

definition unique_key :: "('r \<Rightarrow> 'k) \<Rightarrow> 'r table \<Rightarrow> bool" where
  "unique_key k t = distinct (map k (rows t))"

text \<open>A partial unique index: distinct keys among the rows it covers.\<close>

definition unique_where :: "('r \<Rightarrow> bool) \<Rightarrow> ('r \<Rightarrow> 'k) \<Rightarrow> 'r table \<Rightarrow> bool" where
  "unique_where p k t = distinct (map k (filter p (rows t)))"

definition rowids_sorted :: "'r table \<Rightarrow> bool" where
  "rowids_sorted t = (sorted (map fst t) \<and> distinct (map fst t) \<and> (\<forall>i \<in> set (map fst t). 0 < i))"

section \<open>Rows after a statement\<close>

lemma rows_Nil [simp]: "rows [] = []"
  by (simp add: rows_def)

lemma rows_insert [simp, table_simps]: "rows (tbl_insert r t) = rows t @ [r]"
  by (simp add: rows_def tbl_insert_def)

lemma rows_update [simp, table_simps]:
  "rows (tbl_update p f t) = map (\<lambda>r. if p r then f r else r) (rows t)"
  by (auto simp: rows_def tbl_update_def tbl_update_at_def)

lemma rows_update_at [simp]:
  "rows (tbl_update_at p f t) = map (\<lambda>(i, r). if p i r then f r else r) t"
  by (auto simp: rows_def tbl_update_at_def)

lemma rowids_update_at [simp]: "map fst (tbl_update_at p f t) = map fst t"
  by (auto simp: tbl_update_at_def)

lemma rowids_update [simp]: "map fst (tbl_update p f t) = map fst t"
  by (simp add: tbl_update_def)

lemma rows_delete [simp, table_simps]: "rows (tbl_delete p t) = filter (\<lambda>r. \<not> p r) (rows t)"
  by (induction t) (auto simp: rows_def tbl_delete_def)

lemma set_rows_iff: "r \<in> set (rows t) \<longleftrightarrow> (\<exists>i. (i, r) \<in> set t)"
  by (force simp: rows_def)

lemma tbl_exists_iff [simp]: "tbl_exists p t \<longleftrightarrow> (\<exists>r \<in> set (rows t). p r)"
  by (auto simp: tbl_exists_def list_ex_iff)

lemma tbl_exists_cong:
  "rows t = rows t' \<Longrightarrow> tbl_exists p t = tbl_exists p t'"
  by (simp add: tbl_exists_def)

lemma tbl_find_Some: "tbl_find p t = Some r \<Longrightarrow> r \<in> set (rows t) \<and> p r"
  by (auto simp: tbl_find_def find_Some_iff)

lemma tbl_find_None [simp]: "tbl_find p t = None \<longleftrightarrow> (\<forall>r \<in> set (rows t). \<not> p r)"
  by (auto simp: tbl_find_def find_None_iff)

lemma tbl_count_0 [simp]: "tbl_count p t = 0 \<longleftrightarrow> (\<forall>r \<in> set (rows t). \<not> p r)"
  by (auto simp: tbl_count_def tbl_select_def filter_empty_conv)

lemma tbl_count_pos: "0 < tbl_count p t \<longleftrightarrow> (\<exists>r \<in> set (rows t). p r)"
  by (metis gr0I less_irrefl tbl_count_0)

lemma tbl_count_one_exists: "tbl_count p t = 1 \<Longrightarrow> \<exists>r \<in> set (rows t). p r"
  using tbl_count_pos [of p t] by simp

section \<open>Keys\<close>

lemma unique_key_insert [simp]:
  "unique_key k (tbl_insert r t) \<longleftrightarrow> unique_key k t \<and> \<not> tbl_exists (\<lambda>r'. k r' = k r) t"
  by (simp add: unique_key_def image_iff) metis

lemma unique_key_delete [intro]: "unique_key k t \<Longrightarrow> unique_key k (tbl_delete p t)"
  by (auto simp: unique_key_def distinct_map intro: inj_on_subset)

lemma unique_key_update:
  assumes "unique_key k t" "\<And>r. p r \<Longrightarrow> k (f r) = k r"
  shows "unique_key k (tbl_update p f t)"
proof -
  have "map k (rows (tbl_update p f t)) = map k (rows t)" using assms(2) by auto
  then show ?thesis using assms(1) unfolding unique_key_def by (simp only:)
qed

lemma unique_key_update_at:
  assumes "unique_key k t" "\<And>i r. p i r \<Longrightarrow> k (f r) = k r"
  shows "unique_key k (tbl_update_at p f t)"
proof -
  have "map k (rows (tbl_update_at p f t)) = map k (rows t)"
    using assms(2) by (auto simp: rows_def tbl_update_at_def)
  then show ?thesis using assms(1) unfolding unique_key_def by (simp only:)
qed

lemma unique_key_eq:
  "unique_key k t \<Longrightarrow> r \<in> set (rows t) \<Longrightarrow> r' \<in> set (rows t) \<Longrightarrow> k r = k r' \<Longrightarrow> r = r'"
  by (auto simp: unique_key_def distinct_map inj_on_def)

lemma unique_key_find:
  assumes "unique_key k t" "r \<in> set (rows t)" "k r = v"
  shows "tbl_find (\<lambda>r. k r = v) t = Some r"
proof (cases "tbl_find (\<lambda>r. k r = v) t")
  case None
  then show ?thesis using assms by auto
next
  case (Some r')
  then show ?thesis using assms tbl_find_Some [OF Some] unique_key_eq by metis
qed

lemma distinct_filter_singleton:
  "distinct xs \<Longrightarrow> x \<in> set xs \<Longrightarrow> (\<And>y. y \<in> set xs \<Longrightarrow> P y \<longleftrightarrow> y = x) \<Longrightarrow> filter P xs = [x]"
proof (induction xs)
  case Nil
  then show ?case by simp
next
  case (Cons a xs)
  show ?case
  proof (cases "a = x")
    case True
    then have "filter P xs = []" using Cons.prems by (auto simp: filter_empty_conv)
    then show ?thesis using True Cons.prems by simp
  next
    case False
    then show ?thesis using Cons by auto
  qed
qed

text \<open>With a unique key, a \<open>WHERE\<close> clause that fixes the key selects at most one row, and
  then \<open>count(*) = 1\<close> says that the row is there.\<close>

lemma unique_key_count_one:
  assumes "unique_key k t" and "\<And>r. p r \<Longrightarrow> k r = v"
  shows "tbl_count p t = 1 \<longleftrightarrow> (\<exists>r \<in> set (rows t). p r)"
proof
  assume "\<exists>r \<in> set (rows t). p r"
  then obtain r where r: "r \<in> set (rows t)" "p r" by blast
  have "distinct (rows t)" using assms(1) by (auto simp: unique_key_def distinct_map)
  moreover have "\<And>r'. r' \<in> set (rows t) \<Longrightarrow> p r' \<longleftrightarrow> r' = r"
    using unique_key_eq [OF assms(1)] r assms(2) by metis
  ultimately have "filter p (rows t) = [r]" using r(1) by (intro distinct_filter_singleton) auto
  then show "tbl_count p t = 1" by (simp add: tbl_count_def tbl_select_def)
qed (rule tbl_count_one_exists)

text \<open>An \<open>UPDATE\<close> that hits one row of a table with a unique key, seen through lookups.\<close>

lemma find_map_key:
  assumes "\<And>r. p r \<Longrightarrow> k (f r) = k r"
  shows "find (\<lambda>r. k r = v) (map (\<lambda>r. if p r then f r else r) rs) =
         map_option (\<lambda>r. if p r then f r else r) (find (\<lambda>r. k r = v) rs)"
  using assms by (induction rs) auto

lemma tbl_find_update:
  assumes "\<And>r. p r \<Longrightarrow> k (f r) = k r"
  shows "tbl_find (\<lambda>r. k r = v) (tbl_update p f t) =
         map_option (\<lambda>r. if p r then f r else r) (tbl_find (\<lambda>r. k r = v) t)"
  unfolding tbl_find_def rows_update using assms by (rule find_map_key)

lemma unique_key_update_iff:
  assumes "\<And>r. p r \<Longrightarrow> k (f r) = k r"
  shows "unique_key k (tbl_update p f t) \<longleftrightarrow> unique_key k t"
proof -
  have "map k (rows (tbl_update p f t)) = map k (rows t)" using assms by auto
  then show ?thesis unfolding unique_key_def by (simp only:)
qed

lemma update_one:
  assumes "unique_key k t" "tbl_count p t = 1" "\<And>r. p r \<Longrightarrow> k r = v \<and> k (f r) = v"
  obtains r where "p r" "r \<in> set (rows t)" "tbl_find (\<lambda>r. k r = v) t = Some r"
    "\<And>w. tbl_find (\<lambda>r. k r = w) (tbl_update p f t) =
          (if w = v then Some (f r) else tbl_find (\<lambda>r. k r = w) t)"
proof -
  obtain r where r: "p r" "r \<in> set (rows t)" using tbl_count_one_exists [OF assms(2)] by blast
  have find: "tbl_find (\<lambda>r. k r = v) t = Some r"
    using unique_key_find [OF assms(1) r(2)] assms(3) r(1) by blast
  have key: "\<And>r. p r \<Longrightarrow> k (f r) = k r" using assms(3) by metis
  have "tbl_find (\<lambda>r. k r = w) (tbl_update p f t) =
          (if w = v then Some (f r) else tbl_find (\<lambda>r. k r = w) t)" for w
  proof (cases "w = v")
    case True
    then show ?thesis using find r(1) 
      by (simp only: tbl_find_update [where p = p and k = k and f = f, OF key] option.map if_True refl)
  next
    case False
    have "map_option (\<lambda>r. if p r then f r else r) (tbl_find (\<lambda>r. k r = w) t) = tbl_find (\<lambda>r. k r = w) t"
      using False assms(3) by (cases "tbl_find (\<lambda>r. k r = w) t") (auto dest: tbl_find_Some simp del: tbl_find_None)
    then show ?thesis using False
      by (simp only: tbl_find_update [where p = p and k = k and f = f, OF key] if_False)
  qed
  then show thesis using r find that by blast
qed

lemma tbl_find_insert:
  "tbl_find p (tbl_insert r t) = (case tbl_find p t of Some q \<Rightarrow> Some q | None \<Rightarrow> if p r then Some r else None)"
proof -
  have "find p (rs @ [r]) = (case find p rs of Some q \<Rightarrow> Some q | None \<Rightarrow> if p r then Some r else None)" for rs
    by (induction rs) auto
  then show ?thesis by (simp add: tbl_find_def)
qed

lemma tbl_find_delete:
  assumes "\<And>r. p r \<Longrightarrow> \<not> q r"
  shows "tbl_find p (tbl_delete q t) = tbl_find p t"
proof -
  have "find p (filter (\<lambda>r. \<not> q r) rs) = find p rs" for rs
    using assms by (induction rs) auto
  then show ?thesis by (simp add: tbl_find_def)
qed

lemma unique_where_insert:
  "unique_where p k (tbl_insert r t) \<longleftrightarrow>
   unique_where p k t \<and> (p r \<longrightarrow> \<not> tbl_exists (\<lambda>r'. p r' \<and> k r' = k r) t)"
  by (simp add: unique_where_def image_iff) metis

lemma unique_where_delete: "unique_where p k t \<Longrightarrow> unique_where p k (tbl_delete q t)"
proof -
  have "filter p (rows (tbl_delete q t)) = filter (\<lambda>r. \<not> q r) (filter p (rows t))"
    by (simp add: conj_commute)
  then show "unique_where p k t \<Longrightarrow> ?thesis"
    unfolding unique_where_def
    by (auto simp: distinct_map simp del: filter_filter intro: inj_on_subset)
qed

lemma unique_where_eq:
  "unique_where p k t \<Longrightarrow> r \<in> set (rows t) \<Longrightarrow> r' \<in> set (rows t) \<Longrightarrow> p r \<Longrightarrow> p r' \<Longrightarrow>
   k r = k r' \<Longrightarrow> r = r'"
  by (auto simp: unique_where_def distinct_map inj_on_def)

section \<open>Rowids\<close>

lemma foldr_max_ge: "i \<in> set xs \<Longrightarrow> i \<le> foldr max xs (0::int)"
  by (induction xs) auto

lemma foldr_max_nonneg: "0 \<le> foldr max xs (0::int)"
  by (induction xs) auto

lemma rowids_sorted_insert: "rowids_sorted t \<Longrightarrow> rowids_sorted (tbl_insert r t)"
  using foldr_max_ge [of _ "map fst t"] foldr_max_nonneg [of "map fst t"]
  by (force simp: rowids_sorted_def tbl_insert_def next_rowid_def sorted_append)

lemma rowids_sorted_update [simp]: "rowids_sorted (tbl_update_at p f t) \<longleftrightarrow> rowids_sorted t"
  by (simp add: rowids_sorted_def flip: set_map)

lemma rowids_sorted_delete: "rowids_sorted t \<Longrightarrow> rowids_sorted (tbl_delete p t)"
  by (auto simp: rowids_sorted_def tbl_delete_def sorted_wrt_filter sorted_map distinct_map
      intro: inj_on_subset)

end
