(* ===== verification/Core_Domain.thy ===== *)
theory Core_Domain
  imports Prelude
begin

text \<open>
  The domain crate \<open>src/crates/smcv-core\<close>: the closed action vocabulary with its
  stable spellings, resource kinds and service grants
  (\<open>authorization.rs\<close>), the error categories (\<open>error.rs\<close>), the schedule of
  a secret version (\<open>lifecycle.rs\<close>) and protected UTF-8 text
  (\<open>secret.rs\<close>).
\<close>

section \<open>Actions\<close>

datatype action =
    NamespaceList | NamespaceCreate | NamespaceUpdate | NamespaceDelete
  | SecretList | SecretMetadataRead | SecretValueRead | SecretCreate | SecretUpdate
  | SecretArchive | SecretRestore | SecretHistoryRead | SecretVersionRead | SecretPurge
  | IdentityRead | IdentityManage | CredentialIssue | CredentialRevoke
  | PolicyRead | PolicyManage | EffectiveAccessRead | AuditRead
  | BackupCreate | BackupInspect | BackupRestore | KeyRotate | VaultConfigure | VaultLock

fun action_as_str :: "action \<Rightarrow> string" where
  "action_as_str NamespaceList = ''namespace:list''"
| "action_as_str NamespaceCreate = ''namespace:create''"
| "action_as_str NamespaceUpdate = ''namespace:update''"
| "action_as_str NamespaceDelete = ''namespace:delete''"
| "action_as_str SecretList = ''secret:list''"
| "action_as_str SecretMetadataRead = ''secret:metadata-read''"
| "action_as_str SecretValueRead = ''secret:value-read''"
| "action_as_str SecretCreate = ''secret:create''"
| "action_as_str SecretUpdate = ''secret:update''"
| "action_as_str SecretArchive = ''secret:archive''"
| "action_as_str SecretRestore = ''secret:restore''"
| "action_as_str SecretHistoryRead = ''secret:history-read''"
| "action_as_str SecretVersionRead = ''secret:version-read''"
| "action_as_str SecretPurge = ''secret:purge''"
| "action_as_str IdentityRead = ''identity:read''"
| "action_as_str IdentityManage = ''identity:manage''"
| "action_as_str CredentialIssue = ''credential:issue''"
| "action_as_str CredentialRevoke = ''credential:revoke''"
| "action_as_str PolicyRead = ''policy:read''"
| "action_as_str PolicyManage = ''policy:manage''"
| "action_as_str EffectiveAccessRead = ''effective-access:read''"
| "action_as_str AuditRead = ''audit:read''"
| "action_as_str BackupCreate = ''backup:create''"
| "action_as_str BackupInspect = ''backup:inspect''"
| "action_as_str BackupRestore = ''backup:restore''"
| "action_as_str KeyRotate = ''key:rotate''"
| "action_as_str VaultConfigure = ''vault:configure''"
| "action_as_str VaultLock = ''vault:lock''"

definition is_service_grantable :: "action \<Rightarrow> bool" where
  "is_service_grantable a = (a \<in> set [NamespaceList, SecretList, SecretMetadataRead,
     SecretValueRead, SecretCreate, SecretUpdate, SecretArchive, SecretRestore,
     SecretHistoryRead, SecretVersionRead])"

definition all_actions :: "action list" where
  "all_actions =
     [NamespaceList, NamespaceCreate, NamespaceUpdate, NamespaceDelete,
      SecretList, SecretMetadataRead, SecretValueRead, SecretCreate, SecretUpdate,
      SecretArchive, SecretRestore, SecretHistoryRead, SecretVersionRead, SecretPurge,
      IdentityRead, IdentityManage, CredentialIssue, CredentialRevoke,
      PolicyRead, PolicyManage, EffectiveAccessRead, AuditRead,
      BackupCreate, BackupInspect, BackupRestore, KeyRotate, VaultConfigure, VaultLock]"

definition action_from_str :: "string \<Rightarrow> unit + action" where
  "action_from_str v = ok_or () (find (\<lambda>a. action_as_str a = v) all_actions)"

section \<open>Resources and grants\<close>

datatype resource_kind = Namespace | Secret

fun resource_kind_as_str :: "resource_kind \<Rightarrow> string" where
  "resource_kind_as_str Namespace = ''namespace''"
| "resource_kind_as_str Secret = ''secret''"

record grant_spec =
  gs_policy_id :: uuid
  gs_action :: action
  gs_resource_kind :: resource_kind
  gs_resource_id :: uuid
  gs_include_descendants :: bool

definition is_valid_for_service :: "grant_spec \<Rightarrow> bool" where
  "is_valid_for_service g =
     (is_service_grantable (gs_action g) \<and>
      (\<not> gs_include_descendants g \<or> gs_resource_kind g = Namespace))"

section \<open>Errors\<close>

datatype domain_error =
  Unauthenticated | Forbidden | NotFound | Conflict | InvalidInput | Integrity | Unavailable

fun domain_error_text :: "domain_error \<Rightarrow> string" where
  "domain_error_text Unauthenticated = ''authentication required''"
| "domain_error_text Forbidden = ''resource unavailable''"
| "domain_error_text NotFound = ''resource unavailable''"
| "domain_error_text Conflict = ''request conflicts with current state''"
| "domain_error_text InvalidInput = ''request is invalid''"
| "domain_error_text Integrity = ''protected data integrity check failed''"
| "domain_error_text Unavailable = ''service temporarily unavailable''"

section \<open>Schedules\<close>

record secret_schedule =
  expires_at :: "unix_ms option"
  rotation_due_at :: "unix_ms option"

definition is_none_or :: "('a \<Rightarrow> bool) \<Rightarrow> 'a option \<Rightarrow> bool" where
  "is_none_or p m = (case m of None \<Rightarrow> True | Some v \<Rightarrow> p v)"

definition schedule_is_valid :: "secret_schedule \<Rightarrow> bool" where
  "schedule_is_valid s =
     (is_none_or (\<lambda>v. 0 \<le> v) (expires_at s) \<and> is_none_or (\<lambda>v. 0 \<le> v) (rotation_due_at s))"

definition default_schedule :: secret_schedule where
  "default_schedule = \<lparr>expires_at = None, rotation_due_at = None\<rparr>"

section \<open>Protected text\<close>

text \<open>
  A Rust \<open>String\<close> is its UTF-8 bytes.  \<open>utf8_chars\<close> is the decoder of the standard
  library: it returns the code points, or nothing for an ill-formed sequence
  (overlong forms, surrogates, code points past 10FFFF, missing continuation bytes).
\<close>

definition cont_byte :: "byte \<Rightarrow> bool" where
  "cont_byte b = (0x80 \<le> b \<and> b \<le> 0xBF)"

fun utf8_chars :: "bytes \<Rightarrow> nat list option" where
  "utf8_chars [] = Some []"
| "utf8_chars (a # r1) =
    (if a < 0x80 then map_option ((#) (unat a)) (utf8_chars r1)
     else (case r1 of [] \<Rightarrow> None | b # r2 \<Rightarrow>
       if 0xC2 \<le> a \<and> a \<le> 0xDF then
         (if cont_byte b
          then map_option ((#) ((unat a - 0xC0) * 64 + (unat b - 0x80))) (utf8_chars r2)
          else None)
       else (case r2 of [] \<Rightarrow> None | c # r3 \<Rightarrow>
         if 0xE0 \<le> a \<and> a \<le> 0xEF then
           (if cont_byte b \<and> cont_byte c \<and> (a = 0xE0 \<longrightarrow> 0xA0 \<le> b) \<and> (a = 0xED \<longrightarrow> b \<le> 0x9F)
            then map_option ((#) ((unat a - 0xE0) * 4096 + (unat b - 0x80) * 64 + (unat c - 0x80)))
                   (utf8_chars r3)
            else None)
         else (case r3 of [] \<Rightarrow> None | d # r4 \<Rightarrow>
           if 0xF0 \<le> a \<and> a \<le> 0xF4 then
             (if cont_byte b \<and> cont_byte c \<and> cont_byte d \<and> (a = 0xF0 \<longrightarrow> 0x90 \<le> b) \<and>
                 (a = 0xF4 \<longrightarrow> b \<le> 0x8F)
              then map_option ((#) ((unat a - 0xF0) * 262144 + (unat b - 0x80) * 4096 +
                     (unat c - 0x80) * 64 + (unat d - 0x80))) (utf8_chars r4)
              else None)
           else None))))"

definition utf8_valid :: "bytes \<Rightarrow> bool" where
  "utf8_valid b = (utf8_chars b \<noteq> None)"

text \<open>\<open>char::is_control\<close>: the Unicode category Cc.\<close>

definition is_control :: "nat \<Rightarrow> bool" where
  "is_control c = (c < 0x20 \<or> (0x7F \<le> c \<and> c \<le> 0x9F))"

definition any_control :: "bytes \<Rightarrow> bool" where
  "any_control b = (case utf8_chars b of None \<Rightarrow> False | Some cs \<Rightarrow> list_ex is_control cs)"

definition protected_from_utf8 :: "bytes \<Rightarrow> bytes option" where
  "protected_from_utf8 b = (if utf8_valid b then Some b else None)"

section \<open>Lemmas\<close>

lemma all_actions_complete: "a \<in> set all_actions"
  by (cases a) (simp_all add: all_actions_def)

lemma action_from_as_str [simp]: "action_from_str (action_as_str a) = Inr a"
  by (cases a) (simp_all add: action_from_str_def all_actions_def)

lemma action_as_str_inject: "action_as_str a = action_as_str b \<longleftrightarrow> a = b"
  by (metis action_from_as_str sum.inject(2))

lemma action_from_str_Inr: "action_from_str v = Inr a \<longleftrightarrow> v = action_as_str a"
proof
  assume "action_from_str v = Inr a"
  then show "v = action_as_str a"
    by (auto simp: action_from_str_def result_simps find_Some_iff)
qed simp

lemma resource_kind_as_str_inject: "resource_kind_as_str a = resource_kind_as_str b \<longleftrightarrow> a = b"
  by (cases a; cases b; simp)

lemma action_as_str_bounds: "1 \<le> length (action_as_str a) \<and> length (action_as_str a) \<le> 64"
  by (cases a) simp_all

end
