(* ===== verification/Storage_Schema.thy ===== *)
theory Storage_Schema
  imports Sql_Table Core_Domain
begin

text \<open>
  The durable state of \<open>src/crates/smcv-storage\<close>: one record per table of the
  migrations in \<open>lib.rs\<close>, its \<open>CHECK\<close> clauses, unique indexes, foreign keys and
  triggers as predicates, the database as the record of all tables, and the
  transaction that every repository operation runs in.

  Columns are the raw SQL values: \<open>BLOB\<close> is a byte string, \<open>INTEGER\<close> an integer,
  \<open>TEXT\<close> a string, a nullable column an option.  The five columns of an encrypted
  envelope occur in five tables and are grouped as \<open>enc_cols\<close>.  A statement that
  violates a constraint is \<open>Sqlite\<close>; a transaction that returns an error is
  rolled back, so the database is the one before it.  Environmental failures of
  SQLite (a full disk, a failing device) are the same rollback and add no
  behaviour.  The columns \<open>last_object_id\<close>, \<open>lease_owner\<close> and
  \<open>lease_expires_at_unix_ms\<close> of the maintenance jobs are never written by the
  sources and are left out.
\<close>

named_theorems schema_defs \<open>constraints of the schema\<close>

datatype storage_error =
    Sqlite | Poisoned | DestinationExists | MigrationMismatch | StateConflict
  | NotInitialized | InvalidData | UnsafePath | Conflict

section \<open>Rows\<close>

record enc_cols =
  x_nonce :: bytes
  x_ciphertext :: bytes
  x_dek_nonce :: bytes
  x_wrapped_dek :: bytes
  x_kek :: int

record installation_row =
  i_vault_id :: bytes
  i_installation_id :: bytes
  i_recovery_epoch :: int
  i_initialized_at :: int
  i_activation_state :: string
  i_active_kek :: "int option"
  i_semantics :: int

record key_row =
  k_kind :: string
  k_version :: int
  k_object_id :: bytes
  k_wrapping :: "int option"
  k_nonce :: bytes
  k_wrapped :: bytes
  k_state :: string
  k_created :: int

record namespace_row =
  n_id :: bytes
  n_parent :: "bytes option"
  n_name_index :: bytes
  n_metadata_version :: int
  n_meta :: enc_cols
  n_lifecycle :: string
  n_revision :: int
  n_commitment :: bytes
  n_created :: int
  n_updated :: int

record secret_row =
  s_id :: bytes
  s_namespace_id :: bytes
  s_name_index :: bytes
  s_metadata_version :: int
  s_meta :: enc_cols
  s_lifecycle :: string
  s_current :: int
  s_revision :: int
  s_commitment :: bytes
  s_created :: int
  s_updated :: int
  s_deleted :: "int option"

record version_row =
  v_secret_id :: bytes
  v_version :: int
  v_envelope :: int
  v_suite :: int
  v_payload :: enc_cols
  v_expires :: "int option"
  v_rotation :: "int option"
  v_created_by :: "bytes option"
  v_created :: int

record tombstone_row =
  t_secret_id :: bytes
  t_namespace_id :: bytes
  t_name_index :: bytes
  t_last_version :: int
  t_purged :: int
  t_cutoff :: int

record audit_row =
  a_sequence :: int
  a_event_id :: bytes
  a_installation_id :: bytes
  a_epoch :: int
  a_occurred :: int
  a_request_id :: bytes
  a_actor :: "bytes option"
  a_action :: string
  a_target_kind :: string
  a_target :: "bytes option"
  a_outcome :: string
  a_previous :: bytes
  a_commitment :: bytes
  a_commitment_version :: int
  a_credential_kind :: "string option"
  a_credential_id :: "bytes option"

record job_row =
  j_id :: bytes
  j_kind :: string
  j_state :: string
  j_source :: "int option"
  j_target :: "int option"
  j_stage :: "string option"
  j_last_row :: int
  j_updated :: int

record principal_row =
  p_id :: bytes
  p_kind :: string
  p_state :: string
  p_revision :: int
  p_commitment :: bytes
  p_created :: int
  p_updated :: int

record authenticator_row =
  h_id :: bytes
  h_principal :: bytes
  h_kind :: string
  h_lookup :: "bytes option"
  h_data :: "bytes option"
  h_phc :: "string option"
  h_state :: string
  h_created :: int
  h_last_used :: "int option"
  h_revoked :: "int option"
  h_commitment :: bytes

record session_row =
  w_id :: bytes
  w_lookup :: bytes
  w_verifier :: bytes
  w_csrf :: bytes
  w_principal :: bytes
  w_authenticator :: bytes
  w_method :: string
  w_created :: int
  w_last_used :: int
  w_idle_expires :: int
  w_absolute_expires :: int
  w_recent_auth :: int
  w_revoked :: "int option"
  w_commitment :: bytes

record service_row =
  y_principal :: bytes
  y_metadata_version :: int
  y_meta :: enc_cols

record credential_row =
  c_id :: bytes
  c_principal :: bytes
  c_lookup :: bytes
  c_verifier :: bytes
  c_created :: int
  c_expires :: "int option"
  c_last_used :: "int option"
  c_revoked :: "int option"
  c_revision :: int
  c_commitment :: bytes

record policy_row =
  l_id :: bytes
  l_revision :: int
  l_state :: string
  l_metadata_version :: int
  l_meta :: enc_cols
  l_commitment :: bytes
  l_created :: int
  l_updated :: int

record grant_row =
  g_id :: bytes
  g_policy :: bytes
  g_action :: string
  g_kind :: string
  g_resource :: bytes
  g_descendants :: int
  g_actor :: bytes
  g_created :: int
  g_commitment :: bytes

record binding_row =
  b_principal :: bytes
  b_policy :: bytes
  b_actor :: bytes
  b_created :: int
  b_commitment :: bytes

record idempotency_row =
  d_principal :: bytes
  d_key :: bytes
  d_fingerprint :: bytes
  d_kind :: string
  d_response :: "bytes option"
  d_created :: int
  d_expires :: int

record authorization_row =
  z_revision :: int
  z_commitment :: bytes

text \<open>
  The store: the connection's mutex (poisoned when a holder panicked) and the tables.
  \<open>restore_guard\<close> is absent until a restore creates the table, then its number of
  rows; \<open>purge_enabled\<close> is the one row of the mutation guard.
\<close>

record db =
  poisoned :: bool
  installation_state :: "installation_row option"
  key_registry :: "key_row table"
  namespaces :: "namespace_row table"
  secrets :: "secret_row table"
  secret_versions :: "version_row table"
  tombstones :: "tombstone_row table"
  audit_events :: "audit_row list"
  maintenance_jobs :: "job_row table"
  purge_enabled :: int
  principals :: "principal_row table"
  owner_authenticators :: "authenticator_row table"
  sessions :: "session_row table"
  service_identities :: "service_row table"
  application_credentials :: "credential_row table"
  policies :: "policy_row table"
  policy_grants :: "grant_row table"
  policy_bindings :: "binding_row table"
  authorization_state :: authorization_row
  idempotency_records :: "idempotency_row table"
  restore_guard :: "nat option"

section \<open>CHECK clauses\<close>

definition enc_check :: "nat \<Rightarrow> enc_cols \<Rightarrow> bool" where
  "enc_check max_len x = (length (x_nonce x) = 24 \<and>
     16 \<le> length (x_ciphertext x) \<and> length (x_ciphertext x) \<le> max_len \<and>
     length (x_dek_nonce x) = 24 \<and> length (x_wrapped_dek x) = 48 \<and> 0 < x_kek x)"

definition installation_check :: "installation_row \<Rightarrow> bool" where
  "installation_check r = (length (i_vault_id r) = 16 \<and> length (i_installation_id r) = 16 \<and>
     0 \<le> i_recovery_epoch r \<and>
     i_activation_state r \<in> {''initializing'', ''ready'', ''maintenance'', ''failed''} \<and>
     is_none_or (\<lambda>v. 0 < v) (i_active_kek r) \<and> i_semantics r = 1)"

definition key_check :: "key_row \<Rightarrow> bool" where
  "key_check r = (k_kind r \<in> {''kek'', ''blind_index'', ''audit'', ''token_verifier''} \<and>
     0 < k_version r \<and> length (k_object_id r) = 16 \<and> is_none_or (\<lambda>v. 0 < v) (k_wrapping r) \<and>
     length (k_nonce r) = 24 \<and> length (k_wrapped r) = 48 \<and>
     k_state r \<in> {''active'', ''retiring'', ''retired''})"

definition namespace_check :: "namespace_row \<Rightarrow> bool" where
  "namespace_check r = (length (n_id r) = 16 \<and> length (n_name_index r) = 32 \<and>
     0 < n_metadata_version r \<and> enc_check 1048592 (n_meta r) \<and>
     n_lifecycle r \<in> {''active'', ''archived'', ''deleted''} \<and>
     0 < n_revision r \<and> length (n_commitment r) = 32)"

definition secret_check :: "secret_row \<Rightarrow> bool" where
  "secret_check r = (length (s_id r) = 16 \<and> length (s_name_index r) = 32 \<and>
     0 < s_metadata_version r \<and> enc_check 1048592 (s_meta r) \<and>
     s_lifecycle r \<in> {''active'', ''archived'', ''deleted'', ''purged''} \<and>
     0 < s_current r \<and> 0 < s_revision r \<and> length (s_commitment r) = 32)"

definition version_check :: "version_row \<Rightarrow> bool" where
  "version_check r = (0 < v_version r \<and> v_envelope r = 1 \<and> v_suite r = 1 \<and>
     enc_check 16777216 (v_payload r) \<and>
     is_none_or (\<lambda>v. 0 \<le> v) (v_expires r) \<and> is_none_or (\<lambda>v. 0 \<le> v) (v_rotation r) \<and>
     is_none_or (\<lambda>b. length b = 16) (v_created_by r))"

definition tombstone_check :: "tombstone_row \<Rightarrow> bool" where
  "tombstone_check r = (length (t_secret_id r) = 16 \<and> length (t_namespace_id r) = 16 \<and>
     length (t_name_index r) = 32 \<and> 0 < t_last_version r)"

definition audit_check :: "audit_row \<Rightarrow> bool" where
  "audit_check r = (length (a_event_id r) = 16 \<and> length (a_installation_id r) = 16 \<and>
     0 \<le> a_epoch r \<and> length (a_request_id r) = 16 \<and>
     is_none_or (\<lambda>b. length b = 16) (a_actor r) \<and>
     1 \<le> length (a_action r) \<and> length (a_action r) \<le> 64 \<and>
     1 \<le> length (a_target_kind r) \<and> length (a_target_kind r) \<le> 32 \<and>
     is_none_or (\<lambda>b. length b = 16) (a_target r) \<and>
     a_outcome r \<in> {''allowed'', ''denied'', ''failed''} \<and>
     length (a_previous r) = 32 \<and> length (a_commitment r) = 32 \<and>
     a_commitment_version r \<in> {1, 2} \<and>
     is_none_or (\<lambda>k. k \<in> {''session'', ''application''}) (a_credential_kind r) \<and>
     is_none_or (\<lambda>b. length b = 16) (a_credential_id r))"

definition job_check :: "job_row \<Rightarrow> bool" where
  "job_check r = (length (j_id r) = 16 \<and>
     j_kind r \<in> {''kek_rotation'', ''root_rotation'', ''audit_verify''} \<and>
     j_state r \<in> {''pending'', ''running'', ''paused'', ''completed'', ''failed''} \<and>
     is_none_or (\<lambda>s. s \<in> {''auxiliary'', ''namespace_metadata'', ''secret_metadata'',
       ''secret_versions'', ''finalize''}) (j_stage r) \<and> 0 \<le> j_last_row r)"

definition principal_check :: "principal_row \<Rightarrow> bool" where
  "principal_check r = (length (p_id r) = 16 \<and> p_kind r \<in> {''owner'', ''service''} \<and>
     p_state r \<in> {''active'', ''disabled''} \<and> 0 < p_revision r \<and> length (p_commitment r) = 32)"

definition authenticator_check :: "authenticator_row \<Rightarrow> bool" where
  "authenticator_check r = (length (h_id r) = 16 \<and>
     h_kind r \<in> {''password'', ''passkey'', ''recovery''} \<and>
     is_none_or (\<lambda>b. 1 \<le> length b \<and> length b \<le> 1024) (h_lookup r) \<and>
     is_none_or (\<lambda>b. 1 \<le> length b \<and> length b \<le> 65536) (h_data r) \<and>
     is_none_or (\<lambda>s. 32 \<le> length s \<and> length s \<le> 1024) (h_phc r) \<and>
     h_state r \<in> {''active'', ''revoked''} \<and> length (h_commitment r) = 32 \<and>
     ((h_kind r = ''passkey'' \<and> h_lookup r \<noteq> None \<and> h_data r \<noteq> None \<and> h_phc r = None) \<or>
      (h_kind r \<in> {''password'', ''recovery''} \<and> h_lookup r = None \<and> h_data r = None \<and>
       h_phc r \<noteq> None)))"

definition session_check :: "session_row \<Rightarrow> bool" where
  "session_check r = (length (w_id r) = 16 \<and> length (w_lookup r) = 16 \<and>
     length (w_verifier r) = 32 \<and> length (w_csrf r) = 32 \<and>
     w_method r \<in> {''password'', ''passkey'', ''recovery''} \<and> length (w_commitment r) = 32 \<and>
     w_idle_expires r \<le> w_absolute_expires r)"

definition service_check :: "service_row \<Rightarrow> bool" where
  "service_check r = (0 < y_metadata_version r \<and> enc_check 1048592 (y_meta r))"

definition credential_check :: "credential_row \<Rightarrow> bool" where
  "credential_check r = (length (c_id r) = 16 \<and> length (c_lookup r) = 12 \<and>
     length (c_verifier r) = 32 \<and> 0 < c_revision r \<and> length (c_commitment r) = 32 \<and>
     is_none_or (\<lambda>e. c_created r \<le> e) (c_expires r))"

definition policy_check :: "policy_row \<Rightarrow> bool" where
  "policy_check r = (length (l_id r) = 16 \<and> 0 < l_revision r \<and>
     l_state r \<in> {''active'', ''archived''} \<and> 0 < l_metadata_version r \<and>
     enc_check 1048592 (l_meta r) \<and> length (l_commitment r) = 32)"

definition grant_check :: "grant_row \<Rightarrow> bool" where
  "grant_check r = (length (g_id r) = 16 \<and>
     1 \<le> length (g_action r) \<and> length (g_action r) \<le> 64 \<and>
     g_kind r \<in> {''namespace'', ''secret''} \<and> length (g_resource r) = 16 \<and>
     g_descendants r \<in> {0, 1} \<and> length (g_commitment r) = 32 \<and>
     (g_descendants r = 0 \<or> g_kind r = ''namespace''))"

definition binding_check :: "binding_row \<Rightarrow> bool" where
  "binding_check r = (length (b_commitment r) = 32)"

definition authorization_check :: "authorization_row \<Rightarrow> bool" where
  "authorization_check r = (0 < z_revision r \<and> length (z_commitment r) = 32)"

definition idempotency_check :: "idempotency_row \<Rightarrow> bool" where
  "idempotency_check r = (length (d_key r) = 32 \<and> length (d_fingerprint r) = 32 \<and>
     1 \<le> length (d_kind r) \<and> length (d_kind r) \<le> 32 \<and>
     is_none_or (\<lambda>b. length b = 16) (d_response r) \<and> d_created r < d_expires r)"

section \<open>Keys and unique indexes\<close>

definition keys_unique :: "key_row table \<Rightarrow> bool" where
  "keys_unique t = (unique_key (\<lambda>r. (k_kind r, k_version r)) t \<and>
     unique_where (\<lambda>r. k_state r = ''active'') k_kind t)"

text \<open>SQL treats NULL parents as distinct in the two-column index; the roots have their own.\<close>

definition namespaces_unique :: "namespace_row table \<Rightarrow> bool" where
  "namespaces_unique t = (unique_key n_id t \<and>
     unique_where (\<lambda>r. n_parent r \<noteq> None) (\<lambda>r. (n_parent r, n_name_index r)) t \<and>
     unique_where (\<lambda>r. n_parent r = None) n_name_index t)"

definition secrets_unique :: "secret_row table \<Rightarrow> bool" where
  "secrets_unique t = (unique_key s_id t \<and> unique_key (\<lambda>r. (s_namespace_id r, s_name_index r)) t)"

definition versions_unique :: "version_row table \<Rightarrow> bool" where
  "versions_unique t = unique_key (\<lambda>r. (v_secret_id r, v_version r)) t"

definition principals_unique :: "principal_row table \<Rightarrow> bool" where
  "principals_unique t = (unique_key p_id t \<and> unique_where (\<lambda>r. p_kind r = ''owner'') p_kind t)"

definition authenticators_unique :: "authenticator_row table \<Rightarrow> bool" where
  "authenticators_unique t = (unique_key h_id t \<and> unique_where (\<lambda>r. h_lookup r \<noteq> None) h_lookup t)"

definition sessions_unique :: "session_row table \<Rightarrow> bool" where
  "sessions_unique t = (unique_key w_id t \<and> unique_key w_lookup t)"

definition credentials_unique :: "credential_row table \<Rightarrow> bool" where
  "credentials_unique t = (unique_key c_id t \<and> unique_key c_lookup t)"

definition grants_unique :: "grant_row table \<Rightarrow> bool" where
  "grants_unique t = (unique_key g_id t \<and>
     unique_key (\<lambda>r. (g_policy r, g_action r, g_kind r, g_resource r, g_descendants r)) t)"

definition bindings_unique :: "binding_row table \<Rightarrow> bool" where
  "bindings_unique t = unique_key (\<lambda>r. (b_principal r, b_policy r)) t"

definition idempotency_unique :: "idempotency_row table \<Rightarrow> bool" where
  "idempotency_unique t = unique_key (\<lambda>r. (d_principal r, d_key r)) t"

section \<open>Statements and transactions\<close>

definition sql_insert :: "('r \<Rightarrow> bool) \<Rightarrow> ('r table \<Rightarrow> bool) \<Rightarrow> 'r \<Rightarrow> 'r table \<Rightarrow>
    storage_error + 'r table" where
  "sql_insert check uniq r t =
     (let t' = tbl_insert r t in if check r \<and> uniq t' then Inr t' else Inl Sqlite)"

text \<open>\<open>INSERT OR IGNORE\<close> skips the row on a \<open>CHECK\<close> or uniqueness violation and reports the
  number of rows inserted; foreign keys are checked after it.\<close>

definition sql_insert_or_ignore :: "('r \<Rightarrow> bool) \<Rightarrow> ('r table \<Rightarrow> bool) \<Rightarrow> 'r \<Rightarrow> 'r table \<Rightarrow>
    nat \<times> 'r table" where
  "sql_insert_or_ignore check uniq r t =
     (let t' = tbl_insert r t in if check r \<and> uniq t' then (1, t') else (0, t))"

text \<open>\<open>UPDATE\<close>: \<open>forbid\<close> is the \<open>WHEN\<close> clause of an aborting trigger on the old and new row.\<close>

definition sql_update_at :: "('r \<Rightarrow> bool) \<Rightarrow> ('r table \<Rightarrow> bool) \<Rightarrow> ('r \<Rightarrow> 'r \<Rightarrow> bool) \<Rightarrow>
    (int \<Rightarrow> 'r \<Rightarrow> bool) \<Rightarrow> ('r \<Rightarrow> 'r) \<Rightarrow> 'r table \<Rightarrow> storage_error + (nat \<times> 'r table)" where
  "sql_update_at check uniq forbid p f t =
     (let t' = tbl_update_at p f t
      in if list_ex (\<lambda>(i, r). p i r \<and> (forbid r (f r) \<or> \<not> check (f r))) t \<or> \<not> uniq t'
         then Inl Sqlite else Inr (length (filter (\<lambda>(i, r). p i r) t), t'))"

definition sql_update :: "('r \<Rightarrow> bool) \<Rightarrow> ('r table \<Rightarrow> bool) \<Rightarrow> ('r \<Rightarrow> 'r \<Rightarrow> bool) \<Rightarrow>
    ('r \<Rightarrow> bool) \<Rightarrow> ('r \<Rightarrow> 'r) \<Rightarrow> 'r table \<Rightarrow> storage_error + (nat \<times> 'r table)" where
  "sql_update check uniq forbid p f t = sql_update_at check uniq forbid (\<lambda>_. p) f t"

definition no_trigger :: "'r \<Rightarrow> 'r \<Rightarrow> bool" where
  "no_trigger old new = False"

text \<open>The trigger \<open>smcv_secrets_monotonic_versions\<close>.\<close>

definition secrets_monotonic_trigger :: "secret_row \<Rightarrow> secret_row \<Rightarrow> bool" where
  "secrets_monotonic_trigger old new =
     (s_current new < s_current old \<or> s_metadata_version new < s_metadata_version old \<or>
      (s_revision new \<le> s_revision old \<and>
       (s_namespace_id new \<noteq> s_namespace_id old \<or> s_name_index new \<noteq> s_name_index old \<or>
        s_metadata_version new \<noteq> s_metadata_version old \<or>
        x_nonce (s_meta new) \<noteq> x_nonce (s_meta old) \<or>
        x_ciphertext (s_meta new) \<noteq> x_ciphertext (s_meta old) \<or>
        s_lifecycle new \<noteq> s_lifecycle old \<or> s_current new \<noteq> s_current old \<or>
        s_updated new \<noteq> s_updated old \<or> s_deleted new \<noteq> s_deleted old)))"

text \<open>The trigger \<open>smcv_secret_versions_protect_update\<close>.\<close>

definition versions_protect_trigger :: "version_row \<Rightarrow> version_row \<Rightarrow> bool" where
  "versions_protect_trigger old new =
     (v_secret_id old \<noteq> v_secret_id new \<or> v_version old \<noteq> v_version new \<or>
      v_envelope old \<noteq> v_envelope new \<or> v_suite old \<noteq> v_suite new \<or>
      x_nonce (v_payload old) \<noteq> x_nonce (v_payload new) \<or>
      x_ciphertext (v_payload old) \<noteq> x_ciphertext (v_payload new) \<or>
      v_expires old \<noteq> v_expires new \<or> v_rotation old \<noteq> v_rotation new \<or>
      v_created_by old \<noteq> v_created_by new \<or> v_created old \<noteq> v_created new)"

text \<open>The deferred foreign key of \<open>smcv_secrets(secret_id, current_version)\<close>, checked at commit.\<close>

definition fk_current_version :: "db \<Rightarrow> bool" where
  "fk_current_version d = (\<forall>s \<in> set (rows (secrets d)).
     tbl_exists (\<lambda>v. v_secret_id v = s_id s \<and> v_version v = s_current s) (secret_versions d))"

definition fk_namespace_parent :: "db \<Rightarrow> bool" where
  "fk_namespace_parent d = (\<forall>n \<in> set (rows (namespaces d)).
     is_none_or (\<lambda>p. tbl_exists (\<lambda>m. n_id m = p) (namespaces d)) (n_parent n))"

definition fk_secret_namespace :: "db \<Rightarrow> bool" where
  "fk_secret_namespace d = (\<forall>s \<in> set (rows (secrets d)).
     tbl_exists (\<lambda>n. n_id n = s_namespace_id s) (namespaces d))"

definition fk_version_secret :: "db \<Rightarrow> bool" where
  "fk_version_secret d = (\<forall>v \<in> set (rows (secret_versions d)).
     tbl_exists (\<lambda>s. s_id s = v_secret_id v) (secrets d))"

definition principal_exists :: "db \<Rightarrow> bytes \<Rightarrow> bool" where
  "principal_exists d b = tbl_exists (\<lambda>p. p_id p = b) (principals d)"

definition policy_exists :: "db \<Rightarrow> bytes \<Rightarrow> bool" where
  "policy_exists d b = tbl_exists (\<lambda>l. l_id l = b) (policies d)"

definition authenticator_exists :: "db \<Rightarrow> bytes \<Rightarrow> bool" where
  "authenticator_exists d b = tbl_exists (\<lambda>h. h_id h = b) (owner_authenticators d)"

definition lock :: "db \<Rightarrow> storage_error + db" where
  "lock d = (if poisoned d then Inl Poisoned else Inr d)"

definition query :: "(db \<Rightarrow> storage_error + 'a) \<Rightarrow> db \<Rightarrow> storage_error + 'a" where
  "query f d = rbind (lock d) f"

text \<open>A transaction takes the connection, runs its body and commits; the deferred foreign key
  is checked by the commit.  Dropping it on an error path rolls it back.\<close>

definition transaction :: "(db \<Rightarrow> storage_error + ('a \<times> db)) \<Rightarrow> db \<Rightarrow> (storage_error + 'a) \<times> db" where
  "transaction body d =
     (case rbind (lock d) body of
        Inl e \<Rightarrow> (Inl e, d)
      | Inr (x, d') \<Rightarrow> if fk_current_version d' then (Inr x, d') else (Inl Sqlite, d))"

text \<open>Argument checks before the connection is taken.\<close>

definition guarded :: "'e + 'x \<Rightarrow> ('x \<Rightarrow> 's \<Rightarrow> ('e + 'a) \<times> 's) \<Rightarrow> 's \<Rightarrow> ('e + 'a) \<times> 's" where
  "guarded m k d = (case m of Inl e \<Rightarrow> (Inl e, d) | Inr x \<Rightarrow> k x d)"

lemma transaction_Inr:
  "transaction body d = (Inr x, d') \<longleftrightarrow>
   \<not> poisoned d \<and> body d = Inr (x, d') \<and> fk_current_version d'"
  by (auto simp: transaction_def lock_def split: sum.splits if_splits)

lemma transaction_Inl: "transaction body d = (Inl e, d') \<Longrightarrow> d' = d"
  by (auto simp: transaction_def lock_def split: sum.splits if_splits)

lemma guarded_Inr:
  "guarded m k d = (Inr x, d') \<longleftrightarrow> (\<exists>y. m = Inr y \<and> k y d = (Inr x, d'))"
  by (auto simp: guarded_def split: sum.splits)

lemma guarded_Inl: "guarded m k d = (Inl e, d') \<longleftrightarrow> m = Inl e \<and> d' = d \<or> (\<exists>y. m = Inr y \<and> k y d = (Inl e, d'))"
  by (auto simp: guarded_def split: sum.splits)

lemma guarded_simps [simp]:
  "guarded (Inl e) k d = (Inl e, d)"
  "guarded (Inr y) k d = k y d"
  by (simp_all add: guarded_def)

lemmas tx_simps = transaction_Inr guarded_Inr

lemma query_Inr [result_simps]: "query f d = Inr x \<longleftrightarrow> \<not> poisoned d \<and> f d = Inr x"
  by (auto simp: query_def lock_def)

lemma sql_insert_Inr [result_simps]:
  "sql_insert check uniq r t = Inr t' \<longleftrightarrow> t' = tbl_insert r t \<and> check r \<and> uniq t'"
  by (auto simp: sql_insert_def Let_def)

lemma sql_insert_Inl: "sql_insert check uniq r t = Inl e \<Longrightarrow> e = Sqlite"
  by (auto simp: sql_insert_def Let_def split: if_splits)

lemma length_filter_at: "length (filter (\<lambda>(i, r). p r) t) = tbl_count p t"
  by (induction t) (auto simp: tbl_count_def tbl_select_def rows_def)

lemma sql_update_at_Inr [result_simps]:
  "sql_update_at check uniq forbid p f t = Inr (n, t') \<longleftrightarrow>
   t' = tbl_update_at p f t \<and> n = length (filter (\<lambda>(i, r). p i r) t) \<and> uniq t' \<and>
   (\<forall>(i, r) \<in> set t. p i r \<longrightarrow> \<not> forbid r (f r) \<and> check (f r))"
  by (auto simp: sql_update_at_def Let_def list_ex_iff)

lemma ball_rows: "(\<forall>(i, r) \<in> set t. P r) \<longleftrightarrow> (\<forall>r \<in> set (rows t). P r)"
  by (auto simp: rows_def)

lemma sql_update_Inr [result_simps]:
  "sql_update check uniq forbid p f t = Inr (n, t') \<longleftrightarrow>
   t' = tbl_update p f t \<and> n = tbl_count p t \<and> uniq t' \<and>
   (\<forall>r \<in> set (rows t). p r \<longrightarrow> \<not> forbid r (f r) \<and> check (f r))"
  by (simp only: sql_update_def sql_update_at_Inr tbl_update_def length_filter_at ball_rows)

lemma no_trigger [simp]: "\<not> no_trigger old new"
  by (simp add: no_trigger_def)

end
