(* ===== verification/Storage_Audit.thy ===== *)
theory Storage_Audit
  imports Storage_Schema
begin

text \<open>
  The append-only audit chain of \<open>src/crates/smcv-storage/src/records.rs\<close>: the head
  of the chain, the precondition every mutation checks against it, the insertion of
  an event and the paged read used for verification.  The locale
  \<open>audited_operation\<close> is the contract that every audited repository operation
  keeps; what the contract gives its clients (an unbroken chain, an append-only log,
  no replay of an event) is proved once inside it and holds of each operation by
  interpretation.
\<close>

section \<open>Data\<close>

record audit_head_record =
  head_sequence :: nat
  head_commitment :: bytes

text \<open>\<open>AuditRecord\<close> and \<open>StoredAuditRecord\<close> have the same fields; the second only owns its
  strings.\<close>

record audit_record =
  ar_commitment_version :: nat
  ar_sequence :: nat
  ar_event_id :: uuid
  ar_installation_id :: uuid
  ar_recovery_epoch :: nat
  ar_occurred_at :: unix_ms
  ar_request_id :: uuid
  ar_actor :: "uuid option"
  ar_credential_kind :: "string option"
  ar_credential_id :: "uuid option"
  ar_action :: string
  ar_target_kind :: string
  ar_target_id :: "uuid option"
  ar_outcome :: string
  ar_previous_commitment :: bytes
  ar_commitment :: bytes

section \<open>Operations\<close>

definition parse_uuid :: "bytes \<Rightarrow> storage_error + uuid" where
  "parse_uuid b = try_into_array 16 InvalidData b"

definition sql_i64 :: "nat \<Rightarrow> storage_error + int" where
  "sql_i64 v = ok_or Conflict (i64_of_u64 v)"

definition zero_commitment :: bytes where
  "zero_commitment = replicate 32 0"

text \<open>\<open>ORDER BY sequence DESC LIMIT 1\<close>.\<close>

definition last_event :: "audit_row list \<Rightarrow> audit_row option" where
  "last_event es = (case rev (sort_key a_sequence es) of [] \<Rightarrow> None | r # _ \<Rightarrow> Some r)"

definition audit_head_on :: "db \<Rightarrow> storage_error + audit_head_record" where
  "audit_head_on d =
     (case last_event (audit_events d) of
        None \<Rightarrow> Inr \<lparr>head_sequence = 0, head_commitment = zero_commitment\<rparr>
      | Some r \<Rightarrow>
          rbind (ok_or InvalidData (u64_of_i64 (a_sequence r))) (\<lambda>s.
          rbind (try_into_array 32 InvalidData (a_commitment r)) (\<lambda>c.
          Inr \<lparr>head_sequence = s, head_commitment = c\<rparr>)))"

definition require_audit_head :: "audit_record \<Rightarrow> db \<Rightarrow> storage_error + unit" where
  "require_audit_head audit d =
     rbind (audit_head_on d) (\<lambda>h.
     ensure (ar_sequence audit = head_sequence h + 1 \<and>
             ar_previous_commitment audit = head_commitment h) Conflict)"

definition audit_row_of :: "audit_record \<Rightarrow> audit_row" where
  "audit_row_of a =
     \<lparr>a_sequence = int (ar_sequence a), a_event_id = ar_event_id a,
      a_installation_id = ar_installation_id a, a_epoch = int (ar_recovery_epoch a),
      a_occurred = ar_occurred_at a, a_request_id = ar_request_id a, a_actor = ar_actor a,
      a_action = ar_action a, a_target_kind = ar_target_kind a, a_target = ar_target_id a,
      a_outcome = ar_outcome a, a_previous = ar_previous_commitment a,
      a_commitment = ar_commitment a, a_commitment_version = int (ar_commitment_version a),
      a_credential_kind = ar_credential_kind a, a_credential_id = ar_credential_id a\<rparr>"

definition insert_audit :: "audit_record \<Rightarrow> db \<Rightarrow> storage_error + db" where
  "insert_audit audit d =
     rbind (sql_i64 (ar_sequence audit)) (\<lambda>_.
     rbind (sql_i64 (ar_recovery_epoch audit)) (\<lambda>_.
     (let r = audit_row_of audit
      in if audit_check r \<and>
            \<not> list_ex (\<lambda>e. a_sequence e = a_sequence r \<or> a_event_id e = a_event_id r) (audit_events d)
         then Inr (d\<lparr>audit_events := audit_events d @ [r]\<rparr>) else Inl Sqlite)))"

text \<open>The frame of the audited operations: inside one transaction the head is checked, the
  statements of the operation run, and the event is inserted before the commit.\<close>

definition audited :: "audit_record \<Rightarrow> (db \<Rightarrow> storage_error + ('a \<times> db)) \<Rightarrow> db \<Rightarrow>
    (storage_error + 'a) \<times> db" where
  "audited audit body =
     transaction (\<lambda>d.
       rbind (require_audit_head audit d) (\<lambda>_.
       rbind (body d) (\<lambda>(x, d1).
       rbind (insert_audit audit d1) (\<lambda>d2. Inr (x, d2)))))"

definition audit_head :: "db \<Rightarrow> storage_error + audit_head_record" where
  "audit_head d = query audit_head_on d"

definition append_audit :: "audit_record \<Rightarrow> db \<Rightarrow> (storage_error + unit) \<times> db" where
  "append_audit audit = audited audit (\<lambda>d. Inr ((), d))"

definition parse_audit :: "audit_row \<Rightarrow> storage_error + audit_record" where
  "parse_audit r =
     rbind (ok_or InvalidData (u8_of_i64 (a_commitment_version r))) (\<lambda>cv.
     rbind (ok_or InvalidData (u64_of_i64 (a_sequence r))) (\<lambda>sq.
     rbind (parse_uuid (a_event_id r)) (\<lambda>ev.
     rbind (parse_uuid (a_installation_id r)) (\<lambda>ins.
     rbind (ok_or InvalidData (u64_of_i64 (a_epoch r))) (\<lambda>ep.
     rbind (parse_uuid (a_request_id r)) (\<lambda>rq.
     rbind (transpose_map parse_uuid (a_actor r)) (\<lambda>ac.
     rbind (transpose_map parse_uuid (a_credential_id r)) (\<lambda>ci.
     rbind (transpose_map parse_uuid (a_target r)) (\<lambda>tg.
     rbind (try_into_array 32 InvalidData (a_previous r)) (\<lambda>pv.
     rbind (try_into_array 32 InvalidData (a_commitment r)) (\<lambda>cm.
     Inr \<lparr>ar_commitment_version = cv, ar_sequence = sq, ar_event_id = ev,
          ar_installation_id = ins, ar_recovery_epoch = ep, ar_occurred_at = a_occurred r,
          ar_request_id = rq, ar_actor = ac, ar_credential_kind = a_credential_kind r,
          ar_credential_id = ci, ar_action = a_action r, ar_target_kind = a_target_kind r,
          ar_target_id = tg, ar_outcome = a_outcome r, ar_previous_commitment = pv,
          ar_commitment = cm\<rparr>)))))))))))"

definition audit_records_after :: "nat \<Rightarrow> nat \<Rightarrow> db \<Rightarrow> storage_error + audit_record list" where
  "audit_records_after after_sequence limit d =
     rbind (ensure (limit \<noteq> 0 \<and> limit \<le> 1000) Conflict) (\<lambda>_.
     rbind (sql_i64 after_sequence) (\<lambda>after.
     query (\<lambda>d. traverse parse_audit
       (take limit (sort_key a_sequence (filter (\<lambda>r. after < a_sequence r) (audit_events d))))) d))"

section \<open>The chain\<close>

text \<open>\<open>audit_chain n c es\<close>: the events carry the sequences after \<open>n\<close> without a gap and each
  names the commitment of its predecessor, the first one \<open>c\<close>.\<close>

fun audit_chain :: "nat \<Rightarrow> bytes \<Rightarrow> audit_row list \<Rightarrow> bool" where
  "audit_chain n c [] = True"
| "audit_chain n c (r # rs) =
     (a_sequence r = int n + 1 \<and> int n + 1 \<le> i64_max \<and> a_previous r = c \<and> audit_check r \<and>
      audit_chain (n + 1) (a_commitment r) rs)"

definition chain_ok :: "db \<Rightarrow> bool" where
  "chain_ok d = audit_chain 0 zero_commitment (audit_events d)"

definition chain_tip :: "bytes \<Rightarrow> audit_row list \<Rightarrow> bytes" where
  "chain_tip c es = (if es = [] then c else a_commitment (last es))"

text \<open>What a successful audited operation did to the log.\<close>

definition audit_appended :: "audit_record \<Rightarrow> db \<Rightarrow> db \<Rightarrow> bool" where
  "audit_appended a d d' =
     (require_audit_head a d = Inr () \<and> int (ar_sequence a) \<le> i64_max \<and>
      audit_check (audit_row_of a) \<and> audit_events d' = audit_events d @ [audit_row_of a])"

lemma audit_chain_append:
  "audit_chain n c (es @ [r]) \<longleftrightarrow>
   audit_chain n c es \<and> a_sequence r = int (n + length es) + 1 \<and>
   int (n + length es) + 1 \<le> i64_max \<and> a_previous r = chain_tip c es \<and> audit_check r"
  by (induction es arbitrary: n c) (auto simp: chain_tip_def)

lemma audit_chain_nth:
  "audit_chain n c es \<Longrightarrow> i < length es \<Longrightarrow> a_sequence (es ! i) = int (n + i) + 1"
proof (induction es arbitrary: n c i)
  case Nil
  then show ?case by simp
next
  case (Cons e es)
  then show ?case by (cases i) (auto simp: algebra_simps)
qed

lemma audit_chain_sorted: "audit_chain n c es \<Longrightarrow> sorted (map a_sequence es)"
  by (auto simp: sorted_iff_nth_mono audit_chain_nth)

lemma audit_chain_sort [simp]: "audit_chain n c es \<Longrightarrow> sort_key a_sequence es = es"
  using audit_chain_sorted by (simp add: sort_key_id_if_sorted)

lemma audit_chain_last_event:
  "audit_chain n c es \<Longrightarrow> last_event es = (if es = [] then None else Some (last es))"
  by (auto simp: last_event_def split: list.splits)

lemma chain_tip_length: "audit_chain n c es \<Longrightarrow> length c = 32 \<Longrightarrow> length (chain_tip c es) = 32"
  by (induction es arbitrary: n c) (auto simp: chain_tip_def audit_check_def)

lemma chain_head:
  assumes "chain_ok d"
  shows "audit_head_on d = Inr \<lparr>head_sequence = length (audit_events d),
           head_commitment = chain_tip zero_commitment (audit_events d)\<rparr>"
proof (cases "audit_events d = []")
  case True
  then show ?thesis by (simp add: audit_head_on_def last_event_def chain_tip_def)
next
  case False
  let ?es = "audit_events d" and ?n = "length (audit_events d)"
  have chain: "audit_chain 0 zero_commitment ?es" using assms by (simp add: chain_ok_def)
  then have le: "last_event ?es = Some (last ?es)" using False audit_chain_last_event by simp
  obtain es r where es: "?es = es @ [r]" using False by (metis append_butlast_last_id)
  have s: "a_sequence (last ?es) = int ?n" "int ?n \<le> i64_max" "length (a_commitment (last ?es)) = 32"
    using chain by (auto simp: es audit_chain_append audit_check_def algebra_simps)
  then show ?thesis using False le s by (simp add: audit_head_on_def chain_tip_def)
qed

lemma require_audit_head_chain:
  "chain_ok d \<Longrightarrow> require_audit_head a d = Inr () \<longleftrightarrow>
     ar_sequence a = length (audit_events d) + 1 \<and>
     ar_previous_commitment a = chain_tip zero_commitment (audit_events d)"
  by (simp add: require_audit_head_def chain_head result_simps)

lemma audit_appended_chain:
  assumes "chain_ok d" "audit_appended a d d'"
  shows "chain_ok d'"
  using assms require_audit_head_chain [OF assms(1), of a]
  by (auto simp: chain_ok_def audit_appended_def audit_chain_append audit_row_of_def)

lemma sql_i64_Inr [result_simps]: "sql_i64 n = Inr i \<longleftrightarrow> i = int n \<and> int n \<le> i64_max"
  by (auto simp: sql_i64_def result_simps)

lemma sql_i64_int [simp]: "int n \<le> i64_max \<Longrightarrow> sql_i64 n = Inr (int n)"
  by (simp add: sql_i64_def)

lemma parse_uuid_Inr [result_simps]: "parse_uuid b = Inr c \<longleftrightarrow> c = b \<and> length b = 16"
  by (simp add: parse_uuid_def result_simps)

lemma insert_audit_Inr:
  "insert_audit a d = Inr d' \<Longrightarrow>
   d' = d\<lparr>audit_events := audit_events d @ [audit_row_of a]\<rparr> \<and> audit_check (audit_row_of a) \<and>
   int (ar_sequence a) \<le> i64_max"
  by (auto simp: insert_audit_def result_simps Let_def split: if_splits)

text \<open>The rule every proof about an audited operation starts from.\<close>

lemma audited_Inr:
  assumes "audited a body d = (Inr x, d')"
  obtains d1 where "\<not> poisoned d" "require_audit_head a d = Inr ()" "body d = Inr (x, d1)"
    "d' = d1\<lparr>audit_events := audit_events d1 @ [audit_row_of a]\<rparr>"
    "audit_check (audit_row_of a)" "int (ar_sequence a) \<le> i64_max" "fk_current_version d'"
  using assms unfolding audited_def transaction_Inr
  by (fastforce simp: result_simps dest: insert_audit_Inr)

lemma audited_Inl: "audited a body d = (Inl e, d') \<Longrightarrow> d' = d"
  unfolding audited_def by (rule transaction_Inl)

lemma audited_contract:
  assumes "audited a body d = (Inr x, d')"
    and "\<And>d d1 x. body d = Inr (x, d1) \<Longrightarrow> audit_events d1 = audit_events d"
  shows "audit_appended a d d'"
  using assms(1) by (rule audited_Inr) (auto simp: audit_appended_def dest: assms(2))

section \<open>The contract of an audited operation\<close>

locale audited_operation =
  fixes op :: "'i \<Rightarrow> audit_record \<Rightarrow> db \<Rightarrow> (storage_error + 'o) \<times> db"
  assumes failure_unchanged: "op i a d = (Inl e, d') \<Longrightarrow> d' = d"
    and success_appended: "op i a d = (Inr x, d') \<Longrightarrow> audit_appended a d d'"
begin

lemma keeps_chain: "chain_ok d \<Longrightarrow> op i a d = (r, d') \<Longrightarrow> chain_ok d'"
  using failure_unchanged success_appended audit_appended_chain by (cases r) blast+

lemma append_only: "op i a d = (r, d') \<Longrightarrow> \<exists>es. audit_events d' = audit_events d @ es"
proof (cases r)
  case (Inl e)
  then show "op i a d = (r, d') \<Longrightarrow> ?thesis" using failure_unchanged by fastforce
next
  case (Inr x)
  then show "op i a d = (r, d') \<Longrightarrow> ?thesis"
    using success_appended unfolding audit_appended_def by blast
qed

lemma records_exactly_one:
  "op i a d = (r, d') \<Longrightarrow>
   length (audit_events d') = length (audit_events d) + (if isl r then 0 else 1)"
  using failure_unchanged success_appended by (cases r) (fastforce simp: audit_appended_def)+

text \<open>An event is bound to the head it was computed from: neither a retry of it nor another
  event computed from the same head can succeed afterwards.\<close>

lemma success_moves_head:
  assumes "chain_ok d" "op i a d = (Inr x, d')"
  shows "require_audit_head b d' = Inr () \<longleftrightarrow>
     ar_sequence b = ar_sequence a + 1 \<and> ar_previous_commitment b = ar_commitment a"
proof -
  have app: "audit_appended a d d'" using assms(2) by (rule success_appended)
  have "chain_ok d'" using assms(1) app by (rule audit_appended_chain)
  moreover have "ar_sequence a = length (audit_events d) + 1"
    using app require_audit_head_chain [OF assms(1)] by (simp add: audit_appended_def)
  ultimately show ?thesis
    using app by (simp add: require_audit_head_chain chain_tip_def audit_appended_def audit_row_of_def)
qed

lemma stale_head_refused:
  assumes "chain_ok d" "ar_sequence b \<le> length (audit_events d)"
  shows "\<exists>e. op i b d = (Inl e, d)"
proof (cases "op i b d")
  case (Pair r d')
  show ?thesis
  proof (cases r)
    case (Inl e)
    then show ?thesis using Pair failure_unchanged by blast
  next
    case (Inr x)
    then have "require_audit_head b d = Inr ()"
      using Pair success_appended by (simp add: audit_appended_def)
    then show ?thesis using assms(2) require_audit_head_chain [OF assms(1)] by simp
  qed
qed

lemma same_head_refused:
  assumes "chain_ok d" "op i a d = (Inr x, d')" "ar_sequence b \<le> ar_sequence a"
  shows "op j b d' \<noteq> (Inr y, d'')"
proof
  assume "op j b d' = (Inr y, d'')"
  then have "require_audit_head b d' = Inr ()"
    using success_appended by (simp add: audit_appended_def)
  then show False using success_moves_head [OF assms(1,2)] assms(3) by simp
qed

end

lemma append_audit_Inr:
  assumes "append_audit a d = (Inr x, d')"
  shows "\<not> poisoned d \<and> d' = d\<lparr>audit_events := audit_events d @ [audit_row_of a]\<rparr> \<and>
     audit_appended a d d'"
  using assms unfolding append_audit_def
  by (rule audited_Inr) (auto simp: audit_appended_def)

interpretation append: audited_operation "\<lambda>(_::unit). append_audit"
proof unfold_locales
  show "append_audit a d = (Inl e, d') \<Longrightarrow> d' = d" for a d e d'
    unfolding append_audit_def by (rule audited_Inl)
  show "append_audit a d = (Inr x, d') \<Longrightarrow> audit_appended a d d'" for a d x d'
    using append_audit_Inr by blast
qed

section \<open>Reading the chain back\<close>

text \<open>A record that the schema accepts and whose numbers fit the columns.\<close>

definition audit_record_ok :: "audit_record \<Rightarrow> bool" where
  "audit_record_ok a =
     (audit_check (audit_row_of a) \<and> int (ar_sequence a) \<le> i64_max \<and>
      int (ar_recovery_epoch a) \<le> i64_max)"

lemma transpose_parse_uuid:
  "is_none_or (\<lambda>b. length b = 16) m \<Longrightarrow> transpose_map parse_uuid m = Inr m"
  by (cases m) (auto simp: is_none_or_def parse_uuid_def)

lemma parse_audit_row_of: "audit_record_ok a \<Longrightarrow> parse_audit (audit_row_of a) = Inr a"
  by (auto simp: audit_record_ok_def audit_check_def audit_row_of_def parse_audit_def
      transpose_parse_uuid parse_uuid_def u8_of_i64_def)

lemma audit_chain_filter:
  assumes "audit_chain n c es"
  shows "filter (\<lambda>r. int (n + k) < a_sequence r) es = drop k es"
  using assms
proof (induction es arbitrary: n c k)
  case Nil
  then show ?case by simp
next
  case (Cons e es)
  show ?case
  proof (cases k)
    case 0
    have "\<forall>r \<in> set (e # es). int n < a_sequence r"
      using Cons.prems audit_chain_nth by (fastforce simp: set_conv_nth)
    then show ?thesis using 0 by (simp add: filter_id_conv)
  next
    case (Suc j)
    then show ?thesis using Cons.IH [of "n + 1" "a_commitment e" j] Cons.prems by simp
  qed
qed

lemma audit_chain_drop:
  "audit_chain n c es \<Longrightarrow> audit_chain (n + k) (chain_tip c (take k es)) (drop k es)"
proof (induction k arbitrary: n c es)
  case 0
  then show ?case by (simp add: chain_tip_def)
next
  case (Suc k)
  show ?case
  proof (cases es)
    case Nil
    then show ?thesis by simp
  next
    case (Cons e rest)
    then show ?thesis using Suc.IH [of "n + 1" "a_commitment e" rest] Suc.prems
      by (auto simp: chain_tip_def)
  qed
qed

text \<open>On an unbroken chain a page is the slice after the cursor.\<close>

lemma audit_page:
  assumes "chain_ok d" "\<not> poisoned d" "0 < limit" "limit \<le> 1000" "int k \<le> i64_max"
  shows "audit_records_after k limit d = traverse parse_audit (take limit (drop k (audit_events d)))"
proof -
  have chain: "audit_chain 0 zero_commitment (audit_events d)" using assms(1) by (simp add: chain_ok_def)
  have "filter (\<lambda>r. int k < a_sequence r) (audit_events d) = drop k (audit_events d)"
    using audit_chain_filter [OF chain, of k] by simp
  moreover have "sort_key a_sequence (drop k (audit_events d)) = drop k (audit_events d)"
    using audit_chain_drop [OF chain, of k] by simp
  ultimately show ?thesis
    using assms(2-5) by (simp add: audit_records_after_def query_def lock_def)
qed

end
