(* ===== verification/Crypto_Adapter.thy ===== *)
theory Crypto_Adapter
  imports Storage_Audit
begin

text \<open>
  The adapter \<open>src/crates/smcv-crypto/src/lib.rs\<close>.  The primitives themselves (HMAC-SHA-256,
  SHA-256, XChaCha20-Poly1305, base64, Unicode normalization) are code of other packages: they
  are the fields of \<open>crypto_lib\<close>, and what the sources rely on is named by the predicates
  \<open>aead_correct\<close>, \<open>mac_correct\<close> and \<open>base64_correct\<close>.  Random bytes are arguments, absent when
  the operating system gives none.  The lemmas are about the adapter's own work: the
  canonical encodings are injective, so two records or events with one authenticated
  encoding are equal, and sealed records and issued credentials are accepted again.
\<close>

section \<open>Primitives\<close>

record crypto_lib =
  hmac_sha256 :: "bytes \<Rightarrow> bytes \<Rightarrow> bytes"
  sha256 :: "bytes \<Rightarrow> bytes"
  aead_encrypt :: "bytes \<Rightarrow> bytes \<Rightarrow> bytes \<Rightarrow> bytes \<Rightarrow> bytes option"
  aead_decrypt :: "bytes \<Rightarrow> bytes \<Rightarrow> bytes \<Rightarrow> bytes \<Rightarrow> bytes option"
  b64_encode :: "bytes \<Rightarrow> string"
  b64_decode :: "string \<Rightarrow> bytes option"
  nfc :: "bytes \<Rightarrow> bytes"

text \<open>Decryption inverts encryption under the same key, nonce and associated data; the tag is
  sixteen bytes.\<close>

definition aead_correct :: "crypto_lib \<Rightarrow> bool" where
  "aead_correct c = (\<forall>k n a m ct. aead_encrypt c k n a m = Some ct \<longrightarrow>
     aead_decrypt c k n a ct = Some m \<and> length ct = length m + 16)"

definition mac_correct :: "crypto_lib \<Rightarrow> bool" where
  "mac_correct c = (\<forall>k m. length (hmac_sha256 c k m) = 32)"

text \<open>URL-safe base64 without padding: it round trips, its length is known and its alphabet
  has no full stop.\<close>

definition base64_correct :: "crypto_lib \<Rightarrow> bool" where
  "base64_correct c = (\<forall>b. b64_decode c (b64_encode c b) = Some b \<and>
     length (b64_encode c b) = (4 * length b + 2) div 3 \<and> CHR ''.'' \<notin> set (b64_encode c b))"

datatype crypto_error = Randomness | Integrity | InvalidCredential | KeyProvider | InvalidProtectedInput

section \<open>Context-bound records\<close>

datatype object_kind =
    SecretVersion | SecretMetadata | WrappedDataKey | VerifierKey | WrappedMetadataKey
  | WrappedKeyEncryptionKey | BlindIndexKey | AuditKey | NamespaceMetadata
  | WrappedNamespaceMetadataKey | ServiceIdentityMetadata | WrappedServiceIdentityMetadataKey
  | PolicyMetadata | WrappedPolicyMetadataKey

fun object_kind_code :: "object_kind \<Rightarrow> byte" where
  "object_kind_code SecretVersion = 1"
| "object_kind_code SecretMetadata = 2"
| "object_kind_code WrappedDataKey = 3"
| "object_kind_code VerifierKey = 4"
| "object_kind_code WrappedMetadataKey = 5"
| "object_kind_code WrappedKeyEncryptionKey = 6"
| "object_kind_code BlindIndexKey = 7"
| "object_kind_code AuditKey = 8"
| "object_kind_code NamespaceMetadata = 9"
| "object_kind_code WrappedNamespaceMetadataKey = 10"
| "object_kind_code ServiceIdentityMetadata = 11"
| "object_kind_code WrappedServiceIdentityMetadataKey = 12"
| "object_kind_code PolicyMetadata = 13"
| "object_kind_code WrappedPolicyMetadataKey = 14"

record record_context =
  rc_vault_id :: uuid
  rc_installation_id :: uuid
  rc_object_kind :: object_kind
  rc_object_id :: uuid
  rc_object_version :: nat

definition encode_aad :: "record_context \<Rightarrow> bytes" where
  "encode_aad c = ascii ''SMCV-AAD'' @ be_bytes 2 1 @ rc_vault_id c @ rc_installation_id c @
     [object_kind_code (rc_object_kind c)] @ rc_object_id c @ be_bytes 8 (rc_object_version c)"

record sealed_record =
  sl_nonce :: bytes
  sl_ciphertext :: bytes

definition key_from_protected :: "bytes \<Rightarrow> crypto_error + bytes" where
  "key_from_protected b = try_into_array 32 Integrity b"

definition seal_with_nonce :: "crypto_lib \<Rightarrow> bytes \<Rightarrow> record_context \<Rightarrow> bytes \<Rightarrow> bytes \<Rightarrow>
    crypto_error + sealed_record" where
  "seal_with_nonce c key context plaintext nonce =
     rbind (ok_or Integrity (aead_encrypt c key nonce (encode_aad context) plaintext)) (\<lambda>ct.
     Inr \<lparr>sl_nonce = nonce, sl_ciphertext = ct\<rparr>)"

definition seal :: "crypto_lib \<Rightarrow> bytes option \<Rightarrow> bytes \<Rightarrow> record_context \<Rightarrow> bytes \<Rightarrow>
    crypto_error + sealed_record" where
  "seal c rnd key context plaintext =
     rbind (ok_or Randomness rnd) (\<lambda>nonce. seal_with_nonce c key context plaintext nonce)"

definition open_record :: "crypto_lib \<Rightarrow> bytes \<Rightarrow> record_context \<Rightarrow> sealed_record \<Rightarrow>
    crypto_error + bytes" where
  "open_record c key context r =
     ok_or Integrity (aead_decrypt c key (sl_nonce r) (encode_aad context) (sl_ciphertext r))"

section \<open>Commitments\<close>

definition state_commitment :: "crypto_lib \<Rightarrow> bytes \<Rightarrow> bytes \<Rightarrow> crypto_error + bytes" where
  "state_commitment c key canonical =
     rbind (ensure (canonical \<noteq> [] \<and> length canonical \<le> 4096) InvalidProtectedInput) (\<lambda>_.
     Inr (hmac_sha256 c key (ascii ''SMCV-STATE-COMMITMENT'' @ [0] @ ascii ''v1'' @ [0] @
       be_bytes 2 (length canonical) @ canonical)))"

record audit_commitment_input =
  ai_commitment_version :: nat
  ai_previous :: bytes
  ai_sequence :: nat
  ai_event_id :: uuid
  ai_installation_id :: uuid
  ai_recovery_epoch :: nat
  ai_occurred_at :: unix_ms
  ai_request_id :: uuid
  ai_actor :: "uuid option"
  ai_credential_kind :: "string option"
  ai_credential_id :: "uuid option"
  ai_action :: string
  ai_target_kind :: string
  ai_target_id :: "uuid option"
  ai_outcome :: string

definition is_ascii :: "string \<Rightarrow> bool" where
  "is_ascii s = list_all (\<lambda>ch. of_char ch < (128 :: nat)) s"

definition bounded_audit_text :: "string \<Rightarrow> nat \<Rightarrow> crypto_error + nat" where
  "bounded_audit_text v max_len =
     rbind (ensure (v \<noteq> [] \<and> length v \<le> max_len \<and> is_ascii v) InvalidProtectedInput) (\<lambda>_.
     Inr (length v))"

definition optional_id :: "uuid option \<Rightarrow> bytes" where
  "optional_id m = (case m of None \<Rightarrow> [0] | Some b \<Rightarrow> 1 # b)"

definition text_field :: "string \<Rightarrow> bytes" where
  "text_field s = be_bytes 2 (length s) @ ascii s"

text \<open>The message the commitment authenticates.\<close>

definition audit_message :: "audit_commitment_input \<Rightarrow> bytes" where
  "audit_message i =
     ascii ''SMCV-AUDIT-COMMITMENT'' @ [0] @
     (if ai_commitment_version i = 1 then ascii ''v1'' else ascii ''v2'') @ [0] @
     ai_previous i @ be_bytes 8 (ai_sequence i) @ ai_event_id i @ ai_installation_id i @
     be_bytes 8 (ai_recovery_epoch i) @ i64_be_bytes (ai_occurred_at i) @ ai_request_id i @
     optional_id (ai_actor i) @
     (if ai_commitment_version i = 2
      then (case ai_credential_kind i of
              Some kind \<Rightarrow> [1] @ text_field kind @ optional_id (ai_credential_id i)
            | None \<Rightarrow> [0])
      else []) @
     text_field (ai_action i) @ text_field (ai_target_kind i) @ optional_id (ai_target_id i) @
     text_field (ai_outcome i)"

definition audit_input_check :: "audit_commitment_input \<Rightarrow> crypto_error + unit" where
  "audit_input_check i =
     rbind (bounded_audit_text (ai_action i) 64) (\<lambda>_.
     rbind (bounded_audit_text (ai_target_kind i) 32) (\<lambda>_.
     rbind (bounded_audit_text (ai_outcome i) 16) (\<lambda>_.
     rbind (ensure (ai_commitment_version i \<in> {1, 2} \<and>
        \<not> (ai_commitment_version i = 1 \<and> (ai_credential_kind i \<noteq> None \<or> ai_credential_id i \<noteq> None)) \<and>
        (ai_credential_kind i \<noteq> None) = (ai_credential_id i \<noteq> None)) InvalidProtectedInput) (\<lambda>_.
     rbind (transpose_map (\<lambda>v. bounded_audit_text v 16) (ai_credential_kind i)) (\<lambda>_. Inr ())))))"

definition audit_commitment :: "crypto_lib \<Rightarrow> bytes \<Rightarrow> audit_commitment_input \<Rightarrow> crypto_error + bytes" where
  "audit_commitment c key i =
     rbind (audit_input_check i) (\<lambda>_. Inr (hmac_sha256 c key (audit_message i)))"

definition name_index_message :: "uuid \<Rightarrow> bytes \<Rightarrow> bytes" where
  "name_index_message namespace_id normalized =
     ascii ''SMCV-BLIND-INDEX'' @ [0] @ ascii ''v1'' @ [0] @ ascii ''secret-name'' @ [0] @
     namespace_id @ be_bytes 2 (length normalized) @ normalized"

definition exact_name_index :: "crypto_lib \<Rightarrow> bytes \<Rightarrow> uuid \<Rightarrow> bytes \<Rightarrow> crypto_error + bytes" where
  "exact_name_index c key namespace_id name =
     (let normalized = nfc c name in
      rbind (ensure (normalized \<noteq> [] \<and> length normalized \<le> 256 \<and> \<not> any_control normalized)
        InvalidProtectedInput) (\<lambda>_.
      Inr (hmac_sha256 c key (name_index_message namespace_id normalized))))"

section \<open>Credentials\<close>

text \<open>\<open>str::split('.')\<close>: at least one field.\<close>

fun split_dot :: "string \<Rightarrow> string list" where
  "split_dot [] = [[]]"
| "split_dot (ch # s) =
     (if ch = CHR ''.'' then [] # split_dot s
      else (case split_dot s of f # fs \<Rightarrow> (ch # f) # fs | [] \<Rightarrow> [[ch]]))"

fun strip_prefix :: "string \<Rightarrow> string \<Rightarrow> string option" where
  "strip_prefix [] s = Some s"
| "strip_prefix (p # ps) [] = None"
| "strip_prefix (p # ps) (ch # s) = (if p = ch then strip_prefix ps s else None)"

definition token_verifier :: "crypto_lib \<Rightarrow> bytes \<Rightarrow> bytes \<Rightarrow> bytes \<Rightarrow> bytes" where
  "token_verifier c key lookup secret =
     hmac_sha256 c key (ascii ''SMCV-TOKEN-VERIFIER'' @ [0] @ ascii ''v1'' @ [0] @ lookup @ secret)"

record issued_token =
  it_plaintext :: string
  it_lookup_id :: string
  it_verifier :: bytes

definition issue_token :: "crypto_lib \<Rightarrow> bytes option \<Rightarrow> bytes option \<Rightarrow> bytes \<Rightarrow>
    crypto_error + issued_token" where
  "issue_token c rnd_lookup rnd_secret key =
     rbind (ok_or Randomness rnd_lookup) (\<lambda>lookup.
     rbind (ok_or Randomness rnd_secret) (\<lambda>secret.
     let lookup_id = b64_encode c lookup in
     Inr \<lparr>it_plaintext = ''smcv_v1.'' @ lookup_id @ ''.'' @ b64_encode c secret,
          it_lookup_id = lookup_id, it_verifier = token_verifier c key lookup secret\<rparr>))"

text \<open>The two decoded fields of a presented credential with a given prefix and length bound.\<close>

definition decode_fields :: "crypto_lib \<Rightarrow> nat \<Rightarrow> string \<Rightarrow> nat \<Rightarrow> string \<Rightarrow>
    (string \<times> bytes \<times> bytes) option" where
  "decode_fields c max_len prefix lookup_len presented =
     (if max_len < length presented then None
      else case strip_prefix prefix presented of
        None \<Rightarrow> None
      | Some encoded \<Rightarrow>
          (case split_dot encoded of
             [lookup_text, secret_text] \<Rightarrow>
               (case (b64_decode c lookup_text, b64_decode c secret_text) of
                  (Some lookup, Some secret) \<Rightarrow>
                    if length lookup = lookup_len \<and> length secret = 32
                    then Some (lookup_text, lookup, secret) else None
                | _ \<Rightarrow> None)
           | _ \<Rightarrow> None))"

definition token_lookup_id :: "crypto_lib \<Rightarrow> string \<Rightarrow> bytes option" where
  "token_lookup_id c presented = map_option (\<lambda>(t, l, s). l) (decode_fields c 128 ''smcv_v1.'' 12 presented)"

definition verify_token :: "crypto_lib \<Rightarrow> bytes \<Rightarrow> string \<Rightarrow> string \<Rightarrow> bytes \<Rightarrow> crypto_error + bool" where
  "verify_token c key presented expected_lookup_id expected_verifier =
     (case decode_fields c 128 ''smcv_v1.'' 12 presented of
        None \<Rightarrow> Inr False
      | Some (lookup_text, lookup, secret) \<Rightarrow>
          if lookup_text \<noteq> expected_lookup_id then Inr False
          else Inr (token_verifier c key lookup secret = expected_verifier))"

definition idempotency_verifiers :: "crypto_lib \<Rightarrow> bytes \<Rightarrow> bytes \<Rightarrow> bytes \<Rightarrow> crypto_error + bytes \<times> bytes" where
  "idempotency_verifiers c vkey key request =
     rbind (ensure (key \<noteq> [] \<and> length key \<le> 128 \<and> request \<noteq> [] \<and> length request \<le> 1024 * 1024)
       InvalidProtectedInput) (\<lambda>_.
     Inr (hmac_sha256 c vkey (ascii ''SMCV-IDEMPOTENCY-KEY'' @ [0] @ ascii ''v1'' @ [0] @ key),
          hmac_sha256 c vkey (ascii ''SMCV-IDEMPOTENCY-REQUEST'' @ [0] @ ascii ''v1'' @ [0] @ request)))"

definition session_verifier :: "crypto_lib \<Rightarrow> bytes \<Rightarrow> bytes \<Rightarrow> bytes \<Rightarrow> bytes \<Rightarrow> bytes" where
  "session_verifier c key domain lookup secret = hmac_sha256 c key (domain @ lookup @ secret)"

definition session_domain :: bytes where
  "session_domain = ascii ''SMCV-SESSION-VERIFIER'' @ [0] @ ascii ''v1'' @ [0]"

definition csrf_domain :: bytes where
  "csrf_domain = ascii ''SMCV-CSRF-VERIFIER'' @ [0] @ ascii ''v1'' @ [0]"

record issued_session =
  iss_session_token :: string
  iss_csrf_token :: string
  iss_lookup_id :: bytes
  iss_session_verifier :: bytes
  iss_csrf_verifier :: bytes

definition issue_session :: "crypto_lib \<Rightarrow> bytes option \<Rightarrow> bytes option \<Rightarrow> bytes option \<Rightarrow> bytes \<Rightarrow>
    crypto_error + issued_session" where
  "issue_session c rnd_lookup rnd_session rnd_csrf key =
     rbind (ok_or Randomness rnd_lookup) (\<lambda>lookup.
     rbind (ok_or Randomness rnd_session) (\<lambda>session_secret.
     rbind (ok_or Randomness rnd_csrf) (\<lambda>csrf_secret.
     Inr \<lparr>iss_session_token = ''smcvs_v1.'' @ b64_encode c lookup @ ''.'' @ b64_encode c session_secret,
          iss_csrf_token = ''smcvc_v1.'' @ b64_encode c csrf_secret, iss_lookup_id = lookup,
          iss_session_verifier = session_verifier c key session_domain lookup session_secret,
          iss_csrf_verifier = session_verifier c key csrf_domain lookup csrf_secret\<rparr>)))"

definition decode_session_token :: "crypto_lib \<Rightarrow> string \<Rightarrow> (bytes \<times> bytes) option" where
  "decode_session_token c presented =
     map_option (\<lambda>(t, l, s). (l, s)) (decode_fields c 96 ''smcvs_v1.'' 16 presented)"

definition session_lookup_id :: "crypto_lib \<Rightarrow> string \<Rightarrow> bytes option" where
  "session_lookup_id c presented = map_option fst (decode_session_token c presented)"

definition verify_session :: "crypto_lib \<Rightarrow> bytes \<Rightarrow> string \<Rightarrow> bytes \<Rightarrow> bytes \<Rightarrow> crypto_error + bool" where
  "verify_session c key presented expected_lookup expected_verifier =
     (case decode_session_token c presented of
        None \<Rightarrow> Inr False
      | Some (lookup, secret) \<Rightarrow>
          if lookup \<noteq> expected_lookup then Inr False
          else Inr (session_verifier c key session_domain lookup secret = expected_verifier))"

definition verify_csrf :: "crypto_lib \<Rightarrow> bytes \<Rightarrow> string \<Rightarrow> bytes \<Rightarrow> bytes \<Rightarrow> crypto_error + bool" where
  "verify_csrf c key presented expected_lookup expected_verifier =
     (if 64 < length presented then Inr False
      else case strip_prefix ''smcvc_v1.'' presented of
        None \<Rightarrow> Inr False
      | Some encoded \<Rightarrow>
          (case b64_decode c encoded of
             None \<Rightarrow> Inr False
           | Some secret \<Rightarrow>
               if length secret \<noteq> 32 then Inr False
               else Inr (session_verifier c key csrf_domain expected_lookup secret = expected_verifier)))"

section \<open>Injective encodings\<close>

lemma object_kind_code_inject: "object_kind_code a = object_kind_code b \<longleftrightarrow> a = b"
  by (cases a; cases b; simp)

lemma append_split: "length a = length b \<Longrightarrow> a @ x = b @ y \<longleftrightarrow> a = b \<and> x = y"
  by (rule append_eq_append_conv) simp

lemma text_field_split:
  assumes "length s < 65536" "length t < 65536"
  shows "text_field s @ x = text_field t @ y \<longleftrightarrow> s = t \<and> x = y"
  using assms by (auto simp: text_field_def append_split be_bytes_inject ascii_inject
      dest: append_split [THEN iffD1, rotated])


definition context_ok :: "record_context \<Rightarrow> bool" where
  "context_ok c = (length (rc_vault_id c) = 16 \<and> length (rc_installation_id c) = 16 \<and>
     length (rc_object_id c) = 16 \<and> rc_object_version c \<le> u64_max)"

lemma u64_be_inject: "m \<le> u64_max \<Longrightarrow> n \<le> u64_max \<Longrightarrow> be_bytes 8 m = be_bytes 8 n \<longleftrightarrow> m = n"
  by (rule be_bytes_inject) (simp_all add: u64_max_def)

lemma encode_aad_inject:
  assumes "context_ok c" "context_ok d"
  shows "encode_aad c = encode_aad d \<longleftrightarrow> c = d"
  using assms
  by (auto simp: encode_aad_def context_ok_def append_split object_kind_code_inject u64_be_inject
      intro: record_context.equality)

lemma optional_id_split:
  assumes "\<forall>b\<in>set_option a. length b = 16" "\<forall>b\<in>set_option a'. length b = 16"
  shows "optional_id a @ x = optional_id a' @ y \<longleftrightarrow> a = a' \<and> x = y"
  using assms by (auto simp: optional_id_def append_split split: option.splits)

text \<open>What the types of \<open>AuditCommitmentInput\<close> guarantee, with the input check.\<close>

definition audit_input_typed :: "audit_commitment_input \<Rightarrow> bool" where
  "audit_input_typed i = (length (ai_previous i) = 32 \<and> ai_sequence i \<le> u64_max \<and>
     length (ai_event_id i) = 16 \<and> length (ai_installation_id i) = 16 \<and>
     ai_recovery_epoch i \<le> u64_max \<and> i64_min \<le> ai_occurred_at i \<and> ai_occurred_at i \<le> i64_max \<and>
     length (ai_request_id i) = 16 \<and> (\<forall>b\<in>set_option (ai_actor i). length b = 16) \<and>
     (\<forall>b\<in>set_option (ai_credential_id i). length b = 16) \<and>
     (\<forall>b\<in>set_option (ai_target_id i). length b = 16))"

definition credential_field :: "string option \<Rightarrow> uuid option \<Rightarrow> bytes" where
  "credential_field kind cid = (case kind of
       Some k \<Rightarrow> [1] @ text_field k @ optional_id cid | None \<Rightarrow> [0])"

lemma credential_field_split:
  assumes "\<forall>k\<in>set_option kind. length k < 65536" "\<forall>k\<in>set_option kind'. length k < 65536"
    and "\<forall>b\<in>set_option cid. length b = 16" "\<forall>b\<in>set_option cid'. length b = 16"
    and "(kind \<noteq> None) = (cid \<noteq> None)" "(kind' \<noteq> None) = (cid' \<noteq> None)"
  shows "credential_field kind cid @ x = credential_field kind' cid' @ y \<longleftrightarrow>
    kind = kind' \<and> cid = cid' \<and> x = y"
  using assms
  by (cases kind; cases kind')
     (auto simp: credential_field_def text_field_split optional_id_split)

lemma audit_input_checkD:
  assumes "audit_input_check i = Inr ()"
  shows "ai_commitment_version i \<in> {1, 2}"
    and "(ai_credential_kind i \<noteq> None) = (ai_credential_id i \<noteq> None)"
    and "ai_commitment_version i = 1 \<Longrightarrow> ai_credential_kind i = None \<and> ai_credential_id i = None"
    and "length (ai_action i) < 65536" "length (ai_target_kind i) < 65536"
    and "length (ai_outcome i) < 65536"
    and "\<forall>k\<in>set_option (ai_credential_kind i). length k < 65536"
  using assms by (auto simp: audit_input_check_def bounded_audit_text_def result_simps)

lemma version_prefix_split:
  assumes "v \<in> {1, 2}" "w \<in> {1, 2 :: nat}"
  shows "(if v = 1 then ascii ''v1'' else ascii ''v2'') @ x = (if w = 1 then ascii ''v1'' else ascii ''v2'') @ y
    \<longleftrightarrow> v = w \<and> x = y"
  using assms by (auto simp: append_split ascii_inject)

lemma audit_message_alt:
  "audit_message i =
     ascii ''SMCV-AUDIT-COMMITMENT'' @ [0] @
     (if ai_commitment_version i = 1 then ascii ''v1'' else ascii ''v2'') @ [0] @
     ai_previous i @ be_bytes 8 (ai_sequence i) @ ai_event_id i @ ai_installation_id i @
     be_bytes 8 (ai_recovery_epoch i) @ i64_be_bytes (ai_occurred_at i) @ ai_request_id i @
     optional_id (ai_actor i) @
     (if ai_commitment_version i = 2
      then credential_field (ai_credential_kind i) (ai_credential_id i) else []) @
     text_field (ai_action i) @ text_field (ai_target_kind i) @ optional_id (ai_target_id i) @
     text_field (ai_outcome i)"
  by (simp only: audit_message_def credential_field_def)

lemma audit_message_inject:
  assumes i: "audit_input_typed i" "audit_input_check i = Inr ()"
    and j: "audit_input_typed j" "audit_input_check j = Inr ()"
  shows "audit_message i = audit_message j \<longleftrightarrow> i = j"
proof
  assume eq: "audit_message i = audit_message j"
  note ci = audit_input_checkD [OF i(2)] and cj = audit_input_checkD [OF j(2)]
  have head: "ai_commitment_version i = ai_commitment_version j \<and> ai_previous i = ai_previous j \<and>
      ai_sequence i = ai_sequence j \<and> ai_event_id i = ai_event_id j \<and>
      ai_installation_id i = ai_installation_id j \<and> ai_recovery_epoch i = ai_recovery_epoch j \<and>
      ai_occurred_at i = ai_occurred_at j \<and> ai_request_id i = ai_request_id j \<and>
      ai_actor i = ai_actor j \<and>
      (if ai_commitment_version i = 2
       then credential_field (ai_credential_kind i) (ai_credential_id i) else []) @
      text_field (ai_action i) @ text_field (ai_target_kind i) @ optional_id (ai_target_id i) @
      text_field (ai_outcome i) =
      (if ai_commitment_version j = 2
       then credential_field (ai_credential_kind j) (ai_credential_id j) else []) @
      text_field (ai_action j) @ text_field (ai_target_kind j) @ optional_id (ai_target_id j) @
      text_field (ai_outcome j)"
    using eq i(1) j(1)
    unfolding audit_message_alt audit_input_typed_def append_Cons append_Nil
    by (simp add: version_prefix_split [OF ci(1) cj(1), unfolded One_nat_def] append_split u64_be_inject
        i64_be_bytes_inject optional_id_split split del: if_split,
        elim conjE, simp split del: if_split)
  have cred: "(credential_field (ai_credential_kind i) (ai_credential_id i) @ x =
      credential_field (ai_credential_kind j) (ai_credential_id j) @ y) =
      (ai_credential_kind i = ai_credential_kind j \<and> ai_credential_id i = ai_credential_id j \<and> x = y)"
    for x y
    by (rule credential_field_split)
       (use i(1) j(1) ci cj in \<open>simp_all add: audit_input_typed_def\<close>)
  have "ai_credential_kind i = ai_credential_kind j \<and> ai_credential_id i = ai_credential_id j \<and>
      text_field (ai_action i) @ text_field (ai_target_kind i) @ optional_id (ai_target_id i) @
      text_field (ai_outcome i) =
      text_field (ai_action j) @ text_field (ai_target_kind j) @ optional_id (ai_target_id j) @
      text_field (ai_outcome j)"
    using head ci(1,3) cj(3) by (cases "ai_commitment_version i = 2") (auto simp: cred)
  then have "ai_credential_kind i = ai_credential_kind j \<and> ai_credential_id i = ai_credential_id j \<and>
      ai_action i = ai_action j \<and> ai_target_kind i = ai_target_kind j \<and>
      ai_target_id i = ai_target_id j \<and> ai_outcome i = ai_outcome j"
    using i(1) j(1) ci cj text_field_split [of "ai_outcome i" "ai_outcome j" "[]" "[]"]
    by (auto simp: text_field_split optional_id_split audit_input_typed_def)
  with head show "i = j" by (intro audit_commitment_input.equality) simp_all
qed simp

section \<open>Round trips\<close>

lemma open_seal:
  assumes "aead_correct c" "seal c rnd key context plaintext = Inr r"
  shows "open_record c key context r = Inr plaintext"
  using assms by (auto simp: seal_def seal_with_nonce_def open_record_def aead_correct_def result_simps)

lemma strip_prefix_append [simp]: "strip_prefix p (p @ s) = Some s"
  by (induction p) auto

lemma strip_prefix_Some: "strip_prefix p s = Some t \<longleftrightarrow> s = p @ t"
  by (induction p s rule: strip_prefix.induct) auto

lemma split_dot_no_dot: "CHR ''.'' \<notin> set s \<Longrightarrow> split_dot s = [s]"
  by (induction s) auto

lemma split_dot_not_Nil [simp]: "split_dot s \<noteq> []"
  by (induction s) (auto split: list.splits)

lemma split_dot_two:
  "CHR ''.'' \<notin> set s \<Longrightarrow> split_dot (s @ CHR ''.'' # t) = s # split_dot t"
  by (induction s) auto

lemma decode_fields_encoded:
  assumes "base64_correct c" "length l = n" "length s = 32"
    and "length p + (4 * n + 2) div 3 + 44 \<le> m"
  shows "decode_fields c m p n (p @ b64_encode c l @ ''.'' @ b64_encode c s) =
    Some (b64_encode c l, l, s)"
  using assms
  by (simp add: decode_fields_def base64_correct_def split_dot_two split_dot_no_dot)

lemma verify_issued_token:
  assumes "base64_correct c" "length l = 12" "length s = 32"
    and "issue_token c (Some l) (Some s) key = Inr t"
  shows "verify_token c key (it_plaintext t) (it_lookup_id t) (it_verifier t) = Inr True"
    and "token_lookup_id c (it_plaintext t) = Some l"
  using assms decode_fields_encoded [of c l 12 s "''smcv_v1.''" 128]
  by (auto simp: issue_token_def verify_token_def token_lookup_id_def Let_def)

lemma verify_issued_session:
  assumes "base64_correct c" "length l = 16" "length s = 32" "length x = 32"
    and "issue_session c (Some l) (Some s) (Some x) key = Inr t"
  shows "verify_session c key (iss_session_token t) (iss_lookup_id t) (iss_session_verifier t) = Inr True"
    and "verify_csrf c key (iss_csrf_token t) (iss_lookup_id t) (iss_csrf_verifier t) = Inr True"
    and "session_lookup_id c (iss_session_token t) = Some (iss_lookup_id t)"
  using assms decode_fields_encoded [of c l 16 s "''smcvs_v1.''" 96]
  by (auto simp: issue_session_def verify_session_def verify_csrf_def session_lookup_id_def
      decode_session_token_def base64_correct_def)

text \<open>A presented token is accepted only with the recorded lookup identifier and a verifier
  computed from the presented secret.\<close>

lemma verify_token_accepts:
  assumes "verify_token c key presented lookup_id verifier = Inr True"
  shows "\<exists>l s st. presented = ''smcv_v1.'' @ lookup_id @ ''.'' @ st \<and> b64_decode c lookup_id = Some l \<and>
    b64_decode c st = Some s \<and> length l = 12 \<and> length s = 32 \<and> verifier = token_verifier c key l s"
proof -
  have two: "\<exists>st. e = f @ ''.'' @ st \<and> split_dot st = gs" if "split_dot e = f # gs" "gs \<noteq> []" for e f gs
    using that by (induction e arbitrary: f) (auto split: if_splits list.splits)
  have one: "st = g" if "split_dot st = [g]" for st g
    using that by (induction st arbitrary: g) (auto split: if_splits list.splits)
  obtain e st l s where e: "strip_prefix ''smcv_v1.'' presented = Some e" "split_dot e = [lookup_id, st]"
    and d: "b64_decode c lookup_id = Some l" "b64_decode c st = Some s" "length l = 12" "length s = 32"
      "verifier = token_verifier c key l s"
    using assms
    by (auto simp: verify_token_def decode_fields_def split: option.splits if_splits list.splits)
  obtain st' where "e = lookup_id @ ''.'' @ st'" "split_dot st' = [st]"
    using two [OF e(2)] by auto
  then have "presented = ''smcv_v1.'' @ lookup_id @ ''.'' @ st"
    using e(1) one [of st' st] by (simp add: strip_prefix_Some)
  with d show ?thesis by blast
qed

end
