(* ===== verification/Storage_Records.thy ===== *)
theory Storage_Records
  imports Storage_Audit
begin

text \<open>
  Encrypted namespaces, secrets and their immutable versions:
  \<open>src/crates/smcv-storage/src/records.rs\<close>.  Every mutation is an
  \<open>audited_operation\<close>; the ones that change an existing row are optimistic, which is
  the contract of the locale \<open>revisioned_operation\<close>.  The invariant
  \<open>records_ok\<close> collects the schema constraints with what the operations add to
  them: the versions of a secret are exactly \<open>1\<close> to its current version, the
  deletion time is set exactly in the deleted state, and the purge guard is off
  between transactions.
\<close>

section \<open>Data\<close>

record encrypted_record =
  er_nonce :: bytes
  er_ciphertext :: bytes
  er_dek_nonce :: bytes
  er_wrapped_dek :: bytes
  er_kek_version :: nat

record namespace_insert =
  ni_namespace_id :: uuid
  ni_parent :: "uuid option"
  ni_name_index :: bytes
  ni_metadata :: encrypted_record
  ni_state_commitment :: bytes
  ni_created_at :: unix_ms

record namespace_record =
  nr_namespace_id :: uuid
  nr_parent :: "uuid option"
  nr_name_index :: bytes
  nr_lifecycle_state :: string
  nr_revision :: nat
  nr_metadata_version :: nat
  nr_metadata :: encrypted_record
  nr_state_commitment :: bytes

record secret_insert =
  si_secret_id :: uuid
  si_namespace_id :: uuid
  si_name_index :: bytes
  si_metadata :: encrypted_record
  si_payload :: encrypted_record
  si_schedule :: secret_schedule
  si_state_commitment :: bytes
  si_created_by :: "uuid option"
  si_created_at :: unix_ms

record secret_version_insert =
  sv_secret_id :: uuid
  sv_expected_current_version :: nat
  sv_expected_revision :: nat
  sv_payload :: encrypted_record
  sv_schedule :: secret_schedule
  sv_next_state_commitment :: bytes
  sv_created_by :: "uuid option"
  sv_created_at :: unix_ms

record secret_lifecycle_change =
  lc_secret_id :: uuid
  lc_expected_revision :: nat
  lc_from_state :: string
  lc_to_state :: string
  lc_changed_at :: unix_ms
  lc_next_state_commitment :: bytes

record secret_purge =
  sp_secret_id :: uuid
  sp_expected_revision :: nat
  sp_retention_cutoff :: unix_ms
  sp_purged_at :: unix_ms

record secret_record =
  sr_secret_id :: uuid
  sr_namespace_id :: uuid
  sr_name_index :: bytes
  sr_lifecycle_state :: string
  sr_current_version :: nat
  sr_revision :: nat
  sr_metadata_version :: nat
  sr_metadata :: encrypted_record
  sr_schedule :: secret_schedule
  sr_state_commitment :: bytes
  sr_deleted_at :: "unix_ms option"

record scheduled_secret =
  ss_secret_id :: uuid
  ss_version :: nat
  ss_schedule :: secret_schedule

record secret_version_record =
  vr_version :: nat
  vr_schedule :: secret_schedule
  vr_created_by :: "uuid option"
  vr_created_at :: unix_ms

record namespace_move =
  nm_namespace_id :: uuid
  nm_expected_revision :: nat
  nm_new_parent :: "uuid option"
  nm_new_name_index :: bytes
  nm_next_state_commitment :: bytes
  nm_updated_at :: unix_ms

section \<open>Row conversions\<close>

definition enc_cols_of :: "encrypted_record \<Rightarrow> enc_cols" where
  "enc_cols_of e = \<lparr>x_nonce = er_nonce e, x_ciphertext = er_ciphertext e,
     x_dek_nonce = er_dek_nonce e, x_wrapped_dek = er_wrapped_dek e, x_kek = int (er_kek_version e)\<rparr>"

definition parse_encrypted :: "enc_cols \<Rightarrow> storage_error + encrypted_record" where
  "parse_encrypted x =
     rbind (ensure (16 \<le> length (x_ciphertext x) \<and> length (x_ciphertext x) \<le> 16 * 1024 * 1024)
       InvalidData) (\<lambda>_.
     rbind (try_into_array 24 InvalidData (x_nonce x)) (\<lambda>nonce.
     rbind (try_into_array 24 InvalidData (x_dek_nonce x)) (\<lambda>dek_nonce.
     rbind (try_into_array 48 InvalidData (x_wrapped_dek x)) (\<lambda>wrapped_dek.
     rbind (ok_or InvalidData (u32_of_i64 (x_kek x))) (\<lambda>kek_version.
     Inr \<lparr>er_nonce = nonce, er_ciphertext = x_ciphertext x, er_dek_nonce = dek_nonce,
          er_wrapped_dek = wrapped_dek, er_kek_version = kek_version\<rparr>)))))"

text \<open>The row of a secret with the schedule of its current version (the two scalar subqueries;
  an absent version row reads as NULL).\<close>

definition schedule_of_current :: "db \<Rightarrow> secret_row \<Rightarrow> secret_schedule" where
  "schedule_of_current d s =
     (case tbl_find (\<lambda>v. v_secret_id v = s_id s \<and> v_version v = s_current s) (secret_versions d) of
        None \<Rightarrow> \<lparr>expires_at = None, rotation_due_at = None\<rparr>
      | Some v \<Rightarrow> \<lparr>expires_at = v_expires v, rotation_due_at = v_rotation v\<rparr>)"

definition parse_secret :: "uuid \<Rightarrow> secret_row \<Rightarrow> secret_schedule \<Rightarrow>
    storage_error + secret_record" where
  "parse_secret secret_id row sched =
     rbind (parse_uuid (s_namespace_id row)) (\<lambda>namespace_id.
     rbind (try_into_array 32 InvalidData (s_name_index row)) (\<lambda>name_index.
     rbind (ok_or InvalidData (u64_of_i64 (s_current row))) (\<lambda>current.
     rbind (ok_or InvalidData (u64_of_i64 (s_revision row))) (\<lambda>revision.
     rbind (ok_or InvalidData (u64_of_i64 (s_metadata_version row))) (\<lambda>metadata_version.
     rbind (parse_encrypted (s_meta row)) (\<lambda>metadata.
     rbind (try_into_array 32 InvalidData (s_commitment row)) (\<lambda>state_commitment.
     Inr \<lparr>sr_secret_id = secret_id, sr_namespace_id = namespace_id, sr_name_index = name_index,
          sr_lifecycle_state = s_lifecycle row, sr_current_version = current,
          sr_revision = revision, sr_metadata_version = metadata_version,
          sr_metadata = metadata, sr_schedule = sched, sr_state_commitment = state_commitment,
          sr_deleted_at = s_deleted row\<rparr>)))))))"

definition parse_namespace :: "uuid \<Rightarrow> namespace_row \<Rightarrow> storage_error + namespace_record" where
  "parse_namespace namespace_id row =
     rbind (transpose_map parse_uuid (n_parent row)) (\<lambda>parent.
     rbind (try_into_array 32 InvalidData (n_name_index row)) (\<lambda>name_index.
     rbind (ok_or InvalidData (u64_of_i64 (n_revision row))) (\<lambda>revision.
     rbind (ok_or InvalidData (u64_of_i64 (n_metadata_version row))) (\<lambda>metadata_version.
     rbind (parse_encrypted (n_meta row)) (\<lambda>metadata.
     rbind (try_into_array 32 InvalidData (n_commitment row)) (\<lambda>state_commitment.
     Inr \<lparr>nr_namespace_id = namespace_id, nr_parent = parent, nr_name_index = name_index,
          nr_lifecycle_state = n_lifecycle row, nr_revision = revision,
          nr_metadata_version = metadata_version, nr_metadata = metadata,
          nr_state_commitment = state_commitment\<rparr>))))))"

section \<open>Namespaces\<close>

definition namespace :: "uuid \<Rightarrow> db \<Rightarrow> storage_error + namespace_record" where
  "namespace namespace_id =
     query (\<lambda>d. rbind (ok_or NotInitialized (tbl_find (\<lambda>n. n_id n = namespace_id) (namespaces d)))
       (parse_namespace namespace_id))"

text \<open>The page cursor: an absent cursor is the all-zero identifier.\<close>

definition cursor :: "uuid option \<Rightarrow> uuid" where
  "cursor after = (case after of None \<Rightarrow> replicate 16 0 | Some i \<Rightarrow> i)"

definition namespaces_after :: "uuid option \<Rightarrow> uuid option \<Rightarrow> nat \<Rightarrow> db \<Rightarrow>
    storage_error + namespace_record list" where
  "namespaces_after parent after limit d =
     rbind (ensure (limit \<noteq> 0) InvalidData) (\<lambda>_.
     rbind (query (\<lambda>d. traverse parse_uuid
         (take limit (sort (map n_id (tbl_select (\<lambda>n. n_parent n = parent \<and>
            cursor after < n_id n \<and> n_lifecycle n = ''active'') (namespaces d)))))) d) (\<lambda>ids.
     traverse (\<lambda>i. namespace i d) ids))"

text \<open>The recursive common table expression: the row itself, then parents while the depth bound
  of the expression lets it continue (\<open>fuel\<close> more rows).\<close>

fun ancestor_walk :: "nat \<Rightarrow> namespace_row table \<Rightarrow> uuid \<Rightarrow> uuid list" where
  "ancestor_walk fuel t i =
     (case tbl_find (\<lambda>n. n_id n = i) t of
        None \<Rightarrow> []
      | Some n \<Rightarrow> n_id n #
          (case n_parent n of
             None \<Rightarrow> []
           | Some p \<Rightarrow> (case fuel of 0 \<Rightarrow> [] | Suc fuel' \<Rightarrow> ancestor_walk fuel' t p)))"

declare ancestor_walk.simps [simp del]

definition namespace_depth :: "uuid \<Rightarrow> db \<Rightarrow> storage_error + nat" where
  "namespace_depth namespace_id =
     query (\<lambda>d. let walk = ancestor_walk 32 (namespaces d) namespace_id
                in rbind (ensure (walk \<noteq> []) NotInitialized) (\<lambda>_.
                   ok_or InvalidData (u16_of_i64 (int (length walk)))))"

definition namespace_ancestors_inclusive :: "uuid \<Rightarrow> db \<Rightarrow> storage_error + uuid list" where
  "namespace_ancestors_inclusive namespace_id =
     query (\<lambda>d. rbind (traverse parse_uuid (ancestor_walk 32 (namespaces d) namespace_id)) (\<lambda>as.
       rbind (ensure (as \<noteq> []) NotInitialized) (\<lambda>_. Inr as)))"

definition namespace_row_of :: "namespace_insert \<Rightarrow> namespace_row" where
  "namespace_row_of n =
     \<lparr>n_id = ni_namespace_id n, n_parent = ni_parent n, n_name_index = ni_name_index n,
      n_metadata_version = 1, n_meta = enc_cols_of (ni_metadata n), n_lifecycle = ''active'',
      n_revision = 1, n_commitment = ni_state_commitment n, n_created = ni_created_at n,
      n_updated = ni_created_at n\<rparr>"

definition create_namespace :: "namespace_insert \<Rightarrow> audit_record \<Rightarrow> db \<Rightarrow>
    (storage_error + unit) \<times> db" where
  "create_namespace ns audit =
     audited audit (\<lambda>d.
       (case sql_insert_or_ignore namespace_check namespaces_unique (namespace_row_of ns) (namespaces d) of
         (changed, t) \<Rightarrow>
           let d1 = d\<lparr>namespaces := t\<rparr>
           in rbind (ensure (fk_namespace_parent d1) Sqlite) (\<lambda>_.
              rbind (ensure (changed = 1) Conflict) (\<lambda>_. Inr ((), d1)))))"

definition move_namespace :: "namespace_move \<Rightarrow> audit_record \<Rightarrow> db \<Rightarrow> (storage_error + nat) \<times> db" where
  "move_namespace m audit =
     guarded (ok_or Conflict (checked_add_u64 (nm_expected_revision m) 1)) (\<lambda>next_revision.
       audited audit (\<lambda>d.
         rbind (sql_i64 next_revision) (\<lambda>next.
         rbind (sql_i64 (nm_expected_revision m)) (\<lambda>expected.
         rbind (sql_update namespace_check namespaces_unique no_trigger
           (\<lambda>n. n_id n = nm_namespace_id m \<and> n_revision n = expected \<and> n_lifecycle n = ''active'')
           (\<lambda>n. n\<lparr>n_parent := nm_new_parent m, n_name_index := nm_new_name_index m,
                 n_revision := next, n_commitment := nm_next_state_commitment m,
                 n_updated := nm_updated_at m\<rparr>) (namespaces d)) (\<lambda>(changed, t).
         let d1 = d\<lparr>namespaces := t\<rparr>
         in rbind (ensure (fk_namespace_parent d1) Sqlite) (\<lambda>_.
            rbind (ensure (changed = 1) Conflict) (\<lambda>_. Inr (next_revision, d1))))))))"

section \<open>Secrets\<close>

definition insert_version :: "uuid \<Rightarrow> nat \<Rightarrow> encrypted_record \<Rightarrow> secret_schedule \<Rightarrow> uuid option \<Rightarrow>
    unix_ms \<Rightarrow> db \<Rightarrow> storage_error + db" where
  "insert_version secret_id version payload schedule actor created_at d =
     rbind (sql_i64 version) (\<lambda>v.
     rbind (sql_insert version_check versions_unique
       \<lparr>v_secret_id = secret_id, v_version = v, v_envelope = 1, v_suite = 1,
        v_payload = enc_cols_of payload, v_expires = expires_at schedule,
        v_rotation = rotation_due_at schedule, v_created_by = actor,
        v_created = created_at\<rparr> (secret_versions d)) (\<lambda>t.
     rbind (ensure (tbl_exists (\<lambda>s. s_id s = secret_id) (secrets d)) Sqlite) (\<lambda>_.
     Inr (d\<lparr>secret_versions := t\<rparr>))))"

definition secret_row_of :: "secret_insert \<Rightarrow> secret_row" where
  "secret_row_of s =
     \<lparr>s_id = si_secret_id s, s_namespace_id = si_namespace_id s, s_name_index = si_name_index s,
      s_metadata_version = 1, s_meta = enc_cols_of (si_metadata s), s_lifecycle = ''active'',
      s_current = 1, s_revision = 1, s_commitment = si_state_commitment s,
      s_created = si_created_at s, s_updated = si_created_at s, s_deleted = None\<rparr>"

definition create_secret :: "secret_insert \<Rightarrow> audit_record \<Rightarrow> db \<Rightarrow> (storage_error + unit) \<times> db" where
  "create_secret secret audit =
     audited audit (\<lambda>d.
       (case sql_insert_or_ignore secret_check secrets_unique (secret_row_of secret) (secrets d) of
         (changed, t) \<Rightarrow>
           let d1 = d\<lparr>secrets := t\<rparr>
           in rbind (ensure (fk_secret_namespace d1) Sqlite) (\<lambda>_.
              rbind (ensure (changed = 1) Conflict) (\<lambda>_.
              rbind (insert_version (si_secret_id secret) 1 (si_payload secret) (si_schedule secret)
                (si_created_by secret) (si_created_at secret) d1) (\<lambda>d2. Inr ((), d2))))))"

text \<open>\<open>revision = revision + 1\<close> on a \<open>STRICT\<close> table: a sum past the 64-bit range is a REAL,
  which an INTEGER column refuses.\<close>

definition secret_check_arith :: "secret_row \<Rightarrow> bool" where
  "secret_check_arith r = (secret_check r \<and> s_revision r \<le> i64_max)"

definition append_secret_version :: "secret_version_insert \<Rightarrow> audit_record \<Rightarrow> db \<Rightarrow>
    (storage_error + nat) \<times> db" where
  "append_secret_version v audit =
     guarded
       (rbind (ok_or Conflict (checked_add_u64 (sv_expected_current_version v) 1)) (\<lambda>next.
        rbind (sql_i64 next) (\<lambda>next_sql.
        rbind (sql_i64 (sv_expected_current_version v)) (\<lambda>current_sql.
        rbind (sql_i64 (sv_expected_revision v)) (\<lambda>revision_sql.
        Inr (next, next_sql, current_sql, revision_sql))))))
       (\<lambda>(next, next_sql, current_sql, revision_sql).
       audited audit (\<lambda>d.
         rbind (ok_or Conflict (tbl_find (\<lambda>s. s_id s = sv_secret_id v) (secrets d))) (\<lambda>row.
         rbind (ensure (s_current row = current_sql \<and> s_revision row = revision_sql \<and>
                        s_lifecycle row = ''active'') Conflict) (\<lambda>_.
         rbind (insert_version (sv_secret_id v) next (sv_payload v) (sv_schedule v)
                  (sv_created_by v) (sv_created_at v) d) (\<lambda>d1.
         rbind (sql_update secret_check_arith secrets_unique secrets_monotonic_trigger
           (\<lambda>s. s_id s = sv_secret_id v \<and> s_current s = current_sql \<and> s_revision s = revision_sql \<and>
                s_lifecycle s = ''active'')
           (\<lambda>s. s\<lparr>s_current := next_sql, s_revision := s_revision s + 1,
                  s_commitment := sv_next_state_commitment v, s_updated := sv_created_at v\<rparr>)
           (secrets d1)) (\<lambda>(changed, t).
         rbind (ensure (changed = 1) Conflict) (\<lambda>_. Inr (next, d1\<lparr>secrets := t\<rparr>))))))))"

definition secret :: "uuid \<Rightarrow> db \<Rightarrow> storage_error + secret_record" where
  "secret secret_id =
     query (\<lambda>d. rbind (ok_or NotInitialized (tbl_find (\<lambda>s. s_id s = secret_id) (secrets d)))
       (\<lambda>row. parse_secret secret_id row (schedule_of_current d row)))"

definition secrets_in_lifecycle_after :: "uuid \<Rightarrow> string \<Rightarrow> uuid option \<Rightarrow> nat \<Rightarrow> db \<Rightarrow>
    storage_error + secret_record list" where
  "secrets_in_lifecycle_after namespace_id lifecycle after limit d =
     rbind (ensure (limit \<noteq> 0) InvalidData) (\<lambda>_.
     rbind (ensure (lifecycle \<in> {''active'', ''archived'', ''deleted''}) InvalidData) (\<lambda>_.
     rbind (query (\<lambda>d. traverse parse_uuid
         (take limit (sort (map s_id (tbl_select (\<lambda>s. s_namespace_id s = namespace_id \<and>
            cursor after < s_id s \<and> s_lifecycle s = lifecycle) (secrets d)))))) d) (\<lambda>ids.
     traverse (\<lambda>i. secret i d) ids)))"

definition secrets_after :: "uuid \<Rightarrow> uuid option \<Rightarrow> nat \<Rightarrow> db \<Rightarrow> storage_error + secret_record list" where
  "secrets_after namespace_id after limit =
     secrets_in_lifecycle_after namespace_id ''active'' after limit"

definition secret_by_name_index :: "uuid \<Rightarrow> bytes \<Rightarrow> db \<Rightarrow> storage_error + secret_record option" where
  "secret_by_name_index namespace_id name_index =
     query (\<lambda>d. transpose_map (\<lambda>row. rbind (parse_uuid (s_id row)) (\<lambda>secret_id.
         parse_secret secret_id row (schedule_of_current d row)))
       (tbl_find (\<lambda>s. s_namespace_id s = namespace_id \<and> s_name_index s = name_index) (secrets d)))"

definition encrypted_secret_version :: "uuid \<Rightarrow> nat \<Rightarrow> db \<Rightarrow> storage_error + encrypted_record" where
  "encrypted_secret_version secret_id version d =
     rbind (sql_i64 version) (\<lambda>v.
     query (\<lambda>d. rbind (ok_or NotInitialized
         (tbl_find (\<lambda>r. v_secret_id r = secret_id \<and> v_version r = v) (secret_versions d)))
       (\<lambda>row. parse_encrypted (v_payload row))) d)"

definition parse_version_record :: "version_row \<Rightarrow> storage_error + secret_version_record" where
  "parse_version_record r =
     rbind (ok_or InvalidData (u64_of_i64 (v_version r))) (\<lambda>version.
     rbind (transpose_map parse_uuid (v_created_by r)) (\<lambda>created_by.
     Inr \<lparr>vr_version = version,
          vr_schedule = \<lparr>expires_at = v_expires r, rotation_due_at = v_rotation r\<rparr>,
          vr_created_by = created_by, vr_created_at = v_created r\<rparr>))"

definition secret_versions_after :: "uuid \<Rightarrow> nat \<Rightarrow> nat \<Rightarrow> db \<Rightarrow>
    storage_error + secret_version_record list" where
  "secret_versions_after secret_id after limit d =
     rbind (ensure (limit \<noteq> 0) InvalidData) (\<lambda>_.
     rbind (sql_i64 after) (\<lambda>after_sql.
     query (\<lambda>d. traverse parse_version_record (take limit (sort_key v_version
       (tbl_select (\<lambda>r. v_secret_id r = secret_id \<and> after_sql < v_version r) (secret_versions d))))) d))"

text \<open>SQL comparisons with NULL are not true.\<close>

definition due_by :: "unix_ms \<Rightarrow> unix_ms option \<Rightarrow> bool" where
  "due_by now m = (case m of None \<Rightarrow> False | Some v \<Rightarrow> v \<le> now)"

definition coalesce_max :: "unix_ms option \<Rightarrow> int" where
  "coalesce_max m = (case m of None \<Rightarrow> 9223372036854775807 | Some v \<Rightarrow> v)"

definition due_key :: "secret_row \<times> version_row \<Rightarrow> int" where
  "due_key = (\<lambda>(s, v). min (coalesce_max (v_expires v)) (coalesce_max (v_rotation v)))"

definition due_rows :: "unix_ms \<Rightarrow> db \<Rightarrow> (secret_row \<times> version_row) list" where
  "due_rows now d =
     filter (\<lambda>(s, v). v_secret_id v = s_id s \<and> v_version v = s_current s \<and>
       s_lifecycle s = ''active'' \<and> (due_by now (v_expires v) \<or> due_by now (v_rotation v)))
     (List.product (rows (secrets d)) (rows (secret_versions d)))"

definition scheduled_secrets_due :: "unix_ms \<Rightarrow> nat \<Rightarrow> db \<Rightarrow> storage_error + scheduled_secret list" where
  "scheduled_secrets_due now limit d =
     rbind (ensure (0 \<le> now \<and> limit \<noteq> 0 \<and> limit \<le> 1000) Conflict) (\<lambda>_.
     query (\<lambda>d. traverse (\<lambda>(s, v).
         rbind (parse_uuid (s_id s)) (\<lambda>secret_id.
         rbind (ok_or InvalidData (u64_of_i64 (v_version v))) (\<lambda>version.
         Inr \<lparr>ss_secret_id = secret_id, ss_version = version,
              ss_schedule = \<lparr>expires_at = v_expires v, rotation_due_at = v_rotation v\<rparr>\<rparr>)))
       (take limit (sort_key due_key (sort_key (\<lambda>(s, v). s_id s) (due_rows now d))))) d)"

definition change_secret_lifecycle :: "secret_lifecycle_change \<Rightarrow> audit_record \<Rightarrow> db \<Rightarrow>
    (storage_error + nat) \<times> db" where
  "change_secret_lifecycle c audit =
     guarded
       (rbind (sql_i64 (lc_expected_revision c)) (\<lambda>expected.
        rbind (ok_or Conflict (checked_add_u64 (lc_expected_revision c) 1)) (\<lambda>next.
        rbind (sql_i64 next) (\<lambda>next_sql. Inr (expected, next, next_sql)))))
       (\<lambda>(expected, next, next_sql).
       audited audit (\<lambda>d.
         rbind (sql_update secret_check secrets_unique secrets_monotonic_trigger
           (\<lambda>s. s_id s = lc_secret_id c \<and> s_revision s = expected \<and> s_lifecycle s = lc_from_state c)
           (\<lambda>s. s\<lparr>s_lifecycle := lc_to_state c, s_revision := next_sql, s_updated := lc_changed_at c,
                  s_deleted := (if lc_to_state c = ''deleted'' then Some (lc_changed_at c) else None),
                  s_commitment := lc_next_state_commitment c\<rparr>)
           (secrets d)) (\<lambda>(changed, t).
         rbind (ensure (changed = 1) Conflict) (\<lambda>_. Inr (next, d\<lparr>secrets := t\<rparr>)))))"

text \<open>\<open>DELETE\<close> under a trigger that aborts it for every matching row unless the purge guard
  is on.\<close>

definition sql_delete_guarded :: "int \<Rightarrow> ('r \<Rightarrow> bool) \<Rightarrow> 'r table \<Rightarrow> storage_error + 'r table" where
  "sql_delete_guarded guard p t =
     (if tbl_exists p t \<and> guard \<noteq> 1 then Inl Sqlite else Inr (tbl_delete p t))"

text \<open>Foreign keys are deferred here; both sides of the version key are deleted.\<close>

definition purge_secret :: "secret_purge \<Rightarrow> audit_record \<Rightarrow> db \<Rightarrow> (storage_error + unit) \<times> db" where
  "purge_secret p audit =
     guarded (sql_i64 (sp_expected_revision p)) (\<lambda>expected.
       audited audit (\<lambda>d.
         rbind (ok_or Conflict (tbl_find (\<lambda>s. s_id s = sp_secret_id p \<and> s_revision s = expected \<and>
           s_lifecycle s = ''deleted'') (secrets d))) (\<lambda>row.
         rbind (ok_or Sqlite (s_deleted row)) (\<lambda>deleted_at.
         rbind (ensure (deleted_at \<le> sp_retention_cutoff p) Conflict) (\<lambda>_.
         let d1 = d\<lparr>purge_enabled := 1\<rparr> in
         rbind (sql_insert tombstone_check (unique_key t_secret_id)
           \<lparr>t_secret_id = sp_secret_id p, t_namespace_id = s_namespace_id row,
            t_name_index = s_name_index row, t_last_version = s_current row,
            t_purged = sp_purged_at p, t_cutoff = sp_retention_cutoff p\<rparr> (tombstones d1)) (\<lambda>ts.
         rbind (sql_delete_guarded (purge_enabled d1) (\<lambda>v. v_secret_id v = sp_secret_id p)
           (secret_versions d1)) (\<lambda>vs.
         rbind (sql_delete_guarded (purge_enabled d1) (\<lambda>s. s_id s = sp_secret_id p)
           (secrets d1)) (\<lambda>ss.
         Inr ((), d1\<lparr>tombstones := ts, secret_versions := vs, secrets := ss,
                      purge_enabled := 0\<rparr>)))))))))"

section \<open>What a successful operation did\<close>

abbreviation logged :: "audit_record \<Rightarrow> db \<Rightarrow> db" where
  "logged a d \<equiv> d\<lparr>audit_events := audit_events d @ [audit_row_of a]\<rparr>"

lemma audited_effect:
  assumes "audited a body d = (Inr x, d')"
    and "\<And>d1. body d = Inr (x, d1) \<Longrightarrow> audit_events d1 = audit_events d"
  obtains d1 where "\<not> poisoned d" "body d = Inr (x, d1)" "d' = logged a d1" "audit_appended a d d'"
    "fk_current_version d'"
proof (rule audited_Inr [OF assms(1)])
  fix d1
  assume *: "\<not> poisoned d" "require_audit_head a d = Inr ()" "body d = Inr (x, d1)" "d' = logged a d1"
    "audit_check (audit_row_of a)" "int (ar_sequence a) \<le> i64_max" "fk_current_version d'"
  have "audit_events d1 = audit_events d" using *(3) by (rule assms(2))
  then have "audit_appended a d d'" using * by (simp add: audit_appended_def)
  then show thesis using * that by blast
qed

lemma fk_logged [simp]:
  "fk_namespace_parent (logged a d) = fk_namespace_parent d"
  "fk_secret_namespace (logged a d) = fk_secret_namespace d"
  "fk_version_secret (logged a d) = fk_version_secret d"
  "fk_current_version (logged a d) = fk_current_version d"
  by (simp_all add: fk_namespace_parent_def fk_secret_namespace_def fk_version_secret_def
      fk_current_version_def)

lemma create_namespace_Inr:
  assumes "create_namespace ns a d = (Inr x, d')"
  shows "d' = logged a (d\<lparr>namespaces := tbl_insert (namespace_row_of ns) (namespaces d)\<rparr>) \<and>
     namespace_check (namespace_row_of ns) \<and> namespaces_unique (namespaces d') \<and>
     fk_namespace_parent d' \<and> fk_current_version d' \<and> audit_appended a d d' \<and> \<not> poisoned d"
  using assms unfolding create_namespace_def
  by (rule audited_effect)
     (auto simp: sql_insert_or_ignore_def Let_def result_simps split: if_splits prod.splits)

definition move_where :: "namespace_move \<Rightarrow> namespace_row \<Rightarrow> bool" where
  "move_where m n = (n_id n = nm_namespace_id m \<and> n_revision n = int (nm_expected_revision m) \<and>
     n_lifecycle n = ''active'')"

definition move_set :: "namespace_move \<Rightarrow> namespace_row \<Rightarrow> namespace_row" where
  "move_set m n = n\<lparr>n_parent := nm_new_parent m, n_name_index := nm_new_name_index m,
     n_revision := int (nm_expected_revision m) + 1, n_commitment := nm_next_state_commitment m,
     n_updated := nm_updated_at m\<rparr>"

lemma move_namespace_Inr:
  assumes "move_namespace m a d = (Inr x, d')"
  shows "d' = logged a (d\<lparr>namespaces := tbl_update (move_where m) (move_set m) (namespaces d)\<rparr>) \<and>
     tbl_count (move_where m) (namespaces d) = 1 \<and> namespaces_unique (namespaces d') \<and>
     (\<forall>n \<in> set (rows (namespaces d)). move_where m n \<longrightarrow> namespace_check (move_set m n)) \<and>
     fk_namespace_parent d' \<and> fk_current_version d' \<and> audit_appended a d d' \<and>
     x = nm_expected_revision m + 1 \<and> int x \<le> i64_max \<and> \<not> poisoned d"
  using assms unfolding move_namespace_def guarded_Inr
  by (elim exE conjE audited_effect)
     (auto simp: Let_def result_simps move_where_def [abs_def] move_set_def [abs_def] add.commute)

lemma insert_version_Inr:
  "insert_version sid v p sch ac cr d = Inr d' \<longleftrightarrow>
   (\<exists>r. r = \<lparr>v_secret_id = sid, v_version = int v, v_envelope = 1, v_suite = 1,
        v_payload = enc_cols_of p, v_expires = expires_at sch,
        v_rotation = rotation_due_at sch, v_created_by = ac, v_created = cr\<rparr> \<and>
      d' = d\<lparr>secret_versions := tbl_insert r (secret_versions d)\<rparr> \<and> int v \<le> i64_max \<and>
      version_check r \<and> versions_unique (secret_versions d') \<and>
      tbl_exists (\<lambda>s. s_id s = sid) (secrets d))"
  by (auto simp: insert_version_def result_simps)

lemma create_secret_Inr:
  assumes "create_secret s a d = (Inr x, d')"
  shows "\<exists>v. v = \<lparr>v_secret_id = si_secret_id s, v_version = 1, v_envelope = 1, v_suite = 1,
        v_payload = enc_cols_of (si_payload s), v_expires = expires_at (si_schedule s),
        v_rotation = rotation_due_at (si_schedule s), v_created_by = si_created_by s,
        v_created = si_created_at s\<rparr> \<and>
     d' = logged a (d\<lparr>secrets := tbl_insert (secret_row_of s) (secrets d),
                      secret_versions := tbl_insert v (secret_versions d)\<rparr>) \<and>
     secret_check (secret_row_of s) \<and> version_check v \<and> secrets_unique (secrets d') \<and>
     versions_unique (secret_versions d') \<and> fk_secret_namespace d' \<and> fk_current_version d' \<and>
     audit_appended a d d' \<and> \<not> poisoned d"
  using assms unfolding create_secret_def
  by (rule audited_effect)
     (auto simp: sql_insert_or_ignore_def Let_def result_simps insert_version_Inr
        fk_secret_namespace_def split: if_splits prod.splits)

definition append_where :: "secret_version_insert \<Rightarrow> secret_row \<Rightarrow> bool" where
  "append_where v s = (s_id s = sv_secret_id v \<and> s_current s = int (sv_expected_current_version v) \<and>
     s_revision s = int (sv_expected_revision v) \<and> s_lifecycle s = ''active'')"

definition append_set :: "secret_version_insert \<Rightarrow> secret_row \<Rightarrow> secret_row" where
  "append_set v s = s\<lparr>s_current := int (sv_expected_current_version v) + 1,
     s_revision := s_revision s + 1, s_commitment := sv_next_state_commitment v,
     s_updated := sv_created_at v\<rparr>"

definition appended_version :: "secret_version_insert \<Rightarrow> version_row" where
  "appended_version v = \<lparr>v_secret_id = sv_secret_id v,
        v_version = int (sv_expected_current_version v) + 1, v_envelope = 1, v_suite = 1,
        v_payload = enc_cols_of (sv_payload v), v_expires = expires_at (sv_schedule v),
        v_rotation = rotation_due_at (sv_schedule v), v_created_by = sv_created_by v,
        v_created = sv_created_at v\<rparr>"

lemma append_secret_version_Inr:
  assumes "append_secret_version v a d = (Inr x, d')"
  shows "d' = logged a (d\<lparr>secret_versions := tbl_insert (appended_version v) (secret_versions d),
              secrets := tbl_update (append_where v) (append_set v) (secrets d)\<rparr>) \<and>
     tbl_count (append_where v) (secrets d) = 1 \<and> version_check (appended_version v) \<and>
     (\<forall>s \<in> set (rows (secrets d)). append_where v s \<longrightarrow> secret_check_arith (append_set v s)) \<and>
     secrets_unique (secrets d') \<and> versions_unique (secret_versions d') \<and>
     fk_current_version d' \<and> audit_appended a d d' \<and>
     x = sv_expected_current_version v + 1 \<and> int x \<le> i64_max \<and> \<not> poisoned d"
  using assms unfolding append_secret_version_def guarded_Inr
  by (elim exE conjE, simp only: prod.case split_beta, elim audited_effect)
     (auto simp: result_simps insert_version_Inr append_where_def [abs_def] append_set_def [abs_def]
        appended_version_def add.commute)

definition lifecycle_where :: "secret_lifecycle_change \<Rightarrow> secret_row \<Rightarrow> bool" where
  "lifecycle_where c s = (s_id s = lc_secret_id c \<and> s_revision s = int (lc_expected_revision c) \<and>
     s_lifecycle s = lc_from_state c)"

definition lifecycle_set :: "secret_lifecycle_change \<Rightarrow> secret_row \<Rightarrow> secret_row" where
  "lifecycle_set c s = s\<lparr>s_lifecycle := lc_to_state c,
     s_revision := int (lc_expected_revision c) + 1, s_updated := lc_changed_at c,
     s_deleted := (if lc_to_state c = ''deleted'' then Some (lc_changed_at c) else None),
     s_commitment := lc_next_state_commitment c\<rparr>"

lemma change_secret_lifecycle_Inr:
  assumes "change_secret_lifecycle c a d = (Inr x, d')"
  shows "d' = logged a (d\<lparr>secrets := tbl_update (lifecycle_where c) (lifecycle_set c) (secrets d)\<rparr>) \<and>
     tbl_count (lifecycle_where c) (secrets d) = 1 \<and>
     (\<forall>s \<in> set (rows (secrets d)). lifecycle_where c s \<longrightarrow> secret_check (lifecycle_set c s)) \<and>
     secrets_unique (secrets d') \<and> fk_current_version d' \<and> audit_appended a d d' \<and>
     x = lc_expected_revision c + 1 \<and> int x \<le> i64_max \<and> \<not> poisoned d"
  using assms unfolding change_secret_lifecycle_def guarded_Inr
  by (elim exE conjE, simp only: prod.case split_beta, elim audited_effect)
     (auto simp: result_simps lifecycle_where_def [abs_def] lifecycle_set_def [abs_def] add.commute)

definition tombstone_of :: "secret_purge \<Rightarrow> secret_row \<Rightarrow> tombstone_row" where
  "tombstone_of p s = \<lparr>t_secret_id = sp_secret_id p, t_namespace_id = s_namespace_id s,
     t_name_index = s_name_index s, t_last_version = s_current s, t_purged = sp_purged_at p,
     t_cutoff = sp_retention_cutoff p\<rparr>"

lemma purge_secret_Inr:
  assumes "purge_secret p a d = (Inr x, d')"
  shows "\<exists>s del. tbl_find (\<lambda>s. s_id s = sp_secret_id p \<and>
         s_revision s = int (sp_expected_revision p) \<and> s_lifecycle s = ''deleted'') (secrets d) = Some s \<and>
     s_deleted s = Some del \<and> del \<le> sp_retention_cutoff p \<and>
     d' = logged a (d\<lparr>tombstones := tbl_insert (tombstone_of p s) (tombstones d),
         secret_versions := tbl_delete (\<lambda>v. v_secret_id v = sp_secret_id p) (secret_versions d),
         secrets := tbl_delete (\<lambda>s. s_id s = sp_secret_id p) (secrets d), purge_enabled := 0\<rparr>) \<and>
     tombstone_check (tombstone_of p s) \<and> unique_key t_secret_id (tombstones d') \<and>
     fk_current_version d' \<and> audit_appended a d d' \<and> \<not> poisoned d"
  using assms unfolding purge_secret_def guarded_Inr
  by (elim exE conjE audited_effect)
     (auto simp: result_simps Let_def sql_delete_guarded_def tombstone_of_def)

section \<open>The record mutations are audited\<close>

interpretation create_ns: audited_operation create_namespace
proof unfold_locales
  show "create_namespace i a d = (Inl e, d') \<Longrightarrow> d' = d" for i a d e d'
    unfolding create_namespace_def by (rule audited_Inl)
qed (use create_namespace_Inr in blast)

interpretation purge: audited_operation purge_secret
proof unfold_locales
  show "purge_secret i a d = (Inl e, d') \<Longrightarrow> d' = d" for i a d e d'
    unfolding purge_secret_def guarded_Inl by (blast dest: audited_Inl)
qed (use purge_secret_Inr in blast)

interpretation create_sec: audited_operation create_secret
proof unfold_locales
  show "create_secret i a d = (Inl e, d') \<Longrightarrow> d' = d" for i a d e d'
    unfolding create_secret_def by (rule audited_Inl)
qed (use create_secret_Inr in blast)

section \<open>Optimistic revisions\<close>

text \<open>
  A mutation of an existing row names the revision it was computed from.  The contract: it
  succeeds only against that revision, advances it by one, and leaves the revision of every
  other row alone.  \<open>optimistic_operation\<close> states it for any operation of the store;
  \<open>revisioned_operation\<close> for the audited ones, which are optimistic operations on the pair
  of the input and the event.
\<close>

locale optimistic_operation =
  fixes op :: "'i \<Rightarrow> db \<Rightarrow> (storage_error + 'o) \<times> db"
    and revision_of :: "'k \<Rightarrow> db \<Rightarrow> int option"
    and key :: "'i \<Rightarrow> 'k"
    and expected :: "'i \<Rightarrow> nat"
  assumes unchanged: "op i d = (Inl e, d') \<Longrightarrow> d' = d"
    and guards: "op i d = (Inr x, d') \<Longrightarrow> revision_of (key i) d = Some (int (expected i))"
    and advances: "op i d = (Inr x, d') \<Longrightarrow> revision_of (key i) d' = Some (int (expected i) + 1)"
    and isolates: "op i d = (Inr x, d') \<Longrightarrow> k \<noteq> key i \<Longrightarrow> revision_of k d' = revision_of k d"
begin

lemma stale_refused:
  assumes "revision_of (key i) d \<noteq> Some (int (expected i))"
  shows "\<exists>e. op i d = (Inl e, d)"
proof (cases "op i d")
  case (Pair r d')
  then show ?thesis using assms guards unchanged by (cases r) fastforce+
qed

lemma one_winner:
  assumes "op i d = (Inr x, d')" "key j = key i" "expected j \<le> expected i"
  shows "\<exists>e. op j d' = (Inl e, d')"
  using assms advances [OF assms(1)] by (intro stale_refused) simp

lemma revision_monotone:
  assumes "op i d = (r, d')" "revision_of k d = Some n"
  shows "\<exists>m. revision_of k d' = Some m \<and> n \<le> m"
proof (cases r)
  case (Inl e)
  then have "d' = d" using assms(1) unchanged by blast
  then show ?thesis using assms(2) by simp
next
  case (Inr x)
  then have ok: "op i d = (Inr x, d')" using assms(1) by simp
  show ?thesis
  proof (cases "k = key i")
    case True
    then show ?thesis using guards [OF ok] advances [OF ok] assms(2) by auto
  next
    case False
    then show ?thesis using isolates [OF ok False] assms(2) by auto
  qed
qed

end

locale revisioned_operation = audited_operation op
  for op :: "'i \<Rightarrow> audit_record \<Rightarrow> db \<Rightarrow> (storage_error + 'o) \<times> db" +
  fixes revision_of :: "'k \<Rightarrow> db \<Rightarrow> int option"
    and key :: "'i \<Rightarrow> 'k"
    and expected :: "'i \<Rightarrow> nat"
  assumes guards: "op i a d = (Inr x, d') \<Longrightarrow> revision_of (key i) d = Some (int (expected i))"
    and advances: "op i a d = (Inr x, d') \<Longrightarrow> revision_of (key i) d' = Some (int (expected i) + 1)"
    and isolates: "op i a d = (Inr x, d') \<Longrightarrow> k \<noteq> key i \<Longrightarrow> revision_of k d' = revision_of k d"

sublocale revisioned_operation \<subseteq> opt: optimistic_operation "\<lambda>(i, a). op i a" revision_of
  "\<lambda>(i, a). key i" "\<lambda>(i, a). expected i"
  using failure_unchanged guards advances isolates by unfold_locales (auto split: prod.splits)

context revisioned_operation
begin

lemma stale_refused:
  "revision_of (key i) d \<noteq> Some (int (expected i)) \<Longrightarrow> \<exists>e. op i a d = (Inl e, d)"
  using opt.stale_refused [of "(i, a)" d] by simp

lemma one_winner:
  "op i a d = (Inr x, d') \<Longrightarrow> key j = key i \<Longrightarrow> expected j \<le> expected i \<Longrightarrow>
   \<exists>e. op j b d' = (Inl e, d')"
  using opt.one_winner [of "(i, a)" d x d' "(j, b)"] by simp

lemma revision_monotone:
  "op i a d = (r, d') \<Longrightarrow> revision_of k d = Some n \<Longrightarrow> \<exists>m. revision_of k d' = Some m \<and> n \<le> m"
  using opt.revision_monotone [of "(i, a)" d r d' k n] by simp

end

definition namespace_revision :: "uuid \<Rightarrow> db \<Rightarrow> int option" where
  "namespace_revision i d = map_option n_revision (tbl_find (\<lambda>n. n_id n = i) (namespaces d))"

definition secret_revision :: "uuid \<Rightarrow> db \<Rightarrow> int option" where
  "secret_revision i d = map_option s_revision (tbl_find (\<lambda>s. s_id s = i) (secrets d))"

text \<open>A guarded single-row update seen through the revision lookup.\<close>

lemma revision_update:
  assumes "unique_key k (tbl_update p f t)" "tbl_count p t = 1"
    and "\<And>r. p r \<Longrightarrow> k r = v \<and> k (f r) = v \<and> rv r = n \<and> rv (f r) = n'"
  shows "map_option rv (tbl_find (\<lambda>r. k r = v) t) = Some n"
    and "map_option rv (tbl_find (\<lambda>r. k r = v) (tbl_update p f t)) = Some n'"
    and "w \<noteq> v \<Longrightarrow> tbl_find (\<lambda>r. k r = w) (tbl_update p f t) = tbl_find (\<lambda>r. k r = w) t"
proof -
  have "unique_key k t" using assms(1,3) by (subst (asm) unique_key_update_iff) auto
  then obtain r where r: "p r" "tbl_find (\<lambda>r. k r = v) t = Some r"
    "\<And>w. tbl_find (\<lambda>r. k r = w) (tbl_update p f t) =
          (if w = v then Some (f r) else tbl_find (\<lambda>r. k r = w) t)"
    using update_one [of k t p v f] assms(2,3) by metis
  show "map_option rv (tbl_find (\<lambda>r. k r = v) t) = Some n" using r assms(3) by simp
  show "map_option rv (tbl_find (\<lambda>r. k r = v) (tbl_update p f t)) = Some n'"
    using r assms(3) by simp
  show "w \<noteq> v \<Longrightarrow> tbl_find (\<lambda>r. k r = w) (tbl_update p f t) = tbl_find (\<lambda>r. k r = w) t"
    using r(3) by simp
qed

interpretation move_ns: revisioned_operation move_namespace namespace_revision nm_namespace_id
  nm_expected_revision
proof unfold_locales
  show "move_namespace i a d = (Inl e, d') \<Longrightarrow> d' = d" for i a d e d'
    unfolding move_namespace_def guarded_Inl by (blast dest: audited_Inl)
  show "move_namespace i a d = (Inr x, d') \<Longrightarrow> audit_appended a d d'" for i a d x d'
    using move_namespace_Inr by blast
  fix i a d x d' k
  assume "move_namespace i a d = (Inr x, d')"
  note eff = move_namespace_Inr [OF this]
  let ?t = "tbl_update (move_where i) (move_set i) (namespaces d)"
  have t: "namespaces d' = ?t" and one: "tbl_count (move_where i) (namespaces d) = 1"
    and u: "unique_key n_id ?t" using eff by (auto simp: namespaces_unique_def)
  have upd: "move_where i r \<Longrightarrow> n_id r = nm_namespace_id i \<and> n_id (move_set i r) = nm_namespace_id i \<and>
      n_revision r = int (nm_expected_revision i) \<and>
      n_revision (move_set i r) = int (nm_expected_revision i) + 1" for r
    by (simp add: move_where_def move_set_def)
  note rules = revision_update [of n_id "move_where i" "move_set i" "namespaces d", OF u one upd]
  show "namespace_revision (nm_namespace_id i) d = Some (int (nm_expected_revision i))"
    using rules(1) by (simp add: namespace_revision_def)
  show "namespace_revision (nm_namespace_id i) d' = Some (int (nm_expected_revision i) + 1)"
    using rules(2) by (simp add: namespace_revision_def t)
  show "k \<noteq> nm_namespace_id i \<Longrightarrow> namespace_revision k d' = namespace_revision k d"
    using rules(3) by (simp add: namespace_revision_def t)
qed

interpretation lifecycle: revisioned_operation change_secret_lifecycle secret_revision lc_secret_id
  lc_expected_revision
proof unfold_locales
  show "change_secret_lifecycle i a d = (Inl e, d') \<Longrightarrow> d' = d" for i a d e d'
    unfolding change_secret_lifecycle_def guarded_Inl by (auto dest: audited_Inl split: prod.splits)
  show "change_secret_lifecycle i a d = (Inr x, d') \<Longrightarrow> audit_appended a d d'" for i a d x d'
    using change_secret_lifecycle_Inr by blast
  fix i a d x d' k
  assume "change_secret_lifecycle i a d = (Inr x, d')"
  note eff = change_secret_lifecycle_Inr [OF this]
  let ?t = "tbl_update (lifecycle_where i) (lifecycle_set i) (secrets d)"
  have t: "secrets d' = ?t" and one: "tbl_count (lifecycle_where i) (secrets d) = 1"
    and u: "unique_key s_id ?t" using eff by (auto simp: secrets_unique_def)
  have upd: "lifecycle_where i r \<Longrightarrow> s_id r = lc_secret_id i \<and> s_id (lifecycle_set i r) = lc_secret_id i \<and>
      s_revision r = int (lc_expected_revision i) \<and>
      s_revision (lifecycle_set i r) = int (lc_expected_revision i) + 1" for r
    by (simp add: lifecycle_where_def lifecycle_set_def)
  note rules = revision_update [of s_id "lifecycle_where i" "lifecycle_set i" "secrets d", OF u one upd]
  show "secret_revision (lc_secret_id i) d = Some (int (lc_expected_revision i))"
    using rules(1) by (simp add: secret_revision_def)
  show "secret_revision (lc_secret_id i) d' = Some (int (lc_expected_revision i) + 1)"
    using rules(2) by (simp add: secret_revision_def t)
  show "k \<noteq> lc_secret_id i \<Longrightarrow> secret_revision k d' = secret_revision k d"
    using rules(3) by (simp add: secret_revision_def t)
qed

interpretation append_ver: revisioned_operation append_secret_version secret_revision sv_secret_id
  sv_expected_revision
proof unfold_locales
  show "append_secret_version i a d = (Inl e, d') \<Longrightarrow> d' = d" for i a d e d'
    unfolding append_secret_version_def guarded_Inl by (auto dest: audited_Inl split: prod.splits)
  show "append_secret_version i a d = (Inr x, d') \<Longrightarrow> audit_appended a d d'" for i a d x d'
    using append_secret_version_Inr by blast
  fix i a d x d' k
  assume "append_secret_version i a d = (Inr x, d')"
  note eff = append_secret_version_Inr [OF this]
  let ?t = "tbl_update (append_where i) (append_set i) (secrets d)"
  have t: "secrets d' = ?t" and one: "tbl_count (append_where i) (secrets d) = 1"
    and u: "unique_key s_id ?t" using eff by (auto simp: secrets_unique_def)
  have upd: "append_where i r \<Longrightarrow> s_id r = sv_secret_id i \<and> s_id (append_set i r) = sv_secret_id i \<and>
      s_revision r = int (sv_expected_revision i) \<and>
      s_revision (append_set i r) = int (sv_expected_revision i) + 1" for r
    by (simp add: append_where_def append_set_def)
  note rules = revision_update [of s_id "append_where i" "append_set i" "secrets d", OF u one upd]
  show "secret_revision (sv_secret_id i) d = Some (int (sv_expected_revision i))"
    using rules(1) by (simp add: secret_revision_def)
  show "secret_revision (sv_secret_id i) d' = Some (int (sv_expected_revision i) + 1)"
    using rules(2) by (simp add: secret_revision_def t)
  show "k \<noteq> sv_secret_id i \<Longrightarrow> secret_revision k d' = secret_revision k d"
    using rules(3) by (simp add: secret_revision_def t)
qed

end
