(* ===== verification/Storage_Vault.thy ===== *)
theory Storage_Vault
  imports Storage_Records
begin

text \<open>
  Installation identity, the registry of wrapped keys and the initialization state machine
  of \<open>src/crates/smcv-storage/src/vault.rs\<close>.  An installation begins unready with its
  four keys, a restore additionally under a durable guard, and becomes ready only when the
  keys are registered; the generic activation cannot bypass the restore guard.
\<close>

section \<open>Data\<close>

datatype activation_state = Initializing | Ready | Maintenance | Failed

datatype key_kind = KeyEncryption | BlindIndex | Audit | TokenVerifier

datatype key_state = Active | Retiring | Retired

datatype initialization_disposition = Begun | Resumed | AlreadyReady

record installation_record =
  in_vault_id :: uuid
  in_installation_id :: uuid
  in_recovery_epoch :: nat
  in_activation_state :: activation_state
  in_active_kek_version :: "nat option"
  in_security_semantics_version :: nat

record wrapped_key_record =
  wk_kind :: key_kind
  wk_version :: nat
  wk_object_id :: uuid
  wk_wrapping_kek_version :: "nat option"
  wk_nonce :: bytes
  wk_ciphertext :: bytes

record registered_key =
  rk_wrapped :: wrapped_key_record
  rk_state :: key_state

record bootstrap_record =
  bs_vault_id :: uuid
  bs_installation_id :: uuid
  bs_initialized_at :: unix_ms
  bs_key_encryption_key :: wrapped_key_record
  bs_blind_index_key :: wrapped_key_record
  bs_audit_key :: wrapped_key_record
  bs_token_verifier_key :: wrapped_key_record

definition activation_state_parse :: "string \<Rightarrow> storage_error + activation_state" where
  "activation_state_parse v =
     (if v = ''initializing'' then Inr Initializing
      else if v = ''ready'' then Inr Ready
      else if v = ''maintenance'' then Inr Maintenance
      else if v = ''failed'' then Inr Failed
      else Inl InvalidData)"

definition key_state_parse :: "string \<Rightarrow> storage_error + key_state" where
  "key_state_parse v =
     (if v = ''active'' then Inr Active
      else if v = ''retiring'' then Inr Retiring
      else if v = ''retired'' then Inr Retired
      else Inl InvalidData)"

fun key_kind_as_str :: "key_kind \<Rightarrow> string" where
  "key_kind_as_str KeyEncryption = ''kek''"
| "key_kind_as_str BlindIndex = ''blind_index''"
| "key_kind_as_str Audit = ''audit''"
| "key_kind_as_str TokenVerifier = ''token_verifier''"

section \<open>Operations\<close>

definition parse_installation :: "installation_row \<Rightarrow> storage_error + installation_record" where
  "parse_installation r =
     rbind (parse_uuid (i_vault_id r)) (\<lambda>vault.
     rbind (parse_uuid (i_installation_id r)) (\<lambda>installation.
     rbind (ok_or InvalidData (u64_of_i64 (i_recovery_epoch r))) (\<lambda>epoch.
     rbind (activation_state_parse (i_activation_state r)) (\<lambda>st.
     rbind (transpose_map (\<lambda>v. ok_or InvalidData (u32_of_i64 v)) (i_active_kek r)) (\<lambda>active.
     rbind (ok_or InvalidData (u32_of_i64 (i_semantics r))) (\<lambda>semantics.
     Inr \<lparr>in_vault_id = vault, in_installation_id = installation, in_recovery_epoch = epoch,
          in_activation_state = st, in_active_kek_version = active,
          in_security_semantics_version = semantics\<rparr>))))))"

definition installation :: "db \<Rightarrow> storage_error + installation_record option" where
  "installation = query (\<lambda>d. transpose_map parse_installation (installation_state d))"

definition parse_wrapped_key :: "key_kind \<Rightarrow> nat \<Rightarrow> key_row \<Rightarrow> storage_error + wrapped_key_record" where
  "parse_wrapped_key kind version row =
     rbind (parse_uuid (k_object_id row)) (\<lambda>object_id.
     rbind (try_into_array 24 InvalidData (k_nonce row)) (\<lambda>nonce.
     rbind (try_into_array 48 InvalidData (k_wrapped row)) (\<lambda>ciphertext.
     rbind (transpose_map (\<lambda>v. ok_or InvalidData (u32_of_i64 v)) (k_wrapping row)) (\<lambda>wrapping.
     Inr \<lparr>wk_kind = kind, wk_version = version, wk_object_id = object_id,
          wk_wrapping_kek_version = wrapping, wk_nonce = nonce, wk_ciphertext = ciphertext\<rparr>))))"

definition wrapped_key :: "key_kind \<Rightarrow> nat \<Rightarrow> db \<Rightarrow> storage_error + wrapped_key_record" where
  "wrapped_key kind version =
     query (\<lambda>d. rbind (ok_or NotInitialized (tbl_find (\<lambda>k. k_kind k = key_kind_as_str kind \<and>
         k_version k = int version) (key_registry d)))
       (parse_wrapped_key kind version))"

definition parse_registered_key :: "key_kind \<Rightarrow> key_row \<Rightarrow> storage_error + registered_key" where
  "parse_registered_key kind row =
     rbind (ok_or InvalidData (u32_of_i64 (k_version row))) (\<lambda>version.
     rbind (parse_wrapped_key kind version row) (\<lambda>wrapped.
     rbind (key_state_parse (k_state row)) (\<lambda>st.
     Inr \<lparr>rk_wrapped = wrapped, rk_state = st\<rparr>)))"

definition registered_keys :: "key_kind \<Rightarrow> db \<Rightarrow> storage_error + registered_key list" where
  "registered_keys kind =
     query (\<lambda>d. traverse (parse_registered_key kind)
       (sort_key k_version (tbl_select (\<lambda>k. k_kind k = key_kind_as_str kind) (key_registry d))))"

definition validate_bootstrap :: "bootstrap_record \<Rightarrow> storage_error + unit" where
  "validate_bootstrap b =
     rbind (ensure (wk_kind (bs_key_encryption_key b) = KeyEncryption \<and>
                    wk_version (bs_key_encryption_key b) = 1 \<and>
                    wk_wrapping_kek_version (bs_key_encryption_key b) = None \<and>
                    wk_kind (bs_blind_index_key b) = BlindIndex \<and>
                    wk_kind (bs_audit_key b) = Audit \<and>
                    wk_kind (bs_token_verifier_key b) = TokenVerifier) StateConflict) (\<lambda>_.
     ensure (list_all (\<lambda>k. wk_version k = 1 \<and> wk_wrapping_kek_version k = Some 1)
       [bs_blind_index_key b, bs_audit_key b, bs_token_verifier_key b]) StateConflict)"

definition bootstrap_keys :: "bootstrap_record \<Rightarrow> wrapped_key_record list" where
  "bootstrap_keys b = [bs_key_encryption_key b, bs_blind_index_key b, bs_audit_key b,
     bs_token_verifier_key b]"

text \<open>The comparison loop returns at the first difference.\<close>

fun keys_match :: "wrapped_key_record list \<Rightarrow> db \<Rightarrow> storage_error + bool" where
  "keys_match [] d = Inr True"
| "keys_match (e # es) d =
     rbind (wrapped_key (wk_kind e) (wk_version e) d) (\<lambda>a.
       if wk_object_id a \<noteq> wk_object_id e \<or>
          wk_wrapping_kek_version a \<noteq> wk_wrapping_kek_version e \<or>
          wk_nonce a \<noteq> wk_nonce e \<or> wk_ciphertext a \<noteq> wk_ciphertext e
       then Inr False else keys_match es d)"

definition bootstrap_matches :: "bootstrap_record \<Rightarrow> db \<Rightarrow> storage_error + bool" where
  "bootstrap_matches b = keys_match (bootstrap_keys b)"

definition key_row_of :: "wrapped_key_record \<Rightarrow> unix_ms \<Rightarrow> key_row" where
  "key_row_of k created =
     \<lparr>k_kind = key_kind_as_str (wk_kind k), k_version = int (wk_version k),
      k_object_id = wk_object_id k, k_wrapping = map_option int (wk_wrapping_kek_version k),
      k_nonce = wk_nonce k, k_wrapped = wk_ciphertext k, k_state = ''active'', k_created = created\<rparr>"

definition insert_key :: "wrapped_key_record \<Rightarrow> unix_ms \<Rightarrow> db \<Rightarrow> storage_error + db" where
  "insert_key k created d =
     rbind (sql_insert key_check keys_unique (key_row_of k created) (key_registry d)) (\<lambda>t.
     Inr (d\<lparr>key_registry := t\<rparr>))"

definition installation_row_of :: "bootstrap_record \<Rightarrow> installation_row" where
  "installation_row_of b =
     \<lparr>i_vault_id = bs_vault_id b, i_installation_id = bs_installation_id b, i_recovery_epoch = 0,
      i_initialized_at = bs_initialized_at b, i_activation_state = ''initializing'',
      i_active_kek = None, i_semantics = 1\<rparr>"

text \<open>The transaction that records a new installation; \<open>CREATE TABLE\<close> fails when the guard
  table exists.\<close>

definition insert_installation :: "bootstrap_record \<Rightarrow> bool \<Rightarrow> db \<Rightarrow>
    storage_error + (initialization_disposition \<times> db)" where
  "insert_installation b restore d =
     rbind (ensure (installation_state d = None \<and> installation_check (installation_row_of b)) Sqlite) (\<lambda>_.
     rbind (try_fold (\<lambda>d k. insert_key k (bs_initialized_at b) d)
       (d\<lparr>installation_state := Some (installation_row_of b)\<rparr>) (bootstrap_keys b)) (\<lambda>d1.
     if restore
     then rbind (ensure (restore_guard d1 = None) Sqlite) (\<lambda>_. Inr (Begun, d1\<lparr>restore_guard := Some 1\<rparr>))
     else Inr (Begun, d1)))"

definition begin_initialization_kind :: "bootstrap_record \<Rightarrow> bool \<Rightarrow> db \<Rightarrow>
    (storage_error + initialization_disposition) \<times> db" where
  "begin_initialization_kind b restore d =
     (case rbind (validate_bootstrap b) (\<lambda>_. installation d) of
        Inl e \<Rightarrow> (Inl e, d)
      | Inr (Some existing) \<Rightarrow>
          (rbind (if in_vault_id existing \<noteq> bs_vault_id b \<or>
                     in_installation_id existing \<noteq> bs_installation_id b then Inr False
                  else bootstrap_matches b d) (\<lambda>same.
           rbind (ensure same StateConflict) (\<lambda>_.
           case in_activation_state existing of
             Initializing \<Rightarrow> Inr Resumed
           | Ready \<Rightarrow> Inr AlreadyReady
           | Maintenance \<Rightarrow> Inl StateConflict
           | Failed \<Rightarrow> Inl StateConflict)), d)
      | Inr None \<Rightarrow> transaction (insert_installation b restore) d)"

definition begin_initialization :: "bootstrap_record \<Rightarrow> db \<Rightarrow>
    (storage_error + initialization_disposition) \<times> db" where
  "begin_initialization b = begin_initialization_kind b False"

definition begin_restore_initialization :: "bootstrap_record \<Rightarrow> db \<Rightarrow>
    (storage_error + initialization_disposition) \<times> db" where
  "begin_restore_initialization b = begin_initialization_kind b True"

definition guard_rows :: "db \<Rightarrow> nat" where
  "guard_rows d = (case restore_guard d of None \<Rightarrow> 0 | Some n \<Rightarrow> n)"

definition required_key :: "nat \<Rightarrow> key_row \<Rightarrow> bool" where
  "required_key kek k =
     (k_state k = ''active'' \<and>
      ((k_kind k = ''kek'' \<and> k_version k = int kek) \<or>
       (k_kind k \<in> {''blind_index'', ''audit'', ''token_verifier''} \<and> k_wrapping k = Some (int kek))))"

definition activate_initialization_kind :: "nat \<Rightarrow> bool \<Rightarrow> db \<Rightarrow> (storage_error + unit) \<times> db" where
  "activate_initialization_kind kek restore =
     transaction (\<lambda>d.
       rbind (ensure (restore = (guard_rows d = 1)) StateConflict) (\<lambda>_.
       rbind (ok_or NotInitialized (installation_state d)) (\<lambda>row.
       if i_activation_state row = ''ready''
       then rbind (ok_or Sqlite (i_active_kek row)) (\<lambda>active.
            rbind (ensure (active = int kek) StateConflict) (\<lambda>_. Inr ((), d)))
       else
         rbind (ensure (i_activation_state row = ''initializing'') StateConflict) (\<lambda>_.
         rbind (ensure (tbl_count (required_key kek) (key_registry d) = 4) StateConflict) (\<lambda>_.
         let row' = row\<lparr>i_activation_state := ''ready'', i_active_kek := Some (int kek)\<rparr> in
         rbind (ensure (installation_check row') Sqlite) (\<lambda>_.
         let d1 = d\<lparr>installation_state := Some row'\<rparr> in
         Inr ((), if restore then d1\<lparr>restore_guard := map_option (\<lambda>_. 0) (restore_guard d1)\<rparr>
                  else d1)))))))"

definition activate_initialization :: "nat \<Rightarrow> db \<Rightarrow> (storage_error + unit) \<times> db" where
  "activate_initialization kek = activate_initialization_kind kek False"

definition activate_restored_initialization :: "nat \<Rightarrow> db \<Rightarrow> (storage_error + unit) \<times> db" where
  "activate_restored_initialization kek = activate_initialization_kind kek True"

section \<open>Lemmas\<close>

lemma key_kind_as_str_inject: "key_kind_as_str a = key_kind_as_str b \<longleftrightarrow> a = b"
  by (cases a; cases b; simp)

lemma activation_state_parse_Inr [result_simps]:
  "activation_state_parse v = Inr s \<longleftrightarrow>
     v = (case s of Initializing \<Rightarrow> ''initializing'' | Ready \<Rightarrow> ''ready''
          | Maintenance \<Rightarrow> ''maintenance'' | Failed \<Rightarrow> ''failed'')"
  by (cases s) (auto simp: activation_state_parse_def split: if_splits)

lemma begin_failure_unchanged:
  "begin_initialization_kind b r d = (Inl e, d') \<Longrightarrow> d' = d"
  by (auto simp: begin_initialization_kind_def split: sum.splits option.splits
      dest: transaction_Inl)

lemma activate_failure_unchanged: "activate_initialization_kind k r d = (Inl e, d') \<Longrightarrow> d' = d"
  unfolding activate_initialization_kind_def by (rule transaction_Inl)

lemma insert_key_fold:
  assumes "try_fold (\<lambda>d k. insert_key k c d) d ks = Inr d'"
  shows "d' = d\<lparr>key_registry := fold (\<lambda>k. tbl_insert (key_row_of k c)) ks (key_registry d)\<rparr> \<and>
     (ks \<noteq> [] \<longrightarrow> keys_unique (key_registry d')) \<and> list_all (\<lambda>k. key_check (key_row_of k c)) ks"
  using assms
proof (induction ks arbitrary: d)
  case Nil
  then show ?case by simp
next
  case (Cons k ks)
  let ?d1 = "d\<lparr>key_registry := tbl_insert (key_row_of k c) (key_registry d)\<rparr>"
  have "key_check (key_row_of k c)" "keys_unique (key_registry ?d1)"
    and rest: "try_fold (\<lambda>d k. insert_key k c d) ?d1 ks = Inr d'"
    using Cons.prems by (auto simp: insert_key_def result_simps)
  moreover note Cons.IH [OF rest]
  ultimately show ?case by (cases ks) auto
qed

lemma restore_guard_same [simp]: "d\<lparr>restore_guard := restore_guard d\<rparr> = d"
  by (cases d) simp

lemma installation_query:
  "installation d = Inr m \<Longrightarrow> (m = None) = (installation_state d = None)"
  by (auto simp: installation_def result_simps transpose_map_def split: option.splits)

lemma begin_Begun:
  assumes "begin_initialization_kind b r d = (Inr Begun, d')"
  shows "validate_bootstrap b = Inr () \<and> installation_state d = None \<and> \<not> poisoned d \<and>
     d' = d\<lparr>installation_state := Some (installation_row_of b),
        key_registry := fold (\<lambda>k. tbl_insert (key_row_of k (bs_initialized_at b))) (bootstrap_keys b) (key_registry d),
        restore_guard := (if r then Some 1 else restore_guard d)\<rparr> \<and>
     keys_unique (key_registry d') \<and> installation_check (installation_row_of b) \<and>
     list_all (\<lambda>k. key_check (key_row_of k (bs_initialized_at b))) (bootstrap_keys b) \<and>
     (r \<longrightarrow> restore_guard d = None)"
proof -
  obtain m where m: "validate_bootstrap b = Inr ()" "installation d = Inr m"
    using assms by (auto simp: begin_initialization_kind_def split: sum.splits simp: result_simps)
  have none: "m = None"
  proof (cases m)
    case (Some ex)
    then show ?thesis using assms m
      by (auto simp: begin_initialization_kind_def result_simps split: activation_state.splits)
  qed simp
  then have "transaction (insert_installation b r) d = (Inr Begun, d')"
    using assms m by (simp add: begin_initialization_kind_def)
  then have ins: "\<not> poisoned d" "insert_installation b r d = Inr (Begun, d')"
    by (auto simp: tx_simps)
  obtain d1 where "installation_state d = None" "installation_check (installation_row_of b)"
    and fold: "try_fold (\<lambda>d k. insert_key k (bs_initialized_at b) d)
       (d\<lparr>installation_state := Some (installation_row_of b)\<rparr>) (bootstrap_keys b) = Inr d1"
    and rest: "(if r then rbind (ensure (restore_guard d1 = None) Sqlite)
           (\<lambda>_. Inr (Begun, d1\<lparr>restore_guard := Some 1\<rparr>)) else Inr (Begun, d1)) = Inr (Begun, d')"
    using ins(2) unfolding insert_installation_def rbind_eq_Inr ensure_eq_Inr by blast
  note eff = insert_key_fold [OF fold]
  have d': "d' = d1\<lparr>restore_guard := (if r then Some 1 else restore_guard d1)\<rparr>"
    "r \<longrightarrow> restore_guard d1 = None"
    using rest by (cases r; auto simp: result_simps)+
  have "bootstrap_keys b \<noteq> []" by (simp add: bootstrap_keys_def)
  then show ?thesis
    using eff d' m(1) ins(1) \<open>installation_state d = None\<close> \<open>installation_check (installation_row_of b)\<close>
    by (elim conjE) simp
qed

lemma activate_Inr:
  assumes "activate_initialization_kind kek r d = (Inr x, d')"
  shows "\<not> poisoned d \<and> r = (guard_rows d = 1) \<and> (\<exists>row. installation_state d = Some row \<and>
     (if i_activation_state row = ''ready'' then i_active_kek row = Some (int kek) \<and> d' = d
      else i_activation_state row = ''initializing'' \<and>
        tbl_count (required_key kek) (key_registry d) = 4 \<and>
        d' = d\<lparr>installation_state := Some (row\<lparr>i_activation_state := ''ready'', i_active_kek := Some (int kek)\<rparr>),
               restore_guard := (if r then map_option (\<lambda>_. 0) (restore_guard d) else restore_guard d)\<rparr>))"
  using assms unfolding activate_initialization_kind_def tx_simps
  by (auto simp: result_simps Let_def split: if_splits)

section \<open>Resuming and activating what was begun\<close>

lemma rows_fold_insert: "rows (fold (\<lambda>k. tbl_insert (g k)) ks t) = rows t @ map g ks"
  by (induction ks arbitrary: t) auto

lemma begin_wrapped_key:
  assumes "begin_initialization_kind b r d = (Inr Begun, d')" "k \<in> set (bootstrap_keys b)"
  shows "wrapped_key (wk_kind k) (wk_version k) d' = Inr k"
proof -
  note eff = begin_Begun [OF assms(1)]
  let ?row = "key_row_of k (bs_initialized_at b)"
  have "?row \<in> set (rows (key_registry d'))"
    using eff assms(2) by (auto simp: rows_fold_insert)
  moreover have "unique_key (\<lambda>r. (k_kind r, k_version r)) (key_registry d')"
    using eff unfolding keys_unique_def by blast
  ultimately have "tbl_find (\<lambda>r. (k_kind r, k_version r) = (k_kind ?row, k_version ?row)) (key_registry d') = Some ?row"
    using unique_key_find by fast
  then have find: "tbl_find (\<lambda>r. k_kind r = key_kind_as_str (wk_kind k) \<and> k_version r = int (wk_version k))
      (key_registry d') = Some ?row"
    by (simp add: key_row_of_def)
  have "key_check ?row" using eff assms(2) by (auto simp: list_all_iff)
  moreover have "wk_wrapping_kek_version k \<in> {None, Some 1}"
    using eff assms(2) by (auto simp: validate_bootstrap_def bootstrap_keys_def result_simps)
  ultimately have "parse_wrapped_key (wk_kind k) (wk_version k) ?row = Inr k"
    by (auto simp: parse_wrapped_key_def key_row_of_def key_check_def parse_uuid_def u32_of_i64_def u32_max_def)
  moreover have "\<not> poisoned d'" using eff by auto
  ultimately show ?thesis using find by (simp add: wrapped_key_def query_def lock_def)
qed

lemma keys_match_all:
  "(\<And>k. k \<in> set ks \<Longrightarrow> wrapped_key (wk_kind k) (wk_version k) d = Inr k) \<Longrightarrow> keys_match ks d = Inr True"
  by (induction ks) auto

lemma begin_installation:
  assumes "begin_initialization_kind b r d = (Inr Begun, d')"
  shows "installation d' = Inr (Some \<lparr>in_vault_id = bs_vault_id b, in_installation_id = bs_installation_id b,
     in_recovery_epoch = 0, in_activation_state = Initializing, in_active_kek_version = None,
     in_security_semantics_version = 1\<rparr>)"
proof -
  note eff = begin_Begun [OF assms]
  have "\<not> poisoned d'" "installation_state d' = Some (installation_row_of b)"
    "installation_check (installation_row_of b)" using eff by auto
  then show ?thesis
    by (auto simp: installation_def query_def lock_def parse_installation_def installation_row_of_def
        installation_check_def parse_uuid_def activation_state_parse_def u32_of_i64_def u32_max_def
        u64_of_i64_def i64_max_def)
qed

lemma begin_resumes:
  assumes "begin_initialization_kind b r d = (Inr Begun, d')"
  shows "begin_initialization_kind b r' d' = (Inr Resumed, d')"
proof -
  have "validate_bootstrap b = Inr ()" using begin_Begun [OF assms] by blast
  moreover have "bootstrap_matches b d' = Inr True"
    unfolding bootstrap_matches_def using begin_wrapped_key [OF assms] by (rule keys_match_all)
  ultimately show ?thesis
    using begin_installation [OF assms] by (simp add: begin_initialization_kind_def)
qed

lemma begin_commits:
  assumes "begin_initialization_kind b r d = (Inr Begun, d')"
  shows "fk_current_version d'"
  using assms unfolding begin_initialization_kind_def
  by (auto simp: transaction_Inr result_simps split: sum.splits option.splits activation_state.splits)

lemma begin_activates:
  assumes "begin_initialization_kind b r d = (Inr Begun, d')" "key_registry d = []" "guard_rows d = 0"
  shows "\<exists>d''. activate_initialization_kind 1 r d' = (Inr (), d'') \<and>
     installation d'' = Inr (Some \<lparr>in_vault_id = bs_vault_id b, in_installation_id = bs_installation_id b,
       in_recovery_epoch = 0, in_activation_state = Ready, in_active_kek_version = Some 1,
       in_security_semantics_version = 1\<rparr>)"
proof -
  note eff = begin_Begun [OF assms(1)]
  have fk: "fk_current_version d'" using assms(1) by (rule begin_commits)
  have ks: "rows (key_registry d') = map (\<lambda>k. key_row_of k (bs_initialized_at b)) (bootstrap_keys b)"
    using eff assms(2) by (simp add: rows_fold_insert)
  have v: "validate_bootstrap b = Inr ()" using eff by blast
  have four: "tbl_count (required_key 1) (key_registry d') = 4"
    using v unfolding tbl_count_def tbl_select_def ks
    by (auto simp: bootstrap_keys_def required_key_def key_row_of_def validate_bootstrap_def result_simps)
  have guard: "r = (guard_rows d' = 1)"
    using eff assms(3) by (cases r) (auto simp: guard_rows_def)
  let ?row = "(installation_row_of b)\<lparr>i_activation_state := ''ready'', i_active_kek := Some 1\<rparr>"
  let ?d'' = "d'\<lparr>installation_state := Some ?row,
      restore_guard := (if r then map_option (\<lambda>_. 0) (restore_guard d') else restore_guard d')\<rparr>"
  have chk: "installation_check ?row" "installation_state d' = Some (installation_row_of b)" "\<not> poisoned d'"
    using eff by (auto simp: installation_check_def installation_row_of_def is_none_or_def)
  have "activate_initialization_kind 1 r d' = (Inr (), ?d'')"
    unfolding activate_initialization_kind_def tx_simps
    using chk four guard fk
    by (auto simp: Let_def installation_row_of_def fk_current_version_def)
  moreover have "installation ?d'' = Inr (Some \<lparr>in_vault_id = bs_vault_id b, in_installation_id = bs_installation_id b,
       in_recovery_epoch = 0, in_activation_state = Ready, in_active_kek_version = Some 1,
       in_security_semantics_version = 1\<rparr>)"
    using chk
    by (auto simp: installation_def query_def lock_def parse_installation_def installation_row_of_def
        installation_check_def parse_uuid_def activation_state_parse_def u32_of_i64_def u32_max_def
        u64_of_i64_def i64_max_def)
  ultimately show ?thesis by blast
qed

lemma restore_guard_blocks:
  assumes "begin_restore_initialization b d = (Inr Begun, d')"
  shows "activate_initialization kek d' = (Inl StateConflict, d')"
proof -
  have "guard_rows d' = 1" "\<not> poisoned d'"
    using begin_Begun assms unfolding begin_restore_initialization_def by (fastforce simp: guard_rows_def)+
  then show ?thesis
    by (simp add: activate_initialization_def activate_initialization_kind_def transaction_def lock_def)
qed

end
