(* ===== verification/App_Codec.thy ===== *)
theory App_Codec
  imports Crypto_Adapter Storage_Vault
begin

text \<open>
  The value-level part of \<open>src/crates/smcv-app/src/vault_core.rs\<close>: the errors of the vault
  domain, validation and the binary form of protected metadata, and the canonical state
  bytes that the state commitments authenticate.  The metadata form round trips on every
  valid input, and the canonical state bytes determine the state.
\<close>

section \<open>Errors and limits\<close>

datatype vault_error = InvalidInput | NotFound | Conflict | Integrity | Unavailable

fun map_crypto :: "crypto_error \<Rightarrow> vault_error" where
  "map_crypto crypto_error.Integrity = Integrity"
| "map_crypto InvalidProtectedInput = InvalidInput"
| "map_crypto InvalidCredential = InvalidInput"
| "map_crypto Randomness = Unavailable"
| "map_crypto KeyProvider = Unavailable"

fun map_storage :: "storage_error \<Rightarrow> vault_error" where
  "map_storage storage_error.Conflict = Conflict"
| "map_storage StateConflict = Conflict"
| "map_storage NotInitialized = NotFound"
| "map_storage InvalidData = Integrity"
| "map_storage Sqlite = Unavailable"
| "map_storage Poisoned = Unavailable"
| "map_storage DestinationExists = Unavailable"
| "map_storage UnsafePath = Unavailable"
| "map_storage MigrationMismatch = Unavailable"

definition MAX_NAME_BYTES :: nat where "MAX_NAME_BYTES = 256"
definition MAX_DESCRIPTION_BYTES :: nat where "MAX_DESCRIPTION_BYTES = 4096"
definition MAX_USERNAME_BYTES :: nat where "MAX_USERNAME_BYTES = 256"
definition MAX_TAG_BYTES :: nat where "MAX_TAG_BYTES = 64"
definition MAX_TAGS :: nat where "MAX_TAGS = 32"
definition MAX_NAMESPACE_DEPTH :: nat where "MAX_NAMESPACE_DEPTH = 32"
definition MAX_SECRET_BYTES :: nat where "MAX_SECRET_BYTES = 16 * 1024 * 1024"

definition METADATA_MAGIC :: bytes where "METADATA_MAGIC = ascii ''SMCVMD02''"

lemmas metadata_limits = MAX_NAME_BYTES_def MAX_DESCRIPTION_BYTES_def MAX_USERNAME_BYTES_def
  MAX_TAG_BYTES_def MAX_TAGS_def

section \<open>Metadata\<close>

text \<open>\<open>MetadataInput\<close> and \<open>DecryptedMetadata\<close> have the same fields; a protected string is its
  UTF-8 bytes.\<close>

record metadata =
  md_name :: bytes
  md_description :: "bytes option"
  md_username :: "bytes option"
  md_tags :: "bytes list"

definition validate_metadata :: "metadata \<Rightarrow> vault_error + unit" where
  "validate_metadata m =
     ensure (\<not> (md_name m = [] \<or> MAX_NAME_BYTES < length (md_name m) \<or> any_control (md_name m) \<or>
        \<not> is_none_or (\<lambda>d. length d \<le> MAX_DESCRIPTION_BYTES) (md_description m) \<or>
        \<not> is_none_or (\<lambda>u. length u \<le> MAX_USERNAME_BYTES \<and> \<not> any_control u) (md_username m) \<or>
        MAX_TAGS < length (md_tags m) \<or>
        list_ex (\<lambda>t. t = [] \<or> MAX_TAG_BYTES < length t \<or> any_control t) (md_tags m))) InvalidInput"

definition validate_secret :: "bytes \<Rightarrow> vault_error + unit" where
  "validate_secret b = ensure (\<not> (b = [] \<or> MAX_SECRET_BYTES < length b)) InvalidInput"

definition encode_tag :: "bytes \<Rightarrow> vault_error + bytes" where
  "encode_tag t = rbind (ensure (length t \<le> u16_max) InvalidInput) (\<lambda>_. Inr (be_bytes 2 (length t) @ t))"

definition opt_bytes :: "bytes option \<Rightarrow> bytes" where
  "opt_bytes m = (case m of None \<Rightarrow> [] | Some b \<Rightarrow> b)"

text \<open>The chain of \<open>checked_add\<close> for the capacity fails exactly when the total leaves \<open>usize\<close>.\<close>

definition encode_metadata :: "metadata \<Rightarrow> byte \<Rightarrow> vault_error + bytes" where
  "encode_metadata m kind =
     rbind (ensure (length (md_name m) \<le> u16_max) InvalidInput) (\<lambda>_.
     rbind (ensure (is_none_or (\<lambda>d. length d \<le> u32_max) (md_description m)) InvalidInput) (\<lambda>_.
     rbind (ensure (is_none_or (\<lambda>u. length u \<le> u16_max) (md_username m)) InvalidInput) (\<lambda>_.
     rbind (ensure (length (md_tags m) \<le> 255) InvalidInput) (\<lambda>_.
     rbind (ensure (18 + length (md_name m) + length (opt_bytes (md_description m)) +
        length (opt_bytes (md_username m)) + sum_list (map (\<lambda>t. 2 + length t) (md_tags m)) \<le> u64_max)
        InvalidInput) (\<lambda>_.
     rbind (traverse encode_tag (md_tags m)) (\<lambda>tags.
     Inr (METADATA_MAGIC @ [kind] @ be_bytes 2 (length (md_name m)) @
       be_bytes 4 (case md_description m of None \<Rightarrow> u32_max | Some d \<Rightarrow> length d) @
       be_bytes 2 (case md_username m of None \<Rightarrow> u16_max | Some u \<Rightarrow> length u) @
       [word_of_nat (length (md_tags m))] @
       md_name m @ opt_bytes (md_description m) @ opt_bytes (md_username m) @ concat tags)))))))"

text \<open>\<open>slice::get(a..b)\<close>.\<close>

definition get_range :: "bytes \<Rightarrow> nat \<Rightarrow> nat \<Rightarrow> bytes option" where
  "get_range bs a b = (if a \<le> b \<and> b \<le> length bs then Some (take (b - a) (drop a bs)) else None)"

definition read_metadata_string :: "bytes \<Rightarrow> nat \<Rightarrow> nat \<Rightarrow> nat \<Rightarrow> bool \<Rightarrow> vault_error + (bytes \<times> nat)" where
  "read_metadata_string bs pos len maximum require_nonempty =
     rbind (ensure (\<not> (maximum < len \<or> (require_nonempty \<and> len = 0))) Integrity) (\<lambda>_.
     rbind (ok_or Integrity (checked_add_u64 pos len)) (\<lambda>end_pos.
     rbind (ok_or Integrity (get_range bs pos end_pos)) (\<lambda>value.
     rbind (ok_or Integrity (protected_from_utf8 value)) (\<lambda>text.
     Inr (text, end_pos)))))"

definition read_optional :: "bytes \<Rightarrow> nat \<Rightarrow> nat option \<Rightarrow> nat \<Rightarrow> vault_error + (bytes option \<times> nat)" where
  "read_optional bs pos len maximum =
     (case len of None \<Rightarrow> Inr (None, pos)
      | Some n \<Rightarrow> rbind (read_metadata_string bs pos n maximum False) (\<lambda>(v, c). Inr (Some v, c)))"

fun read_tags :: "bytes \<Rightarrow> nat \<Rightarrow> nat \<Rightarrow> vault_error + (bytes list \<times> nat)" where
  "read_tags bs pos 0 = Inr ([], pos)"
| "read_tags bs pos (Suc n) =
     rbind (ok_or Integrity (checked_add_u64 pos 2)) (\<lambda>length_end.
     rbind (ok_or Integrity (get_range bs pos length_end)) (\<lambda>length_bytes.
     rbind (read_metadata_string bs length_end (from_be length_bytes) MAX_TAG_BYTES True) (\<lambda>(t, c).
     rbind (read_tags bs c n) (\<lambda>(ts, c'). Inr (t # ts, c')))))"

definition decode_metadata :: "bytes \<Rightarrow> byte \<Rightarrow> vault_error + metadata" where
  "decode_metadata bs expected_kind =
     rbind (ensure (\<not> (length bs < 18 \<or> take 8 bs \<noteq> METADATA_MAGIC \<or> bs ! 8 \<noteq> expected_kind)) Integrity) (\<lambda>_.
     let name_length = from_be (take 2 (drop 9 bs));
         description_raw = from_be (take 4 (drop 11 bs));
         description_length = (if description_raw = u32_max then None else Some description_raw);
         username_raw = from_be (take 2 (drop 15 bs));
         username_length = (if username_raw \<noteq> u16_max then Some username_raw else None);
         tag_count = unat (bs ! 17) in
     rbind (ensure (is_none_or (\<lambda>n. n \<le> MAX_DESCRIPTION_BYTES) description_length \<and>
        is_none_or (\<lambda>n. n \<le> MAX_USERNAME_BYTES) username_length \<and> tag_count \<le> MAX_TAGS) Integrity) (\<lambda>_.
     rbind (read_metadata_string bs 18 name_length MAX_NAME_BYTES True) (\<lambda>(name, c1).
     rbind (read_optional bs c1 description_length MAX_DESCRIPTION_BYTES) (\<lambda>(description, c2).
     rbind (read_optional bs c2 username_length MAX_USERNAME_BYTES) (\<lambda>(username, c3).
     rbind (read_tags bs c3 tag_count) (\<lambda>(tags, c4).
     rbind (ensure (c4 = length bs \<and> \<not> any_control name \<and> is_none_or (\<lambda>u. \<not> any_control u) username \<and>
        \<not> list_ex any_control tags) Integrity) (\<lambda>_.
     Inr \<lparr>md_name = name, md_description = description, md_username = username, md_tags = tags\<rparr>)))))))"

section \<open>Canonical state\<close>

definition lifecycle_code :: "string \<Rightarrow> vault_error + byte" where
  "lifecycle_code v =
     (if v = ''active'' then Inr 1 else if v = ''archived'' then Inr 2
      else if v = ''deleted'' then Inr 3 else if v = ''purged'' then Inr 4 else Inl Integrity)"

definition append_optional_timestamp :: "unix_ms option \<Rightarrow> bytes" where
  "append_optional_timestamp m =
     (case m of Some v \<Rightarrow> 1 # i64_be_bytes v | None \<Rightarrow> 0 # replicate 8 0)"

text \<open>The loaded vault: identities, the key ring behind its lock (absent when the lock is
  poisoned), the three purpose keys, whether the audit and the authorization gate can be taken,
  and the primitives.\<close>

record key_ring =
  kr_active_version :: nat
  kr_keys :: "nat \<rightharpoonup> bytes"

record vault =
  vt_lib :: crypto_lib
  vt_vault_id :: uuid
  vt_installation_id :: uuid
  vt_key_ring :: "key_ring option"
  vt_blind_index_key :: bytes
  vt_audit_key :: bytes
  vt_token_verifier_key :: bytes
  vt_audit_gate_ok :: bool
  vt_authorization_gate_ok :: bool

definition namespace_canonical :: "vault \<Rightarrow> uuid \<Rightarrow> uuid option \<Rightarrow> bytes \<Rightarrow> byte \<Rightarrow> nat \<Rightarrow> nat \<Rightarrow> bytes" where
  "namespace_canonical v i parent index code revision metadata_version =
     ascii ''SMCV-NS-STATE'' @ [0] @ ascii ''v1'' @ [0] @ vt_vault_id v @ vt_installation_id v @ i @
     (case parent of Some p \<Rightarrow> 1 # p | None \<Rightarrow> 0 # replicate 16 0) @ index @ [code] @
     be_bytes 8 revision @ be_bytes 8 metadata_version"

definition namespace_state_commitment :: "vault \<Rightarrow> uuid \<Rightarrow> uuid option \<Rightarrow> bytes \<Rightarrow> string \<Rightarrow> nat \<Rightarrow> nat \<Rightarrow>
    vault_error + bytes" where
  "namespace_state_commitment v i parent index lifecycle revision metadata_version =
     rbind (lifecycle_code lifecycle) (\<lambda>code.
     map_err map_crypto (state_commitment (vt_lib v) (vt_audit_key v)
       (namespace_canonical v i parent index code revision metadata_version)))"

definition secret_canonical :: "vault \<Rightarrow> uuid \<Rightarrow> uuid \<Rightarrow> bytes \<Rightarrow> byte \<Rightarrow> nat \<Rightarrow> nat \<Rightarrow> nat \<Rightarrow>
    secret_schedule \<Rightarrow> bytes" where
  "secret_canonical v i namespace_id index code current revision metadata_version schedule =
     ascii ''SMCV-SECRET-STATE'' @ [0] @ ascii ''v1'' @ [0] @ vt_vault_id v @ vt_installation_id v @ i @
     namespace_id @ index @ [code] @ be_bytes 8 current @ be_bytes 8 revision @
     be_bytes 8 metadata_version @ append_optional_timestamp (expires_at schedule) @
     append_optional_timestamp (rotation_due_at schedule)"

definition secret_state_commitment :: "vault \<Rightarrow> uuid \<Rightarrow> uuid \<Rightarrow> bytes \<Rightarrow> string \<Rightarrow> nat \<Rightarrow> nat \<Rightarrow> nat \<Rightarrow>
    secret_schedule \<Rightarrow> vault_error + bytes" where
  "secret_state_commitment v i namespace_id index lifecycle current revision metadata_version schedule =
     rbind (lifecycle_code lifecycle) (\<lambda>code.
     map_err map_crypto (state_commitment (vt_lib v) (vt_audit_key v)
       (secret_canonical v i namespace_id index code current revision metadata_version schedule)))"

definition verify_secret_state :: "vault \<Rightarrow> secret_record \<Rightarrow> vault_error + unit" where
  "verify_secret_state v s =
     rbind (secret_state_commitment v (sr_secret_id s) (sr_namespace_id s) (sr_name_index s)
       (sr_lifecycle_state s) (sr_current_version s) (sr_revision s) (sr_metadata_version s)
       (sr_schedule s)) (\<lambda>expected.
     ensure (expected = sr_state_commitment s) Integrity)"

definition verify_namespace_state :: "vault \<Rightarrow> namespace_record \<Rightarrow> vault_error + unit" where
  "verify_namespace_state v n =
     rbind (namespace_state_commitment v (nr_namespace_id n) (nr_parent n) (nr_name_index n)
       (nr_lifecycle_state n) (nr_revision n) (nr_metadata_version n)) (\<lambda>expected.
     ensure (expected = nr_state_commitment n) Integrity)"

section \<open>The metadata form round trips\<close>

lemma get_range_at: "get_range (pre @ v @ post) (length pre) (length pre + length v) = Some v"
  by (simp add: get_range_def)

lemma read_string_at:
  assumes "length v \<le> maximum" "require_nonempty \<longrightarrow> v \<noteq> []" "utf8_valid v"
    and "length pre + length v \<le> u64_max"
  shows "read_metadata_string (pre @ v @ post) (length pre) (length v) maximum require_nonempty =
    Inr (v, length pre + length v)"
  using assms get_range_at [of pre v post]
  by (simp add: read_metadata_string_def protected_from_utf8_def checked_add_u64_def)

lemma read_optional_at:
  assumes "is_none_or (\<lambda>v. length v \<le> maximum \<and> utf8_valid v) m"
    and "length pre + length (opt_bytes m) \<le> u64_max"
  shows "read_optional (pre @ opt_bytes m @ post) (length pre) (map_option length m) maximum =
    Inr (m, length pre + length (opt_bytes m))"
proof (cases m)
  case (Some v)
  then show ?thesis
    using assms read_string_at [of v maximum False pre post]
    by (simp add: read_optional_def opt_bytes_def is_none_or_def)
qed (simp add: read_optional_def opt_bytes_def)

definition tag_field :: "bytes \<Rightarrow> bytes" where
  "tag_field t = be_bytes 2 (length t) @ t"

lemma length_tag_field [simp]: "length (tag_field t) = length t + 2"
  by (simp add: tag_field_def)

lemma read_tags_at:
  assumes "list_all (\<lambda>t. t \<noteq> [] \<and> length t \<le> MAX_TAG_BYTES \<and> utf8_valid t) ts"
    and "length pre + length (concat (map tag_field ts)) \<le> u64_max"
  shows "read_tags (pre @ concat (map tag_field ts)) (length pre) (length ts) =
    Inr (ts, length pre + length (concat (map tag_field ts)))"
  using assms
proof (induction ts arbitrary: pre)
  case Nil
  then show ?case by simp
next
  case (Cons t ts)
  let ?rest = "concat (map tag_field ts)" and ?l = "be_bytes 2 (length t)"
  have t: "length t \<le> 64" "t \<noteq> []" "utf8_valid t" using Cons.prems(1) by (simp_all add: MAX_TAG_BYTES_def)
  have bs: "pre @ concat (map tag_field (t # ts)) = pre @ ?l @ t @ ?rest"
    by (simp add: tag_field_def [of t])
  have len: "length pre + 2 + length t + length ?rest \<le> u64_max"
    using Cons.prems(2) by simp
  have "get_range (pre @ ?l @ t @ ?rest) (length pre) (length pre + 2) = Some ?l"
    using get_range_at [of pre ?l "t @ ?rest"] by simp
  moreover have "read_metadata_string ((pre @ ?l) @ t @ ?rest) (length (pre @ ?l)) (length t) MAX_TAG_BYTES True =
      Inr (t, length (pre @ ?l) + length t)"
    using t len by (intro read_string_at) (simp_all add: MAX_TAG_BYTES_def)
  moreover have "read_tags ((pre @ ?l @ t) @ ?rest) (length (pre @ ?l @ t)) (length ts) =
      Inr (ts, length (pre @ ?l @ t) + length ?rest)"
    using Cons.prems len by (intro Cons.IH) simp_all
  moreover have "from_be ?l = length t" using t by simp
  ultimately show ?case
    using len unfolding bs by (simp add: checked_add_u64_def add.commute add.left_commute)
qed

lemma traverse_encode_tag:
  assumes "list_all (\<lambda>t. length t \<le> MAX_TAG_BYTES) ts"
  shows "traverse encode_tag ts = Inr (map tag_field ts)"
proof (rule traverse_all_Inr)
  show "encode_tag t = Inr (tag_field t)" if "t \<in> set ts" for t
    using that assms by (auto simp: encode_tag_def tag_field_def list_all_iff MAX_TAG_BYTES_def u16_max_def)
qed

definition metadata_utf8 :: "metadata \<Rightarrow> bool" where
  "metadata_utf8 m = (utf8_valid (md_name m) \<and> is_none_or utf8_valid (md_description m) \<and>
     is_none_or utf8_valid (md_username m) \<and> list_all utf8_valid (md_tags m))"

lemma sum_tag_fields: "sum_list (map (\<lambda>t. 2 + length t) ts) = length (concat (map tag_field ts))"
  by (induction ts) auto

lemma tag_fields_bound:
  "list_all (\<lambda>t. length t \<le> MAX_TAG_BYTES) ts \<Longrightarrow> length (concat (map tag_field ts)) \<le> 66 * length ts"
  by (induction ts) (auto simp: MAX_TAG_BYTES_def)

definition metadata_header :: "metadata \<Rightarrow> byte \<Rightarrow> bytes" where
  "metadata_header m kind = METADATA_MAGIC @ [kind] @ be_bytes 2 (length (md_name m)) @
       be_bytes 4 (case md_description m of None \<Rightarrow> u32_max | Some d \<Rightarrow> length d) @
       be_bytes 2 (case md_username m of None \<Rightarrow> u16_max | Some u \<Rightarrow> length u) @
       [word_of_nat (length (md_tags m))]"

lemma validate_metadataD:
  assumes "validate_metadata m = Inr ()"
  shows "md_name m \<noteq> []" "length (md_name m) \<le> 256" "\<not> any_control (md_name m)"
    "is_none_or (\<lambda>d. length d \<le> 4096) (md_description m)"
    "is_none_or (\<lambda>u. length u \<le> 256 \<and> \<not> any_control u) (md_username m)"
    "length (md_tags m) \<le> 32"
    "list_all (\<lambda>t. t \<noteq> [] \<and> length t \<le> MAX_TAG_BYTES \<and> \<not> any_control t) (md_tags m)"
  using assms by (auto simp: validate_metadata_def result_simps metadata_limits list_ex_iff list_all_iff)

lemma encode_metadata_valid:
  assumes "validate_metadata m = Inr ()"
  shows "encode_metadata m kind = Inr (metadata_header m kind @ md_name m @ opt_bytes (md_description m) @
     opt_bytes (md_username m) @ concat (map tag_field (md_tags m))) \<and>
   18 + length (md_name m) + length (opt_bytes (md_description m)) + length (opt_bytes (md_username m)) +
     length (concat (map tag_field (md_tags m))) \<le> 7000"
proof -
  note v = validate_metadataD [OF assms]
  have tags: "list_all (\<lambda>t. length t \<le> MAX_TAG_BYTES) (md_tags m)" using v(7) by (simp add: list_all_iff)
  have b: "length (opt_bytes (md_description m)) \<le> 4096" "length (opt_bytes (md_username m)) \<le> 256"
    using v(4,5) by (auto simp: opt_bytes_def is_none_or_def split: option.splits)
  have "length (concat (map tag_field (md_tags m))) \<le> 66 * 32"
    using tag_fields_bound [OF tags] v(6) by linarith
  then have cap: "18 + length (md_name m) + length (opt_bytes (md_description m)) +
      length (opt_bytes (md_username m)) + length (concat (map tag_field (md_tags m))) \<le> 7000"
    using b v(2) by linarith
  have "is_none_or (\<lambda>d. length d \<le> u32_max) (md_description m)" "is_none_or (\<lambda>u. length u \<le> u16_max) (md_username m)"
    using v(4,5) by (auto simp: is_none_or_def u32_max_def u16_max_def split: option.splits)
  then show ?thesis
    using v(2,6) cap unfolding encode_metadata_def sum_tag_fields
    by (simp add: metadata_header_def traverse_encode_tag [OF tags] u16_max_def u64_max_def)
qed

lemma metadata_header_length [simp]: "length (metadata_header m kind) = 18"
  by (simp add: metadata_header_def METADATA_MAGIC_def)

lemma metadata_header_parts:
  fixes m kind rest
  assumes "length (md_name m) \<le> 256" "is_none_or (\<lambda>d. length d \<le> 4096) (md_description m)"
    "is_none_or (\<lambda>u. length u \<le> 256) (md_username m)" "length (md_tags m) \<le> 32"
  defines "bs \<equiv> metadata_header m kind @ rest"
  shows "take 8 bs = METADATA_MAGIC" "bs ! 8 = kind"
    "from_be (take 2 (drop 9 bs)) = length (md_name m)"
    "(if from_be (take 4 (drop 11 bs)) = u32_max then None else Some (from_be (take 4 (drop 11 bs)))) =
       map_option length (md_description m)"
    "(if from_be (take 2 (drop 15 bs)) \<noteq> u16_max then Some (from_be (take 2 (drop 15 bs))) else None) =
       map_option length (md_username m)"
    "unat (bs ! 17) = length (md_tags m)"
proof -
  let ?d = "case md_description m of None \<Rightarrow> u32_max | Some d \<Rightarrow> length d"
  let ?u = "case md_username m of None \<Rightarrow> u16_max | Some u \<Rightarrow> length u"
  have magic: "length METADATA_MAGIC = 8" by (simp add: METADATA_MAGIC_def)
  have bs: "bs = METADATA_MAGIC @ [kind] @ be_bytes 2 (length (md_name m)) @ be_bytes 4 ?d @ be_bytes 2 ?u @
      [word_of_nat (length (md_tags m))] @ rest"
    by (simp add: bs_def metadata_header_def)
  show "take 8 bs = METADATA_MAGIC" "bs ! 8 = kind" by (simp_all add: bs magic nth_append)
  have "?d < 256 ^ 4" "?u < 256 ^ 2"
    using assms(2,3) by (auto simp: u32_max_def u16_max_def is_none_or_def split: option.splits)
  then have parts: "from_be (be_bytes 4 ?d) = ?d" "from_be (be_bytes 2 ?u) = ?u" by simp_all
  have "take 2 (drop 9 bs) = be_bytes 2 (length (md_name m))" "take 4 (drop 11 bs) = be_bytes 4 ?d"
    "take 2 (drop 15 bs) = be_bytes 2 ?u" "bs ! 17 = word_of_nat (length (md_tags m))"
    by (simp_all add: bs magic nth_append)
  then show "from_be (take 2 (drop 9 bs)) = length (md_name m)"
    "(if from_be (take 4 (drop 11 bs)) = u32_max then None else Some (from_be (take 4 (drop 11 bs)))) =
       map_option length (md_description m)"
    "(if from_be (take 2 (drop 15 bs)) \<noteq> u16_max then Some (from_be (take 2 (drop 15 bs))) else None) =
       map_option length (md_username m)"
    "unat (bs ! 17) = length (md_tags m)"
    using assms parts
    by (auto simp: is_none_or_def u32_max_def u16_max_def unat_byte_of_nat split: option.splits)
qed

lemma decode_encode_metadata:
  assumes "validate_metadata m = Inr ()" "metadata_utf8 m"
  shows "\<exists>bs. encode_metadata m kind = Inr bs \<and> decode_metadata bs kind = Inr m"
proof -
  note v = validate_metadataD [OF assms(1)]
  let ?h = "metadata_header m kind" and ?n = "md_name m" and ?d = "opt_bytes (md_description m)"
    and ?u = "opt_bytes (md_username m)" and ?t = "concat (map tag_field (md_tags m))"
  let ?bs = "?h @ ?n @ ?d @ ?u @ ?t"
  have enc: "encode_metadata m kind = Inr ?bs"
    and small: "18 + length ?n + length ?d + length ?u + length ?t \<le> 7000"
    using encode_metadata_valid [OF assms(1), of kind] by blast+
  have big: "k \<le> u64_max" if "k \<le> 7000" for k using that by (simp add: u64_max_def)
  have user: "is_none_or (\<lambda>u. length u \<le> 256) (md_username m)"
    using v(5) by (auto simp: is_none_or_def split: option.splits)
  note parts = metadata_header_parts [OF v(2) v(4) user v(6), of kind "?n @ ?d @ ?u @ ?t"]
  have name: "read_metadata_string ?bs (length ?h) (length ?n) MAX_NAME_BYTES True = Inr (?n, length ?h + length ?n)"
    using v assms(2) small
    by (intro read_string_at) (simp_all add: MAX_NAME_BYTES_def metadata_utf8_def big)
  have desc: "read_optional ((?h @ ?n) @ ?d @ ?u @ ?t) (length (?h @ ?n)) (map_option length (md_description m))
      MAX_DESCRIPTION_BYTES = Inr (md_description m, length (?h @ ?n) + length ?d)"
    using v(4) assms(2) small
    by (intro read_optional_at)
       (auto simp: MAX_DESCRIPTION_BYTES_def metadata_utf8_def is_none_or_def big split: option.splits)
  have usr: "read_optional ((?h @ ?n @ ?d) @ ?u @ ?t) (length (?h @ ?n @ ?d)) (map_option length (md_username m))
      MAX_USERNAME_BYTES = Inr (md_username m, length (?h @ ?n @ ?d) + length ?u)"
    using user assms(2) small
    by (intro read_optional_at)
       (auto simp: MAX_USERNAME_BYTES_def metadata_utf8_def is_none_or_def big split: option.splits)
  have tags: "read_tags ((?h @ ?n @ ?d @ ?u) @ ?t) (length (?h @ ?n @ ?d @ ?u)) (length (md_tags m)) =
      Inr (md_tags m, length (?h @ ?n @ ?d @ ?u) + length ?t)"
    using v(7) assms(2) small
    by (intro read_tags_at) (auto simp: metadata_utf8_def list_all_iff big)
  define bs c1 c2 c3 c4 where bs: "bs = ?bs" and c: "c1 = length (?h @ ?n)" "c2 = length (?h @ ?n @ ?d)"
    "c3 = length (?h @ ?n @ ?d @ ?u)" "c4 = length (?h @ ?n @ ?d @ ?u @ ?t)"
  have steps: "read_metadata_string bs 18 (length ?n) MAX_NAME_BYTES True = Inr (?n, c1)"
    "read_optional bs c1 (map_option length (md_description m)) MAX_DESCRIPTION_BYTES = Inr (md_description m, c2)"
    "read_optional bs c2 (map_option length (md_username m)) MAX_USERNAME_BYTES = Inr (md_username m, c3)"
    "read_tags bs c3 (length (md_tags m)) = Inr (md_tags m, c4)"
    using name desc usr tags by (simp_all add: bs c add.assoc)
  have guards: "is_none_or (\<lambda>n. n \<le> MAX_DESCRIPTION_BYTES) (map_option length (md_description m))"
    "is_none_or (\<lambda>n. n \<le> MAX_USERNAME_BYTES) (map_option length (md_username m))"
    "length (md_tags m) \<le> MAX_TAGS" "c4 = length bs" "\<not> length bs < 18"
    "is_none_or (\<lambda>u. \<not> any_control u) (md_username m)" "\<not> list_ex any_control (md_tags m)"
    using v user by (auto simp: metadata_limits bs c is_none_or_def list_ex_iff list_all_iff split: option.splits)
  have "decode_metadata bs kind = Inr m"
    unfolding decode_metadata_def Let_def parts [folded bs] using guards v(3) by (simp add: steps)
  then show ?thesis using enc bs by blast
qed

lemma decode_wrong_kind: "decode_metadata bs kind = Inr m \<Longrightarrow> bs ! 8 = kind"
  by (auto simp: decode_metadata_def result_simps)

section \<open>The canonical state determines the state\<close>

lemma lifecycle_code_inject:
  "lifecycle_code a = Inr c \<Longrightarrow> lifecycle_code b = Inr c \<Longrightarrow> a = b"
  by (auto simp: lifecycle_code_def split: if_splits)

lemma append_optional_timestamp_length [simp]: "length (append_optional_timestamp m) = 9"
  by (simp add: append_optional_timestamp_def split: option.splits)

definition i64_ok :: "int \<Rightarrow> bool" where
  "i64_ok i = (i64_min \<le> i \<and> i \<le> i64_max)"

lemma append_optional_timestamp_inject:
  assumes "is_none_or i64_ok a" "is_none_or i64_ok b"
  shows "append_optional_timestamp a = append_optional_timestamp b \<longleftrightarrow> a = b"
  using assms
  by (auto simp: append_optional_timestamp_def is_none_or_def i64_ok_def i64_be_bytes_inject split: option.splits)

text \<open>What the Rust types guarantee of a secret and a namespace record.\<close>

definition secret_typed :: "secret_record \<Rightarrow> bool" where
  "secret_typed s = (length (sr_secret_id s) = 16 \<and> length (sr_namespace_id s) = 16 \<and>
     length (sr_name_index s) = 32 \<and> sr_current_version s \<le> u64_max \<and> sr_revision s \<le> u64_max \<and>
     sr_metadata_version s \<le> u64_max \<and> is_none_or i64_ok (expires_at (sr_schedule s)) \<and>
     is_none_or i64_ok (rotation_due_at (sr_schedule s)))"

definition namespace_typed :: "namespace_record \<Rightarrow> bool" where
  "namespace_typed n = (length (nr_namespace_id n) = 16 \<and> is_none_or (\<lambda>p. length p = 16) (nr_parent n) \<and>
     length (nr_name_index n) = 32 \<and> nr_revision n \<le> u64_max \<and> nr_metadata_version n \<le> u64_max)"

definition secret_state_bytes :: "vault \<Rightarrow> secret_record \<Rightarrow> vault_error + bytes" where
  "secret_state_bytes v s = rbind (lifecycle_code (sr_lifecycle_state s)) (\<lambda>code.
     Inr (secret_canonical v (sr_secret_id s) (sr_namespace_id s) (sr_name_index s) code
       (sr_current_version s) (sr_revision s) (sr_metadata_version s) (sr_schedule s)))"

definition namespace_state_bytes :: "vault \<Rightarrow> namespace_record \<Rightarrow> vault_error + bytes" where
  "namespace_state_bytes v n = rbind (lifecycle_code (nr_lifecycle_state n)) (\<lambda>code.
     Inr (namespace_canonical v (nr_namespace_id n) (nr_parent n) (nr_name_index n) code
       (nr_revision n) (nr_metadata_version n)))"

lemma secret_state_bytes_inject:
  assumes "secret_typed s" "secret_typed t" "secret_state_bytes v s = Inr b" "secret_state_bytes v t = Inr b"
  shows "sr_secret_id s = sr_secret_id t \<and> sr_namespace_id s = sr_namespace_id t \<and>
    sr_name_index s = sr_name_index t \<and> sr_lifecycle_state s = sr_lifecycle_state t \<and>
    sr_current_version s = sr_current_version t \<and> sr_revision s = sr_revision t \<and>
    sr_metadata_version s = sr_metadata_version t \<and> sr_schedule s = sr_schedule t"
  using assms lifecycle_code_inject [of "sr_lifecycle_state s" _ "sr_lifecycle_state t"]
  by (auto simp: secret_state_bytes_def result_simps secret_canonical_def secret_typed_def append_split
      u64_be_inject append_optional_timestamp_inject intro!: secret_schedule.equality)

lemma namespace_state_bytes_inject:
  assumes "namespace_typed s" "namespace_typed t" "namespace_state_bytes v s = Inr b"
    "namespace_state_bytes v t = Inr b"
  shows "nr_namespace_id s = nr_namespace_id t \<and> nr_parent s = nr_parent t \<and>
    nr_name_index s = nr_name_index t \<and> nr_lifecycle_state s = nr_lifecycle_state t \<and>
    nr_revision s = nr_revision t \<and> nr_metadata_version s = nr_metadata_version t"
  using assms lifecycle_code_inject [of "nr_lifecycle_state s" _ "nr_lifecycle_state t"]
  by (auto simp: namespace_state_bytes_def result_simps namespace_canonical_def namespace_typed_def
      append_split u64_be_inject is_none_or_def split: option.splits)

end
