(* ===== verification/App_Vault.thy ===== *)
theory App_Vault
  imports App_Codec
begin

text \<open>
  The loaded vault at work (\<open>src/crates/smcv-app/src/initialization.rs\<close> for the key ring and
  \<open>vault_core.rs\<close> for record encryption, audit attribution and chain verification).
  Randomness is an argument; the audit gate serialises the operations, so an operation runs on
  the database it found.  The locale \<open>vault_operation\<close> is the contract of every operation that
  reports to the audit log.
\<close>

section \<open>The key ring\<close>

definition with_active_kek :: "vault \<Rightarrow> (bytes \<Rightarrow> 'a) \<Rightarrow> (nat \<times> 'a) option" where
  "with_active_kek v f =
     (case vt_key_ring v of
        None \<Rightarrow> None
      | Some ring \<Rightarrow>
          (case kr_keys ring (kr_active_version ring) of
             None \<Rightarrow> None
           | Some key \<Rightarrow> Some (kr_active_version ring, f key)))"

definition with_kek :: "vault \<Rightarrow> nat \<Rightarrow> (bytes \<Rightarrow> 'a) \<Rightarrow> 'a option" where
  "with_kek v version f =
     (case vt_key_ring v of None \<Rightarrow> None | Some ring \<Rightarrow> map_option f (kr_keys ring version))"

datatype initialization_error =
  UnsafePath | MissingRootKey | Cryptography crypto_error | Storage storage_error

definition install_active_kek :: "nat \<Rightarrow> bytes \<Rightarrow> vault \<Rightarrow> (initialization_error + unit) \<times> vault" where
  "install_active_kek version key v =
     (case vt_key_ring v of
        None \<Rightarrow> (Inl UnsafePath, v)
      | Some ring \<Rightarrow>
          if kr_keys ring version \<noteq> None \<or> version \<le> kr_active_version ring
          then (Inl (Storage StateConflict), v)
          else (Inr (), v\<lparr>vt_key_ring := Some \<lparr>kr_active_version = version,
                  kr_keys = (kr_keys ring)(version \<mapsto> key)\<rparr>\<rparr>))"

definition retire_kek :: "nat \<Rightarrow> vault \<Rightarrow> (initialization_error + unit) \<times> vault" where
  "retire_kek version v =
     (case vt_key_ring v of
        None \<Rightarrow> (Inl UnsafePath, v)
      | Some ring \<Rightarrow>
          if version = kr_active_version ring \<or> kr_keys ring version = None
          then (Inl (Storage StateConflict), v)
          else (Inr (), v\<lparr>vt_key_ring := Some (ring\<lparr>kr_keys := (kr_keys ring)(version := None)\<rparr>)\<rparr>))"

section \<open>Encrypted records\<close>

text \<open>The three draws of entropy of one encryption: data key, payload nonce, wrapping nonce.\<close>

record entropy =
  en_dek :: "bytes option"
  en_nonce :: "bytes option"
  en_dek_nonce :: "bytes option"

definition context_of :: "vault \<Rightarrow> object_kind \<Rightarrow> uuid \<Rightarrow> nat \<Rightarrow> record_context" where
  "context_of v kind i version =
     \<lparr>rc_vault_id = vt_vault_id v, rc_installation_id = vt_installation_id v, rc_object_kind = kind,
      rc_object_id = i, rc_object_version = version\<rparr>"

definition encrypt_record :: "vault \<Rightarrow> entropy \<Rightarrow> bytes \<Rightarrow> object_kind \<Rightarrow> object_kind \<Rightarrow> uuid \<Rightarrow> nat \<Rightarrow>
    vault_error + encrypted_record" where
  "encrypt_record v ent plaintext object_kind wrapped_kind object_id object_version =
     rbind (map_err map_crypto (ok_or Randomness (en_dek ent))) (\<lambda>dek.
     rbind (map_err map_crypto (seal (vt_lib v) (en_nonce ent) dek
       (context_of v object_kind object_id object_version) plaintext)) (\<lambda>payload.
     rbind (ok_or Unavailable (with_active_kek v (\<lambda>kek. seal (vt_lib v) (en_dek_nonce ent) kek
       (context_of v wrapped_kind object_id object_version) dek))) (\<lambda>(kek_version, sealed).
     rbind (map_err map_crypto sealed) (\<lambda>wrapped.
     rbind (try_into_array 48 Integrity (sl_ciphertext wrapped)) (\<lambda>wrapped_dek.
     Inr \<lparr>er_nonce = sl_nonce payload, er_ciphertext = sl_ciphertext payload,
          er_dek_nonce = sl_nonce wrapped, er_wrapped_dek = wrapped_dek,
          er_kek_version = kek_version\<rparr>)))))"

definition decrypt_record :: "vault \<Rightarrow> encrypted_record \<Rightarrow> object_kind \<Rightarrow> object_kind \<Rightarrow> uuid \<Rightarrow> nat \<Rightarrow>
    vault_error + bytes" where
  "decrypt_record v e object_kind wrapped_kind object_id object_version =
     rbind (ok_or Integrity (with_kek v (er_kek_version e) (\<lambda>kek. open_record (vt_lib v) kek
       (context_of v wrapped_kind object_id object_version)
       \<lparr>sl_nonce = er_dek_nonce e, sl_ciphertext = er_wrapped_dek e\<rparr>))) (\<lambda>opened.
     rbind (map_err map_crypto opened) (\<lambda>dek_plaintext.
     rbind (map_err map_crypto (key_from_protected dek_plaintext)) (\<lambda>dek.
     map_err map_crypto (open_record (vt_lib v) dek (context_of v object_kind object_id object_version)
       \<lparr>sl_nonce = er_nonce e, sl_ciphertext = er_ciphertext e\<rparr>))))"

definition decrypt_metadata :: "vault \<Rightarrow> secret_record \<Rightarrow> vault_error + metadata" where
  "decrypt_metadata v s =
     rbind (decrypt_record v (sr_metadata s) object_kind.SecretMetadata WrappedMetadataKey
       (sr_secret_id s) (sr_metadata_version s)) (\<lambda>plaintext.
     decode_metadata plaintext 2)"

section \<open>Audit attribution\<close>

record vault_operation_context =
  oc_request_id :: uuid
  oc_actor :: "uuid option"
  oc_credential_kind :: "string option"
  oc_credential_id :: "uuid option"
  oc_now :: unix_ms

text \<open>The input of the commitment for a stored record, as \<open>verify_audit_chain\<close> and
  \<open>build_audit_outcome\<close> write it.\<close>

definition commitment_input :: "audit_record \<Rightarrow> audit_commitment_input" where
  "commitment_input a =
     \<lparr>ai_commitment_version = ar_commitment_version a, ai_previous = ar_previous_commitment a,
      ai_sequence = ar_sequence a, ai_event_id = ar_event_id a,
      ai_installation_id = ar_installation_id a, ai_recovery_epoch = ar_recovery_epoch a,
      ai_occurred_at = ar_occurred_at a, ai_request_id = ar_request_id a, ai_actor = ar_actor a,
      ai_credential_kind = ar_credential_kind a, ai_credential_id = ar_credential_id a,
      ai_action = ar_action a, ai_target_kind = ar_target_kind a, ai_target_id = ar_target_id a,
      ai_outcome = ar_outcome a\<rparr>"

definition build_audit_outcome :: "vault \<Rightarrow> uuid \<Rightarrow> string \<Rightarrow> string \<Rightarrow> uuid option \<Rightarrow> string \<Rightarrow>
    vault_operation_context \<Rightarrow> db \<Rightarrow> vault_error + audit_record" where
  "build_audit_outcome v event_id action target_kind target_id outcome oper d =
     rbind (ensure (vt_audit_gate_ok v) Unavailable) (\<lambda>_.
     rbind (map_err map_storage (audit_head d)) (\<lambda>head.
     rbind (ok_or Conflict (checked_add_u64 (head_sequence head) 1)) (\<lambda>sequence.
     rbind (map_err map_storage (installation d)) (\<lambda>found.
     rbind (ok_or Unavailable found) (\<lambda>inst.
     let draft = \<lparr>ar_commitment_version = 2, ar_sequence = sequence, ar_event_id = event_id,
            ar_installation_id = vt_installation_id v, ar_recovery_epoch = in_recovery_epoch inst,
            ar_occurred_at = oc_now oper, ar_request_id = oc_request_id oper,
            ar_actor = oc_actor oper, ar_credential_kind = oc_credential_kind oper,
            ar_credential_id = oc_credential_id oper, ar_action = action,
            ar_target_kind = target_kind, ar_target_id = target_id, ar_outcome = outcome,
            ar_previous_commitment = head_commitment head, ar_commitment = []\<rparr> in
     rbind (map_err map_crypto (audit_commitment (vt_lib v) (vt_audit_key v) (commitment_input draft))) (\<lambda>c.
     Inr (draft\<lparr>ar_commitment := c\<rparr>)))))))"

definition build_audit :: "vault \<Rightarrow> uuid \<Rightarrow> string \<Rightarrow> string \<Rightarrow> uuid option \<Rightarrow>
    vault_operation_context \<Rightarrow> db \<Rightarrow> vault_error + audit_record" where
  "build_audit v event_id action target_kind target_id =
     build_audit_outcome v event_id action target_kind target_id ''allowed''"

section \<open>Verification of the chain\<close>

record audit_verification =
  av_events_verified :: nat
  av_final_sequence :: nat
  av_final_commitment :: bytes

text \<open>One turn of the inner loop: the state is the last sequence and commitment.\<close>

definition verify_event :: "vault \<Rightarrow> nat \<times> bytes \<Rightarrow> audit_record \<Rightarrow> vault_error + (nat \<times> bytes)" where
  "verify_event v = (\<lambda>(sequence, previous) r.
     rbind (ok_or Integrity (checked_add_u64 sequence 1)) (\<lambda>expected_sequence.
     rbind (ensure (ar_sequence r = expected_sequence \<and> ar_previous_commitment r = previous) Integrity) (\<lambda>_.
     rbind (map_err map_crypto (audit_commitment (vt_lib v) (vt_audit_key v)
        ((commitment_input r)\<lparr>ai_previous := previous\<rparr>))) (\<lambda>expected.
     rbind (ensure (expected = ar_commitment r) Integrity) (\<lambda>_.
     Inr (ar_sequence r, ar_commitment r))))))"

lemma commitment_input_previous [simp]:
  "(commitment_input r)\<lparr>ai_previous := ar_previous_commitment r\<rparr> = commitment_input r"
  by (simp add: commitment_input_def)

text \<open>The keyed commitment of a record is the one it carries.\<close>

definition event_authentic :: "vault \<Rightarrow> audit_record \<Rightarrow> bool" where
  "event_authentic v r =
     (audit_commitment (vt_lib v) (vt_audit_key v) (commitment_input r) = Inr (ar_commitment r))"

lemma verify_event_Inr:
  "verify_event v (n, c) r = Inr s \<longleftrightarrow>
   n + 1 \<le> u64_max \<and> ar_sequence r = n + 1 \<and> ar_previous_commitment r = c \<and> event_authentic v r \<and>
   s = (n + 1, ar_commitment r)"
  by (auto simp: verify_event_def result_simps event_authentic_def)

lemma verify_events_sequence:
  "try_fold (verify_event v) (n, c) rs = Inr (n', c') \<Longrightarrow> n' = n + length rs"
proof (induction rs arbitrary: n c)
  case Nil
  then show ?case by simp
next
  case (Cons r rs)
  then have "try_fold (verify_event v) (n + 1, ar_commitment r) rs = Inr (n', c')"
    by (auto simp: verify_event_Inr rbind_eq_Inr)
  then show ?case using Cons.IH by fastforce
qed

text \<open>The events that a scan from a sequence still has to see.\<close>

definition events_left :: "nat \<Rightarrow> db \<Rightarrow> nat" where
  "events_left n d = length (filter (\<lambda>r. int n < a_sequence r) (audit_events d))"

lemma list_all2_member:
  assumes "list_all2 P xs ys" "y \<in> set ys"
  obtains x where "x \<in> set xs" "P x y"
  using assms by (induction rule: list_all2_induct) auto

lemma page_members:
  assumes "audit_records_after n limit d = Inr page" "r \<in> set page"
  shows "\<exists>e \<in> set (audit_events d). parse_audit e = Inr r \<and> int n < a_sequence e"
proof -
  have "traverse parse_audit (take limit (sort_key a_sequence
      (filter (\<lambda>r. int n < a_sequence r) (audit_events d)))) = Inr page"
    using assms(1) by (auto simp: audit_records_after_def result_simps)
  then have "list_all2 (\<lambda>e r. parse_audit e = Inr r) (take limit (sort_key a_sequence
      (filter (\<lambda>r. int n < a_sequence r) (audit_events d)))) page"
    by (simp only: traverse_Inr_iff)
  then obtain e where "e \<in> set (take limit (sort_key a_sequence
      (filter (\<lambda>r. int n < a_sequence r) (audit_events d))))" "parse_audit e = Inr r"
    using assms(2) by (rule list_all2_member)
  then show ?thesis using set_take_subset by fastforce
qed

lemma parse_audit_sequence: "parse_audit e = Inr r \<Longrightarrow> a_sequence e = int (ar_sequence r)"
  by (auto simp: parse_audit_def result_simps)

lemma events_left_decreases:
  assumes "audit_records_after n 1000 d = Inr page" "page \<noteq> []"
    and "try_fold (verify_event v) (n, c) page = Inr (n', c')"
  shows "events_left n' d < events_left n d"
proof -
  have n': "n' = n + length page" using assms(3) by (rule verify_events_sequence)
  obtain r rs where page: "page = r # rs" using assms(2) by (cases page) auto
  then have "ar_sequence r = n + 1"
    using assms(3) by (auto simp: verify_event_Inr rbind_eq_Inr)
  moreover obtain e where e: "e \<in> set (audit_events d)" "parse_audit e = Inr r"
    using page_members [OF assms(1)] page by auto
  ultimately have "a_sequence e = int n + 1" using parse_audit_sequence by fastforce
  then have new: "e \<in> set (filter (\<lambda>r. int n < a_sequence r) (audit_events d))" "\<not> int n' < a_sequence e"
    using e n' page by auto
  have sub: "filter (\<lambda>r. int n' < a_sequence r) (audit_events d) =
      filter (\<lambda>r. int n' < a_sequence r) (filter (\<lambda>r. int n < a_sequence r) (audit_events d))"
    using n' by (auto intro!: filter_cong)
  show ?thesis unfolding events_left_def 
    by (subst sub) (rule length_filter_less [where P = "\<lambda>r. int n' < a_sequence r" and x = e, OF new])
qed

text \<open>The outer loop, page by page; it ends because every full page moves the scan forward.\<close>

function verify_pages :: "vault \<Rightarrow> db \<Rightarrow> nat \<Rightarrow> bytes \<Rightarrow> vault_error + (nat \<times> bytes)" where
  "verify_pages v d sequence previous =
     (case map_err map_storage (audit_records_after sequence 1000 d) of
        Inl e \<Rightarrow> Inl e
      | Inr page \<Rightarrow>
          if page = [] then Inr (sequence, previous)
          else (case try_fold (verify_event v) (sequence, previous) page of
                  Inl e \<Rightarrow> Inl e
                | Inr (sequence', previous') \<Rightarrow>
                    if length page < 1000 then Inr (sequence', previous')
                    else verify_pages v d sequence' previous'))"
  by auto
termination
  by (relation "measure (\<lambda>(v, d, n, c). events_left n d)")
     (auto simp: result_simps dest: events_left_decreases)

declare verify_pages.simps [simp del]

definition verify_audit_chain :: "vault \<Rightarrow> db \<Rightarrow> vault_error + audit_verification" where
  "verify_audit_chain v d =
     rbind (verify_pages v d 0 (replicate 32 0)) (\<lambda>(sequence, previous).
     rbind (map_err map_storage (audit_head d)) (\<lambda>head.
     rbind (ensure (head_sequence head = sequence \<and> head_commitment head = previous) Conflict) (\<lambda>_.
     Inr \<lparr>av_events_verified = sequence, av_final_sequence = sequence,
          av_final_commitment = previous\<rparr>)))"

section \<open>Encryption round trip\<close>

lemma with_active_kek_Some [result_simps]:
  "with_active_kek v f = Some (n, x) \<longleftrightarrow>
   (\<exists>ring kek. vt_key_ring v = Some ring \<and> kr_keys ring (kr_active_version ring) = Some kek \<and>
      n = kr_active_version ring \<and> f kek = x)"
  by (auto simp: with_active_kek_def split: option.splits)

lemma decrypt_encrypt_record:
  assumes "aead_correct (vt_lib v)" "encrypt_record v ent plaintext kind wkind i n = Inr e"
    and "\<forall>dek \<in> set_option (en_dek ent). length dek = 32"
    and "vt_lib w = vt_lib v" "vt_vault_id w = vt_vault_id v" "vt_installation_id w = vt_installation_id v"
    and "with_kek w (er_kek_version e) id = with_kek v (er_kek_version e) id"
  shows "decrypt_record w e kind wkind i n = Inr plaintext"
proof -
  obtain dek payload ring kek wrapped where
    dek: "en_dek ent = Some dek" "length dek = 32"
    and payload: "seal (vt_lib v) (en_nonce ent) dek (context_of v kind i n) plaintext = Inr payload"
    and ring: "vt_key_ring v = Some ring" "kr_keys ring (kr_active_version ring) = Some kek"
    and wrapped: "seal (vt_lib v) (en_dek_nonce ent) kek (context_of v wkind i n) dek = Inr wrapped"
    and e: "e = \<lparr>er_nonce = sl_nonce payload, er_ciphertext = sl_ciphertext payload,
      er_dek_nonce = sl_nonce wrapped, er_wrapped_dek = sl_ciphertext wrapped,
      er_kek_version = kr_active_version ring\<rparr>"
    using assms(2,3)
    by (auto simp: encrypt_record_def result_simps)
  have kek: "with_kek w (er_kek_version e) f = Some (f kek)" for f :: "bytes \<Rightarrow> crypto_error + bytes"
  proof -
    have "with_kek w (er_kek_version e) id = Some kek"
      using assms(7) ring by (simp add: with_kek_def e)
    then show ?thesis by (auto simp: with_kek_def split: option.splits)
  qed
  have ctx: "context_of w k i n = context_of v k i n" for k using assms(5,6) by (simp add: context_of_def)
  have "open_record (vt_lib v) kek (context_of v wkind i n) wrapped = Inr dek"
    "open_record (vt_lib v) dek (context_of v kind i n) payload = Inr plaintext"
    using assms(1) wrapped payload by (auto intro: open_seal)
  then show ?thesis
    using dek(2) by (cases wrapped; cases payload)
      (simp add: decrypt_record_def kek [unfolded e, simplified] ctx assms(4) e key_from_protected_def)
qed

section \<open>Built events fit the chain\<close>

lemma build_audit_outcome_Inr:
  assumes "build_audit_outcome v ev act kind target out oper d = Inr a"
  shows "require_audit_head a d = Inr () \<and> event_authentic v a \<and> \<not> poisoned d \<and> vt_audit_gate_ok v \<and>
    ar_event_id a = ev \<and> ar_action a = act \<and> ar_target_kind a = kind \<and> ar_target_id a = target \<and>
    ar_outcome a = out \<and> ar_occurred_at a = oc_now oper \<and> ar_request_id a = oc_request_id oper \<and>
    ar_actor a = oc_actor oper \<and> ar_credential_kind a = oc_credential_kind oper \<and>
    ar_credential_id a = oc_credential_id oper \<and> ar_installation_id a = vt_installation_id v"
  using assms
  by (auto simp: build_audit_outcome_def result_simps Let_def audit_head_def require_audit_head_def
      event_authentic_def commitment_input_def)

section \<open>Streaming verification is one-pass verification\<close>

definition scan_after :: "nat \<Rightarrow> db \<Rightarrow> audit_row list" where
  "scan_after n d = sort_key a_sequence (filter (\<lambda>r. int n < a_sequence r) (audit_events d))"

fun authentic_from :: "vault \<Rightarrow> nat \<Rightarrow> bytes \<Rightarrow> audit_record list \<Rightarrow> bool" where
  "authentic_from v n c [] = True"
| "authentic_from v n c (r # rs) =
     (ar_sequence r = n + 1 \<and> ar_previous_commitment r = c \<and> event_authentic v r \<and>
      authentic_from v (n + 1) (ar_commitment r) rs)"

definition record_tip :: "bytes \<Rightarrow> audit_record list \<Rightarrow> bytes" where
  "record_tip c rs = (if rs = [] then c else ar_commitment (last rs))"

lemma record_tip_simps [simp]:
  "record_tip c [] = c"
  "record_tip c (r # rs) = record_tip (ar_commitment r) rs"
  by (simp_all add: record_tip_def)

lemma record_tip_append: "record_tip c (as @ bs) = record_tip (record_tip c as) bs"
  by (induction as arbitrary: c) auto

lemma authentic_from_append:
  "authentic_from v n c (as @ bs) \<longleftrightarrow>
   authentic_from v n c as \<and> authentic_from v (n + length as) (record_tip c as) bs"
  by (induction as arbitrary: n c) auto

lemma authentic_from_nth: "authentic_from v n c rs \<Longrightarrow> i < length rs \<Longrightarrow> ar_sequence (rs ! i) = n + i + 1"
proof (induction rs arbitrary: n c i)
  case (Cons r rs)
  then show ?case by (cases i) auto
qed simp

lemma verify_events_iff:
  assumes "list_all (\<lambda>r. ar_sequence r \<le> u64_max) rs"
  shows "try_fold (verify_event v) (n, c) rs = Inr s \<longleftrightarrow>
   authentic_from v n c rs \<and> s = (n + length rs, record_tip c rs)"
  using assms
proof (induction rs arbitrary: n c)
  case Nil
  then show ?case by auto
next
  case (Cons r rs)
  have "try_fold (verify_event v) (n, c) (r # rs) = Inr s \<longleftrightarrow>
      verify_event v (n, c) r = Inr (n + 1, ar_commitment r) \<and>
      try_fold (verify_event v) (n + 1, ar_commitment r) rs = Inr s"
    by (auto simp: rbind_eq_Inr verify_event_Inr)
  then show ?case using Cons by (auto simp: verify_event_Inr)
qed

lemma traverse_append:
  "traverse f (xs @ ys) = rbind (traverse f xs) (\<lambda>as. rbind (traverse f ys) (\<lambda>bs. Inr (as @ bs)))"
proof (induction xs)
  case Nil
  then show ?case by (cases "traverse f ys") auto
next
  case (Cons x xs)
  then show ?case by (cases "f x"; cases "traverse f xs"; cases "traverse f ys") auto
qed

lemma parsed_sequences:
  assumes "traverse parse_audit es = Inr rs"
  shows "length rs = length es" "i < length es \<Longrightarrow> a_sequence (es ! i) = int (ar_sequence (rs ! i))"
    "list_all (\<lambda>r. ar_sequence r \<le> u64_max \<and> int (ar_sequence r) \<le> i64_max) rs"
proof -
  have all: "list_all2 (\<lambda>e r. parse_audit e = Inr r) es rs" using assms by (simp only: traverse_Inr_iff)
  then show "length rs = length es" by (simp add: list_all2_lengthD)
  show "i < length es \<Longrightarrow> a_sequence (es ! i) = int (ar_sequence (rs ! i))"
    using all parse_audit_sequence by (simp add: list_all2_conv_all_nth)
  have "parse_audit e = Inr r \<Longrightarrow> ar_sequence r \<le> u64_max \<and> int (ar_sequence r) \<le> i64_max" for e r
    by (auto simp: parse_audit_def result_simps)
  then show "list_all (\<lambda>r. ar_sequence r \<le> u64_max \<and> int (ar_sequence r) \<le> i64_max) rs"
    using all by (auto simp: list_all2_conv_all_nth list_all_length)
qed

lemma scan_rest:
  assumes "distinct (map a_sequence (audit_events d))"
    and "traverse parse_audit (take k (scan_after n d)) = Inr page" "authentic_from v n c page"
  shows "drop (length page) (scan_after n d) = scan_after (n + length page) d"
proof -
  let ?es = "scan_after n d" and ?k = "length page"
  have len: "?k = length (take k ?es)" using parsed_sequences(1) [OF assms(2)] .
  have "distinct (map a_sequence ?es)" "sorted (map a_sequence ?es)"
    using assms(1) by (simp_all add: scan_after_def distinct_map inj_on_def)
  then have strict: "sorted_wrt (<) (map a_sequence ?es)" by (simp add: strict_sorted_iff)
  have at: "a_sequence (?es ! i) = int (n + i + 1)" if "i < ?k" for i
    using that parsed_sequences(2) [OF assms(2), of i] authentic_from_nth [OF assms(3), of i] len by simp
  have early: "filter (\<lambda>r. int (n + ?k) < a_sequence r) (take ?k ?es) = []"
    using at len by (auto simp: filter_empty_conv in_set_conv_nth)
  have late: "filter (\<lambda>r. int (n + ?k) < a_sequence r) (drop ?k ?es) = drop ?k ?es"
  proof (rule filter_True, rule ballI)
    fix r assume "r \<in> set (drop ?k ?es)"
    then obtain i where i: "r = ?es ! (?k + i)" "?k + i < length ?es" by (auto simp: in_set_conv_nth)
    show "int (n + ?k) < a_sequence r"
    proof (cases ?k)
      case 0
      then have "r \<in> set ?es" using i by auto
      then show ?thesis using 0 by (auto simp: scan_after_def)
    next
      case (Suc j)
      then have "a_sequence (?es ! j) < a_sequence (?es ! (?k + i))"
        using strict i(2) by (simp add: sorted_wrt_iff_nth_less)
      then show ?thesis using at [of j] Suc i(1) by simp
    qed
  qed
  have "scan_after (n + ?k) d = filter (\<lambda>r. int (n + ?k) < a_sequence r) ?es"
    by (auto simp: scan_after_def filter_sort intro!: arg_cong [where f = "sort_key a_sequence"] filter_cong)
  also have "\<dots> = filter (\<lambda>r. int (n + ?k) < a_sequence r) (take ?k ?es) @
      filter (\<lambda>r. int (n + ?k) < a_sequence r) (drop ?k ?es)"
    by (simp only: filter_append [symmetric] append_take_drop_id)
  finally show ?thesis using early late by simp
qed

lemma page_query:
  "\<not> poisoned d \<Longrightarrow> int n \<le> i64_max \<Longrightarrow>
   audit_records_after n 1000 d = traverse parse_audit (take 1000 (scan_after n d))"
  by (simp add: audit_records_after_def query_def lock_def scan_after_def)

definition verified_from :: "vault \<Rightarrow> db \<Rightarrow> nat \<Rightarrow> bytes \<Rightarrow> nat \<times> bytes \<Rightarrow> bool" where
  "verified_from v d n c s = (\<exists>rs. traverse parse_audit (scan_after n d) = Inr rs \<and>
     authentic_from v n c rs \<and> s = (n + length rs, record_tip c rs))"

lemma verified_from_page:
  assumes "distinct (map a_sequence (audit_events d))"
    and "traverse parse_audit (take 1000 (scan_after n d)) = Inr page"
  shows "verified_from v d n c s \<longleftrightarrow>
    authentic_from v n c page \<and> verified_from v d (n + length page) (record_tip c page) s"
proof (cases "authentic_from v n c page")
  case True
  have len: "length page = length (take 1000 (scan_after n d))" using parsed_sequences(1) [OF assms(2)] .
  have rest: "drop (length page) (scan_after n d) = scan_after (n + length page) d"
    using assms True by (rule scan_rest)
  have split: "take 1000 (scan_after n d) @ scan_after (n + length page) d = scan_after n d"
    using rest len append_take_drop_id [of "length page" "scan_after n d"] by (metis take_all_iff append_take_drop_id length_take min.absorb4 min_def nle_le rest)
  have "traverse parse_audit (scan_after n d) =
      rbind (traverse parse_audit (scan_after (n + length page) d)) (\<lambda>bs. Inr (page @ bs))"
    using traverse_append [of parse_audit "take 1000 (scan_after n d)" "scan_after (n + length page) d"]
    unfolding split assms(2) by simp
  then show ?thesis
    using True by (auto simp: verified_from_def rbind_eq_Inr authentic_from_append record_tip_append)
next
  case False
  have "\<not> verified_from v d n c s"
  proof
    assume "verified_from v d n c s"
    then obtain rs where rs: "traverse parse_audit (scan_after n d) = Inr rs" "authentic_from v n c rs"
      by (auto simp: verified_from_def)
    have "traverse parse_audit (take 1000 (scan_after n d) @ drop 1000 (scan_after n d)) = Inr rs"
      using rs(1) by simp
    then obtain bs where "rs = page @ bs" unfolding traverse_append assms(2) by (auto simp: rbind_eq_Inr)
    then show False using rs(2) False by (simp add: authentic_from_append)
  qed
  then show ?thesis using False by blast
qed

lemma verify_pages_iff:
  assumes "distinct (map a_sequence (audit_events d))" "\<not> poisoned d" "int n \<le> i64_max"
  shows "verify_pages v d n c = Inr s \<longleftrightarrow> verified_from v d n c s"
  using assms
proof (induction v d n c rule: verify_pages.induct)
  case (1 v d n c)
  have query: "audit_records_after n 1000 d = traverse parse_audit (take 1000 (scan_after n d))"
    using 1(3,4) by (rule page_query)
  show ?case
  proof (cases "traverse parse_audit (take 1000 (scan_after n d))")
    case (Inl e)
    have "traverse parse_audit (scan_after n d) \<noteq> Inr rs" for rs
    proof
      assume "traverse parse_audit (scan_after n d) = Inr rs"
      then have "traverse parse_audit (take 1000 (scan_after n d) @ drop 1000 (scan_after n d)) = Inr rs" by simp
      then show False unfolding traverse_append Inl by simp
    qed
    then show ?thesis by (simp add: verify_pages.simps [of v d n c] query Inl verified_from_def)
  next
    case (Inr page)
    note page = verified_from_page [OF 1(2) Inr, of v c s]
    have seqs: "list_all (\<lambda>r. ar_sequence r \<le> u64_max) page"
      using parsed_sequences(3) [OF Inr] by (simp add: list_all_iff)
    have fold: "try_fold (verify_event v) (n, c) page = Inr t \<longleftrightarrow>
        authentic_from v n c page \<and> t = (n + length page, record_tip c page)" for t
      using seqs by (rule verify_events_iff)
    have len: "length page = length (take 1000 (scan_after n d))" using parsed_sequences(1) [OF Inr] .
    have unfold: "verify_pages v d n c = (if page = [] then Inr (n, c)
        else case try_fold (verify_event v) (n, c) page of Inl e \<Rightarrow> Inl e
          | Inr (n', c') \<Rightarrow> if length page < 1000 then Inr (n', c') else verify_pages v d n' c')"
      by (simp add: verify_pages.simps [of v d n c] query Inr)
    show ?thesis
    proof (cases "authentic_from v n c page")
      case False
      then have "page \<noteq> []" by auto
      moreover obtain e where "try_fold (verify_event v) (n, c) page = Inl e"
        using fold False by (cases "try_fold (verify_event v) (n, c) page") auto
      ultimately have "verify_pages v d n c = Inl e" by (subst unfold) simp
      then show ?thesis using page False by simp
    next
      case True
      then have ok: "try_fold (verify_event v) (n, c) page = Inr (n + length page, record_tip c page)"
        using fold by blast
      show ?thesis
      proof (cases "length page < 1000")
        case short: True
        then have "scan_after (n + length page) d = []"
          using scan_rest [OF 1(2) Inr True] len by simp
        then have "verified_from v d (n + length page) (record_tip c page) s \<longleftrightarrow>
            s = (n + length page, record_tip c page)" by (simp add: verified_from_def)
        moreover have "verify_pages v d n c = Inr (n + length page, record_tip c page)"
          by (subst unfold) (use ok short in simp)
        ultimately show ?thesis using page True by auto
      next
        case full: False
        then have ne: "page \<noteq> []" by auto
        have "ar_sequence (last page) = n + length page"
          using authentic_from_nth [OF True, of "length page - 1"] ne by (simp add: last_conv_nth)
        moreover have "int (ar_sequence (last page)) \<le> i64_max"
          using parsed_sequences(3) [OF Inr] last_in_set [OF ne] unfolding list_all_iff by blast
        ultimately have "int (n + length page) \<le> i64_max" by simp
        moreover have page_ok: "map_err map_storage (audit_records_after n 1000 d) = Inr page"
          unfolding query Inr by simp
        ultimately have "verify_pages v d (n + length page) (record_tip c page) = Inr s \<longleftrightarrow>
            verified_from v d (n + length page) (record_tip c page) s"
          using 1(1) [OF page_ok ne ok refl full 1(2,3)] by blast
        moreover have "verify_pages v d n c = verify_pages v d (n + length page) (record_tip c page)"
          by (subst unfold) (use ok full ne in simp)
        ultimately show ?thesis using page True by simp
      qed
    qed
  qed
qed

lemma verify_audit_chain_iff:
  assumes "distinct (map a_sequence (audit_events d))" "\<not> poisoned d"
  shows "verify_audit_chain v d = Inr res \<longleftrightarrow>
    (\<exists>rs. traverse parse_audit (scan_after 0 d) = Inr rs \<and> authentic_from v 0 zero_commitment rs \<and>
       audit_head_on d = Inr \<lparr>head_sequence = length rs, head_commitment = record_tip zero_commitment rs\<rparr> \<and>
       res = \<lparr>av_events_verified = length rs, av_final_sequence = length rs,
              av_final_commitment = record_tip zero_commitment rs\<rparr>)"
proof -
  have pages: "verify_pages v d 0 zero_commitment = Inr s \<longleftrightarrow> verified_from v d 0 zero_commitment s" for s
    using assms by (rule verify_pages_iff) (simp add: i64_max_def)
  have head: "map_err map_storage (audit_head d) = Inr h \<longleftrightarrow> audit_head_on d = Inr h" for h
    using assms(2) by (auto simp: audit_head_def result_simps)
  show ?thesis
    unfolding verify_audit_chain_def zero_commitment_def [symmetric]
    by (auto simp: rbind_eq_Inr pages head verified_from_def ensure_eq_Inr intro: audit_head_record.equality)
qed

end
