(* ===== verification/Records_Invariant.thy ===== *)
theory Records_Invariant
  imports Storage_Records
begin

text \<open>
  The invariant of the encrypted records of \<open>src/crates/smcv-storage/src/records.rs\<close> and its
  preservation by every operation on them: schema constraints, gapless version histories,
  the deletion mark and the purge guard.  The last section states what never changes: the
  sealed payload of a version until its secret is purged, and the tombstone that a purge
  leaves.
\<close>

named_theorems records_intro \<open>conjuncts of the record invariant after an operation\<close>

definition version_numbers :: "uuid \<Rightarrow> version_row table \<Rightarrow> int set" where
  "version_numbers i t = set (map v_version (tbl_select (\<lambda>v. v_secret_id v = i) t))"

definition versions_complete :: "db \<Rightarrow> bool" where
  "versions_complete d = (\<forall>s \<in> set (rows (secrets d)).
     version_numbers (s_id s) (secret_versions d) = {1..s_current s})"

definition deletion_marked :: "db \<Rightarrow> bool" where
  "deletion_marked d = (\<forall>s \<in> set (rows (secrets d)). (s_lifecycle s = ''deleted'') = (s_deleted s \<noteq> None))"

definition rows_checked :: "db \<Rightarrow> bool" where
  "rows_checked d = (list_all namespace_check (rows (namespaces d)) \<and>
     list_all secret_check (rows (secrets d)) \<and> list_all version_check (rows (secret_versions d)))"

definition keys_ok :: "db \<Rightarrow> bool" where
  "keys_ok d = (namespaces_unique (namespaces d) \<and> secrets_unique (secrets d) \<and>
     versions_unique (secret_versions d))"

definition references_ok :: "db \<Rightarrow> bool" where
  "references_ok d = (fk_namespace_parent d \<and> fk_secret_namespace d \<and> fk_version_secret d \<and>
     fk_current_version d)"

definition records_ok :: "db \<Rightarrow> bool" where
  "records_ok d = (keys_ok d \<and> rows_checked d \<and> references_ok d \<and> versions_complete d \<and>
     deletion_marked d \<and> purge_enabled d = 0)"

lemma records_ok_logged [simp]: "records_ok (logged a d) = records_ok d"
  by (simp add: records_ok_def keys_ok_def rows_checked_def references_ok_def versions_complete_def
      deletion_marked_def)

section \<open>Tables under one statement\<close>

lemma version_numbers_insert [simp]:
  "version_numbers i (tbl_insert v t) =
     (if v_secret_id v = i then insert (v_version v) (version_numbers i t) else version_numbers i t)"
  by (auto simp: version_numbers_def tbl_select_def)

lemma version_numbers_delete [simp]:
  "version_numbers i (tbl_delete (\<lambda>v. v_secret_id v = j) t) = (if i = j then {} else version_numbers i t)"
  by (auto simp: version_numbers_def tbl_select_def)

lemma version_numbers_empty:
  "(\<And>v. v \<in> set (rows t) \<Longrightarrow> v_secret_id v \<noteq> i) \<Longrightarrow> version_numbers i t = {}"
  by (auto simp: version_numbers_def tbl_select_def)

lemma ball_rows_update:
  "(\<forall>r \<in> set (rows (tbl_update p f t)). P r) \<longleftrightarrow> (\<forall>r \<in> set (rows t). P (if p r then f r else r))"
  by auto

lemma bex_rows_update:
  "(\<exists>r \<in> set (rows (tbl_update p f t)). P r) \<longleftrightarrow> (\<exists>r \<in> set (rows t). P (if p r then f r else r))"
  by auto

lemma exists_update_key:
  assumes "\<And>r. p r \<Longrightarrow> k (f r) = k r"
  shows "tbl_exists (\<lambda>r. k r = v) (tbl_update p f t) = tbl_exists (\<lambda>r. k r = v) t"
  using assms by auto

lemma list_all_update:
  "list_all P (rows t) \<Longrightarrow> (\<forall>r \<in> set (rows t). p r \<longrightarrow> P (f r)) \<Longrightarrow> list_all P (rows (tbl_update p f t))"
  by (auto simp: list_all_iff)

section \<open>Preservation\<close>

lemma create_namespace_records:
  assumes "records_ok d" "create_namespace ns a d = (Inr x, d')"
  shows "records_ok d'"
  using assms(1) create_namespace_Inr [OF assms(2)]
  by (auto simp: records_ok_def keys_ok_def rows_checked_def references_ok_def versions_complete_def
      deletion_marked_def fk_secret_namespace_def fk_version_secret_def)

lemma move_namespace_records:
  assumes "records_ok d" "move_namespace m a d = (Inr x, d')"
  shows "records_ok d'"
proof -
  note eff = move_namespace_Inr [OF assms(2)]
  let ?p = "move_where m" and ?f = "move_set m"
  have d': "d' = logged a (d\<lparr>namespaces := tbl_update ?p ?f (namespaces d)\<rparr>)" using eff by blast
  have key: "\<And>r. ?p r \<Longrightarrow> n_id (?f r) = n_id r" by (simp add: move_set_def)
  have "list_all namespace_check (rows (namespaces d'))"
    using assms(1) eff by (auto simp: d' records_ok_def rows_checked_def list_all_iff)
  moreover have "fk_secret_namespace d'"
    using assms(1) by (simp add: d' fk_secret_namespace_def exists_update_key [where k = n_id, OF key]
        records_ok_def references_ok_def del: tbl_exists_iff rows_update)
  ultimately show ?thesis
    using assms(1) eff by (simp add: records_ok_def keys_ok_def rows_checked_def references_ok_def
        versions_complete_def deletion_marked_def d' fk_version_secret_def)
qed

lemma create_secret_records:
  assumes "records_ok d" "create_secret s a d = (Inr x, d')"
  shows "records_ok d'"
proof -
  obtain v where v: "v_secret_id v = si_secret_id s" "v_version v = 1"
    and d': "d' = logged a (d\<lparr>secrets := tbl_insert (secret_row_of s) (secrets d),
                      secret_versions := tbl_insert v (secret_versions d)\<rparr>)"
    and chk: "secret_check (secret_row_of s)" "version_check v"
    and u: "secrets_unique (secrets d')" "versions_unique (secret_versions d')"
    and fk: "fk_secret_namespace d'" "fk_current_version d'"
    using create_secret_Inr [OF assms(2)] by (metis version_row.select_convs(1,2))
  have row: "s_id (secret_row_of s) = si_secret_id s" "s_current (secret_row_of s) = 1"
    "s_lifecycle (secret_row_of s) = ''active''" "s_deleted (secret_row_of s) = None"
    by (simp_all add: secret_row_of_def)
  have new: "\<forall>r \<in> set (rows (secrets d)). s_id r \<noteq> si_secret_id s"
    using u(1) row by (auto simp: d' secrets_unique_def)
  moreover have "\<forall>r \<in> set (rows (secret_versions d)). \<exists>q \<in> set (rows (secrets d)). s_id q = v_secret_id r"
    using assms(1) by (simp add: records_ok_def references_ok_def fk_version_secret_def)
  ultimately have none: "version_numbers (si_secret_id s) (secret_versions d) = {}"
    by (intro version_numbers_empty) metis
  have "versions_complete d'"
    using assms(1) new none row v by (auto simp: records_ok_def versions_complete_def d')
  moreover have "fk_version_secret d'"
    using assms(1) row v by (auto simp: records_ok_def references_ok_def fk_version_secret_def d')
  ultimately show ?thesis
    using assms(1) chk u fk row by (simp add: records_ok_def keys_ok_def rows_checked_def
        references_ok_def deletion_marked_def d' fk_namespace_parent_def)
qed

lemma append_secret_version_records:
  assumes "records_ok d" "append_secret_version v a d = (Inr x, d')"
  shows "records_ok d'"
proof -
  note eff = append_secret_version_Inr [OF assms(2)]
  let ?p = "append_where v" and ?f = "append_set v" and ?v = "appended_version v"
  have d': "d' = logged a (d\<lparr>secret_versions := tbl_insert ?v (secret_versions d),
              secrets := tbl_update ?p ?f (secrets d)\<rparr>)" using eff by blast
  have key: "\<And>r. ?p r \<Longrightarrow> s_id (?f r) = s_id r" "\<And>r. s_namespace_id (?f r) = s_namespace_id r"
    "\<And>r. s_lifecycle (?f r) = s_lifecycle r" "\<And>r. s_deleted (?f r) = s_deleted r"
    by (simp_all add: append_set_def)
  obtain r where r: "?p r" "r \<in> set (rows (secrets d))"
    using eff tbl_count_one_exists by blast
  have uk: "unique_key s_id (secrets d)"
    using assms(1) by (simp add: records_ok_def keys_ok_def secrets_unique_def)
  have only: "q = r" if "q \<in> set (rows (secrets d))" "s_id q = sv_secret_id v" for q
    using unique_key_eq [OF uk that(1) r(2)] that(2) r(1) by (simp add: append_where_def)
  have "versions_complete d'"
    unfolding versions_complete_def
  proof
    fix q assume "q \<in> set (rows (secrets d'))"
    then obtain q0 where q0: "q0 \<in> set (rows (secrets d))" "q = (if ?p q0 then ?f q0 else q0)"
      by (auto simp: d')
    have old: "version_numbers (s_id q0) (secret_versions d) = {1..s_current q0}"
      using assms(1) q0 by (simp add: records_ok_def versions_complete_def)
    show "version_numbers (s_id q) (secret_versions d') = {1..s_current q}"
    proof (cases "s_id q0 = sv_secret_id v")
      case True
      then have "q0 = r" using only q0 by blast
      then show ?thesis using old q0 r(1)
        by (auto simp: d' append_set_def append_where_def appended_version_def)
    next
      case False
      then have "\<not> ?p q0" by (simp add: append_where_def)
      then show ?thesis using old q0 False by (simp add: d' appended_version_def)
    qed
  qed
  moreover have "fk_version_secret d'"
  proof -
    have "tbl_exists (\<lambda>s. s_id s = v_secret_id w) (secrets d)"
      if "w \<in> set (rows (secret_versions d'))" for w
      using that assms(1) r by (auto simp: d' records_ok_def references_ok_def fk_version_secret_def
          append_where_def appended_version_def)
    then show ?thesis
      unfolding fk_version_secret_def
      by (simp add: d' exists_update_key [where k = s_id, OF key(1)] del: tbl_exists_iff rows_update)
  qed
  moreover have "fk_secret_namespace d'" "deletion_marked d'"
    using assms(1) by (auto simp: records_ok_def references_ok_def fk_secret_namespace_def
        deletion_marked_def d' key)
  moreover have "list_all secret_check (rows (secrets d'))"
    using assms(1) eff by (auto simp: d' records_ok_def rows_checked_def list_all_iff secret_check_arith_def)
  ultimately show ?thesis
    using assms(1) eff by (simp add: records_ok_def keys_ok_def rows_checked_def
        references_ok_def d' fk_namespace_parent_def)
qed

lemma change_secret_lifecycle_records:
  assumes "records_ok d" "change_secret_lifecycle c a d = (Inr x, d')"
  shows "records_ok d'"
proof -
  note eff = change_secret_lifecycle_Inr [OF assms(2)]
  let ?p = "lifecycle_where c" and ?f = "lifecycle_set c"
  have d': "d' = logged a (d\<lparr>secrets := tbl_update ?p ?f (secrets d)\<rparr>)" using eff by blast
  have key: "\<And>r. ?p r \<Longrightarrow> s_id (?f r) = s_id r" "\<And>r. s_namespace_id (?f r) = s_namespace_id r"
    "\<And>r. s_current (?f r) = s_current r" "\<And>r. s_id (?f r) = s_id r"
    "\<And>r. (s_lifecycle (?f r) = ''deleted'') = (s_deleted (?f r) \<noteq> None)"
    by (simp_all add: lifecycle_set_def)
  have "fk_version_secret d'"
    using assms(1) by (simp add: fk_version_secret_def d' exists_update_key [where k = s_id, OF key(1)]
        records_ok_def references_ok_def del: tbl_exists_iff rows_update)
  moreover have "fk_secret_namespace d'" "deletion_marked d'" "versions_complete d'"
    using assms(1) by (auto simp: records_ok_def references_ok_def fk_secret_namespace_def
        deletion_marked_def versions_complete_def d' key(2-4) key(5) [simplified])
  moreover have "list_all secret_check (rows (secrets d'))"
    using assms(1) eff by (auto simp: d' records_ok_def rows_checked_def list_all_iff)
  ultimately show ?thesis
    using assms(1) eff by (simp add: records_ok_def keys_ok_def rows_checked_def
        references_ok_def d' fk_namespace_parent_def)
qed

lemma purge_secret_records:
  assumes "records_ok d" "purge_secret p a d = (Inr x, d')"
  shows "records_ok d'"
proof -
  obtain s where d': "d' = logged a (d\<lparr>tombstones := tbl_insert (tombstone_of p s) (tombstones d),
         secret_versions := tbl_delete (\<lambda>v. v_secret_id v = sp_secret_id p) (secret_versions d),
         secrets := tbl_delete (\<lambda>s. s_id s = sp_secret_id p) (secrets d), purge_enabled := 0\<rparr>)"
    and fk: "fk_current_version d'"
    using purge_secret_Inr [OF assms(2)] by blast
  have "secrets_unique (secrets d')" "versions_unique (secret_versions d')"
    using assms(1) by (auto simp: d' records_ok_def keys_ok_def secrets_unique_def versions_unique_def)
  moreover have "fk_version_secret d'"
    using assms(1) by (fastforce simp: d' records_ok_def references_ok_def fk_version_secret_def)
  ultimately show ?thesis
    using assms(1) fk by (auto simp: records_ok_def keys_ok_def rows_checked_def references_ok_def
        versions_complete_def deletion_marked_def list_all_iff d' fk_namespace_parent_def
        fk_secret_namespace_def)
qed

section \<open>The contract of a record operation\<close>

text \<open>A version row as its readers see it: the wrapping of its data key may change (a key
  rotation rewraps it), everything else is fixed.\<close>

definition version_row_at :: "uuid \<Rightarrow> int \<Rightarrow> db \<Rightarrow> version_row option" where
  "version_row_at i n d = tbl_find (\<lambda>v. (v_secret_id v, v_version v) = (i, n)) (secret_versions d)"

definition sealed_payload :: "version_row \<Rightarrow> bytes \<times> bytes" where
  "sealed_payload v = (x_nonce (v_payload v), x_ciphertext (v_payload v))"

definition tombstoned :: "uuid \<Rightarrow> db \<Rightarrow> bool" where
  "tombstoned i d = tbl_exists (\<lambda>t. t_secret_id t = i) (tombstones d)"

definition version_kept :: "db \<Rightarrow> db \<Rightarrow> bool" where
  "version_kept d d' = (\<forall>i n v. version_row_at i n d = Some v \<longrightarrow>
     (\<exists>v'. version_row_at i n d' = Some v' \<and> sealed_payload v' = sealed_payload v) \<or> tombstoned i d')"

lemma version_kept_refl: "version_kept d d"
  by (simp add: version_kept_def)

locale records_operation = audited_operation op
  for op :: "'i \<Rightarrow> audit_record \<Rightarrow> db \<Rightarrow> (storage_error + 'o) \<times> db" +
  assumes success_records: "records_ok d \<Longrightarrow> op i a d = (Inr x, d') \<Longrightarrow> records_ok d'"
    and success_versions: "op i a d = (Inr x, d') \<Longrightarrow> version_kept d d'"
    and success_tombstones: "op i a d = (Inr x, d') \<Longrightarrow> tombstoned j d \<Longrightarrow> tombstoned j d'"
begin

lemma keeps_records: "records_ok d \<Longrightarrow> op i a d = (r, d') \<Longrightarrow> records_ok d'"
  using failure_unchanged success_records by (cases r) blast+

lemma keeps_versions: "op i a d = (r, d') \<Longrightarrow> version_kept d d'"
  using failure_unchanged success_versions version_kept_refl by (cases r) blast+

lemma keeps_tombstones: "op i a d = (r, d') \<Longrightarrow> tombstoned j d \<Longrightarrow> tombstoned j d'"
  using failure_unchanged success_tombstones by (cases r) blast+

end

lemma version_kept_same: "secret_versions d' = secret_versions d \<Longrightarrow> version_kept d d'"
  by (simp add: version_kept_def version_row_at_def)

lemma version_kept_insert:
  assumes "secret_versions d' = tbl_insert v (secret_versions d)"
  shows "version_kept d d'"
  by (auto simp: version_kept_def version_row_at_def assms tbl_find_insert)

interpretation ns_create: records_operation create_namespace
proof unfold_locales
  fix ns a d x d' assume ok: "create_namespace ns a d = (Inr x, d')"
  note eff = create_namespace_Inr [OF ok]
  show "records_ok d \<Longrightarrow> records_ok d'" using create_namespace_records ok by blast
  show "version_kept d d'" using eff by (intro version_kept_same) simp
  show "tombstoned j d \<Longrightarrow> tombstoned j d'" for j using eff by (simp add: tombstoned_def)
qed

interpretation ns_move: records_operation move_namespace
proof unfold_locales
  fix m a d x d' assume ok: "move_namespace m a d = (Inr x, d')"
  note eff = move_namespace_Inr [OF ok]
  show "records_ok d \<Longrightarrow> records_ok d'" using move_namespace_records ok by blast
  show "version_kept d d'" using eff by (intro version_kept_same) simp
  show "tombstoned j d \<Longrightarrow> tombstoned j d'" for j using eff by (simp add: tombstoned_def)
qed

interpretation sec_create: records_operation create_secret
proof unfold_locales
  fix s a d x d' assume ok: "create_secret s a d = (Inr x, d')"
  note eff = create_secret_Inr [OF ok]
  show "records_ok d \<Longrightarrow> records_ok d'" using create_secret_records ok by blast
  show "version_kept d d'" using eff by (auto intro: version_kept_insert)
  show "tombstoned j d \<Longrightarrow> tombstoned j d'" for j using eff by (auto simp: tombstoned_def)
qed

interpretation ver_append: records_operation append_secret_version
proof unfold_locales
  fix v a d x d' assume ok: "append_secret_version v a d = (Inr x, d')"
  note eff = append_secret_version_Inr [OF ok]
  show "records_ok d \<Longrightarrow> records_ok d'" using append_secret_version_records ok by blast
  show "version_kept d d'" using eff by (auto intro: version_kept_insert)
  show "tombstoned j d \<Longrightarrow> tombstoned j d'" for j using eff by (simp add: tombstoned_def)
qed

interpretation sec_lifecycle: records_operation change_secret_lifecycle
proof unfold_locales
  fix c a d x d' assume ok: "change_secret_lifecycle c a d = (Inr x, d')"
  note eff = change_secret_lifecycle_Inr [OF ok]
  show "records_ok d \<Longrightarrow> records_ok d'" using change_secret_lifecycle_records ok by blast
  show "version_kept d d'" using eff by (intro version_kept_same) simp
  show "tombstoned j d \<Longrightarrow> tombstoned j d'" for j using eff by (simp add: tombstoned_def)
qed

interpretation sec_purge: records_operation purge_secret
proof unfold_locales
  fix p a d x d' assume ok: "purge_secret p a d = (Inr x, d')"
  show "records_ok d \<Longrightarrow> records_ok d'" using purge_secret_records ok by blast
  obtain s where d': "d' = logged a (d\<lparr>tombstones := tbl_insert (tombstone_of p s) (tombstones d),
         secret_versions := tbl_delete (\<lambda>v. v_secret_id v = sp_secret_id p) (secret_versions d),
         secrets := tbl_delete (\<lambda>s. s_id s = sp_secret_id p) (secrets d), purge_enabled := 0\<rparr>)"
    using purge_secret_Inr [OF ok] by blast
  show "tombstoned j d \<Longrightarrow> tombstoned j d'" for j by (auto simp: tombstoned_def d')
  have "tombstoned (sp_secret_id p) d'" by (simp add: tombstoned_def d' tombstone_of_def)
  moreover have "version_row_at i n d' = version_row_at i n d" if "i \<noteq> sp_secret_id p" for i n
    using that by (auto simp: version_row_at_def d' intro!: tbl_find_delete)
  ultimately show "version_kept d d'" unfolding version_kept_def by metis
qed

section \<open>Reading back\<close>

lemma parse_encrypted_of:
  assumes "enc_check n (enc_cols_of e)" "n \<le> 16777216" "er_kek_version e \<le> u32_max"
  shows "parse_encrypted (enc_cols_of e) = Inr e"
  using assms by (auto simp: parse_encrypted_def enc_cols_of_def enc_check_def result_simps)

lemma encrypted_secret_version_at:
  "\<not> poisoned d \<Longrightarrow> int n \<le> i64_max \<Longrightarrow> version_row_at i (int n) d = Some r \<Longrightarrow>
   encrypted_secret_version i n d = parse_encrypted (v_payload r)"
  by (simp add: encrypted_secret_version_def version_row_at_def query_def lock_def)

lemma version_row_at_unique:
  "versions_unique (secret_versions d) \<Longrightarrow> r \<in> set (rows (secret_versions d)) \<Longrightarrow>
   version_row_at (v_secret_id r) (v_version r) d = Some r"
  unfolding version_row_at_def versions_unique_def by (rule unique_key_find) auto

end
