(* ===== verification/Storage_Authorization.thy ===== *)
theory Storage_Authorization
  imports Storage_Records
begin

text \<open>
  The authorization graph in storage, \<open>src/crates/smcv-storage/src/authorization.rs\<close>:
  policies, their grants, their bindings to service identities, and the one revision that
  every change of the graph advances together with its commitment.  Each mutation is a
  \<open>revisioned_operation\<close> on that revision, so two changes computed from one snapshot
  cannot both be stored.
\<close>

section \<open>Data\<close>

record policy_record =
  po_policy_id :: uuid
  po_revision :: nat
  po_state :: string
  po_metadata_version :: nat
  po_metadata :: encrypted_record
  po_state_commitment :: bytes
  po_created_at :: unix_ms
  po_updated_at :: unix_ms

record policy_insert =
  pi_policy_id :: uuid
  pi_metadata :: encrypted_record
  pi_state_commitment :: bytes
  pi_created_at :: unix_ms

record policy_grant_record =
  pg_grant_id :: uuid
  pg_policy_id :: uuid
  pg_action :: action
  pg_resource_kind :: resource_kind
  pg_resource_id :: uuid
  pg_include_descendants :: bool
  pg_created_by :: uuid
  pg_created_at :: unix_ms
  pg_state_commitment :: bytes

record policy_binding_record =
  pb_principal_id :: uuid
  pb_policy_id :: uuid
  pb_created_by :: uuid
  pb_created_at :: unix_ms
  pb_state_commitment :: bytes

record authz_state =
  as_revision :: nat
  as_state_commitment :: bytes

record authz_snapshot =
  sn_state :: authz_state
  sn_policies :: "policy_record list"
  sn_grants :: "policy_grant_record list"
  sn_bindings :: "policy_binding_record list"

section \<open>Reading the graph\<close>

text \<open>The envelope of policies and service identities is read without the length check of
  \<open>parse_encrypted\<close>.\<close>

definition parse_envelope :: "enc_cols \<Rightarrow> storage_error + encrypted_record" where
  "parse_envelope x =
     rbind (try_into_array 24 InvalidData (x_nonce x)) (\<lambda>nonce.
     rbind (try_into_array 24 InvalidData (x_dek_nonce x)) (\<lambda>dek_nonce.
     rbind (try_into_array 48 InvalidData (x_wrapped_dek x)) (\<lambda>wrapped_dek.
     rbind (ok_or InvalidData (u32_of_i64 (x_kek x))) (\<lambda>kek_version.
     Inr \<lparr>er_nonce = nonce, er_ciphertext = x_ciphertext x, er_dek_nonce = dek_nonce,
          er_wrapped_dek = wrapped_dek, er_kek_version = kek_version\<rparr>))))"

definition parse_policy :: "policy_row \<Rightarrow> storage_error + policy_record" where
  "parse_policy r =
     rbind (parse_uuid (l_id r)) (\<lambda>policy_id.
     rbind (ok_or InvalidData (u64_of_i64 (l_revision r))) (\<lambda>revision.
     rbind (ok_or InvalidData (u64_of_i64 (l_metadata_version r))) (\<lambda>metadata_version.
     rbind (parse_envelope (l_meta r)) (\<lambda>metadata.
     rbind (try_into_array 32 InvalidData (l_commitment r)) (\<lambda>state_commitment.
     Inr \<lparr>po_policy_id = policy_id, po_revision = revision, po_state = l_state r,
          po_metadata_version = metadata_version, po_metadata = metadata,
          po_state_commitment = state_commitment, po_created_at = l_created r,
          po_updated_at = l_updated r\<rparr>)))))"

definition parse_resource_kind :: "string \<Rightarrow> storage_error + resource_kind" where
  "parse_resource_kind v =
     (if v = ''namespace'' then Inr Namespace else if v = ''secret'' then Inr Secret
      else Inl InvalidData)"

definition parse_bool :: "int \<Rightarrow> storage_error + bool" where
  "parse_bool v = (if v = 0 then Inr False else if v = 1 then Inr True else Inl InvalidData)"

definition parse_grant :: "grant_row \<Rightarrow> storage_error + policy_grant_record" where
  "parse_grant r =
     rbind (parse_uuid (g_id r)) (\<lambda>grant_id.
     rbind (parse_uuid (g_policy r)) (\<lambda>policy_id.
     rbind (map_err (\<lambda>_. InvalidData) (action_from_str (g_action r))) (\<lambda>action.
     rbind (parse_resource_kind (g_kind r)) (\<lambda>resource_kind.
     rbind (parse_uuid (g_resource r)) (\<lambda>resource_id.
     rbind (parse_bool (g_descendants r)) (\<lambda>include_descendants.
     rbind (parse_uuid (g_actor r)) (\<lambda>created_by.
     rbind (try_into_array 32 InvalidData (g_commitment r)) (\<lambda>state_commitment.
     Inr \<lparr>pg_grant_id = grant_id, pg_policy_id = policy_id, pg_action = action,
          pg_resource_kind = resource_kind, pg_resource_id = resource_id,
          pg_include_descendants = include_descendants, pg_created_by = created_by,
          pg_created_at = g_created r, pg_state_commitment = state_commitment\<rparr>))))))))"

definition parse_binding :: "binding_row \<Rightarrow> storage_error + policy_binding_record" where
  "parse_binding r =
     rbind (parse_uuid (b_principal r)) (\<lambda>principal_id.
     rbind (parse_uuid (b_policy r)) (\<lambda>policy_id.
     rbind (parse_uuid (b_actor r)) (\<lambda>created_by.
     rbind (try_into_array 32 InvalidData (b_commitment r)) (\<lambda>state_commitment.
     Inr \<lparr>pb_principal_id = principal_id, pb_policy_id = policy_id, pb_created_by = created_by,
          pb_created_at = b_created r, pb_state_commitment = state_commitment\<rparr>))))"

definition parse_authz_state :: "authorization_row \<Rightarrow> storage_error + authz_state" where
  "parse_authz_state z =
     rbind (ok_or InvalidData (u64_of_i64 (z_revision z))) (\<lambda>revision.
     rbind (try_into_array 32 InvalidData (z_commitment z)) (\<lambda>state_commitment.
     Inr \<lparr>as_revision = revision, as_state_commitment = state_commitment\<rparr>))"

definition authorization_snapshot :: "db \<Rightarrow> storage_error + authz_snapshot" where
  "authorization_snapshot =
     query (\<lambda>d.
       rbind (parse_authz_state (authorization_state d)) (\<lambda>st.
       rbind (traverse parse_policy (sort_key l_id (rows (policies d)))) (\<lambda>ps.
       rbind (traverse parse_grant (sort_key g_id (rows (policy_grants d)))) (\<lambda>gs.
       rbind (traverse parse_binding
         (sort_key b_principal (sort_key b_policy (rows (policy_bindings d))))) (\<lambda>bs.
       Inr \<lparr>sn_state = st, sn_policies = ps, sn_grants = gs, sn_bindings = bs\<rparr>)))))"

section \<open>Changing the graph\<close>

definition advance_authorization_state :: "nat \<Rightarrow> nat \<Rightarrow> bytes \<Rightarrow> db \<Rightarrow> storage_error + db" where
  "advance_authorization_state expected next commitment d =
     rbind (sql_i64 next) (\<lambda>next_sql.
     rbind (sql_i64 expected) (\<lambda>expected_sql.
     let z = authorization_state d; z' = \<lparr>z_revision = next_sql, z_commitment = commitment\<rparr> in
     rbind (ensure (z_revision z = expected_sql \<longrightarrow> authorization_check z') Sqlite) (\<lambda>_.
     rbind (ensure (z_revision z = expected_sql) Conflict) (\<lambda>_.
     Inr (d\<lparr>authorization_state := z'\<rparr>)))))"

definition policy_row_of :: "policy_insert \<Rightarrow> policy_row" where
  "policy_row_of p =
     \<lparr>l_id = pi_policy_id p, l_revision = 1, l_state = ''active'', l_metadata_version = 1,
      l_meta = enc_cols_of (pi_metadata p), l_commitment = pi_state_commitment p,
      l_created = pi_created_at p, l_updated = pi_created_at p\<rparr>"

definition create_policy :: "policy_insert \<Rightarrow> nat \<Rightarrow> bytes \<Rightarrow> audit_record \<Rightarrow> db \<Rightarrow>
    (storage_error + nat) \<times> db" where
  "create_policy policy expected_revision commitment audit =
     guarded (ok_or Conflict (checked_add_u64 expected_revision 1)) (\<lambda>next_revision.
       audited audit (\<lambda>d.
         rbind (sql_insert policy_check (unique_key l_id) (policy_row_of policy) (policies d)) (\<lambda>t.
         rbind (advance_authorization_state expected_revision next_revision commitment
                  (d\<lparr>policies := t\<rparr>)) (\<lambda>d1.
         Inr (next_revision, d1)))))"

definition grant_row_of :: "policy_grant_record \<Rightarrow> grant_row" where
  "grant_row_of g =
     \<lparr>g_id = pg_grant_id g, g_policy = pg_policy_id g, g_action = action_as_str (pg_action g),
      g_kind = resource_kind_as_str (pg_resource_kind g), g_resource = pg_resource_id g,
      g_descendants = (if pg_include_descendants g then 1 else 0), g_actor = pg_created_by g,
      g_created = pg_created_at g, g_commitment = pg_state_commitment g\<rparr>"

definition add_policy_grant :: "policy_grant_record \<Rightarrow> nat \<Rightarrow> bytes \<Rightarrow> audit_record \<Rightarrow> db \<Rightarrow>
    (storage_error + nat) \<times> db" where
  "add_policy_grant grant expected_revision commitment audit =
     guarded (ok_or Conflict (checked_add_u64 expected_revision 1)) (\<lambda>next_revision.
       audited audit (\<lambda>d.
         rbind (ensure (tbl_count (\<lambda>l. l_id l = pg_policy_id grant \<and> l_state l = ''active'')
           (policies d) = 1) StateConflict) (\<lambda>_.
         rbind (sql_insert grant_check grants_unique (grant_row_of grant) (policy_grants d)) (\<lambda>t.
         rbind (ensure (policy_exists d (pg_policy_id grant) \<and>
                        principal_exists d (pg_created_by grant)) Sqlite) (\<lambda>_.
         rbind (advance_authorization_state expected_revision next_revision commitment
                  (d\<lparr>policy_grants := t\<rparr>)) (\<lambda>d1.
         Inr (next_revision, d1)))))))"

definition archive_policy :: "uuid \<Rightarrow> nat \<Rightarrow> bytes \<Rightarrow> unix_ms \<Rightarrow> nat \<Rightarrow> bytes \<Rightarrow> audit_record \<Rightarrow>
    db \<Rightarrow> (storage_error + nat \<times> nat) \<times> db" where
  "archive_policy policy_id expected_policy policy_commitment updated_at expected_revision
     commitment audit =
     guarded
       (rbind (ok_or Conflict (checked_add_u64 expected_policy 1)) (\<lambda>next_policy.
        rbind (ok_or Conflict (checked_add_u64 expected_revision 1)) (\<lambda>next_revision.
        Inr (next_policy, next_revision))))
       (\<lambda>(next_policy, next_revision).
       audited audit (\<lambda>d.
         rbind (sql_i64 next_policy) (\<lambda>next_sql.
         rbind (sql_i64 expected_policy) (\<lambda>expected_sql.
         rbind (sql_update policy_check (unique_key l_id) no_trigger
           (\<lambda>l. l_id l = policy_id \<and> l_revision l = expected_sql \<and> l_state l = ''active'')
           (\<lambda>l. l\<lparr>l_state := ''archived'', l_revision := next_sql,
                  l_commitment := policy_commitment, l_updated := updated_at\<rparr>)
           (policies d)) (\<lambda>(changed, t).
         rbind (ensure (changed = 1) Conflict) (\<lambda>_.
         rbind (advance_authorization_state expected_revision next_revision commitment
                  (d\<lparr>policies := t\<rparr>)) (\<lambda>d1.
         Inr ((next_policy, next_revision), d1))))))))"

definition binding_row_of :: "policy_binding_record \<Rightarrow> binding_row" where
  "binding_row_of b =
     \<lparr>b_principal = pb_principal_id b, b_policy = pb_policy_id b, b_actor = pb_created_by b,
      b_created = pb_created_at b, b_commitment = pb_state_commitment b\<rparr>"

definition bind_policy :: "policy_binding_record \<Rightarrow> nat \<Rightarrow> bytes \<Rightarrow> audit_record \<Rightarrow> db \<Rightarrow>
    (storage_error + nat) \<times> db" where
  "bind_policy binding expected_revision commitment audit =
     guarded (ok_or Conflict (checked_add_u64 expected_revision 1)) (\<lambda>next_revision.
       audited audit (\<lambda>d.
         rbind (ensure (tbl_count (\<lambda>p. p_id p = pb_principal_id binding \<and> p_kind p = ''service'' \<and>
           p_state p = ''active'') (principals d) = 1) StateConflict) (\<lambda>_.
         rbind (sql_insert binding_check bindings_unique (binding_row_of binding)
           (policy_bindings d)) (\<lambda>t.
         rbind (ensure (principal_exists d (pb_principal_id binding) \<and>
                        policy_exists d (pb_policy_id binding) \<and>
                        principal_exists d (pb_created_by binding)) Sqlite) (\<lambda>_.
         rbind (advance_authorization_state expected_revision next_revision commitment
                  (d\<lparr>policy_bindings := t\<rparr>)) (\<lambda>d1.
         Inr (next_revision, d1)))))))"

section \<open>What a successful change did\<close>

lemma advance_Inr:
  "advance_authorization_state e n c d = Inr d' \<longleftrightarrow>
   d' = d\<lparr>authorization_state := \<lparr>z_revision = int n, z_commitment = c\<rparr>\<rparr> \<and>
   z_revision (authorization_state d) = int e \<and> int n \<le> i64_max \<and> int e \<le> i64_max \<and>
   authorization_check \<lparr>z_revision = int n, z_commitment = c\<rparr>"
  by (auto simp: advance_authorization_state_def result_simps Let_def)

lemma create_policy_Inr:
  assumes "create_policy p e c a d = (Inr x, d')"
  shows "d' = logged a (d\<lparr>policies := tbl_insert (policy_row_of p) (policies d),
           authorization_state := \<lparr>z_revision = int e + 1, z_commitment = c\<rparr>\<rparr>) \<and>
     z_revision (authorization_state d) = int e \<and> x = e + 1 \<and> policy_check (policy_row_of p) \<and>
     unique_key l_id (policies d') \<and> audit_appended a d d' \<and> \<not> poisoned d \<and>
     length c = 32 \<and> int e + 1 \<le> i64_max"
  using assms unfolding create_policy_def guarded_Inr
  by (elim exE conjE audited_effect) (auto simp: result_simps advance_Inr authorization_check_def add.commute)

lemma add_policy_grant_Inr:
  assumes "add_policy_grant g e c a d = (Inr x, d')"
  shows "d' = logged a (d\<lparr>policy_grants := tbl_insert (grant_row_of g) (policy_grants d),
           authorization_state := \<lparr>z_revision = int e + 1, z_commitment = c\<rparr>\<rparr>) \<and>
     z_revision (authorization_state d) = int e \<and> x = e + 1 \<and> grant_check (grant_row_of g) \<and>
     grants_unique (policy_grants d') \<and>
     tbl_count (\<lambda>l. l_id l = pg_policy_id g \<and> l_state l = ''active'') (policies d) = 1 \<and>
     principal_exists d (pg_created_by g) \<and> audit_appended a d d' \<and> \<not> poisoned d \<and>
     length c = 32 \<and> int e + 1 \<le> i64_max"
  using assms unfolding add_policy_grant_def guarded_Inr
  by (elim exE conjE audited_effect) (auto simp: result_simps advance_Inr authorization_check_def add.commute)

lemma bind_policy_Inr:
  assumes "bind_policy b e c a d = (Inr x, d')"
  shows "d' = logged a (d\<lparr>policy_bindings := tbl_insert (binding_row_of b) (policy_bindings d),
           authorization_state := \<lparr>z_revision = int e + 1, z_commitment = c\<rparr>\<rparr>) \<and>
     z_revision (authorization_state d) = int e \<and> x = e + 1 \<and> binding_check (binding_row_of b) \<and>
     bindings_unique (policy_bindings d') \<and>
     tbl_count (\<lambda>p. p_id p = pb_principal_id b \<and> p_kind p = ''service'' \<and> p_state p = ''active'')
       (principals d) = 1 \<and> policy_exists d (pb_policy_id b) \<and>
     audit_appended a d d' \<and> \<not> poisoned d \<and>
     length c = 32 \<and> int e + 1 \<le> i64_max"
  using assms unfolding bind_policy_def guarded_Inr
  by (elim exE conjE audited_effect) (auto simp: result_simps advance_Inr authorization_check_def add.commute)

definition archive_where :: "uuid \<Rightarrow> nat \<Rightarrow> policy_row \<Rightarrow> bool" where
  "archive_where i n l = (l_id l = i \<and> l_revision l = int n \<and> l_state l = ''active'')"

definition archive_set :: "nat \<Rightarrow> bytes \<Rightarrow> unix_ms \<Rightarrow> policy_row \<Rightarrow> policy_row" where
  "archive_set n c u l = l\<lparr>l_state := ''archived'', l_revision := int n + 1,
     l_commitment := c, l_updated := u\<rparr>"

lemma archive_policy_Inr:
  assumes "archive_policy i n pc u e c a d = (Inr x, d')"
  shows "d' = logged a (d\<lparr>policies := tbl_update (archive_where i n) (archive_set n pc u) (policies d),
           authorization_state := \<lparr>z_revision = int e + 1, z_commitment = c\<rparr>\<rparr>) \<and>
     z_revision (authorization_state d) = int e \<and> x = (n + 1, e + 1) \<and>
     tbl_count (archive_where i n) (policies d) = 1 \<and> unique_key l_id (policies d') \<and>
     (\<forall>l \<in> set (rows (policies d)). archive_where i n l \<longrightarrow> policy_check (archive_set n pc u l)) \<and>
     audit_appended a d d' \<and> \<not> poisoned d \<and>
     length c = 32 \<and> int e + 1 \<le> i64_max"
  using assms unfolding archive_policy_def guarded_Inr
  by (elim exE conjE, simp only: prod.case split_beta, elim audited_effect)
     (auto simp: result_simps advance_Inr authorization_check_def archive_where_def [abs_def] archive_set_def [abs_def] add.commute)

text \<open>The graph revision as the revision of the single row of its table.\<close>

definition authz_revision :: "unit \<Rightarrow> db \<Rightarrow> int option" where
  "authz_revision u d = Some (z_revision (authorization_state d))"

interpretation policy_create: revisioned_operation "\<lambda>(p, e, c). create_policy p e c"
  authz_revision "\<lambda>_. ()" "\<lambda>(p, e, c). e"
proof unfold_locales
  fix i a d x e d' and k :: unit
  show "(case i of (p, e, c) \<Rightarrow> create_policy p e c) a d = (Inl e, d') \<Longrightarrow> d' = d"
    by (auto simp: create_policy_def guarded_Inl split: prod.splits dest: audited_Inl)
  assume "(case i of (p, e, c) \<Rightarrow> create_policy p e c) a d = (Inr x, d')"
  then show "audit_appended a d d'" "authz_revision () d = Some (int (case i of (p, e, c) \<Rightarrow> e))"
    "authz_revision () d' = Some (int (case i of (p, e, c) \<Rightarrow> e) + 1)"
    "k \<noteq> () \<Longrightarrow> authz_revision k d' = authz_revision k d"
    by (auto simp: authz_revision_def split: prod.splits dest!: create_policy_Inr)
qed

interpretation grant_add: revisioned_operation "\<lambda>(g, e, c). add_policy_grant g e c"
  authz_revision "\<lambda>_. ()" "\<lambda>(g, e, c). e"
proof unfold_locales
  fix i a d x e d' and k :: unit
  show "(case i of (g, e, c) \<Rightarrow> add_policy_grant g e c) a d = (Inl e, d') \<Longrightarrow> d' = d"
    by (auto simp: add_policy_grant_def guarded_Inl split: prod.splits dest: audited_Inl)
  assume "(case i of (g, e, c) \<Rightarrow> add_policy_grant g e c) a d = (Inr x, d')"
  then show "audit_appended a d d'" "authz_revision () d = Some (int (case i of (g, e, c) \<Rightarrow> e))"
    "authz_revision () d' = Some (int (case i of (g, e, c) \<Rightarrow> e) + 1)"
    "k \<noteq> () \<Longrightarrow> authz_revision k d' = authz_revision k d"
    by (auto simp: authz_revision_def split: prod.splits dest!: add_policy_grant_Inr)
qed

interpretation policy_bind: revisioned_operation "\<lambda>(b, e, c). bind_policy b e c"
  authz_revision "\<lambda>_. ()" "\<lambda>(b, e, c). e"
proof unfold_locales
  fix i a d x e d' and k :: unit
  show "(case i of (b, e, c) \<Rightarrow> bind_policy b e c) a d = (Inl e, d') \<Longrightarrow> d' = d"
    by (auto simp: bind_policy_def guarded_Inl split: prod.splits dest: audited_Inl)
  assume "(case i of (b, e, c) \<Rightarrow> bind_policy b e c) a d = (Inr x, d')"
  then show "audit_appended a d d'" "authz_revision () d = Some (int (case i of (b, e, c) \<Rightarrow> e))"
    "authz_revision () d' = Some (int (case i of (b, e, c) \<Rightarrow> e) + 1)"
    "k \<noteq> () \<Longrightarrow> authz_revision k d' = authz_revision k d"
    by (auto simp: authz_revision_def split: prod.splits dest!: bind_policy_Inr)
qed

interpretation policy_archive: revisioned_operation "\<lambda>(i, n, pc, u, e, c). archive_policy i n pc u e c"
  authz_revision "\<lambda>_. ()" "\<lambda>(i, n, pc, u, e, c). e"
proof unfold_locales
  fix i a d x e d' and k :: unit
  show "(case i of (i, n, pc, u, e, c) \<Rightarrow> archive_policy i n pc u e c) a d = (Inl e, d') \<Longrightarrow> d' = d"
    by (auto simp: archive_policy_def guarded_Inl split: prod.splits dest: audited_Inl)
  assume "(case i of (i, n, pc, u, e, c) \<Rightarrow> archive_policy i n pc u e c) a d = (Inr x, d')"
  then show "audit_appended a d d'" "authz_revision () d = Some (int (case i of (i, n, pc, u, e, c) \<Rightarrow> e))"
    "authz_revision () d' = Some (int (case i of (i, n, pc, u, e, c) \<Rightarrow> e) + 1)"
    "k \<noteq> () \<Longrightarrow> authz_revision k d' = authz_revision k d"
    by (auto simp: authz_revision_def split: prod.splits dest!: archive_policy_Inr)
qed

section \<open>Round trips\<close>

lemma parse_resource_kind_of [simp]: "parse_resource_kind (resource_kind_as_str k) = Inr k"
  by (cases k) (simp_all add: parse_resource_kind_def)

lemma parse_grant_row_of:
  assumes "grant_check (grant_row_of g)" "length (pg_policy_id g) = 16" "length (pg_created_by g) = 16"
  shows "parse_grant (grant_row_of g) = Inr g"
  using assms by (simp add: grant_check_def grant_row_of_def parse_grant_def parse_bool_def parse_uuid_def)

lemma parse_binding_row_of:
  assumes "binding_check (binding_row_of b)" "length (pb_principal_id b) = 16"
    "length (pb_policy_id b) = 16" "length (pb_created_by b) = 16"
  shows "parse_binding (binding_row_of b) = Inr b"
  using assms by (simp add: binding_check_def binding_row_of_def parse_binding_def parse_uuid_def)

end
