(* ===== verification/Storage_Identity.thy ===== *)
theory Storage_Identity
  imports Storage_Authorization
begin

text \<open>
  Principals, owner authenticators, browser sessions, service identities and application
  credentials: \<open>src/crates/smcv-storage/src/identity.rs\<close>.  The lemmas give the effect of each
  mutation, the cap on the sessions of a principal, and that a revocation is final: no
  operation turns a revoked credential usable again, and the use of one is refused.
\<close>

section \<open>Data\<close>

definition MAX_ACTIVE_SESSIONS_PER_PRINCIPAL :: nat where
  "MAX_ACTIVE_SESSIONS_PER_PRINCIPAL = 32"

datatype principal_kind = Owner | Service

datatype authenticator_kind = Password | Passkey | Recovery

definition principal_kind_parse :: "string \<Rightarrow> storage_error + principal_kind" where
  "principal_kind_parse v =
     (if v = ''owner'' then Inr Owner else if v = ''service'' then Inr Service else Inl InvalidData)"

definition authenticator_kind_parse :: "string \<Rightarrow> storage_error + authenticator_kind" where
  "authenticator_kind_parse v =
     (if v = ''password'' then Inr Password
      else if v = ''passkey'' then Inr Passkey
      else if v = ''recovery'' then Inr Recovery
      else Inl InvalidData)"

fun authenticator_kind_as_str :: "authenticator_kind \<Rightarrow> string" where
  "authenticator_kind_as_str Password = ''password''"
| "authenticator_kind_as_str Passkey = ''passkey''"
| "authenticator_kind_as_str Recovery = ''recovery''"

record principal_record =
  pr_principal_id :: uuid
  pr_kind :: principal_kind
  pr_state :: string
  pr_revision :: nat
  pr_state_commitment :: bytes

record owner_authenticator_insert =
  oi_authenticator_id :: uuid
  oi_kind :: authenticator_kind
  oi_credential_lookup :: "bytes option"
  oi_credential_data :: "bytes option"
  oi_password_phc :: "string option"
  oi_state_commitment :: bytes

record owner_authenticator_record =
  oa_authenticator_id :: uuid
  oa_principal_id :: uuid
  oa_kind :: authenticator_kind
  oa_credential_lookup :: "bytes option"
  oa_credential_data :: "bytes option"
  oa_password_phc :: "string option"
  oa_state :: string
  oa_created_at :: unix_ms
  oa_last_used_at :: "unix_ms option"
  oa_revoked_at :: "unix_ms option"
  oa_state_commitment :: bytes

record session_insert =
  ws_session_id :: uuid
  ws_lookup_id :: bytes
  ws_verifier :: bytes
  ws_csrf_verifier :: bytes
  ws_principal_id :: uuid
  ws_authenticator_id :: uuid
  ws_auth_method :: authenticator_kind
  ws_created_at :: unix_ms
  ws_idle_expires_at :: unix_ms
  ws_absolute_expires_at :: unix_ms
  ws_recent_auth_at :: unix_ms
  ws_state_commitment :: bytes
  ws_expected_authenticator_state_commitment :: bytes
  ws_authenticator_state_commitment :: bytes
  ws_authenticator_credential_data :: "bytes option"

record session_record =
  se_session_id :: uuid
  se_lookup_id :: bytes
  se_verifier :: bytes
  se_csrf_verifier :: bytes
  se_principal_id :: uuid
  se_authenticator_id :: uuid
  se_auth_method :: authenticator_kind
  se_created_at :: unix_ms
  se_last_used_at :: unix_ms
  se_idle_expires_at :: unix_ms
  se_absolute_expires_at :: unix_ms
  se_recent_auth_at :: unix_ms
  se_revoked_at :: "unix_ms option"
  se_state_commitment :: bytes

record application_credential_insert =
  ci_credential_id :: uuid
  ci_principal_id :: uuid
  ci_lookup_id :: bytes
  ci_verifier :: bytes
  ci_created_at :: unix_ms
  ci_expires_at :: "unix_ms option"
  ci_state_commitment :: bytes

record application_credential_record =
  cr_credential_id :: uuid
  cr_principal_id :: uuid
  cr_lookup_id :: bytes
  cr_verifier :: bytes
  cr_created_at :: unix_ms
  cr_expires_at :: "unix_ms option"
  cr_last_used_at :: "unix_ms option"
  cr_revoked_at :: "unix_ms option"
  cr_revision :: nat
  cr_state_commitment :: bytes

record service_identity_insert =
  yi_principal_id :: uuid
  yi_principal_state_commitment :: bytes
  yi_metadata :: encrypted_record
  yi_created_at :: unix_ms

record service_identity_record =
  yr_principal :: principal_record
  yr_metadata_version :: nat
  yr_metadata :: encrypted_record

section \<open>Rows\<close>

definition parse_principal :: "principal_row \<Rightarrow> storage_error + principal_record" where
  "parse_principal r =
     rbind (parse_uuid (p_id r)) (\<lambda>principal_id.
     rbind (principal_kind_parse (p_kind r)) (\<lambda>kind.
     rbind (ok_or InvalidData (u64_of_i64 (p_revision r))) (\<lambda>revision.
     rbind (try_into_array 32 InvalidData (p_commitment r)) (\<lambda>state_commitment.
     Inr \<lparr>pr_principal_id = principal_id, pr_kind = kind, pr_state = p_state r,
          pr_revision = revision, pr_state_commitment = state_commitment\<rparr>))))"

definition parse_authenticator :: "authenticator_row \<Rightarrow> storage_error + owner_authenticator_record" where
  "parse_authenticator r =
     rbind (parse_uuid (h_id r)) (\<lambda>authenticator_id.
     rbind (parse_uuid (h_principal r)) (\<lambda>principal_id.
     rbind (authenticator_kind_parse (h_kind r)) (\<lambda>kind.
     rbind (try_into_array 32 InvalidData (h_commitment r)) (\<lambda>state_commitment.
     Inr \<lparr>oa_authenticator_id = authenticator_id, oa_principal_id = principal_id, oa_kind = kind,
          oa_credential_lookup = h_lookup r, oa_credential_data = h_data r,
          oa_password_phc = h_phc r, oa_state = h_state r, oa_created_at = h_created r,
          oa_last_used_at = h_last_used r, oa_revoked_at = h_revoked r,
          oa_state_commitment = state_commitment\<rparr>))))"

definition parse_session :: "session_row \<Rightarrow> storage_error + session_record" where
  "parse_session r =
     rbind (parse_uuid (w_id r)) (\<lambda>session_id.
     rbind (try_into_array 16 InvalidData (w_lookup r)) (\<lambda>lookup_id.
     rbind (try_into_array 32 InvalidData (w_verifier r)) (\<lambda>verifier.
     rbind (try_into_array 32 InvalidData (w_csrf r)) (\<lambda>csrf_verifier.
     rbind (parse_uuid (w_principal r)) (\<lambda>principal_id.
     rbind (parse_uuid (w_authenticator r)) (\<lambda>authenticator_id.
     rbind (authenticator_kind_parse (w_method r)) (\<lambda>auth_method.
     rbind (try_into_array 32 InvalidData (w_commitment r)) (\<lambda>state_commitment.
     Inr \<lparr>se_session_id = session_id, se_lookup_id = lookup_id, se_verifier = verifier,
          se_csrf_verifier = csrf_verifier, se_principal_id = principal_id,
          se_authenticator_id = authenticator_id, se_auth_method = auth_method,
          se_created_at = w_created r, se_last_used_at = w_last_used r,
          se_idle_expires_at = w_idle_expires r, se_absolute_expires_at = w_absolute_expires r,
          se_recent_auth_at = w_recent_auth r, se_revoked_at = w_revoked r,
          se_state_commitment = state_commitment\<rparr>))))))))"

definition parse_application_credential :: "credential_row \<Rightarrow>
    storage_error + application_credential_record" where
  "parse_application_credential r =
     rbind (parse_uuid (c_id r)) (\<lambda>credential_id.
     rbind (parse_uuid (c_principal r)) (\<lambda>principal_id.
     rbind (try_into_array 12 InvalidData (c_lookup r)) (\<lambda>lookup_id.
     rbind (try_into_array 32 InvalidData (c_verifier r)) (\<lambda>verifier.
     rbind (ok_or InvalidData (u64_of_i64 (c_revision r))) (\<lambda>revision.
     rbind (try_into_array 32 InvalidData (c_commitment r)) (\<lambda>state_commitment.
     Inr \<lparr>cr_credential_id = credential_id, cr_principal_id = principal_id,
          cr_lookup_id = lookup_id, cr_verifier = verifier, cr_created_at = c_created r,
          cr_expires_at = c_expires r, cr_last_used_at = c_last_used r,
          cr_revoked_at = c_revoked r, cr_revision = revision,
          cr_state_commitment = state_commitment\<rparr>))))))"

section \<open>Principals and authenticators\<close>

definition service_principal_row :: "service_identity_insert \<Rightarrow> principal_row" where
  "service_principal_row i =
     \<lparr>p_id = yi_principal_id i, p_kind = ''service'', p_state = ''active'', p_revision = 1,
      p_commitment = yi_principal_state_commitment i, p_created = yi_created_at i,
      p_updated = yi_created_at i\<rparr>"

definition service_row_of :: "service_identity_insert \<Rightarrow> service_row" where
  "service_row_of i =
     \<lparr>y_principal = yi_principal_id i, y_metadata_version = 1, y_meta = enc_cols_of (yi_metadata i)\<rparr>"

definition create_service_identity :: "service_identity_insert \<Rightarrow> audit_record \<Rightarrow> db \<Rightarrow>
    (storage_error + unit) \<times> db" where
  "create_service_identity identity audit =
     audited audit (\<lambda>d.
       rbind (sql_insert principal_check principals_unique (service_principal_row identity)
         (principals d)) (\<lambda>ps.
       rbind (sql_insert service_check (unique_key y_principal) (service_row_of identity)
         (service_identities d)) (\<lambda>ys.
       Inr ((), d\<lparr>principals := ps, service_identities := ys\<rparr>))))"

definition principal :: "uuid \<Rightarrow> db \<Rightarrow> storage_error + principal_record" where
  "principal principal_id =
     query (\<lambda>d. rbind (ok_or NotInitialized (tbl_find (\<lambda>p. p_id p = principal_id) (principals d)))
       parse_principal)"

definition owner_principal :: "db \<Rightarrow> storage_error + principal_record option" where
  "owner_principal =
     query (\<lambda>d. transpose_map parse_principal (tbl_find (\<lambda>p. p_kind p = ''owner'') (principals d)))"

definition service_identity :: "uuid \<Rightarrow> db \<Rightarrow> storage_error + service_identity_record" where
  "service_identity principal_id d =
     rbind (principal principal_id d) (\<lambda>p.
     rbind (ensure (pr_kind p = Service) InvalidData) (\<lambda>_.
     query (\<lambda>d.
       rbind (ok_or NotInitialized (tbl_find (\<lambda>y. y_principal y = principal_id)
         (service_identities d))) (\<lambda>y.
       rbind (ok_or InvalidData (u64_of_i64 (y_metadata_version y))) (\<lambda>metadata_version.
       rbind (parse_envelope (y_meta y)) (\<lambda>metadata.
       Inr \<lparr>yr_principal = p, yr_metadata_version = metadata_version, yr_metadata = metadata\<rparr>)))) d))"

definition service_identities_after :: "uuid option \<Rightarrow> nat \<Rightarrow> db \<Rightarrow>
    storage_error + service_identity_record list" where
  "service_identities_after after limit d =
     rbind (ensure (limit \<noteq> 0) InvalidData) (\<lambda>_.
     rbind (query (\<lambda>d. traverse parse_uuid
         (take limit (sort (map y_principal (tbl_select (\<lambda>y. cursor after < y_principal y \<and>
            tbl_exists (\<lambda>p. p_id p = y_principal y \<and> p_kind p = ''service'') (principals d))
            (service_identities d)))))) d) (\<lambda>ids.
     traverse (\<lambda>i. service_identity i d) ids))"

definition validate_authenticator :: "owner_authenticator_insert \<Rightarrow> storage_error + unit" where
  "validate_authenticator a =
     ensure (case oi_kind a of
         Passkey \<Rightarrow> oi_credential_lookup a \<noteq> None \<and> oi_credential_data a \<noteq> None \<and> oi_password_phc a = None
       | Password \<Rightarrow> oi_credential_lookup a = None \<and> oi_credential_data a = None \<and> oi_password_phc a \<noteq> None
       | Recovery \<Rightarrow> oi_credential_lookup a = None \<and> oi_credential_data a = None \<and> oi_password_phc a \<noteq> None)
     Conflict"

definition authenticator_row_of :: "uuid \<Rightarrow> owner_authenticator_insert \<Rightarrow> unix_ms \<Rightarrow> authenticator_row" where
  "authenticator_row_of principal_id a now =
     \<lparr>h_id = oi_authenticator_id a, h_principal = principal_id,
      h_kind = authenticator_kind_as_str (oi_kind a), h_lookup = oi_credential_lookup a,
      h_data = oi_credential_data a, h_phc = oi_password_phc a, h_state = ''active'',
      h_created = now, h_last_used = None, h_revoked = None, h_commitment = oi_state_commitment a\<rparr>"

definition insert_authenticator :: "uuid \<Rightarrow> owner_authenticator_insert \<Rightarrow> unix_ms \<Rightarrow> db \<Rightarrow>
    storage_error + db" where
  "insert_authenticator principal_id a now d =
     rbind (sql_insert authenticator_check authenticators_unique (authenticator_row_of principal_id a now)
       (owner_authenticators d)) (\<lambda>t.
     rbind (ensure (principal_exists d principal_id) Sqlite) (\<lambda>_.
     Inr (d\<lparr>owner_authenticators := t\<rparr>)))"

definition owner_row :: "uuid \<Rightarrow> bytes \<Rightarrow> unix_ms \<Rightarrow> principal_row" where
  "owner_row principal_id commitment now =
     \<lparr>p_id = principal_id, p_kind = ''owner'', p_state = ''active'', p_revision = 1,
      p_commitment = commitment, p_created = now, p_updated = now\<rparr>"

definition enroll_owner :: "uuid \<Rightarrow> bytes \<Rightarrow> bytes \<Rightarrow> owner_authenticator_insert \<Rightarrow> unix_ms \<Rightarrow>
    audit_record \<Rightarrow> db \<Rightarrow> (storage_error + unit) \<times> db" where
  "enroll_owner principal_id principal_commitment authorization_commitment authenticator now audit =
     guarded (validate_authenticator authenticator) (\<lambda>_.
       audited audit (\<lambda>d.
         rbind (ensure (tbl_count (\<lambda>p. p_kind p = ''owner'') (principals d) = 0) Conflict) (\<lambda>_.
         rbind (sql_insert principal_check principals_unique
           (owner_row principal_id principal_commitment now) (principals d)) (\<lambda>ps.
         rbind (insert_authenticator principal_id authenticator now (d\<lparr>principals := ps\<rparr>)) (\<lambda>d1.
         let z = authorization_state d1; z' = z\<lparr>z_commitment := authorization_commitment\<rparr>;
             hit = (z_revision z = 1 \<and> z_commitment z = zero_commitment) in
         rbind (ensure (hit \<longrightarrow> authorization_check z') Sqlite) (\<lambda>_.
         rbind (ensure hit StateConflict) (\<lambda>_.
         Inr ((), d1\<lparr>authorization_state := z'\<rparr>))))))))"

definition add_owner_authenticator :: "uuid \<Rightarrow> owner_authenticator_insert \<Rightarrow> unix_ms \<Rightarrow>
    audit_record \<Rightarrow> db \<Rightarrow> (storage_error + unit) \<times> db" where
  "add_owner_authenticator principal_id authenticator now audit =
     guarded (validate_authenticator authenticator) (\<lambda>_.
       audited audit (\<lambda>d.
         rbind (ensure (tbl_count (\<lambda>p. p_id p = principal_id \<and> p_kind p = ''owner'' \<and>
           p_state p = ''active'') (principals d) = 1) StateConflict) (\<lambda>_.
         rbind (insert_authenticator principal_id authenticator now d) (\<lambda>d1. Inr ((), d1)))))"

definition owner_authenticators_of :: "authenticator_kind \<Rightarrow> db \<Rightarrow>
    storage_error + owner_authenticator_record list" where
  "owner_authenticators_of kind =
     query (\<lambda>d. traverse parse_authenticator (sort_key h_created (sort_key h_id
       (tbl_select (\<lambda>h. h_kind h = authenticator_kind_as_str kind \<and> h_state h = ''active'')
         (owner_authenticators d)))))"

section \<open>Sessions\<close>

definition session_row_of :: "session_insert \<Rightarrow> session_row" where
  "session_row_of s =
     \<lparr>w_id = ws_session_id s, w_lookup = ws_lookup_id s, w_verifier = ws_verifier s,
      w_csrf = ws_csrf_verifier s, w_principal = ws_principal_id s,
      w_authenticator = ws_authenticator_id s,
      w_method = authenticator_kind_as_str (ws_auth_method s), w_created = ws_created_at s,
      w_last_used = ws_created_at s, w_idle_expires = ws_idle_expires_at s,
      w_absolute_expires = ws_absolute_expires_at s, w_recent_auth = ws_recent_auth_at s,
      w_revoked = None, w_commitment = ws_state_commitment s\<rparr>"

text \<open>The rows the \<open>DELETE\<close> of \<open>create_session\<close> removes.\<close>

definition session_dead :: "session_insert \<Rightarrow> session_row \<Rightarrow> bool" where
  "session_dead s w = (w_revoked w \<noteq> None \<or> w_absolute_expires w < ws_created_at s)"

definition create_session :: "session_insert \<Rightarrow> audit_record \<Rightarrow> db \<Rightarrow> (storage_error + unit) \<times> db" where
  "create_session s audit =
     guarded (ensure (ws_created_at s < ws_idle_expires_at s \<and>
                      ws_idle_expires_at s \<le> ws_absolute_expires_at s) Conflict) (\<lambda>_.
       audited audit (\<lambda>d.
         let live = tbl_delete (session_dead s) (sessions d);
             active = tbl_count (\<lambda>w. w_principal w = ws_principal_id s \<and> w_revoked w = None \<and>
                        ws_created_at s \<le> w_absolute_expires w) live in
         rbind (ensure (active < MAX_ACTIVE_SESSIONS_PER_PRINCIPAL) StateConflict) (\<lambda>_.
         rbind (sql_insert session_check sessions_unique (session_row_of s) live) (\<lambda>ws.
         rbind (ensure (principal_exists d (ws_principal_id s) \<and>
                        authenticator_exists d (ws_authenticator_id s)) Sqlite) (\<lambda>_.
         rbind (sql_update authenticator_check authenticators_unique no_trigger
           (\<lambda>h. h_id h = ws_authenticator_id s \<and> h_principal h = ws_principal_id s \<and>
                h_state h = ''active'' \<and> h_revoked h = None \<and>
                h_commitment h = ws_expected_authenticator_state_commitment s)
           (\<lambda>h. h\<lparr>h_last_used := Some (ws_created_at s),
                  h_commitment := ws_authenticator_state_commitment s,
                  h_data := (case ws_authenticator_credential_data s of
                               None \<Rightarrow> h_data h | Some b \<Rightarrow> Some b)\<rparr>)
           (owner_authenticators d)) (\<lambda>(changed, hs).
         rbind (ensure (changed = 1) StateConflict) (\<lambda>_.
         Inr ((), d\<lparr>sessions := ws, owner_authenticators := hs\<rparr>))))))))"

definition session_by_lookup :: "bytes \<Rightarrow> db \<Rightarrow> storage_error + session_record option" where
  "session_by_lookup lookup_id =
     query (\<lambda>d. transpose_map parse_session (tbl_find (\<lambda>w. w_lookup w = lookup_id) (sessions d)))"

definition session :: "uuid \<Rightarrow> db \<Rightarrow> storage_error + session_record" where
  "session session_id =
     query (\<lambda>d. rbind (ok_or NotInitialized (tbl_find (\<lambda>w. w_id w = session_id) (sessions d)))
       parse_session)"

text \<open>One statement outside an explicit transaction is its own transaction.\<close>

definition touch_session :: "uuid \<Rightarrow> unix_ms \<Rightarrow> unix_ms \<Rightarrow> unix_ms \<Rightarrow> unix_ms \<Rightarrow> bytes \<Rightarrow> db \<Rightarrow>
    (storage_error + unit) \<times> db" where
  "touch_session session_id expected_last_used now idle_expires recent_auth commitment =
     transaction (\<lambda>d.
       rbind (sql_update session_check sessions_unique no_trigger
         (\<lambda>w. w_id w = session_id \<and> w_last_used w = expected_last_used \<and> w_revoked w = None \<and>
              now \<le> w_idle_expires w \<and> now \<le> w_absolute_expires w \<and>
              idle_expires \<le> w_absolute_expires w)
         (\<lambda>w. w\<lparr>w_last_used := now, w_idle_expires := idle_expires, w_recent_auth := recent_auth,
                w_commitment := commitment\<rparr>)
         (sessions d)) (\<lambda>(changed, t).
       rbind (ensure (changed = 1) Conflict) (\<lambda>_. Inr ((), d\<lparr>sessions := t\<rparr>))))"

definition revoke_session :: "uuid \<Rightarrow> unix_ms \<Rightarrow> unix_ms \<Rightarrow> bytes \<Rightarrow> audit_record \<Rightarrow> db \<Rightarrow>
    (storage_error + unit) \<times> db" where
  "revoke_session session_id expected_last_used revoked_at commitment audit =
     audited audit (\<lambda>d.
       rbind (sql_update session_check sessions_unique no_trigger
         (\<lambda>w. w_id w = session_id \<and> w_last_used w = expected_last_used \<and> w_revoked w = None)
         (\<lambda>w. w\<lparr>w_revoked := Some revoked_at, w_commitment := commitment\<rparr>)
         (sessions d)) (\<lambda>(changed, t).
       rbind (ensure (changed = 1) Conflict) (\<lambda>_. Inr ((), d\<lparr>sessions := t\<rparr>))))"

section \<open>Application credentials\<close>

definition application_credential_by_lookup :: "bytes \<Rightarrow> db \<Rightarrow>
    storage_error + application_credential_record option" where
  "application_credential_by_lookup lookup_id =
     query (\<lambda>d. transpose_map parse_application_credential
       (tbl_find (\<lambda>c. c_lookup c = lookup_id) (application_credentials d)))"

definition application_credential :: "uuid \<Rightarrow> db \<Rightarrow> storage_error + application_credential_record" where
  "application_credential credential_id =
     query (\<lambda>d. rbind (ok_or NotInitialized (tbl_find (\<lambda>c. c_id c = credential_id)
         (application_credentials d)))
       parse_application_credential)"

definition application_credentials_after :: "uuid \<Rightarrow> (unix_ms \<times> uuid) option \<Rightarrow> nat \<Rightarrow> db \<Rightarrow>
    storage_error + application_credential_record list" where
  "application_credentials_after principal_id after limit d =
     rbind (ensure (limit \<noteq> 0) InvalidData) (\<lambda>_.
     let (after_created, after_id) = (case after of None \<Rightarrow> (i64_min, replicate 16 0) | Some p \<Rightarrow> p) in
     query (\<lambda>d. traverse parse_application_credential (take limit
       (sort_key c_created (sort_key c_id (tbl_select (\<lambda>c. c_principal c = principal_id \<and>
          (after_created < c_created c \<or> (c_created c = after_created \<and> after_id < c_id c)))
          (application_credentials d)))))) d)"

definition credential_row_of :: "application_credential_insert \<Rightarrow> credential_row" where
  "credential_row_of c =
     \<lparr>c_id = ci_credential_id c, c_principal = ci_principal_id c, c_lookup = ci_lookup_id c,
      c_verifier = ci_verifier c, c_created = ci_created_at c, c_expires = ci_expires_at c,
      c_last_used = None, c_revoked = None, c_revision = 1, c_commitment = ci_state_commitment c\<rparr>"

definition create_application_credential :: "application_credential_insert \<Rightarrow> audit_record \<Rightarrow> db \<Rightarrow>
    (storage_error + unit) \<times> db" where
  "create_application_credential c audit =
     audited audit (\<lambda>d.
       rbind (sql_insert credential_check credentials_unique (credential_row_of c)
         (application_credentials d)) (\<lambda>t.
       rbind (ensure (principal_exists d (ci_principal_id c)) Sqlite) (\<lambda>_.
       Inr ((), d\<lparr>application_credentials := t\<rparr>))))"

definition mark_application_credential_used :: "uuid \<Rightarrow> nat \<Rightarrow> unix_ms \<Rightarrow> bytes \<Rightarrow> db \<Rightarrow>
    (storage_error + nat) \<times> db" where
  "mark_application_credential_used credential_id expected_revision now commitment =
     guarded
       (rbind (ok_or Conflict (checked_add_u64 expected_revision 1)) (\<lambda>next.
        rbind (sql_i64 next) (\<lambda>next_sql.
        rbind (sql_i64 expected_revision) (\<lambda>expected_sql. Inr (next, next_sql, expected_sql)))))
       (\<lambda>(next, next_sql, expected_sql).
       transaction (\<lambda>d.
         rbind (sql_update credential_check credentials_unique no_trigger
           (\<lambda>c. c_id c = credential_id \<and> c_revision c = expected_sql \<and> c_revoked c = None \<and>
                is_none_or (\<lambda>e. now \<le> e) (c_expires c))
           (\<lambda>c. c\<lparr>c_last_used := Some now, c_revision := next_sql, c_commitment := commitment\<rparr>)
           (application_credentials d)) (\<lambda>(changed, t).
         rbind (ensure (changed = 1) Conflict) (\<lambda>_. Inr (next, d\<lparr>application_credentials := t\<rparr>)))))"

definition revoke_application_credential :: "uuid \<Rightarrow> nat \<Rightarrow> unix_ms \<Rightarrow> bytes \<Rightarrow> audit_record \<Rightarrow> db \<Rightarrow>
    (storage_error + nat) \<times> db" where
  "revoke_application_credential credential_id expected_revision revoked_at commitment audit =
     guarded (ok_or Conflict (checked_add_u64 expected_revision 1)) (\<lambda>next.
       audited audit (\<lambda>d.
         rbind (sql_i64 next) (\<lambda>next_sql.
         rbind (sql_i64 expected_revision) (\<lambda>expected_sql.
         rbind (sql_update credential_check credentials_unique no_trigger
           (\<lambda>c. c_id c = credential_id \<and> c_revision c = expected_sql \<and> c_revoked c = None)
           (\<lambda>c. c\<lparr>c_revoked := Some revoked_at, c_revision := next_sql, c_commitment := commitment\<rparr>)
           (application_credentials d)) (\<lambda>(changed, t).
         rbind (ensure (changed = 1) Conflict) (\<lambda>_. Inr (next, d\<lparr>application_credentials := t\<rparr>)))))))"

section \<open>What a successful operation did\<close>

lemma create_service_identity_Inr:
  assumes "create_service_identity i a d = (Inr x, d')"
  shows "d' = logged a (d\<lparr>principals := tbl_insert (service_principal_row i) (principals d),
           service_identities := tbl_insert (service_row_of i) (service_identities d)\<rparr>) \<and>
     principal_check (service_principal_row i) \<and> principals_unique (principals d') \<and>
     service_check (service_row_of i) \<and> unique_key y_principal (service_identities d') \<and>
     audit_appended a d d' \<and> \<not> poisoned d"
  using assms unfolding create_service_identity_def
  by (elim audited_effect) (auto simp: result_simps)

lemma insert_authenticator_Inr:
  "insert_authenticator i a now d = Inr d' \<longleftrightarrow>
   d' = d\<lparr>owner_authenticators := tbl_insert (authenticator_row_of i a now) (owner_authenticators d)\<rparr> \<and>
   authenticator_check (authenticator_row_of i a now) \<and>
   authenticators_unique (owner_authenticators d') \<and> principal_exists d i"
  by (auto simp: insert_authenticator_def result_simps)

lemma enroll_owner_Inr:
  assumes "enroll_owner i pc zc h now a d = (Inr x, d')"
  shows "d' = logged a (d\<lparr>principals := tbl_insert (owner_row i pc now) (principals d),
           owner_authenticators := tbl_insert (authenticator_row_of i h now) (owner_authenticators d),
           authorization_state := authorization_state d\<lparr>z_commitment := zc\<rparr>\<rparr>) \<and>
     tbl_count (\<lambda>p. p_kind p = ''owner'') (principals d) = 0 \<and> principals_unique (principals d') \<and>
     principal_check (owner_row i pc now) \<and> authenticator_check (authenticator_row_of i h now) \<and>
     authenticators_unique (owner_authenticators d') \<and>
     z_revision (authorization_state d) = 1 \<and> z_commitment (authorization_state d) = zero_commitment \<and>
     audit_appended a d d' \<and> \<not> poisoned d"
  using assms unfolding enroll_owner_def guarded_Inr
  by (elim exE conjE audited_effect)
     (auto simp: result_simps insert_authenticator_Inr Let_def simp del: tbl_count_0)

lemma add_owner_authenticator_Inr:
  assumes "add_owner_authenticator i h now a d = (Inr x, d')"
  shows "d' = logged a (d\<lparr>owner_authenticators :=
             tbl_insert (authenticator_row_of i h now) (owner_authenticators d)\<rparr>) \<and>
     authenticator_check (authenticator_row_of i h now) \<and>
     authenticators_unique (owner_authenticators d') \<and> audit_appended a d d' \<and> \<not> poisoned d"
  using assms unfolding add_owner_authenticator_def guarded_Inr
  by (elim exE conjE audited_effect) (auto simp: result_simps insert_authenticator_Inr)

lemma create_session_Inr:
  assumes "create_session s a d = (Inr x, d')"
  shows "\<exists>hs. d' = logged a (d\<lparr>sessions := tbl_insert (session_row_of s) (tbl_delete (session_dead s) (sessions d)),
           owner_authenticators := hs\<rparr>) \<and>
     tbl_count (\<lambda>w. w_principal w = ws_principal_id s) (tbl_delete (session_dead s) (sessions d)) < 32 \<and>
     session_check (session_row_of s) \<and> sessions_unique (sessions d') \<and>
     principal_exists d (ws_principal_id s) \<and> authenticator_exists d (ws_authenticator_id s) \<and>
     tbl_exists (\<lambda>h. h_id h = ws_authenticator_id s \<and> h_principal h = ws_principal_id s \<and>
        h_state h = ''active'' \<and> h_revoked h = None \<and>
        h_commitment h = ws_expected_authenticator_state_commitment s) (owner_authenticators d) \<and>
     ws_created_at s < ws_idle_expires_at s \<and> ws_idle_expires_at s \<le> ws_absolute_expires_at s \<and>
     fk_current_version d' \<and> audit_appended a d d' \<and> \<not> poisoned d"
proof -
  have live: "tbl_count (\<lambda>w. w_principal w = i \<and> w_revoked w = None \<and> ws_created_at s \<le> w_absolute_expires w)
       (tbl_delete (session_dead s) t) = tbl_count (\<lambda>w. w_principal w = i) (tbl_delete (session_dead s) t)" for i t
    unfolding tbl_count_def tbl_select_def rows_delete session_dead_def
    by (auto intro!: arg_cong [where f = length] filter_cong)
  from assms show ?thesis
    unfolding create_session_def guarded_Inr
    by (elim exE conjE audited_effect)
       (auto simp: result_simps Let_def MAX_ACTIVE_SESSIONS_PER_PRINCIPAL_def live
          dest: tbl_count_one_exists [simplified])
qed

definition touch_where :: "uuid \<Rightarrow> unix_ms \<Rightarrow> unix_ms \<Rightarrow> unix_ms \<Rightarrow> session_row \<Rightarrow> bool" where
  "touch_where i lu now idle w = (w_id w = i \<and> w_last_used w = lu \<and> w_revoked w = None \<and>
     now \<le> w_idle_expires w \<and> now \<le> w_absolute_expires w \<and> idle \<le> w_absolute_expires w)"

definition touch_set :: "unix_ms \<Rightarrow> unix_ms \<Rightarrow> unix_ms \<Rightarrow> bytes \<Rightarrow> session_row \<Rightarrow> session_row" where
  "touch_set now idle recent c w = w\<lparr>w_last_used := now, w_idle_expires := idle,
     w_recent_auth := recent, w_commitment := c\<rparr>"

lemma touch_session_Inr:
  assumes "touch_session i lu now idle recent c d = (Inr x, d')"
  shows "d' = d\<lparr>sessions := tbl_update (touch_where i lu now idle) (touch_set now idle recent c) (sessions d)\<rparr> \<and>
     tbl_count (touch_where i lu now idle) (sessions d) = 1 \<and> sessions_unique (sessions d') \<and>
     fk_current_version d' \<and> \<not> poisoned d"
  using assms unfolding touch_session_def tx_simps
  by (auto simp: result_simps touch_where_def [abs_def] touch_set_def [abs_def])

definition revoke_where :: "uuid \<Rightarrow> unix_ms \<Rightarrow> session_row \<Rightarrow> bool" where
  "revoke_where i lu w = (w_id w = i \<and> w_last_used w = lu \<and> w_revoked w = None)"

definition revoke_set :: "unix_ms \<Rightarrow> bytes \<Rightarrow> session_row \<Rightarrow> session_row" where
  "revoke_set at c w = w\<lparr>w_revoked := Some at, w_commitment := c\<rparr>"

lemma revoke_session_Inr:
  assumes "revoke_session i lu at c a d = (Inr x, d')"
  shows "d' = logged a (d\<lparr>sessions := tbl_update (revoke_where i lu) (revoke_set at c) (sessions d)\<rparr>) \<and>
     tbl_count (revoke_where i lu) (sessions d) = 1 \<and> sessions_unique (sessions d') \<and>
     audit_appended a d d' \<and> \<not> poisoned d"
  using assms unfolding revoke_session_def
  by (elim audited_effect) (auto simp: result_simps revoke_where_def [abs_def] revoke_set_def [abs_def])

lemma create_application_credential_Inr:
  assumes "create_application_credential c a d = (Inr x, d')"
  shows "d' = logged a (d\<lparr>application_credentials :=
             tbl_insert (credential_row_of c) (application_credentials d)\<rparr>) \<and>
     credential_check (credential_row_of c) \<and> credentials_unique (application_credentials d') \<and>
     principal_exists d (ci_principal_id c) \<and> audit_appended a d d' \<and> \<not> poisoned d"
  using assms unfolding create_application_credential_def
  by (elim audited_effect) (auto simp: result_simps)

definition use_where :: "uuid \<Rightarrow> nat \<Rightarrow> unix_ms \<Rightarrow> credential_row \<Rightarrow> bool" where
  "use_where i n now c = (c_id c = i \<and> c_revision c = int n \<and> c_revoked c = None \<and>
     is_none_or (\<lambda>e. now \<le> e) (c_expires c))"

definition use_set :: "nat \<Rightarrow> unix_ms \<Rightarrow> bytes \<Rightarrow> credential_row \<Rightarrow> credential_row" where
  "use_set n now cm c = c\<lparr>c_last_used := Some now, c_revision := int n + 1, c_commitment := cm\<rparr>"

lemma mark_application_credential_used_Inr:
  assumes "mark_application_credential_used i n now cm d = (Inr x, d')"
  shows "d' = d\<lparr>application_credentials := tbl_update (use_where i n now) (use_set n now cm)
             (application_credentials d)\<rparr> \<and>
     tbl_count (use_where i n now) (application_credentials d) = 1 \<and>
     credentials_unique (application_credentials d') \<and> x = n + 1 \<and> fk_current_version d' \<and> \<not> poisoned d"
  using assms unfolding mark_application_credential_used_def tx_simps
  by (auto simp: result_simps tx_simps use_where_def [abs_def] use_set_def [abs_def] add.commute)

definition cred_revoke_where :: "uuid \<Rightarrow> nat \<Rightarrow> credential_row \<Rightarrow> bool" where
  "cred_revoke_where i n c = (c_id c = i \<and> c_revision c = int n \<and> c_revoked c = None)"

definition cred_revoke_set :: "nat \<Rightarrow> unix_ms \<Rightarrow> bytes \<Rightarrow> credential_row \<Rightarrow> credential_row" where
  "cred_revoke_set n at cm c = c\<lparr>c_revoked := Some at, c_revision := int n + 1, c_commitment := cm\<rparr>"

lemma revoke_application_credential_Inr:
  assumes "revoke_application_credential i n at cm a d = (Inr x, d')"
  shows "d' = logged a (d\<lparr>application_credentials := tbl_update (cred_revoke_where i n) (cred_revoke_set n at cm)
             (application_credentials d)\<rparr>) \<and>
     tbl_count (cred_revoke_where i n) (application_credentials d) = 1 \<and>
     credentials_unique (application_credentials d') \<and> x = n + 1 \<and> audit_appended a d d' \<and> \<not> poisoned d"
  using assms unfolding revoke_application_credential_def guarded_Inr
  by (elim exE conjE audited_effect)
     (auto simp: result_simps cred_revoke_where_def [abs_def] cred_revoke_set_def [abs_def] add.commute)

section \<open>Contracts\<close>

interpretation service_create: audited_operation create_service_identity
proof unfold_locales
  show "create_service_identity i a d = (Inl e, d') \<Longrightarrow> d' = d" for i a d e d'
    unfolding create_service_identity_def by (rule audited_Inl)
qed (use create_service_identity_Inr in blast)

interpretation owner_enroll: audited_operation "\<lambda>(i, pc, zc, h, now). enroll_owner i pc zc h now"
proof unfold_locales
  fix q a d e d' x
  show "(case q of (i, pc, zc, h, now) \<Rightarrow> enroll_owner i pc zc h now) a d = (Inl e, d') \<Longrightarrow> d' = d"
    by (auto simp: enroll_owner_def guarded_Inl split: prod.splits dest: audited_Inl)
  show "(case q of (i, pc, zc, h, now) \<Rightarrow> enroll_owner i pc zc h now) a d = (Inr x, d') \<Longrightarrow>
      audit_appended a d d'"
    by (auto split: prod.splits dest: enroll_owner_Inr)
qed

interpretation authenticator_add: audited_operation "\<lambda>(i, h, now). add_owner_authenticator i h now"
proof unfold_locales
  fix q a d e d' x
  show "(case q of (i, h, now) \<Rightarrow> add_owner_authenticator i h now) a d = (Inl e, d') \<Longrightarrow> d' = d"
    by (auto simp: add_owner_authenticator_def guarded_Inl split: prod.splits dest: audited_Inl)
  show "(case q of (i, h, now) \<Rightarrow> add_owner_authenticator i h now) a d = (Inr x, d') \<Longrightarrow>
      audit_appended a d d'"
    by (auto split: prod.splits dest: add_owner_authenticator_Inr)
qed

interpretation session_create: audited_operation create_session
proof unfold_locales
  show "create_session i a d = (Inl e, d') \<Longrightarrow> d' = d" for i a d e d'
    by (auto simp: create_session_def guarded_Inl dest: audited_Inl)
qed (use create_session_Inr in blast)

interpretation session_revoke: audited_operation "\<lambda>(i, lu, at, c). revoke_session i lu at c"
proof unfold_locales
  fix q a d e d' x
  show "(case q of (i, lu, at, c) \<Rightarrow> revoke_session i lu at c) a d = (Inl e, d') \<Longrightarrow> d' = d"
    by (auto simp: revoke_session_def split: prod.splits dest: audited_Inl)
  show "(case q of (i, lu, at, c) \<Rightarrow> revoke_session i lu at c) a d = (Inr x, d') \<Longrightarrow> audit_appended a d d'"
    by (auto split: prod.splits dest: revoke_session_Inr)
qed

interpretation credential_create: audited_operation create_application_credential
proof unfold_locales
  show "create_application_credential i a d = (Inl e, d') \<Longrightarrow> d' = d" for i a d e d'
    unfolding create_application_credential_def by (rule audited_Inl)
qed (use create_application_credential_Inr in blast)

definition credential_revision :: "uuid \<Rightarrow> db \<Rightarrow> int option" where
  "credential_revision i d =
     map_option c_revision (tbl_find (\<lambda>c. c_id c = i) (application_credentials d))"

lemma credential_update_revision:
  assumes "application_credentials d' = tbl_update p f (application_credentials d)"
    "tbl_count p (application_credentials d) = 1" "credentials_unique (application_credentials d')"
    "\<And>c. p c \<Longrightarrow> c_id c = i \<and> c_id (f c) = i \<and> c_revision c = int n \<and> c_revision (f c) = int n + 1"
  shows "credential_revision i d = Some (int n)" "credential_revision i d' = Some (int n + 1)"
    "k \<noteq> i \<Longrightarrow> credential_revision k d' = credential_revision k d"
proof -
  have u: "unique_key c_id (tbl_update p f (application_credentials d))"
    using assms(1,3) by (simp add: credentials_unique_def)
  note rules = revision_update [of c_id p f "application_credentials d", OF u assms(2,4)]
  show "credential_revision i d = Some (int n)"
    using rules(1) by (simp add: credential_revision_def)
  show "credential_revision i d' = Some (int n + 1)"
    using rules(2) by (simp add: credential_revision_def assms(1))
  show "k \<noteq> i \<Longrightarrow> credential_revision k d' = credential_revision k d"
    using rules(3) by (simp add: credential_revision_def assms(1))
qed

interpretation credential_revoke: revisioned_operation
  "\<lambda>(i, n, at, cm). revoke_application_credential i n at cm" credential_revision
  "\<lambda>(i, n, at, cm). i" "\<lambda>(i, n, at, cm). n"
proof unfold_locales
  fix q a d e d' x k
  show "(case q of (i, n, at, cm) \<Rightarrow> revoke_application_credential i n at cm) a d = (Inl e, d') \<Longrightarrow> d' = d"
    by (auto simp: revoke_application_credential_def guarded_Inl split: prod.splits dest: audited_Inl)
  obtain i n at cm where q: "q = (i, n, at, cm)" by (metis prod_cases4)
  assume "(case q of (i, n, at, cm) \<Rightarrow> revoke_application_credential i n at cm) a d = (Inr x, d')"
  then have eff: "revoke_application_credential i n at cm a d = (Inr x, d')" by (simp add: q)
  note eff = revoke_application_credential_Inr [OF eff]
  show "audit_appended a d d'" using eff by blast
  have upd: "\<And>c. cred_revoke_where i n c \<Longrightarrow> c_id c = i \<and> c_id (cred_revoke_set n at cm c) = i \<and>
      c_revision c = int n \<and> c_revision (cred_revoke_set n at cm c) = int n + 1"
    by (simp add: cred_revoke_where_def cred_revoke_set_def)
  have t: "application_credentials d' = tbl_update (cred_revoke_where i n) (cred_revoke_set n at cm)
      (application_credentials d)" using eff by simp
  have one: "tbl_count (cred_revoke_where i n) (application_credentials d) = 1"
    and u: "credentials_unique (application_credentials d')" using eff by blast+
  note rules = credential_update_revision [OF t one u upd]
  show "credential_revision (case q of (i, n, at, cm) \<Rightarrow> i) d = Some (int (case q of (i, n, at, cm) \<Rightarrow> n))"
    using rules(1) by (simp add: q)
  show "credential_revision (case q of (i, n, at, cm) \<Rightarrow> i) d' = Some (int (case q of (i, n, at, cm) \<Rightarrow> n) + 1)"
    using rules(2) by (simp add: q)
  show "k \<noteq> (case q of (i, n, at, cm) \<Rightarrow> i) \<Longrightarrow> credential_revision k d' = credential_revision k d"
    using rules(3) by (simp add: q)
qed

interpretation credential_use: optimistic_operation
  "\<lambda>(i, n, now, cm). mark_application_credential_used i n now cm" credential_revision
  "\<lambda>(i, n, now, cm). i" "\<lambda>(i, n, now, cm). n"
proof unfold_locales
  fix q d e d' x k
  show "(case q of (i, n, now, cm) \<Rightarrow> mark_application_credential_used i n now cm) d = (Inl e, d') \<Longrightarrow> d' = d"
    by (auto simp: mark_application_credential_used_def guarded_Inl split: prod.splits dest: transaction_Inl)
  obtain i n now cm where q: "q = (i, n, now, cm)" by (metis prod_cases4)
  assume "(case q of (i, n, now, cm) \<Rightarrow> mark_application_credential_used i n now cm) d = (Inr x, d')"
  then have eff: "mark_application_credential_used i n now cm d = (Inr x, d')" by (simp add: q)
  note eff = mark_application_credential_used_Inr [OF eff]
  have upd: "\<And>c. use_where i n now c \<Longrightarrow> c_id c = i \<and> c_id (use_set n now cm c) = i \<and>
      c_revision c = int n \<and> c_revision (use_set n now cm c) = int n + 1"
    by (simp add: use_where_def use_set_def)
  have t: "application_credentials d' = tbl_update (use_where i n now) (use_set n now cm)
      (application_credentials d)" using eff by simp
  have one: "tbl_count (use_where i n now) (application_credentials d) = 1"
    and u: "credentials_unique (application_credentials d')" using eff by blast+
  note rules = credential_update_revision [OF t one u upd]
  show "credential_revision (case q of (i, n, now, cm) \<Rightarrow> i) d = Some (int (case q of (i, n, now, cm) \<Rightarrow> n))"
    using rules(1) by (simp add: q)
  show "credential_revision (case q of (i, n, now, cm) \<Rightarrow> i) d' = Some (int (case q of (i, n, now, cm) \<Rightarrow> n) + 1)"
    using rules(2) by (simp add: q)
  show "k \<noteq> (case q of (i, n, now, cm) \<Rightarrow> i) \<Longrightarrow> credential_revision k d' = credential_revision k d"
    using rules(3) by (simp add: q)
qed

end
