(* ===== verification/Storage_Idempotency.thy ===== *)
theory Storage_Idempotency
  imports Storage_Identity
begin

text \<open>
  Retry-safe creation: \<open>src/crates/smcv-storage/src/idempotency.rs\<close>.  A principal-scoped key
  reserves one response identity; a matching retry gets the same identity, a different
  request under the same key is refused.
\<close>

record idempotency_reservation =
  ir_response_id :: uuid
  ir_reused :: bool

record idempotency_request =
  iq_principal_id :: uuid
  iq_key_verifier :: bytes
  iq_request_fingerprint :: bytes
  iq_response_kind :: string
  iq_proposed_response_id :: uuid
  iq_now :: unix_ms
  iq_expires_at :: unix_ms

definition idempotency_row_of :: "idempotency_request \<Rightarrow> idempotency_row" where
  "idempotency_row_of q =
     \<lparr>d_principal = iq_principal_id q, d_key = iq_key_verifier q,
      d_fingerprint = iq_request_fingerprint q, d_kind = iq_response_kind q,
      d_response = Some (iq_proposed_response_id q), d_created = iq_now q,
      d_expires = iq_expires_at q\<rparr>"

text \<open>The identifier of a reused reservation is parsed after the commit, so a malformed one
  would be an error of a committed transaction: the inner result is flattened outside it.\<close>

definition reserve_idempotency :: "idempotency_request \<Rightarrow> db \<Rightarrow>
    (storage_error + idempotency_reservation) \<times> db" where
  "reserve_idempotency q d =
     (case guarded (ensure (iq_response_kind q \<noteq> [] \<and> length (iq_response_kind q) \<le> 32 \<and>
                            iq_now q < iq_expires_at q) Conflict) (\<lambda>_.
       transaction (\<lambda>d.
         let live = tbl_delete (\<lambda>r. d_expires r < iq_now q) (idempotency_records d) in
         case tbl_find (\<lambda>r. d_principal r = iq_principal_id q \<and> d_key r = iq_key_verifier q) live of
           Some r \<Rightarrow>
             rbind (ok_or InvalidData (d_response r)) (\<lambda>response_id.
             rbind (ensure (d_fingerprint r = iq_request_fingerprint q \<and>
                            d_kind r = iq_response_kind q) Conflict) (\<lambda>_.
             Inr (rbind (parse_uuid response_id) (\<lambda>i. Inr \<lparr>ir_response_id = i, ir_reused = True\<rparr>),
                  d\<lparr>idempotency_records := live\<rparr>)))
         | None \<Rightarrow>
             rbind (sql_insert idempotency_check idempotency_unique (idempotency_row_of q) live) (\<lambda>t.
             rbind (ensure (principal_exists d (iq_principal_id q)) Sqlite) (\<lambda>_.
             Inr (Inr \<lparr>ir_response_id = iq_proposed_response_id q, ir_reused = False\<rparr>,
                  d\<lparr>idempotency_records := t\<rparr>))))) d of
        (r, d') \<Rightarrow> (rbind r id, d'))"

section \<open>Retries\<close>

text \<open>The request that reserved a key, and a later one under the same key.\<close>

definition retry_of :: "idempotency_request \<Rightarrow> idempotency_request \<Rightarrow> bool" where
  "retry_of q q' = (iq_principal_id q' = iq_principal_id q \<and> iq_key_verifier q' = iq_key_verifier q \<and>
     iq_response_kind q' \<noteq> [] \<and> length (iq_response_kind q') \<le> 32 \<and>
     iq_now q' < iq_expires_at q' \<and> iq_now q' \<le> iq_expires_at q)"

lemma reserve_fresh:
  assumes "reserve_idempotency q d = (Inr r, d')" "\<not> ir_reused r"
  shows "r = \<lparr>ir_response_id = iq_proposed_response_id q, ir_reused = False\<rparr> \<and> \<not> poisoned d \<and>
     idempotency_unique (idempotency_records d') \<and> idempotency_check (idempotency_row_of q) \<and>
     d' = d\<lparr>idempotency_records := tbl_insert (idempotency_row_of q)
        (tbl_delete (\<lambda>r. d_expires r < iq_now q) (idempotency_records d))\<rparr> \<and> fk_current_version d'"
  using assms
  by (auto simp: reserve_idempotency_def guarded_def transaction_def Let_def lock_def result_simps
      split: sum.splits if_splits prod.splits option.splits)

lemma find_insert_live:
  assumes "unique_key k (tbl_insert r t)" "\<not> p r"
  shows "tbl_find (\<lambda>x. k x = k r) (tbl_delete p (tbl_insert r t)) = Some r"
proof (rule unique_key_find)
  show "unique_key k (tbl_delete p (tbl_insert r t))" using assms(1) by blast
  show "r \<in> set (rows (tbl_delete p (tbl_insert r t)))" using assms(2) by simp
qed simp

lemma reserve_retry:
  assumes "reserve_idempotency q d = (Inr r, d')" "\<not> ir_reused r" "retry_of q q'"
  shows "fst (reserve_idempotency q' d') =
    (if iq_request_fingerprint q' = iq_request_fingerprint q \<and> iq_response_kind q' = iq_response_kind q
     then Inr \<lparr>ir_response_id = ir_response_id r, ir_reused = True\<rparr> else Inl Conflict)"
proof -
  note eff = reserve_fresh [OF assms(1,2)]
  let ?row = "idempotency_row_of q"
  let ?live = "tbl_delete (\<lambda>r. d_expires r < iq_now q') (idempotency_records d')"
  have recs: "idempotency_records d' = tbl_insert ?row
      (tbl_delete (\<lambda>r. d_expires r < iq_now q) (idempotency_records d))" using eff by simp
  have "unique_key (\<lambda>x. (d_principal x, d_key x)) (tbl_insert ?row
      (tbl_delete (\<lambda>r. d_expires r < iq_now q) (idempotency_records d)))"
    using eff unfolding recs [symmetric] idempotency_unique_def by blast
  moreover have "\<not> d_expires ?row < iq_now q'"
    using assms(3) by (simp add: retry_of_def idempotency_row_of_def)
  ultimately have "tbl_find (\<lambda>x. (d_principal x, d_key x) = (d_principal ?row, d_key ?row)) ?live = Some ?row"
    unfolding recs by (rule find_insert_live)
  then have find: "tbl_find (\<lambda>r. d_principal r = iq_principal_id q' \<and> d_key r = iq_key_verifier q') ?live = Some ?row"
    using assms(3) by (simp add: retry_of_def idempotency_row_of_def)
  have "length (iq_proposed_response_id q) = 16" "\<not> poisoned d'"
    using eff by (auto simp: idempotency_check_def idempotency_row_of_def is_none_or_def)
  moreover have "fk_current_version (d'\<lparr>idempotency_records := t\<rparr>)" for t
    using eff by (auto simp: fk_current_version_def)
  ultimately show ?thesis
    using find assms(3) eff
    by (auto simp: reserve_idempotency_def guarded_def transaction_def lock_def retry_of_def
        idempotency_row_of_def parse_uuid_def)
qed

end
