(* ===== verification/Storage_Rotation.thy ===== *)
theory Storage_Rotation
  imports Storage_Vault
begin

text \<open>
  Root-key replacement and the resumable key-encryption-key rotation of
  \<open>src/crates/smcv-storage/src/rotation.rs\<close>.  A rotation walks five stages; inside a stage
  rows are rewrapped in batches in rowid order under a durable checkpoint; the last
  transaction retires the source key only when the inventory of the tables it counts is
  empty.
\<close>

section \<open>Data\<close>

datatype rotation_stage = Auxiliary | NamespaceMetadata | SecretMetadata | SecretVersions | Finalize

fun rotation_stage_as_str :: "rotation_stage \<Rightarrow> string" where
  "rotation_stage_as_str Auxiliary = ''auxiliary''"
| "rotation_stage_as_str NamespaceMetadata = ''namespace_metadata''"
| "rotation_stage_as_str SecretMetadata = ''secret_metadata''"
| "rotation_stage_as_str SecretVersions = ''secret_versions''"
| "rotation_stage_as_str Finalize = ''finalize''"

definition rotation_stage_parse :: "string \<Rightarrow> storage_error + rotation_stage" where
  "rotation_stage_parse v =
     (if v = ''auxiliary'' then Inr Auxiliary
      else if v = ''namespace_metadata'' then Inr NamespaceMetadata
      else if v = ''secret_metadata'' then Inr SecretMetadata
      else if v = ''secret_versions'' then Inr SecretVersions
      else if v = ''finalize'' then Inr Finalize
      else Inl InvalidData)"

fun rotation_stage_next :: "rotation_stage \<Rightarrow> rotation_stage option" where
  "rotation_stage_next Auxiliary = Some NamespaceMetadata"
| "rotation_stage_next NamespaceMetadata = Some SecretMetadata"
| "rotation_stage_next SecretMetadata = Some SecretVersions"
| "rotation_stage_next SecretVersions = Some Finalize"
| "rotation_stage_next Finalize = None"

record kek_rotation_job =
  kj_job_id :: uuid
  kj_source :: nat
  kj_target :: nat
  kj_stage :: rotation_stage
  kj_last_row_id :: int

datatype rewrap_kind =
  BlindIndexKey | AuditKey | TokenVerifierKey | NamespaceMetadataItem | SecretMetadataItem | SecretVersionItem

record rewrap_item =
  ri_row_id :: int
  ri_kind :: rewrap_kind
  ri_object_id :: uuid
  ri_object_version :: nat
  ri_nonce :: bytes
  ri_wrapped_key :: bytes

record rewrapped_item =
  rw_source :: rewrap_item
  rw_nonce :: bytes
  rw_wrapped_key :: bytes

record root_rewrapped_key =
  rr_version :: nat
  rr_object_id :: uuid
  rr_source_nonce :: bytes
  rr_source_wrapped_key :: bytes
  rr_target_nonce :: bytes
  rr_target_wrapped_key :: bytes

section \<open>Root replacement\<close>

definition open_job :: "job_row \<Rightarrow> bool" where
  "open_job j = (j_state j \<in> {''pending'', ''running'', ''paused''})"

definition is_ready :: "db \<Rightarrow> bool" where
  "is_ready d = (case installation_state d of None \<Rightarrow> False | Some r \<Rightarrow> i_activation_state r = ''ready'')"

definition replace_root_wrapping :: "db \<Rightarrow> root_rewrapped_key \<Rightarrow> storage_error + db" where
  "replace_root_wrapping d key =
     rbind (sql_update key_check keys_unique no_trigger
       (\<lambda>k. k_kind k = ''kek'' \<and> k_version k = int (rr_version key) \<and> k_object_id k = rr_object_id key \<and>
            k_wrapping k = None \<and> k_state k \<noteq> ''retired'' \<and> k_nonce k = rr_source_nonce key \<and>
            k_wrapped k = rr_source_wrapped_key key)
       (\<lambda>k. k\<lparr>k_nonce := rr_target_nonce key, k_wrapped := rr_target_wrapped_key key\<rparr>)
       (key_registry d)) (\<lambda>(changed, t).
     rbind (ensure (changed = 1) Conflict) (\<lambda>_. Inr (d\<lparr>key_registry := t\<rparr>)))"

definition root_job_row :: "uuid \<Rightarrow> unix_ms \<Rightarrow> job_row" where
  "root_job_row job_id now =
     \<lparr>j_id = job_id, j_kind = ''root_rotation'', j_state = ''completed'', j_source = None,
      j_target = None, j_stage = None, j_last_row = 0, j_updated = now\<rparr>"

definition replace_root_wrappings :: "uuid \<Rightarrow> root_rewrapped_key list \<Rightarrow> unix_ms \<Rightarrow> audit_record \<Rightarrow>
    db \<Rightarrow> (storage_error + unit) \<times> db" where
  "replace_root_wrappings job_id keys now audit =
     guarded (ensure (keys \<noteq> []) Conflict) (\<lambda>_.
       audited audit (\<lambda>d.
         rbind (ensure (is_ready d \<and> tbl_count open_job (maintenance_jobs d) = 0 \<and>
           tbl_count (\<lambda>k. k_kind k = ''kek'' \<and> k_state k \<noteq> ''retired'' \<and> k_wrapping k = None)
             (key_registry d) = length keys) StateConflict) (\<lambda>_.
         rbind (try_fold replace_root_wrapping d keys) (\<lambda>d1.
         rbind (sql_insert job_check (unique_key j_id) (root_job_row job_id now)
           (maintenance_jobs d1)) (\<lambda>js.
         Inr ((), d1\<lparr>maintenance_jobs := js\<rparr>))))))"

section \<open>The rotation job\<close>

definition kek_job_row :: "uuid \<Rightarrow> nat \<Rightarrow> nat \<Rightarrow> unix_ms \<Rightarrow> job_row" where
  "kek_job_row job_id source target now =
     \<lparr>j_id = job_id, j_kind = ''kek_rotation'', j_state = ''running'', j_source = Some (int source),
      j_target = Some (int target), j_stage = Some ''auxiliary'', j_last_row = 0, j_updated = now\<rparr>"

definition begin_kek_rotation :: "uuid \<Rightarrow> nat \<Rightarrow> wrapped_key_record \<Rightarrow> unix_ms \<Rightarrow> audit_record \<Rightarrow>
    db \<Rightarrow> (storage_error + kek_rotation_job) \<times> db" where
  "begin_kek_rotation job_id source new_key now audit =
     guarded (ensure (wk_kind new_key = KeyEncryption \<and>
                      wk_version new_key = saturating_add_u32 source 1 \<and>
                      wk_wrapping_kek_version new_key = None) StateConflict) (\<lambda>_.
       audited audit (\<lambda>d.
         let active = (case installation_state d of None \<Rightarrow> None
                       | Some r \<Rightarrow> if i_activation_state r = ''ready'' then i_active_kek r else None) in
         rbind (ensure (active = Some (int source)) StateConflict) (\<lambda>_.
         rbind (ensure (tbl_count (\<lambda>j. j_kind j = ''kek_rotation'' \<and> open_job j)
           (maintenance_jobs d) = 0) StateConflict) (\<lambda>_.
         rbind (sql_update key_check keys_unique no_trigger
           (\<lambda>k. k_kind k = ''kek'' \<and> k_version k = int source \<and> k_state k = ''active'')
           (\<lambda>k. k\<lparr>k_state := ''retiring''\<rparr>) (key_registry d)) (\<lambda>(changed, ks).
         rbind (ensure (changed = 1) StateConflict) (\<lambda>_.
         rbind (insert_key new_key now (d\<lparr>key_registry := ks\<rparr>)) (\<lambda>d1.
         rbind (ok_or NotInitialized (installation_state d1)) (\<lambda>inst.
         let inst' = inst\<lparr>i_activation_state := ''maintenance'',
                          i_active_kek := Some (int (wk_version new_key))\<rparr> in
         rbind (ensure (installation_check inst') Sqlite) (\<lambda>_.
         rbind (sql_insert job_check (unique_key j_id)
           (kek_job_row job_id source (wk_version new_key) now) (maintenance_jobs d1)) (\<lambda>js.
         Inr (\<lparr>kj_job_id = job_id, kj_source = source, kj_target = wk_version new_key,
               kj_stage = Auxiliary, kj_last_row_id = 0\<rparr>,
              d1\<lparr>installation_state := Some inst', maintenance_jobs := js\<rparr>)))))))))))"

definition parse_job :: "job_row \<Rightarrow> storage_error + kek_rotation_job" where
  "parse_job j =
     rbind (ok_or Sqlite (j_source j)) (\<lambda>source_raw.
     rbind (ok_or Sqlite (j_target j)) (\<lambda>target_raw.
     rbind (ok_or Sqlite (j_stage j)) (\<lambda>stage_raw.
     rbind (parse_uuid (j_id j)) (\<lambda>job_id.
     rbind (ok_or InvalidData (u32_of_i64 source_raw)) (\<lambda>source.
     rbind (ok_or InvalidData (u32_of_i64 target_raw)) (\<lambda>target.
     rbind (rotation_stage_parse stage_raw) (\<lambda>stage.
     Inr \<lparr>kj_job_id = job_id, kj_source = source, kj_target = target, kj_stage = stage,
          kj_last_row_id = j_last_row j\<rparr>)))))))"

definition active_kek_rotation :: "db \<Rightarrow> storage_error + kek_rotation_job option" where
  "active_kek_rotation =
     query (\<lambda>d. transpose_map parse_job
       (tbl_find (\<lambda>j. j_kind j = ''kek_rotation'' \<and> open_job j) (maintenance_jobs d)))"

definition parse_auxiliary_kind :: "string \<Rightarrow> storage_error + rewrap_kind" where
  "parse_auxiliary_kind v =
     (if v = ''blind_index'' then Inr BlindIndexKey
      else if v = ''audit'' then Inr AuditKey
      else if v = ''token_verifier'' then Inr TokenVerifierKey
      else Inl InvalidData)"

text \<open>The rows of a stage: rowid, subtype, object, version, nonce and wrapped key of the rows that
  the source key wraps past the checkpoint, in rowid order.\<close>

definition scan :: "(int \<Rightarrow> 'r \<Rightarrow> bool) \<Rightarrow> nat \<Rightarrow> 'r table \<Rightarrow> (int \<times> 'r) list" where
  "scan p limit t = take limit (sort_key fst (filter (\<lambda>(i, r). p i r) t))"

definition stage_query :: "rotation_stage \<Rightarrow> int \<Rightarrow> int \<Rightarrow> nat \<Rightarrow> db \<Rightarrow>
    (int \<times> string \<times> bytes \<times> int \<times> bytes \<times> bytes) list" where
  "stage_query stage source last_row limit d =
     (case stage of
        Auxiliary \<Rightarrow> map (\<lambda>(i, k). (i, k_kind k, k_object_id k, k_version k, k_nonce k, k_wrapped k))
          (scan (\<lambda>i k. k_wrapping k = Some source \<and> last_row < i \<and> k_kind k \<noteq> ''kek'') limit (key_registry d))
      | NamespaceMetadata \<Rightarrow> map (\<lambda>(i, n). (i, ''namespace_metadata'', n_id n, n_metadata_version n,
            x_dek_nonce (n_meta n), x_wrapped_dek (n_meta n)))
          (scan (\<lambda>i n. x_kek (n_meta n) = source \<and> last_row < i) limit (namespaces d))
      | SecretMetadata \<Rightarrow> map (\<lambda>(i, s). (i, ''secret_metadata'', s_id s, s_metadata_version s,
            x_dek_nonce (s_meta s), x_wrapped_dek (s_meta s)))
          (scan (\<lambda>i s. x_kek (s_meta s) = source \<and> last_row < i) limit (secrets d))
      | SecretVersions \<Rightarrow> map (\<lambda>(i, v). (i, ''secret_version'', v_secret_id v, v_version v,
            x_dek_nonce (v_payload v), x_wrapped_dek (v_payload v)))
          (scan (\<lambda>i v. x_kek (v_payload v) = source \<and> last_row < i) limit (secret_versions d))
      | Finalize \<Rightarrow> [])"

definition stage_kind :: "rotation_stage \<Rightarrow> string \<Rightarrow> storage_error + rewrap_kind" where
  "stage_kind stage subtype =
     (case stage of
        Auxiliary \<Rightarrow> parse_auxiliary_kind subtype
      | NamespaceMetadata \<Rightarrow> Inr NamespaceMetadataItem
      | SecretMetadata \<Rightarrow> Inr SecretMetadataItem
      | SecretVersions \<Rightarrow> Inr SecretVersionItem
      | Finalize \<Rightarrow> Inl StateConflict)"

definition parse_rewrap_item :: "rotation_stage \<Rightarrow> int \<times> string \<times> bytes \<times> int \<times> bytes \<times> bytes \<Rightarrow>
    storage_error + rewrap_item" where
  "parse_rewrap_item stage = (\<lambda>(row_id, subtype, object_id, version, nonce, wrapped).
     rbind (stage_kind stage subtype) (\<lambda>kind.
     rbind (parse_uuid object_id) (\<lambda>obj.
     rbind (ok_or InvalidData (u64_of_i64 version)) (\<lambda>ver.
     rbind (try_into_array 24 InvalidData nonce) (\<lambda>n.
     rbind (try_into_array 48 InvalidData wrapped) (\<lambda>w.
     Inr \<lparr>ri_row_id = row_id, ri_kind = kind, ri_object_id = obj, ri_object_version = ver,
          ri_nonce = n, ri_wrapped_key = w\<rparr>))))))"

definition next_rewrap_batch :: "kek_rotation_job \<Rightarrow> nat \<Rightarrow> db \<Rightarrow> storage_error + rewrap_item list" where
  "next_rewrap_batch job limit d =
     rbind (ensure (limit \<noteq> 0 \<and> limit \<le> 256) Conflict) (\<lambda>_.
     rbind (active_kek_rotation d) (\<lambda>current.
     rbind (ok_or StateConflict current) (\<lambda>cur.
     rbind (ensure (cur = job \<and> kj_stage job \<noteq> Finalize) StateConflict) (\<lambda>_.
     query (\<lambda>d. traverse (parse_rewrap_item (kj_stage job))
       (stage_query (kj_stage job) (int (kj_source job)) (kj_last_row_id job) limit d)) d))))"

definition require_job :: "kek_rotation_job \<Rightarrow> db \<Rightarrow> storage_error + unit" where
  "require_job job d =
     ensure (tbl_count (\<lambda>j. j_id j = kj_job_id job \<and> j_state j = ''running'' \<and>
       j_source j = Some (int (kj_source job)) \<and> j_target j = Some (int (kj_target job)) \<and>
       j_stage j = Some (rotation_stage_as_str (kj_stage job)) \<and>
       j_last_row j = kj_last_row_id job) (maintenance_jobs d) = 1) Conflict"

definition rewrap_cols :: "kek_rotation_job \<Rightarrow> rewrapped_item \<Rightarrow> enc_cols \<Rightarrow> enc_cols" where
  "rewrap_cols job item x = x\<lparr>x_dek_nonce := rw_nonce item, x_wrapped_dek := rw_wrapped_key item,
     x_kek := int (kj_target job)\<rparr>"

definition update_rewrap :: "kek_rotation_job \<Rightarrow> rewrapped_item \<Rightarrow> db \<Rightarrow> storage_error + (nat \<times> db)" where
  "update_rewrap job item d =
     (let row = ri_row_id (rw_source item); source = int (kj_source job) in
      case ri_kind (rw_source item) of
        NamespaceMetadataItem \<Rightarrow>
          rbind (sql_update_at namespace_check namespaces_unique no_trigger
            (\<lambda>i n. i = row \<and> x_kek (n_meta n) = source)
            (\<lambda>n. n\<lparr>n_meta := rewrap_cols job item (n_meta n)\<rparr>) (namespaces d)) (\<lambda>(c, t).
          Inr (c, d\<lparr>namespaces := t\<rparr>))
      | SecretMetadataItem \<Rightarrow>
          rbind (sql_update_at secret_check secrets_unique secrets_monotonic_trigger
            (\<lambda>i s. i = row \<and> x_kek (s_meta s) = source)
            (\<lambda>s. s\<lparr>s_meta := rewrap_cols job item (s_meta s)\<rparr>) (secrets d)) (\<lambda>(c, t).
          Inr (c, d\<lparr>secrets := t\<rparr>))
      | SecretVersionItem \<Rightarrow>
          rbind (sql_update_at version_check versions_unique versions_protect_trigger
            (\<lambda>i v. i = row \<and> x_kek (v_payload v) = source)
            (\<lambda>v. v\<lparr>v_payload := rewrap_cols job item (v_payload v)\<rparr>) (secret_versions d)) (\<lambda>(c, t).
          Inr (c, d\<lparr>secret_versions := t\<rparr>))
      | _ \<Rightarrow>
          rbind (sql_update_at key_check keys_unique no_trigger
            (\<lambda>i k. i = row \<and> k_wrapping k = Some source)
            (\<lambda>k. k\<lparr>k_nonce := rw_nonce item, k_wrapped := rw_wrapped_key item,
                   k_wrapping := Some (int (kj_target job))\<rparr>) (key_registry d)) (\<lambda>(c, t).
          Inr (c, d\<lparr>key_registry := t\<rparr>)))"

text \<open>One turn of the loop of \<open>apply_rewrap_batch\<close>: rowids must rise and each item must hit its row.\<close>

definition apply_rewrap_item :: "kek_rotation_job \<Rightarrow> int \<times> db \<Rightarrow> rewrapped_item \<Rightarrow>
    storage_error + (int \<times> db)" where
  "apply_rewrap_item job = (\<lambda>(last_row, d) item.
     rbind (ensure (last_row < ri_row_id (rw_source item)) Conflict) (\<lambda>_.
     rbind (update_rewrap job item d) (\<lambda>(changed, d1).
     rbind (ensure (changed = 1) Conflict) (\<lambda>_.
     Inr (ri_row_id (rw_source item), d1)))))"

definition job_checkpoint :: "kek_rotation_job \<Rightarrow> (job_row \<Rightarrow> job_row) \<Rightarrow> db \<Rightarrow> storage_error + db" where
  "job_checkpoint job f d =
     rbind (sql_update job_check (unique_key j_id) no_trigger
       (\<lambda>j. j_id j = kj_job_id job \<and> j_stage j = Some (rotation_stage_as_str (kj_stage job)) \<and>
            j_last_row j = kj_last_row_id job) f (maintenance_jobs d)) (\<lambda>(changed, t).
     rbind (ensure (changed = 1) Conflict) (\<lambda>_. Inr (d\<lparr>maintenance_jobs := t\<rparr>)))"

definition apply_rewrap_batch :: "kek_rotation_job \<Rightarrow> rewrapped_item list \<Rightarrow> unix_ms \<Rightarrow> db \<Rightarrow>
    (storage_error + kek_rotation_job) \<times> db" where
  "apply_rewrap_batch job items now =
     guarded (ensure (items \<noteq> [] \<and> length items \<le> 256) Conflict) (\<lambda>_.
       transaction (\<lambda>d.
         rbind (require_job job d) (\<lambda>_.
         rbind (try_fold (apply_rewrap_item job) (kj_last_row_id job, d) items) (\<lambda>(last_row, d1).
         rbind (job_checkpoint job (\<lambda>j. j\<lparr>j_last_row := last_row, j_updated := now\<rparr>) d1) (\<lambda>d2.
         Inr (job\<lparr>kj_last_row_id := last_row\<rparr>, d2))))))"

definition advance_rotation_stage :: "kek_rotation_job \<Rightarrow> unix_ms \<Rightarrow> db \<Rightarrow>
    (storage_error + kek_rotation_job) \<times> db" where
  "advance_rotation_stage job now d =
     guarded
       (rbind (ok_or StateConflict (rotation_stage_next (kj_stage job))) (\<lambda>next.
        rbind (next_rewrap_batch job 1 d) (\<lambda>batch.
        rbind (ensure (batch = []) Conflict) (\<lambda>_. Inr next))))
       (\<lambda>next. transaction (\<lambda>d.
         rbind (job_checkpoint job (\<lambda>j. j\<lparr>j_stage := Some (rotation_stage_as_str next),
           j_last_row := 0, j_updated := now\<rparr>) d) (\<lambda>d1.
         Inr (job\<lparr>kj_stage := next, kj_last_row_id := 0\<rparr>, d1)))) d"

definition source_inventory :: "int \<Rightarrow> db \<Rightarrow> nat" where
  "source_inventory version d =
     tbl_count (\<lambda>k. k_wrapping k = Some version) (key_registry d) +
     tbl_count (\<lambda>n. x_kek (n_meta n) = version) (namespaces d) +
     tbl_count (\<lambda>s. x_kek (s_meta s) = version) (secrets d) +
     tbl_count (\<lambda>v. x_kek (v_payload v) = version) (secret_versions d)"

text \<open>The statements of the finishing transaction after its preconditions.\<close>

definition retire_source :: "kek_rotation_job \<Rightarrow> unix_ms \<Rightarrow> db \<Rightarrow> storage_error + db" where
  "retire_source job now d =
     rbind (ensure (source_inventory (int (kj_source job)) d = 0) Conflict) (\<lambda>_.
     rbind (sql_update key_check keys_unique no_trigger
       (\<lambda>k. k_kind k = ''kek'' \<and> k_version k = int (kj_source job) \<and> k_state k = ''retiring'')
       (\<lambda>k. k\<lparr>k_state := ''retired''\<rparr>) (key_registry d)) (\<lambda>(changed, ks).
     rbind (ensure (changed = 1) Conflict) (\<lambda>_.
     rbind (sql_update job_check (unique_key j_id) no_trigger (\<lambda>j. j_id j = kj_job_id job)
       (\<lambda>j. j\<lparr>j_state := ''completed'', j_updated := now\<rparr>) (maintenance_jobs d)) (\<lambda>(_, js).
     case installation_state d of
       None \<Rightarrow> Inl Conflict
     | Some inst \<Rightarrow>
         rbind (ensure (i_activation_state inst = ''maintenance'' \<and>
                        i_active_kek inst = Some (int (kj_target job))) Conflict) (\<lambda>_.
         Inr (d\<lparr>key_registry := ks, maintenance_jobs := js,
                installation_state := Some (inst\<lparr>i_activation_state := ''ready''\<rparr>)\<rparr>))))))"

definition finish_kek_rotation :: "kek_rotation_job \<Rightarrow> unix_ms \<Rightarrow> audit_record \<Rightarrow> db \<Rightarrow>
    (storage_error + unit) \<times> db" where
  "finish_kek_rotation job now audit =
     guarded (ensure (kj_stage job = Finalize) StateConflict) (\<lambda>_.
       transaction (\<lambda>d.
         rbind (require_job job d) (\<lambda>_.
         rbind (require_audit_head audit d) (\<lambda>_.
         rbind (retire_source job now d) (\<lambda>d1.
         rbind (insert_audit audit d1) (\<lambda>d2. Inr ((), d2)))))))"

section \<open>What a rewrap changes\<close>

text \<open>The database with every wrapping of a data or auxiliary key, and the progress of the
  maintenance jobs, blanked: two databases that agree on it differ in nothing else.\<close>

definition erase_cols :: "enc_cols \<Rightarrow> enc_cols" where
  "erase_cols x = x\<lparr>x_dek_nonce := [], x_wrapped_dek := [], x_kek := 0\<rparr>"

definition erase_key :: "key_row \<Rightarrow> key_row" where
  "erase_key k = k\<lparr>k_nonce := [], k_wrapped := [], k_wrapping := None\<rparr>"

definition erase_ns :: "namespace_row \<Rightarrow> namespace_row" where
  "erase_ns n = n\<lparr>n_meta := erase_cols (n_meta n)\<rparr>"

definition erase_secret :: "secret_row \<Rightarrow> secret_row" where
  "erase_secret s = s\<lparr>s_meta := erase_cols (s_meta s)\<rparr>"

definition erase_version :: "version_row \<Rightarrow> version_row" where
  "erase_version v = v\<lparr>v_payload := erase_cols (v_payload v)\<rparr>"

definition erase_wrappings :: "db \<Rightarrow> db" where
  "erase_wrappings d = d\<lparr>key_registry := map (apsnd erase_key) (key_registry d),
     namespaces := map (apsnd erase_ns) (namespaces d),
     secrets := map (apsnd erase_secret) (secrets d),
     secret_versions := map (apsnd erase_version) (secret_versions d),
     maintenance_jobs := []\<rparr>"

lemma erase_update_at:
  assumes "\<And>r. g (f r) = g r"
  shows "map (apsnd g) (tbl_update_at p f t) = map (apsnd g) t"
  using assms by (auto simp: tbl_update_at_def)

lemma erase_cols_rewrap [simp]: "erase_cols (rewrap_cols job item x) = erase_cols x"
  by (simp add: erase_cols_def rewrap_cols_def)

lemma update_rewrap_erase:
  assumes "update_rewrap job item d = Inr (c, d')"
  shows "erase_wrappings d' = erase_wrappings d"
  using assms
  by (auto simp: update_rewrap_def Let_def result_simps erase_wrappings_def erase_update_at
      erase_ns_def erase_secret_def erase_version_def erase_key_def split: rewrap_kind.splits)

lemma count_update_at:
  assumes "\<And>i r. p i r \<Longrightarrow> q r \<and> \<not> q (f r)"
  shows "tbl_count q (tbl_update_at p f t) + length (filter (\<lambda>(i, r). p i r) t) = tbl_count q t"
  using assms
  by (induction t) (auto simp: tbl_count_def tbl_select_def tbl_update_at_def rows_def)

lemma update_rewrap_inventory:
  assumes "update_rewrap job item d = Inr (c, d')" "kj_source job \<noteq> kj_target job"
  shows "source_inventory (int (kj_source job)) d' + c = source_inventory (int (kj_source job)) d"
proof -
  let ?s = "int (kj_source job)" and ?t = "int (kj_target job)"
  have ne: "?t \<noteq> ?s" using assms(2) by simp
  have cols: "x_kek (rewrap_cols job item x) = ?t" for x by (simp add: rewrap_cols_def)
  show ?thesis
  proof (cases "ri_kind (rw_source item)")
    case NamespaceMetadataItem
    then show ?thesis using assms(1) ne
      by (auto simp: update_rewrap_def Let_def result_simps source_inventory_def cols
          intro!: count_update_at [where q = "\<lambda>n. x_kek (n_meta n) = ?s", simplified])
  next
    case SecretMetadataItem
    then show ?thesis using assms(1) ne
      by (auto simp: update_rewrap_def Let_def result_simps source_inventory_def cols
          intro!: count_update_at [where q = "\<lambda>n. x_kek (s_meta n) = ?s", simplified])
  next
    case SecretVersionItem
    then show ?thesis using assms(1) ne
      by (auto simp: update_rewrap_def Let_def result_simps source_inventory_def cols
          intro!: count_update_at [where q = "\<lambda>n. x_kek (v_payload n) = ?s", simplified])
  qed (use assms(1) ne in \<open>auto simp: update_rewrap_def Let_def result_simps source_inventory_def
          intro!: count_update_at [where q = "\<lambda>n. k_wrapping n = Some ?s", simplified]\<close>)
qed

lemma apply_rewrap_items:
  assumes "try_fold (apply_rewrap_item job) (l, d) items = Inr (l', d')"
  shows "erase_wrappings d' = erase_wrappings d" "items \<noteq> [] \<Longrightarrow> l < l'"
    "kj_source job \<noteq> kj_target job \<Longrightarrow>
       source_inventory (int (kj_source job)) d' + length items = source_inventory (int (kj_source job)) d"
    "maintenance_jobs d' = maintenance_jobs d"
proof -
  have "erase_wrappings d' = erase_wrappings d \<and> (items \<noteq> [] \<longrightarrow> l < l') \<and>
    (kj_source job \<noteq> kj_target job \<longrightarrow>
       source_inventory (int (kj_source job)) d' + length items = source_inventory (int (kj_source job)) d) \<and>
    maintenance_jobs d' = maintenance_jobs d"
    using assms
  proof (induction items arbitrary: l d)
    case Nil
    then show ?case by simp
  next
    case (Cons item items)
    obtain d1 where step: "l < ri_row_id (rw_source item)" "update_rewrap job item d = Inr (1, d1)"
      and rest: "try_fold (apply_rewrap_item job) (ri_row_id (rw_source item), d1) items = Inr (l', d')"
      using Cons.prems by (auto simp: apply_rewrap_item_def result_simps)
    have "maintenance_jobs d1 = maintenance_jobs d"
      using step(2) by (auto simp: update_rewrap_def Let_def result_simps split: rewrap_kind.splits)
    note ih = Cons.IH [OF rest]
    have "l < l'"
    proof (cases "items = []")
      case True
      then show ?thesis using rest step(1) by simp
    next
      case False
      then show ?thesis using ih step(1) by linarith
    qed
    moreover have "kj_source job \<noteq> kj_target job \<longrightarrow>
       source_inventory (int (kj_source job)) d' + length (item # items) = source_inventory (int (kj_source job)) d"
      using ih update_rewrap_inventory [OF step(2)] by (metis add_Suc_right add_Suc add.commute length_Cons plus_1_eq_Suc)
    ultimately show ?case
      using ih update_rewrap_erase [OF step(2)] \<open>maintenance_jobs d1 = maintenance_jobs d\<close> by metis
  qed
  then show "erase_wrappings d' = erase_wrappings d" "items \<noteq> [] \<Longrightarrow> l < l'"
    "kj_source job \<noteq> kj_target job \<Longrightarrow>
       source_inventory (int (kj_source job)) d' + length items = source_inventory (int (kj_source job)) d"
    "maintenance_jobs d' = maintenance_jobs d" by blast+
qed

lemma job_checkpoint_Inr:
  "job_checkpoint job f d = Inr d' \<Longrightarrow> \<exists>js. d' = d\<lparr>maintenance_jobs := js\<rparr>"
  by (auto simp: job_checkpoint_def result_simps)

lemma erase_jobs [simp]: "erase_wrappings (d\<lparr>maintenance_jobs := js\<rparr>) = erase_wrappings d"
  by (simp add: erase_wrappings_def)

lemma inventory_jobs [simp]: "source_inventory v (d\<lparr>maintenance_jobs := js\<rparr>) = source_inventory v d"
  by (simp add: source_inventory_def)

lemma apply_rewrap_batch_Inr:
  assumes "apply_rewrap_batch job items now d = (Inr job', d')"
  obtains l d1 js where "items \<noteq> []" "length items \<le> 256" "require_job job d = Inr ()" "\<not> poisoned d"
    "try_fold (apply_rewrap_item job) (kj_last_row_id job, d) items = Inr (l, d1)"
    "d' = d1\<lparr>maintenance_jobs := js\<rparr>" "job' = job\<lparr>kj_last_row_id := l\<rparr>" "fk_current_version d'"
  using assms unfolding apply_rewrap_batch_def tx_simps
  by (auto simp: result_simps tx_simps dest: job_checkpoint_Inr)

lemma advance_rotation_stage_Inr:
  assumes "advance_rotation_stage job now d = (Inr job', d')"
  shows "\<exists>next js. rotation_stage_next (kj_stage job) = Some next \<and> next_rewrap_batch job 1 d = Inr [] \<and>
     job' = job\<lparr>kj_stage := next, kj_last_row_id := 0\<rparr> \<and> d' = d\<lparr>maintenance_jobs := js\<rparr> \<and>
     fk_current_version d' \<and> \<not> poisoned d"
  using assms unfolding advance_rotation_stage_def tx_simps
  by (auto simp: result_simps tx_simps dest: job_checkpoint_Inr)

lemma finish_kek_rotation_Inr:
  assumes "finish_kek_rotation job now a d = (Inr x, d')"
  shows "\<exists>js inst. d' = logged a (d\<lparr>key_registry := tbl_update
         (\<lambda>k. k_kind k = ''kek'' \<and> k_version k = int (kj_source job) \<and> k_state k = ''retiring'')
         (\<lambda>k. k\<lparr>k_state := ''retired''\<rparr>) (key_registry d),
         maintenance_jobs := js, installation_state := Some (inst\<lparr>i_activation_state := ''ready''\<rparr>)\<rparr>) \<and>
     installation_state d = Some inst \<and> i_activation_state inst = ''maintenance'' \<and>
     i_active_kek inst = Some (int (kj_target job)) \<and>
     source_inventory (int (kj_source job)) d = 0 \<and> keys_unique (key_registry d') \<and>
     tbl_count (\<lambda>k. k_kind k = ''kek'' \<and> k_version k = int (kj_source job) \<and> k_state k = ''retiring'')
       (key_registry d) = 1 \<and> kj_stage job = Finalize \<and>
     audit_appended a d d' \<and> \<not> poisoned d"
proof -
  obtain d1 where pre: "kj_stage job = Finalize" "\<not> poisoned d" "require_audit_head a d = Inr ()"
    and ret: "retire_source job now d = Inr d1" and ins: "insert_audit a d1 = Inr d'"
    using assms unfolding finish_kek_rotation_def guarded_Inr transaction_Inr
    by (auto simp: result_simps)
  note log = insert_audit_Inr [OF ins]
  obtain js inst where d1: "d1 = d\<lparr>key_registry := tbl_update
         (\<lambda>k. k_kind k = ''kek'' \<and> k_version k = int (kj_source job) \<and> k_state k = ''retiring'')
         (\<lambda>k. k\<lparr>k_state := ''retired''\<rparr>) (key_registry d),
         maintenance_jobs := js, installation_state := Some (inst\<lparr>i_activation_state := ''ready''\<rparr>)\<rparr>"
    and inst: "installation_state d = Some inst" "i_activation_state inst = ''maintenance''"
      "i_active_kek inst = Some (int (kj_target job))"
    and rest: "source_inventory (int (kj_source job)) d = 0" "keys_unique (key_registry d1)"
      "tbl_count (\<lambda>k. k_kind k = ''kek'' \<and> k_version k = int (kj_source job) \<and> k_state k = ''retiring'')
       (key_registry d) = 1"
    using ret by (auto simp: retire_source_def result_simps split: option.splits simp del: tbl_count_0)
  have "audit_appended a d d'" using log pre d1 by (simp add: audit_appended_def)
  then show ?thesis using d1 inst rest log pre by auto
qed

interpretation rotation_finish: audited_operation "\<lambda>(job, now). finish_kek_rotation job now"
proof unfold_locales
  fix q a d e d' x
  show "(case q of (job, now) \<Rightarrow> finish_kek_rotation job now) a d = (Inl e, d') \<Longrightarrow> d' = d"
    by (auto simp: finish_kek_rotation_def guarded_Inl split: prod.splits dest: transaction_Inl)
  show "(case q of (job, now) \<Rightarrow> finish_kek_rotation job now) a d = (Inr x, d') \<Longrightarrow> audit_appended a d d'"
    by (auto split: prod.splits dest: finish_kek_rotation_Inr)
qed

lemma replace_root_wrapping_Inr:
  "replace_root_wrapping d key = Inr d' \<Longrightarrow>
   \<exists>ks. d' = d\<lparr>key_registry := ks\<rparr> \<and> map (apsnd erase_key) ks = map (apsnd erase_key) (key_registry d)"
  by (auto simp: replace_root_wrapping_def result_simps tbl_update_def
      intro!: erase_update_at simp: erase_key_def)

lemma replace_root_fold:
  assumes "try_fold replace_root_wrapping d keys = Inr d'"
  shows "\<exists>ks. d' = d\<lparr>key_registry := ks\<rparr> \<and> map (apsnd erase_key) ks = map (apsnd erase_key) (key_registry d)"
  using assms
proof (induction keys arbitrary: d)
  case Nil
  then have "d' = d\<lparr>key_registry := key_registry d\<rparr>" by (cases d) simp
  then show ?case by blast
next
  case (Cons k keys)
  then obtain d1 where "replace_root_wrapping d k = Inr d1"
    and rest: "try_fold replace_root_wrapping d1 keys = Inr d'"
    by (auto simp: result_simps)
  then obtain ks where "d1 = d\<lparr>key_registry := ks\<rparr>" "map (apsnd erase_key) ks = map (apsnd erase_key) (key_registry d)"
    using replace_root_wrapping_Inr by blast
  then show ?case using Cons.IH [OF rest] by auto
qed

lemma replace_root_wrappings_Inr:
  assumes "replace_root_wrappings job keys now a d = (Inr x, d')"
  shows "\<exists>ks js. d' = logged a (d\<lparr>key_registry := ks, maintenance_jobs := js\<rparr>) \<and>
     map (apsnd erase_key) ks = map (apsnd erase_key) (key_registry d) \<and> is_ready d \<and>
     tbl_count open_job (maintenance_jobs d) = 0 \<and> audit_appended a d d' \<and> \<not> poisoned d"
  using assms unfolding replace_root_wrappings_def guarded_Inr
  by (elim exE conjE audited_effect)
     (auto simp: result_simps simp del: tbl_count_0 dest!: replace_root_fold, blast+)

lemma begin_kek_rotation_Inr:
  assumes "begin_kek_rotation job_id source k now a d = (Inr job, d')"
  shows "\<exists>js inst. d' = logged a (d\<lparr>key_registry := tbl_insert (key_row_of k now) (tbl_update
         (\<lambda>k. k_kind k = ''kek'' \<and> k_version k = int source \<and> k_state k = ''active'')
         (\<lambda>k. k\<lparr>k_state := ''retiring''\<rparr>) (key_registry d)),
         installation_state := Some (inst\<lparr>i_activation_state := ''maintenance'',
            i_active_kek := Some (int (wk_version k))\<rparr>), maintenance_jobs := js\<rparr>) \<and>
     installation_state d = Some inst \<and> i_activation_state inst = ''ready'' \<and>
     i_active_kek inst = Some (int source) \<and> wk_version k = saturating_add_u32 source 1 \<and>
     tbl_count (\<lambda>j. j_kind j = ''kek_rotation'' \<and> open_job j) (maintenance_jobs d) = 0 \<and>
     keys_unique (key_registry d') \<and> job = \<lparr>kj_job_id = job_id, kj_source = source,
        kj_target = wk_version k, kj_stage = Auxiliary, kj_last_row_id = 0\<rparr> \<and>
     audit_appended a d d' \<and> \<not> poisoned d"
  using assms unfolding begin_kek_rotation_def guarded_Inr
  by (elim exE conjE audited_effect)
     (auto simp: result_simps Let_def insert_key_def simp del: tbl_count_0 split: option.splits if_splits)

interpretation root_replace: audited_operation "\<lambda>(job, keys, now). replace_root_wrappings job keys now"
proof unfold_locales
  fix q a d e d' x
  show "(case q of (job, keys, now) \<Rightarrow> replace_root_wrappings job keys now) a d = (Inl e, d') \<Longrightarrow> d' = d"
    by (auto simp: replace_root_wrappings_def guarded_Inl split: prod.splits dest: audited_Inl)
  show "(case q of (job, keys, now) \<Rightarrow> replace_root_wrappings job keys now) a d = (Inr x, d') \<Longrightarrow>
      audit_appended a d d'"
    by (auto split: prod.splits dest: replace_root_wrappings_Inr)
qed

interpretation rotation_begin: audited_operation "\<lambda>(job, source, k, now). begin_kek_rotation job source k now"
proof unfold_locales
  fix q a d e d' x
  show "(case q of (job, source, k, now) \<Rightarrow> begin_kek_rotation job source k now) a d = (Inl e, d') \<Longrightarrow> d' = d"
    by (auto simp: begin_kek_rotation_def guarded_Inl split: prod.splits dest: audited_Inl)
  show "(case q of (job, source, k, now) \<Rightarrow> begin_kek_rotation job source k now) a d = (Inr x, d') \<Longrightarrow>
      audit_appended a d d'"
    by (auto split: prod.splits dest: begin_kek_rotation_Inr)
qed

section \<open>What a batch leaves of the jobs\<close>

lemma unique_key_count:
  assumes "unique_key k t" "r \<in> set (rows t)" "P r" "\<And>x. P x \<Longrightarrow> k x = k r"
  shows "tbl_count P t = 1"
proof -
  have "filter P rs = [r]" if "distinct (map k rs)" "r \<in> set rs" for rs
    using that
  proof (induction rs)
    case (Cons x xs)
    have "\<not> P y" if "y \<in> set xs" "x = r" for y using that Cons.prems(1) assms(4) [of y] by (metis distinct.simps(2) imageI list.set_map list.simps(9))
    moreover have "\<not> P x" if "x \<noteq> r" using that Cons.prems assms(4) [of x] by auto
    ultimately show ?case using Cons assms(3) by (cases "x = r") (auto simp: filter_empty_conv)
  qed simp
  then show ?thesis using assms(1,2) by (simp add: unique_key_def tbl_count_def tbl_select_def)
qed

text \<open>The durable job carries the checkpoint of the job that is returned, so a rotation that is interrupted
  resumes after this batch; no other job changes.\<close>

lemma apply_rewrap_batch_job:
  assumes "apply_rewrap_batch job items now d = (Inr job', d')"
  shows "rows (maintenance_jobs d') = map (\<lambda>j. if j_id j = kj_job_id job
      then j\<lparr>j_last_row := kj_last_row_id job', j_updated := now\<rparr> else j) (rows (maintenance_jobs d))"
    "require_job job' d' = Inr ()"
proof -
  let ?at = "\<lambda>j. j_id j = kj_job_id job \<and> j_stage j = Some (rotation_stage_as_str (kj_stage job)) \<and> j_last_row j = kj_last_row_id job"
  let ?run = "\<lambda>l j. j_id j = kj_job_id job \<and> j_state j = ''running'' \<and> j_source j = Some (int (kj_source job)) \<and>
    j_target j = Some (int (kj_target job)) \<and> j_stage j = Some (rotation_stage_as_str (kj_stage job)) \<and> j_last_row j = l"
  obtain l d1 where req: "require_job job d = Inr ()" and fold: "try_fold (apply_rewrap_item job) (kj_last_row_id job, d) items = Inr (l, d1)"
    and chk: "job_checkpoint job (\<lambda>j. j\<lparr>j_last_row := l, j_updated := now\<rparr>) d1 = Inr d'" and job': "job' = job\<lparr>kj_last_row_id := l\<rparr>"
    using assms unfolding apply_rewrap_batch_def tx_simps by (auto simp: result_simps tx_simps)
  have js: "maintenance_jobs d' = tbl_update ?at (\<lambda>j. j\<lparr>j_last_row := l, j_updated := now\<rparr>) (maintenance_jobs d)"
    "unique_key j_id (maintenance_jobs d')"
    using chk apply_rewrap_items(4) [OF fold] by (auto simp: job_checkpoint_def result_simps)
  obtain r where r: "r \<in> set (rows (maintenance_jobs d))" "?run (kj_last_row_id job) r"
    using req tbl_count_one_exists [of "?run (kj_last_row_id job)" "maintenance_jobs d"] by (auto simp: require_job_def result_simps simp del: tbl_count_0)
  have rows: "rows (maintenance_jobs d') = map (\<lambda>j. if ?at j then j\<lparr>j_last_row := l, j_updated := now\<rparr> else j) (rows (maintenance_jobs d))"
    by (simp add: js(1) rows_update)
  have ids: "map j_id (rows (maintenance_jobs d')) = map j_id (rows (maintenance_jobs d))" by (simp add: rows)
  then have u: "unique_key j_id (maintenance_jobs d)" using js(2) by (simp add: unique_key_def)
  have same: "?at j \<longleftrightarrow> j_id j = kj_job_id job" if "j \<in> set (rows (maintenance_jobs d))" for j
    using unique_key_eq [OF u that r(1)] r(2) by auto
  then show "rows (maintenance_jobs d') = map (\<lambda>j. if j_id j = kj_job_id job
      then j\<lparr>j_last_row := kj_last_row_id job', j_updated := now\<rparr> else j) (rows (maintenance_jobs d))"
    by (auto simp: rows job' intro!: map_cong)
  have "r\<lparr>j_last_row := l, j_updated := now\<rparr> \<in> set (rows (maintenance_jobs d'))" using r by (auto simp: rows image_iff)
  then have "tbl_count (?run l) (maintenance_jobs d') = 1" by (rule unique_key_count [OF js(2)]) (use r(2) in auto)
  then show "require_job job' d' = Inr ()" by (simp add: require_job_def job' ensure_def)
qed

text \<open>A finished rotation retires the rows of its source key and changes no other key.\<close>

lemma finish_registry:
  assumes "finish_kek_rotation job now a d = (Inr x, d')"
  shows "rows (key_registry d') = map (\<lambda>k. if k_kind k = ''kek'' \<and> k_version k = int (kj_source job)
      then k\<lparr>k_state := ''retired''\<rparr> else k) (rows (key_registry d))"
proof -
  let ?p = "\<lambda>k. k_kind k = ''kek'' \<and> k_version k = int (kj_source job) \<and> k_state k = ''retiring''"
  obtain js inst where d': "d' = logged a (d\<lparr>key_registry := tbl_update ?p (\<lambda>k. k\<lparr>k_state := ''retired''\<rparr>) (key_registry d),
         maintenance_jobs := js, installation_state := Some (inst\<lparr>i_activation_state := ''ready''\<rparr>)\<rparr>)"
    and u: "keys_unique (key_registry d')" and one: "tbl_count ?p (key_registry d) = 1"
    using finish_kek_rotation_Inr [OF assms] by blast
  obtain r where r: "?p r" "r \<in> set (rows (key_registry d))" using tbl_count_one_exists [OF one] by blast
  have rows: "rows (key_registry d') = map (\<lambda>k. if ?p k then k\<lparr>k_state := ''retired''\<rparr> else k) (rows (key_registry d))"
    by (simp add: d' rows_update)
  have "map (\<lambda>k. (k_kind k, k_version k)) (rows (key_registry d')) = map (\<lambda>k. (k_kind k, k_version k)) (rows (key_registry d))"
    by (simp add: rows)
  then have "unique_key (\<lambda>k. (k_kind k, k_version k)) (key_registry d)" using u by (simp add: keys_unique_def unique_key_def)
  then have "k = r" if "k \<in> set (rows (key_registry d))" "k_kind k = ''kek''" "k_version k = int (kj_source job)" for k
    by (rule unique_key_eq [OF _ that(1) r(2)]) (use that(2,3) r(1) in simp_all)
  then show ?thesis using r(1) by (auto simp: rows intro!: map_cong)
qed

lemma finish_retires:
  assumes "finish_kek_rotation job now a d = (Inr x, d')"
  shows "tbl_exists (\<lambda>k. k_kind k = ''kek'' \<and> k_version k = int (kj_source job) \<and> k_state k = ''retired'') (key_registry d')"
proof -
  have "tbl_count (\<lambda>k. k_kind k = ''kek'' \<and> k_version k = int (kj_source job) \<and> k_state k = ''retiring'') (key_registry d) = 1"
    using finish_kek_rotation_Inr [OF assms] by blast
  then obtain r where "r \<in> set (rows (key_registry d))" "k_kind r = ''kek''" "k_version r = int (kj_source job)"
    using tbl_count_one_exists by blast
  then have "r\<lparr>k_state := ''retired''\<rparr> \<in> set (rows (key_registry d'))" "k_kind r = ''kek''" "k_version r = int (kj_source job)"
    by (simp_all add: finish_registry [OF assms])
  then show ?thesis unfolding tbl_exists_iff by (intro bexI [of _ "r\<lparr>k_state := ''retired''\<rparr>"]) simp_all
qed

end
