(* ===== verification/Store_Steps.thy ===== *)
theory Store_Steps
  imports Records_Invariant Storage_Idempotency Storage_Rotation
begin

text \<open>
  The store as a state machine: one step is one committed repository operation of
  \<open>src/crates/smcv-storage\<close>, in any order and with any arguments, as concurrent callers
  serialised by the connection mutex issue them; a failed operation leaves the database as
  it was and is no step.  The invariants of the components are carried along every run from
  the freshly migrated database.
\<close>

section \<open>Steps\<close>

inductive store_step :: "db \<Rightarrow> db \<Rightarrow> bool" where
  audit_append: "append_audit a d = (Inr x1, d') \<Longrightarrow> store_step d d'"
| namespace_create: "create_namespace ns a d = (Inr x2, d') \<Longrightarrow> store_step d d'"
| namespace_move: "move_namespace m a d = (Inr x3, d') \<Longrightarrow> store_step d d'"
| secret_create: "create_secret s a d = (Inr x4, d') \<Longrightarrow> store_step d d'"
| version_append: "append_secret_version v a d = (Inr x5, d') \<Longrightarrow> store_step d d'"
| lifecycle_change: "change_secret_lifecycle c a d = (Inr x6, d') \<Longrightarrow> store_step d d'"
| secret_purge: "purge_secret p a d = (Inr x7, d') \<Longrightarrow> store_step d d'"
| initialize: "begin_initialization_kind b restore d = (Inr x8, d') \<Longrightarrow> store_step d d'"
| activate: "activate_initialization_kind kek restore d = (Inr x9, d') \<Longrightarrow> store_step d d'"
| policy_create: "create_policy po e cm a d = (Inr x10, d') \<Longrightarrow> store_step d d'"
| grant_add: "add_policy_grant g e cm a d = (Inr x11, d') \<Longrightarrow> store_step d d'"
| policy_archive: "archive_policy i n pc u e cm a d = (Inr x12, d') \<Longrightarrow> store_step d d'"
| policy_bind: "bind_policy bi e cm a d = (Inr x13, d') \<Longrightarrow> store_step d d'"
| service_create: "create_service_identity si a d = (Inr x14, d') \<Longrightarrow> store_step d d'"
| owner_enroll: "enroll_owner i pc zc h now a d = (Inr x15, d') \<Longrightarrow> store_step d d'"
| authenticator_add: "add_owner_authenticator i h now a d = (Inr x16, d') \<Longrightarrow> store_step d d'"
| session_create: "create_session ws a d = (Inr x17, d') \<Longrightarrow> store_step d d'"
| session_touch: "touch_session i lu now idle recent cm d = (Inr x18, d') \<Longrightarrow> store_step d d'"
| session_revoke: "revoke_session i lu at cm a d = (Inr x19, d') \<Longrightarrow> store_step d d'"
| credential_create: "create_application_credential ci a d = (Inr x20, d') \<Longrightarrow> store_step d d'"
| credential_use: "mark_application_credential_used i n now cm d = (Inr x21, d') \<Longrightarrow> store_step d d'"
| credential_revoke: "revoke_application_credential i n at cm a d = (Inr x22, d') \<Longrightarrow> store_step d d'"
| idempotency_reserve: "reserve_idempotency q d = (Inr x23, d') \<Longrightarrow> store_step d d'"
| root_replace: "replace_root_wrappings job keys now a d = (Inr x24, d') \<Longrightarrow> store_step d d'"
| rotation_begin: "begin_kek_rotation job source k now a d = (Inr x25, d') \<Longrightarrow> store_step d d'"
| rotation_apply: "apply_rewrap_batch kj items now d = (Inr x26, d') \<Longrightarrow> store_step d d'"
| rotation_advance: "advance_rotation_stage kj now d = (Inr x27, d') \<Longrightarrow> store_step d d'"
| rotation_finish: "finish_kek_rotation kj now a d = (Inr x28, d') \<Longrightarrow> store_step d d'"

abbreviation store_run :: "db \<Rightarrow> db \<Rightarrow> bool" where
  "store_run \<equiv> store_step\<^sup>*\<^sup>*"

text \<open>The database after the migrations.\<close>

definition empty_db :: db where
  "empty_db = \<lparr>poisoned = False, installation_state = None, key_registry = [], namespaces = [],
     secrets = [], secret_versions = [], tombstones = [], audit_events = [], maintenance_jobs = [],
     purge_enabled = 0, principals = [], owner_authenticators = [], sessions = [],
     service_identities = [], application_credentials = [], policies = [], policy_grants = [],
     policy_bindings = [], authorization_state = \<lparr>z_revision = 1, z_commitment = zero_commitment\<rparr>,
     idempotency_records = [], restore_guard = None\<rparr>"

section \<open>What a step leaves alone\<close>

lemma reserve_idempotency_effect:
  assumes "reserve_idempotency q d = (r, d')"
  shows "\<exists>t. d' = d\<lparr>idempotency_records := t\<rparr>"
proof -
  have same: "\<exists>t. d = d\<lparr>idempotency_records := t\<rparr>"
    by (rule exI [of _ "idempotency_records d"]) (cases d, simp)
  show ?thesis
    using assms same
    by (auto simp: reserve_idempotency_def guarded_def transaction_def Let_def lock_def
        split: sum.splits if_splits prod.splits option.splits simp: result_simps)
qed

lemma begin_effect:
  assumes "begin_initialization_kind b r d = (Inr x, d')"
  shows "\<exists>i k g. d' = d\<lparr>installation_state := i, key_registry := k, restore_guard := g\<rparr>"
proof (cases x)
  case Begun
  then show ?thesis using begin_Begun [of b r d d'] assms by blast
next
  case Resumed
  then have "d' = d" using assms
    by (auto simp: begin_initialization_kind_def transaction_Inr insert_installation_def result_simps
        split: sum.splits option.splits if_splits)
  then have "d' = d\<lparr>installation_state := installation_state d, key_registry := key_registry d,
      restore_guard := restore_guard d\<rparr>" by (cases d) simp
  then show ?thesis by blast
next
  case AlreadyReady
  then have "d' = d" using assms
    by (auto simp: begin_initialization_kind_def transaction_Inr insert_installation_def result_simps
        split: sum.splits option.splits if_splits)
  then have "d' = d\<lparr>installation_state := installation_state d, key_registry := key_registry d,
      restore_guard := restore_guard d\<rparr>" by (cases d) simp
  then show ?thesis by blast
qed

lemma activate_effect:
  assumes "activate_initialization_kind kek r d = (Inr x, d')"
  shows "\<exists>i g. d' = d\<lparr>installation_state := i, restore_guard := g\<rparr>"
proof (cases "d' = d")
  case True
  have "d = d\<lparr>installation_state := installation_state d, restore_guard := restore_guard d\<rparr>"
    by (cases d) simp
  then show ?thesis unfolding True by (intro exI)
next
  case False
  then show ?thesis using activate_Inr [OF assms] by metis
qed

text \<open>A rewrap leaves every table but the four it rewraps, and the jobs.\<close>

lemma erase_same_fields:
  assumes "erase_wrappings d' = erase_wrappings d"
  shows "audit_events d' = audit_events d" "tombstones d' = tombstones d"
    "purge_enabled d' = purge_enabled d" "sessions d' = sessions d"
    "application_credentials d' = application_credentials d"
    "authorization_state d' = authorization_state d" "principals d' = principals d"
    "policies d' = policies d" "service_identities d' = service_identities d"
  using arg_cong [OF assms, of audit_events] arg_cong [OF assms, of tombstones]
    arg_cong [OF assms, of purge_enabled] arg_cong [OF assms, of sessions]
    arg_cong [OF assms, of application_credentials] arg_cong [OF assms, of authorization_state]
    arg_cong [OF assms, of principals] arg_cong [OF assms, of policies]
    arg_cong [OF assms, of service_identities]
  by (simp_all add: erase_wrappings_def)

lemma apply_erase:
  assumes "apply_rewrap_batch job items now d = (Inr job', d')"
  shows "erase_wrappings d' = erase_wrappings d"
  using assms by (rule apply_rewrap_batch_Inr) (simp add: apply_rewrap_items(1))

section \<open>The audit chain along a run\<close>

lemma step_log:
  assumes "store_step d d'"
  shows "audit_events d' = audit_events d \<or> (\<exists>a. audit_appended a d d')"
  using assms
proof cases
  case (rotation_apply kj items now x)
  then show ?thesis using apply_erase erase_same_fields(1) by blast
qed (auto dest: append.success_appended create_namespace_Inr move_namespace_Inr create_secret_Inr
    append_secret_version_Inr change_secret_lifecycle_Inr purge_secret_Inr begin_effect activate_effect
    create_policy_Inr add_policy_grant_Inr archive_policy_Inr bind_policy_Inr
    create_service_identity_Inr enroll_owner_Inr add_owner_authenticator_Inr create_session_Inr
    touch_session_Inr revoke_session_Inr create_application_credential_Inr
    mark_application_credential_used_Inr revoke_application_credential_Inr
    reserve_idempotency_effect replace_root_wrappings_Inr begin_kek_rotation_Inr
    advance_rotation_stage_Inr finish_kek_rotation_Inr)

lemmas frame_effects = append_audit_Inr begin_effect activate_effect
    create_policy_Inr add_policy_grant_Inr archive_policy_Inr bind_policy_Inr
    create_service_identity_Inr enroll_owner_Inr add_owner_authenticator_Inr create_session_Inr
    touch_session_Inr revoke_session_Inr create_application_credential_Inr
    mark_application_credential_used_Inr revoke_application_credential_Inr
    reserve_idempotency_effect replace_root_wrappings_Inr begin_kek_rotation_Inr
    advance_rotation_stage_Inr finish_kek_rotation_Inr

lemma step_chain: "store_step d d' \<Longrightarrow> chain_ok d \<Longrightarrow> chain_ok d'"
  using step_log audit_appended_chain by (fastforce simp: chain_ok_def)

lemma run_chain: "store_run d d' \<Longrightarrow> chain_ok d \<Longrightarrow> chain_ok d'"
  by (induction rule: rtranclp_induct) (auto intro: step_chain)

lemma step_prefix: "store_step d d' \<Longrightarrow> \<exists>es. audit_events d' = audit_events d @ es"
  using step_log unfolding audit_appended_def by fastforce

lemma run_prefix: "store_run d d' \<Longrightarrow> \<exists>es. audit_events d' = audit_events d @ es"
proof (induction rule: rtranclp_induct)
  case base
  then show ?case by simp
next
  case (step y z)
  then show ?case using step_prefix by fastforce
qed

section \<open>The records along a run\<close>

lemma rows_apsnd [simp]: "rows (map (apsnd g) t) = map g (rows t)"
  by (simp add: rows_def o_def)

lemma references_erase: "references_ok (erase_wrappings d) = references_ok d"
  by (simp add: references_ok_def fk_namespace_parent_def fk_secret_namespace_def
      fk_version_secret_def fk_current_version_def erase_wrappings_def erase_ns_def erase_secret_def
      erase_version_def)

lemma version_numbers_erase: "version_numbers i (map (apsnd erase_version) t) = version_numbers i t"
  by (simp add: version_numbers_def tbl_select_def filter_map o_def erase_version_def)

lemma histories_erase:
  "versions_complete (erase_wrappings d) = versions_complete d"
  "deletion_marked (erase_wrappings d) = deletion_marked d"
  by (simp_all add: versions_complete_def deletion_marked_def erase_wrappings_def
      version_numbers_erase erase_secret_def)

lemma unique_erase:
  "(\<And>r. k (g r) = k r) \<Longrightarrow> unique_key k (map (apsnd g) t) = unique_key k t"
  by (simp add: unique_key_def o_def)

lemma unique_where_erase:
  "(\<And>r. k (g r) = k r) \<Longrightarrow> (\<And>r. p (g r) = p r) \<Longrightarrow> unique_where p k (map (apsnd g) t) = unique_where p k t"
  by (simp add: unique_where_def filter_map o_def)

lemma keys_erase: "keys_ok (erase_wrappings d) = keys_ok d"
  by (simp add: keys_ok_def namespaces_unique_def secrets_unique_def versions_unique_def
      erase_wrappings_def unique_erase unique_where_erase erase_ns_def erase_secret_def erase_version_def)

lemma update_rewrap_checked:
  assumes "update_rewrap job item d = Inr (c, d')" "rows_checked d"
  shows "rows_checked d'"
proof -
  have upd: "list_all P (rows (tbl_update_at p f t))"
    if "list_all P (rows t)" "\<forall>(i, r) \<in> set t. p i r \<longrightarrow> P (f r)" for P p f and t :: "'r table"
    using that by (fastforce simp: list_all_iff rows_def tbl_update_at_def)
  show ?thesis
    using assms by (auto simp: update_rewrap_def Let_def result_simps rows_checked_def
        simp del: rows_update_at intro!: upd split: rewrap_kind.splits)
qed

lemma apply_records:
  assumes "apply_rewrap_batch job items now d = (Inr job', d')" "records_ok d"
  shows "records_ok d'"
proof -
  obtain l d1 js where
    fold: "try_fold (apply_rewrap_item job) (kj_last_row_id job, d) items = Inr (l, d1)"
    and d': "d' = d1\<lparr>maintenance_jobs := js\<rparr>"
    using assms(1) by (rule apply_rewrap_batch_Inr)
  have "(\<lambda>(l, d). rows_checked d) (l, d1)"
    using fold
  proof (rule try_fold_invariant)
    show "(\<lambda>(l, d). rows_checked d) (kj_last_row_id job, d)" using assms(2) by (simp add: records_ok_def)
    show "(\<lambda>(l, d). rows_checked d) s'"
      if "(\<lambda>(l, d). rows_checked d) s" "apply_rewrap_item job s x = Inr s'" for s s' x
      using that by (auto simp: apply_rewrap_item_def result_simps split: prod.splits dest: update_rewrap_checked)
  qed
  then have chk: "rows_checked d'" by (simp add: d' rows_checked_def)
  have eq: "erase_wrappings d' = erase_wrappings d" using apply_erase assms(1) .
  have "keys_ok d'" "references_ok d'" "versions_complete d'" "deletion_marked d'"
    using assms(2) keys_erase [of d'] keys_erase [of d] references_erase [of d'] references_erase [of d]
      histories_erase [of d'] histories_erase [of d] by (simp_all add: records_ok_def eq)
  then show ?thesis using chk assms(2) erase_same_fields(3) [OF eq] by (simp add: records_ok_def)
qed

text \<open>The steps that reach the record tables, and the frame of all others.\<close>

definition records_same :: "db \<Rightarrow> db \<Rightarrow> bool" where
  "records_same d d' = (namespaces d' = namespaces d \<and> secrets d' = secrets d \<and>
     secret_versions d' = secret_versions d \<and> purge_enabled d' = purge_enabled d \<and>
     tombstones d' = tombstones d)"

lemma records_frame: "records_same d d' \<Longrightarrow> records_ok d \<Longrightarrow> records_ok d'"
  by (simp add: records_same_def records_ok_def keys_ok_def rows_checked_def references_ok_def
      versions_complete_def deletion_marked_def fk_namespace_parent_def fk_secret_namespace_def
      fk_version_secret_def fk_current_version_def)

lemma step_records_cases:
  assumes "store_step d d'"
  obtains (same) "records_same d d'"
    | (create_ns) ns a x where "create_namespace ns a d = (Inr x, d')"
    | (move_ns) m a x where "move_namespace m a d = (Inr x, d')"
    | (create_sec) s a x where "create_secret s a d = (Inr x, d')"
    | (append_ver) v a x where "append_secret_version v a d = (Inr x, d')"
    | (lifecycle) c a x where "change_secret_lifecycle c a d = (Inr x, d')"
    | (purge) p a x where "purge_secret p a d = (Inr x, d')"
    | (rewrap) kj items now x where "apply_rewrap_batch kj items now d = (Inr x, d')"
proof -
  from assms show thesis
  proof cases
    case namespace_create then show ?thesis by (rule that(2))
  next
    case namespace_move then show ?thesis by (rule that(3))
  next
    case secret_create then show ?thesis by (rule that(4))
  next
    case version_append then show ?thesis by (rule that(5))
  next
    case lifecycle_change then show ?thesis by (rule that(6))
  next
    case secret_purge then show ?thesis by (rule that(7))
  next
    case rotation_apply then show ?thesis by (rule that(8))
  qed (auto simp: records_same_def intro!: that(1) dest!: frame_effects)
qed

lemma step_records:
  assumes "store_step d d'" "records_ok d"
  shows "records_ok d'"
  using assms(1)
proof (cases rule: step_records_cases)
  case same then show ?thesis using records_frame assms(2) by blast
next
  case create_ns then show ?thesis using ns_create.keeps_records assms(2) by blast
next
  case move_ns then show ?thesis using ns_move.keeps_records assms(2) by blast
next
  case create_sec then show ?thesis using sec_create.keeps_records assms(2) by blast
next
  case append_ver then show ?thesis using ver_append.keeps_records assms(2) by blast
next
  case lifecycle then show ?thesis using sec_lifecycle.keeps_records assms(2) by blast
next
  case purge then show ?thesis using sec_purge.keeps_records assms(2) by blast
next
  case rewrap then show ?thesis using apply_records assms(2) by blast
qed

lemma run_records: "store_run d d' \<Longrightarrow> records_ok d \<Longrightarrow> records_ok d'"
  by (induction rule: rtranclp_induct) (auto intro: step_records)

lemma records_ok_empty: "records_ok empty_db"
  by (simp add: empty_db_def records_ok_def keys_ok_def rows_checked_def references_ok_def
      versions_complete_def deletion_marked_def namespaces_unique_def secrets_unique_def
      versions_unique_def unique_key_def unique_where_def fk_namespace_parent_def
      fk_secret_namespace_def fk_version_secret_def fk_current_version_def)

lemma chain_ok_empty: "chain_ok empty_db"
  by (simp add: empty_db_def chain_ok_def)

lemmas reachable_records = run_records [OF _ records_ok_empty]
lemmas reachable_chain = run_chain [OF _ chain_ok_empty]

section \<open>Versions and tombstones along a run\<close>

lemma find_map_same: "(\<And>x. P (g x) = P x) \<Longrightarrow> find P (map g xs) = map_option g (find P xs)"
  by (induction xs) auto

lemma version_row_erase:
  "version_row_at i n (erase_wrappings d) = map_option erase_version (version_row_at i n d)"
  unfolding version_row_at_def erase_wrappings_def tbl_find_def
  by (simp add: find_map_same erase_version_def)

lemma sealed_erase: "erase_version v' = erase_version v \<Longrightarrow> sealed_payload v' = sealed_payload v"
proof -
  assume eq: "erase_version v' = erase_version v"
  have "sealed_payload (erase_version w) = sealed_payload w" for w
    by (simp add: sealed_payload_def erase_version_def erase_cols_def)
  then show ?thesis using eq by metis
qed

lemma rewrap_version_kept:
  assumes "erase_wrappings d' = erase_wrappings d"
  shows "version_kept d d'"
  unfolding version_kept_def
proof (intro allI impI disjI1)
  fix i n v
  assume "version_row_at i n d = Some v"
  then have "map_option erase_version (version_row_at i n d') = Some (erase_version v)"
    using version_row_erase [of i n d'] version_row_erase [of i n d] assms by simp
  then obtain v' where "version_row_at i n d' = Some v'" "erase_version v' = erase_version v" by auto
  then show "\<exists>v'. version_row_at i n d' = Some v' \<and> sealed_payload v' = sealed_payload v"
    by (blast dest: sealed_erase)
qed

lemma step_versions:
  assumes "store_step d d'"
  shows "version_kept d d'" "tombstoned j d \<Longrightarrow> tombstoned j d'"
proof -
  have "version_kept d d' \<and> (tombstoned j d \<longrightarrow> tombstoned j d')"
    using assms
  proof (cases rule: step_records_cases)
    case same then show ?thesis by (simp add: records_same_def version_kept_same tombstoned_def)
  next
    case create_ns then show ?thesis using ns_create.keeps_versions ns_create.keeps_tombstones by blast
  next
    case move_ns then show ?thesis using ns_move.keeps_versions ns_move.keeps_tombstones by blast
  next
    case create_sec then show ?thesis using sec_create.keeps_versions sec_create.keeps_tombstones by blast
  next
    case append_ver then show ?thesis using ver_append.keeps_versions ver_append.keeps_tombstones by blast
  next
    case lifecycle then show ?thesis using sec_lifecycle.keeps_versions sec_lifecycle.keeps_tombstones by blast
  next
    case purge then show ?thesis using sec_purge.keeps_versions sec_purge.keeps_tombstones by blast
  next
    case rewrap
    then have "erase_wrappings d' = erase_wrappings d" by (rule apply_erase)
    then show ?thesis using rewrap_version_kept erase_same_fields(2) [of d' d] by (simp add: tombstoned_def)
  qed
  then show "version_kept d d'" "tombstoned j d \<Longrightarrow> tombstoned j d'" by blast+
qed

lemma run_tombstones: "store_run d d' \<Longrightarrow> tombstoned j d \<Longrightarrow> tombstoned j d'"
  by (induction rule: rtranclp_induct) (auto intro: step_versions(2))

lemma run_versions: "store_run d d' \<Longrightarrow> version_kept d d'"
proof (induction rule: rtranclp_induct)
  case base
  then show ?case by (rule version_kept_refl)
next
  case (step y z)
  have "version_kept y z" using step.hyps(2) by (rule step_versions(1))
  moreover have "tombstoned j y \<Longrightarrow> tombstoned j z" for j using step.hyps(2) by (rule step_versions(2))
  ultimately show ?case using step.IH unfolding version_kept_def by metis
qed

section \<open>Credentials, sessions and the graph revision along a run\<close>

definition credential_row_at :: "uuid \<Rightarrow> db \<Rightarrow> credential_row option" where
  "credential_row_at i d = tbl_find (\<lambda>c. c_id c = i) (application_credentials d)"

lemma revoked_update:
  assumes "credential_row_at i d = Some c" "c_revoked c \<noteq> None"
    and "\<And>r. p r \<Longrightarrow> c_revoked r = None \<and> c_id (f r) = c_id r"
    and "application_credentials d' = tbl_update p f (application_credentials d)"
  shows "credential_row_at i d' = Some c"
proof -
  have "\<And>r. p r \<Longrightarrow> c_id (f r) = c_id r" using assms(3) by blast
  then have "credential_row_at i d' = map_option (\<lambda>r. if p r then f r else r) (credential_row_at i d)"
    unfolding credential_row_at_def assms(4) by (rule tbl_find_update)
  moreover have "\<not> p c" using assms(2) assms(3) [of c] by auto
  ultimately show ?thesis using assms(1) by simp
qed

lemma step_revoked:
  assumes "store_step d d'" "credential_row_at i d = Some c" "c_revoked c \<noteq> None"
  shows "credential_row_at i d' = Some c"
  using assms(1)
proof cases
  case (credential_use j n now cm x)
  note eff = mark_application_credential_used_Inr [OF this]
  show ?thesis
    by (rule revoked_update [OF assms(2,3), of "use_where j n now" "use_set n now cm"])
       (use eff in \<open>auto simp: use_where_def use_set_def\<close>)
next
  case (credential_revoke j n at cm a x)
  note eff = revoke_application_credential_Inr [OF this]
  show ?thesis
    by (rule revoked_update [OF assms(2,3), of "cred_revoke_where j n" "cred_revoke_set n at cm"])
       (use eff in \<open>auto simp: cred_revoke_where_def cred_revoke_set_def\<close>)
next
  case (credential_create ci a x)
  then show ?thesis using assms(2) create_application_credential_Inr
    by (force simp: credential_row_at_def tbl_find_insert)
next
  case (rotation_apply kj items now x)
  then have "erase_wrappings d' = erase_wrappings d" by (rule apply_erase)
  then show ?thesis using erase_same_fields(5) [of d' d] assms(2) by (simp add: credential_row_at_def)
qed (use assms(2) in \<open>auto simp: credential_row_at_def dest!: frame_effects create_namespace_Inr
    move_namespace_Inr create_secret_Inr append_secret_version_Inr change_secret_lifecycle_Inr purge_secret_Inr\<close>)

lemma run_revoked:
  "store_run d d' \<Longrightarrow> credential_row_at i d = Some c \<Longrightarrow> c_revoked c \<noteq> None \<Longrightarrow>
   credential_row_at i d' = Some c"
  by (induction rule: rtranclp_induct) (auto intro: step_revoked)

lemma count_update_same:
  assumes "\<And>r. q (f r) = q r"
  shows "tbl_count q (tbl_update p f t) = tbl_count q t"
  using assms unfolding tbl_count_def tbl_select_def rows_update by (simp add: filter_map o_def if_distrib)

lemma count_delete_le: "tbl_count q (tbl_delete p t) \<le> tbl_count q t"
proof -
  have "length (filter q (filter (\<lambda>r. \<not> p r) rs)) \<le> length (filter q rs)" for rs
    by (induction rs) auto
  then show ?thesis by (simp add: tbl_count_def tbl_select_def)
qed

lemma count_insert: "tbl_count q (tbl_insert r t) = tbl_count q t + (if q r then 1 else 0)"
  by (simp add: tbl_count_def tbl_select_def)

definition session_cap :: "db \<Rightarrow> bool" where
  "session_cap d = (\<forall>p. tbl_count (\<lambda>w. w_principal w = p) (sessions d) \<le> MAX_ACTIVE_SESSIONS_PER_PRINCIPAL)"

lemma step_sessions:
  assumes "store_step d d'" "session_cap d"
  shows "session_cap d'"
  using assms(1)
proof cases
  case (session_create s a x)
  note eff = create_session_Inr [OF this]
  have "tbl_count (\<lambda>w. w_principal w = p) (sessions d') \<le> 32" for p
  proof (cases "ws_principal_id s = p")
    case True
    then show ?thesis using eff by (auto simp: count_insert session_row_of_def)
  next
    case False
    have "tbl_count (\<lambda>w. w_principal w = p) (tbl_delete (session_dead s) (sessions d)) \<le> 32"
      using assms(2) count_delete_le le_trans
      unfolding session_cap_def MAX_ACTIVE_SESSIONS_PER_PRINCIPAL_def by blast
    then show ?thesis using False eff by (auto simp: count_insert session_row_of_def)
  qed
  then show ?thesis by (simp add: session_cap_def MAX_ACTIVE_SESSIONS_PER_PRINCIPAL_def)
next
  case (session_touch i lu now idle recent cm x)
  note eff = touch_session_Inr [OF this]
  have "w_principal (touch_set now idle recent cm w) = w_principal w" for w by (simp add: touch_set_def)
  then show ?thesis using eff assms(2) by (auto simp: session_cap_def count_update_same)
next
  case (session_revoke i lu at cm a x)
  note eff = revoke_session_Inr [OF this]
  have "w_principal (revoke_set at cm w) = w_principal w" for w by (simp add: revoke_set_def)
  then show ?thesis using eff assms(2) by (auto simp: session_cap_def count_update_same)
next
  case (rotation_apply kj items now x)
  then have "erase_wrappings d' = erase_wrappings d" by (rule apply_erase)
  then show ?thesis using erase_same_fields(4) [of d' d] assms(2) by (simp add: session_cap_def)
qed (use assms(2) in \<open>auto simp: session_cap_def dest!: frame_effects create_namespace_Inr
    move_namespace_Inr create_secret_Inr append_secret_version_Inr change_secret_lifecycle_Inr purge_secret_Inr\<close>)

lemma run_sessions: "store_run d d' \<Longrightarrow> session_cap d \<Longrightarrow> session_cap d'"
  by (induction rule: rtranclp_induct) (auto intro: step_sessions)

text \<open>The policy graph, and that it changes only together with its revision.\<close>

definition policy_graph :: "db \<Rightarrow> policy_row table \<times> grant_row table \<times> binding_row table" where
  "policy_graph d = (policies d, policy_grants d, policy_bindings d)"

definition graph_revision :: "db \<Rightarrow> int" where
  "graph_revision d = z_revision (authorization_state d)"

lemma erase_graph: "policy_graph (erase_wrappings d) = policy_graph d" "graph_revision (erase_wrappings d) = graph_revision d"
  by (simp_all add: policy_graph_def graph_revision_def erase_wrappings_def)

lemma step_graph:
  assumes "store_step d d'"
  shows "policy_graph d' = policy_graph d \<and> graph_revision d' = graph_revision d \<or>
     graph_revision d' = graph_revision d + 1"
  using assms
proof cases
  case (rotation_apply kj items now x)
  then have "erase_wrappings d' = erase_wrappings d" by (rule apply_erase)
  then show ?thesis using erase_graph [of d'] erase_graph [of d] by simp
qed (auto simp: policy_graph_def graph_revision_def dest!: frame_effects create_namespace_Inr
    move_namespace_Inr create_secret_Inr append_secret_version_Inr change_secret_lifecycle_Inr purge_secret_Inr)

lemma run_graph:
  "store_run d d' \<Longrightarrow> graph_revision d \<le> graph_revision d' \<and>
     (graph_revision d' = graph_revision d \<longrightarrow> policy_graph d' = policy_graph d)"
proof (induction rule: rtranclp_induct)
  case base
  then show ?case by simp
next
  case (step y z)
  then show ?case using step_graph [OF step.hyps(2)] by auto
qed

end
