(* ===== verification/App_Operation.thy ===== *)
theory App_Operation
  imports App_Vault Store_Steps
begin

text \<open>
  The shape of an application operation: it reads and computes, builds one audit event on the
  current head, and hands both to one audited storage operation.  The locale
  \<open>vault_operation\<close> states what every such operation promises (a failure changes nothing; a
  success adds exactly one event, authentic under the audit key and attributed to the caller)
  and proves once what follows for the log: it keeps verifying.  \<open>reported\<close> is the
  weaker relation of operations that may log several events, such as a denial.
\<close>

section \<open>Frames\<close>

text \<open>A read-only prelude, one call after another, and the storage call that ends an operation
  with the caller's view of its error.\<close>

definition reading :: "('s \<Rightarrow> 'e + 'x) \<Rightarrow> ('x \<Rightarrow> 's \<Rightarrow> ('e + 'a) \<times> 's) \<Rightarrow> 's \<Rightarrow> ('e + 'a) \<times> 's" where
  "reading f k d = guarded (f d) k d"

definition sbind :: "('s \<Rightarrow> ('e + 'x) \<times> 's) \<Rightarrow> ('x \<Rightarrow> 's \<Rightarrow> ('e + 'a) \<times> 's) \<Rightarrow> 's \<Rightarrow> ('e + 'a) \<times> 's" where
  "sbind m k d = (case m d of (r, d') \<Rightarrow> guarded r k d')"

definition storing :: "('f \<Rightarrow> 'e) \<Rightarrow> ('a \<Rightarrow> 'b) \<Rightarrow> ('s \<Rightarrow> ('f + 'a) \<times> 's) \<Rightarrow> 's \<Rightarrow> ('e + 'b) \<times> 's" where
  "storing g f op d = (case op d of (r, d') \<Rightarrow> (rbind (map_err g r) (\<lambda>x. Inr (f x)), d'))"

lemma reading_Inr: "reading f k d = (Inr x, d') \<longleftrightarrow> (\<exists>y. f d = Inr y \<and> k y d = (Inr x, d'))"
  by (simp add: reading_def guarded_Inr)

lemma reading_Inl:
  "reading f k d = (Inl e, d') \<longleftrightarrow> f d = Inl e \<and> d' = d \<or> (\<exists>y. f d = Inr y \<and> k y d = (Inl e, d'))"
  by (simp add: reading_def guarded_Inl)

lemma sbind_Inr: "sbind m k d = (Inr x, d') \<longleftrightarrow> (\<exists>y d1. m d = (Inr y, d1) \<and> k y d1 = (Inr x, d'))"
  by (auto simp: sbind_def guarded_Inr split: prod.splits)

lemma sbind_Inl:
  "sbind m k d = (Inl e, d') \<longleftrightarrow>
   m d = (Inl e, d') \<or> (\<exists>y d1. m d = (Inr y, d1) \<and> k y d1 = (Inl e, d'))"
  by (auto simp: sbind_def guarded_Inl split: prod.splits)

lemma storing_Inr: "storing g f op d = (Inr y, d') \<longleftrightarrow> (\<exists>x. op d = (Inr x, d') \<and> y = f x)"
  by (auto simp: storing_def rbind_eq_Inr map_err_eq_Inr split: prod.splits)

lemma storing_Inl: "storing g f op d = (Inl e, d') \<longleftrightarrow> (\<exists>s. op d = (Inl s, d') \<and> e = g s)"
proof (cases "op d")
  case (Pair r d1)
  then show ?thesis by (cases r) (auto simp: storing_def)
qed

lemma snd_storing [simp]: "snd (storing g f op d) = snd (op d)"
  by (simp add: storing_def split: prod.splits)

section \<open>Attribution\<close>

text \<open>What the event says: who did what to which object with which outcome, under the keyed
  commitment of this vault.\<close>

definition attributed :: "vault \<Rightarrow> string \<Rightarrow> string \<Rightarrow> uuid option \<Rightarrow> string \<Rightarrow> vault_operation_context \<Rightarrow>
    audit_record \<Rightarrow> bool" where
  "attributed v act kind target out oper a =
     (event_authentic v a \<and> int (ar_recovery_epoch a) \<le> i64_max \<and>
      ar_installation_id a = vt_installation_id v \<and> ar_action a = act \<and> ar_target_kind a = kind \<and>
      ar_target_id a = target \<and> ar_outcome a = out \<and> ar_occurred_at a = oc_now oper \<and>
      ar_request_id a = oc_request_id oper \<and> ar_actor a = oc_actor oper \<and>
      ar_credential_kind a = oc_credential_kind oper \<and> ar_credential_id a = oc_credential_id oper)"

lemma installation_epoch: "installation d = Inr (Some i) \<Longrightarrow> int (in_recovery_epoch i) \<le> i64_max"
  by (auto simp: installation_def transpose_map_def parse_installation_def result_simps split: option.splits)

lemma build_attributed:
  assumes "build_audit_outcome v ev act kind target out oper d = Inr a"
  shows "attributed v act kind target out oper a"
proof -
  have "int (ar_recovery_epoch a) \<le> i64_max"
    using assms by (auto simp: build_audit_outcome_def result_simps Let_def dest: installation_epoch)
  then show ?thesis using build_audit_outcome_Inr [OF assms] by (simp add: attributed_def)
qed

lemma build_audit_attributed:
  "build_audit v ev act kind target oper d = Inr a \<Longrightarrow> attributed v act kind target ''allowed'' oper a"
  unfolding build_audit_def by (rule build_attributed)

section \<open>Logs that only authentic events extend\<close>

text \<open>The part of attribution that the log as a whole needs.\<close>

definition event_sound :: "vault \<Rightarrow> audit_record \<Rightarrow> bool" where
  "event_sound v a = (event_authentic v a \<and> int (ar_recovery_epoch a) \<le> i64_max)"

lemma attributed_sound: "attributed v act kind target out oper a \<Longrightarrow> event_sound v a"
  by (simp add: attributed_def event_sound_def)

lemma build_sound: "build_audit_outcome v ev act kind target out oper d = Inr a \<Longrightarrow> event_sound v a"
  by (rule attributed_sound) (rule build_attributed)

lemma build_audit_sound: "build_audit v ev act kind target oper d = Inr a \<Longrightarrow> event_sound v a"
  unfolding build_audit_def by (rule build_sound)

inductive reported :: "vault \<Rightarrow> db \<Rightarrow> db \<Rightarrow> bool" for v where
  reported_same: "audit_events d' = audit_events d \<Longrightarrow> reported v d d'"
| reported_event: "reported v d d1 \<Longrightarrow> audit_appended a d1 d' \<Longrightarrow> event_sound v a \<Longrightarrow> reported v d d'"

lemma reported_refl [simp, intro]: "reported v d d"
  by (rule reported_same) simp

lemma reported_one: "audit_appended a d d' \<Longrightarrow> event_sound v a \<Longrightarrow> reported v d d'"
  by (rule reported_event) auto

lemma reported_same_log: "reported v d d1 \<Longrightarrow> audit_events d2 = audit_events d1 \<Longrightarrow> reported v d d2"
  by (erule reported.cases) (auto simp: audit_appended_def intro: reported.intros)

lemma reported_trans: "reported v d2 d3 \<Longrightarrow> reported v d1 d2 \<Longrightarrow> reported v d1 d3"
  by (induction rule: reported.induct) (auto intro: reported_same_log reported_event)

text \<open>The log of this vault: every row parses and carries its own commitment.\<close>

definition authentic_log :: "vault \<Rightarrow> db \<Rightarrow> bool" where
  "authentic_log v d = (\<exists>rs. traverse parse_audit (audit_events d) = Inr rs \<and> list_all (event_sound v) rs)"

lemma authentic_log_append:
  assumes "authentic_log v d" "audit_appended a d d'" "event_sound v a"
  shows "authentic_log v d'"
proof -
  obtain rs where rs: "traverse parse_audit (audit_events d) = Inr rs" "list_all (event_sound v) rs"
    using assms(1) by (auto simp: authentic_log_def)
  have "parse_audit (audit_row_of a) = Inr a"
    using assms(2,3) by (intro parse_audit_row_of)
      (simp add: audit_record_ok_def audit_appended_def event_sound_def)
  then have "traverse parse_audit (audit_events d') = Inr (rs @ [a])"
    using assms(2) rs(1) by (simp add: audit_appended_def traverse_append)
  then show ?thesis using rs(2) assms(3) by (auto simp: authentic_log_def)
qed

lemma reported_chain: "reported v d d' \<Longrightarrow> chain_ok d \<Longrightarrow> chain_ok d'"
  by (induction rule: reported.induct) (auto simp: chain_ok_def [abs_def] dest: audit_appended_chain [unfolded chain_ok_def])

lemma reported_authentic: "reported v d d' \<Longrightarrow> authentic_log v d \<Longrightarrow> authentic_log v d'"
  by (induction rule: reported.induct) (auto simp: authentic_log_def intro: authentic_log_append [unfolded authentic_log_def])

named_theorems report_intros \<open>how an operation of frames extends the log\<close>

lemma reading_reported [report_intros]:
  "(\<And>y. f d = Inr y \<Longrightarrow> reported v d (snd (k y d))) \<Longrightarrow> reported v d (snd (reading f k d))"
  by (cases "f d") (auto simp: reading_def)

lemma sbind_reported [report_intros]:
  assumes "reported v d (snd (m d))" "\<And>x d1. m d = (Inr x, d1) \<Longrightarrow> reported v d1 (snd (k x d1))"
  shows "reported v d (snd (sbind m k d))"
proof (cases "m d")
  case (Pair r d1)
  then show ?thesis
    using assms by (cases r) (auto simp: sbind_def intro: reported_trans)
qed

lemma storing_reported [report_intros]:
  "reported v d (snd (op d)) \<Longrightarrow> reported v d (snd (storing g f op d))"
  by simp

lemma reported_prefix: "reported v d d' \<Longrightarrow> \<exists>es. audit_events d' = audit_events d @ es"
  by (induction rule: reported.induct) (auto simp: audit_appended_def)

text \<open>On an unbroken chain of authentic events the verification succeeds and reports all of
  them.\<close>

lemma chain_authentic_from:
  assumes "audit_chain n c es" "traverse parse_audit es = Inr rs" "list_all (event_sound v) rs"
  shows "authentic_from v n c rs \<and> record_tip c rs = chain_tip c es"
  using assms
proof (induction es arbitrary: n c rs)
  case Nil
  then show ?case by (simp add: chain_tip_def)
next
  case (Cons e es)
  then obtain r rs' where rs: "rs = r # rs'" "parse_audit e = Inr r" "traverse parse_audit es = Inr rs'"
    by (auto simp: rbind_eq_Inr)
  have r: "a_sequence e = int (ar_sequence r)" "ar_previous_commitment r = a_previous e"
    "ar_commitment r = a_commitment e"
    using rs(2) by (auto simp: parse_audit_def result_simps)
  have "authentic_from v (n + 1) (a_commitment e) rs' \<and>
      record_tip (a_commitment e) rs' = chain_tip (a_commitment e) es"
    using Cons rs by (intro Cons.IH) auto
  then show ?case using Cons.prems r rs(1) by (auto simp: chain_tip_def event_sound_def)
qed

lemma authentic_chain_verifies:
  assumes "chain_ok d" "authentic_log v d" "\<not> poisoned d"
  shows "verify_audit_chain v d = Inr \<lparr>av_events_verified = length (audit_events d),
     av_final_sequence = length (audit_events d),
     av_final_commitment = chain_tip zero_commitment (audit_events d)\<rparr>"
proof -
  have chain: "audit_chain 0 zero_commitment (audit_events d)" using assms(1) by (simp add: chain_ok_def)
  then have dist: "distinct (map a_sequence (audit_events d))"
    by (auto simp: distinct_conv_nth audit_chain_nth)
  have all: "scan_after 0 d = audit_events d"
    using chain audit_chain_filter [OF chain, of 0] by (simp add: scan_after_def)
  obtain rs where rs: "traverse parse_audit (audit_events d) = Inr rs" "list_all (event_sound v) rs"
    using assms(2) by (auto simp: authentic_log_def)
  note scan = chain_authentic_from [OF chain rs]
  have "length rs = length (audit_events d)" using rs(1) by (rule traverse_length)
  then show ?thesis
    using verify_audit_chain_iff [OF dist assms(3), of v] rs(1) scan chain_head [OF assms(1)] all
    by simp
qed

section \<open>The contracts\<close>

locale reporting_operation =
  fixes op :: "vault \<Rightarrow> 'i \<Rightarrow> db \<Rightarrow> ('e + 'o) \<times> db"
  assumes reports: "reported v d (snd (op v i d))"
begin

lemma still_verifies:
  assumes "chain_ok d" "authentic_log v d" "op v i d = (r, d')" "\<not> poisoned d'"
  shows "\<exists>res. verify_audit_chain v d' = Inr res \<and> av_events_verified res = length (audit_events d')"
proof -
  have "reported v d d'" using assms(3) reports [of v d i] by simp
  then have "chain_ok d'" "authentic_log v d'" using assms by (auto intro: reported_chain reported_authentic)
  then show ?thesis using authentic_chain_verifies [OF _ _ assms(4)] by simp
qed

end

locale vault_operation =
  fixes op :: "vault \<Rightarrow> 'i \<Rightarrow> db \<Rightarrow> ('e + 'o) \<times> db"
    and act :: string
    and kind :: string
    and target :: "'i \<Rightarrow> uuid option"
    and caller :: "'i \<Rightarrow> vault_operation_context"
  assumes failure_changes_nothing: "op v i d = (Inl e, d') \<Longrightarrow> d' = d"
    and success_attributed: "op v i d = (Inr x, d') \<Longrightarrow>
      \<exists>a. audit_appended a d d' \<and> attributed v act kind (target i) ''allowed'' (caller i) a"
begin

lemma run_reported: "reported v d (snd (op v i d))"
proof (cases "op v i d")
  case (Pair r d')
  show ?thesis
  proof (cases r)
    case (Inl e)
    then have "d' = d" using Pair failure_changes_nothing by blast
    then show ?thesis using Pair by simp
  next
    case (Inr x)
    then obtain a where "audit_appended a d d'" "attributed v act kind (target i) ''allowed'' (caller i) a"
      using Pair success_attributed by blast
    then show ?thesis using Pair by (auto simp: attributed_def event_sound_def intro: reported_one)
  qed
qed

lemma one_event:
  "op v i d = (r, d') \<Longrightarrow>
   length (audit_events d') = length (audit_events d) + (if isl r then 0 else 1)"
  using failure_changes_nothing success_attributed
  by (cases r) (fastforce simp: audit_appended_def)+

lemma last_event_names_caller:
  assumes "op v i d = (Inr x, d')"
  shows "audit_events d' \<noteq> [] \<and> a_action (last (audit_events d')) = act \<and>
    a_target (last (audit_events d')) = target i \<and> a_actor (last (audit_events d')) = oc_actor (caller i) \<and>
    a_request_id (last (audit_events d')) = oc_request_id (caller i) \<and>
    a_occurred (last (audit_events d')) = oc_now (caller i)"
  using success_attributed [OF assms]
  by (auto simp: audit_appended_def attributed_def audit_row_of_def)

end

sublocale vault_operation \<subseteq> rep: reporting_operation op
  by unfold_locales (rule run_reported)

text \<open>An operation of the usual shape keeps the contract whenever its storage operation is
  audited and its prelude ends by building the event.\<close>

context audited_operation
begin

lemma audited_reported: "event_sound v a \<Longrightarrow> reported v d (snd (op i a d))"
proof (cases "op i a d")
  case (Pair r d')
  then show "event_sound v a \<Longrightarrow> ?thesis"
    by (cases r) (auto dest: failure_unchanged success_appended intro: reported_one)
qed

lemma framed_failure:
  "reading prep (\<lambda>(i, a). storing g (f i) (op i a)) d = (Inl e, d') \<Longrightarrow> d' = d"
  using failure_unchanged by (auto simp: reading_Inl storing_Inl)

lemma framed_success:
  assumes "reading prep (\<lambda>(i, a). storing g (f i) (op i a)) d = (Inr x, d')"
    and "\<And>i a. prep d = Inr (i, a) \<Longrightarrow> P a"
  shows "\<exists>a. audit_appended a d d' \<and> P a"
  using assms success_appended by (fastforce simp: reading_Inr storing_Inr)

end

end
