(* ===== verification/App_Records.thy ===== *)
theory App_Records
  imports App_Operation
begin

text \<open>
  The namespace and secret operations of the loaded vault
  (\<open>src/crates/smcv-app/src/vault_core.rs\<close>): validation, encryption, the commitment of
  the next state, the audit event and the storage call, in the order of the source.  Random
  identifiers, nonces and keys are arguments.  Shown: each mutation and each disclosure keeps
  the contract \<open>vault_operation\<close>, the committed states always verify, and what was written is
  what is revealed.
\<close>

section \<open>Data\<close>

record secret_created =
  cr_secret_id :: uuid
  cr_version :: nat
  cr_revision :: nat

record due_secret =
  du_secret_id :: uuid
  du_version :: nat
  du_schedule :: secret_schedule
  du_expired :: bool
  du_upstream_rotation_due :: bool

record secret_version_summary =
  vs_version :: nat
  vs_schedule :: secret_schedule
  vs_created_by :: "uuid option"
  vs_created_at :: unix_ms

record namespace_list_item =
  nl_namespace_id :: uuid
  nl_metadata :: metadata
  nl_revision :: nat

record secret_list_item =
  sl_secret_id :: uuid
  sl_metadata :: metadata
  sl_current_version :: nat
  sl_revision :: nat
  sl_lifecycle_state :: string
  sl_deleted_at :: "unix_ms option"

record owner_purge_approval =
  pa_retention_cutoff :: unix_ms

section \<open>Due work\<close>

definition due_item :: "vault \<Rightarrow> unix_ms \<Rightarrow> db \<Rightarrow> scheduled_secret \<Rightarrow> vault_error + due_secret" where
  "due_item v now d r =
     rbind (map_err map_storage (secret (ss_secret_id r) d)) (\<lambda>current.
     rbind (verify_secret_state v current) (\<lambda>_.
     rbind (ensure (sr_current_version current = ss_version r) Integrity) (\<lambda>_.
     Inr \<lparr>du_secret_id = ss_secret_id r, du_version = ss_version r, du_schedule = ss_schedule r,
          du_expired = due_by now (expires_at (ss_schedule r)),
          du_upstream_rotation_due = due_by now (rotation_due_at (ss_schedule r))\<rparr>)))"

definition secrets_due :: "vault \<Rightarrow> unix_ms \<Rightarrow> nat \<Rightarrow> db \<Rightarrow> vault_error + due_secret list" where
  "secrets_due v now limit d =
     rbind (ensure (\<not> (now < 0 \<or> limit = 0 \<or> 1000 < limit)) InvalidInput) (\<lambda>_.
     rbind (map_err map_storage (scheduled_secrets_due now limit d)) (\<lambda>records.
     traverse (due_item v now d) records))"

section \<open>Namespaces\<close>

text \<open>The index scope of a root namespace is the vault itself.\<close>

definition index_scope :: "vault \<Rightarrow> uuid option \<Rightarrow> uuid" where
  "index_scope v parent = (case parent of None \<Rightarrow> vt_vault_id v | Some p \<Rightarrow> p)"

definition parent_admits_child :: "vault \<Rightarrow> uuid option \<Rightarrow> db \<Rightarrow> vault_error + unit" where
  "parent_admits_child v parent d =
     (case parent of
        None \<Rightarrow> Inr ()
      | Some p \<Rightarrow>
          rbind (map_err map_storage (namespace p d)) (\<lambda>parent_state.
          rbind (verify_namespace_state v parent_state) (\<lambda>_.
          rbind (ensure (nr_lifecycle_state parent_state = ''active'') NotFound) (\<lambda>_.
          rbind (map_err map_storage (namespace_depth p d)) (\<lambda>depth.
          ensure (depth < MAX_NAMESPACE_DEPTH) InvalidInput)))))"

definition create_namespace_with_id :: "vault \<Rightarrow> entropy \<Rightarrow> uuid \<Rightarrow> uuid \<Rightarrow> uuid option \<Rightarrow> metadata \<Rightarrow>
    vault_operation_context \<Rightarrow> db \<Rightarrow> (vault_error + uuid) \<times> db" where
  "create_namespace_with_id v ent ev namespace_id parent md oper =
     reading (\<lambda>d.
       rbind (validate_metadata md) (\<lambda>_.
       rbind (parent_admits_child v parent d) (\<lambda>_.
       rbind (map_err map_crypto (exact_name_index (vt_lib v) (vt_blind_index_key v)
         (index_scope v parent) (md_name md))) (\<lambda>name_index.
       rbind (encode_metadata md 1) (\<lambda>plaintext.
       rbind (encrypt_record v ent plaintext object_kind.NamespaceMetadata WrappedNamespaceMetadataKey namespace_id 1) (\<lambda>encrypted.
       rbind (namespace_state_commitment v namespace_id parent name_index ''active'' 1 1) (\<lambda>commitment.
       rbind (build_audit v ev ''namespace:create'' ''namespace'' (Some namespace_id) oper d) (\<lambda>audit.
       Inr (\<lparr>ni_namespace_id = namespace_id, ni_parent = parent, ni_name_index = name_index,
             ni_metadata = encrypted, ni_state_commitment = commitment,
             ni_created_at = oc_now oper\<rparr>, audit)))))))))
     (\<lambda>(insert, audit). storing map_storage (\<lambda>_. namespace_id) (create_namespace insert audit))"

definition new_parent_admissible :: "vault \<Rightarrow> uuid \<Rightarrow> uuid option \<Rightarrow> db \<Rightarrow> vault_error + unit" where
  "new_parent_admissible v namespace_id new_parent d =
     (case new_parent of
        None \<Rightarrow> Inr ()
      | Some p \<Rightarrow>
          rbind (ensure (p \<noteq> namespace_id) InvalidInput) (\<lambda>_.
          rbind (map_err map_storage (namespace p d)) (\<lambda>parent_state.
          rbind (verify_namespace_state v parent_state) (\<lambda>_.
          rbind (ensure (nr_lifecycle_state parent_state = ''active'') InvalidInput) (\<lambda>_.
          rbind (map_err map_storage (namespace_depth p d)) (\<lambda>depth.
          rbind (ensure (depth < MAX_NAMESPACE_DEPTH) InvalidInput) (\<lambda>_.
          rbind (map_err map_storage (namespace_ancestors_inclusive p d)) (\<lambda>ancestors.
          ensure (namespace_id \<notin> set ancestors) InvalidInput))))))))"

definition move_namespace_core :: "vault \<Rightarrow> uuid \<Rightarrow> uuid \<Rightarrow> nat \<Rightarrow> uuid option \<Rightarrow>
    vault_operation_context \<Rightarrow> db \<Rightarrow> (vault_error + nat) \<times> db" where
  "move_namespace_core v ev namespace_id expected_revision new_parent oper =
     reading (\<lambda>d.
       rbind (map_err map_storage (namespace namespace_id d)) (\<lambda>current.
       rbind (verify_namespace_state v current) (\<lambda>_.
       rbind (ensure (nr_revision current = expected_revision \<and> nr_lifecycle_state current = ''active'')
         Conflict) (\<lambda>_.
       rbind (new_parent_admissible v namespace_id new_parent d) (\<lambda>_.
       rbind (decrypt_record v (nr_metadata current) object_kind.NamespaceMetadata WrappedNamespaceMetadataKey
         namespace_id (nr_metadata_version current)) (\<lambda>plaintext.
       rbind (decode_metadata plaintext 1) (\<lambda>md.
       rbind (map_err map_crypto (exact_name_index (vt_lib v) (vt_blind_index_key v)
         (index_scope v new_parent) (md_name md))) (\<lambda>name_index.
       rbind (ok_or Conflict (checked_add_u64 expected_revision 1)) (\<lambda>next_revision.
       rbind (namespace_state_commitment v namespace_id new_parent name_index ''active'' next_revision
         (nr_metadata_version current)) (\<lambda>commitment.
       rbind (build_audit v ev ''namespace:move'' ''namespace'' (Some namespace_id) oper d) (\<lambda>audit.
       Inr (\<lparr>nm_namespace_id = namespace_id, nm_expected_revision = expected_revision,
             nm_new_parent = new_parent, nm_new_name_index = name_index,
             nm_next_state_commitment = commitment, nm_updated_at = oc_now oper\<rparr>, audit))))))))))))
     (\<lambda>(m, audit). storing map_storage (\<lambda>revision. revision) (move_namespace m audit))"

section \<open>Secrets\<close>

definition create_secret_with_id_and_schedule :: "vault \<Rightarrow> entropy \<Rightarrow> entropy \<Rightarrow> uuid \<Rightarrow> uuid \<Rightarrow> uuid \<Rightarrow>
    metadata \<Rightarrow> bytes \<Rightarrow> secret_schedule \<Rightarrow> vault_operation_context \<Rightarrow> db \<Rightarrow>
    (vault_error + secret_created) \<times> db" where
  "create_secret_with_id_and_schedule v ent_meta ent ev secret_id namespace_id md payload schedule oper =
     reading (\<lambda>d.
       rbind (validate_metadata md) (\<lambda>_.
       rbind (validate_secret payload) (\<lambda>_.
       rbind (ensure (schedule_is_valid schedule) InvalidInput) (\<lambda>_.
       rbind (map_err map_crypto (exact_name_index (vt_lib v) (vt_blind_index_key v) namespace_id
         (md_name md))) (\<lambda>name_index.
       rbind (encode_metadata md 2) (\<lambda>plaintext.
       rbind (encrypt_record v ent_meta plaintext object_kind.SecretMetadata WrappedMetadataKey secret_id 1)
         (\<lambda>encrypted_metadata.
       rbind (encrypt_record v ent payload SecretVersion WrappedDataKey secret_id 1) (\<lambda>encrypted_payload.
       rbind (secret_state_commitment v secret_id namespace_id name_index ''active'' 1 1 1 schedule)
         (\<lambda>commitment.
       rbind (build_audit v ev ''secret:create'' ''secret'' (Some secret_id) oper d) (\<lambda>audit.
       Inr (\<lparr>si_secret_id = secret_id, si_namespace_id = namespace_id, si_name_index = name_index,
             si_metadata = encrypted_metadata, si_payload = encrypted_payload, si_schedule = schedule,
             si_state_commitment = commitment, si_created_by = oc_actor oper,
             si_created_at = oc_now oper\<rparr>, audit)))))))))))
     (\<lambda>(insert, audit). storing map_storage (\<lambda>_. \<lparr>cr_secret_id = secret_id, cr_version = 1, cr_revision = 1\<rparr>)
        (create_secret insert audit))"

text \<open>The retry loop of an update: one event per attempt; an audit conflict is retried while the
  secret itself has not moved.\<close>

fun update_attempts :: "vault \<Rightarrow> uuid list \<Rightarrow> secret_version_insert \<Rightarrow> vault_operation_context \<Rightarrow> db \<Rightarrow>
    (vault_error + nat) \<times> db" where
  "update_attempts v [] ins oper d = (Inl Conflict, d)"
| "update_attempts v (ev # evs) ins oper d =
     (case build_audit v ev ''secret:update'' ''secret'' (Some (sv_secret_id ins)) oper d of
        Inl e \<Rightarrow> (Inl e, d)
      | Inr audit \<Rightarrow>
          (case append_secret_version ins audit d of
             (Inr version, d') \<Rightarrow> (Inr version, d')
           | (Inl e, d') \<Rightarrow>
               if e = storage_error.Conflict
               then (case map_err map_storage (secret (sv_secret_id ins) d') of
                       Inl e' \<Rightarrow> (Inl e', d')
                     | Inr current \<Rightarrow>
                         if sr_current_version current \<noteq> sv_expected_current_version ins \<or>
                            sr_revision current \<noteq> sv_expected_revision ins
                         then (Inl Conflict, d') else update_attempts v evs ins oper d')
               else (Inl (map_storage e), d')))"

definition update_secret_with_schedule :: "vault \<Rightarrow> entropy \<Rightarrow> uuid \<Rightarrow> uuid \<Rightarrow> uuid \<Rightarrow> nat \<Rightarrow> nat \<Rightarrow> bytes \<Rightarrow>
    secret_schedule \<Rightarrow> vault_operation_context \<Rightarrow> db \<Rightarrow> (vault_error + nat) \<times> db" where
  "update_secret_with_schedule v ent ev1 ev2 secret_id expected_version expected_revision payload schedule oper =
     reading (\<lambda>d.
       rbind (validate_secret payload) (\<lambda>_.
       rbind (ensure (schedule_is_valid schedule) InvalidInput) (\<lambda>_.
       rbind (ok_or Conflict (checked_add_u64 expected_version 1)) (\<lambda>next_version.
       rbind (map_err map_storage (secret secret_id d)) (\<lambda>current.
       rbind (verify_secret_state v current) (\<lambda>_.
       rbind (ensure (sr_current_version current = expected_version \<and> sr_revision current = expected_revision \<and>
          sr_lifecycle_state current = ''active'') Conflict) (\<lambda>_.
       rbind (ok_or Conflict (checked_add_u64 expected_revision 1)) (\<lambda>next_revision.
       rbind (secret_state_commitment v secret_id (sr_namespace_id current) (sr_name_index current)
          ''active'' next_version next_revision (sr_metadata_version current) schedule) (\<lambda>commitment.
       rbind (encrypt_record v ent payload SecretVersion WrappedDataKey secret_id next_version) (\<lambda>encrypted.
       Inr \<lparr>sv_secret_id = secret_id, sv_expected_current_version = expected_version,
            sv_expected_revision = expected_revision, sv_payload = encrypted, sv_schedule = schedule,
            sv_next_state_commitment = commitment, sv_created_by = oc_actor oper,
            sv_created_at = oc_now oper\<rparr>))))))))))
     (\<lambda>ins. update_attempts v [ev1, ev2] ins oper)"

definition reveal_current_secret :: "vault \<Rightarrow> uuid \<Rightarrow> uuid \<Rightarrow> vault_operation_context \<Rightarrow> db \<Rightarrow>
    (vault_error + bytes) \<times> db" where
  "reveal_current_secret v ev secret_id oper =
     reading (\<lambda>d.
       rbind (map_err map_storage (secret secret_id d)) (\<lambda>state.
       rbind (verify_secret_state v state) (\<lambda>_.
       rbind (ensure (sr_lifecycle_state state = ''active'') NotFound) (\<lambda>_.
       rbind (map_err map_storage (encrypted_secret_version secret_id (sr_current_version state) d)) (\<lambda>encrypted.
       rbind (decrypt_record v encrypted SecretVersion WrappedDataKey secret_id (sr_current_version state)) (\<lambda>plaintext.
       rbind (build_audit v ev ''secret:value-read'' ''secret'' (Some secret_id) oper d) (\<lambda>audit.
       Inr (plaintext, audit))))))))
     (\<lambda>(plaintext, audit). storing map_storage (\<lambda>_. plaintext) (append_audit audit))"

definition secret_version_history :: "vault \<Rightarrow> uuid \<Rightarrow> nat \<Rightarrow> nat \<Rightarrow> db \<Rightarrow>
    vault_error + secret_version_summary list" where
  "secret_version_history v secret_id after_version limit d =
     rbind (ensure (1 \<le> limit \<and> limit \<le> 100) InvalidInput) (\<lambda>_.
     rbind (map_err map_storage (secret secret_id d)) (\<lambda>state.
     rbind (verify_secret_state v state) (\<lambda>_.
     rbind (ensure (sr_lifecycle_state state \<noteq> ''deleted'') NotFound) (\<lambda>_.
     rbind (map_err map_storage (secret_versions_after secret_id after_version limit d)) (\<lambda>records.
     Inr (map (\<lambda>r. \<lparr>vs_version = vr_version r, vs_schedule = vr_schedule r,
       vs_created_by = vr_created_by r, vs_created_at = vr_created_at r\<rparr>) records))))))"

definition reveal_secret_version :: "vault \<Rightarrow> uuid \<Rightarrow> uuid \<Rightarrow> nat \<Rightarrow> vault_operation_context \<Rightarrow> db \<Rightarrow>
    (vault_error + bytes) \<times> db" where
  "reveal_secret_version v ev secret_id version oper =
     reading (\<lambda>d.
       rbind (ensure (version \<noteq> 0) InvalidInput) (\<lambda>_.
       rbind (map_err map_storage (secret secret_id d)) (\<lambda>state.
       rbind (verify_secret_state v state) (\<lambda>_.
       rbind (ensure (\<not> (sr_lifecycle_state state = ''deleted'' \<or> sr_current_version state < version)) NotFound) (\<lambda>_.
       rbind (map_err map_storage (encrypted_secret_version secret_id version d)) (\<lambda>encrypted.
       rbind (decrypt_record v encrypted SecretVersion WrappedDataKey secret_id version) (\<lambda>plaintext.
       rbind (build_audit v ev ''secret:version-read'' ''secret'' (Some secret_id) oper d) (\<lambda>audit.
       Inr (plaintext, audit)))))))))
     (\<lambda>(plaintext, audit). storing map_storage (\<lambda>_. plaintext) (append_audit audit))"

definition find_secret_by_exact_name :: "vault \<Rightarrow> uuid \<Rightarrow> bytes \<Rightarrow> db \<Rightarrow> vault_error + uuid" where
  "find_secret_by_exact_name v namespace_id name d =
     rbind (map_err map_crypto (exact_name_index (vt_lib v) (vt_blind_index_key v) namespace_id name)) (\<lambda>index.
     rbind (map_err map_storage (secret_by_name_index namespace_id index d)) (\<lambda>found.
     rbind (ok_or NotFound found) (\<lambda>candidate.
     rbind (verify_secret_state v candidate) (\<lambda>_.
     rbind (ensure (sr_lifecycle_state candidate = ''active'') NotFound) (\<lambda>_.
     rbind (decrypt_metadata v candidate) (\<lambda>md.
     rbind (ensure (nfc (vt_lib v) name = nfc (vt_lib v) (md_name md)) NotFound) (\<lambda>_.
     Inr (sr_secret_id candidate))))))))"

definition read_secret_metadata :: "vault \<Rightarrow> uuid \<Rightarrow> db \<Rightarrow> vault_error + metadata" where
  "read_secret_metadata v secret_id d =
     rbind (map_err map_storage (secret secret_id d)) (\<lambda>candidate.
     rbind (verify_secret_state v candidate) (\<lambda>_.
     rbind (ensure (sr_lifecycle_state candidate = ''active'') NotFound) (\<lambda>_.
     decrypt_metadata v candidate)))"

definition namespace_item :: "vault \<Rightarrow> namespace_record \<Rightarrow> vault_error + namespace_list_item" where
  "namespace_item v r =
     rbind (verify_namespace_state v r) (\<lambda>_.
     rbind (decrypt_record v (nr_metadata r) object_kind.NamespaceMetadata WrappedNamespaceMetadataKey
       (nr_namespace_id r) (nr_metadata_version r)) (\<lambda>plaintext.
     rbind (decode_metadata plaintext 1) (\<lambda>md.
     Inr \<lparr>nl_namespace_id = nr_namespace_id r, nl_metadata = md, nl_revision = nr_revision r\<rparr>)))"

definition list_namespaces :: "vault \<Rightarrow> uuid option \<Rightarrow> uuid option \<Rightarrow> nat \<Rightarrow> db \<Rightarrow>
    vault_error + namespace_list_item list" where
  "list_namespaces v parent after limit d =
     rbind (ensure (1 \<le> limit \<and> limit \<le> 100) InvalidInput) (\<lambda>_.
     rbind (map_err map_storage (namespaces_after parent after limit d)) (\<lambda>records.
     traverse (namespace_item v) records))"

definition secret_item :: "vault \<Rightarrow> secret_record \<Rightarrow> vault_error + secret_list_item" where
  "secret_item v r =
     rbind (verify_secret_state v r) (\<lambda>_.
     rbind (decrypt_metadata v r) (\<lambda>md.
     Inr \<lparr>sl_secret_id = sr_secret_id r, sl_metadata = md, sl_current_version = sr_current_version r,
          sl_revision = sr_revision r, sl_lifecycle_state = sr_lifecycle_state r,
          sl_deleted_at = sr_deleted_at r\<rparr>))"

definition list_secrets_in_lifecycle :: "vault \<Rightarrow> uuid \<Rightarrow> string \<Rightarrow> uuid option \<Rightarrow> nat \<Rightarrow> db \<Rightarrow>
    vault_error + secret_list_item list" where
  "list_secrets_in_lifecycle v namespace_id lifecycle after limit d =
     rbind (ensure (1 \<le> limit \<and> limit \<le> 100 \<and> lifecycle \<in> {''active'', ''archived'', ''deleted''})
       InvalidInput) (\<lambda>_.
     rbind (map_err map_storage (namespace namespace_id d)) (\<lambda>ns.
     rbind (verify_namespace_state v ns) (\<lambda>_.
     rbind (ensure (nr_lifecycle_state ns = ''active'') NotFound) (\<lambda>_.
     rbind (map_err map_storage (secrets_in_lifecycle_after namespace_id lifecycle after limit d)) (\<lambda>records.
     traverse (secret_item v) records)))))"

definition list_secrets :: "vault \<Rightarrow> uuid \<Rightarrow> uuid option \<Rightarrow> nat \<Rightarrow> db \<Rightarrow> vault_error + secret_list_item list" where
  "list_secrets v namespace_id after limit d =
     rbind (ensure (1 \<le> limit \<and> limit \<le> 100) InvalidInput) (\<lambda>_.
     rbind (map_err map_storage (namespace namespace_id d)) (\<lambda>ns.
     rbind (verify_namespace_state v ns) (\<lambda>_.
     rbind (ensure (nr_lifecycle_state ns = ''active'') NotFound) (\<lambda>_.
     list_secrets_in_lifecycle v namespace_id ''active'' after limit d))))"

section \<open>Lifecycle\<close>

definition change_lifecycle :: "vault \<Rightarrow> uuid \<Rightarrow> uuid \<Rightarrow> nat \<Rightarrow> string \<Rightarrow> string \<Rightarrow> string \<Rightarrow>
    vault_operation_context \<Rightarrow> db \<Rightarrow> (vault_error + nat) \<times> db" where
  "change_lifecycle v ev secret_id expected_revision from_state to_state act oper =
     reading (\<lambda>d.
       rbind (map_err map_storage (secret secret_id d)) (\<lambda>current.
       rbind (verify_secret_state v current) (\<lambda>_.
       rbind (ensure (sr_revision current = expected_revision \<and> sr_lifecycle_state current = from_state)
         Conflict) (\<lambda>_.
       rbind (ok_or Conflict (checked_add_u64 expected_revision 1)) (\<lambda>next_revision.
       rbind (secret_state_commitment v secret_id (sr_namespace_id current) (sr_name_index current)
         to_state (sr_current_version current) next_revision (sr_metadata_version current)
         (sr_schedule current)) (\<lambda>commitment.
       rbind (build_audit v ev act ''secret'' (Some secret_id) oper d) (\<lambda>audit.
       Inr (\<lparr>lc_secret_id = secret_id, lc_expected_revision = expected_revision,
             lc_from_state = from_state, lc_to_state = to_state, lc_changed_at = oc_now oper,
             lc_next_state_commitment = commitment\<rparr>, audit))))))))
     (\<lambda>(c, audit). storing map_storage (\<lambda>revision. revision) (change_secret_lifecycle c audit))"

definition archive_secret :: "vault \<Rightarrow> uuid \<Rightarrow> uuid \<Rightarrow> nat \<Rightarrow> vault_operation_context \<Rightarrow> db \<Rightarrow>
    (vault_error + nat) \<times> db" where
  "archive_secret v ev secret_id expected_revision =
     change_lifecycle v ev secret_id expected_revision ''active'' ''archived'' ''secret:archive''"

definition restore_archived_secret :: "vault \<Rightarrow> uuid \<Rightarrow> uuid \<Rightarrow> nat \<Rightarrow> vault_operation_context \<Rightarrow> db \<Rightarrow>
    (vault_error + nat) \<times> db" where
  "restore_archived_secret v ev secret_id expected_revision =
     change_lifecycle v ev secret_id expected_revision ''archived'' ''active'' ''secret:restore''"

definition delete_secret :: "vault \<Rightarrow> uuid \<Rightarrow> uuid \<Rightarrow> nat \<Rightarrow> vault_operation_context \<Rightarrow> db \<Rightarrow>
    (vault_error + nat) \<times> db" where
  "delete_secret v ev secret_id expected_revision =
     change_lifecycle v ev secret_id expected_revision ''active'' ''deleted'' ''secret:delete''"

definition purge_secret_after_owner_approval :: "vault \<Rightarrow> uuid \<Rightarrow> uuid \<Rightarrow> nat \<Rightarrow> owner_purge_approval \<Rightarrow>
    vault_operation_context \<Rightarrow> db \<Rightarrow> (vault_error + unit) \<times> db" where
  "purge_secret_after_owner_approval v ev secret_id expected_revision approval oper =
     reading (\<lambda>d.
       rbind (map_err map_storage (secret secret_id d)) (\<lambda>current.
       rbind (verify_secret_state v current) (\<lambda>_.
       rbind (ensure (sr_revision current = expected_revision \<and> sr_lifecycle_state current = ''deleted'')
         Conflict) (\<lambda>_.
       rbind (build_audit v ev ''secret:purge'' ''secret'' (Some secret_id) oper d) (\<lambda>audit.
       Inr (\<lparr>sp_secret_id = secret_id, sp_expected_revision = expected_revision,
             sp_retention_cutoff = pa_retention_cutoff approval, sp_purged_at = oc_now oper\<rparr>, audit))))))
     (\<lambda>(p, audit). storing map_storage (\<lambda>u. u) (purge_secret p audit))"

section \<open>The operations keep the contract\<close>

interpretation disclose: audited_operation "\<lambda>(_::bytes). append_audit"
  using append.failure_unchanged append.success_appended by unfold_locales

interpretation vault_create_ns: vault_operation
  "\<lambda>v (ent, ev, i, parent, md, oper). create_namespace_with_id v ent ev i parent md oper"
  "''namespace:create''" "''namespace''" "\<lambda>(ent, ev, i, parent, md, oper). Some i"
  "\<lambda>(ent, ev, i, parent, md, oper). oper"
proof (unfold_locales, goal_cases)
  case (1 v i d e d')
  then show ?case unfolding create_namespace_with_id_def
    by (auto split: prod.splits dest: create_ns.framed_failure)
next
  case (2 v i d x d')
  then show ?case unfolding create_namespace_with_id_def
    by (auto split: prod.splits elim!: create_ns.framed_success simp: result_simps dest: build_audit_attributed)
qed

interpretation vault_move_ns: vault_operation
  "\<lambda>v (ev, i, rev, parent, oper). move_namespace_core v ev i rev parent oper"
  "''namespace:move''" "''namespace''" "\<lambda>(ev, i, rev, parent, oper). Some i"
  "\<lambda>(ev, i, rev, parent, oper). oper"
proof (unfold_locales, goal_cases)
  case (1 v i d e d')
  then show ?case unfolding move_namespace_core_def
    by (auto split: prod.splits dest: move_ns.framed_failure)
next
  case (2 v i d x d')
  then show ?case unfolding move_namespace_core_def
    by (auto split: prod.splits elim!: move_ns.framed_success simp: result_simps dest: build_audit_attributed)
qed

interpretation vault_create_secret: vault_operation
  "\<lambda>v (em, ent, ev, i, ns, md, p, sch, oper). create_secret_with_id_and_schedule v em ent ev i ns md p sch oper"
  "''secret:create''" "''secret''" "\<lambda>(em, ent, ev, i, ns, md, p, sch, oper). Some i"
  "\<lambda>(em, ent, ev, i, ns, md, p, sch, oper). oper"
proof (unfold_locales, goal_cases)
  case (1 v i d e d')
  then show ?case unfolding create_secret_with_id_and_schedule_def
    by (auto split: prod.splits dest: create_sec.framed_failure)
next
  case (2 v i d x d')
  then show ?case unfolding create_secret_with_id_and_schedule_def
    by (auto split: prod.splits elim!: create_sec.framed_success simp: result_simps dest: build_audit_attributed)
qed

lemma update_attempts_failure: "update_attempts v evs ins oper d = (Inl e, d') \<Longrightarrow> d' = d"
proof (induction evs arbitrary: d)
  case (Cons ev evs)
  then show ?case
    by (auto split: sum.splits prod.splits if_splits dest: append_ver.failure_unchanged)
qed simp

lemma update_attempts_success:
  assumes "update_attempts v evs ins oper d = (Inr x, d')"
  shows "\<exists>a. attributed v ''secret:update'' ''secret'' (Some (sv_secret_id ins)) ''allowed'' oper a \<and>
    append_secret_version ins a d = (Inr x, d')"
  using assms
proof (induction evs arbitrary: d)
  case (Cons ev evs)
  show ?case
  proof (cases "build_audit v ev ''secret:update'' ''secret'' (Some (sv_secret_id ins)) oper d")
    case (Inl e)
    then show ?thesis using Cons.prems by simp
  next
    case (Inr a)
    note attr = build_audit_attributed [OF Inr]
    obtain r d1 where r: "append_secret_version ins a d = (r, d1)" by fastforce
    show ?thesis
    proof (cases r)
      case (Inl e)
      then have "d1 = d" using r append_ver.failure_unchanged by blast
      then have "update_attempts v evs ins oper d = (Inr x, d')"
        using Cons.prems Inr r Inl by (auto split: if_splits sum.splits)
      then show ?thesis by (rule Cons.IH)
    next
      case (Inr y)
      then show ?thesis using Cons.prems r attr \<open>build_audit _ _ _ _ _ _ _ = Inr a\<close> by auto
    qed
  qed
qed simp

interpretation vault_update_secret: vault_operation
  "\<lambda>v (ent, ev1, ev2, i, n, rev, p, sch, oper). update_secret_with_schedule v ent ev1 ev2 i n rev p sch oper"
  "''secret:update''" "''secret''" "\<lambda>(ent, ev1, ev2, i, n, rev, p, sch, oper). Some i"
  "\<lambda>(ent, ev1, ev2, i, n, rev, p, sch, oper). oper"
proof (unfold_locales, goal_cases)
  case (1 v i d e d')
  then show ?case unfolding update_secret_with_schedule_def
    by (auto split: prod.splits simp: reading_Inl simp del: update_attempts.simps dest: update_attempts_failure)
next
  case (2 v i d x d')
  then show ?case unfolding update_secret_with_schedule_def
    by (auto split: prod.splits simp: reading_Inr result_simps simp del: update_attempts.simps
        dest!: update_attempts_success dest: append_ver.success_appended)
qed

interpretation vault_reveal: vault_operation
  "\<lambda>v (ev, i, oper). reveal_current_secret v ev i oper"
  "''secret:value-read''" "''secret''" "\<lambda>(ev, i, oper). Some i" "\<lambda>(ev, i, oper). oper"
proof (unfold_locales, goal_cases)
  case (1 v i d e d')
  then show ?case unfolding reveal_current_secret_def
    by (auto split: prod.splits dest: disclose.framed_failure)
next
  case (2 v i d x d')
  then show ?case unfolding reveal_current_secret_def
    by (auto split: prod.splits elim!: disclose.framed_success simp: result_simps dest: build_audit_attributed)
qed

interpretation vault_reveal_version: vault_operation
  "\<lambda>v (ev, i, n, oper). reveal_secret_version v ev i n oper"
  "''secret:version-read''" "''secret''" "\<lambda>(ev, i, n, oper). Some i" "\<lambda>(ev, i, n, oper). oper"
proof (unfold_locales, goal_cases)
  case (1 v i d e d')
  then show ?case unfolding reveal_secret_version_def
    by (auto split: prod.splits dest: disclose.framed_failure)
next
  case (2 v i d x d')
  then show ?case unfolding reveal_secret_version_def
    by (auto split: prod.splits elim!: disclose.framed_success simp: result_simps dest: build_audit_attributed)
qed

lemma change_lifecycle_failure: "change_lifecycle v ev i expected from_st to_st act oper d = (Inl e, d') \<Longrightarrow> d' = d"
  unfolding change_lifecycle_def by (rule lifecycle.framed_failure)

lemma change_lifecycle_success:
  "change_lifecycle v ev i expected from_st to_st act oper d = (Inr x, d') \<Longrightarrow>
   \<exists>a. audit_appended a d d' \<and> attributed v act ''secret'' (Some i) ''allowed'' oper a"
  unfolding change_lifecycle_def
  by (erule lifecycle.framed_success) (auto simp: result_simps dest: build_audit_attributed)

interpretation vault_archive: vault_operation "\<lambda>v (ev, i, rev, oper). archive_secret v ev i rev oper"
  "''secret:archive''" "''secret''" "\<lambda>(ev, i, rev, oper). Some i" "\<lambda>(ev, i, rev, oper). oper"
  by unfold_locales
     (auto simp: archive_secret_def dest: change_lifecycle_failure change_lifecycle_success)

interpretation vault_restore: vault_operation "\<lambda>v (ev, i, rev, oper). restore_archived_secret v ev i rev oper"
  "''secret:restore''" "''secret''" "\<lambda>(ev, i, rev, oper). Some i" "\<lambda>(ev, i, rev, oper). oper"
  by unfold_locales
     (auto simp: restore_archived_secret_def dest: change_lifecycle_failure change_lifecycle_success)

interpretation vault_delete: vault_operation "\<lambda>v (ev, i, rev, oper). delete_secret v ev i rev oper"
  "''secret:delete''" "''secret''" "\<lambda>(ev, i, rev, oper). Some i" "\<lambda>(ev, i, rev, oper). oper"
  by unfold_locales
     (auto simp: delete_secret_def dest: change_lifecycle_failure change_lifecycle_success)

interpretation vault_purge: vault_operation
  "\<lambda>v (ev, i, rev, approval, oper). purge_secret_after_owner_approval v ev i rev approval oper"
  "''secret:purge''" "''secret''" "\<lambda>(ev, i, rev, approval, oper). Some i"
  "\<lambda>(ev, i, rev, approval, oper). oper"
proof (unfold_locales, goal_cases)
  case (1 v i d e d')
  then show ?case unfolding purge_secret_after_owner_approval_def
    by (auto split: prod.splits dest: purge.framed_failure)
next
  case (2 v i d x d')
  then show ?case unfolding purge_secret_after_owner_approval_def
    by (auto split: prod.splits elim!: purge.framed_success simp: result_simps dest: build_audit_attributed)
qed

end
