(* ===== verification/App_Refinement.thy ===== *)
theory App_Refinement
  imports App_Records
begin

text \<open>
  What the vault means: a map from secret and version to plaintext.  \<open>vault_values\<close> reads it out
  of the encrypted tables; the abstract operations act on that map; each application operation
  refines its abstract one, and a disclosure returns what the map holds.
\<close>

section \<open>The abstract vault\<close>

type_synonym value_map = "uuid \<times> nat \<rightharpoonup> bytes"

definition forget :: "uuid \<Rightarrow> value_map \<Rightarrow> value_map" where
  "forget i m = (\<lambda>(j, n). if j = i then None else m (j, n))"

definition version_value :: "vault \<Rightarrow> version_row \<Rightarrow> bytes option" where
  "version_value v r =
     (case parse_encrypted (v_payload r) of
        Inl _ \<Rightarrow> None
      | Inr e \<Rightarrow>
          (case decrypt_record v e SecretVersion WrappedDataKey (v_secret_id r) (nat (v_version r)) of
             Inl _ \<Rightarrow> None | Inr p \<Rightarrow> Some p))"

definition vault_values :: "vault \<Rightarrow> db \<Rightarrow> value_map" where
  "vault_values v d = (\<lambda>(i, n). Option.bind (version_row_at i (int n) d) (version_value v))"

text \<open>What the types of the loaded vault guarantee of its key ring, and of a draw of entropy.\<close>

definition ring_ok :: "vault \<Rightarrow> bool" where
  "ring_ok v = is_none_or (\<lambda>r. kr_active_version r \<le> u32_max) (vt_key_ring v)"

definition entropy_ok :: "entropy \<Rightarrow> bool" where
  "entropy_ok ent = is_none_or (\<lambda>dek. length dek = 32) (en_dek ent)"

lemma encrypted_value:
  assumes "aead_correct (vt_lib v)" "ring_ok v" "entropy_ok ent"
    and "encrypt_record v ent p SecretVersion WrappedDataKey i n = Inr e"
    and "version_check r" "v_payload r = enc_cols_of e" "v_secret_id r = i" "v_version r = int n"
  shows "version_value v r = Some p"
proof -
  have "er_kek_version e \<le> u32_max"
    using assms(2,4) by (auto simp: encrypt_record_def result_simps ring_ok_def is_none_or_def)
  then have "parse_encrypted (v_payload r) = Inr e"
    using assms(5,6) parse_encrypted_of [of 16777216 e] by (simp add: version_check_def)
  moreover have "decrypt_record v e SecretVersion WrappedDataKey i n = Inr p"
    using assms(1,3,4) by (intro decrypt_encrypt_record) (auto simp: entropy_ok_def is_none_or_def split: option.splits)
  ultimately show ?thesis using assms(7,8) by (simp add: version_value_def)
qed

lemma values_same: "secret_versions d' = secret_versions d \<Longrightarrow> vault_values v d' = vault_values v d"
  by (simp add: vault_values_def version_row_at_def)

lemma values_insert:
  assumes "secret_versions d' = tbl_insert r (secret_versions d)" "versions_unique (secret_versions d')"
    and "v_version r = int n"
  shows "vault_values v d' = (vault_values v d)((v_secret_id r, n) := version_value v r)"
proof (rule ext, clarify)
  fix i m
  have fresh: "version_row_at (v_secret_id r) (v_version r) d = None"
    using assms(1,2) by (auto simp: version_row_at_def versions_unique_def)
  have find: "version_row_at i (int m) d' = (case version_row_at i (int m) d of Some q \<Rightarrow> Some q
      | None \<Rightarrow> if (v_secret_id r, v_version r) = (i, int m) then Some r else None)"
    unfolding version_row_at_def assms(1) tbl_find_insert by (rule refl)
  show "vault_values v d' (i, m) = ((vault_values v d)((v_secret_id r, n) := version_value v r)) (i, m)"
  proof (cases "(i, m) = (v_secret_id r, n)")
    case True
    then show ?thesis using find fresh assms(3) by (simp add: vault_values_def)
  next
    case False
    then show ?thesis using find assms(3) by (auto simp: vault_values_def split: option.splits)
  qed
qed

lemma values_delete:
  assumes "secret_versions d' = tbl_delete (\<lambda>r. v_secret_id r = i) (secret_versions d)"
  shows "vault_values v d' = forget i (vault_values v d)"
proof (rule ext, clarify)
  fix j m
  show "vault_values v d' (j, m) = forget i (vault_values v d) (j, m)"
  proof (cases "j = i")
    case True
    then have "version_row_at j (int m) d' = None" by (auto simp: version_row_at_def assms)
    then show ?thesis using True by (simp add: vault_values_def forget_def)
  next
    case False
    then have "version_row_at j (int m) d' = version_row_at j (int m) d"
      unfolding version_row_at_def assms by (intro tbl_find_delete) auto
    then show ?thesis using False by (simp add: vault_values_def forget_def)
  qed
qed

lemma values_logged [simp]: "vault_values v (logged a d) = vault_values v d"
  by (rule values_same) simp

section \<open>What the operations hand to the store\<close>

lemma create_namespace_with_id_Inr:
  assumes "create_namespace_with_id v ent ev i parent md oper d = (Inr x, d')"
  shows "x = i \<and> (\<exists>idx e c a. namespace_state_commitment v i parent idx ''active'' 1 1 = Inr c \<and>
    create_namespace \<lparr>ni_namespace_id = i, ni_parent = parent, ni_name_index = idx,
      ni_metadata = e, ni_state_commitment = c, ni_created_at = oc_now oper\<rparr> a d = (Inr (), d'))"
  using assms unfolding create_namespace_with_id_def by (auto simp: reading_Inr storing_Inr result_simps)

lemma move_namespace_core_Inr:
  assumes "move_namespace_core v ev i n parent oper d = (Inr x, d')"
  shows "\<exists>cur idx c a. namespace i d = Inr cur \<and> nr_revision cur = n \<and>
    namespace_state_commitment v i parent idx ''active'' (n + 1) (nr_metadata_version cur) = Inr c \<and>
    move_namespace \<lparr>nm_namespace_id = i, nm_expected_revision = n, nm_new_parent = parent,
      nm_new_name_index = idx, nm_next_state_commitment = c, nm_updated_at = oc_now oper\<rparr> a d = (Inr x, d')"
  using assms unfolding move_namespace_core_def by (auto simp: reading_Inr storing_Inr result_simps)

lemma create_secret_with_id_and_schedule_Inr:
  assumes "create_secret_with_id_and_schedule v em ent ev i ns md p sch oper d = (Inr x, d')"
  shows "\<exists>idx m e c a. encrypt_record v ent p SecretVersion WrappedDataKey i 1 = Inr e \<and>
    secret_state_commitment v i ns idx ''active'' 1 1 1 sch = Inr c \<and>
    create_secret \<lparr>si_secret_id = i, si_namespace_id = ns, si_name_index = idx, si_metadata = m,
      si_payload = e, si_schedule = sch, si_state_commitment = c, si_created_by = oc_actor oper,
      si_created_at = oc_now oper\<rparr> a d = (Inr (), d')"
  using assms unfolding create_secret_with_id_and_schedule_def
  by (auto simp: reading_Inr storing_Inr result_simps) blast

lemma update_secret_with_schedule_Inr:
  assumes "update_secret_with_schedule v ent ev1 ev2 i n k p sch oper d = (Inr x, d')"
  shows "\<exists>cur e c a. secret i d = Inr cur \<and> sr_current_version cur = n \<and> sr_revision cur = k \<and>
    encrypt_record v ent p SecretVersion WrappedDataKey i (n + 1) = Inr e \<and>
    secret_state_commitment v i (sr_namespace_id cur) (sr_name_index cur) ''active'' (n + 1) (k + 1)
      (sr_metadata_version cur) sch = Inr c \<and>
    append_secret_version \<lparr>sv_secret_id = i, sv_expected_current_version = n, sv_expected_revision = k,
      sv_payload = e, sv_schedule = sch, sv_next_state_commitment = c, sv_created_by = oc_actor oper,
      sv_created_at = oc_now oper\<rparr> a d = (Inr x, d')"
  using assms unfolding update_secret_with_schedule_def
  by (auto simp: reading_Inr result_simps simp del: update_attempts.simps dest!: update_attempts_success)

lemma change_lifecycle_Inr:
  assumes "change_lifecycle v ev i k from_st to_st act oper d = (Inr x, d')"
  shows "\<exists>cur c a. secret i d = Inr cur \<and> sr_revision cur = k \<and>
    secret_state_commitment v i (sr_namespace_id cur) (sr_name_index cur) to_st (sr_current_version cur)
      (k + 1) (sr_metadata_version cur) (sr_schedule cur) = Inr c \<and>
    change_secret_lifecycle \<lparr>lc_secret_id = i, lc_expected_revision = k, lc_from_state = from_st,
      lc_to_state = to_st, lc_changed_at = oc_now oper, lc_next_state_commitment = c\<rparr> a d = (Inr x, d')"
  using assms unfolding change_lifecycle_def by (auto simp: reading_Inr storing_Inr result_simps)

lemma purge_approved_Inr:
  assumes "purge_secret_after_owner_approval v ev i k approval oper d = (Inr x, d')"
  shows "\<exists>a. purge_secret \<lparr>sp_secret_id = i, sp_expected_revision = k,
    sp_retention_cutoff = pa_retention_cutoff approval, sp_purged_at = oc_now oper\<rparr> a d = (Inr (), d')"
  using assms unfolding purge_secret_after_owner_approval_def
  by (auto simp: reading_Inr storing_Inr result_simps)

lemma reveal_current_Inr:
  assumes "reveal_current_secret v ev i oper d = (Inr p, d')"
  shows "\<exists>s e a. secret i d = Inr s \<and> sr_lifecycle_state s = ''active'' \<and>
    encrypted_secret_version i (sr_current_version s) d = Inr e \<and>
    decrypt_record v e SecretVersion WrappedDataKey i (sr_current_version s) = Inr p \<and>
    append_audit a d = (Inr (), d')"
  using assms unfolding reveal_current_secret_def by (auto simp: reading_Inr storing_Inr result_simps)

lemma reveal_version_Inr:
  assumes "reveal_secret_version v ev i n oper d = (Inr p, d')"
  shows "\<exists>e a. encrypted_secret_version i n d = Inr e \<and>
    decrypt_record v e SecretVersion WrappedDataKey i n = Inr p \<and> append_audit a d = (Inr (), d')"
  using assms unfolding reveal_secret_version_def by (auto simp: reading_Inr storing_Inr result_simps)

section \<open>The operations refine it\<close>

lemma create_namespace_values:
  "create_namespace_with_id v ent ev i parent md oper d = (Inr x, d') \<Longrightarrow> vault_values v d' = vault_values v d"
  by (auto dest!: create_namespace_with_id_Inr create_namespace_Inr intro!: values_same)

lemma move_namespace_values:
  "move_namespace_core v ev i n parent oper d = (Inr x, d') \<Longrightarrow> vault_values v d' = vault_values v d"
  by (auto dest!: move_namespace_core_Inr move_namespace_Inr intro!: values_same)

lemma change_lifecycle_values:
  "change_lifecycle v ev i k from_st to_st act oper d = (Inr x, d') \<Longrightarrow> vault_values v d' = vault_values v d"
  by (auto dest!: change_lifecycle_Inr change_secret_lifecycle_Inr intro!: values_same)

lemma purge_values:
  "purge_secret_after_owner_approval v ev i k approval oper d = (Inr x, d') \<Longrightarrow>
   vault_values v d' = forget i (vault_values v d)"
  by (auto dest!: purge_approved_Inr purge_secret_Inr intro!: values_delete)

lemma create_secret_values:
  assumes "aead_correct (vt_lib v)" "ring_ok v" "entropy_ok ent"
    and "create_secret_with_id_and_schedule v em ent ev i ns md p sch oper d = (Inr x, d')"
  shows "vault_values v d' = (vault_values v d)((i, 1) \<mapsto> p)"
proof -
  obtain e r where e: "encrypt_record v ent p SecretVersion WrappedDataKey i 1 = Inr e"
    and r: "secret_versions d' = tbl_insert r (secret_versions d)" "version_check r"
    "versions_unique (secret_versions d')" "v_secret_id r = i" "v_version r = 1" "v_payload r = enc_cols_of e"
    using create_secret_with_id_and_schedule_Inr [OF assms(4)] by (fastforce dest!: create_secret_Inr)
  have "version_value v r = Some p" using assms(1-3) e r by (intro encrypted_value) auto
  then show ?thesis using values_insert [OF r(1,3), of 1 v] r by simp
qed

lemma update_secret_values:
  assumes "aead_correct (vt_lib v)" "ring_ok v" "entropy_ok ent"
    and "update_secret_with_schedule v ent ev1 ev2 i n k p sch oper d = (Inr x, d')"
  shows "x = n + 1 \<and> vault_values v d' = (vault_values v d)((i, n + 1) \<mapsto> p)"
proof -
  obtain e r where e: "encrypt_record v ent p SecretVersion WrappedDataKey i (n + 1) = Inr e"
    and r: "secret_versions d' = tbl_insert r (secret_versions d)" "version_check r"
    "versions_unique (secret_versions d')" "v_secret_id r = i" "v_version r = int (n + 1)"
    "v_payload r = enc_cols_of e" "x = n + 1"
    using update_secret_with_schedule_Inr [OF assms(4)]
    by (fastforce dest!: append_secret_version_Inr simp: appended_version_def)
  have "version_value v r = Some p" using assms(1-3) e r by (intro encrypted_value) auto
  then show ?thesis using values_insert [OF r(1,3), of "n + 1" v] r by simp
qed

text \<open>Disclosures.\<close>

lemma encrypted_version_value:
  assumes "encrypted_secret_version i n d = Inr e"
    and "decrypt_record v e SecretVersion WrappedDataKey i n = Inr p"
  shows "vault_values v d (i, n) = Some p"
proof -
  obtain r where r: "version_row_at i (int n) d = Some r" "parse_encrypted (v_payload r) = Inr e"
    using assms(1) by (auto simp: encrypted_secret_version_def result_simps version_row_at_def)
  then have "v_secret_id r = i" "v_version r = int n" by (auto simp: version_row_at_def dest: tbl_find_Some)
  then show ?thesis using r assms(2) by (simp add: vault_values_def version_value_def)
qed

lemma reveal_current_value:
  assumes "reveal_current_secret v ev i oper d = (Inr p, d')"
  shows "vault_values v d' = vault_values v d \<and>
    (\<exists>s. secret i d = Inr s \<and> sr_lifecycle_state s = ''active'' \<and>
         vault_values v d (i, sr_current_version s) = Some p)"
  using reveal_current_Inr [OF assms] encrypted_version_value by (auto dest!: append_audit_Inr)

lemma reveal_version_value:
  assumes "reveal_secret_version v ev i n oper d = (Inr p, d')"
  shows "vault_values v d' = vault_values v d \<and> vault_values v d (i, n) = Some p"
  using reveal_version_Inr [OF assms] encrypted_version_value by (auto dest!: append_audit_Inr)

end
