(* ===== verification/App_Integrity.thy ===== *)
theory App_Integrity
  imports App_Refinement
begin

text \<open>
  The invariant that makes the integrity checks of the vault pass: every namespace and secret
  row carries the keyed commitment of its own state (\<open>committed\<close>).  Each operation keeps it, so
  a row that fails \<open>verify_secret_state\<close> was not written by this vault.
\<close>

section \<open>Committed rows\<close>

definition secret_committed :: "vault \<Rightarrow> secret_row \<Rightarrow> secret_schedule \<Rightarrow> bool" where
  "secret_committed v row sched =
     (secret_state_commitment v (s_id row) (s_namespace_id row) (s_name_index row) (s_lifecycle row)
        (nat (s_current row)) (nat (s_revision row)) (nat (s_metadata_version row)) sched =
      Inr (s_commitment row))"

definition namespace_committed :: "vault \<Rightarrow> namespace_row \<Rightarrow> bool" where
  "namespace_committed v row =
     (namespace_state_commitment v (n_id row) (n_parent row) (n_name_index row) (n_lifecycle row)
        (nat (n_revision row)) (nat (n_metadata_version row)) = Inr (n_commitment row))"

definition committed :: "vault \<Rightarrow> db \<Rightarrow> bool" where
  "committed v d =
     ((\<forall>row \<in> set (rows (secrets d)). secret_committed v row (schedule_of_current d row)) \<and>
      (\<forall>row \<in> set (rows (namespaces d)). namespace_committed v row))"

lemma secret_found:
  assumes "secret i d = Inr s"
  obtains row where "row \<in> set (rows (secrets d))" "s_id row = i"
    "tbl_find (\<lambda>s. s_id s = i) (secrets d) = Some row"
    "parse_secret i row (schedule_of_current d row) = Inr s"
  using assms by (auto simp: secret_def result_simps dest: tbl_find_Some)

lemma parse_secret_fields:
  assumes "parse_secret i row sched = Inr s"
  shows "sr_secret_id s = i" "sr_namespace_id s = s_namespace_id row" "sr_name_index s = s_name_index row"
    "sr_lifecycle_state s = s_lifecycle row" "nat (s_current row) = sr_current_version s"
    "nat (s_revision row) = sr_revision s" "nat (s_metadata_version row) = sr_metadata_version s"
    "sr_schedule s = sched" "sr_state_commitment s = s_commitment row"
  using assms by (auto simp: parse_secret_def result_simps)

lemma namespace_found:
  assumes "namespace i d = Inr n"
  obtains row where "row \<in> set (rows (namespaces d))" "n_id row = i"
    "tbl_find (\<lambda>n. n_id n = i) (namespaces d) = Some row" "parse_namespace i row = Inr n"
  using assms by (auto simp: namespace_def result_simps dest: tbl_find_Some)

lemma transpose_parse_uuid_Inr: "transpose_map parse_uuid m = Inr m' \<Longrightarrow> m' = m"
  by (cases m) (auto simp: result_simps)

lemma parse_namespace_fields:
  assumes "parse_namespace i row = Inr n"
  shows "nr_namespace_id n = i" "nr_parent n = n_parent row" "nr_name_index n = n_name_index row"
    "nr_lifecycle_state n = n_lifecycle row" "nat (n_revision row) = nr_revision n"
    "nat (n_metadata_version row) = nr_metadata_version n" "nr_state_commitment n = n_commitment row"
  using assms by (auto simp: parse_namespace_def result_simps dest: transpose_parse_uuid_Inr)

text \<open>The checks of the operations succeed on what they read.\<close>

lemma committed_secret_verifies:
  assumes "committed v d" "secret i d = Inr s"
  shows "verify_secret_state v s = Inr ()"
proof -
  obtain row where row: "row \<in> set (rows (secrets d))" "s_id row = i"
      "parse_secret i row (schedule_of_current d row) = Inr s"
    using assms(2) by (rule secret_found)
  note f = parse_secret_fields [OF row(3)]
  have "secret_committed v row (schedule_of_current d row)" using assms(1) row(1) by (simp add: committed_def)
  then show ?thesis
    using f row(2) by (simp add: secret_committed_def verify_secret_state_def result_simps)
qed

lemma committed_namespace_verifies:
  assumes "committed v d" "namespace i d = Inr n"
  shows "verify_namespace_state v n = Inr ()"
proof -
  obtain row where row: "row \<in> set (rows (namespaces d))" "n_id row = i" "parse_namespace i row = Inr n"
    using assms(2) by (rule namespace_found)
  note f = parse_namespace_fields [OF row(3)]
  have "namespace_committed v row" using assms(1) row(1) by (simp add: committed_def)
  then show ?thesis
    using f row(2) by (simp add: namespace_committed_def verify_namespace_state_def result_simps)
qed

section \<open>The operations commit\<close>

lemma schedule_alt:
  "schedule_of_current d s = (case version_row_at (s_id s) (s_current s) d of
      None \<Rightarrow> \<lparr>expires_at = None, rotation_due_at = None\<rparr>
    | Some v \<Rightarrow> \<lparr>expires_at = v_expires v, rotation_due_at = v_rotation v\<rparr>)"
  by (simp add: schedule_of_current_def version_row_at_def)

lemma version_row_at_insert_other:
  "secret_versions d' = tbl_insert r (secret_versions d) \<Longrightarrow> i \<noteq> v_secret_id r \<Longrightarrow>
   version_row_at i n d' = version_row_at i n d"
  by (auto simp: version_row_at_def tbl_find_insert split: option.splits simp del: tbl_find_None)

lemma schedule_insert_other:
  "secret_versions d' = tbl_insert r (secret_versions d) \<Longrightarrow> s_id s \<noteq> v_secret_id r \<Longrightarrow>
   schedule_of_current d' s = schedule_of_current d s"
  by (simp add: schedule_alt version_row_at_insert_other)

lemma schedule_inserted:
  assumes "secret_versions d' = tbl_insert r (secret_versions d)" "versions_unique (secret_versions d')"
    and "s_id s = v_secret_id r" "s_current s = v_version r"
  shows "schedule_of_current d' s = \<lparr>expires_at = v_expires r, rotation_due_at = v_rotation r\<rparr>"
  using version_row_at_unique [OF assms(2), of r] assms by (simp add: schedule_alt)

lemma schedule_same:
  "secret_versions d' = secret_versions d \<Longrightarrow> schedule_of_current d' s = schedule_of_current d s"
  by (simp add: schedule_of_current_def)

lemma committed_same:
  "committed v d \<Longrightarrow> secrets d' = secrets d \<Longrightarrow> secret_versions d' = secret_versions d \<Longrightarrow>
   namespaces d' = namespaces d \<Longrightarrow> committed v d'"
  by (simp add: committed_def schedule_of_current_def)

lemma create_namespace_committed:
  assumes "committed v d" "create_namespace_with_id v ent ev i parent md oper d = (Inr x, d')"
  shows "committed v d'"
proof -
  obtain idx e c a where n: "namespace_state_commitment v i parent idx ''active'' 1 1 = Inr c"
      "create_namespace \<lparr>ni_namespace_id = i, ni_parent = parent, ni_name_index = idx,
        ni_metadata = e, ni_state_commitment = c, ni_created_at = oc_now oper\<rparr> a d = (Inr (), d')"
    (is "create_namespace ?n a d = _")
    using create_namespace_with_id_Inr [OF assms(2)] by blast
  have d': "d' = logged a (d\<lparr>namespaces := tbl_insert (namespace_row_of ?n) (namespaces d)\<rparr>)"
    using create_namespace_Inr [OF n(2)] by blast
  have "namespace_committed v (namespace_row_of ?n)"
    using n(1) by (simp add: namespace_committed_def namespace_row_of_def)
  then show ?thesis using assms(1) by (simp add: d' committed_def schedule_of_current_def)
qed

lemma move_namespace_committed:
  assumes "committed v d" "move_namespace_core v ev i n parent oper d = (Inr x, d')"
  shows "committed v d'"
proof -
  obtain cur idx c a where m: "namespace i d = Inr cur" "nr_revision cur = n"
      "namespace_state_commitment v i parent idx ''active'' (n + 1) (nr_metadata_version cur) = Inr c"
      "move_namespace \<lparr>nm_namespace_id = i, nm_expected_revision = n, nm_new_parent = parent,
        nm_new_name_index = idx, nm_next_state_commitment = c, nm_updated_at = oc_now oper\<rparr> a d = (Inr x, d')"
    (is "move_namespace ?m a d = _")
    using move_namespace_core_Inr [OF assms(2)] by blast
  note eff = move_namespace_Inr [OF m(4)]
  have t: "namespaces d' = tbl_update (move_where ?m) (move_set ?m) (namespaces d)" using eff by simp
  have "unique_key n_id (namespaces d)"
    using eff unfolding t namespaces_unique_def
    by (subst (asm) unique_key_update_iff) (auto simp: move_set_def)
  moreover obtain row where row: "row \<in> set (rows (namespaces d))" "n_id row = i" "parse_namespace i row = Inr cur"
    using m(1) by (rule namespace_found)
  ultimately have only: "r = row" if "r \<in> set (rows (namespaces d))" "move_where ?m r" for r
    using that by (auto simp: move_where_def dest: unique_key_eq)
  have "nat (n_metadata_version row) = nr_metadata_version cur"
    by (rule parse_namespace_fields(6) [OF row(3)])
  then have new: "namespace_committed v (move_set ?m row)" if "move_where ?m row"
    using m(3) row(2) that by (simp add: namespace_committed_def move_set_def move_where_def nat_add_distrib)
  have "namespace_committed v r" if "r \<in> set (rows (namespaces d'))" for r
    using that new only assms(1) unfolding t committed_def by (auto split: if_splits)
  then show ?thesis using assms(1) eff by (auto simp: committed_def schedule_of_current_def)
qed

lemma create_secret_committed:
  assumes "committed v d" "create_secret_with_id_and_schedule v em ent ev i ns md p sch oper d = (Inr x, d')"
  shows "committed v d'"
proof -
  obtain idx m e c a where s: "secret_state_commitment v i ns idx ''active'' 1 1 1 sch = Inr c"
      "create_secret \<lparr>si_secret_id = i, si_namespace_id = ns, si_name_index = idx, si_metadata = m,
        si_payload = e, si_schedule = sch, si_state_commitment = c, si_created_by = oc_actor oper,
        si_created_at = oc_now oper\<rparr> a d = (Inr (), d')" (is "create_secret ?s a d = _")
    using create_secret_with_id_and_schedule_Inr [OF assms(2)] by blast
  obtain r where r: "secret_versions d' = tbl_insert r (secret_versions d)" "versions_unique (secret_versions d')"
      "v_secret_id r = i" "v_version r = 1" "v_expires r = expires_at sch" "v_rotation r = rotation_due_at sch"
      "secrets d' = tbl_insert (secret_row_of ?s) (secrets d)" "secrets_unique (secrets d')"
      "namespaces d' = namespaces d"
    using create_secret_Inr [OF s(2)] by auto
  have "schedule_of_current d' (secret_row_of ?s) = sch"
    using schedule_inserted [OF r(1,2)] r(3-6) by (simp add: secret_row_of_def)
  then have "secret_committed v (secret_row_of ?s) (schedule_of_current d' (secret_row_of ?s))"
    using s(1) by (simp add: secret_committed_def secret_row_of_def)
  moreover have "schedule_of_current d' q = schedule_of_current d q" if "q \<in> set (rows (secrets d))" for q
    using that r(3,7,8) by (intro schedule_insert_other [OF r(1)]) (auto simp: secrets_unique_def secret_row_of_def)
  ultimately show ?thesis using assms(1) r(7,9) by (simp add: committed_def)
qed

text \<open>The row an optimistic update matches is the row that was read.\<close>

lemma updated_row:
  assumes "secret i d = Inr cur" "unique_key s_id (secrets d)"
  obtains row where "row \<in> set (rows (secrets d))" "s_id row = i"
    "parse_secret i row (schedule_of_current d row) = Inr cur"
    "\<forall>q \<in> set (rows (secrets d)). s_id q = i \<longrightarrow> q = row"
proof (rule secret_found [OF assms(1)])
  fix row
  assume row: "row \<in> set (rows (secrets d))" "s_id row = i" "parse_secret i row (schedule_of_current d row) = Inr cur"
  then show thesis using assms(2) that [of row] by (metis unique_key_eq)
qed

lemma update_secret_committed:
  assumes "committed v d" "update_secret_with_schedule v ent ev1 ev2 i n k p sch oper d = (Inr x, d')"
  shows "committed v d'"
proof -
  obtain cur e c a where s: "secret i d = Inr cur" "sr_current_version cur = n" "sr_revision cur = k"
      "secret_state_commitment v i (sr_namespace_id cur) (sr_name_index cur) ''active'' (n + 1) (k + 1)
         (sr_metadata_version cur) sch = Inr c"
      "append_secret_version \<lparr>sv_secret_id = i, sv_expected_current_version = n, sv_expected_revision = k,
        sv_payload = e, sv_schedule = sch, sv_next_state_commitment = c, sv_created_by = oc_actor oper,
        sv_created_at = oc_now oper\<rparr> a d = (Inr x, d')" (is "append_secret_version ?s a d = _")
    using update_secret_with_schedule_Inr [OF assms(2)] by blast
  note eff = append_secret_version_Inr [OF s(5)]
  have t: "secrets d' = tbl_update (append_where ?s) (append_set ?s) (secrets d)"
    and vs: "secret_versions d' = tbl_insert (appended_version ?s) (secret_versions d)"
      "versions_unique (secret_versions d')" using eff by auto
  have u: "unique_key s_id (secrets d)"
    using eff unfolding t secrets_unique_def by (subst (asm) unique_key_update_iff) (auto simp: append_set_def)
  obtain row where row: "row \<in> set (rows (secrets d))" "s_id row = i"
      "parse_secret i row (schedule_of_current d row) = Inr cur"
      "\<forall>q \<in> set (rows (secrets d)). s_id q = i \<longrightarrow> q = row"
    using s(1) u by (rule updated_row)
  note f = parse_secret_fields [OF row(3)]
  have "schedule_of_current d' (append_set ?s row) = sch"
    using row(2) by (subst schedule_inserted [OF vs]) (simp_all add: append_set_def appended_version_def)
  then have new: "secret_committed v (append_set ?s row) (schedule_of_current d' (append_set ?s row))"
    if "append_where ?s row"
    using s(4) f row(2) that
    by (simp add: secret_committed_def append_set_def append_where_def nat_add_distrib)
  have matched: "append_where ?s row"
  proof -
    obtain q where "q \<in> set (rows (secrets d))" "append_where ?s q"
      using eff tbl_count_one_exists by blast
    then show ?thesis using row(4) by (metis append_where_def secret_version_insert.select_convs(1))
  qed
  have "secret_committed v q (schedule_of_current d' q)" if "q \<in> set (rows (secrets d'))" for q
  proof -
    obtain q0 where q0: "q0 \<in> set (rows (secrets d))"
        "q = (if append_where ?s q0 then append_set ?s q0 else q0)"
      using \<open>q \<in> set (rows (secrets d'))\<close> unfolding t by auto
    show ?thesis
    proof (cases "s_id q0 = i")
      case True
      then show ?thesis using q0 row(4) new matched by auto
    next
      case False
      then have "q = q0" using q0(2) by (auto simp: append_where_def)
      then show ?thesis
        using False assms(1) q0(1) schedule_insert_other [OF vs(1), of q]
        by (simp add: committed_def appended_version_def)
    qed
  qed
  then show ?thesis using assms(1) eff by (simp add: committed_def)
qed

lemma change_lifecycle_committed:
  assumes "committed v d" "change_lifecycle v ev i k from_st to_st act oper d = (Inr x, d')"
  shows "committed v d'"
proof -
  obtain cur c a where s: "secret i d = Inr cur" "sr_revision cur = k"
      "secret_state_commitment v i (sr_namespace_id cur) (sr_name_index cur) to_st (sr_current_version cur)
         (k + 1) (sr_metadata_version cur) (sr_schedule cur) = Inr c"
      "change_secret_lifecycle \<lparr>lc_secret_id = i, lc_expected_revision = k, lc_from_state = from_st,
        lc_to_state = to_st, lc_changed_at = oc_now oper, lc_next_state_commitment = c\<rparr> a d = (Inr x, d')"
    (is "change_secret_lifecycle ?c a d = _")
    using change_lifecycle_Inr [OF assms(2)] by blast
  note eff = change_secret_lifecycle_Inr [OF s(4)]
  have t: "secrets d' = tbl_update (lifecycle_where ?c) (lifecycle_set ?c) (secrets d)"
    and vs: "secret_versions d' = secret_versions d" using eff by simp_all
  have u: "unique_key s_id (secrets d)"
    using eff unfolding t secrets_unique_def by (subst (asm) unique_key_update_iff) (auto simp: lifecycle_set_def)
  obtain row where row: "row \<in> set (rows (secrets d))" "s_id row = i"
      "parse_secret i row (schedule_of_current d row) = Inr cur"
      "\<forall>q \<in> set (rows (secrets d)). s_id q = i \<longrightarrow> q = row"
    using s(1) u by (rule updated_row)
  note f = parse_secret_fields [OF row(3)]
  have "schedule_of_current d' (lifecycle_set ?c row) = schedule_of_current d row"
    by (simp add: schedule_of_current_def vs lifecycle_set_def)
  then have new: "secret_committed v (lifecycle_set ?c row) (schedule_of_current d' (lifecycle_set ?c row))"
    using s(3) f row(2)
    by (simp add: secret_committed_def lifecycle_set_def nat_add_distrib)
  have "secret_committed v q (schedule_of_current d' q)" if "q \<in> set (rows (secrets d'))" for q
  proof -
    obtain q0 where q0: "q0 \<in> set (rows (secrets d))"
        "q = (if lifecycle_where ?c q0 then lifecycle_set ?c q0 else q0)"
      using \<open>q \<in> set (rows (secrets d'))\<close> unfolding t by auto
    show ?thesis
    proof (cases "lifecycle_where ?c q0")
      case True
      then have "q0 = row" using q0 row(4) by (simp add: lifecycle_where_def)
      then show ?thesis using q0 True new by simp
    next
      case False
      then show ?thesis using q0 assms(1) by (simp add: committed_def schedule_same [OF vs])
    qed
  qed
  then show ?thesis using assms(1) eff by (simp add: committed_def)
qed

lemma purge_committed:
  assumes "committed v d" "purge_secret_after_owner_approval v ev i k approval oper d = (Inr x, d')"
  shows "committed v d'"
proof -
  have eff: "secrets d' = tbl_delete (\<lambda>s. s_id s = i) (secrets d)"
    "secret_versions d' = tbl_delete (\<lambda>r. v_secret_id r = i) (secret_versions d)"
    "namespaces d' = namespaces d"
    using purge_approved_Inr [OF assms(2)] by (auto dest!: purge_secret_Inr)
  have "schedule_of_current d' q = schedule_of_current d q" if "s_id q \<noteq> i" for q
  proof -
    have "version_row_at (s_id q) (s_current q) d' = version_row_at (s_id q) (s_current q) d"
      unfolding version_row_at_def eff using that by (intro tbl_find_delete) auto
    then show ?thesis by (simp add: schedule_alt)
  qed
  then show ?thesis using assms(1) eff by (simp add: committed_def)
qed

lemma append_audit_committed: "committed v d \<Longrightarrow> append_audit a d = (Inr x, d') \<Longrightarrow> committed v d'"
  by (auto dest!: append_audit_Inr intro: committed_same)

end
