(* ===== verification/Text_Format.thy ===== *)
theory Text_Format
  imports Prelude
begin

text \<open>
  The text the application layer commits to: lower-case hexadecimal (\<open>hex::encode\<close>), the
  hyphenated form of identifiers (\<open>Display\<close> of \<open>Uuid\<close>), decimal numbers, the \<open>Debug\<close> form of an
  optional timestamp, and fields joined by NUL as the format strings write them.  Each form
  is injective and free of NUL, so a joined text determines its fields.
\<close>

section \<open>Digits\<close>

definition hex_alphabet :: string where
  "hex_alphabet = ''0123456789abcdef''"

definition hex_digit :: "nat \<Rightarrow> char" where
  "hex_digit n = hex_alphabet ! n"

definition hex_byte :: "byte \<Rightarrow> string" where
  "hex_byte b = [hex_digit (unat b div 16), hex_digit (unat b mod 16)]"

definition hex_encode :: "bytes \<Rightarrow> string" where
  "hex_encode bs = concat (map hex_byte bs)"

definition uuid_text :: "uuid \<Rightarrow> string" where
  "uuid_text u = hex_encode (take 4 u) @ ''-'' @ hex_encode (take 2 (drop 4 u)) @ ''-'' @
     hex_encode (take 2 (drop 6 u)) @ ''-'' @ hex_encode (take 2 (drop 8 u)) @ ''-'' @
     hex_encode (drop 10 u)"

fun dec_nat :: "nat \<Rightarrow> string" where
  "dec_nat n = (if n < 10 then [hex_digit n] else dec_nat (n div 10) @ [hex_digit (n mod 10)])"

declare dec_nat.simps [simp del]

definition dec_int :: "int \<Rightarrow> string" where
  "dec_int i = (if i < 0 then ''-'' @ dec_nat (nat (- i)) else dec_nat (nat i))"

definition debug_option :: "int option \<Rightarrow> string" where
  "debug_option m = (case m of None \<Rightarrow> ''None'' | Some i \<Rightarrow> ''Some('' @ dec_int i @ '')'')"

text \<open>Fields joined by NUL.\<close>

definition NUL :: char where "NUL = CHR 0x00"

fun join_nul :: "string list \<Rightarrow> string" where
  "join_nul [] = []"
| "join_nul [f] = f"
| "join_nul (f # fs) = f @ [NUL] @ join_nul fs"

section \<open>Injectivity\<close>

lemma hex_alphabet_facts:
  "distinct hex_alphabet" "length hex_alphabet = 16" "NUL \<notin> set hex_alphabet" "CHR ''-'' \<notin> set hex_alphabet"
  by (simp_all add: hex_alphabet_def NUL_def)

lemma hex_digit_inject: "m < 16 \<Longrightarrow> n < 16 \<Longrightarrow> hex_digit m = hex_digit n \<longleftrightarrow> m = n"
  using hex_alphabet_facts by (simp add: hex_digit_def nth_eq_iff_index_eq)

lemma hex_digit_set: "n < 16 \<Longrightarrow> hex_digit n \<in> set hex_alphabet"
  unfolding hex_digit_def using hex_alphabet_facts(2) by (intro nth_mem) simp

lemma hex_byte_inject: "hex_byte a = hex_byte b \<longleftrightarrow> a = b"
proof
  assume eq: "hex_byte a = hex_byte b"
  have "unat a < 256" "unat b < 256" by (rule unat_byte_less)+
  then have "unat a div 16 < 16" "unat b div 16 < 16" by simp_all
  then have "unat a div 16 = unat b div 16" "unat a mod 16 = unat b mod 16"
    using eq by (simp_all add: hex_byte_def hex_digit_inject)
  then have "unat a = unat b" by (metis div_mult_mod_eq)
  then show "a = b" by (simp add: word_unat_eq_iff)
qed simp

lemma length_hex_encode [simp]: "length (hex_encode bs) = 2 * length bs"
  by (induction bs) (simp_all add: hex_encode_def hex_byte_def)

lemma hex_encode_Nil [simp]: "hex_encode [] = []"
  by (simp add: hex_encode_def)

lemma hex_encode_Cons [simp]: "hex_encode (b # bs) = hex_byte b @ hex_encode bs"
  by (simp add: hex_encode_def)

lemma hex_encode_inject: "hex_encode a = hex_encode b \<longleftrightarrow> a = b"
proof
  show "hex_encode a = hex_encode b \<Longrightarrow> a = b"
  proof (induction a arbitrary: b)
    case Nil
    then show ?case by (cases b) (auto simp: hex_byte_def)
  next
    case (Cons x a)
    then obtain y b' where b: "b = y # b'" by (cases b) (auto simp: hex_byte_def)
    have "length (hex_byte x) = length (hex_byte y)" by (simp add: hex_byte_def)
    then show ?case using Cons b by (simp add: hex_byte_inject)
  qed
qed simp

lemma hex_encode_set: "set (hex_encode bs) \<subseteq> set hex_alphabet"
proof (induction bs)
  case (Cons b bs)
  have "unat b div 16 < 16" using unat_byte_less [of b] by simp
  then show ?case using Cons by (auto simp: hex_byte_def intro: hex_digit_set)
qed simp

lemma hex_encode_plain: "NUL \<notin> set (hex_encode bs)"
  using hex_encode_set hex_alphabet_facts(3) by blast

lemma uuid_text_inject:
  assumes "length a = 16" "length b = 16"
  shows "uuid_text a = uuid_text b \<longleftrightarrow> a = b"
proof
  assume eq: "uuid_text a = uuid_text b"
  have parts: "take 4 a = take 4 b" "take 2 (drop 4 a) = take 2 (drop 4 b)"
    "take 2 (drop 6 a) = take 2 (drop 6 b)" "take 2 (drop 8 a) = take 2 (drop 8 b)" "drop 10 a = drop 10 b"
    using eq assms by (simp_all add: uuid_text_def hex_encode_inject append_eq_append_conv)
  have whole: "c = take 4 c @ take 2 (drop 4 c) @ take 2 (drop 6 c) @ take 2 (drop 8 c) @ drop 10 c" for c :: bytes
    using append_take_drop_id [of 4 c] append_take_drop_id [of 2 "drop 4 c"]
      append_take_drop_id [of 2 "drop 6 c"] append_take_drop_id [of 2 "drop 8 c"] by simp
  show "a = b" using whole [of a] whole [of b] parts by simp
qed simp

lemma uuid_text_plain: "NUL \<notin> set (uuid_text u)"
  using hex_encode_plain by (auto simp: uuid_text_def NUL_def)

lemma dec_nat_set: "set (dec_nat n) \<subseteq> set hex_alphabet"
proof (induction n rule: dec_nat.induct)
  case (1 n)
  show ?case
  proof (cases "n < 10")
    case True
    then show ?thesis by (subst dec_nat.simps) (auto intro: hex_digit_set)
  next
    case False
    moreover have "hex_digit (n mod 10) \<in> set hex_alphabet"
      using mod_less_divisor [of 10 n] by (intro hex_digit_set) linarith
    ultimately show ?thesis using 1 by (subst dec_nat.simps) auto
  qed
qed

lemma dec_nat_plain: "NUL \<notin> set (dec_nat n)" "CHR ''-'' \<notin> set (dec_nat n)"
  using dec_nat_set [of n] hex_alphabet_facts(3,4) by blast+

text \<open>The decimal digits read back.\<close>

definition digit_value :: "char \<Rightarrow> nat" where
  "digit_value c = of_char c - 48"

lemma digit_value [simp]: "n < 10 \<Longrightarrow> digit_value (hex_digit n) = n"
proof -
  have "list_all (\<lambda>n. digit_value (hex_digit n) = n) [0..<10]"
    by (simp add: upt_rec hex_digit_def digit_value_def hex_alphabet_def)
  then show "n < 10 \<Longrightarrow> digit_value (hex_digit n) = n" by (simp add: list_all_iff)
qed

lemma dec_nat_value: "foldl (\<lambda>acc c. acc * 10 + digit_value c) 0 (dec_nat n) = n"
proof (induction n rule: dec_nat.induct)
  case (1 n)
  show ?case
  proof (cases "n < 10")
    case True
    then show ?thesis by (subst dec_nat.simps) simp
  next
    case False
    then show ?thesis using 1 by (subst dec_nat.simps) simp
  qed
qed

lemma dec_nat_inject: "dec_nat m = dec_nat n \<longleftrightarrow> m = n"
  using dec_nat_value by metis

lemma dec_int_inject: "dec_int i = dec_int j \<longleftrightarrow> i = j"
proof
  assume eq: "dec_int i = dec_int j"
  have first: "dec_nat n \<noteq> CHR ''-'' # xs" for n xs using dec_nat_plain(2) [of n] by auto
  show "i = j"
  proof (cases "i < 0"; cases "j < 0")
    assume "i < 0" "j < 0"
    then have "nat (- i) = nat (- j)" using eq by (simp add: dec_int_def dec_nat_inject)
    then show ?thesis using \<open>i < 0\<close> \<open>j < 0\<close> by (simp add: eq_nat_nat_iff)
  next
    assume "\<not> i < 0" "\<not> j < 0"
    then have "nat i = nat j" using eq by (simp add: dec_int_def dec_nat_inject)
    then show ?thesis using \<open>\<not> i < 0\<close> \<open>\<not> j < 0\<close> by (simp add: eq_nat_nat_iff)
  next
    assume "i < 0" "\<not> j < 0"
    then show ?thesis using eq first [of "nat j"] by (simp add: dec_int_def) (metis append_Cons)
  next
    assume "\<not> i < 0" "j < 0"
    then show ?thesis using eq first [of "nat i"] by (simp add: dec_int_def)
  qed
qed simp

lemma dec_int_plain: "NUL \<notin> set (dec_int i)"
  using dec_nat_plain by (auto simp: dec_int_def NUL_def)

lemma debug_option_inject: "debug_option a = debug_option b \<longleftrightarrow> a = b"
  by (auto simp: debug_option_def dec_int_inject split: option.splits)

lemma debug_option_plain: "NUL \<notin> set (debug_option m)"
  using dec_int_plain by (auto simp: debug_option_def NUL_def split: option.splits)

lemma append_sep_inject:
  "z \<notin> set a \<Longrightarrow> z \<notin> set b \<Longrightarrow> a @ z # x = b @ z # y \<longleftrightarrow> a = b \<and> x = y"
proof (induction a arbitrary: b)
  case Nil
  then show ?case by (cases b) auto
next
  case (Cons c a)
  then show ?case by (cases b) auto
qed

lemma join_nul_inject:
  assumes "list_all (\<lambda>f. NUL \<notin> set f) fs" "list_all (\<lambda>f. NUL \<notin> set f) gs" "length fs = length gs"
  shows "join_nul fs = join_nul gs \<longleftrightarrow> fs = gs"
  using assms
proof (induction fs arbitrary: gs rule: join_nul.induct)
  case (3 f f' fs)
  then obtain g g' gs' where gs: "gs = g # g' # gs'" by (metis length_Suc_conv)
  show ?case using 3 by (simp add: gs append_sep_inject)
next
  case (2 f)
  then show ?case by (cases gs) auto
qed auto

lemmas plain_simps = hex_encode_plain uuid_text_plain dec_nat_plain(1) dec_int_plain debug_option_plain

lemmas text_inject = hex_encode_inject uuid_text_inject dec_nat_inject dec_int_inject debug_option_inject

end
