(* ===== verification/App_Authentication.thy ===== *)
theory App_Authentication
  imports App_Integrity Text_Format
begin

text \<open>
  Owner authentication (\<open>src/crates/smcv-app/src/authentication.rs\<close>): the commitments of
  principals, authenticators and sessions, enrollment and local recovery of the owner, password
  login, the browser session with its idle, absolute and recent-authentication windows, and
  logout.  The password hash is a parameter: parsing, hashing and verification of the
  \<open>argon2\<close> crate.
\<close>

section \<open>Data\<close>

definition SESSION_IDLE_MS :: int where "SESSION_IDLE_MS = 30 * 60 * 1000"
definition SESSION_ABSOLUTE_MS :: int where "SESSION_ABSOLUTE_MS = 12 * 60 * 60 * 1000"
definition RECENT_AUTH_MS :: int where "RECENT_AUTH_MS = 5 * 60 * 1000"
definition MIN_PASSWORD_BYTES :: nat where "MIN_PASSWORD_BYTES = 12"
definition MAX_PASSWORD_BYTES :: nat where "MAX_PASSWORD_BYTES = 1024"

lemmas session_windows = SESSION_IDLE_MS_def SESSION_ABSOLUTE_MS_def RECENT_AUTH_MS_def

record browser_session_secrets =
  bs_session_token :: string
  bs_csrf_token :: string
  bs_absolute_expires_at :: unix_ms

record authenticated_owner =
  ao_principal_id :: uuid
  ao_session_id :: uuid
  ao_authenticator_id :: uuid
  ao_recent_auth_until :: unix_ms
  ao_valid_from :: unix_ms
  ao_valid_until :: unix_ms

definition is_valid_at :: "authenticated_owner \<Rightarrow> unix_ms \<Rightarrow> bool" where
  "is_valid_at owner now = (ao_valid_from owner \<le> now \<and> now \<le> ao_valid_until owner)"

definition is_recent_at :: "authenticated_owner \<Rightarrow> unix_ms \<Rightarrow> bool" where
  "is_recent_at owner now = (now \<le> ao_recent_auth_until owner \<and> is_valid_at owner now)"

datatype authentication_error = Rejected | InvalidInput | Integrity | Unavailable

fun map_auth_storage :: "storage_error \<Rightarrow> authentication_error" where
  "map_auth_storage InvalidData = Integrity"
| "map_auth_storage MigrationMismatch = Integrity"
| "map_auth_storage storage_error.Conflict = Rejected"
| "map_auth_storage StateConflict = Rejected"
| "map_auth_storage NotInitialized = Unavailable"
| "map_auth_storage Sqlite = Unavailable"
| "map_auth_storage Poisoned = Unavailable"
| "map_auth_storage DestinationExists = Unavailable"
| "map_auth_storage storage_error.UnsafePath = Unavailable"

section \<open>Passwords\<close>

text \<open>A parsed PHC string: what \<open>PasswordHash::new\<close> and \<open>Params::try_from\<close> report of it.\<close>

record phc =
  ph_algorithm :: string
  ph_version :: "nat option"
  ph_params :: "(nat \<times> nat \<times> nat \<times> nat option) option"
  ph_salt_present :: bool
  ph_hash_len :: "nat option"

record password_lib =
  pl_parse :: "string \<Rightarrow> phc option"
  pl_hash :: "bytes \<Rightarrow> bytes \<Rightarrow> string option"
  pl_verify :: "bytes \<Rightarrow> string \<Rightarrow> bool"

definition validate_password :: "bytes \<Rightarrow> authentication_error + unit" where
  "validate_password password =
     ensure (MIN_PASSWORD_BYTES \<le> length password \<and> length password \<le> MAX_PASSWORD_BYTES) InvalidInput"

definition hash_password :: "password_lib \<Rightarrow> bytes \<Rightarrow> bytes \<Rightarrow> authentication_error + string" where
  "hash_password pl salt password = ok_or Unavailable (pl_hash pl salt password)"

definition validate_password_phc :: "password_lib \<Rightarrow> string \<Rightarrow> authentication_error + unit" where
  "validate_password_phc pl text =
     rbind (ok_or Integrity (pl_parse pl text)) (\<lambda>parsed.
     rbind (ok_or Integrity (ph_params parsed)) (\<lambda>(m_cost, t_cost, p_cost, output_len).
     ensure (ph_algorithm parsed = ''argon2id'' \<and> ph_version parsed = Some 19 \<and> m_cost = 64 * 1024 \<and>
       t_cost = 3 \<and> p_cost = 1 \<and> output_len = Some 32 \<and> ph_salt_present parsed \<and>
       ph_hash_len parsed = Some 32) Integrity))"

section \<open>Commitments\<close>

definition text_commitment :: "vault \<Rightarrow> string list \<Rightarrow> authentication_error + bytes" where
  "text_commitment v parts =
     map_err (\<lambda>_. Integrity) (state_commitment (vt_lib v) (vt_audit_key v) (ascii (join_nul parts)))"

definition principal_commitment :: "vault \<Rightarrow> uuid \<Rightarrow> string \<Rightarrow> string \<Rightarrow> nat \<Rightarrow> authentication_error + bytes" where
  "principal_commitment v principal_id kind state revision =
     text_commitment v [''principal'', uuid_text principal_id, kind, state, dec_nat revision]"

fun principal_kind_text :: "principal_kind \<Rightarrow> string" where
  "principal_kind_text Owner = ''owner''"
| "principal_kind_text Service = ''service''"

definition verify_principal_commitment :: "vault \<Rightarrow> principal_record \<Rightarrow> authentication_error + unit" where
  "verify_principal_commitment v p =
     rbind (principal_commitment v (pr_principal_id p) (principal_kind_text (pr_kind p)) (pr_state p)
       (pr_revision p)) (\<lambda>c.
     ensure (c = pr_state_commitment p) Integrity)"

definition opt_hex :: "bytes option \<Rightarrow> string" where
  "opt_hex m = (case m of None \<Rightarrow> [] | Some b \<Rightarrow> hex_encode b)"

definition authenticator_commitment :: "vault \<Rightarrow> uuid \<Rightarrow> uuid \<Rightarrow> authenticator_kind \<Rightarrow> bytes option \<Rightarrow>
    bytes option \<Rightarrow> string option \<Rightarrow> string \<Rightarrow> unix_ms \<Rightarrow> unix_ms option \<Rightarrow> unix_ms option \<Rightarrow>
    authentication_error + bytes" where
  "authenticator_commitment v authenticator_id principal_id kind lookup payload phc_text state created
     last_used revoked =
     text_commitment v [''authenticator'', uuid_text authenticator_id, uuid_text principal_id,
       authenticator_kind_as_str kind, opt_hex lookup, opt_hex payload,
       (case phc_text of None \<Rightarrow> [] | Some t \<Rightarrow> t), state, dec_int created, debug_option last_used,
       debug_option revoked]"

definition verify_authenticator_commitment :: "vault \<Rightarrow> owner_authenticator_record \<Rightarrow>
    authentication_error + unit" where
  "verify_authenticator_commitment v a =
     rbind (authenticator_commitment v (oa_authenticator_id a) (oa_principal_id a) (oa_kind a)
       (oa_credential_lookup a) (oa_credential_data a) (oa_password_phc a) (oa_state a)
       (oa_created_at a) (oa_last_used_at a) (oa_revoked_at a)) (\<lambda>c.
     ensure (c = oa_state_commitment a) Integrity)"

definition session_commitment :: "vault \<Rightarrow> session_record \<Rightarrow> unix_ms \<Rightarrow> unix_ms \<Rightarrow> unix_ms \<Rightarrow>
    unix_ms option \<Rightarrow> authentication_error + bytes" where
  "session_commitment v s last_used idle recent revoked =
     text_commitment v [''session'', uuid_text (se_session_id s), hex_encode (se_lookup_id s),
       hex_encode (se_verifier s), hex_encode (se_csrf_verifier s), uuid_text (se_principal_id s),
       uuid_text (se_authenticator_id s), authenticator_kind_as_str (se_auth_method s),
       dec_int (se_created_at s), dec_int (se_absolute_expires_at s),
       dec_nat (length (se_state_commitment s)), dec_int last_used, dec_int idle,
       dec_int (se_absolute_expires_at s), dec_int recent, debug_option revoked]"

definition verify_session_commitment :: "vault \<Rightarrow> session_record \<Rightarrow> authentication_error + unit" where
  "verify_session_commitment v s =
     rbind (session_commitment v s (se_last_used_at s) (se_idle_expires_at s) (se_recent_auth_at s)
       (se_revoked_at s)) (\<lambda>c.
     ensure (c = se_state_commitment s) Integrity)"

definition verify_password_record :: "vault \<Rightarrow> password_lib \<Rightarrow> bytes \<Rightarrow> owner_authenticator_record \<Rightarrow>
    authentication_error + bool" where
  "verify_password_record v pl password a =
     rbind (verify_authenticator_commitment v a) (\<lambda>_.
     rbind (ok_or Integrity (oa_password_phc a)) (\<lambda>text.
     rbind (validate_password_phc pl text) (\<lambda>_.
     rbind (ok_or Integrity (pl_parse pl text)) (\<lambda>_.
     Inr (pl_verify pl password text)))))"

definition verify_owner_context_active :: "vault \<Rightarrow> authenticated_owner \<Rightarrow> unix_ms \<Rightarrow> db \<Rightarrow>
    authentication_error + unit" where
  "verify_owner_context_active v owner now d =
     rbind (ensure (is_valid_at owner now) Rejected) (\<lambda>_.
     rbind (map_err map_auth_storage (session (ao_session_id owner) d)) (\<lambda>s.
     rbind (verify_session_commitment v s) (\<lambda>_.
     ensure (\<not> (se_principal_id s \<noteq> ao_principal_id owner \<or> se_revoked_at s \<noteq> None \<or>
        now < se_created_at s \<or> now < se_last_used_at s \<or> se_idle_expires_at s < now \<or>
        se_absolute_expires_at s < now)) Rejected)))"

section \<open>Owner enrollment and recovery\<close>

text \<open>An operation of no principal, for the local setup path.\<close>

definition local_operation :: "uuid \<Rightarrow> unix_ms \<Rightarrow> vault_operation_context" where
  "local_operation request_id now =
     \<lparr>oc_request_id = request_id, oc_actor = None, oc_credential_kind = None,
      oc_credential_id = None, oc_now = now\<rparr>"

definition empty_graph_fields :: "string list" where
  "empty_graph_fields = [''authorization-graph'', ''v1'', ''revision'', ''1'', ''empty'']"

definition password_insert :: "uuid \<Rightarrow> string \<Rightarrow> bytes \<Rightarrow> owner_authenticator_insert" where
  "password_insert authenticator_id text commitment =
     \<lparr>oi_authenticator_id = authenticator_id, oi_kind = Password, oi_credential_lookup = None,
      oi_credential_data = None, oi_password_phc = Some text, oi_state_commitment = commitment\<rparr>"

definition enroll_local_owner :: "vault \<Rightarrow> password_lib \<Rightarrow> bytes \<Rightarrow> uuid \<Rightarrow> uuid \<Rightarrow> uuid \<Rightarrow> bytes \<Rightarrow> uuid \<Rightarrow>
    unix_ms \<Rightarrow> db \<Rightarrow> (authentication_error + uuid) \<times> db" where
  "enroll_local_owner v pl salt principal_id authenticator_id ev password request_id now =
     reading (\<lambda>d.
       rbind (validate_password password) (\<lambda>_.
       rbind (hash_password pl salt password) (\<lambda>text.
       rbind (principal_commitment v principal_id ''owner'' ''active'' 1) (\<lambda>pc.
       rbind (authenticator_commitment v authenticator_id principal_id Password None None (Some text)
         ''active'' now None None) (\<lambda>ac.
       rbind (text_commitment v empty_graph_fields) (\<lambda>zc.
       rbind (map_err (\<lambda>_. Unavailable) (build_audit v ev ''owner:enroll'' ''principal''
         (Some principal_id) (local_operation request_id now) d)) (\<lambda>audit.
       Inr ((principal_id, pc, zc, password_insert authenticator_id text ac, now), audit))))))))
     (\<lambda>((i, pc, zc, h, now), audit). storing map_auth_storage (\<lambda>_. principal_id)
        (enroll_owner i pc zc h now audit))"

definition recover_local_owner :: "vault \<Rightarrow> password_lib \<Rightarrow> bytes \<Rightarrow> uuid \<Rightarrow> uuid \<Rightarrow> bytes \<Rightarrow> uuid \<Rightarrow>
    unix_ms \<Rightarrow> db \<Rightarrow> (authentication_error + uuid) \<times> db" where
  "recover_local_owner v pl salt authenticator_id ev password request_id now =
     reading (\<lambda>d.
       rbind (validate_password password) (\<lambda>_.
       rbind (map_err map_auth_storage (owner_principal d)) (\<lambda>found.
       rbind (ok_or Rejected found) (\<lambda>owner.
       rbind (verify_principal_commitment v owner) (\<lambda>_.
       rbind (ensure (pr_state owner = ''active'') Rejected) (\<lambda>_.
       rbind (map_err map_auth_storage (owner_authenticators_of Password d)) (\<lambda>passwords.
       rbind (ensure (passwords = []) Rejected) (\<lambda>_.
       rbind (hash_password pl salt password) (\<lambda>text.
       rbind (authenticator_commitment v authenticator_id (pr_principal_id owner) Password None None
         (Some text) ''active'' now None None) (\<lambda>c.
       rbind (map_err (\<lambda>_. Unavailable) (build_audit v ev ''owner:recover'' ''principal''
         (Some (pr_principal_id owner)) (local_operation request_id now) d)) (\<lambda>audit.
       Inr ((pr_principal_id owner, password_insert authenticator_id text c, now), audit))))))))))))
     (\<lambda>((i, h, now), audit). storing map_auth_storage (\<lambda>_. i) (add_owner_authenticator i h now audit))"

section \<open>Browser sessions\<close>

record session_entropy =
  st_lookup :: "bytes option"
  st_session :: "bytes option"
  st_csrf :: "bytes option"

definition session_operation :: "uuid \<Rightarrow> uuid \<Rightarrow> uuid \<Rightarrow> unix_ms \<Rightarrow> vault_operation_context" where
  "session_operation request_id principal_id session_id now =
     \<lparr>oc_request_id = request_id, oc_actor = Some principal_id,
      oc_credential_kind = Some ''session'', oc_credential_id = Some session_id, oc_now = now\<rparr>"

definition fresh_session :: "issued_session \<Rightarrow> uuid \<Rightarrow> principal_record \<Rightarrow> owner_authenticator_record \<Rightarrow>
    unix_ms \<Rightarrow> unix_ms \<Rightarrow> unix_ms \<Rightarrow> session_record" where
  "fresh_session issued session_id owner a now idle absolute =
     \<lparr>se_session_id = session_id, se_lookup_id = iss_lookup_id issued,
      se_verifier = iss_session_verifier issued, se_csrf_verifier = iss_csrf_verifier issued,
      se_principal_id = pr_principal_id owner, se_authenticator_id = oa_authenticator_id a,
      se_auth_method = oa_kind a, se_created_at = now, se_last_used_at = now,
      se_idle_expires_at = idle, se_absolute_expires_at = absolute, se_recent_auth_at = now,
      se_revoked_at = None, se_state_commitment = replicate 32 0\<rparr>"

definition create_browser_session :: "vault \<Rightarrow> session_entropy \<Rightarrow> uuid \<Rightarrow> uuid \<Rightarrow> principal_record \<Rightarrow>
    owner_authenticator_record \<Rightarrow> bytes option \<Rightarrow> uuid \<Rightarrow> unix_ms \<Rightarrow> db \<Rightarrow>
    (authentication_error + browser_session_secrets) \<times> db" where
  "create_browser_session v ent session_id ev owner a updated request_id now =
     reading (\<lambda>d.
       rbind (ensure (\<not> (now < oa_created_at a \<or> \<not> is_none_or (\<lambda>l. l \<le> now) (oa_last_used_at a)))
         Rejected) (\<lambda>_.
       rbind (map_err (\<lambda>_. Unavailable) (issue_session (vt_lib v) (st_lookup ent) (st_session ent)
         (st_csrf ent) (vt_token_verifier_key v))) (\<lambda>issued.
       rbind (ok_or Unavailable (checked_add_i64 now SESSION_IDLE_MS)) (\<lambda>idle.
       rbind (ok_or Unavailable (checked_add_i64 now SESSION_ABSOLUTE_MS)) (\<lambda>absolute.
       rbind (session_commitment v (fresh_session issued session_id owner a now idle absolute)
         now idle now None) (\<lambda>sc.
       rbind (authenticator_commitment v (oa_authenticator_id a) (oa_principal_id a) (oa_kind a)
         (oa_credential_lookup a) (case updated of None \<Rightarrow> oa_credential_data a | Some b \<Rightarrow> Some b)
         (oa_password_phc a) (oa_state a) (oa_created_at a) (Some now) (oa_revoked_at a)) (\<lambda>ac.
       rbind (map_err (\<lambda>_. Unavailable) (build_audit v ev ''session:create'' ''session'' (Some session_id)
         (session_operation request_id (pr_principal_id owner) session_id now) d)) (\<lambda>audit.
       Inr ((\<lparr>ws_session_id = session_id, ws_lookup_id = iss_lookup_id issued,
             ws_verifier = iss_session_verifier issued, ws_csrf_verifier = iss_csrf_verifier issued,
             ws_principal_id = pr_principal_id owner, ws_authenticator_id = oa_authenticator_id a,
             ws_auth_method = oa_kind a, ws_created_at = now, ws_idle_expires_at = idle,
             ws_absolute_expires_at = absolute, ws_recent_auth_at = now, ws_state_commitment = sc,
             ws_expected_authenticator_state_commitment = oa_state_commitment a,
             ws_authenticator_state_commitment = ac, ws_authenticator_credential_data = updated\<rparr>,
            \<lparr>bs_session_token = iss_session_token issued, bs_csrf_token = iss_csrf_token issued,
             bs_absolute_expires_at = absolute\<rparr>), audit)))))))))
     (\<lambda>((ins, secrets), audit). storing map_auth_storage (\<lambda>_. secrets) (create_session ins audit))"

text \<open>The first stored password authenticator that matches; an error ends the search.\<close>

fun find_password :: "vault \<Rightarrow> password_lib \<Rightarrow> bytes \<Rightarrow> owner_authenticator_record list \<Rightarrow>
    authentication_error + owner_authenticator_record option" where
  "find_password v pl password [] = Inr None"
| "find_password v pl password (a # as) =
     rbind (verify_password_record v pl password a) (\<lambda>ok.
       if ok then Inr (Some a) else find_password v pl password as)"

definition login_with_password :: "vault \<Rightarrow> password_lib \<Rightarrow> session_entropy \<Rightarrow> uuid \<Rightarrow> uuid \<Rightarrow> bytes \<Rightarrow>
    uuid \<Rightarrow> unix_ms \<Rightarrow> db \<Rightarrow> (authentication_error + browser_session_secrets) \<times> db" where
  "login_with_password v pl ent session_id ev password request_id now =
     reading (\<lambda>d.
       rbind (ensure (length password \<le> MAX_PASSWORD_BYTES) Rejected) (\<lambda>_.
       rbind (map_err map_auth_storage (owner_principal d)) (\<lambda>found.
       rbind (ok_or Rejected found) (\<lambda>owner.
       rbind (verify_principal_commitment v owner) (\<lambda>_.
       rbind (ensure (pr_state owner = ''active'') Rejected) (\<lambda>_.
       rbind (map_err map_auth_storage (owner_authenticators_of Password d)) (\<lambda>candidates.
       rbind (find_password v pl password candidates) (\<lambda>matched.
       rbind (ok_or Rejected matched) (\<lambda>a. Inr (owner, a))))))))))
     (\<lambda>(owner, a). create_browser_session v ent session_id ev owner a None request_id now)"

definition session_usable :: "session_record \<Rightarrow> unix_ms \<Rightarrow> bool" where
  "session_usable s now =
     (\<not> (se_revoked_at s \<noteq> None \<or> now < se_created_at s \<or> now < se_last_used_at s \<or>
         se_idle_expires_at s < now \<or> se_absolute_expires_at s < now))"

definition check_csrf :: "vault \<Rightarrow> session_record \<Rightarrow> bytes \<Rightarrow> string option \<Rightarrow> bool \<Rightarrow>
    authentication_error + unit" where
  "check_csrf v s lookup csrf_token require_csrf =
     (if require_csrf
      then rbind (ok_or Rejected csrf_token) (\<lambda>csrf.
           rbind (map_err (\<lambda>_. Unavailable) (verify_csrf (vt_lib v) (vt_token_verifier_key v) csrf lookup
             (se_csrf_verifier s))) (\<lambda>ok.
           ensure ok Rejected))
      else Inr ())"

definition authenticate_browser_session :: "vault \<Rightarrow> string \<Rightarrow> string option \<Rightarrow> bool \<Rightarrow> unix_ms \<Rightarrow> db \<Rightarrow>
    (authentication_error + authenticated_owner) \<times> db" where
  "authenticate_browser_session v token csrf_token require_csrf now =
     sbind (reading (\<lambda>d.
       rbind (ok_or Rejected (session_lookup_id (vt_lib v) token)) (\<lambda>lookup.
       rbind (map_err map_auth_storage (session_by_lookup lookup d)) (\<lambda>found.
       rbind (ok_or Rejected found) (\<lambda>s.
       rbind (verify_session_commitment v s) (\<lambda>_.
       rbind (ensure (session_usable s now) Rejected) (\<lambda>_.
       rbind (map_err (\<lambda>_. Unavailable) (verify_session (vt_lib v) (vt_token_verifier_key v) token lookup
         (se_verifier s))) (\<lambda>ok.
       rbind (ensure ok Rejected) (\<lambda>_.
       rbind (check_csrf v s lookup csrf_token require_csrf) (\<lambda>_.
       rbind (map_err map_auth_storage (principal (se_principal_id s) d)) (\<lambda>owner.
       rbind (verify_principal_commitment v owner) (\<lambda>_.
       rbind (ensure (pr_state owner = ''active'') Rejected) (\<lambda>_.
       rbind (ok_or Rejected (checked_add_i64 now SESSION_IDLE_MS)) (\<lambda>sum.
       let next_idle = min sum (se_absolute_expires_at s) in
       rbind (session_commitment v s now next_idle (se_recent_auth_at s) None) (\<lambda>c.
       Inr (s, next_idle, c)))))))))))))))
       (\<lambda>(s, next_idle, c). storing (\<lambda>_. Rejected) (\<lambda>_. (s, next_idle))
          (touch_session (se_session_id s) (se_last_used_at s) now next_idle (se_recent_auth_at s) c)))
     (\<lambda>(s, next_idle). reading (\<lambda>_. ok_or Rejected (checked_add_i64 (se_recent_auth_at s) RECENT_AUTH_MS))
       (\<lambda>recent d. (Inr \<lparr>ao_principal_id = se_principal_id s, ao_session_id = se_session_id s,
          ao_authenticator_id = se_authenticator_id s, ao_recent_auth_until = recent,
          ao_valid_from = now, ao_valid_until = next_idle\<rparr>, d)))"

definition logout_browser_session :: "vault \<Rightarrow> uuid \<Rightarrow> authenticated_owner \<Rightarrow> uuid \<Rightarrow> unix_ms \<Rightarrow> db \<Rightarrow>
    (authentication_error + unit) \<times> db" where
  "logout_browser_session v ev owner request_id now =
     reading (\<lambda>d.
       rbind (ensure (vt_authorization_gate_ok v) Unavailable) (\<lambda>_.
       rbind (ensure (is_valid_at owner now) Rejected) (\<lambda>_.
       rbind (map_err map_auth_storage (session (ao_session_id owner) d)) (\<lambda>s.
       rbind (verify_session_commitment v s) (\<lambda>_.
       rbind (ensure (se_principal_id s = ao_principal_id owner \<and> se_revoked_at s = None) Rejected) (\<lambda>_.
       rbind (session_commitment v s (se_last_used_at s) (se_idle_expires_at s) (se_recent_auth_at s)
         (Some now)) (\<lambda>c.
       rbind (map_err (\<lambda>_. Unavailable) (build_audit v ev ''session:revoke'' ''session''
         (Some (se_session_id s))
         (session_operation request_id (ao_principal_id owner) (ao_session_id owner) now) d)) (\<lambda>audit.
       Inr ((se_session_id s, se_last_used_at s, now, c), audit)))))))))
     (\<lambda>((i, lu, at, c), audit). storing map_auth_storage (\<lambda>u. u) (revoke_session i lu at c audit))"

section \<open>Contracts\<close>

interpretation app_enroll: vault_operation
  "\<lambda>v (pl, salt, i, h, ev, password, req, now). enroll_local_owner v pl salt i h ev password req now"
  "''owner:enroll''" "''principal''" "\<lambda>(pl, salt, i, h, ev, password, req, now). Some i"
  "\<lambda>(pl, salt, i, h, ev, password, req, now). local_operation req now"
proof (unfold_locales, goal_cases)
  case (1 v q d e d')
  then show ?case unfolding enroll_local_owner_def
    by (auto simp: reading_Inl storing_Inl split: prod.splits dest: owner_enroll.failure_unchanged [of "(_, _, _, _, _)", simplified])
next
  case (2 v q d x d')
  then show ?case unfolding enroll_local_owner_def
    by (auto simp: reading_Inr storing_Inr result_simps split: prod.splits
        dest!: owner_enroll.success_appended [of "(_, _, _, _, _)", simplified] dest: build_audit_attributed)
qed

interpretation app_session: vault_operation
  "\<lambda>v (ent, i, ev, owner, a, updated, req, now). create_browser_session v ent i ev owner a updated req now"
  "''session:create''" "''session''" "\<lambda>(ent, i, ev, owner, a, updated, req, now). Some i"
  "\<lambda>(ent, i, ev, owner, a, updated, req, now). session_operation req (pr_principal_id owner) i now"
proof (unfold_locales, goal_cases)
  case (1 v q d e d')
  then show ?case unfolding create_browser_session_def
    by (auto simp: reading_Inl storing_Inl split: prod.splits dest: session_create.failure_unchanged)
next
  case (2 v q d x d')
  then show ?case unfolding create_browser_session_def
    by (auto simp: reading_Inr storing_Inr result_simps split: prod.splits
        dest!: session_create.success_appended dest: build_audit_attributed)
qed

lemma session_id_found: "session i d = Inr s \<Longrightarrow> se_session_id s = i"
  by (auto simp: session_def parse_session_def result_simps dest: tbl_find_Some)

interpretation app_logout: vault_operation
  "\<lambda>v (ev, owner, req, now). logout_browser_session v ev owner req now"
  "''session:revoke''" "''session''" "\<lambda>(ev, owner, req, now). Some (ao_session_id owner)"
  "\<lambda>(ev, owner, req, now). session_operation req (ao_principal_id owner) (ao_session_id owner) now"
proof (unfold_locales, goal_cases)
  case (1 v q d e d')
  then show ?case unfolding logout_browser_session_def
    by (auto simp: reading_Inl storing_Inl split: prod.splits dest: session_revoke.failure_unchanged [of "(_, _, _, _)", simplified])
next
  case (2 v q d x d')
  then show ?case unfolding logout_browser_session_def
    by (auto simp: reading_Inr storing_Inr result_simps split: prod.splits
        dest!: session_revoke.success_appended [of "(_, _, _, _)", simplified])
       (metis build_audit_attributed session_id_found)
qed

text \<open>Operations that find their principal in the store, and the session touch that logs
  nothing.\<close>

lemma touch_reported [report_intros]: "reported v d (snd (touch_session i lu now idle recent c d))"
proof (cases "touch_session i lu now idle recent c d")
  case (Pair r d')
  have "audit_events d' = audit_events d"
  proof (cases r)
    case (Inl e)
    then have "d' = d" using Pair unfolding touch_session_def by (auto dest: transaction_Inl)
    then show ?thesis by simp
  next
    case (Inr x)
    then show ?thesis using Pair touch_session_Inr by fastforce
  qed
  then show ?thesis using Pair by (simp add: reported_same)
qed

interpretation app_recover: reporting_operation
  "\<lambda>v (pl, salt, h, ev, password, req, now). recover_local_owner v pl salt h ev password req now"
  unfolding recover_local_owner_def
  by unfold_locales
     (auto split: prod.splits intro!: report_intros authenticator_add.audited_reported [where i = "(_, _, _)", simplified]
       simp: result_simps dest: build_audit_sound)

interpretation app_login: reporting_operation
  "\<lambda>v (pl, ent, i, ev, password, req, now). login_with_password v pl ent i ev password req now"
  unfolding login_with_password_def
  by unfold_locales
     (auto split: prod.splits intro!: report_intros app_session.run_reported [where i = "(_, _, _, _, _, _, _, _)", simplified])

interpretation app_authenticate: reporting_operation
  "\<lambda>v (token, csrf, require_csrf, now). authenticate_browser_session v token csrf require_csrf now"
  unfolding authenticate_browser_session_def
  by unfold_locales (auto split: prod.splits intro!: report_intros)

end
