(* ===== verification/App_Session.thy ===== *)
theory App_Session
  imports App_Authentication
begin

text \<open>
  What owner sessions promise: an accepted token belongs to a live, unrevoked session and the
  authority it gives never outlives the session's windows; a session just created is accepted
  with its own tokens; a logout ends every context of the session at once; and the committed
  text of a session determines the session.
\<close>

section \<open>Acceptance\<close>

lemma authenticate_accepts:
  assumes "authenticate_browser_session v token csrf_token require_csrf now d = (Inr o', d')"
  shows "\<exists>lookup s. session_lookup_id (vt_lib v) token = Some lookup \<and>
    session_by_lookup lookup d = Inr (Some s) \<and> session_usable s now \<and>
    verify_session_commitment v s = Inr () \<and>
    verify_session (vt_lib v) (vt_token_verifier_key v) token lookup (se_verifier s) = Inr True \<and>
    (require_csrf \<longrightarrow> (\<exists>csrf. csrf_token = Some csrf \<and>
       verify_csrf (vt_lib v) (vt_token_verifier_key v) csrf lookup (se_csrf_verifier s) = Inr True)) \<and>
    (\<exists>p. principal (se_principal_id s) d = Inr p \<and> pr_state p = ''active'') \<and>
    ao_principal_id o' = se_principal_id s \<and> ao_session_id o' = se_session_id s \<and>
    ao_valid_from o' = now \<and>
    ao_valid_until o' = min (now + SESSION_IDLE_MS) (se_absolute_expires_at s) \<and>
    ao_recent_auth_until o' = se_recent_auth_at s + RECENT_AUTH_MS"
  using assms unfolding authenticate_browser_session_def
  by (auto simp: sbind_Inr reading_Inr storing_Inr result_simps Let_def check_csrf_def split: if_splits)

text \<open>The authority of an accepted context is bounded by the session it came from.\<close>

lemma authority_bounded:
  assumes "authenticate_browser_session v token csrf_token require_csrf now d = (Inr o', d')"
    and "is_valid_at o' t"
  shows "\<exists>s lookup. session_by_lookup lookup d = Inr (Some s) \<and> se_revoked_at s = None \<and> now \<le> t \<and>
    t \<le> se_absolute_expires_at s \<and> t \<le> now + SESSION_IDLE_MS \<and>
    (is_recent_at o' t \<longrightarrow> t \<le> se_recent_auth_at s + RECENT_AUTH_MS)"
  using authenticate_accepts [OF assms(1)] assms(2)
  by (fastforce simp: is_valid_at_def is_recent_at_def session_usable_def)

section \<open>A created session is accepted\<close>

lemma authenticator_kind_roundtrip [simp]: "authenticator_kind_parse (authenticator_kind_as_str k) = Inr k"
  by (cases k) (simp_all add: authenticator_kind_parse_def)

lemma parse_session_row_of:
  assumes "session_check (session_row_of s)" "length (ws_principal_id s) = 16" "length (ws_authenticator_id s) = 16"
  shows "parse_session (session_row_of s) = Inr
    \<lparr>se_session_id = ws_session_id s, se_lookup_id = ws_lookup_id s, se_verifier = ws_verifier s,
     se_csrf_verifier = ws_csrf_verifier s, se_principal_id = ws_principal_id s,
     se_authenticator_id = ws_authenticator_id s, se_auth_method = ws_auth_method s,
     se_created_at = ws_created_at s, se_last_used_at = ws_created_at s,
     se_idle_expires_at = ws_idle_expires_at s, se_absolute_expires_at = ws_absolute_expires_at s,
     se_recent_auth_at = ws_recent_auth_at s, se_revoked_at = None,
     se_state_commitment = ws_state_commitment s\<rparr>"
  using assms by (simp add: parse_session_def session_row_of_def session_check_def parse_uuid_def)

lemma session_commitment_ignores:
  "length (se_state_commitment s) = length c \<Longrightarrow>
   session_commitment v (s\<lparr>se_state_commitment := c\<rparr>) lu idle recent revoked = session_commitment v s lu idle recent revoked"
  by (simp add: session_commitment_def)

text \<open>What a creation stored and returned.\<close>

lemma create_browser_session_Inr:
  assumes "create_browser_session v ent i ev owner a updated req now d = (Inr tokens, d')"
  obtains issued idle absolute sc ac audit ins where
    "issue_session (vt_lib v) (st_lookup ent) (st_session ent) (st_csrf ent) (vt_token_verifier_key v) = Inr issued"
    "idle = now + SESSION_IDLE_MS" "absolute = now + SESSION_ABSOLUTE_MS" "i64_ok absolute"
    "session_commitment v (fresh_session issued i owner a now idle absolute) now idle now None = Inr sc"
    "ins = \<lparr>ws_session_id = i, ws_lookup_id = iss_lookup_id issued,
             ws_verifier = iss_session_verifier issued, ws_csrf_verifier = iss_csrf_verifier issued,
             ws_principal_id = pr_principal_id owner, ws_authenticator_id = oa_authenticator_id a,
             ws_auth_method = oa_kind a, ws_created_at = now, ws_idle_expires_at = idle,
             ws_absolute_expires_at = absolute, ws_recent_auth_at = now, ws_state_commitment = sc,
             ws_expected_authenticator_state_commitment = oa_state_commitment a,
             ws_authenticator_state_commitment = ac, ws_authenticator_credential_data = updated\<rparr>"
    "create_session ins audit d = (Inr (), d')"
    "bs_session_token tokens = iss_session_token issued" "bs_csrf_token tokens = iss_csrf_token issued"
  using assms unfolding create_browser_session_def
  by (auto simp: reading_Inr storing_Inr result_simps i64_ok_def)

section \<open>Lengths\<close>

lemma dec_nat_length: "n < 10 ^ k \<Longrightarrow> 0 < k \<Longrightarrow> length (dec_nat n) \<le> k"
proof (induction k arbitrary: n)
  case (Suc k)
  show ?case
  proof (cases "n < 10")
    case True
    then show ?thesis by (subst dec_nat.simps) simp
  next
    case False
    then have "0 < k" using Suc.prems by (cases k) auto
    moreover have "n div 10 < 10 ^ k" using Suc.prems(1) by (simp add: div_less_iff_less_mult)
    ultimately have "length (dec_nat (n div 10)) \<le> k" using Suc.IH by blast
    then show ?thesis using False by (subst dec_nat.simps) simp
  qed
qed simp

lemma dec_int_length: "i64_ok i \<Longrightarrow> length (dec_int i) \<le> 20"
  using dec_nat_length [of "nat (- i)" 19] dec_nat_length [of "nat i" 20]
  by (auto simp: dec_int_def i64_ok_def i64_min_def i64_max_def)

lemma length_uuid_text: "length u = 16 \<Longrightarrow> length (uuid_text u) = 36"
  by (simp add: uuid_text_def)

lemma length_join_nul: "fs \<noteq> [] \<Longrightarrow> length (join_nul fs) = sum_list (map length fs) + length fs - 1"
  by (induction fs rule: join_nul.induct) auto

lemma length_authenticator_kind: "length (authenticator_kind_as_str k) \<le> 8"
  by (cases k) simp_all

text \<open>A session within the machine ranges has a commitment.\<close>

definition session_typed :: "session_record \<Rightarrow> bool" where
  "session_typed s = (length (se_session_id s) = 16 \<and> length (se_lookup_id s) = 16 \<and>
     length (se_verifier s) = 32 \<and> length (se_csrf_verifier s) = 32 \<and> length (se_principal_id s) = 16 \<and>
     length (se_authenticator_id s) = 16 \<and> length (se_state_commitment s) = 32 \<and>
     i64_ok (se_created_at s) \<and> i64_ok (se_absolute_expires_at s))"

lemma session_commitment_total:
  assumes "session_typed s" "i64_ok lu" "i64_ok idle" "i64_ok recent" "mac_correct (vt_lib v)"
  shows "\<exists>c. session_commitment v s lu idle recent None = Inr c \<and> length c = 32"
proof -
  let ?fs = "[''session'', uuid_text (se_session_id s), hex_encode (se_lookup_id s),
       hex_encode (se_verifier s), hex_encode (se_csrf_verifier s), uuid_text (se_principal_id s),
       uuid_text (se_authenticator_id s), authenticator_kind_as_str (se_auth_method s),
       dec_int (se_created_at s), dec_int (se_absolute_expires_at s),
       dec_nat (length (se_state_commitment s)), dec_int lu, dec_int idle,
       dec_int (se_absolute_expires_at s), dec_int recent, debug_option None]"
  have "length (dec_nat 32) \<le> 2" by (rule dec_nat_length) simp_all
  then have "length (join_nul ?fs) \<le> 4096" "0 < length (join_nul ?fs)"
    using assms length_authenticator_kind [of "se_auth_method s"]
      dec_int_length [of lu] dec_int_length [of idle] dec_int_length [of recent]
      dec_int_length [of "se_created_at s"] dec_int_length [of "se_absolute_expires_at s"]
    by (simp_all add: session_typed_def length_join_nul length_uuid_text debug_option_def)
  then have "length (ascii (join_nul ?fs)) \<le> 4096" "0 < length (ascii (join_nul ?fs))"
    unfolding length_ascii .
  then have "ascii (join_nul ?fs) \<noteq> [] \<and> length (ascii (join_nul ?fs)) \<le> 4096" by fastforce
  then show ?thesis
    using assms(5) unfolding session_commitment_def text_commitment_def state_commitment_def
    by (simp add: mac_correct_def del: join_nul.simps)
qed

lemma touch_succeeds:
  assumes "w \<in> set (rows (sessions d))" "touch_where i lu now idle w" "sessions_unique (sessions d)"
    and "session_check (touch_set now idle recent c w)" "fk_current_version d" "\<not> poisoned d"
  shows "\<exists>d'. touch_session i lu now idle recent c d = (Inr (), d')"
proof -
  have key: "touch_where i lu now idle r \<Longrightarrow> w_id r = i" for r by (simp add: touch_where_def)
  then have only: "touch_where i lu now idle r \<Longrightarrow> r \<in> set (rows (sessions d)) \<Longrightarrow> r = w" for r
    using assms(1-3) unique_key_eq unfolding sessions_unique_def by metis
  have one: "tbl_count (touch_where i lu now idle) (sessions d) = 1"
    using assms(1-3) key by (subst unique_key_count_one [where k = w_id and v = i]) (auto simp: sessions_unique_def)
  have "sessions_unique (tbl_update (touch_where i lu now idle) (touch_set now idle recent c) (sessions d))"
    using assms(3) unfolding sessions_unique_def
    by (subst (1 2) unique_key_update_iff) (auto simp: touch_set_def)
  then have "sql_update session_check sessions_unique no_trigger (touch_where i lu now idle)
      (touch_set now idle recent c) (sessions d) =
      Inr (1, tbl_update (touch_where i lu now idle) (touch_set now idle recent c) (sessions d))"
    using one only assms(4) by (auto simp: sql_update_Inr)
  moreover have "touch_session i lu now idle recent c = transaction (\<lambda>d.
       rbind (sql_update session_check sessions_unique no_trigger (touch_where i lu now idle)
         (touch_set now idle recent c) (sessions d)) (\<lambda>(changed, t).
       rbind (ensure (changed = 1) storage_error.Conflict) (\<lambda>_. Inr ((), d\<lparr>sessions := t\<rparr>))))"
    unfolding touch_session_def touch_where_def [abs_def] touch_set_def [abs_def] by (rule refl)
  ultimately show ?thesis
    using assms(5,6) by (simp add: transaction_def lock_def fk_current_version_def)
qed

text \<open>The row a creation leaves behind, and that the issued tokens fit it.\<close>

lemma created_session_stored:
  assumes create: "create_browser_session v ent i ev owner a updated req now d = (Inr tokens, d')"
    and lib: "base64_correct (vt_lib v)"
    and ent: "st_lookup ent = Some l" "st_session ent = Some s" "st_csrf ent = Some x"
      "length l = 16" "length s = 32" "length x = 32"
    and ids: "length (pr_principal_id owner) = 16" "length (oa_authenticator_id a) = 16" and now: "i64_ok now"
  obtains se row where "session_by_lookup l d' = Inr (Some se)" "verify_session_commitment v se = Inr ()"
    "verify_session (vt_lib v) (vt_token_verifier_key v) (bs_session_token tokens) l (se_verifier se) = Inr True"
    "verify_csrf (vt_lib v) (vt_token_verifier_key v) (bs_csrf_token tokens) l (se_csrf_verifier se) = Inr True"
    "session_lookup_id (vt_lib v) (bs_session_token tokens) = Some l" "session_typed se"
    "row \<in> set (rows (sessions d'))" "parse_session row = Inr se" "session_check row"
    "sessions_unique (sessions d')" "fk_current_version d'" "\<not> poisoned d'"
    "se_session_id se = i" "se_principal_id se = pr_principal_id owner" "se_created_at se = now"
    "se_last_used_at se = now" "se_recent_auth_at se = now" "se_revoked_at se = None"
    "se_idle_expires_at se = now + SESSION_IDLE_MS" "se_absolute_expires_at se = now + SESSION_ABSOLUTE_MS"
proof -
  obtain issued idle absolute sc ac audit ins where
    issued: "issue_session (vt_lib v) (st_lookup ent) (st_session ent) (st_csrf ent) (vt_token_verifier_key v) = Inr issued"
    and exp: "idle = now + SESSION_IDLE_MS" "absolute = now + SESSION_ABSOLUTE_MS" "i64_ok absolute"
    and sc: "session_commitment v (fresh_session issued i owner a now idle absolute) now idle now None = Inr sc"
    and ins: "ins = \<lparr>ws_session_id = i, ws_lookup_id = iss_lookup_id issued,
             ws_verifier = iss_session_verifier issued, ws_csrf_verifier = iss_csrf_verifier issued,
             ws_principal_id = pr_principal_id owner, ws_authenticator_id = oa_authenticator_id a,
             ws_auth_method = oa_kind a, ws_created_at = now, ws_idle_expires_at = idle,
             ws_absolute_expires_at = absolute, ws_recent_auth_at = now, ws_state_commitment = sc,
             ws_expected_authenticator_state_commitment = oa_state_commitment a,
             ws_authenticator_state_commitment = ac, ws_authenticator_credential_data = updated\<rparr>"
    and stored: "create_session ins audit d = (Inr (), d')"
    and tokens: "bs_session_token tokens = iss_session_token issued" "bs_csrf_token tokens = iss_csrf_token issued"
    using create by (rule create_browser_session_Inr)
  let ?row = "session_row_of ins"
  have eff: "?row \<in> set (rows (sessions d'))" "session_check ?row" "sessions_unique (sessions d')"
    "fk_current_version d'" "\<not> poisoned d'"
    using create_session_Inr [OF stored] by auto
  let ?fresh = "fresh_session issued i owner a now idle absolute"
  define se where se: "se = ?fresh\<lparr>se_state_commitment := sc\<rparr>"
  have parsed: "parse_session ?row = Inr se"
    using eff(2) ids by (simp add: parse_session_row_of ins se fresh_session_def)
  have look: "iss_lookup_id issued = l" using issued ent by (auto simp: issue_session_def)
  have found: "session_by_lookup l d' = Inr (Some se)"
    using unique_key_find [of w_lookup "sessions d'" ?row l] eff parsed look
    by (simp add: session_by_lookup_def query_def lock_def sessions_unique_def session_row_of_def ins)
  have len: "length sc = 32" using eff(2) by (simp add: session_check_def session_row_of_def ins)
  have verified: "verify_session_commitment v se = Inr ()"
    using sc len session_commitment_ignores [of ?fresh sc v now idle now None]
    by (simp add: verify_session_commitment_def se fresh_session_def)
  have typed: "session_typed se"
    using eff(2) ids exp now look ent
    by (simp add: session_typed_def se fresh_session_def session_check_def session_row_of_def ins)
  show thesis
    using verify_issued_session [OF lib ent(4-6) issued [unfolded ent(1-3)]] look
    by (intro that [OF found verified _ _ _ typed eff(1) parsed eff(2-5)])
       (simp_all add: se fresh_session_def tokens exp)
qed

lemma created_session_accepted:
  assumes create: "create_browser_session v ent i ev owner a updated req now d = (Inr tokens, d')"
    and lib: "base64_correct (vt_lib v)" "mac_correct (vt_lib v)"
    and ent: "st_lookup ent = Some l" "st_session ent = Some s" "st_csrf ent = Some x"
      "length l = 16" "length s = 32" "length x = 32"
    and ids: "length (pr_principal_id owner) = 16" "length (oa_authenticator_id a) = 16"
    and active: "principal (pr_principal_id owner) d' = Inr p" "verify_principal_commitment v p = Inr ()"
      "pr_state p = ''active''"
    and time: "i64_ok now" "now \<le> t" "t \<le> now + SESSION_IDLE_MS" "i64_ok (t + SESSION_IDLE_MS)"
  shows "\<exists>o' d''. authenticate_browser_session v (bs_session_token tokens) (Some (bs_csrf_token tokens)) True t d' =
      (Inr o', d'') \<and> ao_principal_id o' = pr_principal_id owner \<and> is_valid_at o' t \<and>
      (is_recent_at o' t \<longleftrightarrow> t \<le> now + RECENT_AUTH_MS)"
proof (rule created_session_stored [OF create lib(1) ent ids time(1)])
  fix se row
  assume found: "session_by_lookup l d' = Inr (Some se)" "verify_session_commitment v se = Inr ()"
    "verify_session (vt_lib v) (vt_token_verifier_key v) (bs_session_token tokens) l (se_verifier se) = Inr True"
    "verify_csrf (vt_lib v) (vt_token_verifier_key v) (bs_csrf_token tokens) l (se_csrf_verifier se) = Inr True"
    "session_lookup_id (vt_lib v) (bs_session_token tokens) = Some l"
  assume typed: "session_typed se" and row: "row \<in> set (rows (sessions d'))" "parse_session row = Inr se" "session_check row"
    "sessions_unique (sessions d')" "fk_current_version d'" "\<not> poisoned d'"
  assume f: "se_session_id se = i" "se_principal_id se = pr_principal_id owner" "se_created_at se = now"
    "se_last_used_at se = now" "se_recent_auth_at se = now" "se_revoked_at se = None"
    "se_idle_expires_at se = now + SESSION_IDLE_MS" "se_absolute_expires_at se = now + SESSION_ABSOLUTE_MS"
  let ?idle = "min (t + SESSION_IDLE_MS) (now + SESSION_ABSOLUTE_MS)"
  have usable: "session_usable se t" using time f by (simp add: session_usable_def session_windows)
  have i64: "i64_ok t" "i64_ok ?idle" "i64_ok (now + SESSION_ABSOLUTE_MS)"
    using time typed f by (auto simp: session_typed_def i64_ok_def session_windows)
  obtain c where c: "session_commitment v se t ?idle now None = Inr c" "length c = 32"
    using session_commitment_total [OF typed i64(1,2) time(1) lib(2)] by blast
  have w: "w_id row = i" "w_last_used row = now" "w_revoked row = None" "w_idle_expires row = now + SESSION_IDLE_MS"
    "w_absolute_expires row = now + SESSION_ABSOLUTE_MS"
    using row(2) f by (auto simp: parse_session_def result_simps)
  have "touch_where i now t ?idle row" using time w by (simp add: touch_where_def session_windows)
  moreover have "session_check (touch_set t ?idle now c row)"
    using row(3) c(2) w by (simp add: session_check_def touch_set_def)
  ultimately obtain d'' where touched: "touch_session i now t ?idle now c d' = (Inr (), d'')"
    using touch_succeeds [OF row(1) _ row(4) _ row(5,6)] by blast
  have adds: "checked_add_i64 t SESSION_IDLE_MS = Some (t + SESSION_IDLE_MS)"
    "checked_add_i64 now RECENT_AUTH_MS = Some (now + RECENT_AUTH_MS)"
    using time i64 by (auto simp: checked_add_i64_def i64_ok_def session_windows)
  have "authenticate_browser_session v (bs_session_token tokens) (Some (bs_csrf_token tokens)) True t d' =
      (Inr \<lparr>ao_principal_id = pr_principal_id owner, ao_session_id = i,
        ao_authenticator_id = se_authenticator_id se, ao_recent_auth_until = now + RECENT_AUTH_MS,
        ao_valid_from = t, ao_valid_until = ?idle\<rparr>, d'')"
    using found usable active c(1) touched adds f
    by (simp add: authenticate_browser_session_def sbind_def reading_def storing_def Let_def check_csrf_def)
  then show ?thesis using time by (simp add: is_recent_at_def is_valid_at_def session_windows)
qed

section \<open>Logout\<close>

lemma revoked_session_dead:
  assumes "tbl_find (\<lambda>w. w_id w = i) (sessions d) = Some w" "w_revoked w \<noteq> None" "ao_session_id o' = i"
  shows "verify_owner_context_active v o' t d \<noteq> Inr ()"
proof
  assume "verify_owner_context_active v o' t d = Inr ()"
  then obtain s where "session i d = Inr s" "se_revoked_at s = None"
    using assms(3) by (auto simp: verify_owner_context_active_def result_simps)
  then have "parse_session w = Inr s" "se_revoked_at s = None"
    using assms(1) by (auto simp: session_def result_simps)
  then show False using assms(2) by (auto simp: parse_session_def result_simps)
qed

lemma logout_ends_session:
  assumes "logout_browser_session v ev owner req now d = (Inr u, d')" "ao_session_id o' = ao_session_id owner"
  shows "verify_owner_context_active v o' t d' \<noteq> Inr ()"
proof -
  obtain s c audit where s: "session (ao_session_id owner) d = Inr s" "se_session_id s = ao_session_id owner"
      "revoke_session (ao_session_id owner) (se_last_used_at s) now c audit d = (Inr (), d')"
    using assms(1) unfolding logout_browser_session_def
    by (auto simp: reading_Inr storing_Inr result_simps) (metis session_id_found)
  have t: "\<exists>w. tbl_find (\<lambda>w. w_id w = ao_session_id owner) (sessions d') = Some w \<and> w_revoked w \<noteq> None"
  proof -
    let ?p = "\<lambda>w. w_id w = ao_session_id owner \<and> w_last_used w = se_last_used_at s \<and> w_revoked w = None"
    let ?f = "\<lambda>w. w\<lparr>w_revoked := Some now, w_commitment := c\<rparr>"
    have upd: "sessions d' = tbl_update ?p ?f (sessions d)" "tbl_count ?p (sessions d) = 1"
      "sessions_unique (sessions d')"
      using s(3) unfolding revoke_session_def by (auto elim!: audited_Inr simp: result_simps)
    then have "unique_key w_id (tbl_update ?p ?f (sessions d))" by (simp add: sessions_unique_def)
    then have "unique_key w_id (sessions d)" by (subst (asm) unique_key_update_iff) auto
    then show ?thesis using upd(1,2) update_one [of w_id "sessions d" ?p "ao_session_id owner" ?f] by force
  qed
  then show ?thesis using revoked_session_dead assms(2) by blast
qed

section \<open>Committed text determines the session\<close>

definition session_fields :: "session_record \<Rightarrow> string list" where
  "session_fields s = [''session'', uuid_text (se_session_id s), hex_encode (se_lookup_id s),
       hex_encode (se_verifier s), hex_encode (se_csrf_verifier s), uuid_text (se_principal_id s),
       uuid_text (se_authenticator_id s), authenticator_kind_as_str (se_auth_method s),
       dec_int (se_created_at s), dec_int (se_absolute_expires_at s),
       dec_nat (length (se_state_commitment s)), dec_int (se_last_used_at s), dec_int (se_idle_expires_at s),
       dec_int (se_absolute_expires_at s), dec_int (se_recent_auth_at s), debug_option (se_revoked_at s)]"

lemma authenticator_kind_inject: "authenticator_kind_as_str a = authenticator_kind_as_str b \<longleftrightarrow> a = b"
  by (cases a; cases b) simp_all

lemma authenticator_kind_plain: "NUL \<notin> set (authenticator_kind_as_str k)"
  by (cases k) (simp_all add: NUL_def)

lemma session_text_inject:
  assumes "session_typed a" "session_typed b" "ascii (join_nul (session_fields a)) = ascii (join_nul (session_fields b))"
  shows "a\<lparr>se_state_commitment := []\<rparr> = b\<lparr>se_state_commitment := []\<rparr>"
proof -
  have plain: "list_all (\<lambda>f. NUL \<notin> set f) (session_fields s)" for s
    by (simp add: session_fields_def plain_simps authenticator_kind_plain) (simp add: NUL_def)
  have "session_fields a = session_fields b"
    using assms(3) join_nul_inject [OF plain plain, of a b] by (simp add: ascii_inject) (simp add: session_fields_def)
  then show ?thesis
    using assms(1,2)
    by (intro session_record.equality) (simp_all add: session_fields_def text_inject authenticator_kind_inject session_typed_def)
qed

end
