(* ===== verification/App_Authorization.thy ===== *)
theory App_Authorization
  imports App_Session
begin

text \<open>
  The policy boundary (\<open>src/crates/smcv-app/src/authorization.rs\<close>): the committed graph of
  policies, grants and bindings, the decision for an owner or a service, its audit event, and
  the owner operations that change or show the graph.
\<close>

section \<open>Principals and errors\<close>

definition MAX_POLICY_LABEL_BYTES :: nat where "MAX_POLICY_LABEL_BYTES = 128"
definition MAX_AUTHORIZATION_RECORDS :: nat where "MAX_AUTHORIZATION_RECORDS = 10000"

record authenticated_service =
  asv_principal_id :: uuid
  asv_credential_id :: uuid

datatype request_principal = Owner authenticated_owner | Service authenticated_service

fun principal_id :: "request_principal \<Rightarrow> uuid" where
  "principal_id (Owner owner) = ao_principal_id owner"
| "principal_id (Service service) = asv_principal_id service"

fun credential_attribution :: "request_principal \<Rightarrow> string \<times> uuid" where
  "credential_attribution (Owner owner) = (''session'', ao_session_id owner)"
| "credential_attribution (Service service) = (''application'', asv_credential_id service)"

datatype authorization_error = Denied | RecentAuthenticationRequired | InvalidInput | Integrity | Unavailable

fun authorization_of_authentication :: "authentication_error \<Rightarrow> authorization_error" where
  "authorization_of_authentication authentication_error.Integrity = Integrity"
| "authorization_of_authentication Rejected = Denied"
| "authorization_of_authentication authentication_error.InvalidInput = InvalidInput"
| "authorization_of_authentication authentication_error.Unavailable = Unavailable"

definition map_authorization_storage :: "storage_error \<Rightarrow> authorization_error" where
  "map_authorization_storage e = authorization_of_authentication (map_auth_storage e)"

definition operation :: "request_principal \<Rightarrow> uuid \<Rightarrow> unix_ms \<Rightarrow> vault_operation_context" where
  "operation p request_id now =
     \<lparr>oc_request_id = request_id, oc_actor = Some (principal_id p),
      oc_credential_kind = Some (fst (credential_attribution p)),
      oc_credential_id = Some (snd (credential_attribution p)), oc_now = now\<rparr>"

definition require_recent :: "authenticated_owner \<Rightarrow> unix_ms \<Rightarrow> authorization_error + unit" where
  "require_recent owner now = ensure (is_recent_at owner now) RecentAuthenticationRequired"

definition action_requires_recent :: "action \<Rightarrow> bool" where
  "action_requires_recent a =
     (a \<in> {SecretValueRead, SecretHistoryRead, SecretVersionRead, SecretPurge, CredentialIssue,
           CredentialRevoke, PolicyManage, BackupCreate, BackupRestore, KeyRotate, VaultConfigure,
           VaultLock})"

section \<open>The committed graph\<close>

definition authz_commit :: "vault \<Rightarrow> string list \<Rightarrow> authorization_error + bytes" where
  "authz_commit v parts =
     map_err (\<lambda>_. Integrity) (state_commitment (vt_lib v) (vt_audit_key v) (ascii (join_nul parts)))"

definition envelope_digest :: "vault \<Rightarrow> encrypted_record \<Rightarrow> bytes" where
  "envelope_digest v e = sha256 (vt_lib v) (er_nonce e @ er_ciphertext e @ er_dek_nonce e @
     er_wrapped_dek e @ be_bytes 4 (er_kek_version e))"

definition policy_commitment :: "vault \<Rightarrow> uuid \<Rightarrow> nat \<Rightarrow> string \<Rightarrow> nat \<Rightarrow> encrypted_record \<Rightarrow> unix_ms \<Rightarrow>
    unix_ms \<Rightarrow> authorization_error + bytes" where
  "policy_commitment v policy_id revision state metadata_version e created updated =
     authz_commit v [''policy'', uuid_text policy_id, dec_nat revision, state, dec_nat metadata_version,
       hex_encode (envelope_digest v e), dec_int created, dec_int updated]"

definition grant_commitment :: "vault \<Rightarrow> uuid \<Rightarrow> grant_spec \<Rightarrow> uuid \<Rightarrow> unix_ms \<Rightarrow> authorization_error + bytes" where
  "grant_commitment v grant_id spec actor created =
     authz_commit v [''grant'', uuid_text grant_id, uuid_text (gs_policy_id spec),
       action_as_str (gs_action spec), resource_kind_as_str (gs_resource_kind spec),
       uuid_text (gs_resource_id spec), dec_nat (if gs_include_descendants spec then 1 else 0),
       uuid_text actor, dec_int created]"

definition binding_commitment :: "vault \<Rightarrow> uuid \<Rightarrow> uuid \<Rightarrow> uuid \<Rightarrow> unix_ms \<Rightarrow> authorization_error + bytes" where
  "binding_commitment v subject policy_id actor created =
     authz_commit v [''binding'', uuid_text subject, uuid_text policy_id, uuid_text actor, dec_int created]"

definition graph_item :: "char \<Rightarrow> bytes \<Rightarrow> bytes \<Rightarrow> bytes" where
  "graph_item tag key commitment = ascii [tag] @ key @ commitment"

definition policy_item :: "policy_record \<Rightarrow> bytes" where
  "policy_item p = graph_item CHR ''P'' (po_policy_id p) (po_state_commitment p)"

definition grant_item :: "policy_grant_record \<Rightarrow> bytes" where
  "grant_item g = graph_item CHR ''G'' (pg_grant_id g) (pg_state_commitment g)"

definition binding_item :: "policy_binding_record \<Rightarrow> bytes" where
  "binding_item b = graph_item CHR ''B'' (pb_principal_id b @ pb_policy_id b) (pb_state_commitment b)"

definition graph_items :: "authz_snapshot \<Rightarrow> (char \<times> bytes) option \<Rightarrow> bytes option \<Rightarrow> bytes list" where
  "graph_items sn exclude extra =
     map policy_item (filter (\<lambda>p. exclude \<noteq> Some (CHR ''P'', po_policy_id p)) (sn_policies sn)) @
     map grant_item (filter (\<lambda>g. exclude \<noteq> Some (CHR ''G'', pg_grant_id g)) (sn_grants sn)) @
     map binding_item (filter (\<lambda>b. exclude \<noteq> Some (CHR ''B'', pb_principal_id b @ pb_policy_id b)) (sn_bindings sn)) @
     (case extra of None \<Rightarrow> [] | Some item \<Rightarrow> [item])"

text \<open>The digest is over the sorted items, each behind its length.\<close>

definition items_digest :: "vault \<Rightarrow> bytes list \<Rightarrow> authorization_error + bytes" where
  "items_digest v items =
     rbind (traverse (\<lambda>item. rbind (ensure (length item \<le> u32_max) Unavailable)
       (\<lambda>_. Inr (be_bytes 4 (length item) @ item))) (sort items)) (\<lambda>chunks.
     Inr (sha256 (vt_lib v) (concat chunks)))"

definition items_commitment :: "vault \<Rightarrow> bytes list \<Rightarrow> nat \<Rightarrow> authorization_error + bytes" where
  "items_commitment v items revision =
     (if items = [] \<and> revision = 1 then authz_commit v empty_graph_fields
      else rbind (items_digest v items) (\<lambda>digest.
        authz_commit v [''authorization-graph'', ''v1'', ''revision'', dec_nat revision, hex_encode digest]))"

definition graph_commitment :: "vault \<Rightarrow> authz_snapshot \<Rightarrow> nat \<Rightarrow> (char \<times> bytes) option \<Rightarrow> bytes option \<Rightarrow>
    authorization_error + bytes" where
  "graph_commitment v sn revision exclude extra = items_commitment v (graph_items sn exclude extra) revision"

definition grant_spec_of :: "policy_grant_record \<Rightarrow> grant_spec" where
  "grant_spec_of g =
     \<lparr>gs_policy_id = pg_policy_id g, gs_action = pg_action g, gs_resource_kind = pg_resource_kind g,
      gs_resource_id = pg_resource_id g, gs_include_descendants = pg_include_descendants g\<rparr>"

definition verify_policy :: "vault \<Rightarrow> policy_record \<Rightarrow> authorization_error + unit" where
  "verify_policy v p =
     rbind (policy_commitment v (po_policy_id p) (po_revision p) (po_state p) (po_metadata_version p)
       (po_metadata p) (po_created_at p) (po_updated_at p)) (\<lambda>c.
     ensure (c = po_state_commitment p) Integrity)"

definition verify_grant :: "vault \<Rightarrow> policy_grant_record \<Rightarrow> authorization_error + unit" where
  "verify_grant v g =
     rbind (ensure (is_valid_for_service (grant_spec_of g)) Integrity) (\<lambda>_.
     rbind (grant_commitment v (pg_grant_id g) (grant_spec_of g) (pg_created_by g) (pg_created_at g)) (\<lambda>c.
     ensure (c = pg_state_commitment g) Integrity))"

definition verify_binding :: "vault \<Rightarrow> policy_binding_record \<Rightarrow> authorization_error + unit" where
  "verify_binding v b =
     rbind (binding_commitment v (pb_principal_id b) (pb_policy_id b) (pb_created_by b) (pb_created_at b)) (\<lambda>c.
     ensure (c = pb_state_commitment b) Integrity)"

definition snapshot_count :: "authz_snapshot \<Rightarrow> nat" where
  "snapshot_count sn = length (sn_policies sn) + length (sn_grants sn) + length (sn_bindings sn)"

definition verified_authorization_snapshot :: "vault \<Rightarrow> db \<Rightarrow> authorization_error + authz_snapshot" where
  "verified_authorization_snapshot v d =
     rbind (map_err map_authorization_storage (authorization_snapshot d)) (\<lambda>sn.
     rbind (ensure (snapshot_count sn \<le> MAX_AUTHORIZATION_RECORDS) Unavailable) (\<lambda>_.
     rbind (traverse (verify_policy v) (sn_policies sn)) (\<lambda>_.
     rbind (traverse (verify_grant v) (sn_grants sn)) (\<lambda>_.
     rbind (traverse (verify_binding v) (sn_bindings sn)) (\<lambda>_.
     rbind (graph_commitment v sn (as_revision (sn_state sn)) None None) (\<lambda>c.
     rbind (ensure (c = as_state_commitment (sn_state sn)) Integrity) (\<lambda>_.
     Inr sn)))))))"

section \<open>The decision\<close>

definition resource_namespace_ancestors :: "vault \<Rightarrow> resource_kind \<Rightarrow> uuid \<Rightarrow> db \<Rightarrow>
    authorization_error + uuid list" where
  "resource_namespace_ancestors v kind resource_id d =
     rbind (case kind of
         Namespace \<Rightarrow> Inr resource_id
       | Secret \<Rightarrow>
           rbind (map_err (\<lambda>_. Denied) (secret resource_id d)) (\<lambda>s.
           rbind (map_err (\<lambda>_. Integrity) (verify_secret_state v s)) (\<lambda>_.
           Inr (sr_namespace_id s)))) (\<lambda>namespace_id.
     rbind (map_err (\<lambda>_. Denied) (namespace_ancestors_inclusive namespace_id d)) (\<lambda>ancestors.
     rbind (traverse (\<lambda>a.
         rbind (map_err (\<lambda>_. Denied) (namespace a d)) (\<lambda>state.
         map_err (\<lambda>_. Integrity) (verify_namespace_state v state))) ancestors) (\<lambda>_.
     Inr ancestors)))"

definition active_policies :: "authz_snapshot \<Rightarrow> uuid \<Rightarrow> uuid list" where
  "active_policies sn subject =
     filter (\<lambda>i. list_ex (\<lambda>p. po_policy_id p = i \<and> po_state p = ''active'') (sn_policies sn))
       (map pb_policy_id (filter (\<lambda>b. pb_principal_id b = subject) (sn_bindings sn)))"

definition service_is_allowed :: "vault \<Rightarrow> uuid \<Rightarrow> action \<Rightarrow> resource_kind \<Rightarrow> uuid \<Rightarrow> db \<Rightarrow>
    authorization_error + bool" where
  "service_is_allowed v subject act kind resource_id d =
     rbind (verified_authorization_snapshot v d) (\<lambda>sn.
     rbind (resource_namespace_ancestors v kind resource_id d) (\<lambda>ancestors.
     Inr (list_ex (\<lambda>g. pg_action g = act \<and> pg_policy_id g \<in> set (active_policies sn subject) \<and>
       ((pg_resource_kind g = kind \<and> pg_resource_id g = resource_id) \<or>
        (pg_resource_kind g = Namespace \<and> list_ex (\<lambda>a. pg_resource_id g = a \<and>
           (pg_include_descendants g \<or> (kind = Namespace \<and> resource_id = a))) ancestors)))
       (sn_grants sn))))"

text \<open>The outer error is returned before any event is written; the inner one is the decision
  that is logged.\<close>

fun decide :: "vault \<Rightarrow> request_principal \<Rightarrow> action \<Rightarrow> resource_kind \<Rightarrow> uuid \<Rightarrow> unix_ms \<Rightarrow> db \<Rightarrow>
    authorization_error + (authorization_error + unit)" where
  "decide v (Owner owner) act kind resource_id now d =
     Inr (if \<not> is_valid_at owner now then Inl Denied
          else if action_requires_recent act \<and> \<not> is_recent_at owner now
          then Inl RecentAuthenticationRequired else Inr ())"
| "decide v (Service service) act kind resource_id now d =
     (if is_service_grantable act
      then case service_is_allowed v (asv_principal_id service) act kind resource_id d of
             Inr allowed \<Rightarrow> Inr (if allowed then Inr () else Inl Denied)
           | Inl e \<Rightarrow> if e = Denied then Inr (Inl Denied) else Inl e
      else Inr (Inl Denied))"

definition authorize :: "vault \<Rightarrow> uuid \<Rightarrow> request_principal \<Rightarrow> action \<Rightarrow> resource_kind \<Rightarrow> uuid \<Rightarrow> uuid \<Rightarrow>
    unix_ms \<Rightarrow> db \<Rightarrow> (authorization_error + unit) \<times> db" where
  "authorize v ev p act kind resource_id request_id now =
     reading (\<lambda>d.
       rbind (decide v p act kind resource_id now d) (\<lambda>decision.
       rbind (map_err (\<lambda>_. Unavailable) (build_audit_outcome v ev (action_as_str act)
         (resource_kind_as_str kind) (Some resource_id) (if isl decision then ''denied'' else ''allowed'')
         (operation p request_id now) d)) (\<lambda>audit.
       Inr (decision, audit))))
     (\<lambda>(decision, audit). sbind (storing map_authorization_storage (\<lambda>u. u) (append_audit audit))
        (\<lambda>_ d. (decision, d)))"

section \<open>Owner operations on the graph\<close>

text \<open>How every owner operation begins: the gate, the session behind the request, recent
  authentication where the operation asks for it, and the audited decision.\<close>

definition owner_authorized :: "vault \<Rightarrow> uuid \<Rightarrow> authenticated_owner \<Rightarrow> bool \<Rightarrow> action \<Rightarrow> uuid \<Rightarrow> uuid \<Rightarrow>
    unix_ms \<Rightarrow> db \<Rightarrow> (authorization_error + unit) \<times> db" where
  "owner_authorized v ev owner recent act resource_id request_id now =
     reading (\<lambda>d.
       rbind (ensure (vt_authorization_gate_ok v) Unavailable) (\<lambda>_.
       rbind (map_err (\<lambda>_. Denied) (verify_owner_context_active v owner now d)) (\<lambda>_.
       if recent then require_recent owner now else Inr ())))
     (\<lambda>_. authorize v ev (Owner owner) act Namespace resource_id request_id now)"

definition policy_active :: "authz_snapshot \<Rightarrow> uuid \<Rightarrow> bool" where
  "policy_active sn i = list_ex (\<lambda>p. po_policy_id p = i \<and> po_state p = ''active'') (sn_policies sn)"

definition encode_policy_label :: "bytes \<Rightarrow> authorization_error + bytes" where
  "encode_policy_label label =
     rbind (ensure (length label \<le> u16_max) InvalidInput) (\<lambda>_.
     Inr (ascii ''SMCVPL01'' @ be_bytes 2 (length label) @ label))"

definition decode_policy_label :: "bytes \<Rightarrow> authorization_error + bytes" where
  "decode_policy_label bs =
     rbind (ensure (10 \<le> length bs \<and> take 8 bs = ascii ''SMCVPL01'') Integrity) (\<lambda>_.
     let n = from_be (take 2 (drop 8 bs)) in
     rbind (ensure (\<not> (n = 0 \<or> MAX_POLICY_LABEL_BYTES < n \<or> length bs \<noteq> 10 + n)) Integrity) (\<lambda>_.
     ok_or Integrity (protected_from_utf8 (drop 10 bs))))"

definition app_create_policy :: "vault \<Rightarrow> entropy \<Rightarrow> uuid \<Rightarrow> uuid \<Rightarrow> uuid \<Rightarrow> authenticated_owner \<Rightarrow> bytes \<Rightarrow>
    uuid \<Rightarrow> unix_ms \<Rightarrow> db \<Rightarrow> (authorization_error + uuid) \<times> db" where
  "app_create_policy v ent policy_id ev0 ev owner label request_id now =
     sbind (owner_authorized v ev0 owner True PolicyManage (vt_vault_id v) request_id now) (\<lambda>_.
     reading (\<lambda>d.
       rbind (ensure (\<not> (label = [] \<or> MAX_POLICY_LABEL_BYTES < length label)) InvalidInput) (\<lambda>_.
       rbind (verified_authorization_snapshot v d) (\<lambda>sn.
       rbind (encode_policy_label label) (\<lambda>encoded.
       rbind (map_err (\<lambda>_. Unavailable) (encrypt_record v ent encoded PolicyMetadata
         WrappedPolicyMetadataKey policy_id 1)) (\<lambda>encrypted.
       rbind (policy_commitment v policy_id 1 ''active'' 1 encrypted now now) (\<lambda>pc.
       rbind (ok_or Unavailable (checked_add_u64 (as_revision (sn_state sn)) 1)) (\<lambda>next_revision.
       rbind (graph_commitment v sn next_revision None (Some (graph_item CHR ''P'' policy_id pc))) (\<lambda>gc.
       rbind (map_err (\<lambda>_. Unavailable) (build_audit v ev ''policy:create'' ''policy'' (Some policy_id)
         (operation (Owner owner) request_id now) d)) (\<lambda>audit.
       Inr (\<lparr>pi_policy_id = policy_id, pi_metadata = encrypted, pi_state_commitment = pc,
             pi_created_at = now\<rparr>, as_revision (sn_state sn), gc, audit))))))))))
     (\<lambda>(ins, revision, gc, audit). storing map_authorization_storage (\<lambda>_. policy_id)
        (create_policy ins revision gc audit)))"

definition app_archive_policy :: "vault \<Rightarrow> uuid \<Rightarrow> uuid \<Rightarrow> authenticated_owner \<Rightarrow> uuid \<Rightarrow> nat \<Rightarrow> uuid \<Rightarrow>
    unix_ms \<Rightarrow> db \<Rightarrow> (authorization_error + nat) \<times> db" where
  "app_archive_policy v ev0 ev owner policy_id expected request_id now =
     sbind (owner_authorized v ev0 owner True PolicyManage (vt_vault_id v) request_id now) (\<lambda>_.
     reading (\<lambda>d.
       rbind (verified_authorization_snapshot v d) (\<lambda>sn.
       rbind (ok_or Denied (find (\<lambda>p. po_policy_id p = policy_id) (sn_policies sn))) (\<lambda>p.
       rbind (ensure (po_revision p = expected \<and> po_state p = ''active'') Denied) (\<lambda>_.
       rbind (ok_or Unavailable (checked_add_u64 expected 1)) (\<lambda>next_policy.
       rbind (policy_commitment v policy_id next_policy ''archived'' (po_metadata_version p) (po_metadata p)
         (po_created_at p) now) (\<lambda>pc.
       rbind (ok_or Unavailable (checked_add_u64 (as_revision (sn_state sn)) 1)) (\<lambda>next_revision.
       rbind (graph_commitment v sn next_revision (Some (CHR ''P'', policy_id))
         (Some (graph_item CHR ''P'' policy_id pc))) (\<lambda>gc.
       rbind (map_err (\<lambda>_. Unavailable) (build_audit v ev ''policy:archive'' ''policy'' (Some policy_id)
         (operation (Owner owner) request_id now) d)) (\<lambda>audit.
       Inr (pc, as_revision (sn_state sn), gc, next_policy, audit))))))))))
     (\<lambda>(pc, revision, gc, next_policy, audit). storing map_authorization_storage (\<lambda>_. next_policy)
        (archive_policy policy_id expected pc now revision gc audit)))"

definition verify_grant_target :: "vault \<Rightarrow> resource_kind \<Rightarrow> uuid \<Rightarrow> db \<Rightarrow> authorization_error + unit" where
  "verify_grant_target v kind resource_id d =
     (case kind of
        Namespace \<Rightarrow>
          rbind (map_err (\<lambda>_. Denied) (namespace resource_id d)) (\<lambda>r.
          map_err (\<lambda>_. Integrity) (verify_namespace_state v r))
      | Secret \<Rightarrow>
          rbind (map_err (\<lambda>_. Denied) (secret resource_id d)) (\<lambda>r.
          map_err (\<lambda>_. Integrity) (verify_secret_state v r)))"

definition app_add_policy_grant :: "vault \<Rightarrow> uuid \<Rightarrow> uuid \<Rightarrow> uuid \<Rightarrow> authenticated_owner \<Rightarrow> grant_spec \<Rightarrow> uuid \<Rightarrow>
    unix_ms \<Rightarrow> db \<Rightarrow> (authorization_error + uuid) \<times> db" where
  "app_add_policy_grant v grant_id ev0 ev owner spec request_id now =
     sbind (owner_authorized v ev0 owner True PolicyManage (vt_vault_id v) request_id now) (\<lambda>_.
     reading (\<lambda>d.
       rbind (ensure (is_valid_for_service spec) InvalidInput) (\<lambda>_.
       rbind (verify_grant_target v (gs_resource_kind spec) (gs_resource_id spec) d) (\<lambda>_.
       rbind (verified_authorization_snapshot v d) (\<lambda>sn.
       rbind (ensure (policy_active sn (gs_policy_id spec)) Denied) (\<lambda>_.
       rbind (grant_commitment v grant_id spec (ao_principal_id owner) now) (\<lambda>c.
       rbind (ok_or Unavailable (checked_add_u64 (as_revision (sn_state sn)) 1)) (\<lambda>next_revision.
       rbind (graph_commitment v sn next_revision None (Some (graph_item CHR ''G'' grant_id c))) (\<lambda>gc.
       rbind (map_err (\<lambda>_. Unavailable) (build_audit v ev ''policy:grant-add'' ''policy''
         (Some (gs_policy_id spec)) (operation (Owner owner) request_id now) d)) (\<lambda>audit.
       Inr (\<lparr>pg_grant_id = grant_id, pg_policy_id = gs_policy_id spec, pg_action = gs_action spec,
             pg_resource_kind = gs_resource_kind spec, pg_resource_id = gs_resource_id spec,
             pg_include_descendants = gs_include_descendants spec, pg_created_by = ao_principal_id owner,
             pg_created_at = now, pg_state_commitment = c\<rparr>, as_revision (sn_state sn), gc, audit))))))))))
     (\<lambda>(g, revision, gc, audit). storing map_authorization_storage (\<lambda>_. grant_id)
        (add_policy_grant g revision gc audit)))"

definition active_service :: "vault \<Rightarrow> uuid \<Rightarrow> db \<Rightarrow> authorization_error + unit" where
  "active_service v service_id d =
     rbind (map_err map_authorization_storage (principal service_id d)) (\<lambda>p.
     rbind (map_err (\<lambda>_. Integrity) (verify_principal_commitment v p)) (\<lambda>_.
     ensure (pr_kind p = principal_kind.Service \<and> pr_state p = ''active'') Denied))"

definition bind_policy_to_service :: "vault \<Rightarrow> uuid \<Rightarrow> uuid \<Rightarrow> authenticated_owner \<Rightarrow> uuid \<Rightarrow> uuid \<Rightarrow> uuid \<Rightarrow>
    unix_ms \<Rightarrow> db \<Rightarrow> (authorization_error + unit) \<times> db" where
  "bind_policy_to_service v ev0 ev owner service_id policy_id request_id now =
     sbind (owner_authorized v ev0 owner True PolicyManage (vt_vault_id v) request_id now) (\<lambda>_.
     reading (\<lambda>d.
       rbind (active_service v service_id d) (\<lambda>_.
       rbind (verified_authorization_snapshot v d) (\<lambda>sn.
       rbind (ensure (policy_active sn policy_id) Denied) (\<lambda>_.
       rbind (binding_commitment v service_id policy_id (ao_principal_id owner) now) (\<lambda>c.
       rbind (ok_or Unavailable (checked_add_u64 (as_revision (sn_state sn)) 1)) (\<lambda>next_revision.
       rbind (graph_commitment v sn next_revision None
         (Some (graph_item CHR ''B'' (service_id @ policy_id) c))) (\<lambda>gc.
       rbind (map_err (\<lambda>_. Unavailable) (build_audit v ev ''policy:bind'' ''principal'' (Some service_id)
         (operation (Owner owner) request_id now) d)) (\<lambda>audit.
       Inr (\<lparr>pb_principal_id = service_id, pb_policy_id = policy_id, pb_created_by = ao_principal_id owner,
             pb_created_at = now, pb_state_commitment = c\<rparr>, as_revision (sn_state sn), gc, audit)))))))))
     (\<lambda>(b, revision, gc, audit). storing map_authorization_storage (\<lambda>_. ())
        (bind_policy b revision gc audit)))"

section \<open>Owner views of the graph\<close>

record policy_details =
  pd_policy_id :: uuid
  pd_label :: bytes
  pd_state :: string
  pd_revision :: nat

record policy_grant_summary =
  gm_grant_id :: uuid
  gm_action :: action
  gm_resource_kind :: resource_kind
  gm_resource_id :: uuid
  gm_include_descendants :: bool

record policy_rule_set =
  ru_authorization_revision :: nat
  ru_grants :: "policy_grant_summary list"
  ru_bindings :: "uuid list"

record effective_access_delta =
  ed_principal_id :: uuid
  ed_action :: action

definition policy_details_of :: "vault \<Rightarrow> policy_record \<Rightarrow> authorization_error + policy_details" where
  "policy_details_of v p =
     rbind (map_err (\<lambda>_. Integrity) (decrypt_record v (po_metadata p) PolicyMetadata
       WrappedPolicyMetadataKey (po_policy_id p) (po_metadata_version p))) (\<lambda>plaintext.
     rbind (decode_policy_label plaintext) (\<lambda>label.
     Inr \<lparr>pd_policy_id = po_policy_id p, pd_label = label, pd_state = po_state p,
          pd_revision = po_revision p\<rparr>))"

definition read_policy :: "vault \<Rightarrow> uuid \<Rightarrow> authenticated_owner \<Rightarrow> uuid \<Rightarrow> uuid \<Rightarrow> unix_ms \<Rightarrow> db \<Rightarrow>
    (authorization_error + policy_details) \<times> db" where
  "read_policy v ev owner policy_id request_id now =
     sbind (owner_authorized v ev owner False PolicyRead (vt_vault_id v) request_id now) (\<lambda>_.
     reading (\<lambda>d.
       rbind (verified_authorization_snapshot v d) (\<lambda>sn.
       rbind (ok_or Denied (find (\<lambda>p. po_policy_id p = policy_id) (sn_policies sn))) (\<lambda>p.
       policy_details_of v p))) (\<lambda>r d. (Inr r, d)))"

definition list_policies :: "vault \<Rightarrow> uuid \<Rightarrow> authenticated_owner \<Rightarrow> uuid option \<Rightarrow> nat \<Rightarrow> uuid \<Rightarrow> unix_ms \<Rightarrow> db \<Rightarrow>
    (authorization_error + policy_details list) \<times> db" where
  "list_policies v ev owner after limit request_id now =
     reading (\<lambda>_. ensure (1 \<le> limit \<and> limit \<le> 100) InvalidInput) (\<lambda>_.
     sbind (owner_authorized v ev owner False PolicyRead (vt_vault_id v) request_id now) (\<lambda>_.
     reading (\<lambda>d.
       rbind (verified_authorization_snapshot v d) (\<lambda>sn.
       traverse (policy_details_of v)
         (take limit (filter (\<lambda>p. is_none_or (\<lambda>a. a < po_policy_id p) after) (sn_policies sn)))))
     (\<lambda>r d. (Inr r, d))))"

definition policy_rules :: "vault \<Rightarrow> uuid \<Rightarrow> authenticated_owner \<Rightarrow> uuid \<Rightarrow> uuid \<Rightarrow> unix_ms \<Rightarrow> db \<Rightarrow>
    (authorization_error + policy_rule_set) \<times> db" where
  "policy_rules v ev owner policy_id request_id now =
     sbind (owner_authorized v ev owner False PolicyRead (vt_vault_id v) request_id now) (\<lambda>_.
     reading (\<lambda>d.
       rbind (verified_authorization_snapshot v d) (\<lambda>sn.
       rbind (ensure (list_ex (\<lambda>p. po_policy_id p = policy_id) (sn_policies sn)) Denied) (\<lambda>_.
       Inr \<lparr>ru_authorization_revision = as_revision (sn_state sn),
            ru_grants = map (\<lambda>g. \<lparr>gm_grant_id = pg_grant_id g, gm_action = pg_action g,
              gm_resource_kind = pg_resource_kind g, gm_resource_id = pg_resource_id g,
              gm_include_descendants = pg_include_descendants g\<rparr>)
              (filter (\<lambda>g. pg_policy_id g = policy_id) (sn_grants sn)),
            ru_bindings = map pb_principal_id (filter (\<lambda>b. pb_policy_id b = policy_id) (sn_bindings sn))\<rparr>)))
     (\<lambda>r d. (Inr r, d)))"

fun allowed_actions :: "vault \<Rightarrow> uuid \<Rightarrow> resource_kind \<Rightarrow> uuid \<Rightarrow> db \<Rightarrow> action list \<Rightarrow>
    authorization_error + action list" where
  "allowed_actions v service_id kind resource_id d [] = Inr []"
| "allowed_actions v service_id kind resource_id d (a # as) =
     (if is_service_grantable a
      then rbind (service_is_allowed v service_id a kind resource_id d) (\<lambda>ok.
           rbind (allowed_actions v service_id kind resource_id d as) (\<lambda>rest.
           Inr (if ok then a # rest else rest)))
      else allowed_actions v service_id kind resource_id d as)"

definition effective_service_actions :: "vault \<Rightarrow> uuid \<Rightarrow> authenticated_owner \<Rightarrow> uuid \<Rightarrow> resource_kind \<Rightarrow> uuid \<Rightarrow>
    uuid \<Rightarrow> unix_ms \<Rightarrow> db \<Rightarrow> (authorization_error + action list) \<times> db" where
  "effective_service_actions v ev owner service_id kind resource_id request_id now =
     sbind (owner_authorized v ev owner False EffectiveAccessRead (vt_vault_id v) request_id now) (\<lambda>_.
     reading (\<lambda>d.
       rbind (active_service v service_id d) (\<lambda>_.
       allowed_actions v service_id kind resource_id d all_actions)) (\<lambda>r d. (Inr r, d)))"

section \<open>Moving a namespace\<close>

text \<open>The service and action pairs that a move newly exposes, sorted and without repetition.\<close>

definition move_delta :: "authz_snapshot \<Rightarrow> uuid list \<Rightarrow> uuid list \<Rightarrow> effective_access_delta list" where
  "move_delta sn old_ancestors new_ancestors =
     remdups_adj (sort_key ed_principal_id (sort_key (\<lambda>e. ascii (action_as_str (ed_action e)))
       (concat (map (\<lambda>b.
          if policy_active sn (pb_policy_id b)
          then map (\<lambda>g. \<lparr>ed_principal_id = pb_principal_id b, ed_action = pg_action g\<rparr>)
                 (filter (\<lambda>g. pg_policy_id g = pb_policy_id b \<and> pg_resource_kind g = Namespace \<and>
                    pg_include_descendants g \<and> pg_resource_id g \<notin> set old_ancestors \<and>
                    pg_resource_id g \<in> set new_ancestors) (sn_grants sn))
          else []) (sn_bindings sn)))))"

definition preview_namespace_move_core :: "vault \<Rightarrow> authenticated_owner \<Rightarrow> uuid \<Rightarrow> uuid option \<Rightarrow> unix_ms \<Rightarrow> db \<Rightarrow>
    authorization_error + effective_access_delta list" where
  "preview_namespace_move_core v owner namespace_id new_parent now d =
     rbind (ensure (is_valid_at owner now) Denied) (\<lambda>_.
     rbind (resource_namespace_ancestors v Namespace namespace_id d) (\<lambda>old_ancestors.
     rbind (case new_parent of
         None \<Rightarrow> Inr [namespace_id]
       | Some p \<Rightarrow>
           rbind (resource_namespace_ancestors v Namespace p d) (\<lambda>parent_ancestors.
           rbind (ensure (namespace_id \<notin> set parent_ancestors) InvalidInput) (\<lambda>_.
           Inr (namespace_id # parent_ancestors)))) (\<lambda>new_ancestors.
     rbind (verified_authorization_snapshot v d) (\<lambda>sn.
     Inr (move_delta sn old_ancestors new_ancestors)))))"

definition preview_namespace_move :: "vault \<Rightarrow> uuid \<Rightarrow> authenticated_owner \<Rightarrow> uuid \<Rightarrow> uuid option \<Rightarrow> uuid \<Rightarrow>
    unix_ms \<Rightarrow> db \<Rightarrow> (authorization_error + effective_access_delta list) \<times> db" where
  "preview_namespace_move v ev owner namespace_id new_parent request_id now =
     sbind (owner_authorized v ev owner False EffectiveAccessRead namespace_id request_id now) (\<lambda>_.
     reading (preview_namespace_move_core v owner namespace_id new_parent now) (\<lambda>r d. (Inr r, d)))"

fun authorization_of_vault :: "vault_error \<Rightarrow> authorization_error" where
  "authorization_of_vault vault_error.Integrity = Integrity"
| "authorization_of_vault vault_error.InvalidInput = InvalidInput"
| "authorization_of_vault vault_error.NotFound = Denied"
| "authorization_of_vault vault_error.Conflict = Denied"
| "authorization_of_vault vault_error.Unavailable = Unavailable"

definition app_move_namespace :: "vault \<Rightarrow> uuid \<Rightarrow> uuid \<Rightarrow> authenticated_owner \<Rightarrow> uuid \<Rightarrow> nat \<Rightarrow> uuid option \<Rightarrow>
    effective_access_delta list \<Rightarrow> uuid \<Rightarrow> unix_ms \<Rightarrow> db \<Rightarrow> (authorization_error + nat) \<times> db" where
  "app_move_namespace v ev0 ev owner namespace_id expected new_parent confirmed request_id now =
     reading (\<lambda>d.
       rbind (ensure (vt_authorization_gate_ok v) Unavailable) (\<lambda>_.
       rbind (map_err (\<lambda>_. Denied) (verify_owner_context_active v owner now d)) (\<lambda>_.
       rbind (preview_namespace_move_core v owner namespace_id new_parent now d) (\<lambda>actual.
       rbind (ensure (actual = confirmed) InvalidInput) (\<lambda>_.
       if actual \<noteq> [] then require_recent owner now else Inr ())))))
     (\<lambda>_. sbind (authorize v ev0 (Owner owner) NamespaceUpdate Namespace namespace_id request_id now)
     (\<lambda>_. storing authorization_of_vault (\<lambda>r. r)
        (move_namespace_core v ev namespace_id expected new_parent (operation (Owner owner) request_id now))))"

end
