(* ===== verification/App_Policy.thy ===== *)
theory App_Policy
  imports App_Authorization "HOL-Library.Multiset"
begin

text \<open>
  What the policy boundary promises.  Access is denied by default: a service is allowed exactly
  what an active policy bound to it grants on the resource or on an ancestor namespace, and
  never an owner-only action; an owner needs a live session, and a recent one for the
  dangerous actions.  Every decision is logged with its outcome.  The incremental commitment
  of each graph change is the one a full verification recomputes, so the graph an operation
  leaves behind verifies; an archived policy grants nothing.
\<close>

section \<open>Decisions\<close>

definition granted :: "authz_snapshot \<Rightarrow> uuid \<Rightarrow> action \<Rightarrow> resource_kind \<Rightarrow> uuid \<Rightarrow> uuid list \<Rightarrow> bool" where
  "granted sn subject act kind resource_id ancestors =
     (\<exists>b \<in> set (sn_bindings sn). \<exists>p \<in> set (sn_policies sn). \<exists>g \<in> set (sn_grants sn).
        pb_principal_id b = subject \<and> po_policy_id p = pb_policy_id b \<and> po_state p = ''active'' \<and>
        pg_policy_id g = pb_policy_id b \<and> pg_action g = act \<and>
        ((pg_resource_kind g = kind \<and> pg_resource_id g = resource_id) \<or>
         (pg_resource_kind g = Namespace \<and> pg_include_descendants g \<and> pg_resource_id g \<in> set ancestors)))"

lemma active_policies_iff:
  "i \<in> set (active_policies sn subject) \<longleftrightarrow>
   (\<exists>b \<in> set (sn_bindings sn). \<exists>p \<in> set (sn_policies sn). pb_principal_id b = subject \<and> pb_policy_id b = i \<and>
      po_policy_id p = i \<and> po_state p = ''active'')"
  by (auto simp: active_policies_def list_ex_iff)

lemma service_allowed_granted:
  assumes "service_is_allowed v subject act kind resource_id d = Inr allowed"
  shows "\<exists>sn ancestors. verified_authorization_snapshot v d = Inr sn \<and>
    resource_namespace_ancestors v kind resource_id d = Inr ancestors \<and>
    (allowed \<longleftrightarrow> granted sn subject act kind resource_id ancestors)"
proof -
  obtain sn ancestors where ok: "verified_authorization_snapshot v d = Inr sn"
      "resource_namespace_ancestors v kind resource_id d = Inr ancestors"
    and allowed: "allowed = list_ex (\<lambda>g. pg_action g = act \<and> pg_policy_id g \<in> set (active_policies sn subject) \<and>
       ((pg_resource_kind g = kind \<and> pg_resource_id g = resource_id) \<or>
        (pg_resource_kind g = Namespace \<and> list_ex (\<lambda>a. pg_resource_id g = a \<and>
           (pg_include_descendants g \<or> (kind = Namespace \<and> resource_id = a))) ancestors))) (sn_grants sn)"
    using assms unfolding service_is_allowed_def by (auto simp: result_simps)
  have "allowed \<longleftrightarrow> granted sn subject act kind resource_id ancestors"
    unfolding allowed granted_def active_policies_iff list_ex_iff by (rule iffI) (elim bexE conjE, metis)+
  then show ?thesis using ok by blast
qed

lemma decide_service_allowed:
  assumes "decide v (Service s) act kind resource_id now d = Inr (Inr ())"
  shows "is_service_grantable act \<and> (\<exists>sn ancestors. verified_authorization_snapshot v d = Inr sn \<and>
    resource_namespace_ancestors v kind resource_id d = Inr ancestors \<and>
    granted sn (asv_principal_id s) act kind resource_id ancestors)"
  using assms service_allowed_granted by (fastforce split: if_splits sum.splits)

lemma authorize_Inr:
  assumes "authorize v ev p act kind resource_id req now d = (Inr (), d')"
  shows "decide v p act kind resource_id now d = Inr (Inr ()) \<and>
    (\<exists>a. append_audit a d = (Inr (), d') \<and> attributed v (action_as_str act) (resource_kind_as_str kind)
       (Some resource_id) ''allowed'' (operation p req now) a)"
  using assms unfolding authorize_def
  by (auto simp: reading_Inr sbind_Inr storing_Inr result_simps) (blast intro: build_attributed)

lemma authorize_Inl:
  assumes "authorize v ev p act kind resource_id req now d = (Inl e, d')"
  shows "d' = d \<or> (decide v p act kind resource_id now d = Inr (Inl e) \<and>
    (\<exists>a. append_audit a d = (Inr (), d') \<and> attributed v (action_as_str act) (resource_kind_as_str kind)
       (Some resource_id) ''denied'' (operation p req now) a))"
  using assms unfolding authorize_def
  by (auto simp: reading_Inl reading_Inr sbind_Inl storing_Inl storing_Inr result_simps
      dest: append.failure_unchanged)
     (blast intro: build_attributed)

section \<open>Contracts\<close>

lemma append_reported: "event_sound v a \<Longrightarrow> reported v d (snd (append_audit a d))"
  using append.audited_reported by simp

lemma authorize_reported [report_intros]: "reported v d (snd (authorize v ev p act kind i req now d))"
  unfolding authorize_def
  by (auto split: prod.splits intro!: report_intros append_reported simp: result_simps dest: build_sound)

lemma owner_authorized_reported [report_intros]:
  "reported v d (snd (owner_authorized v ev owner recent act i req now d))"
  unfolding owner_authorized_def by (auto intro!: report_intros)

lemma graph_ops_reported:
  "event_sound v a \<Longrightarrow> reported v d (snd (create_policy ins n c a d))"
  "event_sound v a \<Longrightarrow> reported v d (snd (add_policy_grant g n c a d))"
  "event_sound v a \<Longrightarrow> reported v d (snd (archive_policy i k pc now n c a d))"
  "event_sound v a \<Longrightarrow> reported v d (snd (bind_policy b n c a d))"
  using policy_create.audited_reported [of v a d "(ins, n, c)"] grant_add.audited_reported [of v a d "(g, n, c)"]
    policy_archive.audited_reported [of v a d "(i, k, pc, now, n, c)"] policy_bind.audited_reported [of v a d "(b, n, c)"]
  by simp_all

interpretation app_policy_create: reporting_operation
  "\<lambda>v (ent, i, ev0, ev, owner, label, req, now). app_create_policy v ent i ev0 ev owner label req now"
  unfolding app_create_policy_def
  by unfold_locales
     (auto split: prod.splits intro!: report_intros graph_ops_reported simp: result_simps dest: build_audit_sound)

interpretation app_policy_archive: reporting_operation
  "\<lambda>v (ev0, ev, owner, i, n, req, now). app_archive_policy v ev0 ev owner i n req now"
  unfolding app_archive_policy_def
  by unfold_locales
     (auto split: prod.splits intro!: report_intros graph_ops_reported simp: result_simps dest: build_audit_sound)

interpretation app_grant_add: reporting_operation
  "\<lambda>v (i, ev0, ev, owner, spec, req, now). app_add_policy_grant v i ev0 ev owner spec req now"
  unfolding app_add_policy_grant_def
  by unfold_locales
     (auto split: prod.splits intro!: report_intros graph_ops_reported simp: result_simps dest: build_audit_sound)

interpretation app_policy_bind: reporting_operation
  "\<lambda>v (ev0, ev, owner, s, i, req, now). bind_policy_to_service v ev0 ev owner s i req now"
  unfolding bind_policy_to_service_def
  by unfold_locales
     (auto split: prod.splits intro!: report_intros graph_ops_reported simp: result_simps dest: build_audit_sound)

interpretation app_ns_move: reporting_operation
  "\<lambda>v (ev0, ev, owner, i, n, parent, delta, req, now). app_move_namespace v ev0 ev owner i n parent delta req now"
  unfolding app_move_namespace_def
  by unfold_locales
     (auto split: prod.splits intro!: report_intros vault_move_ns.run_reported [where i = "(_, _, _, _, _)", simplified])

section \<open>The graph verifies after a change\<close>

lemma traverse_as_map:
  "traverse f xs = Inr ys \<longleftrightarrow> (\<forall>x \<in> set xs. f x = Inr (projr (f x))) \<and> ys = map (\<lambda>x. projr (f x)) xs"
proof (induction xs arbitrary: ys)
  case (Cons x xs)
  then show ?case by (cases "f x") (auto simp: rbind_eq_Inr)
qed auto

lemma traverse_units: "(\<exists>us. traverse f xs = Inr us) \<longleftrightarrow> (\<forall>x \<in> set xs. f x = Inr ())"
  by (auto simp: traverse_as_map)

lemma traverse_sorted_mset:
  assumes "traverse f (sort_key k xs) = Inr ys"
  shows "mset ys = image_mset (\<lambda>x. projr (f x)) (mset xs) \<and> (\<forall>x \<in> set xs. f x = Inr (projr (f x)))"
  using assms by (simp add: traverse_as_map)

lemma traverse_sorted_total:
  "\<forall>x \<in> set xs. f x = Inr (projr (f x)) \<Longrightarrow> \<exists>ys. traverse f (sort_key k xs) = Inr ys"
  by (simp add: traverse_as_map)

lemma items_commitment_mset:
  assumes "mset a = mset b"
  shows "items_commitment v a revision = items_commitment v b revision"
proof -
  have "sort a = sort b" using assms by (intro properties_for_sort) simp_all
  moreover have "a = [] \<longleftrightarrow> b = []" using assms by (metis mset_zero_iff)
  ultimately show ?thesis by (simp add: items_commitment_def items_digest_def)
qed

definition graph_verified :: "vault \<Rightarrow> authz_snapshot \<Rightarrow> bool" where
  "graph_verified v sn =
     (snapshot_count sn \<le> MAX_AUTHORIZATION_RECORDS \<and> (\<forall>p \<in> set (sn_policies sn). verify_policy v p = Inr ()) \<and>
      (\<forall>g \<in> set (sn_grants sn). verify_grant v g = Inr ()) \<and>
      (\<forall>b \<in> set (sn_bindings sn). verify_binding v b = Inr ()) \<and>
      graph_commitment v sn (as_revision (sn_state sn)) None None = Inr (as_state_commitment (sn_state sn)))"

lemma verified_snapshot_iff:
  "verified_authorization_snapshot v d = Inr sn \<longleftrightarrow> authorization_snapshot d = Inr sn \<and> graph_verified v sn"
  unfolding verified_authorization_snapshot_def graph_verified_def
  by (auto simp: rbind_eq_Inr map_err_eq_Inr ensure_eq_Inr simp flip: traverse_units)

lemma snapshot_Inr:
  "authorization_snapshot d = Inr sn \<longleftrightarrow> \<not> poisoned d \<and>
     parse_authz_state (authorization_state d) = Inr (sn_state sn) \<and>
     traverse parse_policy (sort_key l_id (rows (policies d))) = Inr (sn_policies sn) \<and>
     traverse parse_grant (sort_key g_id (rows (policy_grants d))) = Inr (sn_grants sn) \<and>
     traverse parse_binding (sort_key b_principal (sort_key b_policy (rows (policy_bindings d)))) = Inr (sn_bindings sn)"
  unfolding authorization_snapshot_def by (cases sn) (auto simp: result_simps)

lemma snapshot_logged: "authorization_snapshot (logged a d) = authorization_snapshot d"
  by (simp add: authorization_snapshot_def query_def lock_def)

lemma parse_authz_state_new:
  "length c = 32 \<Longrightarrow> int n + 1 \<le> i64_max \<Longrightarrow>
   parse_authz_state \<lparr>z_revision = int n + 1, z_commitment = c\<rparr> =
     Inr \<lparr>as_revision = n + 1, as_state_commitment = c\<rparr>"
  by (simp add: parse_authz_state_def u64_of_i64_def nat_add_distrib)

lemma graph_items_mset:
  "mset (graph_items sn None None) = image_mset policy_item (mset (sn_policies sn)) +
     image_mset grant_item (mset (sn_grants sn)) + image_mset binding_item (mset (sn_bindings sn))"
  by (simp add: graph_items_def)

lemma graph_items_extra: "mset (graph_items sn None (Some x)) = add_mset x (mset (graph_items sn None None))"
  by (simp add: graph_items_def)

lemma graph_extended:
  assumes "graph_commitment v sn (n + 1) exclude extra = Inr c"
    and "sn_state sn' = \<lparr>as_revision = n + 1, as_state_commitment = c\<rparr>"
    and "mset (graph_items sn' None None) = mset (graph_items sn exclude extra)"
    and "snapshot_count sn' \<le> MAX_AUTHORIZATION_RECORDS"
    and "\<forall>p \<in> set (sn_policies sn'). verify_policy v p = Inr ()"
    and "\<forall>g \<in> set (sn_grants sn'). verify_grant v g = Inr ()"
    and "\<forall>b \<in> set (sn_bindings sn'). verify_binding v b = Inr ()"
  shows "graph_verified v sn'"
  using assms items_commitment_mset [OF assms(3)] by (simp add: graph_verified_def graph_commitment_def)


text \<open>A stored row joins the snapshot, whatever its place in the order.\<close>

lemma traverse_inserted:
  assumes "traverse f xs = Inr ys" "f x = Inr y" "mset xs' = add_mset x (mset xs)"
  shows "\<exists>ys'. traverse f xs' = Inr ys' \<and> mset ys' = add_mset y (mset ys)"
proof -
  have old: "\<forall>x \<in> set xs. f x = Inr (projr (f x))" "ys = map (\<lambda>x. projr (f x)) xs"
    using assms(1) by (auto simp: traverse_as_map)
  have "set xs' = insert x (set xs)" using assms(3) by (metis set_mset_add_mset_insert set_mset_mset)
  then have "traverse f xs' = Inr (map (\<lambda>x. projr (f x)) xs')" using old assms(2) by (simp add: traverse_as_map)
  then show ?thesis using old(2) assms(2,3) by simp
qed

definition graph_changed :: "audit_record \<Rightarrow> authorization_row \<Rightarrow> db \<Rightarrow> db" where
  "graph_changed a z d = logged a (d\<lparr>authorization_state := z\<rparr>)"

lemma snapshot_policy_added:
  assumes "authorization_snapshot d = Inr sn" "parse_policy r = Inr p" "parse_authz_state z = Inr st"
  shows "\<exists>sn'. authorization_snapshot (graph_changed a z (d\<lparr>policies := tbl_insert r (policies d)\<rparr>)) = Inr sn' \<and>
    sn_state sn' = st \<and> sn_grants sn' = sn_grants sn \<and> sn_bindings sn' = sn_bindings sn \<and>
    mset (sn_policies sn') = add_mset p (mset (sn_policies sn))"
proof -
  note sn = assms(1) [unfolded snapshot_Inr]
  then obtain ps where "traverse parse_policy (sort_key l_id (rows (policies d) @ [r])) = Inr ps"
      "mset ps = add_mset p (mset (sn_policies sn))"
    using traverse_inserted [of parse_policy _ _ r p "sort_key l_id (rows (policies d) @ [r])"] assms(2) by force
  then show ?thesis
    using sn assms(3)
    by (intro exI [of _ "sn\<lparr>sn_policies := ps, sn_state := st\<rparr>"])
       (simp add: graph_changed_def snapshot_logged snapshot_Inr)
qed

lemma snapshot_grant_added:
  assumes "authorization_snapshot d = Inr sn" "parse_grant r = Inr g" "parse_authz_state z = Inr st"
  shows "\<exists>sn'. authorization_snapshot (graph_changed a z (d\<lparr>policy_grants := tbl_insert r (policy_grants d)\<rparr>)) = Inr sn' \<and>
    sn_state sn' = st \<and> sn_policies sn' = sn_policies sn \<and> sn_bindings sn' = sn_bindings sn \<and>
    mset (sn_grants sn') = add_mset g (mset (sn_grants sn))"
proof -
  note sn = assms(1) [unfolded snapshot_Inr]
  then obtain gs where "traverse parse_grant (sort_key g_id (rows (policy_grants d) @ [r])) = Inr gs"
      "mset gs = add_mset g (mset (sn_grants sn))"
    using traverse_inserted [of parse_grant _ _ r g "sort_key g_id (rows (policy_grants d) @ [r])"] assms(2) by force
  then show ?thesis
    using sn assms(3)
    by (intro exI [of _ "sn\<lparr>sn_grants := gs, sn_state := st\<rparr>"])
       (simp add: graph_changed_def snapshot_logged snapshot_Inr)
qed

lemma snapshot_binding_added:
  assumes "authorization_snapshot d = Inr sn" "parse_binding r = Inr b" "parse_authz_state z = Inr st"
  shows "\<exists>sn'. authorization_snapshot (graph_changed a z (d\<lparr>policy_bindings := tbl_insert r (policy_bindings d)\<rparr>)) = Inr sn' \<and>
    sn_state sn' = st \<and> sn_policies sn' = sn_policies sn \<and> sn_grants sn' = sn_grants sn \<and>
    mset (sn_bindings sn') = add_mset b (mset (sn_bindings sn))"
proof -
  note sn = assms(1) [unfolded snapshot_Inr]
  then obtain bs where "traverse parse_binding (sort_key b_principal (sort_key b_policy (rows (policy_bindings d) @ [r]))) = Inr bs"
      "mset bs = add_mset b (mset (sn_bindings sn))"
    using traverse_inserted [of parse_binding _ _ r b
        "sort_key b_principal (sort_key b_policy (rows (policy_bindings d) @ [r]))"] assms(2) by force
  then show ?thesis
    using sn assms(3)
    by (intro exI [of _ "sn\<lparr>sn_bindings := bs, sn_state := st\<rparr>"])
       (simp add: graph_changed_def snapshot_logged snapshot_Inr)
qed


lemma owner_authorized_Inr:
  assumes "owner_authorized v ev owner recent act i req now d = (Inr (), d')"
  shows "verified_authorization_snapshot v d' = verified_authorization_snapshot v d \<and>
    (\<exists>a. d' = logged a d) \<and> verify_owner_context_active v owner now d = Inr () \<and>
    (recent \<longrightarrow> is_recent_at owner now)"
proof -
  from assms have live: "verify_owner_context_active v owner now d = Inr ()" "recent \<longrightarrow> is_recent_at owner now"
    and go: "authorize v ev (Owner owner) act Namespace i req now d = (Inr (), d')"
    by (auto simp: owner_authorized_def reading_Inr result_simps require_recent_def split: if_splits)
  obtain a where a: "d' = logged a d"
    using authorize_Inr [OF go] by (auto dest!: append_audit_Inr)
  then have "verified_authorization_snapshot v d' = verified_authorization_snapshot v d"
    by (simp add: verified_authorization_snapshot_def snapshot_logged)
  then show ?thesis using live a by blast
qed

lemma mset_one_more: "mset ys = add_mset x (mset xs) \<Longrightarrow> length ys = Suc (length xs)"
  by (metis size_mset size_add_mset)

text \<open>A grant, a binding or a policy that an owner adds leaves a graph that verifies, with the
  new record and nothing else changed.\<close>

lemma grant_added_verifies:
  assumes run: "app_add_policy_grant v i ev0 ev owner spec req now d = (Inr x, d')"
    and old: "verified_authorization_snapshot v d = Inr sn" "snapshot_count sn < MAX_AUTHORIZATION_RECORDS"
    and uuids: "length (gs_policy_id spec) = 16" "length (ao_principal_id owner) = 16"
  shows "\<exists>sn' g. verified_authorization_snapshot v d' = Inr sn' \<and> grant_spec_of g = spec \<and> pg_grant_id g = i \<and>
    mset (sn_grants sn') = add_mset g (mset (sn_grants sn)) \<and> sn_policies sn' = sn_policies sn \<and>
    sn_bindings sn' = sn_bindings sn"
proof -
  let ?rev = "as_revision (sn_state sn)"
  let ?g = "\<lambda>c. \<lparr>pg_grant_id = i, pg_policy_id = gs_policy_id spec, pg_action = gs_action spec,
     pg_resource_kind = gs_resource_kind spec, pg_resource_id = gs_resource_id spec,
     pg_include_descendants = gs_include_descendants spec, pg_created_by = ao_principal_id owner,
     pg_created_at = now, pg_state_commitment = c\<rparr>"
  from run obtain d0 sn0 c gc a y
    where "owner_authorized v ev0 owner True PolicyManage (vt_vault_id v) req now d = (Inr (), d0)"
      "verified_authorization_snapshot v d0 = Inr sn0" and spec: "is_valid_for_service spec"
      and c: "grant_commitment v i spec (ao_principal_id owner) now = Inr c"
      and gc0: "graph_commitment v sn0 (as_revision (sn_state sn0) + 1) None (Some (graph_item CHR ''G'' i c)) = Inr gc"
      and ok0: "add_policy_grant (?g c) (as_revision (sn_state sn0)) gc a d0 = (Inr y, d')"
    unfolding app_add_policy_grant_def sbind_Inr reading_Inr by (auto simp: result_simps storing_Inr)
  then have [simp]: "sn0 = sn" and sn: "verified_authorization_snapshot v d0 = Inr sn"
    using owner_authorized_Inr old(1) by (metis sum.inject(2))+
  note ok = add_policy_grant_Inr [OF ok0]
  have "parse_grant (grant_row_of (?g c)) = Inr (?g c)"
    using ok uuids by (intro parse_grant_row_of) auto
  moreover have "authorization_snapshot d0 = Inr sn" and graph: "graph_verified v sn"
    using sn by (simp_all add: verified_snapshot_iff)
  moreover have "parse_authz_state \<lparr>z_revision = int ?rev + 1, z_commitment = gc\<rparr> =
      Inr \<lparr>as_revision = ?rev + 1, as_state_commitment = gc\<rparr>"
    using ok by (intro parse_authz_state_new) auto
  ultimately obtain sn' where new: "authorization_snapshot d' = Inr sn'"
      "sn_state sn' = \<lparr>as_revision = ?rev + 1, as_state_commitment = gc\<rparr>" "sn_policies sn' = sn_policies sn"
      "sn_bindings sn' = sn_bindings sn" "mset (sn_grants sn') = add_mset (?g c) (mset (sn_grants sn))"
    using snapshot_grant_added ok by (fastforce simp: graph_changed_def)
  have "graph_verified v sn'"
  proof (rule graph_extended)
    show "graph_commitment v sn (?rev + 1) None (Some (graph_item CHR ''G'' i c)) = Inr gc" using gc0 by simp
    show "mset (graph_items sn' None None) = mset (graph_items sn None (Some (graph_item CHR ''G'' i c)))"
      using new by (simp add: graph_items_mset graph_items_extra grant_item_def)
    show "snapshot_count sn' \<le> MAX_AUTHORIZATION_RECORDS"
      using old(2) new mset_one_more [OF new(5)] by (simp add: snapshot_count_def)
    have "grant_spec_of (?g c) = spec" by (simp add: grant_spec_of_def)
    then have "verify_grant v (?g c) = Inr ()"
      using spec c by (simp add: verify_grant_def ensure_def)
    then show "\<forall>g \<in> set (sn_grants sn'). verify_grant v g = Inr ()"
      using graph new(5) by (auto simp: graph_verified_def simp flip: set_mset_mset)
  qed (use new graph in \<open>auto simp: graph_verified_def\<close>)
  then show ?thesis
    using new by (intro exI [of _ sn'] exI [of _ "?g c"]) (simp add: verified_snapshot_iff grant_spec_of_def)
qed

lemma binding_added_verifies:
  assumes run: "bind_policy_to_service v ev0 ev owner service i req now d = (Inr x, d')"
    and old: "verified_authorization_snapshot v d = Inr sn" "snapshot_count sn < MAX_AUTHORIZATION_RECORDS"
    and uuids: "length service = 16" "length i = 16" "length (ao_principal_id owner) = 16"
  shows "\<exists>sn' b. verified_authorization_snapshot v d' = Inr sn' \<and> pb_principal_id b = service \<and> pb_policy_id b = i \<and>
    mset (sn_bindings sn') = add_mset b (mset (sn_bindings sn)) \<and> sn_policies sn' = sn_policies sn \<and>
    sn_grants sn' = sn_grants sn"
proof -
  let ?rev = "as_revision (sn_state sn)"
  let ?b = "\<lambda>c. \<lparr>pb_principal_id = service, pb_policy_id = i, pb_created_by = ao_principal_id owner,
     pb_created_at = now, pb_state_commitment = c\<rparr>"
  from run obtain d0 sn0 c gc a y
    where "owner_authorized v ev0 owner True PolicyManage (vt_vault_id v) req now d = (Inr (), d0)"
      "verified_authorization_snapshot v d0 = Inr sn0"
      and c: "binding_commitment v service i (ao_principal_id owner) now = Inr c"
      and gc0: "graph_commitment v sn0 (as_revision (sn_state sn0) + 1) None (Some (graph_item CHR ''B'' (service @ i) c)) = Inr gc"
      and ok0: "bind_policy (?b c) (as_revision (sn_state sn0)) gc a d0 = (Inr y, d')"
    unfolding bind_policy_to_service_def sbind_Inr reading_Inr by (auto simp: result_simps storing_Inr)
  then have [simp]: "sn0 = sn" and sn: "verified_authorization_snapshot v d0 = Inr sn"
    using owner_authorized_Inr old(1) by (metis sum.inject(2))+
  note ok = bind_policy_Inr [OF ok0]
  have "parse_binding (binding_row_of (?b c)) = Inr (?b c)"
    using ok uuids by (intro parse_binding_row_of) auto
  moreover have "authorization_snapshot d0 = Inr sn" and graph: "graph_verified v sn"
    using sn by (simp_all add: verified_snapshot_iff)
  moreover have "parse_authz_state \<lparr>z_revision = int ?rev + 1, z_commitment = gc\<rparr> =
      Inr \<lparr>as_revision = ?rev + 1, as_state_commitment = gc\<rparr>"
    using ok by (intro parse_authz_state_new) auto
  ultimately obtain sn' where new: "authorization_snapshot d' = Inr sn'"
      "sn_state sn' = \<lparr>as_revision = ?rev + 1, as_state_commitment = gc\<rparr>" "sn_policies sn' = sn_policies sn"
      "sn_grants sn' = sn_grants sn" "mset (sn_bindings sn') = add_mset (?b c) (mset (sn_bindings sn))"
    using snapshot_binding_added ok by (fastforce simp: graph_changed_def)
  have "graph_verified v sn'"
  proof (rule graph_extended)
    show "graph_commitment v sn (?rev + 1) None (Some (graph_item CHR ''B'' (service @ i) c)) = Inr gc" using gc0 by simp
    show "mset (graph_items sn' None None) = mset (graph_items sn None (Some (graph_item CHR ''B'' (service @ i) c)))"
      using new by (simp add: graph_items_mset graph_items_extra binding_item_def)
    show "snapshot_count sn' \<le> MAX_AUTHORIZATION_RECORDS"
      using old(2) new mset_one_more [OF new(5)] by (simp add: snapshot_count_def)
    have "verify_binding v (?b c) = Inr ()"
      using c by (simp add: verify_binding_def ensure_def)
    then show "\<forall>b \<in> set (sn_bindings sn'). verify_binding v b = Inr ()"
      using graph new(5) by (auto simp: graph_verified_def simp flip: set_mset_mset)
  qed (use new graph in \<open>auto simp: graph_verified_def\<close>)
  then show ?thesis
    using new by (intro exI [of _ sn'] exI [of _ "?b c"]) (simp add: verified_snapshot_iff)
qed

definition new_policy :: "policy_insert \<Rightarrow> policy_record" where
  "new_policy p =
     \<lparr>po_policy_id = pi_policy_id p, po_revision = 1, po_state = ''active'', po_metadata_version = 1,
      po_metadata = pi_metadata p, po_state_commitment = pi_state_commitment p,
      po_created_at = pi_created_at p, po_updated_at = pi_created_at p\<rparr>"

lemma parse_policy_row_of:
  assumes "policy_check (policy_row_of p)" "er_kek_version (pi_metadata p) \<le> u32_max"
  shows "parse_policy (policy_row_of p) = Inr (new_policy p)"
  using assms by (simp add: policy_check_def policy_row_of_def parse_policy_def parse_uuid_def new_policy_def
      u64_of_i64_def i64_max_def parse_envelope_def enc_check_def enc_cols_of_def)

lemma policy_added_snapshot:
  assumes run: "app_create_policy v ent i ev0 ev owner label req now d = (Inr x, d')" and "ring_ok v"
    and old: "verified_authorization_snapshot v d = Inr sn"
  shows "\<exists>sn' p. authorization_snapshot d' = Inr sn' \<and> snapshot_count sn' = Suc (snapshot_count sn) \<and>
    (snapshot_count sn < MAX_AUTHORIZATION_RECORDS \<longrightarrow> graph_verified v sn') \<and> po_policy_id p = i \<and> po_state p = ''active'' \<and>
    mset (sn_policies sn') = add_mset p (mset (sn_policies sn)) \<and> sn_grants sn' = sn_grants sn \<and>
    sn_bindings sn' = sn_bindings sn"
proof -
  let ?rev = "as_revision (sn_state sn)"
  let ?p = "\<lambda>e c. \<lparr>pi_policy_id = i, pi_metadata = e, pi_state_commitment = c, pi_created_at = now\<rparr>"
  from run obtain d0 sn0 c gc a y e encoded
    where "owner_authorized v ev0 owner True PolicyManage (vt_vault_id v) req now d = (Inr (), d0)"
      "verified_authorization_snapshot v d0 = Inr sn0"
      and e: "encrypt_record v ent encoded PolicyMetadata WrappedPolicyMetadataKey i 1 = Inr e"
      and c: "policy_commitment v i 1 ''active'' 1 e now now = Inr c"
      and gc0: "graph_commitment v sn0 (as_revision (sn_state sn0) + 1) None (Some (graph_item CHR ''P'' i c)) = Inr gc"
      and ok0: "create_policy (?p e c) (as_revision (sn_state sn0)) gc a d0 = (Inr y, d')"
    unfolding app_create_policy_def sbind_Inr reading_Inr by (auto simp: result_simps storing_Inr)
  then have [simp]: "sn0 = sn" and sn: "verified_authorization_snapshot v d0 = Inr sn"
    using owner_authorized_Inr old by (metis sum.inject(2))+
  note ok = create_policy_Inr [OF ok0]
  have "parse_policy (policy_row_of (?p e c)) = Inr (new_policy (?p e c))"
    using ok e assms(2) by (intro parse_policy_row_of) (auto simp: encrypt_record_def result_simps ring_ok_def is_none_or_def)
  moreover have "authorization_snapshot d0 = Inr sn" and graph: "graph_verified v sn"
    using sn by (simp_all add: verified_snapshot_iff)
  moreover have "parse_authz_state \<lparr>z_revision = int ?rev + 1, z_commitment = gc\<rparr> =
      Inr \<lparr>as_revision = ?rev + 1, as_state_commitment = gc\<rparr>"
    using ok by (intro parse_authz_state_new) auto
  ultimately obtain sn' where new: "authorization_snapshot d' = Inr sn'"
      "sn_state sn' = \<lparr>as_revision = ?rev + 1, as_state_commitment = gc\<rparr>" "sn_grants sn' = sn_grants sn"
      "sn_bindings sn' = sn_bindings sn" "mset (sn_policies sn') = add_mset (new_policy (?p e c)) (mset (sn_policies sn))"
    using snapshot_policy_added ok by (fastforce simp: graph_changed_def)
  have "graph_verified v sn'" if bound: "snapshot_count sn < MAX_AUTHORIZATION_RECORDS"
  proof (rule graph_extended)
    show "graph_commitment v sn (?rev + 1) None (Some (graph_item CHR ''P'' i c)) = Inr gc" using gc0 by simp
    show "mset (graph_items sn' None None) = mset (graph_items sn None (Some (graph_item CHR ''P'' i c)))"
      using new by (simp add: graph_items_mset graph_items_extra policy_item_def new_policy_def)
    show "snapshot_count sn' \<le> MAX_AUTHORIZATION_RECORDS"
      using bound new mset_one_more [OF new(5)] by (simp add: snapshot_count_def)
    have "verify_policy v (new_policy (?p e c)) = Inr ()"
      using c by (simp add: verify_policy_def ensure_def new_policy_def)
    then show "\<forall>p \<in> set (sn_policies sn'). verify_policy v p = Inr ()"
      using graph new(5) by (auto simp: graph_verified_def simp flip: set_mset_mset)
  qed (use new graph in \<open>auto simp: graph_verified_def\<close>)
  then show ?thesis
    using new mset_one_more [OF new(5)]
    by (intro exI [of _ sn'] exI [of _ "new_policy (?p e c)"]) (simp add: snapshot_count_def new_policy_def)
qed

lemma policy_added_verifies:
  assumes "app_create_policy v ent i ev0 ev owner label req now d = (Inr x, d')" and "ring_ok v"
    and "verified_authorization_snapshot v d = Inr sn" "snapshot_count sn < MAX_AUTHORIZATION_RECORDS"
  shows "\<exists>sn' p. verified_authorization_snapshot v d' = Inr sn' \<and> po_policy_id p = i \<and> po_state p = ''active'' \<and>
    mset (sn_policies sn') = add_mset p (mset (sn_policies sn)) \<and> sn_grants sn' = sn_grants sn \<and>
    sn_bindings sn' = sn_bindings sn"
  using policy_added_snapshot [OF assms(1-3)] assms(4) by (auto simp: verified_snapshot_iff)

text \<open>The limit is tested on the graph before the change only: the record that passes it is
  stored, and then no snapshot verifies, so no service is allowed anything and no policy can
  be archived.\<close>

lemma full_graph_locks:
  assumes "app_create_policy v ent i ev0 ev owner label req now d = (Inr x, d')" "ring_ok v"
    and "verified_authorization_snapshot v d = Inr sn" "snapshot_count sn = MAX_AUTHORIZATION_RECORDS"
  shows "verified_authorization_snapshot v d' = Inl Unavailable \<and>
    service_is_allowed v subject act kind r d' = Inl Unavailable"
  using policy_added_snapshot [OF assms(1-3)] assms(4)
  by (auto simp: verified_authorization_snapshot_def service_is_allowed_def ensure_def)

text \<open>Archiving replaces the one policy and keeps the rest.\<close>

definition archived :: "uuid \<Rightarrow> nat \<Rightarrow> bytes \<Rightarrow> unix_ms \<Rightarrow> policy_record \<Rightarrow> policy_record" where
  "archived i n c u p = (if po_policy_id p = i
     then p\<lparr>po_state := ''archived'', po_revision := n + 1, po_state_commitment := c, po_updated_at := u\<rparr> else p)"

lemma parse_policy_archived:
  assumes "parse_policy l = Inr p" "l_id l = i \<longleftrightarrow> archive_where i n l" "length c = 32" "int n + 1 \<le> i64_max"
  shows "parse_policy (if archive_where i n l then archive_set n c u l else l) = Inr (archived i n c u p)"
  using assms unfolding parse_policy_def
  by (auto simp: archive_set_def archived_def result_simps parse_uuid_def u64_of_i64_def nat_add_distrib
      split: if_splits)

lemma replaced_items:
  assumes "distinct (map k ps)" "p \<in> set ps" "k p = i" "\<And>q. k q \<noteq> i \<Longrightarrow> h q = q"
  shows "image_mset g (image_mset h (mset ps)) = add_mset (g (h p)) (image_mset g (mset (filter (\<lambda>q. k q \<noteq> i) ps)))"
proof -
  obtain xs ys where ps: "ps = xs @ p # ys" using assms(2) by (auto simp: in_set_conv_decomp)
  then have "\<forall>q \<in> set xs \<union> set ys. k q \<noteq> i" using assms(1,3) by (auto dest: sym intro: imageI)
  then have "filter (\<lambda>q. k q \<noteq> i) ps = xs @ ys" "map h xs = xs" "map h ys = ys"
    using assms(3,4) ps by (auto intro: map_idI)
  then show ?thesis using ps by (simp flip: mset_map map_append)
qed

lemma archive_policy_bound: "archive_policy i n pc u e c a d = (Inr x, d') \<Longrightarrow> int n + 1 \<le> i64_max"
  unfolding archive_policy_def guarded_Inr
  by (elim exE conjE, simp only: prod.case split_beta, elim audited_effect) (auto simp: result_simps advance_Inr add.commute)

lemma counted_row: "tbl_count p t = 1 \<Longrightarrow> \<exists>r \<in> set (rows t). p r"
  by (fastforce simp: tbl_count_def tbl_select_def length_Suc_conv filter_eq_Cons_iff)

lemma snapshot_policy_archived:
  assumes sn: "authorization_snapshot d = Inr sn" and uniq: "unique_key l_id (policies d)"
    and one: "tbl_count (archive_where i n) (policies d) = 1"
    and "length c = 32" "int n + 1 \<le> i64_max" "parse_authz_state z = Inr st"
  shows "\<exists>sn'. authorization_snapshot (graph_changed a z (d\<lparr>policies :=
      tbl_update (archive_where i n) (archive_set n c u) (policies d)\<rparr>)) = Inr sn' \<and>
    sn_state sn' = st \<and> sn_grants sn' = sn_grants sn \<and> sn_bindings sn' = sn_bindings sn \<and>
    mset (sn_policies sn') = image_mset (archived i n c u) (mset (sn_policies sn))"
proof -
  let ?f = "\<lambda>l. if archive_where i n l then archive_set n c u l else l"
  note ps = sn [unfolded snapshot_Inr, THEN conjunct2, THEN conjunct2, THEN conjunct1]
  obtain l0 where l0: "l0 \<in> set (rows (policies d))" "archive_where i n l0"
    using counted_row [OF one] by blast
  then have same: "l_id l = i \<longleftrightarrow> archive_where i n l" if "l \<in> set (rows (policies d))" for l
    using uniq that by (auto simp: unique_key_def distinct_map inj_on_def archive_where_def)
  have old: "parse_policy l = Inr (projr (parse_policy l))" if "l \<in> set (rows (policies d))" for l
    using traverse_sorted_mset [OF ps] that by blast
  have new: "parse_policy (?f l) = Inr (archived i n c u (projr (parse_policy l)))" if "l \<in> set (rows (policies d))" for l
    using parse_policy_archived [OF old same] that assms(4,5) by blast
  then have "\<forall>r \<in> set (map ?f (rows (policies d))). parse_policy r = Inr (projr (parse_policy r))"
    by (intro ballI) (clarsimp simp only: set_map sum.sel)
  from traverse_sorted_total [OF this]
  obtain ps' where ps': "traverse parse_policy (sort_key l_id (map ?f (rows (policies d)))) = Inr ps'" by blast
  have "mset ps' = image_mset (\<lambda>l. projr (parse_policy (?f l))) (mset (rows (policies d)))"
    using traverse_sorted_mset [OF ps'] by (simp add: image_mset.compositionality o_def)
  also have "\<dots> = image_mset (\<lambda>l. archived i n c u (projr (parse_policy l))) (mset (rows (policies d)))"
    using new by (intro image_mset_cong) (simp only: set_mset_mset sum.sel)
  also have "\<dots> = image_mset (archived i n c u) (mset (sn_policies sn))"
    using traverse_sorted_mset [OF ps] by (simp add: image_mset.compositionality o_def)
  finally show ?thesis
    using sn [unfolded snapshot_Inr] ps' assms(6)
    by (intro exI [of _ "sn\<lparr>sn_policies := ps', sn_state := st\<rparr>"])
       (simp add: graph_changed_def snapshot_logged snapshot_Inr)
qed

lemma snapshot_policy_ids:
  assumes "authorization_snapshot d = Inr sn" "unique_key l_id (policies d)"
  shows "distinct (map po_policy_id (sn_policies sn))"
proof -
  have ps: "\<forall>l \<in> set (rows (policies d)). parse_policy l = Inr (projr (parse_policy l))"
      "sn_policies sn = map (\<lambda>l. projr (parse_policy l)) (sort_key l_id (rows (policies d)))"
    using assms(1) by (auto simp: snapshot_Inr traverse_as_map)
  have "po_policy_id (projr (parse_policy l)) = l_id l" if "parse_policy l = Inr p" for l p
    using that by (auto simp: parse_policy_def parse_uuid_def result_simps)
  then have "map po_policy_id (sn_policies sn) = map l_id (sort_key l_id (rows (policies d)))"
    using ps by (auto simp: comp_def)
  moreover have "mset (map l_id (sort_key l_id (rows (policies d)))) = mset (map l_id (rows (policies d)))" by simp
  ultimately show ?thesis using assms(2) by (metis unique_key_def mset_eq_imp_distinct_iff)
qed

text \<open>After an archive the graph verifies, the policy is in no service's active set and every
  other policy is as active as before.\<close>

lemma policy_archived_verifies:
  assumes run: "app_archive_policy v ev0 ev owner i n req now d = (Inr x, d')"
    and old: "verified_authorization_snapshot v d = Inr sn"
  shows "\<exists>sn'. verified_authorization_snapshot v d' = Inr sn' \<and> sn_grants sn' = sn_grants sn \<and>
    sn_bindings sn' = sn_bindings sn \<and>
    (\<forall>j. policy_active sn' j \<longleftrightarrow> j \<noteq> i \<and> policy_active sn j)"
proof -
  let ?rev = "as_revision (sn_state sn)"
  from run obtain d0 sn0 p c gc a y
    where "owner_authorized v ev0 owner True PolicyManage (vt_vault_id v) req now d = (Inr (), d0)"
      "verified_authorization_snapshot v d0 = Inr sn0"
      and p0: "find (\<lambda>p. po_policy_id p = i) (sn_policies sn0) = Some p" "po_revision p = n"
      and c: "policy_commitment v i (n + 1) ''archived'' (po_metadata_version p) (po_metadata p) (po_created_at p) now = Inr c"
      and gc0: "graph_commitment v sn0 (as_revision (sn_state sn0) + 1) (Some (CHR ''P'', i)) (Some (graph_item CHR ''P'' i c)) = Inr gc"
      and ok0: "archive_policy i n c now (as_revision (sn_state sn0)) gc a d0 = (Inr y, d')"
    unfolding app_archive_policy_def sbind_Inr reading_Inr by (auto simp: result_simps storing_Inr)
  then have [simp]: "sn0 = sn" and sn: "verified_authorization_snapshot v d0 = Inr sn"
    using owner_authorized_Inr old(1) by (metis sum.inject(2))+
  have p: "p \<in> set (sn_policies sn)" "po_policy_id p = i" using p0 by (auto simp: find_Some_iff)
  note ok = archive_policy_Inr [OF ok0] archive_policy_bound [OF ok0]
  have uniq: "unique_key l_id (policies d0)"
    using ok by (auto simp: unique_key_def archive_set_def comp_def if_distrib cong: if_cong)
  have len: "length c = 32"
    using counted_row [of "archive_where i n" "policies d0"] ok by (auto simp: policy_check_def archive_set_def)
  have snd0: "authorization_snapshot d0 = Inr sn" and graph: "graph_verified v sn"
    using sn by (simp_all add: verified_snapshot_iff)
  have ids: "distinct (map po_policy_id (sn_policies sn))" using snapshot_policy_ids [OF snd0 uniq] .
  have "parse_authz_state \<lparr>z_revision = int ?rev + 1, z_commitment = gc\<rparr> =
      Inr \<lparr>as_revision = ?rev + 1, as_state_commitment = gc\<rparr>"
    using ok by (intro parse_authz_state_new) auto
  note change = snapshot_policy_archived [OF snd0 uniq _ len archive_policy_bound [OF ok0] this, of i a now]
  have "d' = graph_changed a \<lparr>z_revision = int ?rev + 1, z_commitment = gc\<rparr>
      (d0\<lparr>policies := tbl_update (archive_where i n) (archive_set n c now) (policies d0)\<rparr>)"
    using ok by (simp add: graph_changed_def)
  then obtain sn' where new: "authorization_snapshot d' = Inr sn'"
      "sn_state sn' = \<lparr>as_revision = ?rev + 1, as_state_commitment = gc\<rparr>" "sn_grants sn' = sn_grants sn"
      "sn_bindings sn' = sn_bindings sn" "mset (sn_policies sn') = image_mset (archived i n c now) (mset (sn_policies sn))"
    using change ok by blast
  have set: "set (sn_policies sn') = archived i n c now ` set (sn_policies sn)"
    using new(5) by (metis set_image_mset set_mset_mset)
  have "graph_verified v sn'"
  proof (rule graph_extended)
    show "graph_commitment v sn (?rev + 1) (Some (CHR ''P'', i)) (Some (graph_item CHR ''P'' i c)) = Inr gc" using gc0 by simp
    have "image_mset policy_item (mset (sn_policies sn')) =
        add_mset (policy_item (archived i n c now p)) (image_mset policy_item (mset (filter (\<lambda>q. po_policy_id q \<noteq> i) (sn_policies sn))))"
      unfolding new(5) by (rule replaced_items) (use ids p in \<open>auto simp: archived_def\<close>)
    then show "mset (graph_items sn' None None) = mset (graph_items sn (Some (CHR ''P'', i)) (Some (graph_item CHR ''P'' i c)))"
      using new p by (simp add: graph_items_mset graph_items_def policy_item_def archived_def eq_commute [of i])
    show "snapshot_count sn' \<le> MAX_AUTHORIZATION_RECORDS"
      using graph new by (simp add: graph_verified_def snapshot_count_def) (metis size_mset size_image_mset)
    have "verify_policy v (archived i n c now p) = Inr ()"
      using c p by (simp add: verify_policy_def ensure_def archived_def)
    then show "\<forall>q \<in> set (sn_policies sn'). verify_policy v q = Inr ()"
      using graph ids p by (auto simp: set graph_verified_def archived_def distinct_map inj_on_def)
  qed (use new graph in \<open>auto simp: graph_verified_def\<close>)
  moreover have "policy_active sn' j \<longleftrightarrow> j \<noteq> i \<and> policy_active sn j" for j
    using set by (auto simp: policy_active_def list_ex_iff archived_def)
  ultimately show ?thesis using new by (auto simp: verified_snapshot_iff)
qed


text \<open>Access only shrinks: what a service may do after an archive it might before, through a
  policy other than the archived one.\<close>

lemma ancestors_frame:
  assumes "secrets d' = secrets d" "secret_versions d' = secret_versions d" "namespaces d' = namespaces d"
    "poisoned d' = poisoned d"
  shows "resource_namespace_ancestors v kind r d' = resource_namespace_ancestors v kind r d"
proof -
  have "schedule_of_current d' = schedule_of_current d"
    using assms by (intro ext) (simp add: schedule_of_current_def)
  then have "secret i d' = secret i d" "namespace i d' = namespace i d"
    "namespace_ancestors_inclusive i d' = namespace_ancestors_inclusive i d" for i
    using assms by (simp_all add: secret_def namespace_def query_def lock_def namespace_ancestors_inclusive_def)
  then show ?thesis by (cases kind) (simp_all add: resource_namespace_ancestors_def)
qed

lemma archive_shrinks_access:
  assumes run: "app_archive_policy v ev0 ev owner i n req now d = (Inr x, d')"
    and after: "service_is_allowed v subject act kind r d' = Inr True"
  shows "service_is_allowed v subject act kind r d = Inr True \<and>
    (\<exists>sn j. verified_authorization_snapshot v d = Inr sn \<and> j \<noteq> i \<and> policy_active sn j \<and>
      (\<exists>b \<in> set (sn_bindings sn). pb_principal_id b = subject \<and> pb_policy_id b = j))"
proof -
  from run obtain d0 sn c u e gc a y where
      auth: "owner_authorized v ev0 owner True PolicyManage (vt_vault_id v) req now d = (Inr (), d0)"
      and "verified_authorization_snapshot v d0 = Inr sn"
      and ok0: "archive_policy i n c u e gc a d0 = (Inr y, d')"
    unfolding app_archive_policy_def sbind_Inr reading_Inr by (auto simp: result_simps storing_Inr)
  then have sn: "verified_authorization_snapshot v d = Inr sn" using owner_authorized_Inr by metis
  obtain b where "d0 = logged b d" using owner_authorized_Inr [OF auth] by blast
  then have same: "resource_namespace_ancestors v kind r d' = resource_namespace_ancestors v kind r d"
    using archive_policy_Inr [OF ok0] by (intro ancestors_frame) simp_all
  obtain sn' where sn': "verified_authorization_snapshot v d' = Inr sn'" "sn_grants sn' = sn_grants sn"
      "sn_bindings sn' = sn_bindings sn" "\<And>j. policy_active sn' j \<longleftrightarrow> j \<noteq> i \<and> policy_active sn j"
    using policy_archived_verifies [OF run sn] by blast
  obtain anc where anc: "resource_namespace_ancestors v kind r d = Inr anc"
      "granted sn' subject act kind r anc"
    using service_allowed_granted [OF after] sn' same by auto
  have "granted sn subject act kind r anc \<and> (\<exists>j. j \<noteq> i \<and> policy_active sn j \<and>
      (\<exists>b \<in> set (sn_bindings sn). pb_principal_id b = subject \<and> pb_policy_id b = j))"
    using anc(2) sn' unfolding granted_def policy_active_def list_ex_iff by (elim bexE conjE) metis
  then show ?thesis
    using sn anc(1) service_allowed_granted [of v subject act kind r d]
    by (cases "service_is_allowed v subject act kind r d") (auto simp: service_is_allowed_def)
qed

end
