(* ===== verification/App_Service.thy ===== *)
theory App_Service
  imports App_Policy
begin

text \<open>
  Service identities and their application credentials
  (\<open>src/crates/smcv-app/src/service_identity.rs\<close>): the protected label and description of a
  service, issuing and listing credentials, authenticating a presented one with its denial
  event, and revocation.  An issued credential is accepted until it expires; a revoked one is
  never accepted again.
\<close>

section \<open>Data\<close>

definition MAX_LABEL_BYTES :: nat where "MAX_LABEL_BYTES = 128"
definition MAX_SERVICE_DESCRIPTION_BYTES :: nat where "MAX_SERVICE_DESCRIPTION_BYTES = 2048"

record service_identity_metadata =
  sm_label :: bytes
  sm_description :: "bytes option"

record issued_application_credential =
  iac_credential_id :: uuid
  iac_plaintext :: string
  iac_expires_at :: "unix_ms option"

record application_credential_summary =
  acs_credential_id :: uuid
  acs_created_at :: unix_ms
  acs_expires_at :: "unix_ms option"
  acs_last_used_at :: "unix_ms option"
  acs_revoked_at :: "unix_ms option"
  acs_revision :: nat

record service_identity_summary =
  sis_principal_id :: uuid
  sis_metadata :: service_identity_metadata
  sis_state :: string
  sis_revision :: nat

fun map_authorization :: "authorization_error \<Rightarrow> authentication_error" where
  "map_authorization Denied = Rejected"
| "map_authorization RecentAuthenticationRequired = Rejected"
| "map_authorization InvalidInput = authentication_error.InvalidInput"
| "map_authorization Integrity = authentication_error.Integrity"
| "map_authorization Unavailable = authentication_error.Unavailable"

section \<open>Service metadata\<close>

definition append_field :: "bytes \<Rightarrow> authentication_error + bytes" where
  "append_field field =
     rbind (ensure (length field \<le> u16_max) authentication_error.InvalidInput) (\<lambda>_.
     Inr (be_bytes 2 (length field) @ field))"

definition encode_service_metadata :: "service_identity_metadata \<Rightarrow> authentication_error + bytes" where
  "encode_service_metadata m =
     rbind (ensure (\<not> (sm_label m = [] \<or> MAX_LABEL_BYTES < length (sm_label m) \<or>
        \<not> is_none_or (\<lambda>b. length b \<le> MAX_SERVICE_DESCRIPTION_BYTES) (sm_description m)))
        authentication_error.InvalidInput) (\<lambda>_.
     rbind (append_field (sm_label m)) (\<lambda>label.
     rbind (append_field (case sm_description m of None \<Rightarrow> [] | Some b \<Rightarrow> b)) (\<lambda>description.
     Inr (ascii ''SMCVSI01'' @ label @ description))))"

definition read_field :: "bytes \<Rightarrow> nat \<Rightarrow> authentication_error + (bytes \<times> nat)" where
  "read_field input offset =
     rbind (ok_or authentication_error.Integrity (get_range input offset (offset + 2))) (\<lambda>length_bytes.
     rbind (ok_or authentication_error.Integrity
       (get_range input (offset + 2) (offset + 2 + from_be length_bytes))) (\<lambda>value.
     Inr (value, offset + 2 + from_be length_bytes)))"

definition decode_service_metadata :: "bytes \<Rightarrow> authentication_error + service_identity_metadata" where
  "decode_service_metadata bs =
     rbind (ensure (take 8 bs = ascii ''SMCVSI01'') authentication_error.Integrity) (\<lambda>_.
     rbind (read_field bs 8) (\<lambda>(label, o1).
     rbind (read_field bs o1) (\<lambda>(description, o2).
     rbind (ensure (\<not> (o2 \<noteq> length bs \<or> label = [])) authentication_error.Integrity) (\<lambda>_.
     rbind (ok_or authentication_error.Integrity (protected_from_utf8 label)) (\<lambda>label.
     rbind (if description = [] then Inr None
            else rbind (ok_or authentication_error.Integrity (protected_from_utf8 description)) (\<lambda>t. Inr (Some t))) (\<lambda>description.
     Inr \<lparr>sm_label = label, sm_description = description\<rparr>))))))"

section \<open>Credential commitments\<close>

definition application_credential_commitment :: "vault \<Rightarrow> uuid \<Rightarrow> uuid \<Rightarrow> bytes \<Rightarrow> bytes \<Rightarrow> unix_ms \<Rightarrow>
    unix_ms option \<Rightarrow> unix_ms option \<Rightarrow> unix_ms option \<Rightarrow> nat \<Rightarrow> authentication_error + bytes" where
  "application_credential_commitment v credential_id service_id lookup verifier created expires last_used
     revoked revision =
     text_commitment v [''application-credential'', uuid_text credential_id, uuid_text service_id,
       hex_encode lookup, hex_encode verifier, dec_int created, debug_option expires,
       debug_option last_used, debug_option revoked, dec_nat revision]"

definition verify_application_credential_commitment :: "vault \<Rightarrow> application_credential_record \<Rightarrow>
    authentication_error + unit" where
  "verify_application_credential_commitment v r =
     rbind (application_credential_commitment v (cr_credential_id r) (cr_principal_id r) (cr_lookup_id r)
       (cr_verifier r) (cr_created_at r) (cr_expires_at r) (cr_last_used_at r) (cr_revoked_at r)
       (application_credential_record.cr_revision r)) (\<lambda>c.
     ensure (c = cr_state_commitment r) authentication_error.Integrity)"

definition credential_usable :: "application_credential_record \<Rightarrow> unix_ms \<Rightarrow> bool" where
  "credential_usable r now =
     (\<not> (cr_revoked_at r \<noteq> None \<or> now < cr_created_at r \<or>
         \<not> is_none_or (\<lambda>used. used \<le> now) (cr_last_used_at r) \<or>
         \<not> is_none_or (\<lambda>expiry. now \<le> expiry) (cr_expires_at r)))"

definition verify_service_context_active :: "vault \<Rightarrow> authenticated_service \<Rightarrow> unix_ms \<Rightarrow> db \<Rightarrow>
    authentication_error + unit" where
  "verify_service_context_active v service now d =
     rbind (map_err map_auth_storage (application_credential (asv_credential_id service) d)) (\<lambda>r.
     rbind (verify_application_credential_commitment v r) (\<lambda>_.
     rbind (ensure (cr_principal_id r = asv_principal_id service \<and> credential_usable r now) Rejected) (\<lambda>_.
     rbind (map_err map_auth_storage (principal (cr_principal_id r) d)) (\<lambda>p.
     rbind (verify_principal_commitment v p) (\<lambda>_.
     ensure (pr_state p = ''active'') Rejected)))))"

section \<open>Owner operations\<close>

text \<open>The gate, the session behind the request, the operation's own precondition, and the
  audited decision.\<close>

definition owner_permitted :: "vault \<Rightarrow> uuid \<Rightarrow> authenticated_owner \<Rightarrow> bool \<Rightarrow> action \<Rightarrow> uuid \<Rightarrow> unix_ms \<Rightarrow>
    db \<Rightarrow> (authentication_error + unit) \<times> db" where
  "owner_permitted v ev owner precondition act request_id now =
     reading (\<lambda>d.
       rbind (ensure (vt_authorization_gate_ok v) authentication_error.Unavailable) (\<lambda>_.
       rbind (verify_owner_context_active v owner now d) (\<lambda>_.
       ensure precondition Rejected)))
     (\<lambda>_. storing map_authorization (\<lambda>u. u)
        (authorize v ev (Owner owner) act Namespace (vt_vault_id v) request_id now))"

definition known_application_credential_lookup :: "vault \<Rightarrow> string \<Rightarrow> db \<Rightarrow> bytes option" where
  "known_application_credential_lookup v presented d =
     Option.bind (token_lookup_id (vt_lib v) presented) (\<lambda>lookup.
       (case application_credential_by_lookup lookup d of Inr (Some r) \<Rightarrow> Some lookup | _ \<Rightarrow> None))"

definition app_create_service_identity :: "vault \<Rightarrow> entropy \<Rightarrow> uuid \<Rightarrow> uuid \<Rightarrow> uuid \<Rightarrow> authenticated_owner \<Rightarrow>
    service_identity_metadata \<Rightarrow> uuid \<Rightarrow> unix_ms \<Rightarrow> db \<Rightarrow> (authentication_error + uuid) \<times> db" where
  "app_create_service_identity v ent service_id ev0 ev owner m request_id now =
     sbind (owner_permitted v ev0 owner (is_recent_at owner now) IdentityManage request_id now) (\<lambda>_.
     reading (\<lambda>d.
       rbind (encode_service_metadata m) (\<lambda>plaintext.
       rbind (map_err (\<lambda>_. authentication_error.Unavailable) (encrypt_record v ent plaintext
         ServiceIdentityMetadata WrappedServiceIdentityMetadataKey service_id 1)) (\<lambda>encrypted.
       rbind (principal_commitment v service_id ''service'' ''active'' 1) (\<lambda>commitment.
       rbind (map_err (\<lambda>_. authentication_error.Unavailable) (build_audit v ev ''identity:create'' ''principal''
         (Some service_id) (operation (Owner owner) request_id now) d)) (\<lambda>audit.
       Inr (\<lparr>yi_principal_id = service_id, yi_principal_state_commitment = commitment,
             yi_metadata = encrypted, yi_created_at = now\<rparr>, audit))))))
     (\<lambda>(ins, audit). storing map_auth_storage (\<lambda>_. service_id) (create_service_identity ins audit)))"

definition open_service_metadata :: "vault \<Rightarrow> uuid \<Rightarrow> service_identity_record \<Rightarrow>
    authentication_error + service_identity_metadata" where
  "open_service_metadata v service_id r =
     rbind (verify_principal_commitment v (yr_principal r)) (\<lambda>_.
     rbind (map_err (\<lambda>_. authentication_error.Integrity) (decrypt_record v (yr_metadata r)
       ServiceIdentityMetadata WrappedServiceIdentityMetadataKey service_id
       (yr_metadata_version r))) (\<lambda>plaintext.
     decode_service_metadata plaintext))"

definition read_service_identity_metadata :: "vault \<Rightarrow> uuid \<Rightarrow> authenticated_owner \<Rightarrow> uuid \<Rightarrow> uuid \<Rightarrow>
    unix_ms \<Rightarrow> db \<Rightarrow> (authentication_error + service_identity_metadata) \<times> db" where
  "read_service_identity_metadata v ev owner service_id request_id now =
     sbind (owner_permitted v ev owner True IdentityRead request_id now) (\<lambda>_.
     reading (\<lambda>d.
       rbind (map_err map_auth_storage (service_identity service_id d)) (\<lambda>r.
       open_service_metadata v service_id r)) (\<lambda>r d. (Inr r, d)))"

definition service_identities :: "vault \<Rightarrow> uuid \<Rightarrow> authenticated_owner \<Rightarrow> uuid option \<Rightarrow> nat \<Rightarrow> uuid \<Rightarrow>
    unix_ms \<Rightarrow> db \<Rightarrow> (authentication_error + service_identity_summary list) \<times> db" where
  "service_identities v ev owner after limit request_id now =
     reading (\<lambda>_. ensure (1 \<le> limit \<and> limit \<le> 100) authentication_error.InvalidInput) (\<lambda>_.
     sbind (owner_permitted v ev owner True IdentityRead request_id now) (\<lambda>_.
     reading (\<lambda>d.
       rbind (map_err map_auth_storage (service_identities_after after limit d)) (\<lambda>records.
       traverse (\<lambda>r.
         rbind (open_service_metadata v (pr_principal_id (yr_principal r)) r) (\<lambda>m.
         Inr \<lparr>sis_principal_id = pr_principal_id (yr_principal r), sis_metadata = m,
              sis_state = pr_state (yr_principal r), sis_revision = pr_revision (yr_principal r)\<rparr>)) records))
     (\<lambda>r d. (Inr r, d))))"

record token_entropy =
  te_lookup :: "bytes option"
  te_secret :: "bytes option"

definition issue_application_credential :: "vault \<Rightarrow> token_entropy \<Rightarrow> uuid \<Rightarrow> uuid \<Rightarrow> uuid \<Rightarrow> authenticated_owner \<Rightarrow>
    uuid \<Rightarrow> unix_ms option \<Rightarrow> uuid \<Rightarrow> unix_ms \<Rightarrow> db \<Rightarrow>
    (authentication_error + issued_application_credential) \<times> db" where
  "issue_application_credential v ent credential_id ev0 ev owner service_id expires request_id now =
     sbind (owner_permitted v ev0 owner
       (\<not> (\<not> is_recent_at owner now \<or> \<not> is_none_or (\<lambda>expiry. now < expiry) expires))
       CredentialIssue request_id now) (\<lambda>_.
     reading (\<lambda>d.
       rbind (map_err map_auth_storage (principal service_id d)) (\<lambda>p.
       rbind (verify_principal_commitment v p) (\<lambda>_.
       rbind (ensure (pr_kind p = principal_kind.Service \<and> pr_state p = ''active'') Rejected) (\<lambda>_.
       rbind (map_err (\<lambda>_. authentication_error.Unavailable) (issue_token (vt_lib v) (te_lookup ent)
         (te_secret ent) (vt_token_verifier_key v))) (\<lambda>issued.
       rbind (ok_or authentication_error.Integrity (b64_decode (vt_lib v) (it_lookup_id issued))) (\<lambda>decoded.
       rbind (try_into_array 12 authentication_error.Integrity decoded) (\<lambda>lookup.
       rbind (application_credential_commitment v credential_id service_id lookup (it_verifier issued) now
         expires None None 1) (\<lambda>commitment.
       rbind (map_err (\<lambda>_. authentication_error.Unavailable) (build_audit v ev ''credential:issue'' ''credential''
         (Some credential_id) (operation (Owner owner) request_id now) d)) (\<lambda>audit.
       Inr (\<lparr>ci_credential_id = credential_id, ci_principal_id = service_id, ci_lookup_id = lookup,
             ci_verifier = it_verifier issued, ci_created_at = now, ci_expires_at = expires,
             ci_state_commitment = commitment\<rparr>, it_plaintext issued, audit))))))))))
     (\<lambda>(ins, plaintext, audit). storing map_auth_storage (\<lambda>_. \<lparr>iac_credential_id = credential_id,
        iac_plaintext = plaintext, iac_expires_at = expires\<rparr>) (create_application_credential ins audit)))"

text \<open>The cursor of a credential page is a credential of the same service.\<close>

definition credential_cursor :: "vault \<Rightarrow> uuid \<Rightarrow> uuid option \<Rightarrow> db \<Rightarrow> storage_error + (unix_ms \<times> uuid) option" where
  "credential_cursor v service_id after d =
     (case after of
        None \<Rightarrow> Inr None
      | Some credential_id \<Rightarrow>
          rbind (application_credential credential_id d) (\<lambda>r.
          rbind (ensure (cr_principal_id r = service_id) NotInitialized) (\<lambda>_.
          rbind (map_err (\<lambda>_. InvalidData) (verify_application_credential_commitment v r)) (\<lambda>_.
          Inr (Some (cr_created_at r, credential_id))))))"

definition application_credentials_of :: "vault \<Rightarrow> uuid \<Rightarrow> authenticated_owner \<Rightarrow> uuid \<Rightarrow> uuid option \<Rightarrow> nat \<Rightarrow>
    uuid \<Rightarrow> unix_ms \<Rightarrow> db \<Rightarrow> (authentication_error + application_credential_summary list) \<times> db" where
  "application_credentials_of v ev owner service_id after limit request_id now =
     reading (\<lambda>_. ensure (1 \<le> limit \<and> limit \<le> 100) authentication_error.InvalidInput) (\<lambda>_.
     sbind (owner_permitted v ev owner True IdentityRead request_id now) (\<lambda>_.
     reading (\<lambda>d.
       rbind (map_err map_auth_storage (credential_cursor v service_id after d)) (\<lambda>cur.
       rbind (map_err map_auth_storage (application_credentials_after service_id cur limit d)) (\<lambda>records.
       traverse (\<lambda>r.
         rbind (verify_application_credential_commitment v r) (\<lambda>_.
         Inr \<lparr>acs_credential_id = cr_credential_id r, acs_created_at = cr_created_at r,
              acs_expires_at = cr_expires_at r, acs_last_used_at = cr_last_used_at r,
              acs_revoked_at = cr_revoked_at r, acs_revision = application_credential_record.cr_revision r\<rparr>)) records)))
     (\<lambda>r d. (Inr r, d))))"

definition app_revoke_application_credential :: "vault \<Rightarrow> uuid \<Rightarrow> uuid \<Rightarrow> authenticated_owner \<Rightarrow> uuid \<Rightarrow> uuid \<Rightarrow>
    nat \<Rightarrow> uuid \<Rightarrow> unix_ms \<Rightarrow> db \<Rightarrow> (authentication_error + nat) \<times> db" where
  "app_revoke_application_credential v ev0 ev owner service_id credential_id expected request_id now =
     sbind (owner_permitted v ev0 owner (is_recent_at owner now) CredentialRevoke request_id now) (\<lambda>_.
     reading (\<lambda>d.
       rbind (map_err map_auth_storage (application_credential credential_id d)) (\<lambda>r.
       rbind (verify_application_credential_commitment v r) (\<lambda>_.
       rbind (ensure (\<not> (cr_principal_id r \<noteq> service_id \<or> application_credential_record.cr_revision r \<noteq> expected \<or> cr_revoked_at r \<noteq> None))
         Rejected) (\<lambda>_.
       rbind (ok_or Rejected (checked_add_u64 expected 1)) (\<lambda>next_revision.
       rbind (application_credential_commitment v (cr_credential_id r) (cr_principal_id r) (cr_lookup_id r)
         (cr_verifier r) (cr_created_at r) (cr_expires_at r) (cr_last_used_at r) (Some now)
         next_revision) (\<lambda>commitment.
       rbind (map_err (\<lambda>_. authentication_error.Unavailable) (build_audit v ev ''credential:revoke'' ''credential''
         (Some credential_id) (operation (Owner owner) request_id now) d)) (\<lambda>audit.
       Inr (commitment, audit))))))))
     (\<lambda>(commitment, audit). storing map_auth_storage (\<lambda>r. r)
        (revoke_application_credential credential_id expected now commitment audit)))"

section \<open>Authenticating a presented credential\<close>

definition audit_application_credential_denial :: "vault \<Rightarrow> uuid \<Rightarrow> application_credential_record \<Rightarrow> uuid \<Rightarrow>
    unix_ms \<Rightarrow> db \<Rightarrow> (authentication_error + unit) \<times> db" where
  "audit_application_credential_denial v ev r request_id now =
     reading (\<lambda>d. map_err (\<lambda>_. authentication_error.Unavailable) (build_audit_outcome v ev
       ''credential:authenticate'' ''credential'' (Some (cr_credential_id r)) ''denied''
       \<lparr>oc_request_id = request_id, oc_actor = None, oc_credential_kind = Some ''application'',
        oc_credential_id = Some (cr_credential_id r), oc_now = now\<rparr> d))
     (\<lambda>audit. storing map_auth_storage (\<lambda>u. u) (append_audit audit))"

text \<open>The record found, and the commitment of its next state unless the attempt is denied.\<close>

definition judge_credential :: "vault \<Rightarrow> string \<Rightarrow> unix_ms \<Rightarrow> db \<Rightarrow>
    authentication_error + (application_credential_record \<times> bytes option)" where
  "judge_credential v presented now d =
     rbind (ok_or Rejected (token_lookup_id (vt_lib v) presented)) (\<lambda>lookup.
     rbind (map_err map_auth_storage (application_credential_by_lookup lookup d)) (\<lambda>candidate.
     rbind (map_err (\<lambda>_. authentication_error.Unavailable) (verify_token (vt_lib v) (vt_token_verifier_key v)
       presented (b64_encode (vt_lib v) lookup)
       (case candidate of None \<Rightarrow> replicate 32 0 | Some r \<Rightarrow> cr_verifier r))) (\<lambda>matches.
     rbind (ok_or Rejected candidate) (\<lambda>r.
     rbind (verify_application_credential_commitment v r) (\<lambda>_.
     if \<not> matches \<or> \<not> credential_usable r now then Inr (r, None)
     else
       rbind (map_err map_auth_storage (principal (cr_principal_id r) d)) (\<lambda>p.
       rbind (verify_principal_commitment v p) (\<lambda>_.
       if pr_state p \<noteq> ''active'' \<or> pr_kind p \<noteq> principal_kind.Service then Inr (r, None)
       else
         rbind (ok_or Rejected (checked_add_u64 (application_credential_record.cr_revision r) 1)) (\<lambda>next_revision.
         rbind (application_credential_commitment v (cr_credential_id r) (cr_principal_id r) (cr_lookup_id r)
           (cr_verifier r) (cr_created_at r) (cr_expires_at r) (Some now) None next_revision) (\<lambda>c.
         Inr (r, Some c))))))))))"

definition authenticate_application_credential :: "vault \<Rightarrow> uuid \<Rightarrow> string \<Rightarrow> uuid \<Rightarrow> unix_ms \<Rightarrow> db \<Rightarrow>
    (authentication_error + authenticated_service) \<times> db" where
  "authenticate_application_credential v ev presented request_id now =
     reading (judge_credential v presented now)
     (\<lambda>(r, verdict).
        case verdict of
          None \<Rightarrow> sbind (audit_application_credential_denial v ev r request_id now) (\<lambda>_ d. (Inl Rejected, d))
        | Some c \<Rightarrow> storing (\<lambda>_. Rejected)
            (\<lambda>_. \<lparr>asv_principal_id = cr_principal_id r, asv_credential_id = cr_credential_id r\<rparr>)
            (mark_application_credential_used (cr_credential_id r) (application_credential_record.cr_revision r) now c))"

section \<open>Contracts\<close>

lemma owner_permitted_reported [report_intros]:
  "reported v d (snd (owner_permitted v ev owner pre act req now d))"
  unfolding owner_permitted_def by (auto intro!: report_intros)

lemma mark_used_reported [report_intros]: "reported v d (snd (mark_application_credential_used i n now c d))"
proof (cases "mark_application_credential_used i n now c d")
  case (Pair r d')
  have "audit_events d' = audit_events d"
  proof (cases r)
    case (Inl e)
    then show ?thesis using Pair credential_use.unchanged [of "(i, n, now, c)" d e d'] by simp
  next
    case (Inr x)
    then show ?thesis using Pair mark_application_credential_used_Inr [of i n now c d x d'] by simp
  qed
  then show ?thesis using Pair by (simp add: reported_same)
qed

lemma denial_reported [report_intros]:
  "reported v d (snd (audit_application_credential_denial v ev r req now d))"
  unfolding audit_application_credential_denial_def
  by (auto intro!: report_intros append_reported simp: result_simps dest: build_sound)

interpretation app_service_create: reporting_operation
  "\<lambda>v (ent, i, ev0, ev, owner, m, req, now). app_create_service_identity v ent i ev0 ev owner m req now"
  unfolding app_create_service_identity_def
  by unfold_locales
     (auto split: prod.splits intro!: report_intros service_create.audited_reported simp: result_simps
       dest: build_audit_sound)

interpretation app_credential_issue: reporting_operation
  "\<lambda>v (ent, i, ev0, ev, owner, s, expires, req, now). issue_application_credential v ent i ev0 ev owner s expires req now"
  unfolding issue_application_credential_def
  by unfold_locales
     (auto split: prod.splits intro!: report_intros credential_create.audited_reported simp: result_simps
       dest: build_audit_sound)

interpretation app_credential_revoke: reporting_operation
  "\<lambda>v (ev0, ev, owner, s, i, n, req, now). app_revoke_application_credential v ev0 ev owner s i n req now"
  unfolding app_revoke_application_credential_def
  by unfold_locales
     (auto split: prod.splits intro!: report_intros
       credential_revoke.audited_reported [where i = "(_, _, _, _)", simplified] simp: result_simps dest: build_audit_sound)

interpretation app_credential_use: reporting_operation
  "\<lambda>v (ev, presented, req, now). authenticate_application_credential v ev presented req now"
  unfolding authenticate_application_credential_def
  by unfold_locales (auto split: prod.splits option.splits intro!: report_intros)

interpretation app_service_read: reporting_operation
  "\<lambda>v (ev, owner, i, req, now). read_service_identity_metadata v ev owner i req now"
  unfolding read_service_identity_metadata_def
  by unfold_locales (auto split: prod.splits intro!: report_intros simp: reported_refl)

section \<open>Round trip of the metadata\<close>

lemma read_field_at:
  assumes "length b \<le> u16_max" "bs = p @ be_bytes 2 (length b) @ b @ q" "o0 = length p"
  shows "read_field bs o0 = Inr (b, o0 + 2 + length b)"
  using assms by (simp add: read_field_def get_range_def u16_max_def)

lemma service_metadata_roundtrip:
  assumes "encode_service_metadata m = Inr bs" "utf8_valid (sm_label m)"
    and "is_none_or (\<lambda>b. b \<noteq> [] \<and> utf8_valid b) (sm_description m)"
  shows "decode_service_metadata bs = Inr m"
proof -
  let ?desc = "case sm_description m of None \<Rightarrow> [] | Some b \<Rightarrow> b"
  have bs: "bs = ascii ''SMCVSI01'' @ be_bytes 2 (length (sm_label m)) @ sm_label m @ be_bytes 2 (length ?desc) @ ?desc"
    and len: "length (sm_label m) \<le> u16_max" "length ?desc \<le> u16_max" "sm_label m \<noteq> []"
    using assms(1) by (auto simp: encode_service_metadata_def append_field_def result_simps)
  have magic: "length (ascii ''SMCVSI01'') = 8" "take 8 bs = ascii ''SMCVSI01''" by (simp_all add: bs)
  have first: "read_field bs 8 = Inr (sm_label m, 10 + length (sm_label m))"
    using read_field_at [OF len(1) bs magic(1) [symmetric]] by simp
  have second: "read_field bs (10 + length (sm_label m)) = Inr (?desc, length bs)"
  proof -
    let ?p = "ascii ''SMCVSI01'' @ be_bytes 2 (length (sm_label m)) @ sm_label m"
    have "bs = ?p @ be_bytes 2 (length ?desc) @ ?desc @ []" "10 + length (sm_label m) = length ?p"
      "length bs = 10 + length (sm_label m) + 2 + length ?desc" by (simp_all add: bs)
    then show ?thesis using read_field_at [OF len(2)] by metis
  qed
  show ?thesis
    unfolding decode_service_metadata_def using magic(2) first second len(3) assms(2,3)
    by (cases m; cases "sm_description m") (auto simp: protected_from_utf8_def is_none_or_def ensure_def)
qed

text \<open>An empty description comes back as an absent one.\<close>

lemma empty_description_lost:
  assumes "encode_service_metadata \<lparr>sm_label = l, sm_description = Some []\<rparr> = Inr bs" "utf8_valid l"
  shows "decode_service_metadata bs = Inr \<lparr>sm_label = l, sm_description = None\<rparr>"
  using assms service_metadata_roundtrip [of "\<lparr>sm_label = l, sm_description = None\<rparr>" bs]
  by (simp add: encode_service_metadata_def is_none_or_def)

section \<open>Acceptance and revocation\<close>

text \<open>A presented token is accepted only if its secret is the one the stored verifier was
  computed from, its record is intact, unrevoked and unexpired, and its principal is an active
  service.\<close>

lemma authenticate_service_accepts:
  assumes "authenticate_application_credential v ev presented req now d = (Inr s, d')"
  shows "\<exists>lookup r p. token_lookup_id (vt_lib v) presented = Some lookup \<and>
    application_credential_by_lookup lookup d = Inr (Some r) \<and>
    verify_token (vt_lib v) (vt_token_verifier_key v) presented (b64_encode (vt_lib v) lookup) (cr_verifier r) = Inr True \<and>
    verify_application_credential_commitment v r = Inr () \<and> credential_usable r now \<and>
    principal (cr_principal_id r) d = Inr p \<and> verify_principal_commitment v p = Inr () \<and>
    pr_kind p = principal_kind.Service \<and> pr_state p = ''active'' \<and>
    s = \<lparr>asv_principal_id = cr_principal_id r, asv_credential_id = cr_credential_id r\<rparr> \<and>
    audit_events d' = audit_events d"
proof -
  obtain r c where j: "judge_credential v presented now d = Inr (r, Some c)"
    and s: "s = \<lparr>asv_principal_id = cr_principal_id r, asv_credential_id = cr_credential_id r\<rparr>"
    and "\<exists>x. mark_application_credential_used (cr_credential_id r)
           (application_credential_record.cr_revision r) now c d = (Inr x, d')"
    using assms unfolding authenticate_application_credential_def
    by (auto simp: reading_Inr sbind_Inr storing_Inr split: prod.splits option.splits)
  then have log: "audit_events d' = audit_events d" by (auto dest!: mark_application_credential_used_Inr)
  from j show ?thesis
    unfolding judge_credential_def s log by (auto simp: result_simps split: if_splits option.splits)
qed

text \<open>A denied attempt on a known credential writes one event that names it.\<close>

lemma authenticate_service_denied:
  assumes "judge_credential v presented now d = Inr (r, None)"
    and "authenticate_application_credential v ev presented req now d = (res, d')"
  shows "isl res \<and> (d' = d \<or> (\<exists>a. append_audit a d = (Inr (), d') \<and> attributed v ''credential:authenticate''
    ''credential'' (Some (cr_credential_id r)) ''denied''
    \<lparr>oc_request_id = req, oc_actor = None, oc_credential_kind = Some ''application'',
     oc_credential_id = Some (cr_credential_id r), oc_now = now\<rparr> a))"
proof -
  have run: "sbind (audit_application_credential_denial v ev r req now) (\<lambda>_ d. (Inl Rejected, d)) d = (res, d')"
    using assms by (simp add: authenticate_application_credential_def reading_def guarded_def)
  then have "isl res" by (auto simp: sbind_def guarded_def split: prod.splits sum.splits)
  moreover have "d' = d \<or> (\<exists>a. append_audit a d = (Inr (), d') \<and> attributed v ''credential:authenticate''
    ''credential'' (Some (cr_credential_id r)) ''denied''
    \<lparr>oc_request_id = req, oc_actor = None, oc_credential_kind = Some ''application'',
     oc_credential_id = Some (cr_credential_id r), oc_now = now\<rparr> a)"
  proof (cases res)
    case (Inl e)
    then show ?thesis
      using run unfolding audit_application_credential_denial_def
      by (auto simp: sbind_Inl sbind_Inr reading_Inl reading_Inr storing_Inl storing_Inr result_simps
          dest: append.failure_unchanged) (blast intro: build_attributed)
  next
    case (Inr x)
    then show ?thesis using \<open>isl res\<close> by simp
  qed
  ultimately show ?thesis by blast
qed

lemma revoked_unusable:
  assumes "credential_row_at i d = Some c" "c_revoked c \<noteq> None"
  shows "\<exists>e. mark_application_credential_used i n now cm d = (Inl e, d)"
proof (cases "mark_application_credential_used i n now cm d")
  case (Pair r d')
  show ?thesis
  proof (cases r)
    case (Inl e)
    then show ?thesis using Pair credential_use.unchanged [of "(i, n, now, cm)" d e d'] by simp
  next
    case (Inr x)
    note eff = mark_application_credential_used_Inr [OF Pair [unfolded Inr]]
    have t: "application_credentials d' = tbl_update (use_where i n now) (use_set n now cm) (application_credentials d)"
      using eff by simp
    have "unique_key c_id (application_credentials d)"
      using eff unfolding t credentials_unique_def
      by (subst (asm) unique_key_update_iff) (auto simp: use_set_def)
    moreover obtain q where "use_where i n now q" "q \<in> set (rows (application_credentials d))"
      using eff tbl_count_one_exists by blast
    moreover have "c \<in> set (rows (application_credentials d))" "c_id c = i"
      using tbl_find_Some [OF assms(1) [unfolded credential_row_at_def]] by blast+
    ultimately have "q = c" using unique_key_eq [of c_id _ q c] by (auto simp: use_where_def)
    then show ?thesis using assms(2) \<open>use_where i n now q\<close> by (simp add: use_where_def)
  qed
qed

lemma revoked_context_dead:
  assumes "credential_row_at (asv_credential_id s) d = Some c" "c_revoked c \<noteq> None"
  shows "verify_service_context_active v s t d \<noteq> Inr ()"
proof
  assume "verify_service_context_active v s t d = Inr ()"
  then obtain r where "application_credential (asv_credential_id s) d = Inr r" "cr_revoked_at r = None"
    unfolding verify_service_context_active_def by (auto simp: result_simps credential_usable_def)
  then show False
    using assms by (auto simp: application_credential_def credential_row_at_def parse_application_credential_def result_simps)
qed

text \<open>From the moment of a revocation, whatever is committed after it, the credential opens
  nothing: no context of it passes and no token authenticates as it.\<close>

lemma revoked_credential_dead:
  assumes revoke: "app_revoke_application_credential v ev0 ev owner service i n req now d = (Inr x, d1)"
    and run: "store_run d1 d2"
  shows "(asv_credential_id s = i \<longrightarrow> verify_service_context_active v s t d2 \<noteq> Inr ()) \<and>
    (authenticate_application_credential v ev2 presented req2 t d2 = (Inr s, d3) \<longrightarrow> asv_credential_id s \<noteq> i)"
proof -
  obtain d0 cm a where "revoke_application_credential i n now cm a d0 = (Inr x, d1)"
    using revoke unfolding app_revoke_application_credential_def
    by (auto simp: sbind_Inr reading_Inr storing_Inr result_simps)
  note eff = revoke_application_credential_Inr [OF this]
  have t: "application_credentials d1 = tbl_update (cred_revoke_where i n) (cred_revoke_set n now cm) (application_credentials d0)"
    using eff by simp
  have "unique_key c_id (application_credentials d0)"
    using eff unfolding t credentials_unique_def
    by (subst (asm) unique_key_update_iff) (auto simp: cred_revoke_set_def)
  then have "\<exists>c. credential_row_at i d1 = Some c \<and> c_revoked c \<noteq> None"
    using eff update_one [of c_id "application_credentials d0" "cred_revoke_where i n" i "cred_revoke_set n now cm"]
    by (force simp: credential_row_at_def cred_revoke_where_def cred_revoke_set_def)
  then obtain c where c: "credential_row_at i d2 = Some c" "c_revoked c \<noteq> None"
    using run_revoked [OF run] by blast
  moreover have "asv_credential_id s \<noteq> i"
    if auth: "authenticate_application_credential v ev2 presented req2 t d2 = (Inr s, d3)"
  proof
    assume "asv_credential_id s = i"
    then obtain m cm x where "mark_application_credential_used i m t cm d2 = (Inr x, d3)"
      using auth unfolding authenticate_application_credential_def
      by (auto simp: reading_Inr sbind_Inr storing_Inr split: prod.splits option.splits)
    then show False using revoked_unusable [OF c] by (metis Pair_inject sum.distinct(1))
  qed
  ultimately show ?thesis using revoked_context_dead by blast
qed

section \<open>An issued credential is accepted\<close>

definition credential_typed :: "application_credential_record \<Rightarrow> bool" where
  "credential_typed r =
     (length (cr_credential_id r) = 16 \<and> length (cr_principal_id r) = 16 \<and> length (cr_lookup_id r) = 12 \<and>
      length (cr_verifier r) = 32 \<and> i64_ok (cr_created_at r) \<and> is_none_or i64_ok (cr_expires_at r))"

lemma debug_option_length: "is_none_or i64_ok m \<Longrightarrow> length (debug_option m) \<le> 26"
  using dec_int_length by (fastforce simp: debug_option_def is_none_or_def split: option.splits)

lemma credential_commitment_total:
  assumes "credential_typed r" "i64_ok now" "n < 10 ^ 20" "mac_correct (vt_lib v)"
  shows "\<exists>c. application_credential_commitment v (cr_credential_id r) (cr_principal_id r) (cr_lookup_id r)
    (cr_verifier r) (cr_created_at r) (cr_expires_at r) (Some now) None n = Inr c \<and> length c = 32"
proof -
  let ?fs = "[''application-credential'', uuid_text (cr_credential_id r), uuid_text (cr_principal_id r),
       hex_encode (cr_lookup_id r), hex_encode (cr_verifier r), dec_int (cr_created_at r),
       debug_option (cr_expires_at r), debug_option (Some now), debug_option None, dec_nat n]"
  have "length (dec_nat n) \<le> 20" using assms(3) by (intro dec_nat_length) simp_all
  then have "length (join_nul ?fs) \<le> 4096" "0 < length (join_nul ?fs)"
    using assms debug_option_length [of "cr_expires_at r"] debug_option_length [of "Some now"]
      debug_option_length [of None] dec_int_length [of "cr_created_at r"]
    by (simp_all add: credential_typed_def length_join_nul length_uuid_text is_none_or_def)
  then have "length (ascii (join_nul ?fs)) \<le> 4096" "0 < length (ascii (join_nul ?fs))"
    unfolding length_ascii .
  then have "ascii (join_nul ?fs) \<noteq> [] \<and> length (ascii (join_nul ?fs)) \<le> 4096" by fastforce
  then show ?thesis
    using assms(4) unfolding application_credential_commitment_def text_commitment_def state_commitment_def
    by (simp add: mac_correct_def del: join_nul.simps)
qed

lemma mark_used_succeeds:
  assumes "c \<in> set (rows (application_credentials d))" "use_where i n now c" "credentials_unique (application_credentials d)"
    and "credential_check (use_set n now cm c)" "fk_current_version d" "\<not> poisoned d" "int n + 1 \<le> i64_max"
  shows "\<exists>d'. mark_application_credential_used i n now cm d = (Inr (n + 1), d')"
proof -
  have key: "use_where i n now r \<Longrightarrow> c_id r = i" for r by (simp add: use_where_def)
  then have only: "use_where i n now r \<Longrightarrow> r \<in> set (rows (application_credentials d)) \<Longrightarrow> r = c" for r
    using assms(1-3) unique_key_eq unfolding credentials_unique_def by metis
  have one: "tbl_count (use_where i n now) (application_credentials d) = 1"
    using assms(1-3) key by (subst unique_key_count_one [where k = c_id and v = i]) (auto simp: credentials_unique_def)
  have "credentials_unique (tbl_update (use_where i n now) (use_set n now cm) (application_credentials d))"
    using assms(3) unfolding credentials_unique_def
    by (subst (1 2) unique_key_update_iff) (auto simp: use_set_def)
  then have "sql_update credential_check credentials_unique no_trigger (use_where i n now)
      (use_set n now cm) (application_credentials d) =
      Inr (1, tbl_update (use_where i n now) (use_set n now cm) (application_credentials d))"
    using one only assms(4) by (auto simp: sql_update_Inr)
  moreover have "n + 1 \<le> u64_max" "int n \<le> i64_max" using assms(7) by (auto simp: i64_max_def u64_max_def)
  ultimately show ?thesis
    using assms(5-7) unfolding mark_application_credential_used_def
    by (simp add: guarded_def transaction_def lock_def fk_current_version_def checked_add_u64_def sql_i64_def
        add.commute use_where_def [abs_def] use_set_def [abs_def])
qed

lemma parse_credential_row_of:
  assumes "credential_check (credential_row_of c)" "length (ci_principal_id c) = 16"
  shows "parse_application_credential (credential_row_of c) = Inr
    \<lparr>cr_credential_id = ci_credential_id c, cr_principal_id = ci_principal_id c, cr_lookup_id = ci_lookup_id c,
     cr_verifier = ci_verifier c, cr_created_at = ci_created_at c, cr_expires_at = ci_expires_at c,
     cr_last_used_at = None, cr_revoked_at = None, cr_revision = 1, cr_state_commitment = ci_state_commitment c\<rparr>"
  using assms by (simp add: credential_check_def credential_row_of_def parse_application_credential_def parse_uuid_def
      u64_of_i64_def i64_max_def)

lemma issued_credential_accepted:
  assumes issue: "issue_application_credential v ent i ev0 ev owner service expires req now d = (Inr out, d')"
    and lib: "base64_correct (vt_lib v)" "mac_correct (vt_lib v)"
    and ent: "te_lookup ent = Some l" "te_secret ent = Some s" "length l = 12" "length s = 32"
    and ids: "length service = 16"
    and time: "i64_ok now" "is_none_or i64_ok expires" "i64_ok t" "now \<le> t" "is_none_or (\<lambda>e. t \<le> e) expires"
    and fk: "fk_current_version d'"
  shows "\<exists>d''. authenticate_application_credential v ev' (iac_plaintext out) req' t d' =
    (Inr \<lparr>asv_principal_id = service, asv_credential_id = i\<rparr>, d'')"
proof -
  obtain d0 p issued lookup cm a where p0: "principal service d0 = Inr p" and p: "verify_principal_commitment v p = Inr ()"
      "pr_kind p = principal_kind.Service" "pr_state p = ''active''"
    and issued: "issue_token (vt_lib v) (Some l) (Some s) (vt_token_verifier_key v) = Inr issued"
    and lookup: "b64_decode (vt_lib v) (it_lookup_id issued) = Some lookup"
    and cm: "application_credential_commitment v i service lookup (it_verifier issued) now expires None None 1 = Inr cm"
    and out: "iac_plaintext out = it_plaintext issued"
    and ok: "create_application_credential \<lparr>ci_credential_id = i, ci_principal_id = service, ci_lookup_id = lookup,
       ci_verifier = it_verifier issued, ci_created_at = now, ci_expires_at = expires,
       ci_state_commitment = cm\<rparr> a d0 = (Inr (), d')"
    using issue ent unfolding issue_application_credential_def
    by (auto simp: sbind_Inr reading_Inr storing_Inr result_simps)
  let ?ins = "\<lparr>ci_credential_id = i, ci_principal_id = service, ci_lookup_id = lookup,
       ci_verifier = it_verifier issued, ci_created_at = now, ci_expires_at = expires, ci_state_commitment = cm\<rparr>"
  let ?r = "\<lparr>cr_credential_id = i, cr_principal_id = service, cr_lookup_id = lookup, cr_verifier = it_verifier issued,
     cr_created_at = now, cr_expires_at = expires, cr_last_used_at = None, cr_revoked_at = None, cr_revision = 1,
     cr_state_commitment = cm\<rparr>"
  have [simp]: "lookup = l" "it_lookup_id issued = b64_encode (vt_lib v) l"
    using issued lookup lib(1) by (auto simp: issue_token_def Let_def base64_correct_def)
  note eff = create_application_credential_Inr [OF ok]
  have row: "credential_row_of ?ins \<in> set (rows (application_credentials d'))"
    "credential_check (credential_row_of ?ins)" "credentials_unique (application_credentials d')" "\<not> poisoned d'"
    using eff by auto
  have parsed: "parse_application_credential (credential_row_of ?ins) = Inr ?r"
    using parse_credential_row_of [OF row(2)] ids by simp
  have found: "application_credential_by_lookup l d' = Inr (Some ?r)"
    using unique_key_find [of c_lookup "application_credentials d'" "credential_row_of ?ins" l] row parsed
    by (auto simp: application_credential_by_lookup_def query_def lock_def credentials_unique_def credential_row_of_def)
  have token: "verify_token (vt_lib v) (vt_token_verifier_key v) (it_plaintext issued) (b64_encode (vt_lib v) l)
      (it_verifier issued) = Inr True" "token_lookup_id (vt_lib v) (it_plaintext issued) = Some l"
    using verify_issued_token [OF lib(1) ent(3,4) issued] by simp_all
  have add: "checked_add_u64 (Suc 0) (Suc 0) = Some 2" by (simp add: checked_add_u64_def u64_max_def)
  have "principal service d' = Inr p"
    using p0 eff by (simp add: principal_def query_def lock_def)
  moreover have "verify_application_credential_commitment v ?r = Inr ()"
    using cm by (simp add: verify_application_credential_commitment_def ensure_def)
  moreover have usable: "credential_usable ?r t" using time by (simp add: credential_usable_def is_none_or_def)
  moreover have "credential_typed ?r"
    using row(2) ids time ent by (simp add: credential_typed_def credential_check_def credential_row_of_def)
  then obtain c where c: "application_credential_commitment v i service l (it_verifier issued) now expires
      (Some t) None 2 = Inr c" "length c = 32"
    using credential_commitment_total [OF _ time(3) _ lib(2), of ?r 2] by auto
  ultimately have judge: "judge_credential v (it_plaintext issued) t d' = Inr (?r, Some c)"
    using found token p add by (simp add: judge_credential_def)
  have "use_where i 1 t (credential_row_of ?ins)"
    using time by (simp add: use_where_def credential_row_of_def)
  moreover have "credential_check (use_set 1 t c (credential_row_of ?ins))"
    using row(2) c(2) by (simp add: credential_check_def use_set_def credential_row_of_def)
  ultimately obtain d'' where "mark_application_credential_used i 1 t c d' = (Inr (1 + 1), d'')"
    using mark_used_succeeds [OF row(1) _ row(3) _ fk row(4), of i 1 t c] by (auto simp: i64_max_def)
  then show ?thesis
    using judge out by (simp add: authenticate_application_credential_def reading_def guarded_def storing_def)
qed

end
