(* ===== verification/App_Facade.thy ===== *)
theory App_Facade
  imports App_Service
begin

text \<open>
  The protected facade (\<open>src/crates/smcv-app/src/authorized_vault.rs\<close>), the only public way to
  the vault's records: a request context is opened for a live session or credential, and every
  operation asks the policy boundary before it touches the vault.  The locale \<open>mediated\<close>
  states what that gives; each operation is an instance.
\<close>

section \<open>Data\<close>

record authorized_vault =
  fv_principal :: request_principal
  fv_request_id :: uuid
  fv_now :: unix_ms

record idempotency_input =
  ii_key :: bytes
  ii_canonical_request :: bytes

datatype authorized_vault_error = Authorization authorization_error | Vault vault_error

text \<open>Event identifiers are arguments: first the decision's event, then the operation's own, and
  for an update its second attempt's.\<close>

definition authorized :: "vault \<Rightarrow> request_principal \<Rightarrow> uuid \<Rightarrow> unix_ms \<Rightarrow> db \<Rightarrow>
    authorization_error + authorized_vault" where
  "authorized v p request_id now d =
     rbind (ensure (vt_authorization_gate_ok v) Unavailable) (\<lambda>_.
     rbind (map_err (\<lambda>_. Denied)
       (case p of Owner owner \<Rightarrow> verify_owner_context_active v owner now d
        | Service service \<Rightarrow> verify_service_context_active v service now d)) (\<lambda>_.
     Inr \<lparr>fv_principal = p, fv_request_id = request_id, fv_now = now\<rparr>))"

definition facade_operation :: "authorized_vault \<Rightarrow> vault_operation_context" where
  "facade_operation a = operation (fv_principal a) (fv_request_id a) (fv_now a)"

definition facade_authorize :: "vault \<Rightarrow> uuid \<Rightarrow> authorized_vault \<Rightarrow> action \<Rightarrow> resource_kind \<Rightarrow> uuid \<Rightarrow> db \<Rightarrow>
    (authorized_vault_error + unit) \<times> db" where
  "facade_authorize v ev a act kind resource_id =
     storing Authorization (\<lambda>u. u)
       (authorize v ev (fv_principal a) act kind resource_id (fv_request_id a) (fv_now a))"

definition authorize_secret :: "vault \<Rightarrow> uuid \<Rightarrow> authorized_vault \<Rightarrow> action \<Rightarrow> uuid \<Rightarrow> db \<Rightarrow>
    (authorized_vault_error + unit) \<times> db" where
  "authorize_secret v ev a act secret_id = facade_authorize v ev a act Secret secret_id"

text \<open>A pure query of the vault behind the decision.\<close>

definition view :: "(db \<Rightarrow> vault_error + 'a) \<Rightarrow> db \<Rightarrow> (authorized_vault_error + 'a) \<times> db" where
  "view f = reading (\<lambda>d. map_err Vault (f d)) (\<lambda>r d. (Inr r, d))"

section \<open>Namespaces\<close>

definition authorized_list_namespaces :: "vault \<Rightarrow> uuid \<Rightarrow> authorized_vault \<Rightarrow> uuid option \<Rightarrow> uuid option \<Rightarrow> nat \<Rightarrow>
    db \<Rightarrow> (authorized_vault_error + namespace_list_item list) \<times> db" where
  "authorized_list_namespaces v ev a parent after limit =
     sbind (facade_authorize v ev a NamespaceList Namespace (index_scope v parent)) (\<lambda>_.
     view (list_namespaces v parent after limit))"

definition authorized_create_namespace :: "vault \<Rightarrow> uuid \<Rightarrow> uuid \<Rightarrow> entropy \<Rightarrow> authorized_vault \<Rightarrow> uuid \<Rightarrow> uuid option \<Rightarrow>
    metadata \<Rightarrow> db \<Rightarrow> (authorized_vault_error + uuid) \<times> db" where
  "authorized_create_namespace v ev0 ev ent a namespace_id parent md =
     sbind (facade_authorize v ev0 a NamespaceCreate Namespace (index_scope v parent)) (\<lambda>_.
     storing Vault (\<lambda>i. i) (create_namespace_with_id v ent ev namespace_id parent md (facade_operation a)))"

text \<open>The reservation of a response identifier for one day.\<close>

fun reservation_error :: "storage_error \<Rightarrow> vault_error" where
  "reservation_error storage_error.Conflict = vault_error.Conflict"
| "reservation_error InvalidData = vault_error.Integrity"
| "reservation_error _ = vault_error.Unavailable"

definition facade_reserve_idempotency :: "vault \<Rightarrow> authorized_vault \<Rightarrow> uuid \<Rightarrow> idempotency_input \<Rightarrow> string \<Rightarrow> db \<Rightarrow>
    (authorized_vault_error + idempotency_reservation) \<times> db" where
  "facade_reserve_idempotency v a proposed input response_kind =
     reading (\<lambda>_.
       rbind (map_err (\<lambda>_. Vault vault_error.InvalidInput) (idempotency_verifiers (vt_lib v)
         (vt_token_verifier_key v) (ii_key input) (ii_canonical_request input))) (\<lambda>(key_verifier, fingerprint).
       rbind (ok_or (Vault vault_error.InvalidInput) (checked_add_i64 (fv_now a) (24 * 60 * 60 * 1000))) (\<lambda>expires.
       Inr \<lparr>iq_principal_id = principal_id (fv_principal a), iq_key_verifier = key_verifier,
            iq_request_fingerprint = fingerprint, iq_response_kind = response_kind,
            iq_proposed_response_id = proposed, iq_now = fv_now a, iq_expires_at = expires\<rparr>)))
     (\<lambda>q. storing (\<lambda>e. Vault (reservation_error e)) (\<lambda>r. r) (reserve_idempotency q))"

text \<open>A retry that finds its object answers with it; so does one that loses the race.\<close>

definition or_existing :: "bool \<Rightarrow> (db \<Rightarrow> bool) \<Rightarrow> 'a \<Rightarrow> (db \<Rightarrow> (vault_error + 'a) \<times> db) \<Rightarrow> db \<Rightarrow>
    (authorized_vault_error + 'a) \<times> db" where
  "or_existing reused exists answer create d =
     (if reused \<and> exists d then (Inr answer, d)
      else case create d of
          (Inr x, d') \<Rightarrow> (Inr x, d')
        | (Inl e, d') \<Rightarrow>
            if e = vault_error.Conflict \<and> reused \<and> exists d' then (Inr answer, d') else (Inl (Vault e), d'))"

definition create_namespace_idempotent :: "vault \<Rightarrow> uuid \<Rightarrow> uuid \<Rightarrow> entropy \<Rightarrow> authorized_vault \<Rightarrow> uuid \<Rightarrow> uuid option \<Rightarrow>
    metadata \<Rightarrow> idempotency_input \<Rightarrow> db \<Rightarrow> (authorized_vault_error + uuid) \<times> db" where
  "create_namespace_idempotent v ev0 ev ent a proposed parent md input =
     sbind (facade_authorize v ev0 a NamespaceCreate Namespace (index_scope v parent)) (\<lambda>_.
     sbind (facade_reserve_idempotency v a proposed input ''namespace'') (\<lambda>reserved.
     or_existing (ir_reused reserved) (\<lambda>d. \<not> isl (namespace (ir_response_id reserved) d)) (ir_response_id reserved)
       (create_namespace_with_id v ent ev (ir_response_id reserved) parent md (facade_operation a))))"

section \<open>Secrets\<close>

definition authorized_list_secrets :: "vault \<Rightarrow> uuid \<Rightarrow> authorized_vault \<Rightarrow> uuid \<Rightarrow> uuid option \<Rightarrow> nat \<Rightarrow> db \<Rightarrow>
    (authorized_vault_error + secret_list_item list) \<times> db" where
  "authorized_list_secrets v ev a namespace_id after limit =
     sbind (facade_authorize v ev a SecretList Namespace namespace_id) (\<lambda>_.
     view (list_secrets v namespace_id after limit))"

definition is_owner :: "request_principal \<Rightarrow> bool" where
  "is_owner p = (case p of Owner _ \<Rightarrow> True | Service _ \<Rightarrow> False)"

definition authorized_list_secrets_in_lifecycle :: "vault \<Rightarrow> uuid \<Rightarrow> authorized_vault \<Rightarrow> uuid \<Rightarrow> string \<Rightarrow>
    uuid option \<Rightarrow> nat \<Rightarrow> db \<Rightarrow> (authorized_vault_error + secret_list_item list) \<times> db" where
  "authorized_list_secrets_in_lifecycle v ev a namespace_id lifecycle after limit =
     sbind (facade_authorize v ev a SecretList Namespace namespace_id) (\<lambda>_.
     reading (\<lambda>_. ensure (is_owner (fv_principal a)) (Authorization Denied)) (\<lambda>_.
     view (list_secrets_in_lifecycle v namespace_id lifecycle after limit)))"

definition authorized_create_secret :: "vault \<Rightarrow> uuid \<Rightarrow> uuid \<Rightarrow> entropy \<Rightarrow> entropy \<Rightarrow> authorized_vault \<Rightarrow> uuid \<Rightarrow> uuid \<Rightarrow>
    metadata \<Rightarrow> bytes \<Rightarrow> secret_schedule \<Rightarrow> db \<Rightarrow> (authorized_vault_error + secret_created) \<times> db" where
  "authorized_create_secret v ev0 ev em ent a secret_id namespace_id md payload schedule =
     sbind (facade_authorize v ev0 a SecretCreate Namespace namespace_id) (\<lambda>_.
     storing Vault (\<lambda>r. r) (create_secret_with_id_and_schedule v em ent ev secret_id namespace_id md payload
       schedule (facade_operation a)))"

definition create_secret_idempotent :: "vault \<Rightarrow> uuid \<Rightarrow> uuid \<Rightarrow> entropy \<Rightarrow> entropy \<Rightarrow> authorized_vault \<Rightarrow> uuid \<Rightarrow> uuid \<Rightarrow>
    metadata \<Rightarrow> bytes \<Rightarrow> secret_schedule \<Rightarrow> idempotency_input \<Rightarrow> db \<Rightarrow>
    (authorized_vault_error + secret_created) \<times> db" where
  "create_secret_idempotent v ev0 ev em ent a proposed namespace_id md payload schedule input =
     sbind (facade_authorize v ev0 a SecretCreate Namespace namespace_id) (\<lambda>_.
     sbind (facade_reserve_idempotency v a proposed input ''secret'') (\<lambda>reserved.
     or_existing (ir_reused reserved) (\<lambda>d. \<not> isl (secret (ir_response_id reserved) d))
       \<lparr>cr_secret_id = ir_response_id reserved, cr_version = 1, cr_revision = 1\<rparr>
       (create_secret_with_id_and_schedule v em ent ev (ir_response_id reserved) namespace_id md payload schedule
         (facade_operation a))))"

definition authorized_update_secret :: "vault \<Rightarrow> uuid \<Rightarrow> uuid \<Rightarrow> uuid \<Rightarrow> entropy \<Rightarrow> authorized_vault \<Rightarrow> uuid \<Rightarrow> nat \<Rightarrow> nat \<Rightarrow>
    bytes \<Rightarrow> secret_schedule \<Rightarrow> db \<Rightarrow> (authorized_vault_error + nat) \<times> db" where
  "authorized_update_secret v ev0 ev1 ev2 ent a secret_id version revision payload schedule =
     sbind (authorize_secret v ev0 a SecretUpdate secret_id) (\<lambda>_.
     storing Vault (\<lambda>n. n) (update_secret_with_schedule v ent ev1 ev2 secret_id version revision payload schedule
       (facade_operation a)))"

definition authorized_reveal_current_secret :: "vault \<Rightarrow> uuid \<Rightarrow> uuid \<Rightarrow> authorized_vault \<Rightarrow> uuid \<Rightarrow> db \<Rightarrow>
    (authorized_vault_error + bytes) \<times> db" where
  "authorized_reveal_current_secret v ev0 ev a secret_id =
     sbind (authorize_secret v ev0 a SecretValueRead secret_id) (\<lambda>_.
     storing Vault (\<lambda>b. b) (reveal_current_secret v ev secret_id (facade_operation a)))"

definition authorized_secret_version_history :: "vault \<Rightarrow> uuid \<Rightarrow> authorized_vault \<Rightarrow> uuid \<Rightarrow> nat \<Rightarrow> nat \<Rightarrow> db \<Rightarrow>
    (authorized_vault_error + secret_version_summary list) \<times> db" where
  "authorized_secret_version_history v ev a secret_id after_version limit =
     sbind (authorize_secret v ev a SecretHistoryRead secret_id) (\<lambda>_.
     view (secret_version_history v secret_id after_version limit))"

definition authorized_reveal_secret_version :: "vault \<Rightarrow> uuid \<Rightarrow> uuid \<Rightarrow> authorized_vault \<Rightarrow> uuid \<Rightarrow> nat \<Rightarrow> db \<Rightarrow>
    (authorized_vault_error + bytes) \<times> db" where
  "authorized_reveal_secret_version v ev0 ev a secret_id version =
     sbind (authorize_secret v ev0 a SecretVersionRead secret_id) (\<lambda>_.
     storing Vault (\<lambda>b. b) (reveal_secret_version v ev secret_id version (facade_operation a)))"

definition authorized_read_secret_metadata :: "vault \<Rightarrow> uuid \<Rightarrow> authorized_vault \<Rightarrow> uuid \<Rightarrow> db \<Rightarrow>
    (authorized_vault_error + metadata) \<times> db" where
  "authorized_read_secret_metadata v ev a secret_id =
     sbind (authorize_secret v ev a SecretMetadataRead secret_id) (\<lambda>_.
     view (read_secret_metadata v secret_id))"

definition authorized_find_secret_by_exact_name :: "vault \<Rightarrow> uuid \<Rightarrow> authorized_vault \<Rightarrow> uuid \<Rightarrow> bytes \<Rightarrow> db \<Rightarrow>
    (authorized_vault_error + uuid) \<times> db" where
  "authorized_find_secret_by_exact_name v ev a namespace_id name =
     sbind (facade_authorize v ev a SecretList Namespace namespace_id) (\<lambda>_.
     view (find_secret_by_exact_name v namespace_id name))"

definition authorized_archive_secret :: "vault \<Rightarrow> uuid \<Rightarrow> uuid \<Rightarrow> authorized_vault \<Rightarrow> uuid \<Rightarrow> nat \<Rightarrow> db \<Rightarrow>
    (authorized_vault_error + nat) \<times> db" where
  "authorized_archive_secret v ev0 ev a secret_id revision =
     sbind (authorize_secret v ev0 a SecretArchive secret_id) (\<lambda>_.
     storing Vault (\<lambda>n. n) (archive_secret v ev secret_id revision (facade_operation a)))"

definition authorized_restore_archived_secret :: "vault \<Rightarrow> uuid \<Rightarrow> uuid \<Rightarrow> authorized_vault \<Rightarrow> uuid \<Rightarrow> nat \<Rightarrow> db \<Rightarrow>
    (authorized_vault_error + nat) \<times> db" where
  "authorized_restore_archived_secret v ev0 ev a secret_id revision =
     sbind (authorize_secret v ev0 a SecretRestore secret_id) (\<lambda>_.
     storing Vault (\<lambda>n. n) (restore_archived_secret v ev secret_id revision (facade_operation a)))"

definition authorized_delete_secret :: "vault \<Rightarrow> uuid \<Rightarrow> uuid \<Rightarrow> authorized_vault \<Rightarrow> uuid \<Rightarrow> nat \<Rightarrow> db \<Rightarrow>
    (authorized_vault_error + nat) \<times> db" where
  "authorized_delete_secret v ev0 ev a secret_id revision =
     sbind (authorize_secret v ev0 a SecretPurge secret_id) (\<lambda>_.
     storing Vault (\<lambda>n. n) (delete_secret v ev secret_id revision (facade_operation a)))"

definition authorized_purge_secret :: "vault \<Rightarrow> uuid \<Rightarrow> uuid \<Rightarrow> authorized_vault \<Rightarrow> uuid \<Rightarrow> nat \<Rightarrow> unix_ms \<Rightarrow> db \<Rightarrow>
    (authorized_vault_error + unit) \<times> db" where
  "authorized_purge_secret v ev0 ev a secret_id revision cutoff =
     sbind (authorize_secret v ev0 a SecretPurge secret_id) (\<lambda>_.
     storing Vault (\<lambda>u. u) (purge_secret_after_owner_approval v ev secret_id revision
       \<lparr>pa_retention_cutoff = cutoff\<rparr> (facade_operation a)))"

section \<open>Administration\<close>

definition authorized_secrets_due :: "vault \<Rightarrow> uuid \<Rightarrow> authorized_vault \<Rightarrow> nat \<Rightarrow> db \<Rightarrow>
    (authorized_vault_error + due_secret list) \<times> db" where
  "authorized_secrets_due v ev a limit =
     sbind (facade_authorize v ev a VaultConfigure Namespace (vt_vault_id v)) (\<lambda>_.
     view (secrets_due v (fv_now a) limit))"

definition authorized_verify_audit_chain :: "vault \<Rightarrow> uuid \<Rightarrow> authorized_vault \<Rightarrow> db \<Rightarrow>
    (authorized_vault_error + audit_verification) \<times> db" where
  "authorized_verify_audit_chain v ev a =
     sbind (facade_authorize v ev a AuditRead Namespace (vt_vault_id v)) (\<lambda>_. view (verify_audit_chain v))"

fun audit_page_error :: "storage_error \<Rightarrow> vault_error" where
  "audit_page_error InvalidData = vault_error.Integrity"
| "audit_page_error storage_error.Conflict = vault_error.InvalidInput"
| "audit_page_error _ = vault_error.Unavailable"

definition authorized_audit_events :: "vault \<Rightarrow> uuid \<Rightarrow> authorized_vault \<Rightarrow> nat \<Rightarrow> nat \<Rightarrow> db \<Rightarrow>
    (authorized_vault_error + audit_record list) \<times> db" where
  "authorized_audit_events v ev a after_sequence limit =
     sbind (facade_authorize v ev a AuditRead Namespace (vt_vault_id v)) (\<lambda>_.
     view (\<lambda>d. map_err audit_page_error (audit_records_after after_sequence limit d)))"

definition authorize_backup_create :: "vault \<Rightarrow> uuid \<Rightarrow> authorized_vault \<Rightarrow> db \<Rightarrow>
    (authorized_vault_error + unit) \<times> db" where
  "authorize_backup_create v ev a = facade_authorize v ev a BackupCreate Namespace (vt_vault_id v)"

definition authorize_backup_inspect :: "vault \<Rightarrow> uuid \<Rightarrow> authorized_vault \<Rightarrow> db \<Rightarrow>
    (authorized_vault_error + unit) \<times> db" where
  "authorize_backup_inspect v ev a = facade_authorize v ev a BackupInspect Namespace (vt_vault_id v)"

section \<open>Complete mediation\<close>

text \<open>Every operation is a decision followed by the rest.\<close>

locale mediated =
  fixes op :: "vault \<Rightarrow> authorized_vault \<Rightarrow> 'i \<Rightarrow> db \<Rightarrow> (authorized_vault_error + 'o) \<times> db"
    and act :: action
    and kind :: resource_kind
    and resource :: "vault \<Rightarrow> 'i \<Rightarrow> uuid"
  assumes decided_first: "\<exists>ev rest. op v a i = sbind (facade_authorize v ev a act kind (resource v i)) rest"
begin

lemma success_was_allowed:
  assumes "op v a i d = (Inr x, d')"
  shows "decide v (fv_principal a) act kind (resource v i) (fv_now a) d = Inr (Inr ())"
proof -
  obtain ev rest where "op v a i = sbind (facade_authorize v ev a act kind (resource v i)) rest"
    using decided_first by blast
  then obtain d1 where "authorize v ev (fv_principal a) act kind (resource v i) (fv_request_id a) (fv_now a) d = (Inr (), d1)"
    using assms by (auto simp: sbind_Inr facade_authorize_def storing_Inr)
  then show ?thesis using authorize_Inr by blast
qed

lemma service_success_granted:
  assumes "op v a i d = (Inr x, d')" "fv_principal a = Service s"
  shows "is_service_grantable act \<and> (\<exists>sn ancestors. verified_authorization_snapshot v d = Inr sn \<and>
    resource_namespace_ancestors v kind (resource v i) d = Inr ancestors \<and>
    granted sn (asv_principal_id s) act kind (resource v i) ancestors)"
  using success_was_allowed [OF assms(1)] unfolding assms(2) by (rule decide_service_allowed)

lemma refused_changes_only_log:
  assumes "decide v (fv_principal a) act kind (resource v i) (fv_now a) d \<noteq> Inr (Inr ())"
  shows "\<exists>e d'. op v a i d = (Inl e, d') \<and> (d' = d \<or> (\<exists>b. d' = logged b d))"
proof -
  obtain ev rest where op: "op v a i = sbind (facade_authorize v ev a act kind (resource v i)) rest"
    using decided_first by blast
  obtain r d' where auth: "authorize v ev (fv_principal a) act kind (resource v i) (fv_request_id a) (fv_now a) d = (r, d')"
    by fastforce
  show ?thesis
  proof (cases r)
    case (Inl e)
    then have "d' = d \<or> (\<exists>b. d' = logged b d)" using authorize_Inl auth by (blast dest: append_audit_Inr)
    moreover have "op v a i d = (Inl (Authorization e), d')"
      using auth Inl by (simp add: op sbind_def facade_authorize_def storing_def guarded_def)
    ultimately show ?thesis by blast
  next
    case (Inr u)
    then show ?thesis using authorize_Inr auth assms by (metis (full_types) old.unit.exhaust)
  qed
qed

end

lemmas facade_defs = authorize_secret_def authorize_backup_create_def authorize_backup_inspect_def

lemma facade_alone: "facade_authorize v ev a act kind i = sbind (facade_authorize v ev a act kind i) (\<lambda>u d. (Inr u, d))"
  by (rule ext) (auto simp: sbind_def guarded_def split: prod.splits sum.splits)

interpretation f_list_ns: mediated "\<lambda>v a (ev, parent, after, limit). authorized_list_namespaces v ev a parent after limit"
  NamespaceList Namespace "\<lambda>v (ev, parent, after, limit). index_scope v parent"
  unfolding authorized_list_namespaces_def facade_defs by unfold_locales (auto split: prod.splits)

interpretation f_create_ns: mediated "\<lambda>v a (ev0, ev, ent, i, parent, md). authorized_create_namespace v ev0 ev ent a i parent md"
  NamespaceCreate Namespace "\<lambda>v (ev0, ev, ent, i, parent, md). index_scope v parent"
  unfolding authorized_create_namespace_def facade_defs by unfold_locales (auto split: prod.splits)

interpretation f_create_ns_once: mediated "\<lambda>v a (ev0, ev, ent, i, parent, md, input). create_namespace_idempotent v ev0 ev ent a i parent md input"
  NamespaceCreate Namespace "\<lambda>v (ev0, ev, ent, i, parent, md, input). index_scope v parent"
  unfolding create_namespace_idempotent_def facade_defs by unfold_locales (auto split: prod.splits)

interpretation f_list_secrets: mediated "\<lambda>v a (ev, ns, after, limit). authorized_list_secrets v ev a ns after limit"
  SecretList Namespace "\<lambda>v (ev, ns, after, limit). ns"
  unfolding authorized_list_secrets_def facade_defs by unfold_locales (auto split: prod.splits)

interpretation f_list_lifecycle: mediated "\<lambda>v a (ev, ns, st, after, limit). authorized_list_secrets_in_lifecycle v ev a ns st after limit"
  SecretList Namespace "\<lambda>v (ev, ns, st, after, limit). ns"
  unfolding authorized_list_secrets_in_lifecycle_def facade_defs by unfold_locales (auto split: prod.splits)

interpretation f_create_secret: mediated "\<lambda>v a (ev0, ev, em, ent, i, ns, md, p, sch). authorized_create_secret v ev0 ev em ent a i ns md p sch"
  SecretCreate Namespace "\<lambda>v (ev0, ev, em, ent, i, ns, md, p, sch). ns"
  unfolding authorized_create_secret_def facade_defs by unfold_locales (auto split: prod.splits)

interpretation f_create_secret_once: mediated "\<lambda>v a (ev0, ev, em, ent, i, ns, md, p, sch, input). create_secret_idempotent v ev0 ev em ent a i ns md p sch input"
  SecretCreate Namespace "\<lambda>v (ev0, ev, em, ent, i, ns, md, p, sch, input). ns"
  unfolding create_secret_idempotent_def facade_defs by unfold_locales (auto split: prod.splits)

interpretation f_update: mediated "\<lambda>v a (ev0, ev1, ev2, ent, i, n, k, p, sch). authorized_update_secret v ev0 ev1 ev2 ent a i n k p sch"
  SecretUpdate Secret "\<lambda>v (ev0, ev1, ev2, ent, i, n, k, p, sch). i"
  unfolding authorized_update_secret_def facade_defs by unfold_locales (auto split: prod.splits)

interpretation f_reveal: mediated "\<lambda>v a (ev0, ev, i). authorized_reveal_current_secret v ev0 ev a i"
  SecretValueRead Secret "\<lambda>v (ev0, ev, i). i"
  unfolding authorized_reveal_current_secret_def facade_defs by unfold_locales (auto split: prod.splits)

interpretation f_history: mediated "\<lambda>v a (ev, i, after, limit). authorized_secret_version_history v ev a i after limit"
  SecretHistoryRead Secret "\<lambda>v (ev, i, after, limit). i"
  unfolding authorized_secret_version_history_def facade_defs by unfold_locales (auto split: prod.splits)

interpretation f_reveal_version: mediated "\<lambda>v a (ev0, ev, i, n). authorized_reveal_secret_version v ev0 ev a i n"
  SecretVersionRead Secret "\<lambda>v (ev0, ev, i, n). i"
  unfolding authorized_reveal_secret_version_def facade_defs by unfold_locales (auto split: prod.splits)

interpretation f_metadata: mediated "\<lambda>v a (ev, i). authorized_read_secret_metadata v ev a i"
  SecretMetadataRead Secret "\<lambda>v (ev, i). i"
  unfolding authorized_read_secret_metadata_def facade_defs by unfold_locales (auto split: prod.splits)

interpretation f_find: mediated "\<lambda>v a (ev, ns, name). authorized_find_secret_by_exact_name v ev a ns name"
  SecretList Namespace "\<lambda>v (ev, ns, name). ns"
  unfolding authorized_find_secret_by_exact_name_def facade_defs by unfold_locales (auto split: prod.splits)

interpretation f_archive: mediated "\<lambda>v a (ev0, ev, i, n). authorized_archive_secret v ev0 ev a i n"
  SecretArchive Secret "\<lambda>v (ev0, ev, i, n). i"
  unfolding authorized_archive_secret_def facade_defs by unfold_locales (auto split: prod.splits)

interpretation f_restore: mediated "\<lambda>v a (ev0, ev, i, n). authorized_restore_archived_secret v ev0 ev a i n"
  SecretRestore Secret "\<lambda>v (ev0, ev, i, n). i"
  unfolding authorized_restore_archived_secret_def facade_defs by unfold_locales (auto split: prod.splits)

interpretation f_delete: mediated "\<lambda>v a (ev0, ev, i, n). authorized_delete_secret v ev0 ev a i n"
  SecretPurge Secret "\<lambda>v (ev0, ev, i, n). i"
  unfolding authorized_delete_secret_def facade_defs by unfold_locales (auto split: prod.splits)

interpretation f_purge: mediated "\<lambda>v a (ev0, ev, i, n, cutoff). authorized_purge_secret v ev0 ev a i n cutoff"
  SecretPurge Secret "\<lambda>v (ev0, ev, i, n, cutoff). i"
  unfolding authorized_purge_secret_def facade_defs by unfold_locales (auto split: prod.splits)

interpretation f_due: mediated "\<lambda>v a (ev, limit). authorized_secrets_due v ev a limit"
  VaultConfigure Namespace "\<lambda>v (ev, limit). vt_vault_id v"
  unfolding authorized_secrets_due_def facade_defs by unfold_locales (auto split: prod.splits)

interpretation f_verify: mediated "\<lambda>v a ev. authorized_verify_audit_chain v ev a"
  AuditRead Namespace "\<lambda>v ev. vt_vault_id v"
  unfolding authorized_verify_audit_chain_def facade_defs by unfold_locales (auto split: prod.splits)

interpretation f_audit: mediated "\<lambda>v a (ev, after, limit). authorized_audit_events v ev a after limit"
  AuditRead Namespace "\<lambda>v (ev, after, limit). vt_vault_id v"
  unfolding authorized_audit_events_def facade_defs by unfold_locales (auto split: prod.splits)

interpretation f_backup: mediated "\<lambda>v a ev. authorize_backup_create v ev a"
  BackupCreate Namespace "\<lambda>v ev. vt_vault_id v"
  unfolding authorize_backup_create_def by unfold_locales (blast intro: facade_alone)

interpretation f_inspect: mediated "\<lambda>v a ev. authorize_backup_inspect v ev a"
  BackupInspect Namespace "\<lambda>v ev. vt_vault_id v"
  unfolding authorize_backup_inspect_def by unfold_locales (blast intro: facade_alone)

end
