(* ===== verification/Sample_Crypto.thy ===== *)
theory Sample_Crypto
  imports Crypto_Adapter
begin

text \<open>
  A concrete \<open>crypto_lib\<close> that satisfies every hypothesis the development puts on the
  primitives, so that the theorems that assume them hold of something: an encryption that
  appends a zero tag, a constant digest, and a six-bit text encoding with the length of
  unpadded base64.
\<close>

function chunks :: "nat \<Rightarrow> 'a list \<Rightarrow> 'a list list" where
  "chunks n xs = (if n = 0 \<or> xs = [] then [] else take n xs # chunks n (drop n xs))"
  by auto
termination by (relation "measure (\<lambda>(n, xs). length xs)") auto

declare chunks.simps [simp del]

lemma chunks_Nil [simp]: "chunks n [] = []"
  by (simp add: chunks.simps)

lemma chunks_step: "0 < n \<Longrightarrow> length a = n \<Longrightarrow> chunks n (a @ xs) = a # chunks n xs"
  by (subst chunks.simps) auto

lemma chunks_concat: "0 < n \<Longrightarrow> list_all (\<lambda>a. length a = n) as \<Longrightarrow> chunks n (concat as) = as"
  by (induction as) (auto simp: chunks_step)

lemma concat_chunks: "0 < n \<Longrightarrow> concat (chunks n xs) = xs"
proof (induction n xs rule: chunks.induct)
  case (1 n xs)
  then show ?case by (subst chunks.simps) auto
qed

lemma chunks_even:
  assumes "0 < n" "length xs = n * k"
  shows "length (chunks n xs) = k \<and> list_all (\<lambda>a. length a = n) (chunks n xs)"
  using assms(2)
proof (induction k arbitrary: xs)
  case 0
  then show ?case by simp
next
  case (Suc k)
  then have "n \<le> length xs" "length (drop n xs) = n * k" by auto
  moreover have "xs \<noteq> []" using Suc.prems assms(1) by auto
  ultimately show ?case using Suc.IH [of "drop n xs"] assms(1) by (subst (1 2) chunks.simps) auto
qed

definition bits_of_bytes :: "bytes \<Rightarrow> bool list" where
  "bits_of_bytes b = concat (map (\<lambda>x. map (bit x) [0..<8]) b)"

definition bits_of_char :: "char \<Rightarrow> bool list" where
  "bits_of_char ch = map (bit (of_char ch - 64 :: nat)) [0..<6]"

definition char_of_bits :: "bool list \<Rightarrow> char" where
  "char_of_bits c = char_of (64 + horner_sum of_bool 2 c :: nat)"

definition pad6 :: "bool list \<Rightarrow> bool list" where
  "pad6 xs = xs @ replicate (6 * ((length xs + 5) div 6) - length xs) False"

definition text_encode :: "bytes \<Rightarrow> string" where
  "text_encode b = map char_of_bits (chunks 6 (pad6 (bits_of_bytes b)))"

definition text_decode :: "string \<Rightarrow> bytes option" where
  "text_decode s = Some (map (horner_sum of_bool 2)
     (chunks 8 (take (8 * (6 * length s div 8)) (concat (map bits_of_char s)))))"

lemma length_bits_of_bytes [simp]: "length (bits_of_bytes b) = 8 * length b"
  by (induction b) (auto simp: bits_of_bytes_def)

lemma horner_less: "length c = n \<Longrightarrow> (horner_sum of_bool 2 c :: nat) < 2 ^ n"
proof (induction c arbitrary: n)
  case Nil
  then show ?case by simp
next
  case (Cons a c)
  then have "(horner_sum of_bool 2 c :: nat) < 2 ^ length c" by blast
  then show ?case using Cons.prems by (cases a) auto
qed

lemma bits_char: "length c = 6 \<Longrightarrow> bits_of_char (char_of_bits c) = c"
proof -
  assume len: "length c = 6"
  then have "(horner_sum of_bool 2 c :: nat) < 64" using horner_less [of c 6] by simp
  then have "(of_char (char_of_bits c) :: nat) - 64 = horner_sum of_bool 2 c"
    by (simp add: char_of_bits_def)
  then show ?thesis
    using len by (auto simp: bits_of_char_def bit_horner_sum_bit_iff intro!: nth_equalityI)
qed

lemma dot_not_char: "length c = 6 \<Longrightarrow> char_of_bits c \<noteq> CHR ''.''"
proof
  assume len: "length c = 6" and "char_of_bits c = CHR ''.''"
  then have "(of_char (char_of_bits c) :: nat) = 46" by simp
  moreover have "(horner_sum of_bool 2 c :: nat) < 64" using len horner_less [of c 6] by simp
  ultimately show False by (simp add: char_of_bits_def)
qed

lemma pad6_length: "length (pad6 (bits_of_bytes b)) = 6 * ((4 * length b + 2) div 3)"
proof -
  have "(8 * length b + 5) div 6 = (4 * length b + 2) div 3" by presburger
  moreover have "8 * length b \<le> 6 * ((8 * length b + 5) div 6)" by presburger
  ultimately show ?thesis by (simp add: pad6_def)
qed

lemma text_roundtrip:
  "text_decode (text_encode b) = Some b \<and> length (text_encode b) = (4 * length b + 2) div 3 \<and>
   CHR ''.'' \<notin> set (text_encode b)"
proof -
  let ?cs = "chunks 6 (pad6 (bits_of_bytes b))"
  have cs: "length ?cs = (4 * length b + 2) div 3" "list_all (\<lambda>a. length a = 6) ?cs"
    using chunks_even [of 6 "pad6 (bits_of_bytes b)"] pad6_length [of b] by simp_all
  then have "map (bits_of_char \<circ> char_of_bits) ?cs = ?cs"
    by (intro map_idI) (auto simp: list_all_iff bits_char)
  then have bits: "concat (map bits_of_char (text_encode b)) = pad6 (bits_of_bytes b)"
    by (simp add: text_encode_def concat_chunks)
  have len: "length (text_encode b) = (4 * length b + 2) div 3" using cs by (simp add: text_encode_def)
  have "6 * ((4 * length b + 2) div 3) div 8 = length b" by presburger
  then have "take (8 * (6 * length (text_encode b) div 8)) (pad6 (bits_of_bytes b)) = bits_of_bytes b"
    by (simp add: len pad6_def)
  moreover have "chunks 8 (bits_of_bytes b) = map (\<lambda>x. map (bit x) [0..<8]) b"
    unfolding bits_of_bytes_def by (rule chunks_concat) (simp_all add: list_all_iff)
  moreover have "horner_sum of_bool 2 (map (bit x) [0..<8]) = x" for x :: byte
    using horner_sum_bit_eq_take_bit [of x 8] by (simp add: take_bit_word_eq_self)
  ultimately have "text_decode (text_encode b) = Some b"
    unfolding text_decode_def bits by (simp add: o_def)
  moreover have "CHR ''.'' \<notin> set (text_encode b)"
  proof -
    have "char_of_bits c \<noteq> CHR ''.''" if "c \<in> set ?cs" for c
      using cs(2) that dot_not_char by (simp add: list_all_iff)
    then show ?thesis unfolding text_encode_def set_map by (metis imageE)
  qed
  ultimately show ?thesis using len by blast
qed

definition sample_lib :: crypto_lib where
  "sample_lib = \<lparr>hmac_sha256 = (\<lambda>k m. replicate 32 0), sha256 = (\<lambda>m. replicate 32 0),
     aead_encrypt = (\<lambda>k n a m. Some (m @ replicate 16 0)),
     aead_decrypt = (\<lambda>k n a ct. if length ct < 16 then None else Some (take (length ct - 16) ct)),
     b64_encode = text_encode, b64_decode = text_decode, nfc = (\<lambda>b. b)\<rparr>"

lemma sample_lib_correct: "aead_correct sample_lib" "mac_correct sample_lib" "base64_correct sample_lib"
  using text_roundtrip by (simp_all add: aead_correct_def mac_correct_def base64_correct_def sample_lib_def)

end
