(* ===== verification/Samples.thy ===== *)
theory Samples
  imports Store_Steps
begin

text \<open>
  A concrete history of the store, step by step from the migrated database: a namespace, a
  secret in it, a second version, its deletion and purge.  The states are the ones the
  operations compute; the lemmas say that each operation succeeds, which makes the
  hypotheses of the theorems about runs hold at concrete inputs.
\<close>

definition sid :: "nat \<Rightarrow> uuid" where
  "sid n = replicate 16 (word_of_nat n)"

definition h32 :: "nat \<Rightarrow> bytes" where
  "h32 n = replicate 32 (word_of_nat n)"

definition sample_sealed :: "nat \<Rightarrow> encrypted_record" where
  "sample_sealed n = \<lparr>er_nonce = replicate 24 (word_of_nat n), er_ciphertext = replicate 20 (word_of_nat n),
     er_dek_nonce = replicate 24 2, er_wrapped_dek = replicate 48 3, er_kek_version = 1\<rparr>"

text \<open>The event number \<open>n\<close> of the history, chained to its predecessor.\<close>

definition sample_event :: "nat \<Rightarrow> audit_record" where
  "sample_event n =
     \<lparr>ar_commitment_version = 2, ar_sequence = n, ar_event_id = sid n, ar_installation_id = sid 200,
      ar_recovery_epoch = 0, ar_occurred_at = 1000 + int n, ar_request_id = sid n, ar_actor = None,
      ar_credential_kind = None, ar_credential_id = None, ar_action = ''secret:update'',
      ar_target_kind = ''secret'', ar_target_id = None, ar_outcome = ''allowed'',
      ar_previous_commitment = h32 (n - 1), ar_commitment = h32 n\<rparr>"

definition sample_namespace :: namespace_insert where
  "sample_namespace = \<lparr>ni_namespace_id = sid 10, ni_parent = None, ni_name_index = h32 10,
     ni_metadata = sample_sealed 1, ni_state_commitment = h32 11, ni_created_at = 1001\<rparr>"

definition sample_secret :: secret_insert where
  "sample_secret = \<lparr>si_secret_id = sid 20, si_namespace_id = sid 10, si_name_index = h32 20,
     si_metadata = sample_sealed 2, si_payload = sample_sealed 3,
     si_schedule = \<lparr>expires_at = Some 5000, rotation_due_at = None\<rparr>, si_state_commitment = h32 21,
     si_created_by = None, si_created_at = 1002\<rparr>"

definition sample_version :: secret_version_insert where
  "sample_version = \<lparr>sv_secret_id = sid 20, sv_expected_current_version = 1, sv_expected_revision = 1,
     sv_payload = sample_sealed 4, sv_schedule = default_schedule, sv_next_state_commitment = h32 22,
     sv_created_by = None, sv_created_at = 1003\<rparr>"

definition sample_delete :: secret_lifecycle_change where
  "sample_delete = \<lparr>lc_secret_id = sid 20, lc_expected_revision = 2, lc_from_state = ''active'',
     lc_to_state = ''deleted'', lc_changed_at = 1004, lc_next_state_commitment = h32 23\<rparr>"

definition sample_purge :: secret_purge where
  "sample_purge = \<lparr>sp_secret_id = sid 20, sp_expected_revision = 3, sp_retention_cutoff = 2000,
     sp_purged_at = 3000\<rparr>"

definition db1 :: db where
  "db1 = empty_db\<lparr>namespaces := [(1, namespace_row_of sample_namespace)],
     audit_events := map (audit_row_of \<circ> sample_event) [1]\<rparr>"

definition db2 :: db where
  "db2 = db1\<lparr>secrets := [(1, secret_row_of sample_secret)],
     secret_versions := [(1, \<lparr>v_secret_id = sid 20, v_version = 1, v_envelope = 1, v_suite = 1,
        v_payload = enc_cols_of (sample_sealed 3), v_expires = Some 5000, v_rotation = None,
        v_created_by = None, v_created = 1002\<rparr>)],
     audit_events := map (audit_row_of \<circ> sample_event) [1, 2]\<rparr>"

definition db3 :: db where
  "db3 = db2\<lparr>secrets := [(1, append_set sample_version (secret_row_of sample_secret))],
     secret_versions := secret_versions db2 @ [(2, appended_version sample_version)],
     audit_events := map (audit_row_of \<circ> sample_event) [1, 2, 3]\<rparr>"

definition db4 :: db where
  "db4 = db3\<lparr>secrets := [(1, lifecycle_set sample_delete (append_set sample_version (secret_row_of sample_secret)))],
     audit_events := map (audit_row_of \<circ> sample_event) [1, 2, 3, 4]\<rparr>"

definition db5 :: db where
  "db5 = db4\<lparr>secrets := [], secret_versions := [],
     tombstones := [(1, \<lparr>t_secret_id = sid 20, t_namespace_id = sid 10, t_name_index = h32 20,
       t_last_version = 2, t_purged = 3000, t_cutoff = 2000\<rparr>)],
     audit_events := map (audit_row_of \<circ> sample_event) [1, 2, 3, 4, 5]\<rparr>"

lemmas sample_defs = sample_event_def sample_namespace_def sample_secret_def sample_version_def
  sample_delete_def sample_purge_def sample_sealed_def sid_def h32_def zero_commitment_def

lemmas eval_defs = audited_def transaction_def lock_def guarded_def require_audit_head_def
  audit_head_on_def last_event_def insert_audit_def audit_row_of_def Let_def sql_i64_def
  i64_of_u64_def u64_of_i64_def i64_max_def checked_add_u64_def u64_max_def sql_insert_def
  sql_insert_or_ignore_def sql_update_def sql_update_at_def tbl_insert_def tbl_update_at_def
  tbl_find_def next_rowid_def rows_def tbl_delete_def unique_key_def unique_where_def
  enc_check_def enc_cols_of_def is_none_or_def audit_check_def try_into_array_def ensure_def

lemmas record_defs = namespace_row_of_def secret_row_of_def namespace_check_def secret_check_def
  version_check_def namespaces_unique_def secrets_unique_def versions_unique_def
  fk_namespace_parent_def fk_secret_namespace_def fk_current_version_def insert_version_def
  secret_check_arith_def secrets_monotonic_trigger_def sql_delete_guarded_def tombstone_check_def

lemmas db_defs = empty_db_def db1_def db2_def db3_def db4_def db5_def append_set_def
  appended_version_def lifecycle_set_def default_schedule_def

lemma db1_ok: "create_namespace sample_namespace (sample_event 1) empty_db = (Inr (), db1)"
  unfolding create_namespace_def by (simp add: db_defs sample_defs eval_defs record_defs)

lemma db2_ok: "create_secret sample_secret (sample_event 2) db1 = (Inr (), db2)"
  unfolding create_secret_def by (simp add: db_defs sample_defs eval_defs record_defs)

lemma db3_ok: "append_secret_version sample_version (sample_event 3) db2 = (Inr 2, db3)"
  unfolding append_secret_version_def by (simp add: db_defs sample_defs eval_defs record_defs)

lemma db4_ok: "change_secret_lifecycle sample_delete (sample_event 4) db3 = (Inr 3, db4)"
  unfolding change_secret_lifecycle_def by (simp add: db_defs sample_defs eval_defs record_defs)

lemma db5_ok: "purge_secret sample_purge (sample_event 5) db4 = (Inr (), db5)"
  unfolding purge_secret_def by (simp add: db_defs sample_defs eval_defs record_defs)

end
