(* ===== verification/Sample_Rotation.thy ===== *)
theory Sample_Rotation
  imports Samples
begin

text \<open>
  A second concrete history: the vault is initialized and activated, a policy is created,
  and the key-encryption key is rotated from version 1 to version 2 to its end.
\<close>

definition sample_key :: "key_kind \<Rightarrow> nat \<Rightarrow> nat \<Rightarrow> nat option \<Rightarrow> wrapped_key_record" where
  "sample_key kind version n wrapping =
     \<lparr>wk_kind = kind, wk_version = version, wk_object_id = sid n, wk_wrapping_kek_version = wrapping,
      wk_nonce = replicate 24 (word_of_nat n), wk_ciphertext = replicate 48 (word_of_nat n)\<rparr>"

definition sample_bootstrap :: bootstrap_record where
  "sample_bootstrap =
     \<lparr>bs_vault_id = sid 201, bs_installation_id = sid 200, bs_initialized_at = 1000,
      bs_key_encryption_key = sample_key KeyEncryption 1 31 None,
      bs_blind_index_key = sample_key BlindIndex 1 32 (Some 1),
      bs_audit_key = sample_key Audit 1 33 (Some 1),
      bs_token_verifier_key = sample_key TokenVerifier 1 34 (Some 1)\<rparr>"

definition key_at :: "key_kind \<Rightarrow> nat \<Rightarrow> nat \<Rightarrow> nat option \<Rightarrow> string \<Rightarrow> key_row" where
  "key_at kind version n wrapping st = (key_row_of (sample_key kind version n wrapping) 1000)\<lparr>k_state := st\<rparr>"

definition rot1 :: db where
  "rot1 = empty_db\<lparr>installation_state := Some (installation_row_of sample_bootstrap),
     key_registry := [(1, key_at KeyEncryption 1 31 None ''active''),
       (2, key_at BlindIndex 1 32 (Some 1) ''active''), (3, key_at Audit 1 33 (Some 1) ''active''),
       (4, key_at TokenVerifier 1 34 (Some 1) ''active'')]\<rparr>"

definition installation_in :: "string \<Rightarrow> int \<Rightarrow> installation_row" where
  "installation_in st kek = (installation_row_of sample_bootstrap)\<lparr>i_activation_state := st, i_active_kek := Some kek\<rparr>"

definition rot2 :: db where
  "rot2 = rot1\<lparr>installation_state := Some (installation_in ''ready'' 1)\<rparr>"

definition sample_policy :: policy_insert where
  "sample_policy = \<lparr>pi_policy_id = sid 40, pi_metadata = sample_sealed 5, pi_state_commitment = h32 41,
     pi_created_at = 1001\<rparr>"

definition rot3 :: db where
  "rot3 = rot2\<lparr>policies := [(1, policy_row_of sample_policy)],
     authorization_state := \<lparr>z_revision = 2, z_commitment = h32 42\<rparr>,
     audit_events := map (audit_row_of \<circ> sample_event) [1]\<rparr>"

definition job_at :: "string \<Rightarrow> rotation_stage \<Rightarrow> int \<Rightarrow> int \<Rightarrow> job_row" where
  "job_at st stage row updated = (kek_job_row (sid 50) 1 2 updated)\<lparr>j_state := st,
     j_stage := Some (rotation_stage_as_str stage), j_last_row := row\<rparr>"

definition sample_job :: "rotation_stage \<Rightarrow> int \<Rightarrow> kek_rotation_job" where
  "sample_job stage row = \<lparr>kj_job_id = sid 50, kj_source = 1, kj_target = 2, kj_stage = stage,
     kj_last_row_id = row\<rparr>"

definition rot4 :: db where
  "rot4 = rot3\<lparr>installation_state := Some (installation_in ''maintenance'' 2),
     key_registry := [(1, key_at KeyEncryption 1 31 None ''retiring''),
       (2, key_at BlindIndex 1 32 (Some 1) ''active''), (3, key_at Audit 1 33 (Some 1) ''active''),
       (4, key_at TokenVerifier 1 34 (Some 1) ''active''), (5, key_at KeyEncryption 2 35 None ''active'')],
     maintenance_jobs := [(1, job_at ''running'' Auxiliary 0 1000)],
     audit_events := map (audit_row_of \<circ> sample_event) [1, 2]\<rparr>"

text \<open>The three auxiliary keys rewrapped: new nonce and ciphertext under version 2.\<close>

definition sample_rewrap :: "int \<Rightarrow> rewrap_kind \<Rightarrow> nat \<Rightarrow> rewrapped_item" where
  "sample_rewrap row kind n =
     \<lparr>rw_source = \<lparr>ri_row_id = row, ri_kind = kind, ri_object_id = sid n, ri_object_version = 1,
        ri_nonce = replicate 24 (word_of_nat n), ri_wrapped_key = replicate 48 (word_of_nat n)\<rparr>,
      rw_nonce = replicate 24 9, rw_wrapped_key = replicate 48 9\<rparr>"

definition rewrapped :: "key_kind \<Rightarrow> nat \<Rightarrow> key_row" where
  "rewrapped kind n = (key_at kind 1 n (Some 2) ''active'')\<lparr>k_nonce := replicate 24 9, k_wrapped := replicate 48 9\<rparr>"

definition sample_batch :: "rewrapped_item list" where
  "sample_batch = [sample_rewrap 2 BlindIndexKey 32, sample_rewrap 3 AuditKey 33,
     sample_rewrap 4 TokenVerifierKey 34]"

definition rot5 :: db where
  "rot5 = rot4\<lparr>key_registry := [(1, key_at KeyEncryption 1 31 None ''retiring''),
       (2, rewrapped BlindIndex 32), (3, rewrapped Audit 33), (4, rewrapped TokenVerifier 34),
       (5, key_at KeyEncryption 2 35 None ''active'')],
     maintenance_jobs := [(1, job_at ''running'' Auxiliary 4 1001)]\<rparr>"

definition rot_stage :: "rotation_stage \<Rightarrow> db" where
  "rot_stage stage = rot5\<lparr>maintenance_jobs := [(1, job_at ''running'' stage 0 1002)]\<rparr>"

definition rot6 :: db where
  "rot6 = rot5\<lparr>installation_state := Some (installation_in ''ready'' 2),
     key_registry := [(1, key_at KeyEncryption 1 31 None ''retired''),
       (2, rewrapped BlindIndex 32), (3, rewrapped Audit 33), (4, rewrapped TokenVerifier 34),
       (5, key_at KeyEncryption 2 35 None ''active'')],
     maintenance_jobs := [(1, job_at ''completed'' Finalize 0 1003)],
     audit_events := map (audit_row_of \<circ> sample_event) [1, 2, 3]\<rparr>"

lemmas rotation_samples = sample_bootstrap_def sample_key_def key_at_def installation_in_def
  sample_policy_def job_at_def sample_job_def sample_rewrap_def rewrapped_def sample_batch_def
  key_row_of_def installation_row_of_def kek_job_row_def policy_row_of_def sample_defs

lemmas rotation_dbs = empty_db_def rot1_def rot2_def rot3_def rot4_def rot5_def rot_stage_def rot6_def

lemmas rotation_evals = eval_defs validate_bootstrap_def bootstrap_keys_def insert_key_def
  insert_installation_def installation_def query_def installation_check_def key_check_def
  keys_unique_def fk_current_version_def guard_rows_def required_key_def tbl_count_def tbl_select_def
  policy_check_def advance_authorization_state_def authorization_check_def

lemma rot1_ok: "begin_initialization_kind sample_bootstrap False empty_db = (Inr Begun, rot1)"
  by (auto simp: begin_initialization_kind_def rotation_evals rotation_dbs rotation_samples)

lemma rot2_ok: "activate_initialization_kind 1 False rot1 = (Inr (), rot2)"
  by (simp add: activate_initialization_kind_def rotation_evals rotation_dbs rotation_samples)

lemma rot3_ok: "create_policy sample_policy 1 (h32 42) (sample_event 1) rot2 = (Inr 2, rot3)"
  by (simp add: create_policy_def rotation_evals rotation_dbs rotation_samples)

lemma rot4_ok:
  "begin_kek_rotation (sid 50) 1 (sample_key KeyEncryption 2 35 None) 1000 (sample_event 2) rot3 =
     (Inr (sample_job Auxiliary 0), rot4)"
  by (auto simp: begin_kek_rotation_def saturating_add_u32_def u32_max_def job_check_def no_trigger_def
      tbl_update_def rotation_evals rotation_dbs rotation_samples)

lemmas job_evals = require_job_def job_checkpoint_def update_rewrap_def apply_rewrap_item_def
  no_trigger_def job_check_def active_kek_rotation_def parse_job_def open_job_def rotation_stage_parse_def
  next_rewrap_batch_def stage_query_def scan_def parse_uuid_def u32_of_i64_def u32_max_def tbl_update_def

lemma rot5_ok: "apply_rewrap_batch (sample_job Auxiliary 0) sample_batch 1001 rot4 = (Inr (sample_job Auxiliary 4), rot5)"
  by (auto simp: apply_rewrap_batch_def job_evals rotation_evals rotation_dbs rotation_samples)

lemma rot_stage1_ok:
  "advance_rotation_stage (sample_job Auxiliary 4) 1002 rot5 = (Inr (sample_job NamespaceMetadata 0), rot_stage NamespaceMetadata)"
  by (auto simp: advance_rotation_stage_def job_evals rotation_evals rotation_dbs rotation_samples)

lemma rot_stage2_ok:
  "advance_rotation_stage (sample_job NamespaceMetadata 0) 1002 (rot_stage NamespaceMetadata) =
     (Inr (sample_job SecretMetadata 0), rot_stage SecretMetadata)"
  by (auto simp: advance_rotation_stage_def job_evals rotation_evals rotation_dbs rotation_samples)

lemma rot_stage3_ok:
  "advance_rotation_stage (sample_job SecretMetadata 0) 1002 (rot_stage SecretMetadata) =
     (Inr (sample_job SecretVersions 0), rot_stage SecretVersions)"
  by (auto simp: advance_rotation_stage_def job_evals rotation_evals rotation_dbs rotation_samples)

lemma rot_stage4_ok:
  "advance_rotation_stage (sample_job SecretVersions 0) 1002 (rot_stage SecretVersions) =
     (Inr (sample_job Finalize 0), rot_stage Finalize)"
  by (auto simp: advance_rotation_stage_def job_evals rotation_evals rotation_dbs rotation_samples)

lemma rot6_ok: "finish_kek_rotation (sample_job Finalize 0) 1003 (sample_event 3) (rot_stage Finalize) = (Inr (), rot6)"
  by (auto simp: finish_kek_rotation_def retire_source_def source_inventory_def job_evals rotation_evals
      rotation_dbs rotation_samples)

lemma rot3_reachable: "store_run empty_db rot3"
  using initialize [OF rot1_ok] activate [OF rot2_ok] policy_create [OF rot3_ok]
  by (metis r_into_rtranclp rtranclp.rtrancl_into_rtrancl)

lemma rot4_finalize: "store_run rot4 (rot_stage Finalize)"
proof -
  have "store_run rot4 rot5" using rotation_apply [OF rot5_ok] by blast
  moreover have "store_run rot5 (rot_stage Finalize)"
    using rotation_advance [OF rot_stage1_ok] rotation_advance [OF rot_stage2_ok]
      rotation_advance [OF rot_stage3_ok] rotation_advance [OF rot_stage4_ok]
    by (metis r_into_rtranclp rtranclp.rtrancl_into_rtrancl)
  ultimately show ?thesis by (rule rtranclp_trans)
qed

lemma rot3_rot6: "store_run rot3 rot6"
  using converse_rtranclp_into_rtranclp [of store_step, OF rotation_begin [OF rot4_ok] rot4_finalize] rotation_finish [OF rot6_ok]
  by (rule rtranclp.rtrancl_into_rtrancl)

lemma rot6_reachable: "store_run empty_db rot6"
  using rot3_reachable rot3_rot6 by (rule rtranclp_trans)

end
