(* ===== verification/Sample_Vault.thy ===== *)
theory Sample_Vault
  imports App_Facade Sample_Crypto Sample_Rotation
begin

text \<open>
  A small vault in use, as a literal database: an installation, a namespace with one secret,
  an owner with a live session, a service with two bound policies that both let it read
  the namespace's values, and a credential of that service.  The operations of the
  application evaluate on it, which makes the hypotheses of the theorems about them hold at
  concrete inputs.
\<close>

definition sample_installation :: installation_row where
  "sample_installation = \<lparr>i_vault_id = sid 1, i_installation_id = sid 200, i_recovery_epoch = 0,
     i_initialized_at = 900, i_activation_state = ''ready'', i_active_kek = Some 1, i_semantics = 1\<rparr>"

definition sample_vault :: vault where
  "sample_vault = \<lparr>vt_lib = sample_lib, vt_vault_id = sid 1, vt_installation_id = sid 200,
     vt_key_ring = Some \<lparr>kr_active_version = 1, kr_keys = [1 \<mapsto> h32 7]\<rparr>,
     vt_blind_index_key = h32 2, vt_audit_key = h32 3, vt_token_verifier_key = h32 4,
     vt_audit_gate_ok = True, vt_authorization_gate_ok = True\<rparr>"

definition sample_entropy :: entropy where
  "sample_entropy = \<lparr>en_dek = Some (h32 5), en_nonce = Some (replicate 24 6),
     en_dek_nonce = Some (replicate 24 7)\<rparr>"

text \<open>What the sample encryption makes of a plaintext under a data key.\<close>

definition sealed :: "bytes \<Rightarrow> encrypted_record" where
  "sealed p = \<lparr>er_nonce = replicate 24 6, er_ciphertext = p @ replicate 16 0, er_dek_nonce = replicate 24 7,
     er_wrapped_dek = h32 5 @ replicate 16 0, er_kek_version = 1\<rparr>"

definition sample_metadata :: metadata where
  "sample_metadata = \<lparr>md_name = [65], md_description = None, md_username = None, md_tags = []\<rparr>"

definition vault_policy :: "nat \<Rightarrow> policy_row" where
  "vault_policy n = \<lparr>l_id = sid n, l_revision = 1, l_state = ''active'', l_metadata_version = 1,
     l_meta = enc_cols_of (sealed [1]), l_commitment = h32 0, l_created = 1000, l_updated = 1000\<rparr>"

definition sample_grant :: "nat \<Rightarrow> nat \<Rightarrow> grant_row" where
  "sample_grant n policy = \<lparr>g_id = sid n, g_policy = sid policy, g_action = ''secret:value-read'',
     g_kind = ''namespace'', g_resource = sid 10, g_descendants = 1, g_actor = sid 30, g_created = 1000,
     g_commitment = h32 0\<rparr>"

definition sample_binding :: "nat \<Rightarrow> binding_row" where
  "sample_binding policy = \<lparr>b_principal = sid 31, b_policy = sid policy, b_actor = sid 30, b_created = 1000,
     b_commitment = h32 0\<rparr>"

definition sample_session :: session_row where
  "sample_session = \<lparr>w_id = sid 40, w_lookup = replicate 16 8, w_verifier = h32 0, w_csrf = h32 0,
     w_principal = sid 30, w_authenticator = sid 41, w_method = ''password'', w_created = 1000,
     w_last_used = 1000, w_idle_expires = 1801000, w_absolute_expires = 43201000, w_recent_auth = 1000,
     w_revoked = None, w_commitment = h32 0\<rparr>"

definition sample_credential :: credential_row where
  "sample_credential = \<lparr>c_id = sid 50, c_principal = sid 31, c_lookup = replicate 12 9, c_verifier = h32 0,
     c_created = 1000, c_expires = None, c_last_used = None, c_revoked = None, c_revision = 1,
     c_commitment = h32 0\<rparr>"

definition live_db :: db where
  "live_db = empty_db\<lparr>installation_state := Some sample_installation,
     namespaces := [(1, \<lparr>n_id = sid 10, n_parent = None, n_name_index = h32 0, n_metadata_version = 1,
       n_meta = enc_cols_of (sealed [2]), n_lifecycle = ''active'', n_revision = 1, n_commitment = h32 0,
       n_created = 1000, n_updated = 1000\<rparr>)],
     secrets := [(1, \<lparr>s_id = sid 20, s_namespace_id = sid 10, s_name_index = h32 1, s_metadata_version = 1,
       s_meta = enc_cols_of (sealed [3]), s_lifecycle = ''active'', s_current = 1, s_revision = 1,
       s_commitment = h32 0, s_created = 1000, s_updated = 1000, s_deleted = None\<rparr>)],
     secret_versions := [(1, \<lparr>v_secret_id = sid 20, v_version = 1, v_envelope = 1, v_suite = 1,
       v_payload = enc_cols_of (sealed [42, 43]), v_expires = None, v_rotation = None, v_created_by = None,
       v_created = 1000\<rparr>)],
     principals := [(1, \<lparr>p_id = sid 30, p_kind = ''owner'', p_state = ''active'', p_revision = 1,
         p_commitment = h32 0, p_created = 900, p_updated = 900\<rparr>),
       (2, \<lparr>p_id = sid 31, p_kind = ''service'', p_state = ''active'', p_revision = 1,
         p_commitment = h32 0, p_created = 950, p_updated = 950\<rparr>)],
     sessions := [(1, sample_session)],
     application_credentials := [(1, sample_credential)],
     policies := [(1, vault_policy 60), (2, vault_policy 62)],
     policy_grants := [(1, sample_grant 61 60), (2, sample_grant 63 62)],
     policy_bindings := [(1, sample_binding 60), (2, sample_binding 62)],
     authorization_state := \<lparr>z_revision = 7, z_commitment = h32 0\<rparr>\<rparr>"

definition sample_owner :: authenticated_owner where
  "sample_owner = \<lparr>ao_principal_id = sid 30, ao_session_id = sid 40, ao_authenticator_id = sid 41,
     ao_recent_auth_until = 301000, ao_valid_from = 1000, ao_valid_until = 1801000\<rparr>"

definition sample_service :: authenticated_service where
  "sample_service = \<lparr>asv_principal_id = sid 31, asv_credential_id = sid 50\<rparr>"

lemmas vault_samples = sample_vault_def sample_entropy_def sample_installation_def sample_owner_def
  sample_service_def sample_session_def sample_credential_def vault_policy_def sample_grant_def
  sample_binding_def sealed_def sample_metadata_def live_db_def empty_db_def sid_def h32_def

section \<open>The sample primitives\<close>

lemma sample_vault_sel [simp]:
  "vt_lib sample_vault = sample_lib" "vt_vault_id sample_vault = sid 1" "vt_installation_id sample_vault = sid 200"
  "vt_audit_gate_ok sample_vault" "vt_authorization_gate_ok sample_vault" "ring_ok sample_vault"
  "hmac_sha256 sample_lib k m = h32 0" "sha256 sample_lib m = h32 0" "length (sid n) = 16" "length (h32 n) = 32"
  by (simp_all add: sample_vault_def sample_lib_def sid_def h32_def ring_ok_def is_none_or_def u32_max_def)

lemma sample_state_commitment:
  "m \<noteq> [] \<Longrightarrow> length m \<le> 4096 \<Longrightarrow> state_commitment sample_lib key m = Inr (h32 0)"
  by (simp add: state_commitment_def)

lemma sample_text:
  assumes "parts \<noteq> []" "0 < sum_list (map length parts)" "sum_list (map length parts) + length parts \<le> 4096"
  shows "authz_commit sample_vault parts = Inr (h32 0)" "text_commitment sample_vault parts = Inr (h32 0)"
proof -
  have len: "length (join_nul parts) \<le> 4096" "0 < length (join_nul parts)"
    using assms length_join_nul [OF assms(1)] by (cases parts; simp)+
  then have "state_commitment sample_lib key (ascii (join_nul parts)) = Inr (h32 0)" for key
    by (intro sample_state_commitment) (metis length_ascii length_greater_0_conv, simp)
  then show "authz_commit sample_vault parts = Inr (h32 0)" "text_commitment sample_vault parts = Inr (h32 0)"
    by (simp_all add: authz_commit_def text_commitment_def)
qed

lemma sample_digest: "\<forall>x \<in> set items. length x \<le> u32_max \<Longrightarrow> items_digest sample_vault items = Inr (h32 0)"
proof -
  assume "\<forall>x \<in> set items. length x \<le> u32_max"
  then have "\<exists>ys. traverse (\<lambda>item. rbind (ensure (length item \<le> u32_max) Unavailable)
       (\<lambda>_. Inr (be_bytes 4 (length item) @ item))) (sort items) = Inr ys"
    by (intro traverse_sorted_total) (simp add: ensure_def)
  then show ?thesis by (auto simp: items_digest_def)
qed

lemma sample_aead [simp]:
  "aead_encrypt sample_lib k n a m = Some (m @ replicate 16 0)"
  "aead_decrypt sample_lib k n a (m @ replicate 16 0) = Some m"
  by (simp_all add: sample_lib_def)

lemma sample_ring [simp]:
  "with_active_kek sample_vault f = Some (1, f (h32 7))" "with_kek sample_vault 1 g = Some (g (h32 7))"
  by (simp_all add: with_active_kek_def with_kek_def sample_vault_def)

lemma sample_encrypt [simp]:
  "encrypt_record sample_vault sample_entropy p kind wk i n = Inr (sealed p)"
  by (simp add: encrypt_record_def sample_entropy_def sealed_def seal_def seal_with_nonce_def try_into_array_def)

lemma sample_decrypt [simp]:
  "decrypt_record sample_vault (sealed p) kind wk i n = Inr p"
proof (rule decrypt_encrypt_record [of sample_vault sample_entropy])
  show "\<forall>dek \<in> set_option (en_dek sample_entropy). length dek = 32" by (simp add: sample_entropy_def)
qed (simp_all add: sample_lib_correct)

section \<open>Reading the sample state\<close>

definition sample_snapshot :: authz_snapshot where
  "sample_snapshot = \<lparr>sn_state = \<lparr>as_revision = 7, as_state_commitment = h32 0\<rparr>,
     sn_policies = map (\<lambda>n. \<lparr>po_policy_id = sid n, po_revision = 1, po_state = ''active'', po_metadata_version = 1,
       po_metadata = sealed [1], po_state_commitment = h32 0, po_created_at = 1000, po_updated_at = 1000\<rparr>) [60, 62],
     sn_grants = map (\<lambda>(n, p). \<lparr>pg_grant_id = sid n, pg_policy_id = sid p, pg_action = SecretValueRead,
       pg_resource_kind = Namespace, pg_resource_id = sid 10, pg_include_descendants = True,
       pg_created_by = sid 30, pg_created_at = 1000, pg_state_commitment = h32 0\<rparr>) [(61, 60), (63, 62)],
     sn_bindings = map (\<lambda>p. \<lparr>pb_principal_id = sid 31, pb_policy_id = sid p, pb_created_by = sid 30,
       pb_created_at = 1000, pb_state_commitment = h32 0\<rparr>) [60, 62]\<rparr>"

lemma sid_Cons: "sid n = word_of_nat n # replicate 15 (word_of_nat n)"
proof -
  have "(16::nat) = Suc 15" by simp
  then show ?thesis unfolding sid_def by (simp only: replicate_Suc)
qed

lemma sid_eq: "m < 256 \<Longrightarrow> n < 256 \<Longrightarrow> sid m = sid n \<longleftrightarrow> m = n"
  by (auto simp: sid_Cons word_of_nat_eq_iff take_bit_nat_eq_self)

lemma sid_less: "n < 256 \<Longrightarrow> m < n \<Longrightarrow> sid m < sid n"
  by (simp add: sid_Cons word_of_nat_less_iff take_bit_nat_eq_self)

lemma sid_order [simp]:
  "m < 256 \<Longrightarrow> n < 256 \<Longrightarrow> sid m < sid n \<longleftrightarrow> m < n" "m < 256 \<Longrightarrow> n < 256 \<Longrightarrow> sid m \<le> sid n \<longleftrightarrow> m \<le> n"
  using sid_less sid_eq by (metis linorder_cases order_less_asym order_less_irrefl, metis linorder_not_less order_le_less)

lemma sid_numeral_eq [simp]:
  "numeral j < (256::nat) \<Longrightarrow> numeral k < (256::nat) \<Longrightarrow>
   sid (numeral j) = sid (numeral k) \<longleftrightarrow> (numeral j :: nat) = numeral k"
  by (rule sid_eq)

lemma parse_vault_policy [simp]: "parse_policy (vault_policy n) = Inr \<lparr>po_policy_id = sid n, po_revision = 1,
    po_state = ''active'', po_metadata_version = 1, po_metadata = sealed [1], po_state_commitment = h32 0,
    po_created_at = 1000, po_updated_at = 1000\<rparr>"
  by (simp add: parse_policy_def vault_policy_def parse_uuid_def parse_envelope_def try_into_array_def enc_cols_of_def
      sealed_def u64_of_i64_def i64_max_def u32_of_i64_def u32_max_def)

lemma parse_sample_grant [simp]: "parse_grant (sample_grant n p) = Inr \<lparr>pg_grant_id = sid n, pg_policy_id = sid p,
    pg_action = SecretValueRead, pg_resource_kind = Namespace, pg_resource_id = sid 10,
    pg_include_descendants = True, pg_created_by = sid 30, pg_created_at = 1000, pg_state_commitment = h32 0\<rparr>"
  by (simp add: parse_grant_def sample_grant_def parse_uuid_def try_into_array_def parse_bool_def
      parse_resource_kind_def action_from_str_def all_actions_def)

lemma parse_sample_binding [simp]: "parse_binding (sample_binding p) = Inr \<lparr>pb_principal_id = sid 31,
    pb_policy_id = sid p, pb_created_by = sid 30, pb_created_at = 1000, pb_state_commitment = h32 0\<rparr>"
  by (simp add: parse_binding_def sample_binding_def parse_uuid_def try_into_array_def)

lemma sample_ids [simp]: "l_id (vault_policy n) = sid n" "g_id (sample_grant n p) = sid n"
  "b_principal (sample_binding p) = sid 31" "b_policy (sample_binding p) = sid p"
  by (simp_all add: vault_policy_def sample_grant_def sample_binding_def)

lemma live_snapshot [simp]: "authorization_snapshot live_db = Inr sample_snapshot"
  by (simp add: snapshot_Inr live_db_def empty_db_def sample_snapshot_def rows_def parse_authz_state_def
      try_into_array_def u64_of_i64_def i64_max_def)

lemma sample_lengths: "length (uuid_text (sid n)) = 36" "length (hex_encode (h32 n)) = 64"
  "length (dec_nat (Suc 0)) = 1" "length (dec_nat 0) = 1" "length (dec_nat 2) = 1" "length (dec_nat 7) = 1"
  "length (dec_nat 8) = 1" "length (dec_nat 1000) = 4" "length (dec_nat 2000) = 4"
  by (simp_all add: length_uuid_text dec_nat.simps)

lemma grantable [simp]: "is_service_grantable SecretValueRead" by (simp add: is_service_grantable_def)

lemma live_graph [simp]: "graph_verified sample_vault sample_snapshot"
proof -
  let ?sn = sample_snapshot
  have "\<forall>x \<in> set (graph_items ?sn None None). length x \<le> u32_max"
    by (simp add: graph_items_def sample_snapshot_def policy_item_def grant_item_def binding_item_def graph_item_def
        u32_max_def)
  then have "items_digest sample_vault (graph_items ?sn None None) = Inr (h32 0)" by (rule sample_digest)
  then have "graph_commitment sample_vault ?sn 7 None None = Inr (h32 0)"
    by (simp add: graph_commitment_def items_commitment_def sample_text sample_lengths)
  then show ?thesis
    by (simp add: graph_verified_def sample_snapshot_def snapshot_count_def MAX_AUTHORIZATION_RECORDS_def
        verify_policy_def policy_commitment_def verify_grant_def grant_commitment_def verify_binding_def
        binding_commitment_def grant_spec_of_def is_valid_for_service_def grantable sample_text sample_lengths envelope_digest_def
        dec_int_def ensure_def)
qed

lemma live_verified [simp]: "verified_authorization_snapshot sample_vault live_db = Inr sample_snapshot"
  by (simp add: verified_snapshot_iff)

section \<open>The sample operations\<close>

lemma sample_namespace_commitment:
  "parent = None \<or> parent = Some (sid j) \<Longrightarrow> length index = 32 \<Longrightarrow>
   namespace_state_commitment sample_vault (sid i) parent index ''active'' n k = Inr (h32 0)"
  by (auto simp: namespace_state_commitment_def lifecycle_code_def namespace_canonical_def state_commitment_def)

lemma sample_secret_commitment:
  "length index = 32 \<Longrightarrow> st \<in> {''active'', ''archived'', ''deleted''} \<Longrightarrow>
   secret_state_commitment sample_vault (sid i) (sid j) index st c n k sch = Inr (h32 0)"
  by (auto simp: secret_state_commitment_def lifecycle_code_def secret_canonical_def append_optional_timestamp_def
      state_commitment_def split: option.splits)

lemma parse_sealed [simp]: "parse_encrypted (enc_cols_of (sealed [b])) = Inr (sealed [b])"
  "parse_encrypted (enc_cols_of (sealed [b, b'])) = Inr (sealed [b, b'])"
  by (simp_all add: parse_encrypted_def enc_cols_of_def sealed_def try_into_array_def u32_of_i64_def u32_max_def ensure_def)

definition live_secret :: secret_record where
  "live_secret = \<lparr>sr_secret_id = sid 20, sr_namespace_id = sid 10, sr_name_index = h32 1,
     sr_lifecycle_state = ''active'', sr_current_version = 1, sr_revision = 1, sr_metadata_version = 1,
     sr_metadata = sealed [3], sr_schedule = default_schedule, sr_state_commitment = h32 0,
     sr_deleted_at = None\<rparr>"

lemmas sample_reads = query_def lock_def live_db_def empty_db_def tbl_find_def rows_def parse_uuid_def
  try_into_array_def u64_of_i64_def i64_max_def

lemma live_secret [simp]: "secret (sid 20) live_db = Inr live_secret"
  "verify_secret_state sample_vault live_secret = Inr ()" "sr_namespace_id live_secret = sid 10"
  "sr_lifecycle_state live_secret = ''active''" "sr_current_version live_secret = 1"
  by (simp_all add: secret_def sample_reads parse_secret_def schedule_of_current_def default_schedule_def
      live_secret_def verify_secret_state_def sample_secret_commitment ensure_def)

definition live_namespace :: namespace_record where
  "live_namespace = \<lparr>nr_namespace_id = sid 10, nr_parent = None, nr_name_index = h32 0, nr_lifecycle_state = ''active'',
     nr_revision = 1, nr_metadata_version = 1, nr_metadata = sealed [2], nr_state_commitment = h32 0\<rparr>"

lemma live_namespace [simp]: "namespace (sid 10) live_db = Inr live_namespace"
  "namespace_ancestors_inclusive (sid 10) live_db = Inr [sid 10]"
  "verify_namespace_state sample_vault live_namespace = Inr ()"
  by (simp_all add: namespace_def parse_namespace_def sample_reads transpose_map_def live_namespace_def
      namespace_ancestors_inclusive_def ensure_def verify_namespace_state_def sample_namespace_commitment
      ancestor_walk.simps [of 32])

lemma live_ancestors [simp]: "resource_namespace_ancestors sample_vault Secret (sid 20) live_db = Inr [sid 10]"
  by (simp add: resource_namespace_ancestors_def)

lemma live_decision [simp]:
  "decide sample_vault (Service sample_service) SecretValueRead Secret (sid 20) now live_db = Inr (Inr ())"
proof -
  have "active_policies sample_snapshot (sid 31) = [sid 60, sid 62]"
    by (simp add: active_policies_def sample_snapshot_def)
  then show ?thesis by (simp add: service_is_allowed_def sample_service_def) (simp add: sample_snapshot_def)
qed

text \<open>An event on a log whose commitments are the sample digest.\<close>

definition sample_audit :: "nat \<Rightarrow> nat \<Rightarrow> string \<Rightarrow> string \<Rightarrow> nat \<Rightarrow> string \<Rightarrow> vault_operation_context \<Rightarrow> audit_record" where
  "sample_audit n e act kind t out oper =
     \<lparr>ar_commitment_version = 2, ar_sequence = n, ar_event_id = sid e, ar_installation_id = sid 200,
      ar_recovery_epoch = 0, ar_occurred_at = oc_now oper, ar_request_id = oc_request_id oper,
      ar_actor = oc_actor oper, ar_credential_kind = oc_credential_kind oper,
      ar_credential_id = oc_credential_id oper, ar_action = act, ar_target_kind = kind,
      ar_target_id = Some (sid t), ar_outcome = out, ar_previous_commitment = h32 0, ar_commitment = h32 0\<rparr>"

definition ready :: "nat \<Rightarrow> db \<Rightarrow> bool" where
  "ready n d = (chain_ok d \<and> length (audit_events d) = n \<and> chain_tip zero_commitment (audit_events d) = h32 0 \<and>
     n < 100 \<and> \<not> poisoned d \<and> installation_state d = Some sample_installation \<and> fk_current_version d)"

lemma ready_head: "ready n d \<Longrightarrow> audit_head_on d = Inr \<lparr>head_sequence = n, head_commitment = h32 0\<rparr>"
  using chain_head by (simp add: ready_def)

definition texts_ok :: "string \<Rightarrow> string \<Rightarrow> string \<Rightarrow> vault_operation_context \<Rightarrow> bool" where
  "texts_ok act kind out oper =
     (act \<noteq> [] \<and> length act \<le> 64 \<and> is_ascii act \<and> kind \<noteq> [] \<and> length kind \<le> 32 \<and> is_ascii kind \<and>
      out \<in> {''allowed'', ''denied''} \<and> (oc_credential_kind oper \<noteq> None) = (oc_credential_id oper \<noteq> None) \<and>
      is_none_or (\<lambda>k. k \<in> {''session'', ''application''}) (oc_credential_kind oper))"

lemma sample_build:
  assumes "ready n d" "texts_ok act kind out oper"
  shows "build_audit_outcome sample_vault (sid e) act kind (Some (sid t)) out oper d =
    Inr (sample_audit (Suc n) e act kind t out oper)"
  using assms ready_head [OF assms(1)]
  by (auto simp: build_audit_outcome_def ready_def texts_ok_def audit_head_def query_def lock_def checked_add_u64_def u64_max_def
      installation_def transpose_map_def parse_installation_def sample_installation_def parse_uuid_def u64_of_i64_def i64_max_def
      u32_of_i64_def u32_max_def activation_state_parse_def audit_commitment_def audit_input_check_def commitment_input_def
      bounded_audit_text_def ensure_def sample_audit_def is_none_or_def is_ascii_def split: option.splits)

definition fresh_event :: "nat \<Rightarrow> db \<Rightarrow> bool" where
  "fresh_event e d = (\<forall>r \<in> set (audit_events d). a_event_id r \<noteq> sid e)"

definition uuids_ok :: "vault_operation_context \<Rightarrow> bool" where
  "uuids_ok oper = (length (oc_request_id oper) = 16 \<and> is_none_or (\<lambda>b. length b = 16) (oc_actor oper) \<and>
     is_none_or (\<lambda>b. length b = 16) (oc_credential_id oper))"

lemma sample_audited:
  assumes "ready n d" "texts_ok act kind out oper" "uuids_ok oper" "fresh_event e d"
    and "body d = Inr (x, d1)" "audit_events d1 = audit_events d" "fk_current_version d1" "m = Suc n"
  shows "audited (sample_audit m e act kind t out oper) body d =
    (Inr x, logged (sample_audit m e act kind t out oper) d1)"
proof -
  let ?a = "sample_audit (Suc n) e act kind t out oper"
  have chain: "audit_chain 0 zero_commitment (audit_events d)" and len: "length (audit_events d) = n" "n < 100"
    using assms(1) by (auto simp: ready_def chain_ok_def)
  have "a_sequence r \<noteq> int (Suc n)" if "r \<in> set (audit_events d)" for r
    using that audit_chain_nth [OF chain] len by (auto simp: in_set_conv_nth)
  moreover have "audit_check (audit_row_of ?a)"
    using assms(2,3) by (auto simp: audit_check_def audit_row_of_def sample_audit_def texts_ok_def uuids_ok_def Suc_le_eq is_none_or_def
        split: option.splits)
  ultimately have "insert_audit ?a d1 = Inr (logged ?a d1)"
    using assms(4,6) len by (auto simp: insert_audit_def sql_i64_def i64_of_u64_def i64_max_def list_ex_iff fresh_event_def
        audit_row_of_def sample_audit_def)
  moreover have "require_audit_head ?a d = Inr ()"
    using ready_head [OF assms(1)] by (simp add: require_audit_head_def sample_audit_def ensure_def)
  moreover have "fk_current_version (logged ?a d1)" using assms(7) by (simp add: fk_current_version_def)
  ultimately show ?thesis
    using assms(1,5,8) by (simp add: audited_def transaction_def lock_def ready_def)
qed

lemmas sample_append = sample_audited [where body = "\<lambda>d. Inr ((), d)", OF _ _ _ _ refl refl _ refl, folded append_audit_def]

lemma ready_logged:
  assumes "ready n d" "texts_ok act kind out oper" "uuids_ok oper" "fresh_event e d" "n < 99"
  shows "ready (Suc n) (logged (sample_audit (Suc n) e act kind t out oper) d)"
proof -
  let ?a = "sample_audit (Suc n) e act kind t out oper"
  have "append_audit ?a d = (Inr (), logged ?a d)"
    using sample_append [OF assms(1-4)] assms(1) by (simp add: ready_def)
  then have "chain_ok (logged ?a d)"
    using append_audit_Inr audit_appended_chain assms(1) by (metis ready_def)
  then show ?thesis
    using assms(1,5) by (simp add: ready_def chain_tip_def audit_row_of_def sample_audit_def fk_current_version_def)
qed

lemma live_ready [simp]: "ready 0 live_db"
  by (simp add: ready_def live_db_def empty_db_def chain_ok_def chain_tip_def fk_current_version_def zero_commitment_def h32_def rows_def)

lemma logged_reads [simp]:
  "namespace i (d\<lparr>audit_events := es\<rparr>) = namespace i d" "principal i (d\<lparr>audit_events := es\<rparr>) = principal i d" "session i (d\<lparr>audit_events := es\<rparr>) = session i d"
  "application_credential i (d\<lparr>audit_events := es\<rparr>) = application_credential i d"
  "encrypted_secret_version i n (d\<lparr>audit_events := es\<rparr>) = encrypted_secret_version i n d"
  by (simp_all add: encrypted_secret_version_def namespace_def principal_def session_def application_credential_def query_def lock_def)

lemma logged_secret [simp]: "secret i (d\<lparr>audit_events := es\<rparr>) = secret i d"
proof -
  have "schedule_of_current (d\<lparr>audit_events := es\<rparr>) = schedule_of_current d" by (rule ext) (simp add: schedule_of_current_def)
  then show ?thesis by (simp add: secret_def query_def lock_def)
qed

lemma logged_graph [simp]:
  "resource_namespace_ancestors v kind i (d\<lparr>audit_events := es\<rparr>) = resource_namespace_ancestors v kind i d"
  "verified_authorization_snapshot v (d\<lparr>audit_events := es\<rparr>) = verified_authorization_snapshot v d"
  by (intro ancestors_frame; simp) (simp add: verified_authorization_snapshot_def authorization_snapshot_def query_def lock_def)

definition service_context :: authorized_vault where
  "service_context = \<lparr>fv_principal = Service sample_service, fv_request_id = sid 72, fv_now = 2000\<rparr>"

definition sample_decision :: "nat \<Rightarrow> audit_record" where
  "sample_decision t = sample_audit 1 70 ''secret:value-read'' ''secret'' t ''allowed'' (facade_operation service_context)"

lemma service_oper: "texts_ok ''secret:value-read'' ''secret'' ''allowed'' (facade_operation service_context)"
  "uuids_ok (facade_operation service_context)"
  by (simp_all add: texts_ok_def uuids_ok_def facade_operation_def service_context_def sample_service_def operation_def
      is_none_or_def is_ascii_def)

lemma service_authorized:
  "authorize sample_vault (sid 70) (Service sample_service) SecretValueRead Secret (sid 20) (sid 72) 2000 live_db =
   (Inr (), logged (sample_decision 20) live_db)"
proof -
  have oper: "operation (Service sample_service) (sid 72) 2000 = facade_operation service_context"
    by (simp add: facade_operation_def service_context_def)
  have "fresh_event 70 live_db" "fk_current_version live_db" using live_ready
    by (simp_all add: fresh_event_def ready_def live_db_def empty_db_def)
  then have "append_audit (sample_decision 20) live_db = (Inr (), logged (sample_decision 20) live_db)"
    using sample_append [OF live_ready service_oper] by (simp add: sample_decision_def)
  then show ?thesis
    using sample_build [OF live_ready service_oper(1), of 70 20]
    by (simp add: authorize_def oper reading_def guarded_def sbind_def storing_def sample_decision_def
      del: decide.simps)
qed

lemma service_reveals:
  "\<exists>d'. authorized_reveal_current_secret sample_vault (sid 70) (sid 71) service_context (sid 20) live_db = (Inr [42, 43], d')"
proof -
  let ?d = "logged (sample_decision 20) live_db"
  have fresh: "fresh_event 70 live_db" "fresh_event 71 ?d"
    by (simp_all add: fresh_event_def live_db_def empty_db_def audit_row_of_def sample_decision_def sample_audit_def)
  have ready: "ready 1 ?d" using ready_logged [OF live_ready service_oper fresh(1)] by (simp add: sample_decision_def)
  note built = sample_build [OF ready service_oper(1), of 71 20]
  note stored = sample_append [OF ready service_oper fresh(2)]
  have version: "encrypted_secret_version (sid 20) 1 live_db = Inr (sealed [42, 43])"
    by (simp add: encrypted_secret_version_def sample_reads sql_i64_def i64_of_u64_def)
  show ?thesis
    using service_authorized built stored ready version unfolding ready_def
    by (simp add: service_context_def authorized_reveal_current_secret_def authorize_secret_def facade_authorize_def sbind_def storing_def guarded_def
        reveal_current_secret_def reading_def build_audit_def ensure_def)
qed

section \<open>The owner at work\<close>

definition owner_context :: authorized_vault where
  "owner_context = \<lparr>fv_principal = Owner sample_owner, fv_request_id = sid 72, fv_now = 2000\<rparr>"

definition owner_oper :: vault_operation_context where
  "owner_oper = \<lparr>oc_request_id = sid 72, oc_actor = Some (sid 30), oc_credential_kind = Some ''session'',
     oc_credential_id = Some (sid 40), oc_now = 2000\<rparr>"

lemma owner_oper [simp]: "operation (Owner sample_owner) (sid 72) 2000 = owner_oper"
  "facade_operation owner_context = owner_oper" "uuids_ok owner_oper"
  by (simp_all add: operation_def owner_oper_def sample_owner_def facade_operation_def owner_context_def uuids_ok_def is_none_or_def)

lemma owner_texts: "act \<noteq> [] \<Longrightarrow> length act \<le> 64 \<Longrightarrow> is_ascii act \<Longrightarrow> kind \<in> {''namespace'', ''secret'', ''policy'',
    ''principal'', ''credential'', ''session''} \<Longrightarrow> texts_ok act kind ''allowed'' owner_oper"
  by (auto simp: texts_ok_def owner_oper_def is_none_or_def is_ascii_def)

lemma action_texts: "texts_ok (action_as_str act) (resource_kind_as_str kind) ''allowed'' owner_oper"
  by (rule owner_texts) (cases act; cases kind; simp add: is_ascii_def)+

abbreviation owner_event :: "nat \<Rightarrow> nat \<Rightarrow> string \<Rightarrow> string \<Rightarrow> nat \<Rightarrow> audit_record" where
  "owner_event n e act kind t \<equiv> sample_audit n e act kind t ''allowed'' owner_oper"

lemma owner_decides:
  "decide sample_vault (Owner sample_owner) act kind r 2000 d = Inr (Inr ())"
  by (simp add: is_valid_at_def is_recent_at_def sample_owner_def)

lemma owner_authorizes:
  assumes "ready n d" "fresh_event e d"
  shows "authorize sample_vault (sid e) (Owner sample_owner) act kind (sid t) (sid 72) 2000 d =
    (Inr (), logged (owner_event (Suc n) e (action_as_str act) (resource_kind_as_str kind) t) d)"
proof -
  have "append_audit (owner_event (Suc n) e (action_as_str act) (resource_kind_as_str kind) t) d =
      (Inr (), logged (owner_event (Suc n) e (action_as_str act) (resource_kind_as_str kind) t) d)"
    using sample_append [OF assms(1) action_texts owner_oper(3) assms(2)] assms(1) by (simp add: ready_def)
  then show ?thesis
    using sample_build [OF assms(1) action_texts, of e act kind t] owner_decides
    by (simp add: authorize_def reading_def guarded_def sbind_def storing_def del: decide.simps)
qed

lemma owner_ready:
  assumes "ready n d" "fresh_event e d" "n < 99" "texts_ok act kind ''allowed'' owner_oper"
  shows "ready (Suc n) (logged (owner_event (Suc n) e act kind t) d)"
  using ready_logged [OF assms(1,4) owner_oper(3) assms(2,3)] .

lemma live_log [simp]: "audit_events live_db = []"
  by (simp add: live_db_def empty_db_def)

lemma fresh_live [simp]: "fresh_event e live_db"
  by (simp add: fresh_event_def live_db_def empty_db_def)

lemma fresh_logged [simp]: "fresh_event e (logged (sample_audit n e' act kind t out oper) d) \<longleftrightarrow> fresh_event e d \<and> sid e' \<noteq> sid e"
  by (auto simp: fresh_event_def audit_row_of_def sample_audit_def)

end
