(* ===== verification/Sample_Update.thy ===== *)
theory Sample_Update
  imports Sample_Vault
begin

text \<open>
  The sample vault in motion: the owner updates the sample secret through the authorized
  vault, and reveals the new version from the state the update leaves.
\<close>

definition update_insert :: secret_version_insert where
  "update_insert = \<lparr>sv_secret_id = sid 20, sv_expected_current_version = 1, sv_expected_revision = 1,
     sv_payload = sealed [44], sv_schedule = default_schedule, sv_next_state_commitment = h32 0,
     sv_created_by = Some (sid 30), sv_created_at = 2000\<rparr>"

definition updated :: "db \<Rightarrow> db" where
  "updated d = d\<lparr>secrets := tbl_update (append_where update_insert) (append_set update_insert) (secrets d),
     secret_versions := tbl_insert (appended_version update_insert) (secret_versions d)\<rparr>"

lemma update_stored:
  assumes "ready 1 (live_db\<lparr>audit_events := es\<rparr>)" "fresh_event 71 (live_db\<lparr>audit_events := es\<rparr>)"
  shows "append_secret_version update_insert (owner_event 2 71 ''secret:update'' ''secret'' 20) (live_db\<lparr>audit_events := es\<rparr>) =
    (Inr 2, logged (owner_event 2 71 ''secret:update'' ''secret'' 20) (updated (live_db\<lparr>audit_events := es\<rparr>)))"
proof -
  have texts: "texts_ok ''secret:update'' ''secret'' ''allowed'' owner_oper" by (rule owner_texts) (simp_all add: is_ascii_def)
  show ?thesis
    unfolding append_secret_version_def
    by (simp add: guarded_def checked_add_u64_def u64_max_def sql_i64_def i64_of_u64_def i64_max_def update_insert_def,
        rule sample_audited [OF assms(1) texts owner_oper(3) assms(2)])
       (simp_all add: tbl_update_def live_db_def empty_db_def updated_def update_insert_def eval_defs record_defs append_where_def append_set_def appended_version_def
      sealed_def default_schedule_def)
qed

definition update_events :: "audit_row list" where
  "update_events = map audit_row_of [owner_event 1 70 ''secret:update'' ''secret'' 20,
     owner_event 2 71 ''secret:update'' ''secret'' 20]"

lemma live_revision [simp]: "sr_revision live_secret = 1" "sr_name_index live_secret = h32 1" "sr_metadata_version live_secret = 1"
  by (simp_all add: live_secret_def)

lemma owner_context_sel: "fv_principal owner_context = Owner sample_owner" "fv_request_id owner_context = sid 72" "fv_now owner_context = 2000"
  by (simp_all add: owner_context_def)

lemma owner_oper_sel [simp]: "oc_actor owner_oper = Some (sid 30)" "oc_now owner_oper = 2000"
  by (simp_all add: owner_oper_def)

lemma owner_updates:
  "authorized_update_secret sample_vault (sid 70) (sid 71) (sid 72) sample_entropy owner_context (sid 20) 1 1 [44]
     default_schedule live_db = (Inr 2, updated (live_db\<lparr>audit_events := update_events\<rparr>))"
proof -
  let ?d = "live_db\<lparr>audit_events := [audit_row_of (owner_event 1 70 ''secret:update'' ''secret'' 20)]\<rparr>"
  have empty: "audit_events live_db = []" by (simp add: live_db_def empty_db_def)
  have texts: "texts_ok ''secret:update'' ''secret'' ''allowed'' owner_oper" by (rule owner_texts) (simp_all add: is_ascii_def)
  have auth: "authorize sample_vault (sid 70) (Owner sample_owner) SecretUpdate Secret (sid 20) (sid 72) 2000 live_db = (Inr (), ?d)"
    using owner_authorizes [OF live_ready fresh_live, of 70 SecretUpdate Secret 20] empty by simp
  have ready: "ready 1 ?d" using owner_ready [OF live_ready fresh_live _ texts, of 70 20] empty by simp
  have fresh: "fresh_event 71 ?d" using empty by (simp add: fresh_event_def audit_row_of_def sample_audit_def)
  have built: "build_audit_outcome sample_vault (sid 71) ''secret:update'' ''secret'' (Some (sid 20)) ''allowed'' owner_oper ?d =
      Inr (owner_event 2 71 ''secret:update'' ''secret'' 20)"
    using sample_build [OF ready texts, of 71 20] by (simp add: numeral_2_eq_2)
  show ?thesis
    using auth built update_stored [OF ready fresh]
    by (simp add: authorized_update_secret_def authorize_secret_def facade_authorize_def owner_context_sel sbind_def storing_def
        guarded_def update_secret_with_schedule_def reading_def build_audit_def validate_secret_def MAX_SECRET_BYTES_def
        schedule_is_valid_def default_schedule_def checked_add_u64_def u64_max_def ensure_def sample_secret_commitment
        update_insert_def updated_def update_events_def is_none_or_def)
qed

text \<open>The state after the update, and the reveal on it.\<close>

lemma ready_frame:
  "ready n d \<Longrightarrow> audit_events d' = audit_events d \<Longrightarrow> poisoned d' = poisoned d \<Longrightarrow>
   installation_state d' = installation_state d \<Longrightarrow> fk_current_version d' \<Longrightarrow> ready n d'"
  by (simp add: ready_def chain_ok_def)

lemma updated_ready: "ready 2 (updated (live_db\<lparr>audit_events := update_events\<rparr>))" (is "ready 2 ?d")
proof -
  let ?e = "\<lambda>n. owner_event n (69 + n) ''secret:update'' ''secret'' 20"
  have texts: "texts_ok ''secret:update'' ''secret'' ''allowed'' owner_oper" by (rule owner_texts) (simp_all add: is_ascii_def)
  have "ready 1 (logged (?e 1) live_db)" using owner_ready [OF live_ready fresh_live _ texts, of 70 20] by simp
  then have "ready 2 (logged (?e 2) (logged (?e 1) live_db))"
    using owner_ready [of 1 "logged (?e 1) live_db" 71, OF _ _ _ texts, of 20]
    by (simp add: numeral_2_eq_2 fresh_event_def audit_row_of_def sample_audit_def)
  moreover have "audit_events ?d = audit_events (logged (?e 2) (logged (?e 1) live_db))"
    by (simp add: updated_def update_events_def live_db_def empty_db_def)
  moreover have "fk_current_version ?d"
    by (simp add: updated_def live_db_def empty_db_def fk_current_version_def tbl_update_def tbl_update_at_def tbl_insert_def rows_def
        next_rowid_def append_where_def append_set_def update_insert_def appended_version_def)
  ultimately show ?thesis by (elim ready_frame) (simp_all add: updated_def)
qed

definition updated_db :: db where
  "updated_db = updated (live_db\<lparr>audit_events := update_events\<rparr>)"

definition updated_secret :: secret_record where
  "updated_secret = live_secret\<lparr>sr_current_version := 2, sr_revision := 2\<rparr>"

lemma updated_reads:
  "secret (sid 20) updated_db = Inr updated_secret"
  "encrypted_secret_version (sid 20) 2 updated_db = Inr (sealed [44])"
  by (simp_all add: updated_db_def updated_secret_def updated_def secret_def encrypted_secret_version_def sample_reads parse_secret_def schedule_of_current_def
          default_schedule_def live_secret_def tbl_update_def tbl_update_at_def tbl_insert_def next_rowid_def append_where_def
          append_set_def update_insert_def appended_version_def sql_i64_def i64_of_u64_def)

lemma updated_secret_ok: "verify_secret_state sample_vault updated_secret = Inr ()"
  "sr_lifecycle_state updated_secret = ''active''" "sr_current_version updated_secret = 2"
  by (simp_all add: verify_secret_state_def updated_secret_def live_secret_def sample_secret_commitment ensure_def)

lemma updated_fresh: "fresh_event e updated_db \<longleftrightarrow> sid e \<noteq> sid 70 \<and> sid e \<noteq> sid 71"
  by (auto simp: updated_db_def updated_def update_events_def fresh_event_def audit_row_of_def sample_audit_def)

lemma owner_reveals_version:
  "\<exists>d2. authorized_reveal_secret_version sample_vault (sid 73) (sid 74) owner_context (sid 20) 2 updated_db = (Inr [44], d2)"
proof -
  let ?d1 = "logged (owner_event 3 73 ''secret:version-read'' ''secret'' 20) updated_db"
  let ?b = "owner_event 4 74 ''secret:version-read'' ''secret'' 20"
  have texts: "texts_ok ''secret:version-read'' ''secret'' ''allowed'' owner_oper" by (rule owner_texts) (simp_all add: is_ascii_def)
  note d = updated_ready [folded updated_db_def]
  have fresh: "fresh_event 73 updated_db" "fresh_event 74 ?d1" by (simp_all add: updated_fresh)
  have auth: "authorize sample_vault (sid 73) (Owner sample_owner) SecretVersionRead Secret (sid 20) (sid 72) 2000 updated_db = (Inr (), ?d1)"
    using owner_authorizes [OF d fresh(1), of SecretVersionRead Secret 20] by (simp add: numeral_3_eq_3)
  have ready: "ready 3 ?d1" using owner_ready [OF d fresh(1) _ texts, of 20] by (simp add: numeral_3_eq_3)
  have built: "build_audit_outcome sample_vault (sid 74) ''secret:version-read'' ''secret'' (Some (sid 20)) ''allowed'' owner_oper ?d1 = Inr ?b"
    using sample_build [OF ready texts, of 74 20] by simp
  have stored: "append_audit ?b ?d1 = (Inr (), logged ?b ?d1)"
    using sample_append [OF ready texts owner_oper(3) fresh(2), of 20] ready by (simp add: ready_def)
  have reads: "secret (sid 20) ?d1 = Inr updated_secret" "encrypted_secret_version (sid 20) 2 ?d1 = Inr (sealed [44])"
    using updated_reads by simp_all
  show ?thesis
    using auth built stored reads updated_secret_ok
    by (simp add: authorized_reveal_secret_version_def authorize_secret_def facade_authorize_def owner_context_sel sbind_def storing_def
        guarded_def reveal_secret_version_def reading_def build_audit_def ensure_def)
qed

end
