(* ===== verification/Vault_Properties.thy ===== *)
theory Vault_Properties
  imports Sample_Update
begin

text \<open>
  The promises of the application layer: mediation of every access, the values a vault holds
  as an abstract map, committed state, the policy graph, sessions and credentials.  Each
  property rests on the component theories and their interpretations; the witnesses run the
  operations on the sample vault.
\<close>

section \<open>Mediated access to values\<close>

text \<open>What the authorization of a service rests on: an active policy bound to it in the verified graph grants the
  action on the resource or on an ancestor namespace.\<close>

definition service_granted :: "vault \<Rightarrow> authenticated_service \<Rightarrow> action \<Rightarrow> uuid \<Rightarrow> db \<Rightarrow> bool" where
  "service_granted v s act i d = (\<exists>sn ancestors. verified_authorization_snapshot v d = Inr sn \<and>
     resource_namespace_ancestors v Secret i d = Inr ancestors \<and> granted sn (asv_principal_id s) act Secret i ancestors)"

text \<open>C2. A service obtains a value only through a grant, in both ways the facade returns one: the current value of a
  secret only if an active policy bound to it grants value reading on the secret or an ancestor namespace of the
  verified graph, and a version by its number only if one grants version reading; the current value is that of the
  current version of an active secret, and a version is the value the vault holds under its number.\<close>

theorem reveal_mediated:
  assumes "fv_principal a = Service s"
  shows "(authorized_reveal_current_secret v ev0 ev a i d = (Inr p, d') \<longrightarrow>
      service_granted v s SecretValueRead i d \<and>
      (\<exists>r. secret i d = Inr r \<and> sr_lifecycle_state r = ''active'' \<and> vault_values v d (i, sr_current_version r) = Some p)) \<and>
    (authorized_reveal_secret_version v ev0 ev a i n d = (Inr p, d') \<longrightarrow>
      service_granted v s SecretVersionRead i d \<and> vault_values v d (i, n) = Some p)"
proof (intro conjI impI)
  assume op: "authorized_reveal_current_secret v ev0 ev a i d = (Inr p, d')"
  then show "service_granted v s SecretValueRead i d"
    using f_reveal.service_success_granted [of v a "(ev0, ev, i)" d p d' s] assms by (simp add: service_granted_def)
  obtain d1 where auth: "authorize v ev0 (fv_principal a) SecretValueRead Secret i (fv_request_id a) (fv_now a) d = (Inr (), d1)"
    and run: "reveal_current_secret v ev i (facade_operation a) d1 = (Inr p, d')"
    using op unfolding authorized_reveal_current_secret_def
    by (auto simp: sbind_Inr storing_Inr facade_authorize_def authorize_secret_def)
  obtain b where [simp]: "d1 = logged b d" using authorize_Inr [OF auth] by (auto dest!: append_audit_Inr)
  show "\<exists>r. secret i d = Inr r \<and> sr_lifecycle_state r = ''active'' \<and> vault_values v d (i, sr_current_version r) = Some p"
    using reveal_current_value [OF run] by simp
next
  assume op: "authorized_reveal_secret_version v ev0 ev a i n d = (Inr p, d')"
  then show "service_granted v s SecretVersionRead i d"
    using f_reveal_version.service_success_granted [of v a "(ev0, ev, i, n)" d p d' s] assms by (simp add: service_granted_def)
  obtain d1 where auth: "authorize v ev0 (fv_principal a) SecretVersionRead Secret i (fv_request_id a) (fv_now a) d = (Inr (), d1)"
    and run: "reveal_secret_version v ev i n (facade_operation a) d1 = (Inr p, d')"
    using op unfolding authorized_reveal_secret_version_def
    by (auto simp: sbind_Inr storing_Inr facade_authorize_def authorize_secret_def)
  obtain b where [simp]: "d1 = logged b d" using authorize_Inr [OF auth] by (auto dest!: append_audit_Inr)
  show "vault_values v d (i, n) = Some p" using reveal_version_value [OF run] by simp
qed

theorem reveal_mediated_witness:
  "service_granted sample_vault sample_service SecretValueRead (sid 20) live_db \<and>
    (\<exists>r. secret (sid 20) live_db = Inr r \<and> sr_lifecycle_state r = ''active'' \<and>
      vault_values sample_vault live_db (sid 20, sr_current_version r) = Some [42, 43])"
proof -
  obtain d' where run: "authorized_reveal_current_secret sample_vault (sid 70) (sid 71) service_context (sid 20) live_db =
      (Inr [42, 43], d')"
    using service_reveals by blast
  have "fv_principal service_context = Service sample_service" by (simp add: service_context_def)
  from reveal_mediated [OF this, THEN conjunct1] show ?thesis using run by blast
qed

text \<open>A refusal: an error, and at most an event on the log.\<close>

definition refused :: "db \<Rightarrow> (authorized_vault_error + 'a) \<times> db \<Rightarrow> bool" where
  "refused d r = (\<exists>e d'. r = (Inl e, d') \<and> (d' = d \<or> (\<exists>w. d' = logged w d)))"

lemma ungrantable_decision:
  "\<not> is_service_grantable act \<Longrightarrow> fv_principal a = Service s \<Longrightarrow>
   decide v (fv_principal a) act kind r now d \<noteq> Inr (Inr ())"
  by simp

lemma list_lifecycle_refused:
  assumes "fv_principal a = Service s"
  shows "refused d (authorized_list_secrets_in_lifecycle v ev a ns st after limit d)"
proof -
  obtain r d' where auth: "authorize v ev (fv_principal a) SecretList Namespace ns (fv_request_id a) (fv_now a) d = (r, d')"
    by fastforce
  show ?thesis
  proof (cases r)
    case (Inl e)
    then have "d' = d \<or> (\<exists>b. d' = logged b d)" using authorize_Inl auth by (blast dest: append_audit_Inr)
    then show ?thesis using auth Inl
      by (simp add: refused_def authorized_list_secrets_in_lifecycle_def sbind_def facade_authorize_def storing_def guarded_def)
  next
    case (Inr u)
    then have "\<exists>b. d' = logged b d" using authorize_Inr auth by (fastforce dest!: append_audit_Inr)
    then show ?thesis using auth Inr assms
      by (simp add: refused_def authorized_list_secrets_in_lifecycle_def sbind_def facade_authorize_def storing_def guarded_def reading_def
          is_owner_def ensure_def)
  qed
qed


text \<open>C13. What belongs to the owner stays with the owner: whatever its policies say, a service
  that asks the facade to create a namespace, delete or purge a secret, list the secrets of a lifecycle
  state, list due work, read or verify the audit log, or create or inspect a backup is refused, and the
  database afterwards is the one before, up to the event of the decision.\<close>

theorem owner_only_operations:
  assumes "fv_principal a = Service s"
  shows "refused d (authorized_create_namespace v ev0 ev ent a i parent md d) \<and>
    refused d (create_namespace_idempotent v ev0 ev ent a i parent md input d) \<and>
    refused d (authorized_delete_secret v ev0 ev a i n d) \<and>
    refused d (authorized_purge_secret v ev0 ev a i n cutoff d) \<and>
    refused d (authorized_list_secrets_in_lifecycle v ev a ns st from_id limit d) \<and>
    refused d (authorized_secrets_due v ev a limit d) \<and>
    refused d (authorized_verify_audit_chain v ev a d) \<and>
    refused d (authorized_audit_events v ev a after limit d) \<and>
    refused d (authorize_backup_create v ev a d) \<and> refused d (authorize_backup_inspect v ev a d)"
proof -
  have no: "decide v (fv_principal a) act kind r now d \<noteq> Inr (Inr ())"
    if "act \<in> {NamespaceCreate, SecretPurge, VaultConfigure, AuditRead, BackupCreate, BackupInspect}" for act kind r now
    using that assms by (intro ungrantable_decision) (auto simp: is_service_grantable_def)
  show ?thesis
    using list_lifecycle_refused [OF assms, of d v ev ns st from_id limit] unfolding refused_def
    using f_create_ns.refused_changes_only_log [of v a "(ev0, ev, ent, i, parent, md)" d]
      f_create_ns_once.refused_changes_only_log [of v a "(ev0, ev, ent, i, parent, md, input)" d]
      f_delete.refused_changes_only_log [of v a "(ev0, ev, i, n)" d]
      f_purge.refused_changes_only_log [of v a "(ev0, ev, i, n, cutoff)" d]
      f_due.refused_changes_only_log [of v a "(ev, limit)" d] f_verify.refused_changes_only_log [of v a d ev]
      f_audit.refused_changes_only_log [of v a "(ev, after, limit)" d]
      f_backup.refused_changes_only_log [of v a d ev] f_inspect.refused_changes_only_log [of v a d ev] no
    by (simp del: decide.simps)
qed

theorem owner_only_operations_witness:
  "refused live_db (authorized_purge_secret sample_vault (sid 70) (sid 71) service_context (sid 20) 1 0 live_db)"
  using owner_only_operations [of service_context sample_service live_db] by (simp add: service_context_def)

section \<open>The values a vault holds\<close>

text \<open>C3. The vault refines a map from secret and version to value: a committed update adds exactly
  the next version with the given bytes and keeps every other value, and a later reveal of that
  version, by whoever may, returns those bytes.\<close>

theorem updated_value_revealed:
  assumes "aead_correct (vt_lib v)" "ring_ok v" "entropy_ok ent"
    and "authorized_update_secret v ev0 ev1 ev2 ent a i n k p sch d = (Inr x, d1)"
    and "authorized_reveal_secret_version v ev3 ev4 b i x d1 = (Inr q, d2)"
  shows "x = n + 1 \<and> vault_values v d1 = (vault_values v d)((i, x) \<mapsto> p) \<and> q = p"
proof -
  obtain d0 where auth: "authorize v ev0 (fv_principal a) SecretUpdate Secret i (fv_request_id a) (fv_now a) d = (Inr (), d0)"
    and upd: "update_secret_with_schedule v ent ev1 ev2 i n k p sch (facade_operation a) d0 = (Inr x, d1)"
    using assms(4) unfolding authorized_update_secret_def
    by (auto simp: sbind_Inr storing_Inr facade_authorize_def authorize_secret_def)
  obtain e where [simp]: "d0 = logged e d" using authorize_Inr [OF auth] by (auto dest!: append_audit_Inr)
  have new: "x = n + 1" "vault_values v d1 = (vault_values v d)((i, x) \<mapsto> p)"
    using update_secret_values [OF assms(1-3) upd] by simp_all
  obtain d3 where auth2: "authorize v ev3 (fv_principal b) SecretVersionRead Secret i (fv_request_id b) (fv_now b) d1 = (Inr (), d3)"
    and rev: "reveal_secret_version v ev4 i x (facade_operation b) d3 = (Inr q, d2)"
    using assms(5) unfolding authorized_reveal_secret_version_def
    by (auto simp: sbind_Inr storing_Inr facade_authorize_def authorize_secret_def)
  obtain f where [simp]: "d3 = logged f d1" using authorize_Inr [OF auth2] by (auto dest!: append_audit_Inr)
  have "vault_values v d1 (i, x) = Some q" using reveal_version_value [OF rev] by simp
  then show ?thesis using new by simp
qed

theorem updated_value_revealed_witness:
  "vault_values sample_vault updated_db = (vault_values sample_vault live_db)((sid 20, 2) \<mapsto> [44])"
proof -
  obtain d2 where "authorized_reveal_secret_version sample_vault (sid 73) (sid 74) owner_context (sid 20) 2 updated_db = (Inr [44], d2)"
    using owner_reveals_version by blast
  moreover have "aead_correct (vt_lib sample_vault)" "ring_ok sample_vault" "entropy_ok sample_entropy"
    using sample_lib_correct(1) by (simp_all add: entropy_ok_def sample_entropy_def is_none_or_def)
  ultimately show ?thesis using updated_value_revealed [OF _ _ _ owner_updates [folded updated_db_def]] by blast
qed

end
