(* ===== verification/Archive_Format.thy ===== *)
theory Archive_Format
  imports App_Operation Text_Format
begin

text \<open>
  The portable archive of \<open>src/crates/smcv-backup/src/lib.rs\<close>: the bounded public header, the
  recovery key's printed form, the encrypted frames, the streaming counter of logical records,
  and the writer and the reader over them.  The AEAD, HMAC, SHA-256 and base64 are the fields
  of \<open>crypto_lib\<close>; Argon2id and the JSON form of the two manifests (the \<open>argon2\<close> and
  \<open>serde_json\<close> packages) are further parameters in \<open>archive_lib\<close>.

  A source is the bytes still to be read.  A logical stream is the list of results its
  successive reads give, which may be short; the end of the list is the end of the stream.  A
  destination accepts bytes until its room is used up and then fails, keeping what it took.
\<close>

unbundle bit_operations_syntax

section \<open>Bounds\<close>

definition MAGIC :: bytes where "MAGIC = ascii ''SMCVLT01''"
definition FORMAT_VERSION :: nat where "FORMAT_VERSION = 1"
definition ALGORITHM_SUITE :: nat where "ALGORITHM_SUITE = 1"
definition MAX_HEADER_BYTES :: nat where "MAX_HEADER_BYTES = 256"
definition MAX_ARCHIVE_BYTES :: nat where "MAX_ARCHIVE_BYTES = 64 * 1024 * 1024 * 1024"
definition MIN_CHUNK_BYTES :: nat where "MIN_CHUNK_BYTES = 16 * 1024"
definition MAX_CHUNK_BYTES :: nat where "MAX_CHUNK_BYTES = 4 * 1024 * 1024"
definition MAX_RECORDS :: nat where "MAX_RECORDS = 10000000"
definition MIN_ARGON2_MEMORY_KIB :: nat where "MIN_ARGON2_MEMORY_KIB = 64 * 1024"
definition MAX_ARGON2_MEMORY_KIB :: nat where "MAX_ARGON2_MEMORY_KIB = 256 * 1024"
definition MAX_ARGON2_ITERATIONS :: nat where "MAX_ARGON2_ITERATIONS = 10"
definition MAX_ARGON2_LANES :: nat where "MAX_ARGON2_LANES = 4"
definition FIXED_HEADER_BYTES :: nat where "FIXED_HEADER_BYTES = 54"
definition WRAP_NONCE_BYTES :: nat where "WRAP_NONCE_BYTES = 24"
definition WRAPPED_DEK_BYTES :: nat where "WRAPPED_DEK_BYTES = 48"
definition MIN_HEADER_BYTES :: nat where
  "MIN_HEADER_BYTES = FIXED_HEADER_BYTES + WRAP_NONCE_BYTES + WRAPPED_DEK_BYTES"
definition MIN_SALT_BYTES :: nat where "MIN_SALT_BYTES = 16"
definition MAX_SALT_BYTES :: nat where "MAX_SALT_BYTES = 32"
definition FRAME_HEADER_BYTES :: nat where "FRAME_HEADER_BYTES = 38"
definition AEAD_TAG_BYTES :: nat where "AEAD_TAG_BYTES = 16"
definition MAX_MANIFEST_BYTES :: nat where "MAX_MANIFEST_BYTES = 64 * 1024"
definition MAX_LOGICAL_RECORD_BYTES :: nat where "MAX_LOGICAL_RECORD_BYTES = 32 * 1024 * 1024"

lemmas archive_bounds = FORMAT_VERSION_def ALGORITHM_SUITE_def MAX_HEADER_BYTES_def MAX_ARCHIVE_BYTES_def
  MIN_CHUNK_BYTES_def MAX_CHUNK_BYTES_def MAX_RECORDS_def MIN_ARGON2_MEMORY_KIB_def MAX_ARGON2_MEMORY_KIB_def
  MAX_ARGON2_ITERATIONS_def MAX_ARGON2_LANES_def FIXED_HEADER_BYTES_def WRAP_NONCE_BYTES_def
  WRAPPED_DEK_BYTES_def MIN_HEADER_BYTES_def MIN_SALT_BYTES_def MAX_SALT_BYTES_def FRAME_HEADER_BYTES_def
  AEAD_TAG_BYTES_def MAX_MANIFEST_BYTES_def MAX_LOGICAL_RECORD_BYTES_def

section \<open>Data\<close>

datatype key_mode = PassphraseArgon2id | RecoveryKeyMode

record argon2_parameters =
  memory_kib :: nat
  iterations :: nat
  lanes :: nat

record public_header =
  ph_archive_id :: uuid
  ph_key_mode :: key_mode
  ph_salt :: bytes
  ph_argon2 :: "argon2_parameters option"
  ph_chunk_bytes :: nat
  ph_record_limit :: nat
  ph_wrap_nonce :: bytes
  ph_wrapped_dek :: bytes

datatype header_error = ArchiveTooLarge | Truncated | BadMagic | Unsupported | HeaderInvalidBound | InvalidKdf

text \<open>The key of the archive: a passphrase, or the 32 bytes of a recovery key.\<close>

datatype archive_key = Passphrase bytes | Recovery bytes

record archive_metadata =
  am_logical_vault_id :: uuid
  am_source_installation_id :: uuid
  am_source_recovery_epoch :: nat
  am_source_schema_version :: nat
  am_security_semantics_version :: nat
  am_created_at :: unix_ms

record archive_options =
  ao_chunk_bytes :: nat
  ao_record_limit :: nat
  ao_argon2 :: argon2_parameters

definition default_options :: archive_options where
  "default_options = \<lparr>ao_chunk_bytes = 1024 * 1024, ao_record_limit = MAX_RECORDS,
     ao_argon2 = \<lparr>memory_kib = 64 * 1024, iterations = 3, lanes = 1\<rparr>\<rparr>"

record archive_summary =
  as_archive_id :: uuid
  as_archive_bytes :: nat
  as_record_count :: nat
  as_logical_bytes :: nat

record verified_archive =
  va_header :: public_header
  va_metadata :: archive_metadata
  va_record_count :: nat
  va_logical_bytes :: nat
  va_logical_digest :: bytes

datatype archive_error = Header header_error | Io | InvalidKey | Integrity | InvalidBound | Unavailable

record final_manifest =
  fm_record_count :: nat
  fm_logical_bytes :: nat
  fm_logical_digest :: bytes
  fm_data_frames :: nat

text \<open>Argon2id for memory, iterations, lanes, passphrase and salt; the JSON forms.\<close>

record archive_lib =
  al_crypto :: crypto_lib
  al_argon2 :: "nat \<Rightarrow> nat \<Rightarrow> nat \<Rightarrow> bytes \<Rightarrow> bytes \<Rightarrow> bytes option"
  al_metadata_to_json :: "archive_metadata \<Rightarrow> bytes"
  al_metadata_from_json :: "bytes \<Rightarrow> archive_metadata option"
  al_final_to_json :: "final_manifest \<Rightarrow> bytes"
  al_final_from_json :: "bytes \<Rightarrow> final_manifest option"

section \<open>The public header\<close>

definition read_uint :: "nat \<Rightarrow> bytes \<Rightarrow> nat \<Rightarrow> header_error + nat" where
  "read_uint k bs offset = rbind (ok_or Truncated (get_range bs offset (offset + k))) (\<lambda>v. Inr (from_be v))"

definition read_u16 :: "bytes \<Rightarrow> nat \<Rightarrow> header_error + nat" where "read_u16 = read_uint 2"
definition read_u32 :: "bytes \<Rightarrow> nat \<Rightarrow> header_error + nat" where "read_u32 = read_uint 4"
definition read_u64 :: "bytes \<Rightarrow> nat \<Rightarrow> header_error + nat" where "read_u64 = read_uint 8"

fun key_mode_code :: "key_mode \<Rightarrow> byte" where
  "key_mode_code PassphraseArgon2id = 1"
| "key_mode_code RecoveryKeyMode = 2"

definition key_mode_of :: "byte \<Rightarrow> header_error + key_mode" where
  "key_mode_of b = (if b = 1 then Inr PassphraseArgon2id else if b = 2 then Inr RecoveryKeyMode else Inl Unsupported)"

definition argon2_bounded :: "nat \<Rightarrow> nat \<Rightarrow> nat \<Rightarrow> bool" where
  "argon2_bounded m i l = (MIN_ARGON2_MEMORY_KIB \<le> m \<and> m \<le> MAX_ARGON2_MEMORY_KIB \<and>
     1 \<le> i \<and> i \<le> MAX_ARGON2_ITERATIONS \<and> 1 \<le> l \<and> l \<le> MAX_ARGON2_LANES)"

definition chunk_bounded :: "nat \<Rightarrow> nat \<Rightarrow> bool" where
  "chunk_bounded chunk limit = (MIN_CHUNK_BYTES \<le> chunk \<and> chunk \<le> MAX_CHUNK_BYTES \<and>
     limit \<noteq> 0 \<and> limit \<le> MAX_RECORDS)"

text \<open>The key derivation fields must agree with the mode.\<close>

fun mode_parameters :: "key_mode \<Rightarrow> bytes \<Rightarrow> nat \<Rightarrow> nat \<Rightarrow> nat \<Rightarrow> nat \<Rightarrow>
    header_error + (bytes \<times> argon2_parameters option)" where
  "mode_parameters PassphraseArgon2id bs salt_len m i l =
     rbind (ensure (MIN_SALT_BYTES \<le> salt_len \<and> salt_len \<le> MAX_SALT_BYTES \<and> argon2_bounded m i l) InvalidKdf) (\<lambda>_.
     Inr (take salt_len (drop FIXED_HEADER_BYTES bs), Some \<lparr>memory_kib = m, iterations = i, lanes = l\<rparr>))"
| "mode_parameters RecoveryKeyMode bs salt_len m i l =
     rbind (ensure (salt_len = 0 \<and> m = 0 \<and> i = 0 \<and> l = 0) InvalidKdf) (\<lambda>_. Inr ([], None))"

definition parse_public_header :: "bytes \<Rightarrow> nat \<Rightarrow> header_error + public_header" where
  "parse_public_header bs total_archive_bytes =
     rbind (ensure (total_archive_bytes \<le> MAX_ARCHIVE_BYTES) ArchiveTooLarge) (\<lambda>_.
     rbind (ensure (FIXED_HEADER_BYTES \<le> length bs) Truncated) (\<lambda>_.
     rbind (ensure (take 8 bs = MAGIC) BadMagic) (\<lambda>_.
     rbind (read_u16 bs 8) (\<lambda>version.
     rbind (read_u16 bs 10) (\<lambda>suite.
     rbind (ensure (version = FORMAT_VERSION \<and> suite = ALGORITHM_SUITE) Unsupported) (\<lambda>_.
     rbind (key_mode_of (bs ! 12)) (\<lambda>mode.
     rbind (ensure (bs ! 13 = 0) Unsupported) (\<lambda>_.
     rbind (read_u16 bs 14) (\<lambda>header_len.
     rbind (ensure (MIN_HEADER_BYTES \<le> header_len \<and> header_len \<le> MAX_HEADER_BYTES \<and>
       header_len \<le> length bs) HeaderInvalidBound) (\<lambda>_.
     let archive_id = take 16 (drop 16 bs); salt_len = unat (bs ! 32) in
     rbind (ensure (header_len = MIN_HEADER_BYTES + salt_len) HeaderInvalidBound) (\<lambda>_.
     rbind (read_u32 bs 33) (\<lambda>m.
     rbind (read_u32 bs 37) (\<lambda>i.
     let l = unat (bs ! 41) in
     rbind (read_u32 bs 42) (\<lambda>chunk.
     rbind (read_u64 bs 46) (\<lambda>limit.
     rbind (ensure (chunk_bounded chunk limit) HeaderInvalidBound) (\<lambda>_.
     rbind (mode_parameters mode bs salt_len m i l) (\<lambda>(salt, argon2).
     let nonce_offset = FIXED_HEADER_BYTES + salt_len; dek_offset = nonce_offset + WRAP_NONCE_BYTES in
     rbind (try_into_array WRAP_NONCE_BYTES HeaderInvalidBound (take (dek_offset - nonce_offset) (drop nonce_offset bs))) (\<lambda>nonce.
     rbind (try_into_array WRAPPED_DEK_BYTES HeaderInvalidBound (take (header_len - dek_offset) (drop dek_offset bs))) (\<lambda>dek.
     Inr \<lparr>ph_archive_id = archive_id, ph_key_mode = mode, ph_salt = salt, ph_argon2 = argon2,
          ph_chunk_bytes = chunk, ph_record_limit = limit, ph_wrap_nonce = nonce, ph_wrapped_dek = dek\<rparr>)))))))))))))))))))"

definition u16_of :: "nat \<Rightarrow> nat option" where "u16_of n = (if n \<le> u16_max then Some n else None)"
definition u32_of :: "nat \<Rightarrow> nat option" where "u32_of n = (if n \<le> u32_max then Some n else None)"
definition u8_of :: "nat \<Rightarrow> nat option" where "u8_of n = (if n \<le> 255 then Some n else None)"

definition encode_header_prefix :: "public_header \<Rightarrow> archive_error + bytes" where
  "encode_header_prefix h =
     rbind (ok_or InvalidBound (u16_of (MIN_HEADER_BYTES + length (ph_salt h)))) (\<lambda>header_len.
     rbind (ok_or InvalidBound (u8_of (length (ph_salt h)))) (\<lambda>salt_len.
     let p = (case ph_argon2 h of Some p \<Rightarrow> p | None \<Rightarrow> \<lparr>memory_kib = 0, iterations = 0, lanes = 0\<rparr>) in
     Inr (MAGIC @ be_bytes 2 FORMAT_VERSION @ be_bytes 2 ALGORITHM_SUITE @ [key_mode_code (ph_key_mode h), 0] @
       be_bytes 2 header_len @ ph_archive_id h @ be_bytes 1 salt_len @ be_bytes 4 (memory_kib p) @
       be_bytes 4 (iterations p) @ be_bytes 1 (lanes p) @ be_bytes 4 (ph_chunk_bytes h) @
       be_bytes 8 (ph_record_limit h) @ ph_salt h @ ph_wrap_nonce h)))"

definition encode_public_header :: "public_header \<Rightarrow> archive_error + bytes" where
  "encode_public_header h = rbind (encode_header_prefix h) (\<lambda>p. Inr (p @ ph_wrapped_dek h))"

section \<open>Keys\<close>

definition hex_lower :: "bytes \<Rightarrow> string" where
  "hex_lower bs = concat (map (\<lambda>b. [hex_digit (unat (drop_bit 4 b)), hex_digit (unat (b AND 0x0f))]) bs)"

definition recovery_checksum :: "crypto_lib \<Rightarrow> bytes \<Rightarrow> string" where
  "recovery_checksum c k = hex_lower (take 4 (sha256 c (ascii ''SMCV-BACKUP-RECOVERY-CHECK-v1'' @ k)))"

definition recovery_generate :: "bytes option \<Rightarrow> archive_error + bytes" where
  "recovery_generate random = ok_or Unavailable random"

definition recovery_expose_once :: "crypto_lib \<Rightarrow> bytes \<Rightarrow> string" where
  "recovery_expose_once c k = ''smcvbrk_v1.'' @ b64_encode c k @ ''.'' @ recovery_checksum c k"

text \<open>The iterator over the fields is consumed in order: the tag, the body, the checksum, and
  nothing after.\<close>

definition recovery_parse :: "crypto_lib \<Rightarrow> string \<Rightarrow> archive_error + bytes" where
  "recovery_parse c encoded =
     (case split_dot encoded of
        tag # body # checksum # rest \<Rightarrow>
          rbind (ensure (tag = ''smcvbrk_v1'') InvalidKey) (\<lambda>_.
          rbind (ensure (rest = [] \<and> length checksum = 8) InvalidKey) (\<lambda>_.
          rbind (ok_or InvalidKey (b64_decode c body)) (\<lambda>k.
          rbind (ensure (length k = 32) InvalidKey) (\<lambda>_.
          rbind (ensure (recovery_checksum c k = checksum) InvalidKey) (\<lambda>_. Inr k)))))
      | _ \<Rightarrow> Inl InvalidKey)"

definition derive_wrapping_key :: "archive_lib \<Rightarrow> archive_key \<Rightarrow> public_header \<Rightarrow> archive_error + bytes" where
  "derive_wrapping_key al key h =
     (case (key, ph_key_mode h) of
        (Passphrase passphrase, PassphraseArgon2id) \<Rightarrow>
          rbind (ensure (passphrase \<noteq> [] \<and> length passphrase \<le> 1024) InvalidKey) (\<lambda>_.
          rbind (ok_or InvalidKey (ph_argon2 h)) (\<lambda>p.
          ok_or InvalidKey (al_argon2 al (memory_kib p) (iterations p) (lanes p) passphrase (ph_salt h))))
      | (Recovery recovery, RecoveryKeyMode) \<Rightarrow>
          Inr (hmac_sha256 (al_crypto al) recovery (ascii ''SMCV-BACKUP-WRAP-v1'' @ ph_archive_id h))
      | _ \<Rightarrow> Inl InvalidKey)"

section \<open>Logical records\<close>

record record_counter =
  rc_header :: bytes
  rc_header_used :: nat
  rc_remaining_payload :: nat
  rc_records :: nat
  rc_limit :: nat

definition counter_new :: "nat \<Rightarrow> record_counter" where
  "counter_new limit = \<lparr>rc_header = replicate 8 0, rc_header_used = 0, rc_remaining_payload = 0,
     rc_records = 0, rc_limit = limit\<rparr>"

text \<open>A complete header: its flags and its length are checked and the record is counted.\<close>

definition counter_open :: "record_counter \<Rightarrow> archive_error + record_counter" where
  "counter_open c =
     (let h = rc_header c; flags = word_of_nat (from_be [h ! 2, h ! 3]) :: 16 word;
          len = from_be [h ! 4, h ! 5, h ! 6, h ! 7] in
      rbind (ensure (flags AND NOT 1 = 0 \<and> len \<le> MAX_LOGICAL_RECORD_BYTES) Integrity) (\<lambda>_.
      rbind (ok_or InvalidBound (checked_add_u64 (rc_records c) 1)) (\<lambda>n.
      rbind (ensure (n \<le> rc_limit c) InvalidBound) (\<lambda>_.
      Inr (c\<lparr>rc_records := n, rc_remaining_payload := len, rc_header_used := 0\<rparr>)))))"

text \<open>The loop over the bytes of a chunk.  The header buffer is private and holds fewer than
  eight bytes between iterations (\<open>counter_update_ok\<close>); a counter with a full buffer does not
  arise and is refused here.\<close>

function counter_update :: "record_counter \<Rightarrow> bytes \<Rightarrow> archive_error + record_counter" where
  "counter_update c bs =
     (if bs = [] then Inr c
      else if 0 < rc_remaining_payload c then
        let consumed = min (length bs) (rc_remaining_payload c) in
        counter_update (c\<lparr>rc_remaining_payload := rc_remaining_payload c - consumed\<rparr>) (drop consumed bs)
      else if 8 \<le> rc_header_used c then Inl Integrity
      else
        let used = rc_header_used c; consumed = min (8 - used) (length bs);
            c' = c\<lparr>rc_header := take used (rc_header c) @ take consumed bs @ drop (used + consumed) (rc_header c),
                   rc_header_used := used + consumed\<rparr> in
        if used + consumed = 8 then rbind (counter_open c') (\<lambda>c''. counter_update c'' (drop consumed bs))
        else counter_update c' (drop consumed bs))"
  by pat_completeness auto

termination
  by (relation "measure (\<lambda>(c, bs). length bs)") (auto simp: Let_def)

declare counter_update.simps [simp del]

definition counter_finish :: "record_counter \<Rightarrow> archive_error + nat" where
  "counter_finish c =
     rbind (ensure (rc_header_used c = 0 \<and> rc_remaining_payload c = 0) Integrity) (\<lambda>_. Inr (rc_records c))"

section \<open>Frames\<close>

definition frame_aad :: "uuid \<Rightarrow> nat \<Rightarrow> byte \<Rightarrow> nat \<Rightarrow> bytes" where
  "frame_aad archive_id sequence kind ciphertext_len =
     ascii ''SMCV-FRAME-v1'' @ [0] @ archive_id @ be_bytes 8 sequence @ [kind] @ be_bytes 4 ciphertext_len"

record sink =
  sk_written :: bytes
  sk_room :: nat

definition write_all :: "bytes \<Rightarrow> sink \<Rightarrow> (archive_error + unit) \<times> sink" where
  "write_all bs s =
     (if length bs \<le> sk_room s then (Inr (), s\<lparr>sk_written := sk_written s @ bs, sk_room := sk_room s - length bs\<rparr>)
      else (Inl Io, s\<lparr>sk_written := sk_written s @ take (sk_room s) bs, sk_room := 0\<rparr>))"

definition write_frame :: "archive_lib \<Rightarrow> bytes option \<Rightarrow> bytes \<Rightarrow> uuid \<Rightarrow> nat \<Rightarrow> byte \<Rightarrow> bytes \<Rightarrow> sink \<Rightarrow>
    (archive_error + nat) \<times> sink" where
  "write_frame al random key archive_id sequence kind plaintext =
     guarded
       (rbind (ok_or Unavailable random) (\<lambda>nonce.
        rbind (ok_or InvalidBound (u32_of (length plaintext + AEAD_TAG_BYTES))) (\<lambda>ciphertext_len.
        rbind (ok_or Unavailable (aead_encrypt (al_crypto al) key nonce
          (frame_aad archive_id sequence kind ciphertext_len) plaintext)) (\<lambda>ciphertext.
        Inr (nonce, ciphertext_len, ciphertext)))))
       (\<lambda>(nonce, ciphertext_len, ciphertext).
        sbind (write_all (be_bytes 4 ciphertext_len)) (\<lambda>_.
        sbind (write_all (be_bytes 8 sequence)) (\<lambda>_.
        sbind (write_all [kind, 0]) (\<lambda>_.
        sbind (write_all nonce) (\<lambda>_.
        sbind (write_all ciphertext) (\<lambda>_.
        Pair (Inr (FRAME_HEADER_BYTES + length ciphertext))))))))"

definition read_exact :: "nat \<Rightarrow> bytes \<Rightarrow> archive_error + (bytes \<times> bytes)" where
  "read_exact n source = (if n \<le> length source then Inr (take n source, drop n source) else Inl Io)"

text \<open>One frame off the source: its kind, its plaintext and its size, and the source after it.\<close>

definition read_frame :: "archive_lib \<Rightarrow> bytes \<Rightarrow> uuid \<Rightarrow> nat \<Rightarrow> nat \<Rightarrow> bytes \<Rightarrow>
    archive_error + ((byte \<times> bytes \<times> nat) \<times> bytes)" where
  "read_frame al key archive_id expected_sequence chunk_bytes source =
     rbind (read_exact FRAME_HEADER_BYTES source) (\<lambda>(frame_header, source1).
     let ciphertext_len = from_be (take 4 frame_header); sequence = from_be (take 8 (drop 4 frame_header));
         kind = frame_header ! 12;
         max_plaintext = (if kind = 2 then chunk_bytes else MAX_MANIFEST_BYTES) in
     rbind (ensure (sequence = expected_sequence \<and> frame_header ! 13 = 0) Integrity) (\<lambda>_.
     rbind (ensure (AEAD_TAG_BYTES \<le> ciphertext_len \<and> ciphertext_len \<le> max_plaintext + AEAD_TAG_BYTES)
       InvalidBound) (\<lambda>_.
     rbind (read_exact ciphertext_len source1) (\<lambda>(ciphertext, source2).
     rbind (ok_or Integrity (aead_decrypt (al_crypto al) key (take 24 (drop 14 frame_header))
       (frame_aad archive_id sequence kind ciphertext_len) ciphertext)) (\<lambda>plaintext.
     Inr ((kind, plaintext, FRAME_HEADER_BYTES + ciphertext_len), source2))))))"

section \<open>The writer\<close>

record archive_entropy =
  ae_archive_id :: uuid
  ae_salt :: "bytes option"
  ae_wrap_nonce :: "bytes option"
  ae_dek :: "bytes option"
  ae_frame_nonce :: "nat \<Rightarrow> bytes option"

text \<open>The running totals of the writer and of the reader.  A hash in progress is the bytes
  it was given.\<close>

record stream_state =
  st_sequence :: nat
  st_data_frames :: nat
  st_logical_bytes :: nat
  st_digest :: bytes
  st_counter :: record_counter
  st_bytes :: nat

definition validate_options :: "archive_options \<Rightarrow> archive_error + unit" where
  "validate_options p = ensure (chunk_bounded (ao_chunk_bytes p) (ao_record_limit p) \<and>
     argon2_bounded (memory_kib (ao_argon2 p)) (iterations (ao_argon2 p)) (lanes (ao_argon2 p))) InvalidBound"

text \<open>The mode the key selects, with its fresh salt and parameters.\<close>

fun select_mode :: "archive_key \<Rightarrow> bytes option \<Rightarrow> argon2_parameters \<Rightarrow>
    archive_error + (key_mode \<times> bytes \<times> argon2_parameters option)" where
  "select_mode (Passphrase passphrase) random p =
     rbind (ensure (16 \<le> length passphrase \<and> length passphrase \<le> 1024) InvalidKey) (\<lambda>_.
     rbind (ok_or Unavailable random) (\<lambda>salt. Inr (PassphraseArgon2id, salt, Some p)))"
| "select_mode (Recovery recovery) random p = Inr (RecoveryKeyMode, [], None)"

text \<open>The header of a new archive, with the data key wrapped under its prefix.\<close>

definition new_header :: "archive_lib \<Rightarrow> archive_entropy \<Rightarrow> archive_key \<Rightarrow> archive_options \<Rightarrow>
    archive_error + (public_header \<times> bytes)" where
  "new_header al ent key p =
     rbind (validate_options p) (\<lambda>_.
     rbind (select_mode key (ae_salt ent) (ao_argon2 p)) (\<lambda>(mode, salt, argon2).
     rbind (ok_or Unavailable (ae_wrap_nonce ent)) (\<lambda>wrap_nonce.
     rbind (ok_or Unavailable (ae_dek ent)) (\<lambda>dek.
     let header = \<lparr>ph_archive_id = ae_archive_id ent, ph_key_mode = mode, ph_salt = salt, ph_argon2 = argon2,
         ph_chunk_bytes = ao_chunk_bytes p, ph_record_limit = ao_record_limit p, ph_wrap_nonce = wrap_nonce,
         ph_wrapped_dek = replicate WRAPPED_DEK_BYTES 0\<rparr> in
     rbind (derive_wrapping_key al key header) (\<lambda>wrapping_key.
     rbind (encode_header_prefix header) (\<lambda>prefix.
     rbind (ok_or Unavailable (aead_encrypt (al_crypto al) wrapping_key wrap_nonce prefix dek)) (\<lambda>wrapped.
     rbind (try_into_array WRAPPED_DEK_BYTES Unavailable wrapped) (\<lambda>wrapped_dek.
     Inr (header\<lparr>ph_wrapped_dek := wrapped_dek\<rparr>, dek)))))))))"

text \<open>A chunk counted: framing, digest and length.\<close>

definition absorb :: "bytes \<Rightarrow> stream_state \<Rightarrow> archive_error + stream_state" where
  "absorb data st =
     rbind (counter_update (st_counter st) data) (\<lambda>c.
     rbind (ok_or InvalidBound (checked_add_u64 (st_logical_bytes st) (length data))) (\<lambda>n.
     Inr (st\<lparr>st_counter := c, st_digest := st_digest st @ data, st_logical_bytes := n\<rparr>)))"

fun write_chunks :: "archive_lib \<Rightarrow> archive_entropy \<Rightarrow> bytes \<Rightarrow> (unit + bytes) list \<Rightarrow> stream_state \<Rightarrow> sink \<Rightarrow>
    (archive_error + stream_state) \<times> sink" where
  "write_chunks al ent dek [] st = Pair (Inr st)"
| "write_chunks al ent dek (Inl _ # reads) st = Pair (Inl Io)"
| "write_chunks al ent dek (Inr data # reads) st =
     (if data = [] then Pair (Inr st)
      else guarded (absorb data st) (\<lambda>st1.
        sbind (write_frame al (ae_frame_nonce ent (st_sequence st)) dek (ae_archive_id ent) (st_sequence st) 2 data) (\<lambda>frame_size.
        guarded
          (rbind (ok_or InvalidBound (checked_add_u64 (st_bytes st1) frame_size)) (\<lambda>written.
           rbind (ok_or InvalidBound (checked_add_u64 (st_sequence st1) 1)) (\<lambda>sequence.
           rbind (ok_or InvalidBound (checked_add_u64 (st_data_frames st1) 1)) (\<lambda>frames.
           Inr (st1\<lparr>st_bytes := written, st_sequence := sequence, st_data_frames := frames\<rparr>)))))
          (\<lambda>st2. write_chunks al ent dek reads st2))))"

definition start_state :: "nat \<Rightarrow> nat \<Rightarrow> stream_state" where
  "start_state limit consumed = \<lparr>st_sequence = 1, st_data_frames = 0, st_logical_bytes = 0, st_digest = [],
     st_counter = counter_new limit, st_bytes = consumed\<rparr>"

definition final_of :: "archive_lib \<Rightarrow> nat \<Rightarrow> stream_state \<Rightarrow> final_manifest" where
  "final_of al records st = \<lparr>fm_record_count = records, fm_logical_bytes = st_logical_bytes st,
     fm_logical_digest = sha256 (al_crypto al) (st_digest st), fm_data_frames = st_data_frames st\<rparr>"

definition write_archive :: "archive_lib \<Rightarrow> archive_entropy \<Rightarrow> (unit + bytes) list \<Rightarrow> archive_key \<Rightarrow> archive_metadata \<Rightarrow>
    archive_options \<Rightarrow> sink \<Rightarrow> (archive_error + archive_summary) \<times> sink" where
  "write_archive al ent reads key metadata p =
     guarded
       (rbind (new_header al ent key p) (\<lambda>(header, dek).
        rbind (encode_public_header header) (\<lambda>encoded. Inr (dek, encoded))))
       (\<lambda>(dek, encoded).
        sbind (write_all encoded) (\<lambda>_.
        let manifest = al_metadata_to_json al metadata in
        guarded (ensure (length manifest \<le> MAX_MANIFEST_BYTES) InvalidBound) (\<lambda>_.
        sbind (write_frame al (ae_frame_nonce ent 0) dek (ae_archive_id ent) 0 1 manifest) (\<lambda>frame_size.
        guarded (ok_or InvalidBound (checked_add_u64 (length encoded) frame_size)) (\<lambda>written.
        sbind (write_chunks al ent dek reads (start_state (ao_record_limit p) written)) (\<lambda>st.
        guarded (counter_finish (st_counter st)) (\<lambda>records.
        sbind (write_frame al (ae_frame_nonce ent (st_sequence st)) dek (ae_archive_id ent) (st_sequence st) 3
          (al_final_to_json al (final_of al records st))) (\<lambda>frame_size.
        guarded (ok_or InvalidBound (checked_add_u64 (st_bytes st) frame_size)) (\<lambda>written.
        Pair (Inr \<lparr>as_archive_id = ae_archive_id ent, as_archive_bytes = written, as_record_count = records,
          as_logical_bytes = st_logical_bytes st\<rparr>))))))))))"

section \<open>The reader\<close>

lemma read_frame_shorter:
  "read_frame al key i n chunk source = Inr ((kind, p, frame_size), source') \<Longrightarrow>
   source' = drop frame_size source \<and> frame_size \<le> length source \<and> FRAME_HEADER_BYTES + AEAD_TAG_BYTES \<le> frame_size"
  by (auto simp: read_frame_def read_exact_def Let_def result_simps archive_bounds add.commute split: if_splits)

text \<open>The loop over the frames: the consumer sees every data frame as it is authenticated; the
  final manifest ends the loop.  Each frame shortens the source.\<close>

function decode_frames :: "archive_lib \<Rightarrow> bytes \<Rightarrow> uuid \<Rightarrow> nat \<Rightarrow> (bytes \<Rightarrow> 's \<Rightarrow> (archive_error + unit) \<times> 's) \<Rightarrow>
    stream_state \<Rightarrow> bytes \<Rightarrow> 's \<Rightarrow> (archive_error + (final_manifest \<times> stream_state \<times> bytes)) \<times> 's" where
  "decode_frames al dek archive_id chunk consume st source s =
     (case read_frame al dek archive_id (st_sequence st) chunk source of
        Inl e \<Rightarrow> (Inl e, s)
      | Inr ((kind, plaintext, frame_size), source') \<Rightarrow>
          guarded
            (rbind (ok_or InvalidBound (checked_add_u64 (st_bytes st) frame_size)) (\<lambda>consumed.
             rbind (ok_or InvalidBound (checked_add_u64 (st_sequence st) 1)) (\<lambda>sequence.
             Inr (st\<lparr>st_bytes := consumed, st_sequence := sequence\<rparr>))))
            (\<lambda>st1.
             if kind = 2 then
               guarded
                 (rbind (absorb plaintext st1) (\<lambda>st2.
                  rbind (ok_or InvalidBound (checked_add_u64 (st_data_frames st2) 1)) (\<lambda>frames.
                  Inr (st2\<lparr>st_data_frames := frames\<rparr>))))
                 (\<lambda>st3. sbind (consume plaintext) (\<lambda>_. decode_frames al dek archive_id chunk consume st3 source'))
             else if kind = 3 then
               Pair (rbind (ensure (length plaintext \<le> MAX_MANIFEST_BYTES) Integrity) (\<lambda>_.
                 rbind (ok_or Integrity (al_final_from_json al plaintext)) (\<lambda>final. Inr (final, st1, source'))))
             else Pair (Inl Integrity)) s)"
  by pat_completeness auto

termination
  by (relation "measure (\<lambda>(al, dek, i, chunk, consume, st, source, s). length source)")
     (auto dest!: read_frame_shorter simp: archive_bounds)

declare decode_frames.simps [simp del]

definition read_header :: "bytes \<Rightarrow> nat \<Rightarrow> archive_error + (public_header \<times> nat \<times> bytes)" where
  "read_header source total_archive_bytes =
     rbind (ensure (total_archive_bytes \<le> MAX_ARCHIVE_BYTES) (Header ArchiveTooLarge)) (\<lambda>_.
     rbind (read_exact 16 source) (\<lambda>(first, source1).
     let header_len = from_be [first ! 14, first ! 15] in
     rbind (ensure (MIN_HEADER_BYTES \<le> header_len \<and> header_len \<le> MAX_HEADER_BYTES) (Header HeaderInvalidBound)) (\<lambda>_.
     rbind (read_exact (header_len - 16) source1) (\<lambda>(rest, source2).
     rbind (map_err Header (parse_public_header (first @ rest) total_archive_bytes)) (\<lambda>header.
     Inr (header, header_len, source2))))))"

definition unwrap_dek :: "archive_lib \<Rightarrow> archive_key \<Rightarrow> public_header \<Rightarrow> archive_error + bytes" where
  "unwrap_dek al key header =
     rbind (derive_wrapping_key al key header) (\<lambda>wrapping_key.
     rbind (encode_header_prefix header) (\<lambda>prefix.
     rbind (ok_or InvalidKey (aead_decrypt (al_crypto al) wrapping_key (ph_wrap_nonce header) prefix
       (ph_wrapped_dek header))) (\<lambda>dek.
     try_into_array 32 InvalidKey dek)))"

definition read_manifest :: "archive_lib \<Rightarrow> bytes \<Rightarrow> public_header \<Rightarrow> nat \<Rightarrow> bytes \<Rightarrow>
    archive_error + (archive_metadata \<times> nat \<times> bytes)" where
  "read_manifest al dek header header_len source =
     rbind (read_frame al dek (ph_archive_id header) 0 (ph_chunk_bytes header) source) (\<lambda>((kind, manifest, frame_size), source').
     rbind (ensure (kind = 1 \<and> length manifest \<le> MAX_MANIFEST_BYTES) Integrity) (\<lambda>_.
     rbind (ok_or InvalidBound (checked_add_u64 header_len frame_size)) (\<lambda>consumed.
     rbind (ok_or Integrity (al_metadata_from_json al manifest)) (\<lambda>metadata.
     Inr (metadata, consumed, source')))))"

definition check_final :: "archive_lib \<Rightarrow> public_header \<Rightarrow> archive_metadata \<Rightarrow> nat \<Rightarrow>
    final_manifest \<times> stream_state \<times> bytes \<Rightarrow> archive_error + verified_archive" where
  "check_final al header metadata total_archive_bytes = (\<lambda>(final, st, source).
     rbind (ensure (st_bytes st = total_archive_bytes) Integrity) (\<lambda>_.
     rbind (ensure (source = []) Integrity) (\<lambda>_.
     rbind (counter_finish (st_counter st)) (\<lambda>records.
     rbind (ensure (final = final_of al records st) Integrity) (\<lambda>_.
     Inr \<lparr>va_header = header, va_metadata = metadata, va_record_count = records,
          va_logical_bytes = st_logical_bytes st, va_logical_digest = sha256 (al_crypto al) (st_digest st)\<rparr>)))))"

definition decode_archive :: "archive_lib \<Rightarrow> bytes \<Rightarrow> nat \<Rightarrow> archive_key \<Rightarrow> (bytes \<Rightarrow> 's \<Rightarrow> (archive_error + unit) \<times> 's) \<Rightarrow> 's \<Rightarrow>
    (archive_error + verified_archive) \<times> 's" where
  "decode_archive al source total_archive_bytes key consume =
     guarded
       (rbind (read_header source total_archive_bytes) (\<lambda>(header, header_len, source1).
        rbind (unwrap_dek al key header) (\<lambda>dek.
        rbind (read_manifest al dek header header_len source1) (\<lambda>(metadata, consumed, source2).
        Inr (header, dek, metadata, consumed, source2)))))
       (\<lambda>(header, dek, metadata, consumed, source2).
        sbind (decode_frames al dek (ph_archive_id header) (ph_chunk_bytes header) consume
          (start_state (ph_record_limit header) consumed) source2) (\<lambda>r.
        guarded (check_final al header metadata total_archive_bytes r) (\<lambda>x. Pair (Inr x))))"

definition verify_archive :: "archive_lib \<Rightarrow> bytes \<Rightarrow> nat \<Rightarrow> archive_key \<Rightarrow> archive_error + verified_archive" where
  "verify_archive al source total_archive_bytes key =
     fst (decode_archive al source total_archive_bytes key (\<lambda>_. Pair (Inr ())) ())"

end
