(* ===== verification/Archive_Header.thy ===== *)
theory Archive_Header
  imports Archive_Format
begin

text \<open>
  The public header and the recovery key: a valid header and its encoding determine each other,
  whatever follows it in the archive, and the printed recovery key is read back.
\<close>

section \<open>The header\<close>

definition header_ok :: "public_header \<Rightarrow> bool" where
  "header_ok h = (length (ph_archive_id h) = 16 \<and> chunk_bounded (ph_chunk_bytes h) (ph_record_limit h) \<and>
     length (ph_wrap_nonce h) = 24 \<and> length (ph_wrapped_dek h) = 48 \<and>
     (case ph_key_mode h of
        PassphraseArgon2id \<Rightarrow> 16 \<le> length (ph_salt h) \<and> length (ph_salt h) \<le> 32 \<and>
          (case ph_argon2 h of None \<Rightarrow> False | Some p \<Rightarrow> argon2_bounded (memory_kib p) (iterations p) (lanes p))
      | RecoveryKeyMode \<Rightarrow> ph_salt h = [] \<and> ph_argon2 h = None))"

lemma length_MAGIC [simp]: "length MAGIC = 8"
  by (simp add: MAGIC_def)

lemma key_mode_of_code [simp]: "key_mode_of (key_mode_code m) = Inr m"
  by (cases m) (simp_all add: key_mode_of_def)

lemma key_mode_of_Inr: "key_mode_of b = Inr m \<longleftrightarrow> b = key_mode_code m"
  by (cases m) (auto simp: key_mode_of_def)

lemma byte_mod [simp]: "word_of_nat (n mod 256) = (word_of_nat n :: byte)"
  by (simp add: word_of_nat_eq_iff take_bit_eq_mod)

text \<open>The layout of an encoded header.\<close>

definition header_bytes :: "public_header \<Rightarrow> nat \<Rightarrow> nat \<Rightarrow> nat \<Rightarrow> bytes" where
  "header_bytes h m i l = MAGIC @ be_bytes 2 1 @ be_bytes 2 1 @ [key_mode_code (ph_key_mode h), 0] @
     be_bytes 2 (126 + length (ph_salt h)) @ ph_archive_id h @ be_bytes 1 (length (ph_salt h)) @ be_bytes 4 m @
     be_bytes 4 i @ be_bytes 1 l @ be_bytes 4 (ph_chunk_bytes h) @
     be_bytes 8 (ph_record_limit h) @ ph_salt h @ ph_wrap_nonce h @ ph_wrapped_dek h"

lemma header_fields:
  assumes "length (ph_archive_id h) = 16" and "bs = header_bytes h m i l @ rest"
  shows "take 8 bs = MAGIC" "read_uint 2 bs 8 = Inr (from_be (be_bytes 2 1))" "read_uint 2 bs 10 = Inr (from_be (be_bytes 2 1))"
    "bs ! 12 = key_mode_code (ph_key_mode h)" "bs ! 13 = 0"
    "read_uint 2 bs 14 = Inr (from_be (be_bytes 2 (126 + length (ph_salt h))))"
    "take 16 (drop 16 bs) = ph_archive_id h" "bs ! 32 = word_of_nat (length (ph_salt h))"
    "read_uint 4 bs 33 = Inr (from_be (be_bytes 4 m))" "read_uint 4 bs 37 = Inr (from_be (be_bytes 4 i))"
    "bs ! 41 = word_of_nat l" "read_uint 4 bs 42 = Inr (from_be (be_bytes 4 (ph_chunk_bytes h)))"
    "read_uint 8 bs 46 = Inr (from_be (be_bytes 8 (ph_record_limit h)))"
    "take (length (ph_salt h)) (drop 54 bs) = ph_salt h"
    "length (ph_wrap_nonce h) = 24 \<Longrightarrow> take 24 (drop (54 + length (ph_salt h)) bs) = ph_wrap_nonce h"
    "length (ph_wrap_nonce h) = 24 \<Longrightarrow> length (ph_wrapped_dek h) = 48 \<Longrightarrow>
       take 48 (drop (78 + length (ph_salt h)) bs) = ph_wrapped_dek h"
proof -
  note lay = assms(2) header_bytes_def
  show "read_uint 2 bs 8 = Inr (from_be (be_bytes 2 1))"
    by (simp add: lay read_uint_def get_range_def)
  show "read_uint 2 bs 10 = Inr (from_be (be_bytes 2 1))"
    by (simp add: lay read_uint_def get_range_def)
  show "read_uint 2 bs 14 = Inr (from_be (be_bytes 2 (126 + length (ph_salt h))))"
    by (simp add: lay read_uint_def get_range_def del: be_bytes.simps)
  show "read_uint 4 bs 33 = Inr (from_be (be_bytes 4 m))" using assms(1)
    by (simp add: lay read_uint_def get_range_def del: be_bytes.simps)
  show "read_uint 4 bs 37 = Inr (from_be (be_bytes 4 i))" using assms(1)
    by (simp add: lay read_uint_def get_range_def del: be_bytes.simps)
  show "read_uint 4 bs 42 = Inr (from_be (be_bytes 4 (ph_chunk_bytes h)))" using assms(1)
    by (simp add: lay read_uint_def get_range_def del: be_bytes.simps)
  show "read_uint 8 bs 46 = Inr (from_be (be_bytes 8 (ph_record_limit h)))" using assms(1)
    by (simp add: lay read_uint_def get_range_def del: be_bytes.simps)
  show "bs ! 32 = word_of_nat (length (ph_salt h))" using assms(1)
    by (simp add: lay nth_append)
  show "bs ! 41 = word_of_nat l" using assms(1)
    by (simp add: lay nth_append)
qed (use assms(1) in \<open>simp_all add: assms(2) header_bytes_def nth_append drop_Cons' del: be_bytes.simps\<close>)

lemma encode_header_bytes:
  assumes "encode_public_header h = Inr bs"
  shows "\<exists>p. bs = header_bytes h (memory_kib p) (iterations p) (lanes p) \<and> length (ph_salt h) \<le> 255 \<and>
    (p = (case ph_argon2 h of Some p \<Rightarrow> p | None \<Rightarrow> \<lparr>memory_kib = 0, iterations = 0, lanes = 0\<rparr>))"
  using assms
  by (auto simp: encode_public_header_def encode_header_prefix_def header_bytes_def result_simps Let_def u16_of_def u8_of_def
      archive_bounds split: if_splits)

lemma parse_encoded:
  assumes "header_ok h" "all_bytes \<le> MAX_ARCHIVE_BYTES" "encode_public_header h = Inr bs"
  shows "parse_public_header (bs @ rest) all_bytes = Inr h"
proof -
  obtain p where p: "bs = header_bytes h (memory_kib p) (iterations p) (lanes p)"
    "p = (case ph_argon2 h of Some p \<Rightarrow> p | None \<Rightarrow> \<lparr>memory_kib = 0, iterations = 0, lanes = 0\<rparr>)"
    using encode_header_bytes [OF assms(3)] by blast
  obtain m i l where mil: "p = \<lparr>memory_kib = m, iterations = i, lanes = l\<rparr>" by (cases p) auto
  have bs: "bs @ rest = header_bytes h m i l @ rest" using p(1) mil by simp
  have par: "ph_argon2 h = Some \<lparr>memory_kib = m, iterations = i, lanes = l\<rparr> \<and> argon2_bounded m i l \<or>
       ph_argon2 h = None \<and> m = 0 \<and> i = 0 \<and> l = 0"
    using p(2) mil assms(1) by (auto simp: header_ok_def split: option.splits key_mode.splits)
  have ok: "length (ph_archive_id h) = 16" "length (ph_wrap_nonce h) = 24" "length (ph_wrapped_dek h) = 48"
    "length (ph_salt h) \<le> 32" "chunk_bounded (ph_chunk_bytes h) (ph_record_limit h)"
    using assms(1) by (auto simp: header_ok_def split: key_mode.splits)
  have small: "m < 256 ^ 4" "i < 256 ^ 4" "l < 256" "ph_chunk_bytes h < 256 ^ 4" "ph_record_limit h < 256 ^ 8"
    "126 + length (ph_salt h) < 256 ^ 2"
    using par ok by (auto simp: argon2_bounded_def chunk_bounded_def archive_bounds)
  have len: "length (bs @ rest) = 126 + length (ph_salt h) + length rest"
    using ok by (simp add: bs header_bytes_def del: be_bytes.simps)
  note fields = header_fields [OF ok(1) bs]
  have mode: "mode_parameters (ph_key_mode h) (bs @ rest) (length (ph_salt h)) m i l = Inr (ph_salt h, ph_argon2 h)"
    using assms(1) par fields(14) by (cases "ph_key_mode h") (auto simp: header_ok_def archive_bounds)
  have "unat (word_of_nat (length (ph_salt h)) :: byte) = length (ph_salt h)" "unat (word_of_nat l :: byte) = l"
    using ok(4) small(3) by (simp_all add: unat_byte_of_nat)
  then show ?thesis
    unfolding parse_public_header_def
    using fields mode ok small len assms(2)
    by (simp add: read_u16_def read_u32_def read_u64_def archive_bounds Let_def from_be_be_bytes del: be_bytes.simps)
qed

text \<open>Reading a field and writing it again.\<close>

lemma read_uint_iff: "read_uint k bs n = Inr v \<longleftrightarrow> n + k \<le> length bs \<and> v = from_be (take k (drop n bs))"
  by (auto simp: read_uint_def get_range_def result_simps)

lemma nth_slice: "n < length bs \<Longrightarrow> be_bytes 1 (unat (bs ! n)) = take 1 (drop n bs)"
  by (simp add: take_Suc_conv_app_nth hd_drop_conv_nth take_Suc)

lemma parsed_header_ok: "parse_public_header bs all_bytes = Inr h \<Longrightarrow> header_ok h"
  unfolding parse_public_header_def
  by (cases "ph_key_mode h")
     (auto simp: header_ok_def result_simps Let_def archive_bounds key_mode_of_def split: if_splits)

lemma parse_header_Inr:
  assumes "parse_public_header bs all_bytes = Inr h"
  shows "all_bytes \<le> MAX_ARCHIVE_BYTES \<and> take 8 bs = MAGIC \<and> from_be (take 2 (drop 8 bs)) = 1 \<and> from_be (take 2 (drop 10 bs)) = 1 \<and>
    bs ! 12 = key_mode_code (ph_key_mode h) \<and> bs ! 13 = 0 \<and> from_be (take 2 (drop 14 bs)) = 126 + unat (bs ! 32) \<and>
    126 + unat (bs ! 32) \<le> length bs \<and> ph_chunk_bytes h = from_be (take 4 (drop 42 bs)) \<and>
    ph_record_limit h = from_be (take 8 (drop 46 bs)) \<and> ph_archive_id h = take 16 (drop 16 bs) \<and>
    ph_wrap_nonce h = take 24 (drop (54 + unat (bs ! 32)) bs) \<and> ph_wrapped_dek h = take 48 (drop (78 + unat (bs ! 32)) bs) \<and>
    mode_parameters (ph_key_mode h) bs (unat (bs ! 32)) (from_be (take 4 (drop 33 bs))) (from_be (take 4 (drop 37 bs)))
      (unat (bs ! 41)) = Inr (ph_salt h, ph_argon2 h)"
  using assms unfolding parse_public_header_def
  by (auto simp: Let_def rbind_eq_Inr ensure_eq_Inr read_u16_def read_u32_def read_u64_def read_uint_iff
      key_mode_of_Inr try_into_array_eq_Inr split_beta archive_bounds)

lemma mode_parameters_Inr:
  assumes "mode_parameters mode bs s m i l = Inr (salt, argon2)" "54 + s \<le> length bs"
  shows "salt = take s (drop 54 bs) \<and> length salt = s \<and> s \<le> 32 \<and>
    (case argon2 of Some p \<Rightarrow> p | None \<Rightarrow> \<lparr>memory_kib = 0, iterations = 0, lanes = 0\<rparr>) = \<lparr>memory_kib = m, iterations = i, lanes = l\<rparr>"
proof (cases mode)
  case PassphraseArgon2id
  then have "salt = take s (drop 54 bs)" "s \<le> 32" "argon2 = Some \<lparr>memory_kib = m, iterations = i, lanes = l\<rparr>"
    using assms(1) by (auto simp: result_simps archive_bounds)
  then show ?thesis using assms(2) by simp
next
  case RecoveryKeyMode
  then show ?thesis using assms(1) by (auto simp: result_simps)
qed

lemma parsed_canonical:
  assumes "parse_public_header bs all_bytes = Inr h"
  shows "encode_public_header h = Inr (take (126 + length (ph_salt h)) bs)"
proof -
  define s m i where smi: "s = unat (bs ! 32)" "m = from_be (take 4 (drop 33 bs))" "i = from_be (take 4 (drop 37 bs))"
  note hdr = parse_header_Inr [OF assms, folded smi]
  have long: "126 + s \<le> length bs" and par: "mode_parameters (ph_key_mode h) bs s m i (unat (bs ! 41)) = Inr (ph_salt h, ph_argon2 h)"
    using hdr by blast+
  have salt: "ph_salt h = take s (drop 54 bs)" "length (ph_salt h) = s" "s \<le> 32"
    and p: "(case ph_argon2 h of Some p \<Rightarrow> p | None \<Rightarrow> \<lparr>memory_kib = 0, iterations = 0, lanes = 0\<rparr>) =
      \<lparr>memory_kib = m, iterations = i, lanes = unat (bs ! 41)\<rparr>"
    using mode_parameters_Inr [OF par] long by simp_all
  have lay: "take (126 + s) bs = take 8 bs @ take 2 (drop 8 bs) @ take 2 (drop 10 bs) @ [bs ! 12, bs ! 13] @
      take 2 (drop 14 bs) @ take 16 (drop 16 bs) @ take 1 (drop 32 bs) @ take 4 (drop 33 bs) @ take 4 (drop 37 bs) @
      take 1 (drop 41 bs) @ take 4 (drop 42 bs) @ take 8 (drop 46 bs) @ take s (drop 54 bs) @ take 24 (drop (54 + s) bs) @
      take 48 (drop (78 + s) bs)"
  proof -
    have "[bs ! 12, bs ! 13] = take 2 (drop 12 bs)"
      using long by (simp add: numeral_2_eq_2 take_Suc hd_drop_conv_nth tl_drop drop_Suc [symmetric])
    moreover have "126 + s = 8 + (2 + (2 + (2 + (2 + (16 + (1 + (4 + (4 + (1 + (4 + (8 + (s + (24 + 48)))))))))))))" by simp
    ultimately show ?thesis by (simp only: take_add drop_drop) (simp add: add.commute)
  qed
  have ints: "be_bytes k (from_be (take k (drop n bs))) = take k (drop n bs)" if "n + k \<le> 126" for n k
    using that long by (intro be_bytes_from_be) simp
  have "be_bytes 2 (Suc 0) = take 2 (drop 8 bs)" "be_bytes 2 (Suc 0) = take 2 (drop 10 bs)" "be_bytes 2 (126 + s) = take 2 (drop 14 bs)"
    using ints [of 8 2] ints [of 10 2] ints [of 14 2] hdr by simp_all
  then show ?thesis
    using ints [of 33 4] ints [of 37 4] ints [of 42 4] ints [of 46 8] salt p hdr nth_slice [of 32 bs] nth_slice [of 41 bs]
    unfolding encode_public_header_def encode_header_prefix_def
    by (simp add: Let_def u16_of_def u8_of_def u16_max_def archive_bounds lay [unfolded smi] smi del: be_bytes.simps)
qed

section \<open>The printed recovery key\<close>

lemma hex_lower_length [simp]: "length (hex_lower bs) = 2 * length bs"
  by (induction bs) (simp_all add: hex_lower_def)

lemma hex_digit_no_dot: "n < 16 \<Longrightarrow> hex_digit n \<noteq> CHR ''.''"
  using hex_digit_set [of n] by (auto simp: hex_alphabet_def)

lemma hex_lower_no_dot: "CHR ''.'' \<notin> set (hex_lower bs)"
proof -
  have "unat (drop_bit 4 b) < 16" "unat (b AND 15) < 16" for b :: byte
  proof -
    show "unat (drop_bit 4 b) < 16" using unat_byte_less [of b] by (simp add: drop_bit_eq_div unat_div)
    have "b AND 15 = take_bit 4 b" by (simp add: take_bit_eq_mask mask_numeral)
    then have "b AND 15 = b mod 16" by (simp add: take_bit_eq_mod)
    then show "unat (b AND 15) < 16" by (simp only: unat_mod_distrib) simp
  qed
  then show ?thesis using hex_digit_no_dot by (force simp: hex_lower_def)
qed

lemma split_dot_join: "s = hd (split_dot s) @ concat (map (\<lambda>w. CHR ''.'' # w) (tl (split_dot s)))"
  by (induction s) (auto split: list.splits)

definition digest_correct :: "crypto_lib \<Rightarrow> bool" where
  "digest_correct c = (\<forall>m. length (sha256 c m) = 32)"

lemma recovery_roundtrip:
  assumes "base64_correct c" "digest_correct c" "length k = 32"
  shows "recovery_parse c (recovery_expose_once c k) = Inr k"
proof -
  have "split_dot (recovery_expose_once c k) = [''smcvbrk_v1'', b64_encode c k, recovery_checksum c k]"
    using assms(1) hex_lower_no_dot split_dot_two [of "''smcvbrk_v1''"]
    by (simp add: recovery_expose_once_def base64_correct_def split_dot_two split_dot_no_dot recovery_checksum_def)
  moreover have "length (recovery_checksum c k) = 8" using assms(2) by (simp add: recovery_checksum_def digest_correct_def)
  ultimately show ?thesis using assms by (simp add: recovery_parse_def base64_correct_def ensure_def)
qed

lemma recovery_accepts:
  assumes "recovery_parse c s = Inr k"
  shows "\<exists>body. s = ''smcvbrk_v1.'' @ body @ ''.'' @ recovery_checksum c k \<and> b64_decode c body = Some k \<and> length k = 32"
  using assms split_dot_join [of s]
  by (auto simp: recovery_parse_def result_simps split: list.splits)

end
