(* ===== verification/Archive_Records.thy ===== *)
theory Archive_Records
  imports Archive_Format
begin

text \<open>
  The streaming record counter.  Its loop consumes as much of a chunk as it can at once; it is
  shown equal to a byte-at-a-time automaton, so that how a stream is cut into chunks does not
  matter, and to the declarative reading of the format: a stream is accepted with the count
  \<open>n\<close> exactly when it is the concatenation of \<open>n\<close> well-formed records within the limit.
\<close>

section \<open>One byte at a time\<close>

lemma rbind_Inr_id [simp]: "rbind m Inr = m"
  by (cases m) simp_all

definition counter_byte :: "record_counter \<Rightarrow> byte \<Rightarrow> archive_error + record_counter" where
  "counter_byte c b =
     (if 0 < rc_remaining_payload c then Inr (c\<lparr>rc_remaining_payload := rc_remaining_payload c - 1\<rparr>)
      else let c' = c\<lparr>rc_header := (rc_header c)[rc_header_used c := b], rc_header_used := Suc (rc_header_used c)\<rparr> in
        if rc_header_used c = 7 then counter_open c' else Inr c')"

definition counter_ok :: "record_counter \<Rightarrow> bool" where
  "counter_ok c = (length (rc_header c) = 8 \<and> rc_header_used c < 8)"

lemma counter_new_ok [simp]: "counter_ok (counter_new limit)"
  by (simp add: counter_ok_def counter_new_def)

lemma counter_open_ok: "counter_open c = Inr c' \<Longrightarrow> length (rc_header c) = 8 \<Longrightarrow> counter_ok c'"
  by (auto simp: counter_open_def Let_def result_simps counter_ok_def)

lemma counter_byte_ok: "counter_ok c \<Longrightarrow> counter_byte c b = Inr c' \<Longrightarrow> counter_ok c'"
  by (auto simp: counter_byte_def Let_def counter_ok_def split: if_splits dest!: counter_open_ok)

lemma payload_fold:
  "length bs \<le> rc_remaining_payload c \<Longrightarrow>
   try_fold counter_byte c bs = Inr (c\<lparr>rc_remaining_payload := rc_remaining_payload c - length bs\<rparr>)"
  by (induction bs arbitrary: c) (auto simp: counter_byte_def)

lemma header_fold:
  assumes "rc_remaining_payload c = 0" "length (rc_header c) = 8" "rc_header_used c + length bs < 8"
  shows "try_fold counter_byte c bs = Inr (c\<lparr>rc_header := take (rc_header_used c) (rc_header c) @ bs @
     drop (rc_header_used c + length bs) (rc_header c), rc_header_used := rc_header_used c + length bs\<rparr>)"
  using assms
proof (induction bs arbitrary: c)
  case (Cons b bs)
  let ?c = "c\<lparr>rc_header := (rc_header c)[rc_header_used c := b], rc_header_used := Suc (rc_header_used c)\<rparr>"
  have "counter_byte c b = Inr ?c" using Cons.prems by (simp add: counter_byte_def)
  moreover have "try_fold counter_byte ?c bs = Inr (?c\<lparr>rc_header := take (rc_header_used ?c) (rc_header ?c) @ bs @
     drop (rc_header_used ?c + length bs) (rc_header ?c), rc_header_used := rc_header_used ?c + length bs\<rparr>)"
    by (rule Cons.IH) (use Cons.prems in simp_all)
  ultimately show ?case using Cons.prems by (simp add: take_Suc_conv_app_nth take_update_swap list_update_append)
qed simp

lemma header_full:
  assumes "rc_remaining_payload c = 0" "length (rc_header c) = 8" "rc_header_used c < 8"
    and "rc_header_used c + length bs = 8"
  shows "try_fold counter_byte c bs = counter_open (c\<lparr>rc_header := take (rc_header_used c) (rc_header c) @ bs @
     drop (rc_header_used c + length bs) (rc_header c), rc_header_used := 8\<rparr>)"
proof -
  obtain b bs' where bs: "bs = bs' @ [b]" using assms(3,4) by (cases bs rule: rev_cases) auto
  have "try_fold counter_byte c bs' = Inr (c\<lparr>rc_header := take (rc_header_used c) (rc_header c) @ bs' @
     drop (rc_header_used c + length bs') (rc_header c), rc_header_used := rc_header_used c + length bs'\<rparr>)"
    using assms bs by (intro header_fold) simp_all
  moreover have "rc_header_used c + length bs' = 7" using assms(4) bs by simp
  moreover have "7 - rc_header_used c = length bs'" using assms(4) bs by simp
  moreover have "drop 7 (rc_header c) = [rc_header c ! 7]"
    using assms(2) by (simp add: Cons_nth_drop_Suc [symmetric])
  moreover have "(take (rc_header_used c) (rc_header c) @ bs' @ drop 7 (rc_header c))[7 := b] =
      take (rc_header_used c) (rc_header c) @ bs' @ [b]"
    using assms(2,4) bs calculation(3,4) by (simp add: list_update_append)
  ultimately show ?thesis
    using assms bs by (simp add: try_fold_append counter_byte_def)
qed

text \<open>The loop is the automaton.\<close>

lemma counter_update_fold: "counter_ok c \<Longrightarrow> counter_update c bs = try_fold counter_byte c bs"
proof (induction c bs rule: counter_update.induct)
  case (1 c bs)
  show ?case
  proof (cases "bs = []")
    case nonempty: False
    show ?thesis
    proof (cases "0 < rc_remaining_payload c")
      case True
      let ?n = "min (length bs) (rc_remaining_payload c)"
      have "counter_update c bs = try_fold counter_byte (c\<lparr>rc_remaining_payload := rc_remaining_payload c - ?n\<rparr>) (drop ?n bs)"
        using "1.IH"(1) [OF nonempty True refl] "1.prems" nonempty True
        by (simp add: counter_update.simps [of c bs] counter_ok_def Let_def)
      also have "\<dots> = try_fold counter_byte c (take ?n bs @ drop ?n bs)"
        using payload_fold [of "take ?n bs" c] by (simp only: try_fold_append) simp
      finally show ?thesis by simp
    next
      case False
      let ?u = "rc_header_used c" let ?n = "min (8 - ?u) (length bs)"
      let ?c = "c\<lparr>rc_header := take ?u (rc_header c) @ take ?n bs @ drop (?u + ?n) (rc_header c), rc_header_used := ?u + ?n\<rparr>"
      have used: "?u < 8" "length (rc_header c) = 8" "rc_remaining_payload c = 0"
        using "1.prems" False by (simp_all add: counter_ok_def)
      have split: "try_fold counter_byte c bs = rbind (try_fold counter_byte c (take ?n bs)) (\<lambda>c. try_fold counter_byte c (drop ?n bs))"
        using try_fold_append [of counter_byte c "take ?n bs" "drop ?n bs"] by simp
      show ?thesis
      proof (cases "?u + ?n = 8")
        case full: True
        have "counter_update c' (drop ?n bs) = try_fold counter_byte c' (drop ?n bs)" if "counter_open ?c = Inr c'" for c'
          using "1.IH"(2) [OF nonempty False _ refl refl refl full] that used
            counter_open_ok [OF that] full by simp
        then have "counter_update c bs = rbind (counter_open ?c) (\<lambda>c'. try_fold counter_byte c' (drop ?n bs))"
          using nonempty used full by (cases "counter_open ?c") (simp_all add: counter_update.simps [of c bs] Let_def)
        moreover have "try_fold counter_byte c (take ?n bs) = counter_open ?c"
          using header_full [of c "take ?n bs"] used full by simp
        ultimately show ?thesis using split by simp
      next
        case part: False
        then have "?u + ?n < 8" using used by (simp add: min_def split: if_splits)
        moreover have "?u + length bs \<noteq> 8" using part used by (simp add: min_def split: if_splits)
        moreover have "counter_ok ?c" using \<open>?u + ?n < 8\<close> used by (simp add: counter_ok_def)
        ultimately have "counter_update c bs = try_fold counter_byte ?c (drop ?n bs)"
          using "1.IH"(3) [OF nonempty False _ refl refl refl part] nonempty used part
          by (simp add: counter_update.simps [of c bs] Let_def)
        moreover have "try_fold counter_byte c (take ?n bs) = Inr ?c"
          using header_fold [of c "take ?n bs"] used \<open>?u + ?n < 8\<close> by simp
        ultimately show ?thesis using split by simp
      qed
    qed
  qed (simp add: counter_update.simps)
qed

lemma counter_update_ok: "counter_ok c \<Longrightarrow> counter_update c bs = Inr c' \<Longrightarrow> counter_ok c'"
  using try_fold_invariant [of counter_byte c bs c' counter_ok] counter_byte_ok by (simp add: counter_update_fold)

lemma counter_update_append:
  "counter_ok c \<Longrightarrow> counter_update c (a @ b) = rbind (counter_update c a) (\<lambda>c'. counter_update c' b)"
  using counter_update_ok [of c a]
  by (cases "counter_update c a") (auto simp: counter_update_fold try_fold_append)

section \<open>Streams of records\<close>

fun record_bytes :: "nat \<times> nat \<times> bytes \<Rightarrow> bytes" where
  "record_bytes (kind, flags, payload) = be_bytes 2 kind @ be_bytes 2 flags @ be_bytes 4 (length payload) @ payload"

fun record_valid :: "nat \<times> nat \<times> bytes \<Rightarrow> bool" where
  "record_valid (kind, flags, payload) = (kind < 65536 \<and> flags \<le> 1 \<and> length payload \<le> MAX_LOGICAL_RECORD_BYTES)"

definition framed :: "nat \<Rightarrow> bytes \<Rightarrow> bool" where
  "framed n bs = (\<exists>rs. list_all record_valid rs \<and> bs = concat (map record_bytes rs) \<and> length rs = n)"

definition count_stream :: "nat \<Rightarrow> bytes \<Rightarrow> archive_error + nat" where
  "count_stream limit bs = rbind (counter_update (counter_new limit) bs) counter_finish"

abbreviation head_flags :: "bytes \<Rightarrow> nat" where "head_flags h \<equiv> from_be (take 2 (drop 2 h))"
abbreviation head_length :: "bytes \<Rightarrow> nat" where "head_length h \<equiv> from_be (take 4 (drop 4 h))"

lemma flags_mask: "n < 65536 \<Longrightarrow> (word_of_nat n :: 16 word) AND NOT 1 = 0 \<longleftrightarrow> n \<le> 1"
proof -
  assume n: "n < 65536"
  have "(word_of_nat n :: 16 word) AND NOT 1 = 0 \<longleftrightarrow> (word_of_nat n :: 16 word) = word_of_nat n mod 2"
    using unset_bit_eq_and_not [of 0 "word_of_nat n :: 16 word"]
    by (simp add: unset_bit_0 minus_mod_eq_mult_div [symmetric]) (metis right_minus_eq)
  also have "\<dots> \<longleftrightarrow> n = n mod 2"
    using n by (simp add: word_unat_eq_iff unat_mod_distrib unat_of_nat take_bit_eq_mod)
  finally show ?thesis by presburger
qed

lemma header_nths:
  "length h = 8 \<Longrightarrow> [h ! 2, h ! 3] = take 2 (drop 2 h)" "length h = 8 \<Longrightarrow> [h ! 4, h ! 5, h ! 6, h ! 7] = take 4 (drop 4 h)"
  by (auto simp: list_eq_iff_nth_eq less_Suc_eq numeral_eq_Suc)

lemma counter_open_iff:
  assumes "length (rc_header c) = 8" "rc_limit c \<le> u64_max"
  shows "counter_open c = Inr c' \<longleftrightarrow> head_flags (rc_header c) \<le> 1 \<and>
    head_length (rc_header c) \<le> MAX_LOGICAL_RECORD_BYTES \<and> rc_records c < rc_limit c \<and>
    c' = c\<lparr>rc_records := Suc (rc_records c), rc_remaining_payload := head_length (rc_header c), rc_header_used := 0\<rparr>"
proof -
  have "head_flags (rc_header c) < 65536" using from_be_less [of "take 2 (drop 2 (rc_header c))"] assms(1) by simp
  then show ?thesis
    using assms flags_mask by (auto simp: counter_open_def Let_def result_simps header_nths)
qed

text \<open>A framed stream is empty, or a header with the payload it announces and a framed rest.\<close>

lemma record_bytes_length: "8 \<le> length (record_bytes r)"
  by (cases r) simp

lemma framed_Nil [simp]: "framed n [] \<longleftrightarrow> n = 0"
proof -
  have "rs = []" if "concat (map record_bytes rs) = []" for rs
    using that record_bytes_length [of "hd rs"] by (cases rs) auto
  then show ?thesis by (auto simp: framed_def)
qed

lemma framed_short:
  assumes "framed n bs" "bs \<noteq> []"
  shows "8 \<le> length bs"
proof -
  obtain r rs where "bs = record_bytes r @ concat (map record_bytes rs)"
    using assms unfolding framed_def by (metis concat.simps list.exhaust list.simps(8,9))
  then show ?thesis using record_bytes_length [of r] by simp
qed

lemma framed_header:
  assumes "length h = 8"
  shows "framed n (h @ rest) \<longleftrightarrow> head_flags h \<le> 1 \<and> head_length h \<le> MAX_LOGICAL_RECORD_BYTES \<and>
    head_length h \<le> length rest \<and> 0 < n \<and> framed (n - 1) (drop (head_length h) rest)"
proof
  assume "framed n (h @ rest)"
  then obtain rs where rs: "list_all record_valid rs" "h @ rest = concat (map record_bytes rs)" "length rs = n"
    by (auto simp: framed_def)
  obtain k f p rs' where r: "rs = (k, f, p) # rs'" using rs(2) assms by (cases rs) auto
  have valid: "f \<le> 1" "length p \<le> MAX_LOGICAL_RECORD_BYTES" "list_all record_valid rs'" using rs(1) r by simp_all
  have "h = be_bytes 2 k @ be_bytes 2 f @ be_bytes 4 (length p)" "rest = p @ concat (map record_bytes rs')"
    using rs(2) r assms append_split [of h "be_bytes 2 k @ be_bytes 2 f @ be_bytes 4 (length p)"]
    by (simp_all del: be_bytes.simps)
  moreover have "from_be (be_bytes 2 f) = f" "from_be (be_bytes 4 (length p)) = length p"
    using valid by (simp_all add: MAX_LOGICAL_RECORD_BYTES_def del: be_bytes.simps)
  ultimately show "head_flags h \<le> 1 \<and> head_length h \<le> MAX_LOGICAL_RECORD_BYTES \<and> head_length h \<le> length rest \<and> 0 < n \<and>
      framed (n - 1) (drop (head_length h) rest)"
    using valid rs(3) r by (auto simp: framed_def simp del: be_bytes.simps)
next
  assume a: "head_flags h \<le> 1 \<and> head_length h \<le> MAX_LOGICAL_RECORD_BYTES \<and> head_length h \<le> length rest \<and> 0 < n \<and>
    framed (n - 1) (drop (head_length h) rest)"
  then obtain rs where rs: "list_all record_valid rs" "drop (head_length h) rest = concat (map record_bytes rs)" "length rs = n - 1"
    by (auto simp: framed_def)
  let ?r = "(from_be (take 2 h), head_flags h, take (head_length h) rest)"
  have "record_valid ?r" using a assms from_be_less [of "take 2 h"] by simp
  moreover have "record_bytes ?r = h @ take (head_length h) rest"
  proof -
    have "h = take 2 h @ take 2 (drop 2 h) @ take 4 (drop 4 h)"
      using assms take_add [of 2 2 h] take_add [of 4 4 h] by simp
    then show ?thesis using a assms by (simp del: be_bytes.simps)
  qed
  ultimately show "framed n (h @ rest)"
    using rs a append_take_drop_id [of "head_length h" rest] unfolding framed_def
    by (intro exI [of _ "?r # rs"]) (simp del: record_bytes.simps append_take_drop_id)
qed

text \<open>Between records the automaton is idle.\<close>

definition idle :: "record_counter \<Rightarrow> bool" where
  "idle c = (length (rc_header c) = 8 \<and> rc_header_used c = 0 \<and> rc_remaining_payload c = 0 \<and>
     rc_records c \<le> rc_limit c \<and> rc_limit c \<le> u64_max)"

lemma idle_count:
  "idle c \<Longrightarrow> rbind (try_fold counter_byte c bs) counter_finish = Inr n \<longleftrightarrow>
     rc_records c \<le> n \<and> n \<le> rc_limit c \<and> framed (n - rc_records c) bs"
proof (induction "length bs" arbitrary: c bs rule: less_induct)
  case less
  show ?case
  proof (cases "length bs < 8")
    case short: True
    then have "try_fold counter_byte c bs = Inr (c\<lparr>rc_header := bs @ drop (length bs) (rc_header c), rc_header_used := length bs\<rparr>)"
      using header_fold [of c bs] less.prems by (simp add: idle_def)
    then show ?thesis
      using short less.prems framed_short [of "n - rc_records c" bs]
      by (cases "bs = []") (auto simp: counter_finish_def idle_def result_simps ensure_def)
  next
    case False
    define h rest where hr: "h = take 8 bs" "rest = drop 8 bs"
    then have bs: "bs = h @ rest" "length h = 8" using False by simp_all
    let ?c = "c\<lparr>rc_header := h, rc_header_used := 8\<rparr>" let ?l = "head_length h"
    have first: "try_fold counter_byte c bs = rbind (counter_open ?c) (\<lambda>c'. try_fold counter_byte c' rest)"
      using header_full [of c h] less.prems bs by (simp add: try_fold_append idle_def)
    show ?thesis
    proof (cases "head_flags h \<le> 1 \<and> ?l \<le> MAX_LOGICAL_RECORD_BYTES \<and> rc_records c < rc_limit c")
      case False
      then obtain e where "counter_open ?c = Inl e"
        using counter_open_iff [of ?c] less.prems bs by (cases "counter_open ?c") (auto simp: idle_def)
      then show ?thesis using first False bs by (auto simp: framed_header)
    next
      case True
      let ?c' = "c\<lparr>rc_header := h, rc_records := Suc (rc_records c), rc_remaining_payload := ?l, rc_header_used := 0\<rparr>"
      have "counter_open ?c = Inr ?c'" using counter_open_iff [of ?c ?c'] True less.prems bs by (simp add: idle_def)
      then have step: "try_fold counter_byte c bs = try_fold counter_byte ?c' rest" using first by simp
      show ?thesis
      proof (cases "?l \<le> length rest")
        case False
        then have "try_fold counter_byte ?c' rest = Inr (?c'\<lparr>rc_remaining_payload := ?l - length rest\<rparr>)"
          using payload_fold [of rest ?c'] by simp
        then show ?thesis using step False bs by (auto simp: framed_header counter_finish_def ensure_def)
      next
        case enough: True
        let ?d = "?c'\<lparr>rc_remaining_payload := 0\<rparr>"
        have "try_fold counter_byte ?c' (take ?l rest) = Inr ?d" using payload_fold [of "take ?l rest" ?c'] enough by simp
        then have "try_fold counter_byte ?c' rest = try_fold counter_byte ?d (drop ?l rest)"
          using try_fold_append [of counter_byte ?c' "take ?l rest" "drop ?l rest"] by simp
        moreover have "idle ?d" using less.prems True bs by (simp add: idle_def)
        moreover have "length (drop ?l rest) < length bs" using bs by simp
        ultimately show ?thesis
          using step less.hyps [of "drop ?l rest" ?d] True enough bs by (auto simp: framed_header Suc_diff_le less_eq_Suc_le)
      qed
    qed
  qed
qed

text \<open>The streaming count is the declarative one.\<close>

lemma count_stream_iff:
  "limit \<le> u64_max \<Longrightarrow> count_stream limit bs = Inr n \<longleftrightarrow> n \<le> limit \<and> framed n bs"
  using idle_count [of "counter_new limit" bs n]
  by (simp add: count_stream_def counter_update_fold idle_def counter_new_def counter_ok_def)

text \<open>Chunks: any way of cutting the stream gives the same counter.\<close>

lemma counter_chunks:
  "counter_ok c \<Longrightarrow> try_fold counter_update c chunks = counter_update c (concat chunks)"
proof (induction chunks arbitrary: c)
  case (Cons a chunks)
  then show ?case
    using counter_update_ok [of c a]
    by (cases "counter_update c a") (auto simp: counter_update_append)
qed (simp add: counter_update.simps)

end
