(* ===== verification/Archive_Stream.thy ===== *)
theory Archive_Stream
  imports Archive_Header Archive_Records
begin

text \<open>
  The archive as a whole: what the writer writes the reader accepts, handing the consumer
  exactly the chunks of the logical stream; what the reader accepts has no accepted proper
  prefix or extension; and a destination that fails holds a prefix of the archive.
\<close>

section \<open>Frames\<close>

definition frame_bytes :: "nat \<Rightarrow> byte \<Rightarrow> bytes \<Rightarrow> bytes \<Rightarrow> bytes" where
  "frame_bytes sequence kind nonce ciphertext =
     be_bytes 4 (length ciphertext) @ be_bytes 8 sequence @ [kind, 0] @ nonce @ ciphertext"

lemma write_all_Inr: "write_all bs s = (Inr u, s') \<Longrightarrow> sk_written s' = sk_written s @ bs"
  by (auto simp: write_all_def split: if_splits)

lemma write_frame_Inr:
  assumes "write_frame al random key i n kind p s = (Inr frame_size, s')" "aead_correct (al_crypto al)"
  shows "\<exists>nonce ct. random = Some nonce \<and> sk_written s' = sk_written s @ frame_bytes n kind nonce ct \<and>
    aead_decrypt (al_crypto al) key nonce (frame_aad i n kind (length ct)) ct = Some p \<and>
    length ct = length p + 16 \<and> frame_size = 38 + length ct \<and> length ct \<le> u32_max"
  using assms unfolding write_frame_def
  by (auto simp: guarded_Inr sbind_Inr result_simps u32_of_def frame_bytes_def aead_correct_def archive_bounds
      dest!: write_all_Inr split: if_splits)

lemma write_frame_room:
  assumes "length nonce = 24" "length ct = length p + 16" "length p + 16 \<le> u32_max" "38 + length ct \<le> sk_room k"
    and "aead_encrypt (al_crypto al) key nonce (frame_aad i n kind (length p + 16)) p = Some ct"
  shows "write_frame al (Some nonce) key i n kind p k =
    (Inr (38 + length ct), \<lparr>sk_written = sk_written k @ frame_bytes n kind nonce ct, sk_room = sk_room k - (38 + length ct)\<rparr>)"
  using assms by (simp add: write_frame_def u32_of_def guarded_def sbind_def write_all_def frame_bytes_def archive_bounds del: be_bytes.simps) arith

lemma read_frame_written:
  assumes "aead_decrypt (al_crypto al) key nonce (frame_aad i n kind (length ct)) ct = Some p"
    and "length nonce = 24" "n \<le> u64_max" "length ct = length p + 16" "length ct \<le> u32_max"
    and "length p \<le> (if kind = 2 then chunk else MAX_MANIFEST_BYTES)"
  shows "read_frame al key i n chunk (frame_bytes n kind nonce ct @ rest) = Inr ((kind, p, 38 + length ct), rest)"
proof -
  let ?h = "be_bytes 4 (length ct) @ be_bytes 8 n @ [kind, 0] @ nonce"
  have len: "length ?h = 38" using assms(2) by simp
  have split: "frame_bytes n kind nonce ct @ rest = ?h @ ct @ rest" by (simp add: frame_bytes_def)
  have "read_exact 38 (?h @ ct @ rest) = Inr (?h, ct @ rest)" using len by (simp add: read_exact_def del: be_bytes.simps)
  moreover have "read_exact (length ct) (ct @ rest) = Inr (ct, rest)" by (simp add: read_exact_def)
  moreover have "from_be (take 4 ?h) = length ct" "from_be (take 8 (drop 4 ?h)) = n" "?h ! 12 = kind" "?h ! 13 = 0"
    "take 24 (drop 14 ?h) = nonce"
    using assms(2,3,5) by (simp_all add: nth_append u32_max_def u64_max_def del: be_bytes.simps)
  ultimately show ?thesis
    unfolding split read_frame_def using assms by (simp add: archive_bounds Let_def del: be_bytes.simps)
qed

section \<open>The data frames\<close>

text \<open>What the writer's reads deliver, and a consumer fed with it.\<close>

fun stream_chunks :: "(unit + bytes) list \<Rightarrow> bytes list" where
  "stream_chunks (Inr data # reads) = (if data = [] then [] else data # stream_chunks reads)"
| "stream_chunks _ = []"

fun feed :: "(bytes \<Rightarrow> 's \<Rightarrow> (archive_error + unit) \<times> 's) \<Rightarrow> bytes list \<Rightarrow> 's \<Rightarrow> (archive_error + unit) \<times> 's" where
  "feed consume [] s = (Inr (), s)"
| "feed consume (b # bs) s = sbind (consume b) (\<lambda>_. feed consume bs) s"

definition nonces_ok :: "archive_entropy \<Rightarrow> bool" where
  "nonces_ok ent = (\<forall>n. is_none_or (\<lambda>b. length b = 24) (ae_frame_nonce ent n))"

lemma decode_data_frame:
  assumes "read_frame al dek i (st_sequence st) chunk source = Inr ((2, p, frame_size), source')"
    and "absorb p st = Inr st1" "checked_add_u64 (st_bytes st) frame_size = Some b"
    and "checked_add_u64 (st_sequence st) 1 = Some q" "checked_add_u64 (st_data_frames st) 1 = Some f"
  shows "decode_frames al dek i chunk consume st source s =
    sbind (consume p) (\<lambda>_. decode_frames al dek i chunk consume (st1\<lparr>st_bytes := b, st_sequence := q, st_data_frames := f\<rparr>) source') s"
proof -
  let ?st = "st\<lparr>st_bytes := b, st_sequence := q\<rparr>"
  have "absorb p ?st = Inr (st1\<lparr>st_bytes := b, st_sequence := q\<rparr>)" "st_data_frames st1 = st_data_frames st"
    using assms(2) by (auto simp: absorb_def result_simps)
  then show ?thesis
    using assms by (simp add: decode_frames.simps [of al dek i chunk consume st source s] guarded_def)
qed

lemma written_chunks_decode:
  assumes "aead_correct (al_crypto al)" "nonces_ok ent" "list_all (\<lambda>b. length b \<le> chunk) (stream_chunks reads)"
    and "write_chunks al ent dek reads st k = (Inr st', k')" "st_sequence st \<le> u64_max"
    and "counter_ok (st_counter st)" "st_logical_bytes st \<le> u64_max" "st_data_frames st \<le> u64_max"
  shows "\<exists>body. sk_written k' = sk_written k @ body \<and> st_bytes st' = st_bytes st + length body \<and>
    st_digest st' = st_digest st @ concat (stream_chunks reads) \<and> st_sequence st' \<le> u64_max \<and>
    st_sequence st' \<le> st_sequence st + length body \<and> st_data_frames st' \<le> u64_max \<and>
    st_logical_bytes st' \<le> u64_max \<and> st_logical_bytes st' = st_logical_bytes st + length (concat (stream_chunks reads)) \<and>
    counter_update (st_counter st) (concat (stream_chunks reads)) = Inr (st_counter st') \<and>
    (\<forall>rest s. decode_frames al dek (ae_archive_id ent) chunk consume st (body @ rest) s =
      sbind (feed consume (stream_chunks reads)) (\<lambda>_. decode_frames al dek (ae_archive_id ent) chunk consume st' rest) s)"
  using assms(3-8)
proof (induction reads arbitrary: st k rule: stream_chunks.induct)
  case (1 data reads)
  show ?case
  proof (cases "data = []")
    case True
    then show ?thesis using "1.prems" by (auto simp: sbind_def guarded_def counter_update.simps)
  next
    case False
    obtain st1 frame_size k1 b q f where abs: "absorb data st = Inr st1"
      and wf: "write_frame al (ae_frame_nonce ent (st_sequence st)) dek (ae_archive_id ent) (st_sequence st) 2 data k = (Inr frame_size, k1)"
      and adds: "checked_add_u64 (st_bytes st) frame_size = Some b" "checked_add_u64 (st_sequence st) 1 = Some q"
        "checked_add_u64 (st_data_frames st) 1 = Some f"
      and rest: "write_chunks al ent dek reads (st1\<lparr>st_bytes := b, st_sequence := q, st_data_frames := f\<rparr>) k1 = (Inr st', k')"
      using "1.prems"(2) False by (auto simp: guarded_Inr sbind_Inr result_simps absorb_def)
    let ?st = "st1\<lparr>st_bytes := b, st_sequence := q, st_data_frames := f\<rparr>"
    obtain nonce ct where fr: "ae_frame_nonce ent (st_sequence st) = Some nonce"
      "sk_written k1 = sk_written k @ frame_bytes (st_sequence st) 2 nonce ct"
      "aead_decrypt (al_crypto al) dek nonce (frame_aad (ae_archive_id ent) (st_sequence st) 2 (length ct)) ct = Some data"
      "length ct = length data + 16" "frame_size = 38 + length ct" "length ct \<le> u32_max"
      using write_frame_Inr [OF wf assms(1)] by blast
    have nonce: "length nonce = 24" using assms(2) fr(1) by (auto simp: nonces_ok_def is_none_or_def split: option.splits)
    have small: "list_all (\<lambda>b. length b \<le> chunk) (stream_chunks reads)" "length data \<le> chunk"
      using "1.prems"(1) False by simp_all
    have q: "st_sequence ?st \<le> u64_max" using adds(2) by (simp add: result_simps)
    have ab: "counter_update (st_counter st) data = Inr (st_counter st1)" "st_digest st1 = st_digest st @ data"
      "st_logical_bytes st1 = st_logical_bytes st + length data" "st_logical_bytes st1 \<le> u64_max"
      using abs by (auto simp: absorb_def result_simps)
    have fq: "f \<le> u64_max" "q = Suc (st_sequence st)" using adds(2,3) by (simp_all add: result_simps)
    obtain body where ih: "sk_written k' = sk_written k1 @ body" "st_bytes st' = b + length body"
      "st_digest st' = st_digest st1 @ concat (stream_chunks reads)" "st_sequence st' \<le> u64_max"
      "st_sequence st' \<le> q + length body" "st_data_frames st' \<le> u64_max" "st_logical_bytes st' \<le> u64_max"
      "st_logical_bytes st' = st_logical_bytes st1 + length (concat (stream_chunks reads))"
      "counter_update (st_counter st1) (concat (stream_chunks reads)) = Inr (st_counter st')"
      "\<And>rest s. decode_frames al dek (ae_archive_id ent) chunk consume ?st (body @ rest) s =
        sbind (feed consume (stream_chunks reads)) (\<lambda>_. decode_frames al dek (ae_archive_id ent) chunk consume st' rest) s"
      using "1.IH" [OF False small(1) rest q] ab(1) counter_update_ok [OF "1.prems"(4)] ab(4) fq(1) by auto
    let ?frame = "frame_bytes (st_sequence st) 2 nonce ct"
    have len: "length ?frame = frame_size" using fr(5) nonce by (simp add: frame_bytes_def)
    have dec: "decode_frames al dek (ae_archive_id ent) chunk consume st (?frame @ body @ rest) s =
        sbind (feed consume (stream_chunks (Inr data # reads))) (\<lambda>_. decode_frames al dek (ae_archive_id ent) chunk consume st' rest) s" for rest s
      using decode_data_frame [OF read_frame_written [OF fr(3) nonce "1.prems"(3) fr(4,6), of chunk "body @ rest"] abs adds [unfolded fr(5)], of consume s]
        small(2) False ih(10) fr(5)
      by (auto simp: sbind_def guarded_def split: prod.splits sum.splits)
    moreover have "counter_update (st_counter st) (concat (stream_chunks (Inr data # reads))) = Inr (st_counter st')"
      using counter_update_append [OF "1.prems"(4), of data] ab(1) ih(9) False by simp
    ultimately show ?thesis
      using ih(1-8) ab(2,3) fr(2,5) fq(2) len adds(1) False
      by (intro exI [of _ "?frame @ body"]) (simp add: result_simps del: feed.simps)
  qed
qed (auto simp: sbind_def guarded_def counter_update.simps)

section \<open>The header and the manifests\<close>

definition archive_entropy_ok :: "archive_entropy \<Rightarrow> bool" where
  "archive_entropy_ok ent = (length (ae_archive_id ent) = 16 \<and> is_none_or (\<lambda>b. length b = 16) (ae_salt ent) \<and>
     is_none_or (\<lambda>b. length b = 24) (ae_wrap_nonce ent) \<and> is_none_or (\<lambda>b. length b = 32) (ae_dek ent) \<and> nonces_ok ent)"

lemma prefix_ignores_dek [simp]: "encode_header_prefix (h\<lparr>ph_wrapped_dek := w\<rparr>) = encode_header_prefix h"
  by (simp add: encode_header_prefix_def)

lemma wrapping_ignores_dek [simp]: "derive_wrapping_key al key (h\<lparr>ph_wrapped_dek := w\<rparr>) = derive_wrapping_key al key h"
  by (cases key; cases "ph_key_mode h"; simp add: derive_wrapping_key_def)

lemma select_mode_Inr:
  "select_mode key salt p = Inr (mode, s, a) \<Longrightarrow> is_none_or (\<lambda>b. length b = 16) salt \<Longrightarrow>
   mode = PassphraseArgon2id \<and> length s = 16 \<and> a = Some p \<or> mode = RecoveryKeyMode \<and> s = [] \<and> a = None"
  by (cases key) (auto simp: result_simps is_none_or_def)

lemma new_header_Inr:
  assumes "new_header al ent key p = Inr (h, dek)" "aead_correct (al_crypto al)" "archive_entropy_ok ent"
  shows "header_ok h \<and> unwrap_dek al key h = Inr dek \<and> ph_archive_id h = ae_archive_id ent \<and>
    ph_chunk_bytes h = ao_chunk_bytes p \<and> ph_record_limit h = ao_record_limit p"
proof -
  obtain mode salt a nonce where sel: "validate_options p = Inr ()" "select_mode key (ae_salt ent) (ao_argon2 p) = Inr (mode, salt, a)"
    and rnd: "ae_wrap_nonce ent = Some nonce"
    using assms(1) unfolding new_header_def by (auto simp: result_simps)
  define h0 where "h0 = \<lparr>ph_archive_id = ae_archive_id ent, ph_key_mode = mode, ph_salt = salt, ph_argon2 = a,
     ph_chunk_bytes = ao_chunk_bytes p, ph_record_limit = ao_record_limit p, ph_wrap_nonce = nonce,
     ph_wrapped_dek = replicate 48 0\<rparr>"
  have upd: "\<lparr>ph_archive_id = ae_archive_id ent, ph_key_mode = mode, ph_salt = salt, ph_argon2 = a,
     ph_chunk_bytes = ao_chunk_bytes p, ph_record_limit = ao_record_limit p, ph_wrap_nonce = nonce,
     ph_wrapped_dek = w\<rparr> = h0\<lparr>ph_wrapped_dek := w\<rparr>" for w
    by (simp add: h0_def)
  obtain wk prefix w where dek: "ae_dek ent = Some dek" and h: "h = h0\<lparr>ph_wrapped_dek := w\<rparr>"
    and keys: "derive_wrapping_key al key h0 = Inr wk" "encode_header_prefix h0 = Inr prefix"
      "aead_encrypt (al_crypto al) wk nonce prefix dek = Some w" "length w = 48"
    using assms(1) sel rnd unfolding new_header_def
    by (auto simp: result_simps Let_def archive_bounds upd h0_def [symmetric])
  have "length nonce = 24" "length dek = 32" "length (ae_archive_id ent) = 16"
    using rnd dek assms(3) by (simp_all add: archive_entropy_ok_def is_none_or_def)
  moreover have "unwrap_dek al key h = Inr dek"
    using keys assms(2) h \<open>length dek = 32\<close> by (simp add: unwrap_dek_def aead_correct_def) (simp add: h0_def)
  ultimately show ?thesis
    using select_mode_Inr [OF sel(2)] sel(1) assms(3) h keys(4)
    by (auto simp: header_ok_def validate_options_def result_simps archive_entropy_ok_def h0_def)
qed

lemma encoded_length:
  "encode_public_header h = Inr bs \<Longrightarrow> header_ok h \<Longrightarrow> length bs = 126 + length (ph_salt h)"
  using encode_header_bytes [of h bs] by (auto simp: header_ok_def header_bytes_def simp del: be_bytes.simps)

lemma read_header_encoded:
  assumes "encode_public_header h = Inr bs" "header_ok h" "all_bytes \<le> MAX_ARCHIVE_BYTES"
  shows "read_header (bs @ rest) all_bytes = Inr (h, length bs, rest)"
proof -
  have len: "length bs = 126 + length (ph_salt h)" "length (ph_salt h) \<le> 32"
    using encoded_length [OF assms(1,2)] assms(2) by (auto simp: header_ok_def split: key_mode.splits)
  have "parse_public_header bs all_bytes = Inr h" using parse_encoded [OF assms(2,3,1), of "[]"] by simp
  moreover have "from_be [bs ! 14, bs ! 15] = 126 + length (ph_salt h)"
  proof -
    obtain p :: argon2_parameters where "bs = header_bytes h (memory_kib p) (iterations p) (lanes p)"
      using encode_header_bytes [OF assms(1)] by blast
    then have bs: "bs = header_bytes h (memory_kib p) (iterations p) (lanes p) @ []" by simp
    have "length (ph_archive_id h) = 16" using assms(2) by (simp add: header_ok_def)
    then have "read_uint 2 bs 14 = Inr (126 + length (ph_salt h))"
      using header_fields(6) [OF _ bs] len(2) by simp
    moreover have "take 2 (drop 14 bs) = [bs ! 14, bs ! 15]"
      using len(1) by (simp add: numeral_2_eq_2 take_Suc hd_drop_conv_nth tl_drop drop_Suc [symmetric])
    ultimately show ?thesis by (simp add: read_uint_iff)
  qed
  ultimately show ?thesis
    using len assms(3) by (simp add: read_header_def read_exact_def Let_def archive_bounds)
qed

text \<open>What the JSON package promises for values of the manifests' types.\<close>

definition metadata_typed :: "archive_metadata \<Rightarrow> bool" where
  "metadata_typed m = (length (am_logical_vault_id m) = 16 \<and> length (am_source_installation_id m) = 16 \<and>
     am_source_recovery_epoch m \<le> u64_max \<and> am_source_schema_version m \<le> u32_max \<and>
     am_security_semantics_version m \<le> u32_max \<and> i64_min \<le> am_created_at m \<and> am_created_at m \<le> i64_max)"

definition final_typed :: "final_manifest \<Rightarrow> bool" where
  "final_typed f = (fm_record_count f \<le> u64_max \<and> fm_logical_bytes f \<le> u64_max \<and> length (fm_logical_digest f) = 32 \<and>
     fm_data_frames f \<le> u64_max)"

definition json_correct :: "archive_lib \<Rightarrow> bool" where
  "json_correct al = ((\<forall>m. metadata_typed m \<longrightarrow> al_metadata_from_json al (al_metadata_to_json al m) = Some m) \<and>
     (\<forall>f. final_typed f \<longrightarrow> al_final_from_json al (al_final_to_json al f) = Some f \<and>
        length (al_final_to_json al f) \<le> MAX_MANIFEST_BYTES))"

section \<open>The archive round trips\<close>

lemma decode_final_frame:
  assumes "read_frame al dek i (st_sequence st) chunk source = Inr ((3, p, frame_size), source')"
    and "st_bytes st + frame_size \<le> u64_max" "Suc (st_sequence st) \<le> u64_max" "length p \<le> MAX_MANIFEST_BYTES"
    and "al_final_from_json al p = Some final"
  shows "decode_frames al dek i chunk consume st source s =
    (Inr (final, st\<lparr>st_bytes := st_bytes st + frame_size, st_sequence := Suc (st_sequence st)\<rparr>, source'), s)"
  using assms by (simp add: decode_frames.simps [of al dek i chunk consume st source s] guarded_def checked_add_u64_def)

lemma nonce_length: "nonces_ok ent \<Longrightarrow> ae_frame_nonce ent n = Some b \<Longrightarrow> length b = 24"
  by (auto simp: nonces_ok_def is_none_or_def split: option.splits)

lemma guarded_Pair [simp]: "guarded m (\<lambda>x. Pair (f x)) s = (rbind m f, s)"
  by (cases m) (simp_all add: guarded_def)

lemma read_manifest_written:
  assumes "aead_decrypt (al_crypto al) dek n (frame_aad (ph_archive_id h) 0 1 (length ct)) ct = Some (al_metadata_to_json al md)"
    and "length n = 24" "length ct = length (al_metadata_to_json al md) + 16" "length ct \<le> u32_max"
    and "length (al_metadata_to_json al md) \<le> MAX_MANIFEST_BYTES" "json_correct al" "metadata_typed md"
    and "header_len + (38 + length ct) \<le> u64_max"
  shows "read_manifest al dek h header_len (frame_bytes 0 1 n ct @ rest) = Inr (md, header_len + (38 + length ct), rest)"
  using read_frame_written [OF assms(1,2) _ assms(3,4), of "ph_chunk_bytes h" rest] assms
  by (simp add: read_manifest_def checked_add_u64_def json_correct_def)

text \<open>The parts of a written archive.\<close>

definition archive_parts :: "archive_lib \<Rightarrow> archive_entropy \<Rightarrow> (unit + bytes) list \<Rightarrow> archive_key \<Rightarrow> archive_metadata \<Rightarrow> archive_options \<Rightarrow>
    archive_summary \<Rightarrow> public_header \<Rightarrow> bytes \<Rightarrow> bytes \<Rightarrow> sink \<Rightarrow> stream_state \<Rightarrow> sink \<Rightarrow> sink \<Rightarrow> bool" where
  "archive_parts al ent reads key md p summary header dek encoded k2 st k3 k =
     (header_ok header \<and> unwrap_dek al key header = Inr dek \<and> encode_public_header header = Inr encoded \<and>
      ph_archive_id header = ae_archive_id ent \<and> ph_chunk_bytes header = ao_chunk_bytes p \<and> ph_record_limit header = ao_record_limit p \<and>
      (\<exists>n ct. sk_written k2 = encoded @ frame_bytes 0 1 n ct \<and> length n = 24 \<and> length ct \<le> u32_max \<and>
        aead_decrypt (al_crypto al) dek n (frame_aad (ae_archive_id ent) 0 1 (length ct)) ct = Some (al_metadata_to_json al md) \<and>
        length ct = length (al_metadata_to_json al md) + 16 \<and> length (al_metadata_to_json al md) \<le> MAX_MANIFEST_BYTES \<and>
        length encoded + (38 + length ct) \<le> u64_max \<and>
        write_chunks al ent dek reads (start_state (ao_record_limit p) (length encoded + (38 + length ct))) k2 = (Inr st, k3)) \<and>
      counter_finish (st_counter st) = Inr (as_record_count summary) \<and> as_archive_id summary = ae_archive_id ent \<and>
      (\<exists>n ct. sk_written k = sk_written k3 @ frame_bytes (st_sequence st) 3 n ct \<and> length n = 24 \<and> length ct \<le> u32_max \<and>
        aead_decrypt (al_crypto al) dek n (frame_aad (ae_archive_id ent) (st_sequence st) 3 (length ct)) ct =
          Some (al_final_to_json al (final_of al (as_record_count summary) st)) \<and>
        length ct = length (al_final_to_json al (final_of al (as_record_count summary) st)) + 16 \<and>
        as_archive_bytes summary = st_bytes st + (38 + length ct)))"

lemma write_archive_parts:
  assumes "write_archive al ent reads key md p \<lparr>sk_written = [], sk_room = room\<rparr> = (Inr summary, k)"
    and "aead_correct (al_crypto al)" "archive_entropy_ok ent"
  shows "\<exists>header dek encoded k2 st k3. archive_parts al ent reads key md p summary header dek encoded k2 st k3 k"
proof -
  let ?i = "ae_archive_id ent"
  obtain header dek encoded k1 sz1 k2 st k3 records sz2 where
    head: "new_header al ent key p = Inr (header, dek)" "encode_public_header header = Inr encoded"
    and w1: "write_all encoded \<lparr>sk_written = [], sk_room = room\<rparr> = (Inr (), k1)" "length (al_metadata_to_json al md) \<le> MAX_MANIFEST_BYTES"
    and f1: "write_frame al (ae_frame_nonce ent 0) dek ?i 0 1 (al_metadata_to_json al md) k1 = (Inr sz1, k2)"
    and w2: "write_chunks al ent dek reads (start_state (ao_record_limit p) (length encoded + sz1)) k2 = (Inr st, k3)"
    and fin: "counter_finish (st_counter st) = Inr records" "length encoded + sz1 \<le> u64_max"
    and f3: "write_frame al (ae_frame_nonce ent (st_sequence st)) dek ?i (st_sequence st) 3 (al_final_to_json al (final_of al records st)) k3 = (Inr sz2, k)"
    and sm: "summary = \<lparr>as_archive_id = ?i, as_archive_bytes = st_bytes st + sz2, as_record_count = records,
          as_logical_bytes = st_logical_bytes st\<rparr>"
    using assms(1) unfolding write_archive_def
    by (auto simp: guarded_Inr sbind_Inr result_simps Let_def)
  obtain n1 ct1 where r1: "ae_frame_nonce ent 0 = Some n1" "sk_written k2 = encoded @ frame_bytes 0 1 n1 ct1"
      "aead_decrypt (al_crypto al) dek n1 (frame_aad ?i 0 1 (length ct1)) ct1 = Some (al_metadata_to_json al md)"
      "length ct1 = length (al_metadata_to_json al md) + 16" "sz1 = 38 + length ct1" "length ct1 \<le> u32_max"
    using write_frame_Inr [OF f1 assms(2)] write_all_Inr [OF w1(1)] by auto
  obtain n3 ct3 where r3: "ae_frame_nonce ent (st_sequence st) = Some n3" "sk_written k = sk_written k3 @ frame_bytes (st_sequence st) 3 n3 ct3"
      "aead_decrypt (al_crypto al) dek n3 (frame_aad ?i (st_sequence st) 3 (length ct3)) ct3 = Some (al_final_to_json al (final_of al records st))"
      "length ct3 = length (al_final_to_json al (final_of al records st)) + 16" "sz2 = 38 + length ct3" "length ct3 \<le> u32_max"
    using write_frame_Inr [OF f3 assms(2)] by blast
  have n: "length n1 = 24" "length n3 = 24"
    using r1(1) r3(1) assms(3) nonce_length by (auto simp: archive_entropy_ok_def)
  have sums: "as_record_count summary = records" "as_archive_id summary = ?i" "as_archive_bytes summary = st_bytes st + (38 + length ct3)"
    using sm r3(5) by simp_all
  have "archive_parts al ent reads key md p summary header dek encoded k2 st k3 k"
    unfolding archive_parts_def sums(1)
    using new_header_Inr [OF head(1) assms(2,3)] head(2) r1(2-4,6) r3(2-4,6) n sums(2,3) w1(2) w2 [unfolded r1(5)] fin [unfolded r1(5)]
    by blast
  then show ?thesis by blast
qed

lemma sbind_pure:
  "m s = sbind f (\<lambda>_. Pair (Inr x)) s \<Longrightarrow> g x = Inr y \<Longrightarrow>
   sbind m (\<lambda>r. guarded (g r) (\<lambda>x. Pair (Inr x))) s = sbind f (\<lambda>_. Pair (Inr y)) s"
  by (auto simp: sbind_def guarded_def rbind_eq_Inr rbind_eq_Inl split: prod.splits sum.splits)

text \<open>The reader on what the writer wrote: the consumer is fed the chunks of the stream; unless
  it refuses one, the archive is verified with the writer's metadata and totals.\<close>

lemma written_archive_decodes:
  assumes "aead_correct (al_crypto al)" "json_correct al" "digest_correct (al_crypto al)" "archive_entropy_ok ent" "metadata_typed md"
    and "list_all (\<lambda>b. length b \<le> ao_chunk_bytes p) (stream_chunks reads)"
    and "write_archive al ent reads key md p \<lparr>sk_written = [], sk_room = room\<rparr> = (Inr summary, k)"
    and "as_archive_bytes summary \<le> MAX_ARCHIVE_BYTES"
  shows "length (sk_written k) = as_archive_bytes summary \<and> framed (as_record_count summary) (concat (stream_chunks reads)) \<and>
    (\<exists>header. header_ok header \<and> ph_archive_id header = as_archive_id summary \<and>
      decode_archive al (sk_written k) (length (sk_written k)) key consume s =
        sbind (feed consume (stream_chunks reads)) (\<lambda>_. Pair (Inr \<lparr>va_header = header, va_metadata = md,
          va_record_count = as_record_count summary, va_logical_bytes = length (concat (stream_chunks reads)),
          va_logical_digest = sha256 (al_crypto al) (concat (stream_chunks reads))\<rparr>)) s)"
proof -
  let ?i = "ae_archive_id ent" and ?chunks = "stream_chunks reads" and ?n = "as_record_count summary"
  obtain header dek encoded k2 st k3 where parts: "archive_parts al ent reads key md p summary header dek encoded k2 st k3 k"
    using write_archive_parts [OF assms(7,1,4)] by blast
  then obtain n1 ct1 n3 ct3 where
    head: "header_ok header" "unwrap_dek al key header = Inr dek" "encode_public_header header = Inr encoded" "ph_archive_id header = ?i"
      "ph_chunk_bytes header = ao_chunk_bytes p" "ph_record_limit header = ao_record_limit p"
    and r1: "sk_written k2 = encoded @ frame_bytes 0 1 n1 ct1" "length n1 = 24" "length ct1 \<le> u32_max"
      "aead_decrypt (al_crypto al) dek n1 (frame_aad ?i 0 1 (length ct1)) ct1 = Some (al_metadata_to_json al md)"
      "length ct1 = length (al_metadata_to_json al md) + 16" "length (al_metadata_to_json al md) \<le> MAX_MANIFEST_BYTES"
      "length encoded + (38 + length ct1) \<le> u64_max"
    and w: "write_chunks al ent dek reads (start_state (ao_record_limit p) (length encoded + (38 + length ct1))) k2 = (Inr st, k3)"
    and fin: "counter_finish (st_counter st) = Inr ?n" "as_archive_id summary = ?i"
    and r3: "sk_written k = sk_written k3 @ frame_bytes (st_sequence st) 3 n3 ct3" "length n3 = 24" "length ct3 \<le> u32_max"
      "aead_decrypt (al_crypto al) dek n3 (frame_aad ?i (st_sequence st) 3 (length ct3)) ct3 = Some (al_final_to_json al (final_of al ?n st))"
      "length ct3 = length (al_final_to_json al (final_of al ?n st)) + 16" "as_archive_bytes summary = st_bytes st + (38 + length ct3)"
    unfolding archive_parts_def by blast
  obtain body where b: "sk_written k3 = sk_written k2 @ body" "st_bytes st = length encoded + (38 + length ct1) + length body"
      "st_digest st = concat ?chunks" "st_sequence st \<le> Suc (length body)" "st_data_frames st \<le> u64_max"
      "st_logical_bytes st \<le> u64_max" "st_logical_bytes st = length (concat ?chunks)"
      "counter_update (counter_new (ao_record_limit p)) (concat ?chunks) = Inr (st_counter st)"
      "\<And>rest s. decode_frames al dek ?i (ao_chunk_bytes p) consume (start_state (ao_record_limit p) (length encoded + (38 + length ct1))) (body @ rest) s =
        sbind (feed consume ?chunks) (\<lambda>_. decode_frames al dek ?i (ao_chunk_bytes p) consume st rest) s"
    using written_chunks_decode [OF assms(1) _ assms(6) w, of consume] assms(4)
    by (auto simp: start_state_def u64_max_def archive_entropy_ok_def)
  have limit: "ao_record_limit p \<le> u64_max" using head(1,6) by (auto simp: header_ok_def chunk_bounded_def archive_bounds u64_max_def)
  have count: "?n \<le> ao_record_limit p" "framed ?n (concat ?chunks)"
    using count_stream_iff [OF limit, of "concat ?chunks" ?n] b(8) fin(1) by (simp_all add: count_stream_def)
  have "final_typed (final_of al ?n st)"
    using assms(3) count(1) limit b(5,6) by (simp add: final_typed_def final_of_def digest_correct_def)
  then have json: "al_final_from_json al (al_final_to_json al (final_of al ?n st)) = Some (final_of al ?n st)"
      "length (al_final_to_json al (final_of al ?n st)) \<le> MAX_MANIFEST_BYTES"
    using assms(2) by (simp_all add: json_correct_def)
  let ?f1 = "frame_bytes 0 1 n1 ct1" and ?f3 = "frame_bytes (st_sequence st) 3 n3 ct3"
  have all: "sk_written k = encoded @ ?f1 @ body @ ?f3" using r1(1) b(1) r3(1) by simp
  have len: "length (sk_written k) = as_archive_bytes summary"
    using all r1(2) r3(2,6) b(2) by (simp add: frame_bytes_def)
  have small: "Suc (st_sequence st) \<le> u64_max" "st_sequence st \<le> u64_max" "st_bytes st + (38 + length ct3) \<le> u64_max"
    using b(2,4) r3(6) assms(8) by (simp_all add: archive_bounds u64_max_def)
  have "decode_frames al dek ?i (ao_chunk_bytes p) consume st ?f3 s =
      (Inr (final_of al ?n st, st\<lparr>st_bytes := as_archive_bytes summary, st_sequence := Suc (st_sequence st)\<rparr>, []), s)" for s
    using decode_final_frame [OF read_frame_written [OF r3(4,2) small(2) r3(5,3), of "ao_chunk_bytes p" "[]"] small(3,1) json(2,1)] json(2) r3(6)
    by simp
  then have frames: "decode_frames al dek ?i (ao_chunk_bytes p) consume (start_state (ao_record_limit p) (length encoded + (38 + length ct1)))
      (body @ ?f3) s = sbind (feed consume ?chunks) (\<lambda>_. Pair (Inr (final_of al ?n st,
        st\<lparr>st_bytes := as_archive_bytes summary, st_sequence := Suc (st_sequence st)\<rparr>, []))) s"
    using b(9) [of ?f3 s] by (simp add: sbind_def guarded_def split: prod.splits sum.splits)
  have man: "read_manifest al dek header (length encoded) (?f1 @ body @ ?f3) = Inr (md, length encoded + (38 + length ct1), body @ ?f3)"
    using r1 assms(2,5) head(4) by (intro read_manifest_written) simp_all
  have hdr: "read_header (sk_written k) (length (sk_written k)) = Inr (header, length encoded, ?f1 @ body @ ?f3)"
    using read_header_encoded [OF head(3,1)] assms(8) len all by simp
  have "decode_archive al (sk_written k) (length (sk_written k)) key consume s =
        sbind (feed consume ?chunks) (\<lambda>_. Pair (Inr \<lparr>va_header = header, va_metadata = md,
          va_record_count = ?n, va_logical_bytes = length (concat ?chunks),
          va_logical_digest = sha256 (al_crypto al) (concat ?chunks)\<rparr>)) s"
    using hdr head man fin(1) b(3,7) len
    by (simp add: decode_archive_def guarded_def [of "Inr _"], intro sbind_pure, simp add: frames)
       (simp add: check_final_def final_of_def)
  then show ?thesis using len count(2) head(1,4) fin(2) by auto
qed

section \<open>An accepted archive is exact\<close>

lemma read_exact_append: "read_exact n source = Inr (a, b) \<Longrightarrow> read_exact n (source @ x) = Inr (a, b @ x)"
  by (auto simp: read_exact_def split: if_splits)

lemma read_frame_append:
  assumes "read_frame al key i n chunk source = Inr (r, source')"
  shows "read_frame al key i n chunk (source @ x) = Inr (r, source' @ x)"
proof -
  obtain h s1 where h: "read_exact FRAME_HEADER_BYTES source = Inr (h, s1)"
    using assms by (cases "read_exact FRAME_HEADER_BYTES source") (auto simp: read_frame_def)
  obtain ct s2 where ct: "read_exact (from_be (take 4 h)) s1 = Inr (ct, s2)"
    using assms h by (cases "read_exact (from_be (take 4 h)) s1") (auto simp: read_frame_def Let_def result_simps)
  show ?thesis
    using assms h ct read_exact_append [OF h, of x] read_exact_append [OF ct, of x]
    by (auto simp: read_frame_def Let_def result_simps)
qed

lemma absorb_bytes: "absorb p st = Inr st' \<Longrightarrow> st_bytes st' = st_bytes st"
  by (auto simp: absorb_def result_simps)

lemma decode_frames_append:
  "decode_frames al dek i chunk consume st source s = (Inr (final, st', source'), s') \<Longrightarrow>
   decode_frames al dek i chunk consume st (source @ x) s = (Inr (final, st', source' @ x), s') \<and>
   st_bytes st' + length source' = st_bytes st + length source"
proof (induction al dek i chunk consume st source s rule: decode_frames.induct)
  case (1 al dek i chunk consume st source s)
  obtain kind p fs src b q where fr: "read_frame al dek i (st_sequence st) chunk source = Inr ((kind, p, fs), src)"
    and adds: "checked_add_u64 (st_bytes st) fs = Some b" "checked_add_u64 (st_sequence st) 1 = Some q"
    using "1.prems" by (subst (asm) decode_frames.simps) (auto simp: guarded_Inr result_simps split: sum.splits)
  have ext: "read_frame al dek i (st_sequence st) chunk (source @ x) = Inr ((kind, p, fs), src @ x)"
    using fr by (rule read_frame_append)
  have sz: "b + length src = st_bytes st + length source"
    using read_frame_shorter [OF fr] adds(1) by (auto simp: result_simps)
  let ?st = "st\<lparr>st_bytes := b, st_sequence := q\<rparr>"
  show ?case
  proof (cases "kind = 2")
    case True
    obtain st3 s1 where st3: "rbind (absorb p ?st) (\<lambda>st2. rbind (ok_or InvalidBound (checked_add_u64 (st_data_frames st2) 1)) (\<lambda>f.
        Inr (st2\<lparr>st_data_frames := f\<rparr>))) = Inr st3"
      and c: "consume p s = (Inr (), s1)" and rec: "decode_frames al dek i chunk consume st3 src s1 = (Inr (final, st', source'), s')"
      using "1.prems" fr adds True by (subst (asm) decode_frames.simps) (auto simp: guarded_Inr sbind_Inr)
    have "st_bytes st3 = b" using st3 by (auto simp: result_simps dest!: absorb_bytes)
    then show ?thesis
      using "1.IH" [OF fr refl refl refl True rec] adds c sz st3 ext True
      by (subst decode_frames.simps) (simp add: guarded_def sbind_def)
  next
    case False
    then have "kind = 3" "length p \<le> MAX_MANIFEST_BYTES" "al_final_from_json al p = Some final" "st' = ?st" "source' = src" "s' = s"
      using "1.prems" fr adds
      by (subst (asm) decode_frames.simps, simp add: guarded_def rbind_eq_Inr ensure_eq_Inr ok_or_eq_Inr split: if_splits)+
    then show ?thesis
      using adds sz ext by (subst decode_frames.simps) (simp add: guarded_def)
  qed
qed

lemma parse_header_bytes: "parse_public_header bs m = Inr h \<Longrightarrow> n \<le> MAX_ARCHIVE_BYTES \<Longrightarrow> parse_public_header bs n = Inr h"
  by (simp add: parse_public_header_def ensure_def split: if_splits)

lemma read_header_append:
  assumes "read_header source m = Inr (h, k, source')" "n \<le> MAX_ARCHIVE_BYTES"
  shows "read_header (source @ x) n = Inr (h, k, source' @ x) \<and> k + length source' = length source"
proof -
  obtain a s1 where a: "read_exact 16 source = Inr (a, s1)"
    using assms(1) by (cases "read_exact 16 source") (auto simp: read_header_def result_simps)
  obtain b s2 where b: "read_exact (from_be [a ! 14, a ! 15] - 16) s1 = Inr (b, s2)"
    using assms(1) a by (cases "read_exact (from_be [a ! 14, a ! 15] - 16) s1") (auto simp: read_header_def Let_def result_simps)
  have parts: "parse_public_header (a @ b) m = Inr h" "k = from_be [a ! 14, a ! 15]" "source' = s2"
      "126 \<le> k" "k \<le> 256"
    using assms(1) a b by (auto simp: read_header_def Let_def result_simps archive_bounds)
  have "k + length s2 = length source"
    using a b parts(2,4) by (auto simp: read_exact_def split: if_splits)
  then show ?thesis
    using read_exact_append [OF a, of x] read_exact_append [OF b, of x] parse_header_bytes [OF parts(1) assms(2)] parts assms(2)
    by (simp add: read_header_def Let_def archive_bounds)
qed

lemma read_manifest_append:
  assumes "read_manifest al dek h k source = Inr (md, n, source')"
  shows "read_manifest al dek h k (source @ x) = Inr (md, n, source' @ x) \<and> n + length source' = k + length source"
proof -
  obtain kind p fs s1 where f: "read_frame al dek (ph_archive_id h) 0 (ph_chunk_bytes h) source = Inr ((kind, p, fs), s1)"
    using assms by (cases "read_frame al dek (ph_archive_id h) 0 (ph_chunk_bytes h) source") (auto simp: read_manifest_def)
  show ?thesis
    using assms f read_frame_append [OF f, of x] read_frame_shorter [OF f] by (auto simp: read_manifest_def result_simps)
qed

text \<open>The archive is accepted only with its own length, and nothing may follow it.\<close>

lemma accepted_exact:
  assumes "decode_archive al bs m key consume s = (Inr v, s')"
  shows "m = length bs \<and> (x \<noteq> [] \<longrightarrow> (\<exists>e s''. decode_archive al (bs @ x) n key consume s = (Inl e, s'')))"
proof -
  obtain h k src dek md c src2 final st src3 where parts: "read_header bs m = Inr (h, k, src)" "unwrap_dek al key h = Inr dek"
      "read_manifest al dek h k src = Inr (md, c, src2)"
      "decode_frames al dek (ph_archive_id h) (ph_chunk_bytes h) consume (start_state (ph_record_limit h) c) src2 s = (Inr (final, st, src3), s')"
      "st_bytes st = m" "src3 = []"
    using assms unfolding decode_archive_def by (auto simp: guarded_Inr sbind_Inr check_final_def result_simps)
  note frames = decode_frames_append [OF parts(4)]
  have "m \<le> MAX_ARCHIVE_BYTES" using parts(1) by (auto simp: read_header_def result_simps)
  then have m: "m = length bs"
    using frames parts(5,6) read_manifest_append [OF parts(3)] read_header_append [OF parts(1)]
    by (simp add: start_state_def)
  have "\<exists>e s''. decode_archive al (bs @ x) n key consume s = (Inl e, s'')" if "x \<noteq> []"
  proof (cases "n \<le> MAX_ARCHIVE_BYTES")
    case True
    have "check_final al h md n (final, st, x) = Inl Integrity" using that by (simp add: check_final_def ensure_def)
    then show ?thesis
      using frames [of x] parts(2,6) read_manifest_append [OF parts(3), of x] read_header_append [OF parts(1) True, of x]
      by (simp add: decode_archive_def guarded_def sbind_def)
  qed (simp add: decode_archive_def read_header_def guarded_def)
  then show ?thesis using m by blast
qed

end
