(* ===== verification/Archive_Properties.thy ===== *)
theory Archive_Properties
  imports Archive_Stream Sample_Crypto
begin

text \<open>
  The promises of the archive format, with a small archive written and read as witness.
\<close>

section \<open>A sample archive\<close>

definition sample_metadata_json :: "archive_metadata \<Rightarrow> bytes" where
  "sample_metadata_json m = am_logical_vault_id m @ am_source_installation_id m @ be_bytes 8 (am_source_recovery_epoch m) @
     be_bytes 4 (am_source_schema_version m) @ be_bytes 4 (am_security_semantics_version m) @
     be_bytes 8 (nat (am_created_at m - i64_min))"

definition sample_metadata_parse :: "bytes \<Rightarrow> archive_metadata option" where
  "sample_metadata_parse b = Some \<lparr>am_logical_vault_id = take 16 b, am_source_installation_id = take 16 (drop 16 b),
     am_source_recovery_epoch = from_be (take 8 (drop 32 b)), am_source_schema_version = from_be (take 4 (drop 40 b)),
     am_security_semantics_version = from_be (take 4 (drop 44 b)),
     am_created_at = int (from_be (take 8 (drop 48 b))) + i64_min\<rparr>"

definition sample_final_json :: "final_manifest \<Rightarrow> bytes" where
  "sample_final_json f = be_bytes 8 (fm_record_count f) @ be_bytes 8 (fm_logical_bytes f) @ fm_logical_digest f @
     be_bytes 8 (fm_data_frames f)"

definition sample_final_parse :: "bytes \<Rightarrow> final_manifest option" where
  "sample_final_parse b = Some \<lparr>fm_record_count = from_be (take 8 b), fm_logical_bytes = from_be (take 8 (drop 8 b)),
     fm_logical_digest = take 32 (drop 16 b), fm_data_frames = from_be (take 8 (drop 48 b))\<rparr>"

definition sample_archive_lib :: archive_lib where
  "sample_archive_lib = \<lparr>al_crypto = sample_lib, al_argon2 = (\<lambda>m i l p s. Some (replicate 32 0)),
     al_metadata_to_json = sample_metadata_json, al_metadata_from_json = sample_metadata_parse,
     al_final_to_json = sample_final_json, al_final_from_json = sample_final_parse\<rparr>"

lemma sample_archive_lib_sel [simp]:
  "al_crypto sample_archive_lib = sample_lib" "al_metadata_to_json sample_archive_lib = sample_metadata_json"
  "al_final_to_json sample_archive_lib = sample_final_json"
  by (simp_all add: sample_archive_lib_def)

lemma sample_json: "json_correct sample_archive_lib"
proof -
  have "sample_metadata_parse (sample_metadata_json m) = Some m" if "metadata_typed m" for m
    using that from_be_be_bytes [of "nat (am_created_at m + 9223372036854775808)" 8]
    by (simp add: metadata_typed_def nat_less_iff sample_metadata_json_def sample_metadata_parse_def u64_max_def u32_max_def i64_max_def i64_min_def
        del: be_bytes.simps)
  moreover have "sample_final_parse (sample_final_json f) = Some f" "length (sample_final_json f) \<le> MAX_MANIFEST_BYTES"
    if "final_typed f" for f
    using that by (simp_all add: final_typed_def sample_final_json_def sample_final_parse_def u64_max_def MAX_MANIFEST_BYTES_def
        del: be_bytes.simps)
  ultimately show ?thesis by (simp add: json_correct_def sample_archive_lib_def)
qed

lemma sample_digest_correct: "digest_correct sample_lib"
  by (simp add: digest_correct_def sample_lib_def)

definition sample_archive_entropy :: archive_entropy where
  "sample_archive_entropy = \<lparr>ae_archive_id = replicate 16 7, ae_salt = Some (replicate 16 1), ae_wrap_nonce = Some (replicate 24 2),
     ae_dek = Some (replicate 32 3), ae_frame_nonce = (\<lambda>n. Some (replicate 24 4))\<rparr>"

lemma sample_archive_entropy_ok: "archive_entropy_ok sample_archive_entropy"
  by (simp add: archive_entropy_ok_def nonces_ok_def is_none_or_def sample_archive_entropy_def)

definition sample_archive_metadata :: archive_metadata where
  "sample_archive_metadata = \<lparr>am_logical_vault_id = replicate 16 1, am_source_installation_id = replicate 16 2,
     am_source_recovery_epoch = 1, am_source_schema_version = 7, am_security_semantics_version = 1, am_created_at = 1000\<rparr>"

lemma sample_archive_metadata_typed: "metadata_typed sample_archive_metadata"
  by (simp add: metadata_typed_def sample_archive_metadata_def u64_max_def u32_max_def i64_min_def i64_max_def)

text \<open>One record of kind 1 with a payload of one byte, delivered in two short reads.\<close>

definition archive_reads :: "(unit + bytes) list" where
  "archive_reads = [Inr [0, 1, 0, 0, 0], Inr [0, 0, 1, 42]]"

definition archive_sample_key :: archive_key where "archive_sample_key = Recovery (replicate 32 9)"

lemma sample_header: "new_header sample_archive_lib sample_archive_entropy archive_sample_key default_options =
    Inr (\<lparr>ph_archive_id = replicate 16 7, ph_key_mode = RecoveryKeyMode, ph_salt = [], ph_argon2 = None,
       ph_chunk_bytes = 1048576, ph_record_limit = 10000000, ph_wrap_nonce = replicate 24 2,
       ph_wrapped_dek = replicate 32 3 @ replicate 16 0\<rparr>, replicate 32 3)"
  by (simp add: new_header_def validate_options_def default_options_def chunk_bounded_def argon2_bounded_def archive_bounds
      archive_sample_key_def sample_archive_entropy_def derive_wrapping_key_def encode_header_prefix_def u16_of_def u8_of_def u16_max_def
      sample_lib_def ensure_def try_into_array_def Let_def del: be_bytes.simps)

lemma eight_zeros: "counter_new n = \<lparr>rc_header = [0, 0, 0, 0, 0, 0, 0, 0], rc_header_used = 0, rc_remaining_payload = 0,
     rc_records = 0, rc_limit = n\<rparr>"
  by (simp add: counter_new_def numeral_eq_Suc)

lemma sample_counted:
  "counter_update (counter_new 10000000) [0, 1, 0, 0, 0] = Inr (counter_new 10000000\<lparr>rc_header := [0, 1, 0, 0, 0, 0, 0, 0], rc_header_used := 5\<rparr>)"
  "counter_update (counter_new 10000000\<lparr>rc_header := [0, 1, 0, 0, 0, 0, 0, 0], rc_header_used := 5\<rparr>) [0, 0, 1, 42] =
     Inr (counter_new 10000000\<lparr>rc_header := [0, 1, 0, 0, 0, 0, 0, 1], rc_header_used := 0, rc_records := 1\<rparr>)"
  by (simp_all add: counter_update.simps eight_zeros counter_open_def from_be_def checked_add_u64_def u64_max_def
      MAX_LOGICAL_RECORD_BYTES_def ensure_def Let_def)

lemma sample_frame:
  assumes "54 + length p \<le> sk_room k" "length p \<le> 1000"
  shows "write_frame sample_archive_lib (ae_frame_nonce sample_archive_entropy n) key i n kind p k =
    (Inr (54 + length p), \<lparr>sk_written = sk_written k @ frame_bytes n kind (replicate 24 4) (p @ replicate 16 0),
       sk_room = sk_room k - (54 + length p)\<rparr>)"
  using write_frame_room [of "replicate 24 4" "p @ replicate 16 0" p k sample_archive_lib key i n kind] assms
  by (simp add: sample_archive_entropy_def u32_max_def) (simp add: sample_lib_def)

lemma sample_written:
  "\<exists>summary k. write_archive sample_archive_lib sample_archive_entropy archive_reads archive_sample_key sample_archive_metadata default_options
      \<lparr>sk_written = [], sk_room = 10000\<rparr> = (Inr summary, k) \<and> as_archive_bytes summary \<le> MAX_ARCHIVE_BYTES"
  unfolding write_archive_def sample_header
  by (simp add: encode_public_header_def encode_header_prefix_def u16_of_def u8_of_def u16_max_def guarded_def sbind_def write_all_def
      sample_metadata_json_def sample_archive_metadata_def sample_frame archive_bounds ensure_def checked_add_u64_def u64_max_def
      archive_reads_def start_state_def absorb_def default_options_def sample_counted [unfolded eight_zeros, simplified] counter_finish_def eight_zeros [of 10000000]
      sample_final_json_def final_of_def Let_def sample_lib_def del: be_bytes.simps)

lemma sample_decoded:
  "\<exists>summary k header. write_archive sample_archive_lib sample_archive_entropy archive_reads archive_sample_key sample_archive_metadata default_options
      \<lparr>sk_written = [], sk_room = 10000\<rparr> = (Inr summary, k) \<and>
    decode_archive sample_archive_lib (sk_written k) (length (sk_written k)) archive_sample_key (\<lambda>b s. (Inr (), s @ b)) [] =
      (Inr \<lparr>va_header = header, va_metadata = sample_archive_metadata, va_record_count = as_record_count summary,
        va_logical_bytes = 9, va_logical_digest = replicate 32 0\<rparr>, [0, 1, 0, 0, 0, 0, 0, 1, 42])"
proof -
  obtain summary k where w: "write_archive sample_archive_lib sample_archive_entropy archive_reads archive_sample_key sample_archive_metadata default_options
      \<lparr>sk_written = [], sk_room = 10000\<rparr> = (Inr summary, k)" "as_archive_bytes summary \<le> MAX_ARCHIVE_BYTES"
    using sample_written by blast
  have chunks: "stream_chunks archive_reads = [[0, 1, 0, 0, 0], [0, 0, 1, 42]]" by (simp add: archive_reads_def)
  have "list_all (\<lambda>b. length b \<le> ao_chunk_bytes default_options) (stream_chunks archive_reads)"
    by (simp add: chunks default_options_def)
  note rt = written_archive_decodes [OF _ sample_json _ sample_archive_entropy_ok sample_archive_metadata_typed this w,
      of "\<lambda>b s. (Inr (), s @ b)" "[]"]
  obtain header where "decode_archive sample_archive_lib (sk_written k) (length (sk_written k)) archive_sample_key (\<lambda>b s. (Inr (), s @ b)) [] =
        sbind (feed (\<lambda>b s. (Inr (), s @ b)) (stream_chunks archive_reads)) (\<lambda>_. Pair (Inr \<lparr>va_header = header, va_metadata = sample_archive_metadata,
          va_record_count = as_record_count summary, va_logical_bytes = length (concat (stream_chunks archive_reads)),
          va_logical_digest = sha256 (al_crypto sample_archive_lib) (concat (stream_chunks archive_reads))\<rparr>)) []"
    using rt sample_lib_correct(1) sample_digest_correct by auto
  then show ?thesis using w(1) by (simp add: chunks sbind_def guarded_def) (auto simp: sample_lib_def)
qed

section \<open>The promises\<close>

text \<open>C5. An archive round trips: if writing a logical stream succeeded within the size readers
  accept, then reading the written bytes with the same key feeds a consumer exactly the chunks
  of the stream, in order, and, unless the consumer refuses one, verifies the archive with the
  metadata that was written, the number of its records, its length and its digest.\<close>

theorem archive_roundtrip:
  assumes "aead_correct (al_crypto al)" "json_correct al" "digest_correct (al_crypto al)" "archive_entropy_ok ent" "metadata_typed md"
    and "list_all (\<lambda>b. length b \<le> ao_chunk_bytes p) (stream_chunks reads)"
    and "write_archive al ent reads key md p \<lparr>sk_written = [], sk_room = room\<rparr> = (Inr summary, k)"
    and "as_archive_bytes summary \<le> MAX_ARCHIVE_BYTES"
  shows "length (sk_written k) = as_archive_bytes summary \<and> framed (as_record_count summary) (concat (stream_chunks reads)) \<and>
    (\<exists>header. header_ok header \<and> ph_archive_id header = as_archive_id summary \<and>
      decode_archive al (sk_written k) (length (sk_written k)) key consume s =
        sbind (feed consume (stream_chunks reads)) (\<lambda>_. Pair (Inr \<lparr>va_header = header, va_metadata = md,
          va_record_count = as_record_count summary, va_logical_bytes = length (concat (stream_chunks reads)),
          va_logical_digest = sha256 (al_crypto al) (concat (stream_chunks reads))\<rparr>)) s)"
  using assms by (rule written_archive_decodes)

theorem archive_roundtrip_witness:
  "\<exists>summary k. framed (as_record_count summary) [0, 1, 0, 0, 0, 0, 0, 1, 42] \<and> length (sk_written k) = as_archive_bytes summary \<and>
    write_archive sample_archive_lib sample_archive_entropy archive_reads archive_sample_key sample_archive_metadata default_options
      \<lparr>sk_written = [], sk_room = 10000\<rparr> = (Inr summary, k)"
proof -
  obtain summary k where w: "write_archive sample_archive_lib sample_archive_entropy archive_reads archive_sample_key sample_archive_metadata default_options
      \<lparr>sk_written = [], sk_room = 10000\<rparr> = (Inr summary, k)" "as_archive_bytes summary \<le> MAX_ARCHIVE_BYTES"
    using sample_written by blast
  have chunks: "stream_chunks archive_reads = [[0, 1, 0, 0, 0], [0, 0, 1, 42]]" by (simp add: archive_reads_def)
  have "list_all (\<lambda>b. length b \<le> ao_chunk_bytes default_options) (stream_chunks archive_reads)"
    by (simp add: chunks default_options_def)
  then have "length (sk_written k) = as_archive_bytes summary \<and> framed (as_record_count summary) (concat (stream_chunks archive_reads))"
    using archive_roundtrip [OF _ sample_json _ sample_archive_entropy_ok sample_archive_metadata_typed _ w, where s = "()"]
      sample_lib_correct(1) sample_digest_correct by auto
  then show ?thesis using w(1) by (auto simp: chunks)
qed

text \<open>C14. The reader accepts an archive only with its exact length: whatever is appended to an
  accepted archive, and whatever length the caller then claims, it is refused; so of two
  accepted archives under one key neither is a truncation of the other.\<close>

theorem accepted_archive_exact:
  assumes "decode_archive al bs m key consume s = (Inr v, s')"
  shows "m = length bs \<and> (x \<noteq> [] \<longrightarrow> (\<exists>e s''. decode_archive al (bs @ x) n key consume s = (Inl e, s'')))"
  using assms by (rule accepted_exact)

theorem accepted_archive_exact_witness:
  "\<exists>summary k e s''. write_archive sample_archive_lib sample_archive_entropy archive_reads archive_sample_key sample_archive_metadata default_options
      \<lparr>sk_written = [], sk_room = 10000\<rparr> = (Inr summary, k) \<and>
    decode_archive sample_archive_lib (sk_written k @ [0]) (Suc (length (sk_written k))) archive_sample_key (\<lambda>b s. (Inr (), s @ b)) [] = (Inl e, s'')"
proof -
  obtain summary k header where w: "write_archive sample_archive_lib sample_archive_entropy archive_reads archive_sample_key sample_archive_metadata
      default_options \<lparr>sk_written = [], sk_room = 10000\<rparr> = (Inr summary, k)"
    and d: "decode_archive sample_archive_lib (sk_written k) (length (sk_written k)) archive_sample_key (\<lambda>b s. (Inr (), s @ b)) [] =
      (Inr \<lparr>va_header = header, va_metadata = sample_archive_metadata, va_record_count = as_record_count summary,
        va_logical_bytes = 9, va_logical_digest = replicate 32 0\<rparr>, [0, 1, 0, 0, 0, 0, 0, 1, 42])"
    using sample_decoded by blast
  show ?thesis using accepted_archive_exact [OF d, of "[0]" "Suc (length (sk_written k))"] w by blast
qed

text \<open>C0. The streaming record counter equals the declarative reading of the format, however the
  stream is cut into chunks: it accepts with the count \<open>n\<close> exactly the concatenations of \<open>n\<close>
  well-formed records, \<open>n\<close> within the limit.\<close>

theorem record_counter_equivalence:
  assumes "limit \<le> u64_max"
  shows "rbind (try_fold counter_update (counter_new limit) cs) counter_finish = Inr n \<longleftrightarrow> n \<le> limit \<and> framed n (concat cs)"
  using count_stream_iff [OF assms, of "concat cs" n] by (simp add: counter_chunks count_stream_def)

theorem record_counter_equivalence_witness:
  "rbind (try_fold counter_update (counter_new 1) [[0, 1, 0, 0, 0], [0, 0, 1, 42]]) counter_finish = Inr 1"
proof -
  have four: "(4 :: nat) = Suc (Suc (Suc (Suc 0)))" by simp
  have "be_bytes 2 1 = [0, 1]" "be_bytes 2 0 = [0, 0]" by (simp_all add: numeral_2_eq_2)
  moreover have "be_bytes 4 1 = [0, 0, 0, 1]" unfolding four by simp
  ultimately have "framed 1 (concat [[0, 1, 0, 0, 0], [0, 0, 1, 42]])"
    unfolding framed_def
    by (intro exI [of _ "[(1, 0, [42])]"]) (simp add: MAX_LOGICAL_RECORD_BYTES_def del: be_bytes.simps)
  then show ?thesis
    using record_counter_equivalence [of 1 "[[0, 1, 0, 0, 0], [0, 0, 1, 42]]" 1] by (simp add: u64_max_def)
qed

text \<open>C38. A header that parses is well formed within every bound before any key derivation runs, it
  is the only encoding of what was parsed, and it parses the same whatever follows it.\<close>

theorem header_canonical:
  assumes "parse_public_header bs m = Inr h"
  shows "header_ok h \<and> encode_public_header h = Inr (take (126 + length (ph_salt h)) bs) \<and>
    (n \<le> MAX_ARCHIVE_BYTES \<longrightarrow> parse_public_header (take (126 + length (ph_salt h)) bs @ rest) n = Inr h)"
  using parsed_header_ok [OF assms] parsed_canonical [OF assms] parse_encoded by blast

theorem header_canonical_witness:
  "\<exists>bs h. encode_public_header h = Inr bs \<and> ph_record_limit h = 10000000 \<and> header_ok h \<and> parse_public_header (bs @ [1]) 127 = Inr h"
proof -
  let ?h = "\<lparr>ph_archive_id = replicate 16 7, ph_key_mode = RecoveryKeyMode, ph_salt = [], ph_argon2 = None,
       ph_chunk_bytes = 1048576, ph_record_limit = 10000000, ph_wrap_nonce = replicate 24 2, ph_wrapped_dek = replicate 48 3\<rparr>"
  obtain bs where bs: "encode_public_header ?h = Inr bs"
    by (simp add: encode_public_header_def encode_header_prefix_def u16_of_def u8_of_def u16_max_def archive_bounds)
  have "header_ok ?h" by (simp add: header_ok_def chunk_bounded_def archive_bounds)
  moreover from this have "length bs = 126" using encoded_length [OF bs] by simp
  moreover have "parse_public_header bs 0 = Inr ?h" using parse_encoded [OF \<open>header_ok ?h\<close> _ bs, of 0 "[]"] by simp
  ultimately show ?thesis
    using header_canonical [of bs 0 ?h 127 "[1]"] bs by (intro exI [of _ bs] exI [of _ ?h]) (simp add: archive_bounds)
qed

text \<open>C39. A printed recovery key is read back as the key it shows, and a text is accepted only if
  it carries the checksum of the key it encodes.\<close>

theorem recovery_key_roundtrip:
  assumes "base64_correct c" "digest_correct c" "length k = 32"
  shows "recovery_parse c (recovery_expose_once c k) = Inr k \<and>
    (recovery_parse c text = Inr k' \<longrightarrow>
      (\<exists>body. text = ''smcvbrk_v1.'' @ body @ ''.'' @ recovery_checksum c k' \<and> b64_decode c body = Some k' \<and> length k' = 32))"
  using recovery_roundtrip [OF assms] recovery_accepts by blast

theorem recovery_key_roundtrip_witness:
  "recovery_parse sample_lib (recovery_expose_once sample_lib (replicate 32 5)) = Inr (replicate 32 5)"
  using recovery_key_roundtrip [OF sample_lib_correct(3) sample_digest_correct, of "replicate 32 5"] by simp

end
