(* ===== verification/App_Rotation.thy ===== *)
theory App_Rotation
  imports App_Refinement
begin

text \<open>
  Key rotation in \<open>src/crates/smcv-app/src/rotation.rs\<close>: starting a rotation of the
  key-encryption key, resuming it in bounded batches until the old key is retired, running it
  to completion, and replacing the root provider.  These operations change the loaded keys as
  well as the database, so their state holds both.

  The lemmas show that the loop of a resumption ends, that running to completion returns, and
  that no value changes: whatever the vault could decrypt it decrypts to the same bytes after.
\<close>

section \<open>State\<close>

record live =
  lv_vault :: vault
  lv_root :: "bytes option"
  lv_db :: db

record rotation_progress =
  rp_batches_committed :: nat
  rp_completed :: bool

record root_rotation_outcome =
  ro_replacement_verified :: bool
  ro_previous_provider_retained :: bool

text \<open>A storage call and a change of the loaded keys, with the caller's view of their errors.\<close>

definition on_store :: "(db \<Rightarrow> (storage_error + 'a) \<times> db) \<Rightarrow> live \<Rightarrow> (vault_error + 'a) \<times> live" where
  "on_store op s = (case op (lv_db s) of (r, d) \<Rightarrow> (map_err map_storage r, s\<lparr>lv_db := d\<rparr>))"

definition on_keys :: "(vault \<Rightarrow> (initialization_error + unit) \<times> vault) \<Rightarrow> live \<Rightarrow> (vault_error + unit) \<times> live" where
  "on_keys op s = (case op (lv_vault s) of (r, v) \<Rightarrow> (map_err (\<lambda>_. Unavailable) r, s\<lparr>lv_vault := v\<rparr>))"

definition with_root_key :: "live \<Rightarrow> (bytes \<Rightarrow> 'a) \<Rightarrow> 'a option" where
  "with_root_key s f = map_option f (lv_root s)"

definition replace_root_key :: "bytes \<Rightarrow> live \<Rightarrow> (vault_error + unit) \<times> live" where
  "replace_root_key key s =
     (case lv_root s of None \<Rightarrow> (Inl Unavailable, s) | Some _ \<Rightarrow> (Inr (), s\<lparr>lv_root := Some key\<rparr>))"

section \<open>Rotation of the key-encryption key\<close>

text \<open>What is drawn at random when a rotation starts.\<close>

record rotation_entropy =
  re_key :: "bytes option"
  re_object_id :: uuid
  re_nonce :: "bytes option"
  re_job_id :: uuid
  re_event_id :: uuid

definition start_kek_rotation :: "rotation_entropy \<Rightarrow> vault_operation_context \<Rightarrow> live \<Rightarrow>
    (vault_error + kek_rotation_job) \<times> live" where
  "start_kek_rotation ent oper =
     reading (\<lambda>s.
       rbind (map_err map_storage (active_kek_rotation (lv_db s))) (\<lambda>active.
       rbind (ensure (active = None) Conflict) (\<lambda>_.
       rbind (ok_or Unavailable (with_active_kek (lv_vault s) (\<lambda>_. ()))) (\<lambda>(source, _).
       rbind (ok_or Conflict (checked_add_u32 source 1)) (\<lambda>target.
       rbind (map_err map_crypto (ok_or Randomness (re_key ent))) (\<lambda>target_key.
       rbind (ok_or Unavailable (with_root_key s (\<lambda>root. seal (vt_lib (lv_vault s)) (re_nonce ent) root
         (context_of (lv_vault s) WrappedKeyEncryptionKey (re_object_id ent) target) target_key))) (\<lambda>sealed.
       rbind (map_err map_crypto sealed) (\<lambda>wrapped.
       rbind (try_into_array 48 Integrity (sl_ciphertext wrapped)) (\<lambda>ciphertext.
       rbind (build_audit (lv_vault s) (re_event_id ent) ''key:rotate-start'' ''key'' (Some (re_object_id ent)) oper (lv_db s)) (\<lambda>audit.
       Inr (source, target_key, audit, \<lparr>wk_kind = KeyEncryption, wk_version = target, wk_object_id = re_object_id ent,
         wk_wrapping_kek_version = None, wk_nonce = sl_nonce wrapped, wk_ciphertext = ciphertext\<rparr>)))))))))))
     (\<lambda>(source, target_key, audit, wrapped).
       sbind (on_store (begin_kek_rotation (re_job_id ent) source wrapped (oc_now oper) audit)) (\<lambda>job.
       sbind (on_keys (install_active_kek (wk_version wrapped) target_key)) (\<lambda>_. Pair (Inr job))))"

fun wrapping_object_kind :: "rewrap_kind \<Rightarrow> object_kind" where
  "wrapping_object_kind rewrap_kind.BlindIndexKey = object_kind.BlindIndexKey"
| "wrapping_object_kind rewrap_kind.AuditKey = object_kind.AuditKey"
| "wrapping_object_kind TokenVerifierKey = VerifierKey"
| "wrapping_object_kind NamespaceMetadataItem = WrappedNamespaceMetadataKey"
| "wrapping_object_kind SecretMetadataItem = WrappedMetadataKey"
| "wrapping_object_kind SecretVersionItem = WrappedDataKey"

definition ensure_key_width :: "bytes \<Rightarrow> vault_error + unit" where
  "ensure_key_width value = ensure (length value = 32) Integrity"

definition rewrap_item :: "vault \<Rightarrow> kek_rotation_job \<Rightarrow> bytes option \<Rightarrow> rewrap_item \<Rightarrow> vault_error + rewrapped_item" where
  "rewrap_item v job random source =
     (let ctxt = context_of v (wrapping_object_kind (ri_kind source)) (ri_object_id source) (ri_object_version source) in
      rbind (ok_or Integrity (with_kek v (kj_source job) (\<lambda>k. open_record (vt_lib v) k ctxt
        \<lparr>sl_nonce = ri_nonce source, sl_ciphertext = ri_wrapped_key source\<rparr>))) (\<lambda>opened.
      rbind (map_err map_crypto opened) (\<lambda>plaintext.
      rbind (ensure_key_width plaintext) (\<lambda>_.
      rbind (ok_or Integrity (with_kek v (kj_target job) (\<lambda>k. seal (vt_lib v) random k ctxt plaintext))) (\<lambda>sealed.
      rbind (map_err map_crypto sealed) (\<lambda>wrapped.
      rbind (try_into_array 48 Integrity (sl_ciphertext wrapped)) (\<lambda>wrapped_key.
      Inr \<lparr>rw_source = source, rw_nonce = sl_nonce wrapped, rw_wrapped_key = wrapped_key\<rparr>)))))))"

definition rewrap_items :: "vault \<Rightarrow> kek_rotation_job \<Rightarrow> (nat \<Rightarrow> bytes option) \<Rightarrow> rewrap_item list \<Rightarrow>
    vault_error + rewrapped_item list" where
  "rewrap_items v job nonce source = traverse (\<lambda>(i, item). rewrap_item v job (nonce i) item) (enumerate 0 source)"

definition finish_rotation :: "uuid \<Rightarrow> vault_operation_context \<Rightarrow> kek_rotation_job \<Rightarrow> live \<Rightarrow> (vault_error + unit) \<times> live" where
  "finish_rotation ev oper job =
     reading (\<lambda>s. build_audit (lv_vault s) ev ''key:rotate-complete'' ''key'' None oper (lv_db s)) (\<lambda>audit.
     sbind (on_store (finish_kek_rotation job (oc_now oper) audit)) (\<lambda>_.
     on_keys (retire_kek (kj_source job))))"

text \<open>The stages still ahead, for the measure of the loop.\<close>

fun stage_rank :: "rotation_stage \<Rightarrow> nat" where
  "stage_rank Auxiliary = 4"
| "stage_rank rotation_stage.NamespaceMetadata = 3"
| "stage_rank rotation_stage.SecretMetadata = 2"
| "stage_rank SecretVersions = 1"
| "stage_rank Finalize = 0"

lemma stage_next_rank: "rotation_stage_next st = Some st' \<Longrightarrow> stage_rank st' < stage_rank st"
  by (cases st) auto

text \<open>The loop of a resumption.  It counts the batches it may still commit down from the
  allowance; advancing to the next stage takes none.\<close>

function resume_loop :: "uuid \<Rightarrow> (nat \<Rightarrow> nat \<Rightarrow> bytes option) \<Rightarrow> nat \<Rightarrow> nat \<Rightarrow> vault_operation_context \<Rightarrow> nat \<Rightarrow>
    kek_rotation_job \<Rightarrow> live \<Rightarrow> (vault_error + rotation_progress) \<times> live" where
  "resume_loop ev nonce max_batches batch_size oper left job s =
     (if kj_stage job = Finalize then
        (case finish_rotation ev oper job s of
           (Inl e, s') \<Rightarrow> (Inl e, s')
         | (Inr _, s') \<Rightarrow> (Inr \<lparr>rp_batches_committed = max_batches - left, rp_completed = True\<rparr>, s'))
      else if left = 0 then (Inr \<lparr>rp_batches_committed = max_batches - left, rp_completed = False\<rparr>, s)
      else
        (case next_rewrap_batch job batch_size (lv_db s) of
           Inl e \<Rightarrow> (Inl (map_storage e), s)
         | Inr source \<Rightarrow>
             if source = [] then
               (case advance_rotation_stage job (oc_now oper) (lv_db s) of
                  (Inl e, d) \<Rightarrow> (Inl (map_storage e), s\<lparr>lv_db := d\<rparr>)
                | (Inr job', d) \<Rightarrow> resume_loop ev nonce max_batches batch_size oper left job' (s\<lparr>lv_db := d\<rparr>))
             else
               (case rewrap_items (lv_vault s) job (nonce left) source of
                  Inl e \<Rightarrow> (Inl e, s)
                | Inr rewrapped \<Rightarrow>
                    (case apply_rewrap_batch job rewrapped (oc_now oper) (lv_db s) of
                       (Inl e, d) \<Rightarrow> (Inl (map_storage e), s\<lparr>lv_db := d\<rparr>)
                     | (Inr job', d) \<Rightarrow> resume_loop ev nonce max_batches batch_size oper (left - 1) job' (s\<lparr>lv_db := d\<rparr>)))))"
  by pat_completeness auto

termination
  by (relation "measures [\<lambda>(ev, nonce, m, b, oper, left, job, s). left,
        \<lambda>(ev, nonce, m, b, oper, left, job, s). stage_rank (kj_stage job)]")
     (auto dest!: advance_rotation_stage_Inr [OF sym] stage_next_rank)

declare resume_loop.simps [simp del]

definition resume_kek_rotation :: "uuid \<Rightarrow> (nat \<Rightarrow> nat \<Rightarrow> bytes option) \<Rightarrow> nat \<Rightarrow> nat \<Rightarrow> vault_operation_context \<Rightarrow> live \<Rightarrow>
    (vault_error + rotation_progress) \<times> live" where
  "resume_kek_rotation ev nonce max_batches batch_size oper =
     reading (\<lambda>s.
       rbind (ensure (max_batches \<noteq> 0 \<and> batch_size \<noteq> 0 \<and> batch_size \<le> 256) InvalidInput) (\<lambda>_.
       rbind (map_err map_storage (active_kek_rotation (lv_db s))) (\<lambda>active.
       ok_or NotFound active)))
     (\<lambda>job. resume_loop ev nonce max_batches batch_size oper max_batches job)"

text \<open>The loop of \<open>rotate_kek_to_completion\<close>: the \<open>n\<close>th resumption draws its own event and nonces.\<close>

partial_function (option) resume_until_done :: "(nat \<Rightarrow> uuid) \<Rightarrow> (nat \<Rightarrow> nat \<Rightarrow> nat \<Rightarrow> bytes option) \<Rightarrow> vault_operation_context \<Rightarrow> nat \<Rightarrow> live \<Rightarrow>
    ((vault_error + unit) \<times> live) option" where
  "resume_until_done ev nonce oper n s =
     (case resume_kek_rotation (ev n) (nonce n) 64 64 oper s of
        (Inl e, s') \<Rightarrow> Some (Inl e, s')
      | (Inr progress, s') \<Rightarrow>
          if rp_completed progress then Some (Inr (), s') else resume_until_done ev nonce oper (Suc n) s')"

definition rotate_kek_to_completion :: "rotation_entropy \<Rightarrow> (nat \<Rightarrow> uuid) \<Rightarrow> (nat \<Rightarrow> nat \<Rightarrow> nat \<Rightarrow> bytes option) \<Rightarrow> vault_operation_context \<Rightarrow>
    live \<Rightarrow> ((vault_error + unit) \<times> live) option" where
  "rotate_kek_to_completion ent ev nonce oper s =
     (case start_kek_rotation ent oper s of
        (Inl e, s') \<Rightarrow> Some (Inl e, s')
      | (Inr _, s') \<Rightarrow> resume_until_done ev nonce oper 0 s')"

section \<open>Replacement of the root provider\<close>

definition rewrap_root_key :: "vault \<Rightarrow> bytes option \<Rightarrow> bytes \<Rightarrow> wrapped_key_record \<Rightarrow> vault_error + root_rewrapped_key" where
  "rewrap_root_key v random replacement source =
     (let ctxt = context_of v WrappedKeyEncryptionKey (wk_object_id source) (wk_version source) in
      rbind (ok_or Integrity (with_kek v (wk_version source) (\<lambda>k. seal (vt_lib v) random replacement ctxt k))) (\<lambda>sealed.
      rbind (map_err map_crypto sealed) (\<lambda>wrapped.
      rbind (try_into_array 48 Integrity (sl_ciphertext wrapped)) (\<lambda>target_wrapped_key.
      rbind (map_err map_crypto (open_record (vt_lib v) replacement ctxt
        \<lparr>sl_nonce = sl_nonce wrapped, sl_ciphertext = target_wrapped_key\<rparr>)) (\<lambda>verified.
      rbind (ensure_key_width verified) (\<lambda>_.
      Inr \<lparr>rr_version = wk_version source, rr_object_id = wk_object_id source, rr_source_nonce = wk_nonce source,
           rr_source_wrapped_key = wk_ciphertext source, rr_target_nonce = sl_nonce wrapped,
           rr_target_wrapped_key = target_wrapped_key\<rparr>))))))"

definition verify_root_wrapping :: "vault \<Rightarrow> bytes \<Rightarrow> registered_key \<Rightarrow> vault_error + unit" where
  "verify_root_wrapping v replacement key =
     (let r = rk_wrapped key in
      rbind (map_err map_crypto (open_record (vt_lib v) replacement
        (context_of v WrappedKeyEncryptionKey (wk_object_id r) (wk_version r))
        \<lparr>sl_nonce = wk_nonce r, sl_ciphertext = wk_ciphertext r\<rparr>)) (\<lambda>plaintext.
      ensure_key_width plaintext))"

definition verify_root_wrappings :: "vault \<Rightarrow> bytes \<Rightarrow> db \<Rightarrow> vault_error + unit" where
  "verify_root_wrappings v replacement d =
     rbind (map_err map_storage (registered_keys KeyEncryption d)) (\<lambda>registry.
     rbind (traverse (verify_root_wrapping v replacement) (filter (\<lambda>k. rk_state k \<noteq> Retired) registry)) (\<lambda>_. Inr ()))"

text \<open>The checks of the two paths and the creation of the provider file are file-system calls;
  their outcomes are arguments.\<close>

definition rotate_root_provider :: "bool \<Rightarrow> crypto_error + bytes \<Rightarrow> uuid \<Rightarrow> uuid \<Rightarrow> (nat \<Rightarrow> bytes option) \<Rightarrow> vault_operation_context \<Rightarrow>
    live \<Rightarrow> (vault_error + root_rotation_outcome) \<times> live" where
  "rotate_root_provider paths_ok created job_id ev nonce oper =
     reading (\<lambda>s.
       rbind (ensure paths_ok Unavailable) (\<lambda>_.
       rbind (map_err map_storage (active_kek_rotation (lv_db s))) (\<lambda>active.
       rbind (ensure (active = None) Conflict) (\<lambda>_.
       rbind (map_err map_crypto created) (\<lambda>replacement.
       rbind (map_err map_storage (registered_keys KeyEncryption (lv_db s))) (\<lambda>registry.
       rbind (traverse (\<lambda>(i, k). rewrap_root_key (lv_vault s) (nonce i) replacement (rk_wrapped k))
         (enumerate 0 (filter (\<lambda>k. rk_state k \<noteq> Retired) registry))) (\<lambda>updates.
       rbind (build_audit (lv_vault s) ev ''root-provider:rotate'' ''vault'' None oper (lv_db s)) (\<lambda>audit.
       Inr (replacement, updates, audit)))))))))
     (\<lambda>(replacement, updates, audit).
       sbind (on_store (replace_root_wrappings job_id updates (oc_now oper) audit)) (\<lambda>_.
       reading (\<lambda>s. verify_root_wrappings (lv_vault s) replacement (lv_db s)) (\<lambda>_.
       sbind (replace_root_key replacement) (\<lambda>_.
       Pair (Inr \<lparr>ro_replacement_verified = True, ro_previous_provider_retained = True\<rparr>)))))"

section \<open>A rewrapped key opens to the same bytes\<close>

lemma with_kek_Some [result_simps]:
  "with_kek v n f = Some x \<longleftrightarrow> (\<exists>ring k. vt_key_ring v = Some ring \<and> kr_keys ring n = Some k \<and> f k = x)"
  by (auto simp: with_kek_def split: option.splits)

lemma rewrap_item_Inr:
  assumes "rewrap_item v job random source = Inr rw" "aead_correct (vt_lib v)"
  shows "rw_source rw = source \<and>
    (\<exists>k. with_kek v (kj_source job) (\<lambda>kek. open_record (vt_lib v) kek
         (context_of v (wrapping_object_kind (ri_kind source)) (ri_object_id source) (ri_object_version source))
         \<lparr>sl_nonce = ri_nonce source, sl_ciphertext = ri_wrapped_key source\<rparr>) = Some (Inr k) \<and>
       with_kek v (kj_target job) (\<lambda>kek. open_record (vt_lib v) kek
         (context_of v (wrapping_object_kind (ri_kind source)) (ri_object_id source) (ri_object_version source))
         \<lparr>sl_nonce = rw_nonce rw, sl_ciphertext = rw_wrapped_key rw\<rparr>) = Some (Inr k))"
proof -
  let ?c = "context_of v (wrapping_object_kind (ri_kind source)) (ri_object_id source) (ri_object_version source)"
  obtain k sealed wrapped where
    src: "with_kek v (kj_source job) (\<lambda>kek. open_record (vt_lib v) kek ?c
         \<lparr>sl_nonce = ri_nonce source, sl_ciphertext = ri_wrapped_key source\<rparr>) = Some (Inr k)"
    and tgt: "with_kek v (kj_target job) (\<lambda>kek. seal (vt_lib v) random kek ?c k) = Some sealed" "sealed = Inr wrapped"
    and rw: "\<lparr>rw_source = source, rw_nonce = sl_nonce wrapped, rw_wrapped_key = sl_ciphertext wrapped\<rparr> = rw"
    using assms(1) unfolding rewrap_item_def Let_def rbind_eq_Inr ok_or_eq_Inr map_err_eq_Inr try_into_array_eq_Inr
    by (metis (no_types, lifting) Inr_inject)
  obtain ring kek where ring: "vt_key_ring v = Some ring" "kr_keys ring (kj_target job) = Some kek"
      "seal (vt_lib v) random kek ?c k = Inr wrapped"
    using tgt by (auto simp: with_kek_Some)
  have "open_record (vt_lib v) kek ?c \<lparr>sl_nonce = sl_nonce wrapped, sl_ciphertext = sl_ciphertext wrapped\<rparr> = Inr k"
    using open_seal [OF assms(2) ring(3)] by (cases wrapped) simp
  then show ?thesis using src ring(1,2) rw by (auto simp: with_kek_Some)
qed

lemma decrypt_rewrapped:
  assumes "rewrap_item v job random source = Inr rw" "aead_correct (vt_lib v)"
    and "er_kek_version e = kj_source job" "er_dek_nonce e = ri_nonce source" "er_wrapped_dek e = ri_wrapped_key source"
    and "wkind = wrapping_object_kind (ri_kind source)" "i = ri_object_id source" "n = ri_object_version source"
  shows "decrypt_record v (e\<lparr>er_dek_nonce := rw_nonce rw, er_wrapped_dek := rw_wrapped_key rw, er_kek_version := kj_target job\<rparr>) kind wkind i n =
    decrypt_record v e kind wkind i n"
  using rewrap_item_Inr [OF assms(1,2)] assms(3-8) by (auto simp: decrypt_record_def)


section \<open>A rotation ends\<close>

text \<open>The source and target of the open rotation job.  Checkpoints keep them, and every batch takes
  rows off the source, so the rows still under it bound the number of resumptions.\<close>

definition rotation_keys :: "db \<Rightarrow> (int option \<times> int option) option" where
  "rotation_keys d = map_option (\<lambda>j. (j_source j, j_target j))
     (tbl_find (\<lambda>j. j_kind j = ''kek_rotation'' \<and> open_job j) (maintenance_jobs d))"

lemma rotation_keys_same: "maintenance_jobs d' = maintenance_jobs d \<Longrightarrow> rotation_keys d' = rotation_keys d"
  by (simp add: rotation_keys_def)

lemma find_map_keep:
  "(\<And>x. p (g x) = p x) \<Longrightarrow> find p (map g xs) = map_option g (find p xs)"
  by (induction xs) auto

lemma job_checkpoint_keys:
  assumes "job_checkpoint job f d = Inr d'"
    and "\<And>j. j_kind (f j) = j_kind j \<and> j_state (f j) = j_state j \<and> j_source (f j) = j_source j \<and> j_target (f j) = j_target j"
  shows "rotation_keys d' = rotation_keys d"
proof -
  let ?p = "\<lambda>j. j_kind j = ''kek_rotation'' \<and> open_job j"
    and ?q = "\<lambda>j. j_id j = kj_job_id job \<and> j_stage j = Some (rotation_stage_as_str (kj_stage job)) \<and>
            j_last_row j = kj_last_row_id job"
  have jobs: "maintenance_jobs d' = tbl_update ?q f (maintenance_jobs d)"
    using assms(1) by (auto simp: job_checkpoint_def result_simps)
  have "open_job (f j) = open_job j" for j using assms(2) by (simp add: open_job_def)
  then have "tbl_find ?p (maintenance_jobs d') = map_option (\<lambda>j. if ?q j then f j else j) (tbl_find ?p (maintenance_jobs d))"
    unfolding jobs tbl_find_def rows_update using assms(2) by (intro find_map_keep) auto
  then show ?thesis using assms(2) by (simp add: rotation_keys_def option.map_comp o_def if_distrib [where f = j_source] if_distrib [where f = j_target] cong: if_cong)
qed

lemma apply_rewrap_batch_progress:
  assumes "apply_rewrap_batch job items now d = (Inr job', d')" "kj_source job \<noteq> kj_target job"
  shows "rotation_keys d' = rotation_keys d" "kj_source job' = kj_source job" "kj_target job' = kj_target job"
    "source_inventory (int (kj_source job)) d' < source_inventory (int (kj_source job)) d"
proof -
  obtain l d1 where fold: "try_fold (apply_rewrap_item job) (kj_last_row_id job, d) items = Inr (l, d1)"
    and chk: "job_checkpoint job (\<lambda>j. j\<lparr>j_last_row := l, j_updated := now\<rparr>) d1 = Inr d'"
    and items: "items \<noteq> []" and job': "job' = job\<lparr>kj_last_row_id := l\<rparr>"
    using assms(1) unfolding apply_rewrap_batch_def tx_simps by (auto simp: result_simps)
  have "rotation_keys d' = rotation_keys d1" using chk by (rule job_checkpoint_keys) simp
  also have "\<dots> = rotation_keys d" using apply_rewrap_items(4) [OF fold] by (rule rotation_keys_same)
  finally show "rotation_keys d' = rotation_keys d" .
  obtain js where "d' = d1\<lparr>maintenance_jobs := js\<rparr>" using job_checkpoint_Inr [OF chk] by blast
  then show "source_inventory (int (kj_source job)) d' < source_inventory (int (kj_source job)) d"
    using apply_rewrap_items(3) [OF fold assms(2)] items by (cases items) auto
qed (use assms(1) in \<open>auto elim: apply_rewrap_batch_Inr\<close>)

lemma advance_rotation_stage_progress:
  assumes "advance_rotation_stage job now d = (Inr job', d')"
  shows "rotation_keys d' = rotation_keys d" "kj_source job' = kj_source job" "kj_target job' = kj_target job"
    "source_inventory n d' = source_inventory n d"
proof -
  obtain next_st where "job_checkpoint job (\<lambda>j. j\<lparr>j_stage := Some (rotation_stage_as_str next_st),
           j_last_row := 0, j_updated := now\<rparr>) d = Inr d'"
    using assms unfolding advance_rotation_stage_def tx_simps by (auto simp: result_simps tx_simps)
  then show "rotation_keys d' = rotation_keys d" by (rule job_checkpoint_keys) simp
qed (use advance_rotation_stage_Inr [OF assms] in auto)

lemma resume_loop_progress:
  assumes "resume_loop ev nonce max_batches batch_size oper left job s = (Inr progress, s')" "\<not> rp_completed progress"
    and "kj_source job \<noteq> kj_target job"
  shows "rotation_keys (lv_db s') = rotation_keys (lv_db s) \<and>
    source_inventory (int (kj_source job)) (lv_db s') + left \<le> source_inventory (int (kj_source job)) (lv_db s)"
  using assms
proof (induction ev nonce max_batches batch_size oper left job s rule: resume_loop.induct)
  case (1 ev nonce max_batches batch_size oper left job s)
  show ?case
  proof (cases "kj_stage job = Finalize \<or> left = 0")
    case True
    then show ?thesis using "1.prems" by (subst (asm) resume_loop.simps) (auto split: if_splits prod.splits sum.splits)
  next
    case False
    then obtain src where src: "next_rewrap_batch job batch_size (lv_db s) = Inr src"
      using "1.prems"(1) by (subst (asm) resume_loop.simps) (auto split: sum.splits)
    show ?thesis
    proof (cases "src = []")
      case True
      then obtain job' d where adv: "advance_rotation_stage job (oc_now oper) (lv_db s) = (Inr job', d)"
        and rest: "resume_loop ev nonce max_batches batch_size oper left job' (s\<lparr>lv_db := d\<rparr>) = (Inr progress, s')"
        using False src "1.prems"(1) by (subst (asm) resume_loop.simps) (auto split: sum.splits prod.splits)
      show ?thesis
        using "1.IH"(1) [OF _ _ src True adv [symmetric] refl rest] False "1.prems"(2,3) advance_rotation_stage_progress [OF adv]
        by auto
    next
      case nonempty: False
      then obtain rw job' d where rw: "rewrap_items (lv_vault s) job (nonce left) src = Inr rw"
        and app: "apply_rewrap_batch job rw (oc_now oper) (lv_db s) = (Inr job', d)"
        and rest: "resume_loop ev nonce max_batches batch_size oper (left - 1) job' (s\<lparr>lv_db := d\<rparr>) = (Inr progress, s')"
        using False src "1.prems"(1) by (subst (asm) resume_loop.simps) (auto split: sum.splits prod.splits)
      show ?thesis
        using "1.IH"(2) [OF _ _ src nonempty rw app [symmetric] refl rest] False "1.prems"(2,3)
          apply_rewrap_batch_progress [OF app "1.prems"(3)] by auto
    qed
  qed
qed

lemma active_kek_rotation_keys:
  assumes "active_kek_rotation d = Inr (Some job)"
  shows "rotation_keys d = Some (Some (int (kj_source job)), Some (int (kj_target job)))"
    "kj_source job \<le> u32_max" "kj_target job \<le> u32_max"
proof -
  obtain j where j: "tbl_find (\<lambda>j. j_kind j = ''kek_rotation'' \<and> open_job j) (maintenance_jobs d) = Some j" "parse_job j = Inr job"
    using assms by (auto simp: active_kek_rotation_def query_Inr transpose_map_def result_simps split: option.splits)
  then show "rotation_keys d = Some (Some (int (kj_source job)), Some (int (kj_target job)))"
    "kj_source job \<le> u32_max" "kj_target job \<le> u32_max"
    by (auto simp: rotation_keys_def parse_job_def u32_of_i64_def result_simps split: if_splits)
qed


lemma resume_kek_rotation_progress:
  assumes "resume_kek_rotation ev nonce m b oper s = (Inr progress, s')" "\<not> rp_completed progress"
    and "rotation_keys (lv_db s) = Some (Some source, Some target)" "source \<noteq> target"
  shows "rotation_keys (lv_db s') = rotation_keys (lv_db s) \<and>
    source_inventory source (lv_db s') < source_inventory source (lv_db s)"
proof -
  obtain job where job: "active_kek_rotation (lv_db s) = Inr (Some job)" "m \<noteq> 0"
    and loop: "resume_loop ev nonce m b oper m job s = (Inr progress, s')"
    using assms(1) by (auto simp: resume_kek_rotation_def reading_Inr result_simps)
  have keys: "int (kj_source job) = source" "int (kj_target job) = target"
    using active_kek_rotation_keys(1) [OF job(1)] assms(3) by auto
  then have "kj_source job \<noteq> kj_target job" using assms(4) by auto
  from resume_loop_progress [OF loop assms(2) this] show ?thesis using keys job(2) by auto
qed

lemma resume_until_done_returns:
  assumes "rotation_keys (lv_db s) = Some (Some source, Some target)" "source \<noteq> target"
  shows "\<exists>y. resume_until_done ev nonce oper n s = Some y"
  using assms(1)
proof (induction "source_inventory source (lv_db s)" arbitrary: n s rule: less_induct)
  case less
  obtain r s1 where res: "resume_kek_rotation (ev n) (nonce n) 64 64 oper s = (r, s1)" by fastforce
  show ?case
  proof (cases r)
    case (Inl e)
    then show ?thesis using res by (subst resume_until_done.simps) simp
  next
    case (Inr progress)
    show ?thesis
    proof (cases "rp_completed progress")
      case True
      then show ?thesis using res Inr by (subst resume_until_done.simps) simp
    next
      case False
      note prog = resume_kek_rotation_progress [OF res [unfolded Inr] False less.prems assms(2)]
      have "\<exists>y. resume_until_done ev nonce oper (Suc n) s1 = Some y"
        using less.hyps [of s1 "Suc n"] prog less.prems by simp
      then show ?thesis using res Inr False by (subst resume_until_done.simps) simp
    qed
  qed
qed

lemma on_store_Inr [result_simps]:
  "on_store op s = (Inr x, s') \<longleftrightarrow> (\<exists>d. op (lv_db s) = (Inr x, d) \<and> s' = s\<lparr>lv_db := d\<rparr>)"
  by (auto simp: on_store_def result_simps split: prod.splits)

lemma on_keys_Inr [result_simps]:
  "on_keys op s = (Inr x, s') \<longleftrightarrow> (\<exists>v. op (lv_vault s) = (Inr x, v) \<and> s' = s\<lparr>lv_vault := v\<rparr>)"
  by (auto simp: on_keys_def result_simps split: prod.splits)

lemma begin_kek_rotation_jobs:
  assumes "begin_kek_rotation job_id source k now a d = (Inr job, d')"
  shows "maintenance_jobs d' = tbl_insert (kek_job_row job_id source (wk_version k) now) (maintenance_jobs d)"
    "tbl_count (\<lambda>j. j_kind j = ''kek_rotation'' \<and> open_job j) (maintenance_jobs d) = 0"
  using assms unfolding begin_kek_rotation_def guarded_Inr
  by (elim exE conjE audited_effect,
      auto simp: result_simps Let_def insert_key_def simp del: tbl_count_0 split: option.splits if_splits)+

lemma start_kek_rotation_Inr:
  assumes "start_kek_rotation ent oper s = (Inr job, s')"
  obtains ring key and w :: sealed_record and audit d v where "vt_key_ring (lv_vault s) = Some ring"
    "kr_active_version ring + 1 \<le> u32_max" "re_key ent = Some key"
    "begin_kek_rotation (re_job_id ent) (kr_active_version ring) \<lparr>wk_kind = KeyEncryption, wk_version = kr_active_version ring + 1,
       wk_object_id = re_object_id ent, wk_wrapping_kek_version = None, wk_nonce = sl_nonce w, wk_ciphertext = sl_ciphertext w\<rparr>
       (oc_now oper) audit (lv_db s) = (Inr job, d)"
    "install_active_kek (kr_active_version ring + 1) key (lv_vault s) = (Inr (), v)"
    "s' = s\<lparr>lv_db := d, lv_vault := v\<rparr>"
  using assms unfolding start_kek_rotation_def reading_Inr sbind_Inr rbind_eq_Inr ok_or_eq_Inr map_err_eq_Inr ensure_eq_Inr
  by (auto simp: sbind_Inr on_store_Inr on_keys_Inr with_active_kek_def checked_add_u32_def
      rbind_eq_Inr ok_or_eq_Inr map_err_eq_Inr try_into_array_eq_Inr split: option.splits if_splits)

lemma start_kek_rotation_keys:
  assumes "start_kek_rotation ent oper s = (Inr job, s')"
  shows "\<exists>source. rotation_keys (lv_db s') = Some (Some (int source), Some (int (source + 1)))"
proof -
  obtain ring :: key_ring and key and w :: sealed_record and audit d v where start:
    "begin_kek_rotation (re_job_id ent) (kr_active_version ring) \<lparr>wk_kind = KeyEncryption, wk_version = kr_active_version ring + 1,
       wk_object_id = re_object_id ent, wk_wrapping_kek_version = None, wk_nonce = sl_nonce w, wk_ciphertext = sl_ciphertext w\<rparr>
       (oc_now oper) audit (lv_db s) = (Inr job, d)" "s' = s\<lparr>lv_db := d, lv_vault := v\<rparr>"
    by (rule start_kek_rotation_Inr [OF assms]) blast
  note jobs = begin_kek_rotation_jobs [OF start(1)]
  have "tbl_find (\<lambda>j. j_kind j = ''kek_rotation'' \<and> open_job j) (maintenance_jobs (lv_db s)) = None"
    using jobs(2) by simp
  then have "rotation_keys d = Some (Some (int (kr_active_version ring)), Some (int (kr_active_version ring + 1)))"
    unfolding rotation_keys_def jobs(1) tbl_find_insert
    by (simp add: kek_job_row_def open_job_def del: tbl_find_None)
  then show ?thesis using start(2) by auto
qed

theorem rotate_kek_returns: "\<exists>y. rotate_kek_to_completion ent ev nonce oper s = Some y"
proof (cases "start_kek_rotation ent oper s")
  case (Pair r s')
  show ?thesis
  proof (cases r)
    case (Inl e)
    then show ?thesis using Pair by (simp add: rotate_kek_to_completion_def)
  next
    case (Inr job)
    obtain source where "rotation_keys (lv_db s') = Some (Some (int source), Some (int (source + 1)))"
      using start_kek_rotation_keys [OF Pair [unfolded Inr]] by blast
    then have "\<exists>y. resume_until_done ev nonce oper 0 s' = Some y" by (rule resume_until_done_returns) simp
    then show ?thesis using Pair Inr by (simp add: rotate_kek_to_completion_def)
  qed
qed

section \<open>A rotation loses no value\<close>

text \<open>Two live vaults with the same cryptography and version rows under the same rowids, the second
  holding every value of the first.\<close>

definition keeps_values :: "live \<Rightarrow> live \<Rightarrow> bool" where
  "keeps_values s s' = (vt_lib (lv_vault s') = vt_lib (lv_vault s) \<and>
     map fst (secret_versions (lv_db s')) = map fst (secret_versions (lv_db s)) \<and>
     vault_values (lv_vault s) (lv_db s) \<subseteq>\<^sub>m vault_values (lv_vault s') (lv_db s'))"

lemma keeps_values_refl [simp]: "keeps_values s s"
  by (simp add: keeps_values_def)

lemma keeps_values_trans [trans]: "keeps_values s s1 \<Longrightarrow> keeps_values s1 s' \<Longrightarrow> keeps_values s s'"
  by (auto simp: keeps_values_def intro: map_le_trans)

lemma values_rows:
  assumes "list_all2 (\<lambda>r r'. (v_secret_id r', v_version r') = (v_secret_id r, v_version r) \<and>
     (\<forall>p. version_value v r = Some p \<longrightarrow> version_value v' r' = Some p)) (rows (secret_versions d)) (rows (secret_versions d'))"
  shows "vault_values v d \<subseteq>\<^sub>m vault_values v' d'"
proof -
  have "find (\<lambda>r. (v_secret_id r, v_version r) = k) rs = Some r \<Longrightarrow>
      \<exists>r'. find (\<lambda>r. (v_secret_id r, v_version r) = k) rs' = Some r' \<and>
        (\<forall>p. version_value v r = Some p \<longrightarrow> version_value v' r' = Some p)"
    if "list_all2 (\<lambda>r r'. (v_secret_id r', v_version r') = (v_secret_id r, v_version r) \<and>
     (\<forall>p. version_value v r = Some p \<longrightarrow> version_value v' r' = Some p)) rs rs'" for rs rs' k r
    using that by (induction rule: list_all2_induct) (auto split: if_splits)
  from this [OF assms] show ?thesis
    by (fastforce simp: map_le_def vault_values_def version_row_at_def tbl_find_def Option.bind_eq_Some_conv dom_def)
qed

lemma version_value_keys:
  assumes "\<And>f :: bytes \<Rightarrow> crypto_error + bytes. \<And>x. with_kek v n f = Some x \<Longrightarrow> with_kek v' n f = Some x"
    and "vt_lib v' = vt_lib v" "\<And>k i n. context_of v' k i n = context_of v k i n" "x_kek (v_payload r) = int n"
    and "version_value v r = Some p"
  shows "version_value v' r = Some p"
proof -
  obtain e where e: "parse_encrypted (v_payload r) = Inr e"
    "decrypt_record v e SecretVersion WrappedDataKey (v_secret_id r) (nat (v_version r)) = Inr p"
    using assms(5) by (auto simp: version_value_def split: sum.splits)
  have "er_kek_version e = n" using e(1) assms(4)
    by (auto simp: parse_encrypted_def u32_of_i64_def result_simps split: if_splits)
  then have "decrypt_record v' e SecretVersion WrappedDataKey (v_secret_id r) (nat (v_version r)) = Inr p"
    using e(2) assms(1-3) unfolding decrypt_record_def rbind_eq_Inr ok_or_eq_Inr by metis
  then show ?thesis using e(1) by (simp add: version_value_def)
qed

lemma rewrapped_version_value:
  assumes "rewrap_item v job random source = Inr rw" "aead_correct (vt_lib v)" "ri_kind source = SecretVersionItem"
    and "v_secret_id r = ri_object_id source" "v_version r = int (ri_object_version source)"
    and "x_dek_nonce (v_payload r) = ri_nonce source" "x_wrapped_dek (v_payload r) = ri_wrapped_key source"
    and "x_kek (v_payload r) = int (kj_source job)" "kj_target job \<le> u32_max"
    and "version_check (r\<lparr>v_payload := rewrap_cols job rw (v_payload r)\<rparr>)" "version_value v r = Some p"
  shows "version_value v (r\<lparr>v_payload := rewrap_cols job rw (v_payload r)\<rparr>) = Some p"
proof -
  obtain e where e: "parse_encrypted (v_payload r) = Inr e"
    "decrypt_record v e SecretVersion WrappedDataKey (ri_object_id source) (ri_object_version source) = Inr p"
    using assms(4,5,11) by (auto simp: version_value_def split: sum.splits)
  have er: "er_kek_version e = kj_source job" "er_dek_nonce e = ri_nonce source" "er_wrapped_dek e = ri_wrapped_key source"
    using e(1) assms(6-8) by (auto simp: parse_encrypted_def u32_of_i64_def result_simps split: if_splits)
  let ?e = "e\<lparr>er_dek_nonce := rw_nonce rw, er_wrapped_dek := rw_wrapped_key rw, er_kek_version := kj_target job\<rparr>"
  have "parse_encrypted (rewrap_cols job rw (v_payload r)) = Inr ?e"
    using e(1) assms(9,10)
    by (auto simp: parse_encrypted_def rewrap_cols_def version_check_def enc_check_def u32_of_i64_def try_into_array_def
        result_simps split: if_splits)
  moreover have "decrypt_record v ?e SecretVersion WrappedDataKey (ri_object_id source) (ri_object_version source) = Inr p"
    using decrypt_rewrapped [OF assms(1,2) er, of WrappedDataKey] e(2) assms(3) by simp
  ultimately show ?thesis using assms(4,5) by (simp add: version_value_def)
qed

text \<open>An item read from the version table describes the row under its rowid.\<close>

definition describes :: "kek_rotation_job \<Rightarrow> db \<Rightarrow> rewrap_item \<Rightarrow> bool" where
  "describes job d item = (ri_kind item = SecretVersionItem \<longrightarrow>
     (\<forall>(i, r) \<in> set (secret_versions d). i = ri_row_id item \<and> x_kek (v_payload r) = int (kj_source job) \<longrightarrow>
        v_secret_id r = ri_object_id item \<and> v_version r = int (ri_object_version item) \<and>
        x_dek_nonce (v_payload r) = ri_nonce item \<and> x_wrapped_dek (v_payload r) = ri_wrapped_key item))"

lemma next_rewrap_batch_job:
  assumes "next_rewrap_batch job limit d = Inr items"
  shows "active_kek_rotation d = Inr (Some job)"
    "traverse (parse_rewrap_item (kj_stage job)) (stage_query (kj_stage job) (int (kj_source job)) (kj_last_row_id job) limit d) = Inr items"
  using assms by (auto simp: next_rewrap_batch_def result_simps)

lemma traverse_set_Inr: "traverse f xs = Inr ys \<Longrightarrow> y \<in> set ys \<Longrightarrow> \<exists>x \<in> set xs. f x = Inr y"
  by (induction xs arbitrary: ys) (auto simp: result_simps)

lemma next_rewrap_batch_describes:
  assumes "next_rewrap_batch job limit d = Inr items" "distinct (map fst (secret_versions d))" "item \<in> set items"
  shows "describes job d item"
proof (cases "ri_kind item = SecretVersionItem")
  case False
  then show ?thesis by (simp add: describes_def)
next
  case True
  obtain q where q: "q \<in> set (stage_query (kj_stage job) (int (kj_source job)) (kj_last_row_id job) limit d)"
    "parse_rewrap_item (kj_stage job) q = Inr item"
    using traverse_set_Inr [OF next_rewrap_batch_job(2) [OF assms(1)] assms(3)] by blast
  have "stage_kind (kj_stage job) subtype = Inr SecretVersionItem \<Longrightarrow> kj_stage job = SecretVersions" for subtype
    by (cases "kj_stage job") (auto simp: stage_kind_def parse_auxiliary_kind_def split: if_splits)
  then have stage: "kj_stage job = SecretVersions"
    using q(2) True by (cases q) (auto simp: parse_rewrap_item_def result_simps)
  obtain i r where row: "(i, r) \<in> set (secret_versions d)"
    and "q = (i, ''secret_version'', v_secret_id r, v_version r, x_dek_nonce (v_payload r), x_wrapped_dek (v_payload r))"
    using q(1) by (auto simp: stage_query_def stage scan_def dest!: in_set_takeD)
  then have "ri_row_id item = i" "ri_object_id item = v_secret_id r" "int (ri_object_version item) = v_version r"
    "ri_nonce item = x_dek_nonce (v_payload r)" "ri_wrapped_key item = x_wrapped_dek (v_payload r)"
    using q(2) by (auto simp: parse_rewrap_item_def parse_uuid_def u64_of_i64_def result_simps split: if_splits)
  then show ?thesis using row assms(2) by (auto simp: describes_def dest: eq_key_imp_eq_value)
qed

lemma update_rewrap_versions:
  assumes "update_rewrap job rw d = Inr (c, d')"
  shows "secret_versions d' = (if ri_kind (rw_source rw) = SecretVersionItem then
      tbl_update_at (\<lambda>i v. i = ri_row_id (rw_source rw) \<and> x_kek (v_payload v) = int (kj_source job))
        (\<lambda>v. v\<lparr>v_payload := rewrap_cols job rw (v_payload v)\<rparr>) (secret_versions d) else secret_versions d)"
    "ri_kind (rw_source rw) = SecretVersionItem \<Longrightarrow> (i, r) \<in> set (secret_versions d) \<Longrightarrow> i = ri_row_id (rw_source rw) \<Longrightarrow>
      x_kek (v_payload r) = int (kj_source job) \<Longrightarrow> version_check (r\<lparr>v_payload := rewrap_cols job rw (v_payload r)\<rparr>)"
  using assms by (auto simp: update_rewrap_def Let_def result_simps split: rewrap_kind.splits)

lemma update_rewrap_describes:
  assumes "update_rewrap job rw d = Inr (c, d')" "describes job d item" "ri_row_id item \<noteq> ri_row_id (rw_source rw)"
  shows "describes job d' item"
  using assms(2,3) by (auto simp: describes_def update_rewrap_versions(1) [OF assms(1)] tbl_update_at_def split: if_splits)

lemma update_rewrap_values:
  assumes "rewrap_item v job random (rw_source rw) = Inr rw" "aead_correct (vt_lib v)" "kj_target job \<le> u32_max"
    and "update_rewrap job rw d = Inr (c, d')" "describes job d (rw_source rw)"
  shows "vault_values v d \<subseteq>\<^sub>m vault_values v d'" "map fst (secret_versions d') = map fst (secret_versions d)"
proof -
  note upd = update_rewrap_versions [OF assms(4)]
  show "map fst (secret_versions d') = map fst (secret_versions d)" using upd(1) by (simp split: if_splits)
  show "vault_values v d \<subseteq>\<^sub>m vault_values v d'"
  proof (cases "ri_kind (rw_source rw) = SecretVersionItem")
    case False
    then show ?thesis using upd(1) values_same [of d' d v] by simp
  next
    case True
    let ?p = "\<lambda>i v. i = ri_row_id (rw_source rw) \<and> x_kek (v_payload v) = int (kj_source job)"
      and ?f = "\<lambda>v. v\<lparr>v_payload := rewrap_cols job rw (v_payload v)\<rparr>"
    have "version_value v (?f r) = Some p" if "(i, r) \<in> set (secret_versions d)" "?p i r" "version_value v r = Some p" for i r p
      using rewrapped_version_value [OF assms(1,2) True _ _ _ _ _ assms(3), of r p] upd(2) [OF True, of i r] assms(5) that True
      by (auto simp: describes_def)
    then show ?thesis using True upd(1)
      by (intro values_rows) (auto simp: rows_def tbl_update_at_def list.rel_map list_all2_same)
  qed
qed

lemma apply_rewrap_rowids:
  "try_fold (apply_rewrap_item job) (l, d) items = Inr (l', d') \<Longrightarrow> rw \<in> set items \<Longrightarrow> l < ri_row_id (rw_source rw)"
  by (induction items arbitrary: l d) (fastforce simp: apply_rewrap_item_def result_simps)+

lemma apply_rewrap_values:
  assumes "try_fold (apply_rewrap_item job) (l, d) items = Inr (l', d')"
    and "\<And>rw. rw \<in> set items \<Longrightarrow> (\<exists>random. rewrap_item v job random (rw_source rw) = Inr rw) \<and> describes job d (rw_source rw)"
    and "aead_correct (vt_lib v)" "kj_target job \<le> u32_max"
  shows "vault_values v d \<subseteq>\<^sub>m vault_values v d' \<and> map fst (secret_versions d') = map fst (secret_versions d)"
  using assms(1,2)
proof (induction items arbitrary: l d)
  case Nil
  then show ?case by simp
next
  case (Cons rw items)
  obtain d1 where step: "update_rewrap job rw d = Inr (1, d1)"
    and rest: "try_fold (apply_rewrap_item job) (ri_row_id (rw_source rw), d1) items = Inr (l', d')"
    using Cons.prems(1) by (auto simp: apply_rewrap_item_def result_simps)
  obtain random where random: "rewrap_item v job random (rw_source rw) = Inr rw" using Cons.prems(2) by auto
  note upd = update_rewrap_values [OF random assms(3,4) step]
  have "vault_values v d1 \<subseteq>\<^sub>m vault_values v d' \<and> map fst (secret_versions d') = map fst (secret_versions d1)"
    using Cons.prems(2) apply_rewrap_rowids [OF rest] update_rewrap_describes [OF step]
    by (intro Cons.IH [OF rest]) fastforce
  then show ?case using upd Cons.prems(2) by (auto intro: map_le_trans)
qed

lemma rewrap_items_set:
  assumes "rewrap_items v job nonce src = Inr rws" "rw \<in> set rws" "aead_correct (vt_lib v)"
  shows "rw_source rw \<in> set src \<and> (\<exists>random. rewrap_item v job random (rw_source rw) = Inr rw)"
proof -
  obtain i item where "(i, item) \<in> set (enumerate 0 src)" "rewrap_item v job (nonce i) item = Inr rw"
    using traverse_set_Inr [OF assms(1) [unfolded rewrap_items_def] assms(2)] by auto
  then have "rw_source rw = item" "item \<in> set src" using rewrap_item_Inr [OF _ assms(3)] by (auto simp: in_set_enumerate_eq)
  then show ?thesis using \<open>rewrap_item v job (nonce i) item = Inr rw\<close> by blast
qed

lemma batch_keeps_values:
  assumes "next_rewrap_batch job limit (lv_db s) = Inr src" "rewrap_items (lv_vault s) job nonce src = Inr rws"
    and "apply_rewrap_batch job rws now (lv_db s) = (r, d)"
    and "aead_correct (vt_lib (lv_vault s))" "distinct (map fst (secret_versions (lv_db s)))"
  shows "keeps_values s (s\<lparr>lv_db := d\<rparr>)"
proof (cases r)
  case (Inl e)
  then have "d = lv_db s" using assms(3) by (auto simp: apply_rewrap_batch_def guarded_Inl dest: transaction_Inl)
  then show ?thesis by simp
next
  case (Inr job')
  obtain l d1 js where fold: "try_fold (apply_rewrap_item job) (kj_last_row_id job, lv_db s) rws = Inr (l, d1)"
    and d: "d = d1\<lparr>maintenance_jobs := js\<rparr>"
    using apply_rewrap_batch_Inr [OF assms(3) [unfolded Inr]] by metis
  have "kj_target job \<le> u32_max" using next_rewrap_batch_job(1) [OF assms(1)] by (rule active_kek_rotation_keys)
  then have "vault_values (lv_vault s) (lv_db s) \<subseteq>\<^sub>m vault_values (lv_vault s) d1 \<and>
      map fst (secret_versions d1) = map fst (secret_versions (lv_db s))"
    using rewrap_items_set [OF assms(2) _ assms(4)] next_rewrap_batch_describes [OF assms(1,5)]
    by (intro apply_rewrap_values [OF fold _ assms(4)]) blast
  moreover have "vault_values (lv_vault s) d = vault_values (lv_vault s) d1" unfolding d by (rule values_same) simp
  ultimately show ?thesis by (simp add: keeps_values_def d)
qed

lemma on_store_pair: "on_store op s = (case op (lv_db s) of (r, d) \<Rightarrow> (map_err map_storage r, s\<lparr>lv_db := d\<rparr>))"
  by (simp add: on_store_def)

lemma with_kek_installed:
  assumes "install_active_kek m key v = (Inr (), v')" "with_kek v n f = Some x"
  shows "with_kek v' n f = Some x"
  using assms by (auto simp: install_active_kek_def with_kek_Some split: option.splits if_splits)

lemma with_kek_retired:
  assumes "retire_kek m v = (r, v')" "with_kek v n f = Some x" "n \<noteq> m"
  shows "with_kek v' n f = Some x"
  using assms by (auto simp: retire_kek_def with_kek_Some split: option.splits if_splits)

lemma key_changes_keep:
  "install_active_kek m key v = (Inr (), v') \<Longrightarrow> vt_lib v' = vt_lib v \<and> context_of v' k i n = context_of v k i n"
  "retire_kek m v = (r, v') \<Longrightarrow> vt_lib v' = vt_lib v \<and> context_of v' k i n = context_of v k i n"
  by (auto simp: install_active_kek_def retire_kek_def context_of_def split: option.splits if_splits)

lemma version_value_kek:
  "version_value v r = Some p \<Longrightarrow> \<exists>n. x_kek (v_payload r) = int n"
  by (auto simp: version_value_def parse_encrypted_def u32_of_i64_def result_simps split: sum.splits if_splits
      intro: exI [of _ "nat (x_kek (v_payload r))"])

lemma finish_keeps_values:
  assumes "finish_rotation ev oper job s = (r, s')"
  shows "keeps_values s s'"
proof -
  consider (no) "s' = s" | (stored) audit d v q where "finish_kek_rotation job (oc_now oper) audit (lv_db s) = (Inr (), d)"
      "retire_kek (kj_source job) (lv_vault s) = (q, v)" "s' = s\<lparr>lv_db := d, lv_vault := v\<rparr>"
  proof (cases "build_audit (lv_vault s) ev ''key:rotate-complete'' ''key'' None oper (lv_db s)")
    case (Inl e)
    then show thesis using assms no by (simp add: finish_rotation_def reading_def guarded_def)
  next
    case (Inr audit)
    obtain q d where fin: "finish_kek_rotation job (oc_now oper) audit (lv_db s) = (q, d)" by fastforce
    obtain q' v where ret: "retire_kek (kj_source job) (lv_vault s) = (q', v)" by fastforce
    show thesis
    proof (cases q)
      case (Inl e)
      then have "d = lv_db s" using rotation_finish.failure_unchanged [of "(job, oc_now oper)"] fin by auto
      then show thesis using assms Inr Inl fin no by (simp add: finish_rotation_def reading_def guarded_def sbind_def on_store_def)
    next
      case ok: (Inr x)
      then show thesis using assms Inr fin ret stored [of audit d q' v]
        by (simp add: finish_rotation_def reading_def guarded_def sbind_def on_store_def on_keys_def)
    qed
  qed
  then show ?thesis
  proof cases
    case no
    then show ?thesis by simp
  next
    case stored
    note fin = finish_kek_rotation_Inr [OF stored(1)]
    then have vers: "secret_versions d = secret_versions (lv_db s)" by auto
    have "x_kek (v_payload r) \<noteq> int (kj_source job)" if "r \<in> set (rows (secret_versions (lv_db s)))" for r
      using fin that by (auto simp: source_inventory_def)
    then have "version_value v r = Some p" if "r \<in> set (rows (secret_versions (lv_db s)))" "version_value (lv_vault s) r = Some p" for r p
      using version_value_keys [of "lv_vault s" _ v] with_kek_retired [OF stored(2)] key_changes_keep(2) [OF stored(2)]
        version_value_kek [OF that(2)] that by (metis (no_types, lifting))
    then have "vault_values (lv_vault s) (lv_db s) \<subseteq>\<^sub>m vault_values v d"
      unfolding vers by (intro values_rows) (simp add: vers list_all2_same)
    then show ?thesis using key_changes_keep(2) [OF stored(2)] by (simp add: keeps_values_def stored(3) vers)
  qed
qed

lemma start_keeps_values:
  assumes "start_kek_rotation ent oper s = (Inr job, s')"
  shows "keeps_values s s'"
proof -
  obtain ring :: key_ring and key and w :: sealed_record and audit d v where start:
    "begin_kek_rotation (re_job_id ent) (kr_active_version ring) \<lparr>wk_kind = KeyEncryption, wk_version = kr_active_version ring + 1,
       wk_object_id = re_object_id ent, wk_wrapping_kek_version = None, wk_nonce = sl_nonce w, wk_ciphertext = sl_ciphertext w\<rparr>
       (oc_now oper) audit (lv_db s) = (Inr job, d)"
    "install_active_kek (kr_active_version ring + 1) key (lv_vault s) = (Inr (), v)" "s' = s\<lparr>lv_db := d, lv_vault := v\<rparr>"
    by (rule start_kek_rotation_Inr [OF assms]) blast
  have vers: "secret_versions d = secret_versions (lv_db s)" using begin_kek_rotation_Inr [OF start(1)] by auto
  have "version_value v r = Some p" if "version_value (lv_vault s) r = Some p" for r p
    using version_value_keys [of "lv_vault s" _ v] with_kek_installed [OF start(2)] key_changes_keep(1) [OF start(2)]
      version_value_kek [OF that] that by (metis (no_types, lifting))
  then have "vault_values (lv_vault s) (lv_db s) \<subseteq>\<^sub>m vault_values v d"
    by (intro values_rows) (simp add: vers list_all2_same)
  then show ?thesis using key_changes_keep(1) [OF start(2)] by (simp add: keeps_values_def start(3) vers)
qed

lemma on_store_Inl: "on_store op s = (Inl e, s') \<longleftrightarrow> (\<exists>f d. op (lv_db s) = (Inl f, d) \<and> e = map_storage f \<and> s' = s\<lparr>lv_db := d\<rparr>)"
  by (auto simp: on_store_def map_err_def split: prod.splits sum.splits)

lemma values_of_same_rows:
  assumes "lv_vault s' = lv_vault s" "secret_versions (lv_db s') = secret_versions (lv_db s)"
  shows "keeps_values s s'"
  using assms values_same [OF assms(2), of "lv_vault s"] by (simp add: keeps_values_def)

lemma start_failure_keeps_values:
  assumes "start_kek_rotation ent oper s = (Inl e, s')"
  shows "keeps_values s s'"
proof (rule values_of_same_rows)
  have "lv_vault s' = lv_vault s \<and> secret_versions (lv_db s') = secret_versions (lv_db s)"
    using assms unfolding start_kek_rotation_def reading_Inl
    by (auto simp: sbind_Inl on_store_Inl on_store_Inr on_keys_def install_active_kek_def
        dest!: rotation_begin.failure_unchanged [of "(_, _, _, _)", simplified] begin_kek_rotation_Inr split: option.splits if_splits)
  then show "lv_vault s' = lv_vault s" "secret_versions (lv_db s') = secret_versions (lv_db s)" by simp_all
qed

lemma advance_keeps_values:
  assumes "advance_rotation_stage job now (lv_db s) = (r, d)"
  shows "keeps_values s (s\<lparr>lv_db := d\<rparr>)"
proof (cases r)
  case (Inl e)
  then show ?thesis using assms by (auto simp: advance_rotation_stage_def guarded_Inl dest: transaction_Inl)
next
  case (Inr job')
  then show ?thesis using advance_rotation_stage_Inr assms by (intro values_of_same_rows) fastforce+
qed

lemma resume_loop_keeps_values:
  assumes "resume_loop ev nonce max_batches batch_size oper left job s = (r, s')"
    and "aead_correct (vt_lib (lv_vault s))" "distinct (map fst (secret_versions (lv_db s)))"
  shows "keeps_values s s'"
  using assms
proof (induction ev nonce max_batches batch_size oper left job s rule: resume_loop.induct)
  case (1 ev nonce max_batches batch_size oper left job s)
  show ?case
  proof (cases "kj_stage job = Finalize \<or> left = 0")
    case True
    then show ?thesis using "1.prems"(1)
      by (subst (asm) resume_loop.simps) (auto split: if_splits prod.splits sum.splits dest: finish_keeps_values)
  next
    case more: False
    show ?thesis
    proof (cases "next_rewrap_batch job batch_size (lv_db s)")
      case (Inl e)
      then show ?thesis using more "1.prems"(1) by (subst (asm) resume_loop.simps) auto
    next
      case src: (Inr src)
      show ?thesis
      proof (cases "src = []")
        case True
        obtain q d where adv: "advance_rotation_stage job (oc_now oper) (lv_db s) = (q, d)" by fastforce
        note step = advance_keeps_values [OF adv]
        show ?thesis
        proof (cases q)
          case (Inl e)
          then show ?thesis using more src True adv step "1.prems"(1) by (subst (asm) resume_loop.simps) auto
        next
          case (Inr job')
          have "resume_loop ev nonce max_batches batch_size oper left job' (s\<lparr>lv_db := d\<rparr>) = (r, s')"
            using more src True adv Inr "1.prems"(1) by (subst (asm) resume_loop.simps) auto
          then have "keeps_values (s\<lparr>lv_db := d\<rparr>) s'"
            using "1.IH"(1) [OF _ _ src True adv [symmetric] Inr] more step "1.prems"(2,3) by (simp add: keeps_values_def)
          then show ?thesis using step keeps_values_trans by blast
        qed
      next
        case nonempty: False
        show ?thesis
        proof (cases "rewrap_items (lv_vault s) job (nonce left) src")
          case (Inl e)
          then show ?thesis using more src nonempty "1.prems"(1) by (subst (asm) resume_loop.simps) auto
        next
          case rw: (Inr rw)
          obtain q d where app: "apply_rewrap_batch job rw (oc_now oper) (lv_db s) = (q, d)" by fastforce
          note step = batch_keeps_values [OF src rw app "1.prems"(2,3)]
          show ?thesis
          proof (cases q)
            case (Inl e)
            then show ?thesis using more src nonempty rw app step "1.prems"(1) by (subst (asm) resume_loop.simps) auto
          next
            case (Inr job')
            have "resume_loop ev nonce max_batches batch_size oper (left - 1) job' (s\<lparr>lv_db := d\<rparr>) = (r, s')"
              using more src nonempty rw app Inr "1.prems"(1) by (subst (asm) resume_loop.simps) auto
            then have "keeps_values (s\<lparr>lv_db := d\<rparr>) s'"
              using "1.IH"(2) [OF _ _ src nonempty rw app [symmetric] Inr] more step "1.prems"(2,3) by (simp add: keeps_values_def)
            then show ?thesis using step keeps_values_trans by blast
          qed
        qed
      qed
    qed
  qed
qed

lemma resume_keeps_values:
  assumes "resume_kek_rotation ev nonce m b oper s = (r, s')"
    and "aead_correct (vt_lib (lv_vault s))" "distinct (map fst (secret_versions (lv_db s)))"
  shows "keeps_values s s'"
  using assms resume_loop_keeps_values by (cases r) (auto simp: resume_kek_rotation_def reading_Inl reading_Inr)

definition rotatable :: "live \<Rightarrow> bool" where
  "rotatable s = (aead_correct (vt_lib (lv_vault s)) \<and> distinct (map fst (secret_versions (lv_db s))))"

lemma rotatable_kept: "keeps_values s s' \<Longrightarrow> rotatable s \<Longrightarrow> rotatable s'"
  by (simp add: rotatable_def keeps_values_def)

lemma resume_until_done_keeps_values:
  assumes "resume_until_done ev nonce oper n s = Some (r, s')" "rotatable s"
  shows "keeps_values s s'"
proof -
  have "rotatable s \<longrightarrow> keeps_values s (snd (r, s'))"
  proof (rule resume_until_done.raw_induct [where P = "\<lambda>_ _ _ _ s y. rotatable s \<longrightarrow> keeps_values s (snd y)", OF _ assms(1)])
    fix until ev nonce oper n s y
    assume ih: "\<And>ev nonce oper n s y. until ev nonce oper n s = Some y \<Longrightarrow> rotatable s \<longrightarrow> keeps_values s (snd y)"
      and body: "(case resume_kek_rotation (ev n) (nonce n) 64 64 oper s of (Inl e, s') \<Rightarrow> Some (Inl e, s')
        | (Inr progress, s') \<Rightarrow> if rp_completed progress then Some (Inr (), s') else until ev nonce oper (Suc n) s') = Some y"
    obtain q s1 where res: "resume_kek_rotation (ev n) (nonce n) 64 64 oper s = (q, s1)" by fastforce
    have "s1 = snd y \<or> until ev nonce oper (Suc n) s1 = Some y" using body res by (auto split: sum.splits if_splits)
    moreover have "keeps_values s s1" if "rotatable s" using that resume_keeps_values [OF res] by (simp add: rotatable_def)
    ultimately show "rotatable s \<longrightarrow> keeps_values s (snd y)"
      using ih rotatable_kept keeps_values_trans by blast
  qed
  then show ?thesis using assms(2) by simp
qed

lemma rotation_keeps_values:
  assumes "rotate_kek_to_completion ent ev nonce oper s = Some (r, s')" "rotatable s"
  shows "keeps_values s s'"
proof -
  obtain q s1 where start: "start_kek_rotation ent oper s = (q, s1)" by fastforce
  then have "keeps_values s s1" using start_keeps_values start_failure_keeps_values by (cases q) auto
  moreover have "s1 = s' \<or> resume_until_done ev nonce oper 0 s1 = Some (r, s')"
    using assms(1) start by (auto simp: rotate_kek_to_completion_def split: sum.splits)
  ultimately show ?thesis
    using resume_until_done_keeps_values assms(2) keeps_values_trans rotatable_kept by blast
qed

end
