(* ===== verification/Rotation_Properties.thy ===== *)
theory Rotation_Properties
  imports App_Rotation Sample_Update
begin

text \<open>
  What the rotation of the key-encryption key promises: it always returns, and whatever the outcome
  the values the vault holds stay readable.
\<close>

text \<open>The sample vault with its key-encryption key registered, its root key loaded, and the draws of a rotation.\<close>

definition rotation_live :: live where
  "rotation_live = \<lparr>lv_vault = sample_vault, lv_root = Some (h32 9),
     lv_db = live_db\<lparr>key_registry := [(1, key_at KeyEncryption 1 31 None ''active'')]\<rparr>\<rparr>"

definition rotation_draws :: rotation_entropy where
  "rotation_draws = \<lparr>re_key = Some (h32 8), re_object_id = sid 35, re_nonce = Some (replicate 24 9),
     re_job_id = sid 50, re_event_id = sid 51\<rparr>"

lemma live_value: "vault_values sample_vault live_db (sid 20, 1) = Some [42, 43]"
proof -
  have "parse_encrypted (enc_cols_of (sealed [42, 43])) = Inr (sealed [42, 43])"
    by (simp add: parse_encrypted_def sealed_def enc_cols_of_def u32_of_i64_def u32_max_def)
  then show ?thesis
    by (simp add: vault_values_def version_row_at_def version_value_def live_db_def empty_db_def tbl_find_def rows_def)
qed

text \<open>C16. Rotating the key-encryption key to completion always returns, with success or an error: every
  resumption that does not finish has moved rows off the retiring key, so they cannot go on forever.\<close>

theorem rotation_terminates:
  "\<exists>r s'. rotate_kek_to_completion ent ev nonce oper s = Some (r, s')"
  using rotate_kek_returns [of ent ev nonce oper s] by auto

text \<open>C6. A rotation loses no secret: whatever its outcome, even after a failure half way, every value
  that could be decrypted before it decrypts to the same bytes under the keys loaded after it.\<close>

theorem rotation_preserves_values:
  assumes "rotate_kek_to_completion ent ev nonce oper s = Some (r, s')"
    and "aead_correct (vt_lib (lv_vault s))" "distinct (map fst (secret_versions (lv_db s)))"
  shows "vault_values (lv_vault s) (lv_db s) \<subseteq>\<^sub>m vault_values (lv_vault s') (lv_db s')"
  using rotation_keeps_values [OF assms(1)] assms(2,3) by (simp add: rotatable_def keeps_values_def)

theorem rotation_preserves_values_witness:
  "\<exists>r s'. rotate_kek_to_completion rotation_draws (\<lambda>n. sid (80 + n)) (\<lambda>_ _ _. Some (replicate 24 9)) owner_oper rotation_live = Some (r, s') \<and>
     vault_values (lv_vault s') (lv_db s') (sid 20, 1) = Some [42, 43]"
proof -
  obtain r s' where run: "rotate_kek_to_completion rotation_draws (\<lambda>n. sid (80 + n)) (\<lambda>_ _ _. Some (replicate 24 9)) owner_oper rotation_live = Some (r, s')"
    using rotate_kek_returns [of rotation_draws "\<lambda>n. sid (80 + n)" "\<lambda>_ _ _. Some (replicate 24 9)" owner_oper rotation_live] by auto
  have "secret_versions (lv_db rotation_live) = secret_versions live_db" by (simp add: rotation_live_def)
  then have held: "vault_values (lv_vault rotation_live) (lv_db rotation_live) (sid 20, 1) = Some [42, 43]"
    using live_value values_same [of "lv_db rotation_live" live_db] by (simp add: rotation_live_def)
  have "vault_values (lv_vault rotation_live) (lv_db rotation_live) \<subseteq>\<^sub>m vault_values (lv_vault s') (lv_db s')"
    using sample_lib_correct(1) by (intro rotation_preserves_values [OF run]) (simp_all add: rotation_live_def live_db_def)
  then show ?thesis using run held by (force simp: map_le_def dom_def)
qed

end
