(* ===== verification/Root_Key.thy ===== *)
theory Root_Key
  imports Crypto_Adapter
begin

text \<open>
  The provider file of the root key (\<open>create_root_key_file\<close>, \<open>load_root_key_file\<close> of
  \<open>src/crates/smcv-crypto/src/lib.rs\<close>).  A file is its bytes and whether it is a readable regular
  file without group and other permissions; what the file system does with a creation is an
  argument.
\<close>

definition ROOT_KEY_MAGIC :: bytes where "ROOT_KEY_MAGIC = ascii ''SMCVKEY1''"

definition ROOT_KEY_FILE_LENGTH :: nat where "ROOT_KEY_FILE_LENGTH = 72"

record root_file =
  rf_bytes :: bytes
  rf_restrictive :: bool

record root_key_record =
  rt_vault_id :: uuid
  rt_installation_id :: uuid
  rt_key :: bytes

text \<open>The file may not open, the write may stop after some bytes, or only the synchronization of the
  directory may fail.\<close>

datatype create_outcome = CreateRefused | WriteStopped nat | DirectoryUnsynced | Created

definition root_key_bytes :: "uuid \<Rightarrow> uuid \<Rightarrow> bytes \<Rightarrow> bytes" where
  "root_key_bytes vault_id installation_id key = ROOT_KEY_MAGIC @ vault_id @ installation_id @ key"

definition create_root_key_file :: "create_outcome \<Rightarrow> bytes option \<Rightarrow> uuid \<Rightarrow> uuid \<Rightarrow> root_file option \<Rightarrow>
    (crypto_error + bytes) \<times> root_file option" where
  "create_root_key_file outcome random vault_id installation_id file =
     (case random of None \<Rightarrow> (Inl Randomness, file) | Some key \<Rightarrow>
       if file \<noteq> None then (Inl KeyProvider, file)
       else case outcome of
           CreateRefused \<Rightarrow> (Inl KeyProvider, file)
         | WriteStopped n \<Rightarrow> (Inl KeyProvider, Some \<lparr>rf_bytes = take n (root_key_bytes vault_id installation_id key), rf_restrictive = True\<rparr>)
         | DirectoryUnsynced \<Rightarrow> (Inl KeyProvider, Some \<lparr>rf_bytes = root_key_bytes vault_id installation_id key, rf_restrictive = True\<rparr>)
         | Created \<Rightarrow> (Inr key, Some \<lparr>rf_bytes = root_key_bytes vault_id installation_id key, rf_restrictive = True\<rparr>))"

definition load_root_key_file :: "root_file option \<Rightarrow> crypto_error + root_key_record" where
  "load_root_key_file file =
     rbind (ok_or KeyProvider file) (\<lambda>f.
     rbind (ensure (length (rf_bytes f) = ROOT_KEY_FILE_LENGTH \<and> rf_restrictive f) KeyProvider) (\<lambda>_.
     rbind (ensure (take 8 (rf_bytes f) = ROOT_KEY_MAGIC) KeyProvider) (\<lambda>_.
     Inr \<lparr>rt_vault_id = take 16 (drop 8 (rf_bytes f)), rt_installation_id = take 16 (drop 24 (rf_bytes f)),
          rt_key = take 32 (drop 40 (rf_bytes f))\<rparr>)))"

section \<open>Lemmas\<close>

lemma root_magic_length [simp]: "length ROOT_KEY_MAGIC = 8"
  by (simp add: ROOT_KEY_MAGIC_def)

lemma load_root_key_bytes:
  assumes "length vault_id = 16" "length installation_id = 16" "length key = 32"
  shows "load_root_key_file (Some \<lparr>rf_bytes = root_key_bytes vault_id installation_id key, rf_restrictive = True\<rparr>) =
    Inr \<lparr>rt_vault_id = vault_id, rt_installation_id = installation_id, rt_key = key\<rparr>"
  using assms by (simp add: load_root_key_file_def root_key_bytes_def ROOT_KEY_FILE_LENGTH_def ensure_def)

lemma create_root_key_Inr:
  assumes "create_root_key_file outcome random vault_id installation_id file = (Inr key, file')"
  shows "random = Some key \<and> file = None \<and>
    file' = Some \<lparr>rf_bytes = root_key_bytes vault_id installation_id key, rf_restrictive = True\<rparr>"
  using assms by (auto simp: create_root_key_file_def split: option.splits if_splits create_outcome.splits)

text \<open>A creation that failed half way leaves a file that no later load takes for a root key.\<close>

lemma partial_root_refused:
  assumes "create_root_key_file (WriteStopped n) (Some key) vault_id installation_id None = (r, file)"
    and "n < ROOT_KEY_FILE_LENGTH" "length vault_id = 16" "length installation_id = 16" "length key = 32"
  shows "load_root_key_file file = Inl KeyProvider"
proof -
  have "file = Some \<lparr>rf_bytes = take n (root_key_bytes vault_id installation_id key), rf_restrictive = True\<rparr>"
    using assms(1) by (simp add: create_root_key_file_def)
  moreover have "length (take n (root_key_bytes vault_id installation_id key)) = n"
    using assms(2-5) by (simp add: root_key_bytes_def ROOT_KEY_FILE_LENGTH_def)
  ultimately show ?thesis using assms(2) by (simp add: load_root_key_file_def ensure_def)
qed

lemma load_root_lengths:
  "load_root_key_file file = Inr r \<Longrightarrow> length (rt_vault_id r) = 16 \<and> length (rt_installation_id r) = 16 \<and> length (rt_key r) = 32"
  by (auto simp: load_root_key_file_def ROOT_KEY_FILE_LENGTH_def result_simps)

end
