(* ===== verification/App_Initialization.thy ===== *)
theory App_Initialization
  imports App_Rotation Root_Key
begin

text \<open>
  Starting a vault (\<open>src/crates/smcv-app/src/initialization.rs\<close>): the first start creates the root
  provider and the wrapped keys, every start unwraps and checks them, a restore stages its keys under
  the guard.  The host is the provider file and the database file; the outcomes of the path checks,
  of opening SQLite and of creating the provider file are part of the environment, as are the random
  draws.
\<close>

section \<open>State and environment\<close>

record host =
  ho_root :: "root_file option"
  ho_db :: "db option"

record bootstrap_draws =
  bd_kek :: "bytes option"
  bd_blind_index :: "bytes option"
  bd_audit :: "bytes option"
  bd_token_verifier :: "bytes option"
  bd_object_id :: "key_kind \<Rightarrow> uuid"
  bd_nonce :: "key_kind \<Rightarrow> bytes option"

record init_env =
  ie_lib :: crypto_lib
  ie_paths :: "initialization_error + unit"
  ie_open :: "storage_error + unit"
  ie_create :: create_outcome
  ie_vault_id :: uuid
  ie_installation_id :: uuid
  ie_root_key :: "bytes option"
  ie_draws :: bootstrap_draws
  ie_now :: unix_ms

record portable_vault_keys =
  pk_blind_index :: bytes
  pk_audit :: bytes
  pk_token_verifier :: bytes

text \<open>Opening a database file migrates a new one to the current schema; a new connection has a new mutex.\<close>

definition store_of :: "host \<Rightarrow> db" where
  "store_of h = (case ho_db h of None \<Rightarrow> empty_db | Some d \<Rightarrow> d\<lparr>poisoned := False\<rparr>)"

definition open_store :: "init_env \<Rightarrow> host \<Rightarrow> (initialization_error + unit) \<times> host" where
  "open_store env h = (case ie_open env of Inl e \<Rightarrow> (Inl (Storage e), h)
     | Inr _ \<Rightarrow> (Inr (), h\<lparr>ho_db := Some (store_of h)\<rparr>))"

definition stored :: "(db \<Rightarrow> (storage_error + 'a) \<times> db) \<Rightarrow> host \<Rightarrow> (initialization_error + 'a) \<times> host" where
  "stored op h = (case op (store_of h) of (r, d) \<Rightarrow> (map_err Storage r, h\<lparr>ho_db := Some d\<rparr>))"

section \<open>Wrapping keys\<close>

definition key_context :: "uuid \<Rightarrow> uuid \<Rightarrow> object_kind \<Rightarrow> uuid \<Rightarrow> nat \<Rightarrow> record_context" where
  "key_context vault_id installation_id object_kind object_id version =
     \<lparr>rc_vault_id = vault_id, rc_installation_id = installation_id, rc_object_kind = object_kind,
      rc_object_id = object_id, rc_object_version = version\<rparr>"

definition wrap_key :: "crypto_lib \<Rightarrow> uuid \<Rightarrow> bytes option \<Rightarrow> bytes \<Rightarrow> bytes \<Rightarrow> uuid \<Rightarrow> uuid \<Rightarrow> key_kind \<Rightarrow> object_kind \<Rightarrow>
    nat option \<Rightarrow> initialization_error + wrapped_key_record" where
  "wrap_key lib object_id random wrapping_key plaintext_key vault_id installation_id kind object_kind wrapping_kek_version =
     map_err Cryptography
       (rbind (seal lib random wrapping_key (key_context vault_id installation_id object_kind object_id 1) plaintext_key) (\<lambda>sealed.
        rbind (try_into_array 48 crypto_error.Integrity (sl_ciphertext sealed)) (\<lambda>ciphertext.
        Inr \<lparr>wk_kind = kind, wk_version = 1, wk_object_id = object_id, wk_wrapping_kek_version = wrapping_kek_version,
             wk_nonce = sl_nonce sealed, wk_ciphertext = ciphertext\<rparr>)))"

definition unwrap_key :: "crypto_lib \<Rightarrow> bytes \<Rightarrow> uuid \<Rightarrow> uuid \<Rightarrow> object_kind \<Rightarrow> wrapped_key_record \<Rightarrow> initialization_error + bytes" where
  "unwrap_key lib wrapping_key vault_id installation_id object_kind r =
     map_err Cryptography
       (rbind (open_record lib wrapping_key (key_context vault_id installation_id object_kind (wk_object_id r) (wk_version r))
          \<lparr>sl_nonce = wk_nonce r, sl_ciphertext = wk_ciphertext r\<rparr>) key_from_protected)"

definition unwrap_registry_key :: "crypto_lib \<Rightarrow> db \<Rightarrow> (nat \<rightharpoonup> bytes) \<Rightarrow> uuid \<Rightarrow> uuid \<Rightarrow> key_kind \<Rightarrow> object_kind \<Rightarrow>
    initialization_error + bytes" where
  "unwrap_registry_key lib d keks vault_id installation_id kind object_kind =
     rbind (map_err Storage (wrapped_key kind 1 d)) (\<lambda>r.
     rbind (ok_or (Storage StateConflict) (wk_wrapping_kek_version r)) (\<lambda>wrapping_version.
     rbind (ok_or (Storage StateConflict) (keks wrapping_version)) (\<lambda>kek.
     unwrap_key lib kek vault_id installation_id object_kind r)))"

definition create_bootstrap_with_keys :: "crypto_lib \<Rightarrow> bootstrap_draws \<Rightarrow> uuid \<Rightarrow> uuid \<Rightarrow> bytes \<Rightarrow> bytes \<Rightarrow> portable_vault_keys \<Rightarrow>
    unix_ms \<Rightarrow> initialization_error + bootstrap_record" where
  "create_bootstrap_with_keys lib dr vault_id installation_id root_key kek keys now =
     (let wrap = (\<lambda>k wrapping_key plain kind object_kind version.
            wrap_key lib (bd_object_id dr k) (bd_nonce dr k) wrapping_key plain vault_id installation_id kind object_kind version) in
      rbind (wrap KeyEncryption root_key kek KeyEncryption WrappedKeyEncryptionKey None) (\<lambda>key_encryption_key.
      rbind (wrap BlindIndex kek (pk_blind_index keys) BlindIndex object_kind.BlindIndexKey (Some 1)) (\<lambda>blind_index_key.
      rbind (wrap Audit kek (pk_audit keys) Audit object_kind.AuditKey (Some 1)) (\<lambda>audit_key.
      rbind (wrap TokenVerifier kek (pk_token_verifier keys) TokenVerifier VerifierKey (Some 1)) (\<lambda>token_verifier_key.
      Inr \<lparr>bs_vault_id = vault_id, bs_installation_id = installation_id, bs_initialized_at = now,
           bs_key_encryption_key = key_encryption_key, bs_blind_index_key = blind_index_key,
           bs_audit_key = audit_key, bs_token_verifier_key = token_verifier_key\<rparr>)))))"

definition generated :: "bytes option \<Rightarrow> initialization_error + bytes" where
  "generated draw = ok_or (Cryptography Randomness) draw"

definition create_bootstrap :: "crypto_lib \<Rightarrow> bootstrap_draws \<Rightarrow> uuid \<Rightarrow> uuid \<Rightarrow> bytes \<Rightarrow> unix_ms \<Rightarrow> initialization_error + bootstrap_record" where
  "create_bootstrap lib dr vault_id installation_id root_key now =
     rbind (generated (bd_kek dr)) (\<lambda>kek.
     rbind (generated (bd_blind_index dr)) (\<lambda>blind_index.
     rbind (generated (bd_audit dr)) (\<lambda>audit.
     rbind (generated (bd_token_verifier dr)) (\<lambda>token_verifier.
     create_bootstrap_with_keys lib dr vault_id installation_id root_key kek
       \<lparr>pk_blind_index = blind_index, pk_audit = audit, pk_token_verifier = token_verifier\<rparr> now))))"

section \<open>The state of the registry\<close>

definition validate_kek_registry_state :: "db \<Rightarrow> installation_record \<Rightarrow> registered_key list \<Rightarrow> initialization_error + unit" where
  "validate_kek_registry_state d inst keys =
     (let active_version = (case in_active_kek_version inst of None \<Rightarrow> 1 | Some n \<Rightarrow> n);
          nonretired = filter (\<lambda>k. rk_state k \<noteq> Retired) keys;
          sole = (\<lambda>version. (case nonretired of [k] \<Rightarrow> rk_state k = Active \<and> wk_version (rk_wrapped k) = version | _ \<Rightarrow> False)) in
      case in_activation_state inst of
        Initializing \<Rightarrow> ensure (in_active_kek_version inst = None \<and> sole 1) (Storage StateConflict)
      | Ready \<Rightarrow>
          rbind (ensure (sole active_version) (Storage StateConflict)) (\<lambda>_.
          rbind (map_err Storage (active_kek_rotation d)) (\<lambda>job.
          ensure (job = None) (Storage StateConflict)))
      | Maintenance \<Rightarrow>
          rbind (map_err Storage (active_kek_rotation d)) (\<lambda>active.
          rbind (ok_or (Storage StateConflict) active) (\<lambda>job.
          ensure (length nonretired = 2 \<and>
            list_ex (\<lambda>k. rk_state k = Active \<and> wk_version (rk_wrapped k) = kj_target job) nonretired \<and>
            list_ex (\<lambda>k. rk_state k = Retiring \<and> wk_version (rk_wrapped k) = kj_source job) nonretired \<and>
            active_version = kj_target job) (Storage StateConflict)))
      | Failed \<Rightarrow> Inl (Storage StateConflict))"

section \<open>Starting\<close>

definition active_version_of :: "installation_record \<Rightarrow> nat" where
  "active_version_of inst = (case in_active_kek_version inst of None \<Rightarrow> 1 | Some n \<Rightarrow> n)"

text \<open>An existing provider file must belong to the recorded installation; an absent one is created.\<close>

definition create_root :: "init_env \<Rightarrow> uuid \<Rightarrow> uuid \<Rightarrow> host \<Rightarrow> (initialization_error + root_key_record) \<times> host" where
  "create_root env vault_id installation_id h =
     (case create_root_key_file (ie_create env) (ie_root_key env) vault_id installation_id (ho_root h) of
        (r, file) \<Rightarrow> (rbind (map_err Cryptography r) (\<lambda>key. Inr \<lparr>rt_vault_id = vault_id,
           rt_installation_id = installation_id, rt_key = key\<rparr>), h\<lparr>ho_root := file\<rparr>))"

definition obtain_root :: "init_env \<Rightarrow> installation_record option \<Rightarrow> host \<Rightarrow> (initialization_error + root_key_record) \<times> host" where
  "obtain_root env inst h =
     (if ho_root h \<noteq> None then
        (rbind (map_err Cryptography (load_root_key_file (ho_root h))) (\<lambda>root.
         rbind (ensure (is_none_or (\<lambda>existing. in_vault_id existing = rt_vault_id root \<and>
           in_installation_id existing = rt_installation_id root) inst) (Storage StateConflict)) (\<lambda>_.
         Inr root)), h)
      else create_root env (ie_vault_id env) (ie_installation_id env) h)"

definition begin_if_new :: "init_env \<Rightarrow> root_key_record \<Rightarrow> host \<Rightarrow> (initialization_error + unit) \<times> host" where
  "begin_if_new env root =
     reading (\<lambda>h. map_err Storage (installation (store_of h))) (\<lambda>inst.
     if inst = None then
       reading (\<lambda>_. create_bootstrap (ie_lib env) (ie_draws env) (rt_vault_id root) (rt_installation_id root) (rt_key root) (ie_now env)) (\<lambda>bootstrap.
       sbind (stored (begin_initialization bootstrap)) (\<lambda>_. Pair (Inr ())))
     else Pair (Inr ()))"

definition insert_kek :: "crypto_lib \<Rightarrow> root_key_record \<Rightarrow> (nat \<rightharpoonup> bytes) \<Rightarrow> registered_key \<Rightarrow> initialization_error + (nat \<rightharpoonup> bytes)" where
  "insert_kek lib root keks registered =
     (if rk_state registered = Retired then Inr keks
      else rbind (unwrap_key lib (rt_key root) (rt_vault_id root) (rt_installation_id root) WrappedKeyEncryptionKey (rk_wrapped registered))
        (\<lambda>key. Inr (keks(wk_version (rk_wrapped registered) \<mapsto> key))))"

definition auxiliary_keys :: "crypto_lib \<Rightarrow> db \<Rightarrow> (nat \<rightharpoonup> bytes) \<Rightarrow> uuid \<Rightarrow> uuid \<Rightarrow> initialization_error + portable_vault_keys" where
  "auxiliary_keys lib d keks vault_id installation_id =
     rbind (unwrap_registry_key lib d keks vault_id installation_id BlindIndex object_kind.BlindIndexKey) (\<lambda>blind_index.
     rbind (unwrap_registry_key lib d keks vault_id installation_id Audit object_kind.AuditKey) (\<lambda>audit.
     rbind (unwrap_registry_key lib d keks vault_id installation_id TokenVerifier VerifierKey) (\<lambda>token_verifier.
     Inr \<lparr>pk_blind_index = blind_index, pk_audit = audit, pk_token_verifier = token_verifier\<rparr>)))"

definition load_keys :: "crypto_lib \<Rightarrow> root_key_record \<Rightarrow> db \<Rightarrow> initialization_error + (installation_record \<times> (nat \<rightharpoonup> bytes) \<times> portable_vault_keys)" where
  "load_keys lib root d =
     rbind (map_err Storage (installation d)) (\<lambda>inst.
     rbind (ok_or (Storage NotInitialized) inst) (\<lambda>st.
     rbind (map_err Storage (registered_keys KeyEncryption d)) (\<lambda>registered.
     rbind (validate_kek_registry_state d st registered) (\<lambda>_.
     rbind (try_fold (insert_kek lib root) Map.empty registered) (\<lambda>keks.
     rbind (ensure (keks (active_version_of st) \<noteq> None) (Storage StateConflict)) (\<lambda>_.
     rbind (auxiliary_keys lib d keks (rt_vault_id root) (rt_installation_id root)) (\<lambda>keys.
     Inr (st, keks, keys))))))))"

text \<open>An installation found initializing is activated now that its keys have authenticated.\<close>

definition activate_loaded :: "installation_record \<Rightarrow> host \<Rightarrow> (initialization_error + installation_record) \<times> host" where
  "activate_loaded st =
     (if in_activation_state st = Initializing then
        sbind (stored (activate_initialization 1)) (\<lambda>_.
        reading (\<lambda>h. rbind (map_err Storage (installation (store_of h))) (ok_or (Storage NotInitialized))) (\<lambda>st'. Pair (Inr st')))
      else Pair (Inr st))"

definition vault_of :: "init_env \<Rightarrow> root_key_record \<Rightarrow> nat \<Rightarrow> (nat \<rightharpoonup> bytes) \<Rightarrow> portable_vault_keys \<Rightarrow> vault" where
  "vault_of env root active keks keys =
     \<lparr>vt_lib = ie_lib env, vt_vault_id = rt_vault_id root, vt_installation_id = rt_installation_id root,
      vt_key_ring = Some \<lparr>kr_active_version = active, kr_keys = keks\<rparr>, vt_blind_index_key = pk_blind_index keys,
      vt_audit_key = pk_audit keys, vt_token_verifier_key = pk_token_verifier keys,
      vt_audit_gate_ok = True, vt_authorization_gate_ok = True\<rparr>"

definition initialize_vault :: "init_env \<Rightarrow> host \<Rightarrow> (initialization_error + live) \<times> host" where
  "initialize_vault env =
     guarded (ie_paths env) (\<lambda>_.
     sbind (open_store env) (\<lambda>_.
     reading (\<lambda>h. rbind (map_err Storage (installation (store_of h))) (\<lambda>inst.
       rbind (ensure (inst = None \<or> ho_root h \<noteq> None) MissingRootKey) (\<lambda>_. Inr inst))) (\<lambda>inst.
     sbind (obtain_root env inst) (\<lambda>root.
     sbind (begin_if_new env root) (\<lambda>_.
     reading (\<lambda>h. load_keys (ie_lib env) root (store_of h)) (\<lambda>(st, keks, keys).
     sbind (activate_loaded st) (\<lambda>st'.
     reading (\<lambda>h. rbind (ensure ((in_activation_state st' = Ready \<or> in_activation_state st' = Maintenance) \<and>
         in_active_kek_version st' = Some (active_version_of st)) (Storage StateConflict)) (\<lambda>_.
       Inr \<lparr>lv_vault = vault_of env root (active_version_of st) keks keys, lv_root = Some (rt_key root), lv_db = store_of h\<rparr>))
     (\<lambda>w. Pair (Inr w)))))))))"

section \<open>Restore staging\<close>

definition initialize_restore_staging :: "init_env \<Rightarrow> uuid \<Rightarrow> portable_vault_keys \<Rightarrow> host \<Rightarrow> (initialization_error + live) \<times> host" where
  "initialize_restore_staging env vault_id keys =
     guarded (ie_paths env) (\<lambda>_.
     reading (\<lambda>h. ensure (ho_db h = None \<and> ho_root h = None) (Storage StateConflict)) (\<lambda>_.
     sbind (create_root env vault_id (ie_installation_id env)) (\<lambda>root.
     guarded (generated (bd_kek (ie_draws env))) (\<lambda>kek.
     sbind (open_store env) (\<lambda>_.
     guarded (create_bootstrap_with_keys (ie_lib env) (ie_draws env) vault_id (rt_installation_id root) (rt_key root) kek keys (ie_now env)) (\<lambda>bootstrap.
     sbind (stored (begin_restore_initialization bootstrap)) (\<lambda>disposition.
     reading (\<lambda>h. rbind (ensure (disposition = Begun) (Storage StateConflict)) (\<lambda>_.
       Inr \<lparr>lv_vault = vault_of env root 1 [1 \<mapsto> kek] keys, lv_root = Some (rt_key root), lv_db = store_of h\<rparr>))
     (\<lambda>w. Pair (Inr w)))))))))"

definition verify_restore_staging_reopen :: "init_env \<Rightarrow> uuid \<Rightarrow> uuid \<Rightarrow> host \<Rightarrow> (initialization_error + unit) \<times> host" where
  "verify_restore_staging_reopen env expected_vault_id expected_installation_id =
     guarded (ie_paths env) (\<lambda>_.
     sbind (open_store env) (\<lambda>_.
     reading (\<lambda>h.
       rbind (map_err Storage (installation (store_of h))) (\<lambda>found.
       rbind (ok_or (Storage NotInitialized) found) (\<lambda>inst.
       rbind (ensure (in_activation_state inst = Initializing \<and> in_vault_id inst = expected_vault_id \<and>
         in_installation_id inst = expected_installation_id \<and> in_active_kek_version inst = None) (Storage StateConflict)) (\<lambda>_.
       rbind (map_err Cryptography (load_root_key_file (ho_root h))) (\<lambda>root.
       rbind (ensure (rt_vault_id root = expected_vault_id \<and> rt_installation_id root = expected_installation_id) (Storage StateConflict)) (\<lambda>_.
       rbind (map_err Storage (registered_keys KeyEncryption (store_of h))) (\<lambda>registered.
       rbind (validate_kek_registry_state (store_of h) inst registered) (\<lambda>_.
       rbind (ok_or (Storage StateConflict) (find (\<lambda>k. rk_state k = Active \<and> wk_version (rk_wrapped k) = 1) registered)) (\<lambda>registered_kek.
       rbind (unwrap_key (ie_lib env) (rt_key root) expected_vault_id expected_installation_id WrappedKeyEncryptionKey (rk_wrapped registered_kek)) (\<lambda>kek.
       rbind (auxiliary_keys (ie_lib env) (store_of h) [1 \<mapsto> kek] expected_vault_id expected_installation_id) (\<lambda>_.
       Inr ())))))))))))
     (\<lambda>_. Pair (Inr ()))))"

section \<open>Keys that were wrapped unwrap\<close>

lemma unwrap_wrap_key:
  assumes "wrap_key lib i random wk key vid iid kind okind version = Inr r" "aead_correct lib" "length key = 32"
  shows "unwrap_key lib wk vid iid okind r = Inr key" "wk_kind r = kind" "wk_version r = 1" "wk_wrapping_kek_version r = version"
proof -
  obtain w where w: "seal lib random wk (key_context vid iid okind i 1) key = Inr w"
    and r: "r = \<lparr>wk_kind = kind, wk_version = 1, wk_object_id = i, wk_wrapping_kek_version = version,
      wk_nonce = sl_nonce w, wk_ciphertext = sl_ciphertext w\<rparr>"
    using assms(1) by (auto simp: wrap_key_def result_simps)
  have "open_record lib wk (key_context vid iid okind i 1) \<lparr>sl_nonce = sl_nonce w, sl_ciphertext = sl_ciphertext w\<rparr> = Inr key"
    using open_seal [OF assms(2) w] by (cases w) simp
  then show "unwrap_key lib wk vid iid okind r = Inr key" "wk_kind r = kind" "wk_version r = 1" "wk_wrapping_kek_version r = version"
    using assms(3) by (simp_all add: r unwrap_key_def key_from_protected_def try_into_array_def ensure_def)
qed

definition portable_keys_ok :: "portable_vault_keys \<Rightarrow> bool" where
  "portable_keys_ok keys = (length (pk_blind_index keys) = 32 \<and> length (pk_audit keys) = 32 \<and> length (pk_token_verifier keys) = 32)"

lemma bootstrap_unwraps:
  assumes "create_bootstrap_with_keys lib dr vid iid root kek keys now = Inr b"
    and "begin_initialization_kind b r d = (Inr Begun, d')" "key_registry d = []"
    and "aead_correct lib" "length kek = 32" "portable_keys_ok keys"
  shows "bs_vault_id b = vid" "bs_installation_id b = iid" "bs_initialized_at b = now"
    "registered_keys KeyEncryption d' = Inr [\<lparr>rk_wrapped = bs_key_encryption_key b, rk_state = Active\<rparr>]"
    "wk_version (bs_key_encryption_key b) = 1"
    "unwrap_key lib root vid iid WrappedKeyEncryptionKey (bs_key_encryption_key b) = Inr kek"
    "auxiliary_keys lib d' [1 \<mapsto> kek] vid iid = Inr keys"
proof -
  obtain kk bi au tv where wraps:
    "wrap_key lib (bd_object_id dr KeyEncryption) (bd_nonce dr KeyEncryption) root kek vid iid KeyEncryption WrappedKeyEncryptionKey None = Inr kk"
    "wrap_key lib (bd_object_id dr BlindIndex) (bd_nonce dr BlindIndex) kek (pk_blind_index keys) vid iid BlindIndex object_kind.BlindIndexKey (Some 1) = Inr bi"
    "wrap_key lib (bd_object_id dr Audit) (bd_nonce dr Audit) kek (pk_audit keys) vid iid Audit object_kind.AuditKey (Some 1) = Inr au"
    "wrap_key lib (bd_object_id dr TokenVerifier) (bd_nonce dr TokenVerifier) kek (pk_token_verifier keys) vid iid TokenVerifier VerifierKey (Some 1) = Inr tv"
    and b: "b = \<lparr>bs_vault_id = vid, bs_installation_id = iid, bs_initialized_at = now, bs_key_encryption_key = kk,
      bs_blind_index_key = bi, bs_audit_key = au, bs_token_verifier_key = tv\<rparr>"
    using assms(1) unfolding create_bootstrap_with_keys_def Let_def rbind_eq_Inr by auto
  note kk = unwrap_wrap_key [OF wraps(1) assms(4,5)]
  have len: "length (pk_blind_index keys) = 32" "length (pk_audit keys) = 32" "length (pk_token_verifier keys) = 32"
    using assms(6) by (simp_all add: portable_keys_ok_def)
  note bi = unwrap_wrap_key [OF wraps(2) assms(4) len(1)]
    and au = unwrap_wrap_key [OF wraps(3) assms(4) len(2)] and tv = unwrap_wrap_key [OF wraps(4) assms(4) len(3)]
  have ids: "wrapped_key (wk_kind k) (wk_version k) d' = Inr k" if "k \<in> {kk, bi, au, tv}" for k
    using begin_wrapped_key [OF assms(2), of k] that by (auto simp: b bootstrap_keys_def)
  show "auxiliary_keys lib d' [1 \<mapsto> kek] vid iid = Inr keys"
    using ids [of bi] ids [of au] ids [of tv] bi au tv by (simp add: auxiliary_keys_def unwrap_registry_key_def)
  show "bs_vault_id b = vid" "bs_installation_id b = iid" "bs_initialized_at b = now" "wk_version (bs_key_encryption_key b) = 1"
    "unwrap_key lib root vid iid WrappedKeyEncryptionKey (bs_key_encryption_key b) = Inr kek"
    using kk by (simp_all add: b)
  note eff = begin_Begun [OF assms(2)]
  then have "rows (key_registry d') = map (\<lambda>k. key_row_of k now) [kk, bi, au, tv]"
    using assms(3) by (simp add: rows_fold_insert b bootstrap_keys_def)
  then have select: "tbl_select (\<lambda>k. k_kind k = key_kind_as_str KeyEncryption) (key_registry d') = [key_row_of kk now]"
    using kk bi au tv by (simp add: tbl_select_def key_row_of_def)
  have "parse_wrapped_key KeyEncryption 1 (key_row_of kk now) = Inr kk"
    using ids [of kk] kk eff by (auto simp: wrapped_key_def query_Inr result_simps key_row_of_def parse_wrapped_key_def b bootstrap_keys_def key_check_def
        parse_uuid_def)
  then have "registered_keys KeyEncryption d' = Inr [\<lparr>rk_wrapped = kk, rk_state = Active\<rparr>]"
    using select kk(3) eff by (auto simp: registered_keys_def query_def lock_def parse_registered_key_def u32_of_i64_def u32_max_def
        key_row_of_def key_state_parse_def)
  then show "registered_keys KeyEncryption d' = Inr [\<lparr>rk_wrapped = bs_key_encryption_key b, rk_state = Active\<rparr>]" by (simp add: b)
qed

lemma stored_Inr: "stored op h = (Inr x, h') \<longleftrightarrow> (\<exists>d. op (store_of h) = (Inr x, d) \<and> h' = h\<lparr>ho_db := Some d\<rparr>)"
  by (auto simp: stored_def result_simps split: prod.splits)

lemma open_store_Inr: "open_store env h = (Inr x, h') \<longleftrightarrow> ie_open env = Inr () \<and> h' = h\<lparr>ho_db := Some (store_of h)\<rparr>"
  by (auto simp: open_store_def split: sum.splits)

lemma create_root_Inr:
  assumes "create_root env vid iid h = (Inr root, h')"
  shows "ho_root h = None \<and> h' = h\<lparr>ho_root := Some \<lparr>rf_bytes = root_key_bytes vid iid (rt_key root), rf_restrictive = True\<rparr>\<rparr> \<and>
    ie_root_key env = Some (rt_key root) \<and> root = \<lparr>rt_vault_id = vid, rt_installation_id = iid, rt_key = rt_key root\<rparr>"
  using assms by (auto simp: create_root_def result_simps split: prod.splits dest!: create_root_key_Inr)

lemma store_of_new [simp]: "store_of (h\<lparr>ho_db := Some d\<rparr>) = d\<lparr>poisoned := False\<rparr>"
  by (simp add: store_of_def)

lemma store_of_root [simp]: "store_of (h\<lparr>ho_root := f\<rparr>) = store_of h"
  by (simp add: store_of_def)

lemma store_of_absent: "ho_db h = None \<Longrightarrow> store_of h = empty_db"
  by (simp add: store_of_def)

lemma unpoisoned [simp]: "\<not> poisoned d \<Longrightarrow> d\<lparr>poisoned := False\<rparr> = d"
  by (cases d) simp

lemma store_unpoisoned [simp]: "\<not> poisoned (store_of h)"
  by (simp add: store_of_def empty_db_def split: option.splits)

lemma empty_db_sel [simp]: "key_registry empty_db = []" "\<not> poisoned empty_db" "installation_state empty_db = None"
  "maintenance_jobs empty_db = []" "restore_guard empty_db = None"
  by (simp_all add: empty_db_def)

definition env_ok :: "init_env \<Rightarrow> bool" where
  "env_ok env = (length (ie_vault_id env) = 16 \<and> length (ie_installation_id env) = 16 \<and>
     is_none_or (\<lambda>k. length k = 32) (ie_root_key env) \<and> is_none_or (\<lambda>k. length k = 32) (bd_kek (ie_draws env)) \<and>
     is_none_or (\<lambda>k. length k = 32) (bd_blind_index (ie_draws env)) \<and> is_none_or (\<lambda>k. length k = 32) (bd_audit (ie_draws env)) \<and>
     is_none_or (\<lambda>k. length k = 32) (bd_token_verifier (ie_draws env)))"

lemma staged:
  assumes "initialize_restore_staging env vid keys h = (Inr w, h')"
  obtains root kek b d where "ho_db h = None" "ho_root h = None"
    "root = \<lparr>rt_vault_id = vid, rt_installation_id = ie_installation_id env, rt_key = rt_key root\<rparr>" "ie_root_key env = Some (rt_key root)"
    "bd_kek (ie_draws env) = Some kek"
    "create_bootstrap_with_keys (ie_lib env) (ie_draws env) vid (ie_installation_id env) (rt_key root) kek keys (ie_now env) = Inr b"
    "begin_initialization_kind b True empty_db = (Inr Begun, d)"
    "w = \<lparr>lv_vault = vault_of env root 1 [1 \<mapsto> kek] keys, lv_root = Some (rt_key root), lv_db = d\<rparr>"
    "h' = \<lparr>ho_root = Some \<lparr>rf_bytes = root_key_bytes vid (ie_installation_id env) (rt_key root), rf_restrictive = True\<rparr>, ho_db = Some d\<rparr>"
proof -
  obtain root h1 kek b d where steps: "ho_db h = None" "ho_root h = None"
    "create_root env vid (ie_installation_id env) h = (Inr root, h1)" "bd_kek (ie_draws env) = Some kek"
    "create_bootstrap_with_keys (ie_lib env) (ie_draws env) vid (rt_installation_id root) (rt_key root) kek keys (ie_now env) = Inr b"
    "begin_restore_initialization b (store_of (h1\<lparr>ho_db := Some (store_of h1)\<rparr>)) = (Inr Begun, d)"
    "w = \<lparr>lv_vault = vault_of env root 1 [1 \<mapsto> kek] keys, lv_root = Some (rt_key root), lv_db = d\<lparr>poisoned := False\<rparr>\<rparr>"
    "h' = h1\<lparr>ho_db := Some d\<rparr>"
    using assms unfolding initialize_restore_staging_def guarded_Inr reading_Inr sbind_Inr
    by (auto simp: sbind_Inr guarded_Inr reading_Inr open_store_Inr stored_Inr generated_def rbind_eq_Inr ensure_eq_Inr ok_or_eq_Inr)
  note root = create_root_Inr [OF steps(3)]
  have h1: "store_of h1 = empty_db" using root steps(1) by (simp add: store_of_absent)
  have beg: "begin_initialization_kind b True empty_db = (Inr Begun, d)"
    using steps(6) h1 by (simp add: begin_restore_initialization_def)
  have np: "\<not> poisoned d" using begin_Begun [OF beg] by auto
  have h': "h' = \<lparr>ho_root = Some \<lparr>rf_bytes = root_key_bytes vid (ie_installation_id env) (rt_key root), rf_restrictive = True\<rparr>, ho_db = Some d\<rparr>"
    using steps(8) root by simp
  show thesis
    using that [OF steps(1,2) _ _ steps(4) _ beg _ h'] root steps(5,7) np by (metis root_key_record.select_convs(2) unpoisoned)
qed

lemma staging_reopens:
  assumes "initialize_restore_staging env vid keys h = (Inr w, h')"
    and "aead_correct (ie_lib env)" "env_ok env" "portable_keys_ok keys" "length vid = 16"
    and "ie_paths env' = Inr ()" "ie_open env' = Inr ()" "ie_lib env' = ie_lib env"
  shows "verify_restore_staging_reopen env' vid (vt_installation_id (lv_vault w)) h' = (Inr (), h')"
proof -
  obtain root kek b d where st: "ho_db h = None" "ho_root h = None"
    "root = \<lparr>rt_vault_id = vid, rt_installation_id = ie_installation_id env, rt_key = rt_key root\<rparr>" "ie_root_key env = Some (rt_key root)"
    "bd_kek (ie_draws env) = Some kek"
    "create_bootstrap_with_keys (ie_lib env) (ie_draws env) vid (ie_installation_id env) (rt_key root) kek keys (ie_now env) = Inr b"
    "begin_initialization_kind b True empty_db = (Inr Begun, d)"
    "w = \<lparr>lv_vault = vault_of env root 1 [1 \<mapsto> kek] keys, lv_root = Some (rt_key root), lv_db = d\<rparr>"
    "h' = \<lparr>ho_root = Some \<lparr>rf_bytes = root_key_bytes vid (ie_installation_id env) (rt_key root), rf_restrictive = True\<rparr>, ho_db = Some d\<rparr>"
    using staged [OF assms(1)] by metis
  have len: "length kek = 32" "length (rt_key root) = 32" "length (ie_installation_id env) = 16"
    using assms(3) st(4,5) by (simp_all add: env_ok_def is_none_or_def)
  note un = bootstrap_unwraps [OF st(6,7) empty_db_sel(1) assms(2) len(1) assms(4)]
  note inst = begin_installation [OF st(7), unfolded un(1,2)]
  have iid: "vt_installation_id (lv_vault w) = ie_installation_id env" using st(3,8) by (metis live.select_convs(1) vault.select_convs(3) vault_of_def root_key_record.select_convs(2))
  have np: "\<not> poisoned d" using begin_Begun [OF st(7)] by auto
  then have so: "store_of h' = d" "h'\<lparr>ho_db := Some d\<rparr> = h'" by (simp_all add: st(9) store_of_def)
  have load: "load_root_key_file (ho_root h') = Inr \<lparr>rt_vault_id = vid, rt_installation_id = ie_installation_id env, rt_key = rt_key root\<rparr>"
    using load_root_key_bytes [OF assms(5) len(3,2)] by (simp add: st(9))
  show ?thesis
    unfolding iid verify_restore_staging_reopen_def
    using assms(6-8) so np inst load un
    by (simp add: guarded_def sbind_def reading_def open_store_def ensure_def validate_kek_registry_state_def)
qed

section \<open>A vault that started starts again\<close>

lemma registry_reads_cong:
  assumes "key_registry d' = key_registry d" "poisoned d' = poisoned d"
  shows "wrapped_key k n d' = wrapped_key k n d" "registered_keys k d' = registered_keys k d"
    "auxiliary_keys lib d' keks vid iid = auxiliary_keys lib d keks vid iid"
proof -
  show w: "wrapped_key k n d' = wrapped_key k n d" for k n using assms by (simp add: wrapped_key_def query_def lock_def)
  show "registered_keys k d' = registered_keys k d" using assms by (simp add: registered_keys_def query_def lock_def)
  show "auxiliary_keys lib d' keks vid iid = auxiliary_keys lib d keks vid iid"
    by (simp add: auxiliary_keys_def unwrap_registry_key_def w)
qed

lemma load_keys_activated:
  assumes "load_keys lib root d = Inr (st, keks, keys)" "in_activation_state st = Initializing"
    and "key_registry d' = key_registry d" "\<not> poisoned d" "\<not> poisoned d'" "maintenance_jobs d' = []"
    and "installation d' = Inr (Some st')" "in_activation_state st' = Ready" "in_active_kek_version st' = Some 1"
  shows "load_keys lib root d' = Inr (st', keks, keys)" "active_version_of st = 1"
proof -
  note same = registry_reads_cong [OF assms(3), simplified assms(4,5)]
  obtain registered where pre: "installation d = Inr (Some st)" "registered_keys KeyEncryption d = Inr registered"
    "validate_kek_registry_state d st registered = Inr ()" "try_fold (insert_kek lib root) Map.empty registered = Inr keks"
    "keks (active_version_of st) \<noteq> None" "auxiliary_keys lib d keks (rt_vault_id root) (rt_installation_id root) = Inr keys"
    using assms(1) by (auto simp: load_keys_def result_simps)
  have st: "in_active_kek_version st = None"
    "case filter (\<lambda>k. rk_state k \<noteq> Retired) registered of [k] \<Rightarrow> rk_state k = Active \<and> wk_version (rk_wrapped k) = 1 | _ \<Rightarrow> False"
    using pre(3) assms(2) by (auto simp: validate_kek_registry_state_def Let_def ensure_def simp del: One_nat_def split: if_splits)
  then show act: "active_version_of st = 1" by (simp add: active_version_of_def)
  have "active_kek_rotation d' = Inr None" using assms(5,6) by (simp add: active_kek_rotation_def query_def lock_def tbl_find_def)
  then have "validate_kek_registry_state d' st' registered = Inr ()"
    using st(2) assms(8,9) by (simp add: validate_kek_registry_state_def Let_def del: One_nat_def)
  moreover have "active_version_of st' = 1" using assms(9) by (simp add: active_version_of_def)
  ultimately show "load_keys lib root d' = Inr (st', keks, keys)"
    using pre(2,4,5,6) act assms(7) same by (simp add: load_keys_def)
qed

lemma started:
  assumes "initialize_vault env h = (Inr w, h')"
  obtains inst root h1 h2 st keks keys st' where "installation (store_of h) = Inr inst" "inst = None \<or> ho_root h \<noteq> None"
    "obtain_root env inst (h\<lparr>ho_db := Some (store_of h)\<rparr>) = (Inr root, h1)" "begin_if_new env root h1 = (Inr (), h2)"
    "load_keys (ie_lib env) root (store_of h2) = Inr (st, keks, keys)" "activate_loaded st h2 = (Inr st', h')"
    "in_activation_state st' = Ready \<or> in_activation_state st' = Maintenance" "in_active_kek_version st' = Some (active_version_of st)"
    "w = \<lparr>lv_vault = vault_of env root (active_version_of st) keks keys, lv_root = Some (rt_key root), lv_db = store_of h'\<rparr>"
  using assms unfolding initialize_vault_def guarded_Inr reading_Inr sbind_Inr
  by (auto simp: sbind_Inr guarded_Inr reading_Inr open_store_Inr rbind_eq_Inr ensure_eq_Inr map_err_eq_Inr simp del: not_None_eq)

lemma obtain_root_loads:
  assumes "obtain_root env inst h = (Inr root, h1)" "env_ok env"
  shows "load_root_key_file (ho_root h1) = Inr root" "ho_root h1 \<noteq> None" "ho_db h1 = ho_db h"
    "inst = Some i \<Longrightarrow> ho_root h \<noteq> None \<Longrightarrow> in_vault_id i = rt_vault_id root \<and> in_installation_id i = rt_installation_id root"
proof -
  have "load_root_key_file (ho_root h1) = Inr root \<and> ho_root h1 \<noteq> None \<and> ho_db h1 = ho_db h \<and>
    (inst = Some i \<longrightarrow> ho_root h \<noteq> None \<longrightarrow> in_vault_id i = rt_vault_id root \<and> in_installation_id i = rt_installation_id root)"
  proof (cases "ho_root h")
    case None
    then have c: "create_root env (ie_vault_id env) (ie_installation_id env) h = (Inr root, h1)"
      using assms(1) by (simp add: obtain_root_def)
    note r = create_root_Inr [OF c]
    then have "length (rt_key root) = 32" using assms(2) by (simp add: env_ok_def is_none_or_def)
    then have "load_root_key_file (ho_root h1) = Inr root"
      using r load_root_key_bytes [of "ie_vault_id env" "ie_installation_id env" "rt_key root"] assms(2)
      by (simp add: env_ok_def)
    then show ?thesis using r None by simp
  next
    case (Some f)
    then show ?thesis using assms(1) by (auto simp: obtain_root_def result_simps is_none_or_def split: if_splits)
  qed
  then show "load_root_key_file (ho_root h1) = Inr root" "ho_root h1 \<noteq> None" "ho_db h1 = ho_db h"
    "inst = Some i \<Longrightarrow> ho_root h \<noteq> None \<Longrightarrow> in_vault_id i = rt_vault_id root \<and> in_installation_id i = rt_installation_id root"
    by blast+
qed

lemma begin_if_new_Inr:
  assumes "begin_if_new env root h1 = (Inr (), h2)"
  shows "(\<exists>i. installation (store_of h1) = Inr (Some i) \<and> h2 = h1) \<or>
    (\<exists>b d. installation (store_of h1) = Inr None \<and> h2 = h1\<lparr>ho_db := Some d\<rparr> \<and>
      create_bootstrap (ie_lib env) (ie_draws env) (rt_vault_id root) (rt_installation_id root) (rt_key root) (ie_now env) = Inr b \<and>
      begin_initialization_kind b False (store_of h1) = (Inr Begun, d))"
proof -
  obtain inst where inst: "installation (store_of h1) = Inr inst"
    and rest: "(if inst = None then reading (\<lambda>_. create_bootstrap (ie_lib env) (ie_draws env) (rt_vault_id root) (rt_installation_id root)
        (rt_key root) (ie_now env)) (\<lambda>bootstrap. sbind (stored (begin_initialization bootstrap)) (\<lambda>_. Pair (Inr ()))) else Pair (Inr ())) h1 =
      (Inr (), h2)"
    using assms by (auto simp: begin_if_new_def reading_Inr result_simps)
  show ?thesis
  proof (cases inst)
    case (Some i)
    then show ?thesis using inst rest by simp
  next
    case None
    then obtain b x d where b: "create_bootstrap (ie_lib env) (ie_draws env) (rt_vault_id root) (rt_installation_id root) (rt_key root) (ie_now env) = Inr b"
      and beg: "begin_initialization_kind b False (store_of h1) = (Inr x, d)" and h2: "h2 = h1\<lparr>ho_db := Some d\<rparr>"
      using rest by (auto simp: reading_Inr sbind_Inr stored_Inr begin_initialization_def)
    have "x = Begun" using beg inst None
      by (auto simp: begin_initialization_kind_def insert_installation_def tx_simps result_simps split: sum.splits)
    then show ?thesis using inst None b beg h2 by blast
  qed
qed

lemma create_bootstrap_Inr:
  assumes "create_bootstrap lib dr vid iid root now = Inr b"
  obtains kek blind audit token where "bd_kek dr = Some kek" "bd_blind_index dr = Some blind" "bd_audit dr = Some audit"
    "bd_token_verifier dr = Some token" "create_bootstrap_with_keys lib dr vid iid root kek
       \<lparr>pk_blind_index = blind, pk_audit = audit, pk_token_verifier = token\<rparr> now = Inr b"
  using assms by (auto simp: create_bootstrap_def generated_def result_simps)

lemma create_bootstrap_ids:
  "create_bootstrap lib dr vid iid root now = Inr b \<Longrightarrow> bs_vault_id b = vid \<and> bs_installation_id b = iid"
  by (auto simp: create_bootstrap_def create_bootstrap_with_keys_def Let_def result_simps)

lemma begun_installation:
  assumes "obtain_root env inst h = (Inr root, h1)" "env_ok env" "begin_if_new env root h1 = (Inr (), h2)"
    and "installation (store_of h) = Inr inst" "inst = None \<or> ho_root h \<noteq> None"
  shows "\<exists>i. installation (store_of h2) = Inr (Some i) \<and> in_vault_id i = rt_vault_id root \<and>
     in_installation_id i = rt_installation_id root \<and> ho_root h2 = ho_root h1"
proof -
  note root = obtain_root_loads [OF assms(1,2)]
  have so: "store_of h1 = store_of h" using root(3) by (simp add: store_of_def)
  from begin_if_new_Inr [OF assms(3)] show ?thesis
  proof (elim disjE exE conjE)
    fix i assume i: "installation (store_of h1) = Inr (Some i)" "h2 = h1"
    then have "inst = Some i" using so assms(4) by simp
    then show ?thesis using i root(4) assms(5) by auto
  next
    fix b d assume b: "h2 = h1\<lparr>ho_db := Some d\<rparr>" "begin_initialization_kind b False (store_of h1) = (Inr Begun, d)"
      "create_bootstrap (ie_lib env) (ie_draws env) (rt_vault_id root) (rt_installation_id root) (rt_key root) (ie_now env) = Inr b"
    have "\<not> poisoned d" using begin_Begun [OF b(2)] by auto
    then show ?thesis using b(1) begin_installation [OF b(2)] create_bootstrap_ids [OF b(3)] by simp
  qed
qed

lemma parse_installation_ids:
  "parse_installation row = Inr st \<Longrightarrow> in_vault_id st = i_vault_id row \<and> in_installation_id st = i_installation_id row"
  by (auto simp: parse_installation_def parse_uuid_def rbind_eq_Inr try_into_array_eq_Inr)

lemma activate_loaded_Inr:
  assumes "installation (store_of h2) = Inr (Some st)" "activate_loaded st h2 = (Inr st', h')" "in_activation_state st = Initializing"
  shows "\<exists>d. h' = h2\<lparr>ho_db := Some d\<rparr> \<and> \<not> poisoned d \<and> key_registry d = key_registry (store_of h2) \<and>
    maintenance_jobs d = maintenance_jobs (store_of h2) \<and> installation d = Inr (Some st') \<and>
    in_vault_id st' = in_vault_id st \<and> in_installation_id st' = in_installation_id st \<and>
    in_activation_state st' = Ready \<and> in_active_kek_version st' = Some 1"
proof -
  obtain d where act: "activate_initialization_kind 1 False (store_of h2) = (Inr (), d)" and h': "h' = h2\<lparr>ho_db := Some d\<rparr>"
    and inst: "installation (d\<lparr>poisoned := False\<rparr>) = Inr (Some st')"
    using assms(2,3) by (auto simp: activate_loaded_def sbind_Inr stored_Inr reading_Inr activate_initialization_def result_simps)
  note eff = activate_Inr [OF act]
  then obtain row where row: "installation_state (store_of h2) = Some row" by blast
  then have pr: "parse_installation row = Inr st" using assms(1) by (simp add: installation_def result_simps)
  then have "i_activation_state row = ''initializing''" using assms(3) by (auto simp: parse_installation_def result_simps)
  then have d: "d = (store_of h2)\<lparr>installation_state := Some (row\<lparr>i_activation_state := ''ready'', i_active_kek := Some 1\<rparr>)\<rparr>"
    using eff row by auto
  have np: "\<not> poisoned d" using d by simp
  have pr': "parse_installation (row\<lparr>i_activation_state := ''ready'', i_active_kek := Some 1\<rparr>) = Inr st'"
    using inst np d by (simp add: installation_def result_simps)
  have "in_vault_id st' = in_vault_id st" "in_installation_id st' = in_installation_id st"
    using parse_installation_ids [OF pr] parse_installation_ids [OF pr'] by simp_all
  moreover have "in_activation_state st' = Ready" "in_active_kek_version st' = Some 1"
    using pr' by (auto simp: parse_installation_def activation_state_parse_def u32_of_i64_def u32_max_def rbind_eq_Inr)
  ultimately show ?thesis using h' np d inst by auto
qed

lemma loaded_again:
  assumes "load_root_key_file (ho_root h) = Inr root" "ho_root h \<noteq> None" "ho_db h = Some d" "\<not> poisoned d"
    and "load_keys (ie_lib env) root d = Inr (st, keks, keys)"
    and "in_vault_id st = rt_vault_id root" "in_installation_id st = rt_installation_id root"
    and "in_activation_state st = Ready \<or> in_activation_state st = Maintenance" "in_active_kek_version st = Some (active_version_of st)"
    and "ie_paths env = Inr ()" "ie_open env = Inr ()"
  shows "initialize_vault env h = (Inr \<lparr>lv_vault = vault_of env root (active_version_of st) keks keys, lv_root = Some (rt_key root), lv_db = d\<rparr>, h)"
proof -
  have so: "store_of h = d" "h\<lparr>ho_db := Some d\<rparr> = h" using assms(3,4) by (simp_all add: store_of_def)
  have inst: "installation d = Inr (Some st)" using assms(5) by (auto simp: load_keys_def result_simps)
  have root: "obtain_root env (Some st) h = (Inr root, h)"
    using assms(1,2,6,7) by (auto simp: obtain_root_def is_none_or_def ensure_def)
  have "begin_if_new env root h = (Inr (), h)" using inst so by (simp add: begin_if_new_def reading_def guarded_def)
  moreover have "activate_loaded st h = (Inr st, h)" using assms(8) by (auto simp: activate_loaded_def)
  ultimately show ?thesis using so inst root assms(2,5,8-11)
    by (auto simp: initialize_vault_def guarded_def sbind_def reading_def open_store_def ensure_def)
qed

lemma vault_starts_again:
  assumes "initialize_vault env h = (Inr w, h')" "env_ok env"
    and "maintenance_jobs (store_of h) = [] \<or> (\<exists>i. installation (store_of h) = Inr (Some i) \<and> in_activation_state i \<noteq> Initializing)"
    and "ie_paths env' = Inr ()" "ie_open env' = Inr ()" "ie_lib env' = ie_lib env"
  shows "initialize_vault env' h' = (Inr w, h')"
proof -
  obtain inst root h1 h2 st keks keys st' where r: "installation (store_of h) = Inr inst" "inst = None \<or> ho_root h \<noteq> None"
    "obtain_root env inst (h\<lparr>ho_db := Some (store_of h)\<rparr>) = (Inr root, h1)" "begin_if_new env root h1 = (Inr (), h2)"
    "load_keys (ie_lib env) root (store_of h2) = Inr (st, keks, keys)" "activate_loaded st h2 = (Inr st', h')"
    "in_activation_state st' = Ready \<or> in_activation_state st' = Maintenance" "in_active_kek_version st' = Some (active_version_of st)"
    "w = \<lparr>lv_vault = vault_of env root (active_version_of st) keks keys, lv_root = Some (rt_key root), lv_db = store_of h'\<rparr>"
    by (rule started [OF assms(1)])
  note root = obtain_root_loads [OF r(3) assms(2)]
  obtain i where i: "installation (store_of h2) = Inr (Some i)" "in_vault_id i = rt_vault_id root"
     "in_installation_id i = rt_installation_id root" "ho_root h2 = ho_root h1"
    using begun_installation [OF r(3) assms(2) r(4)] r(1,2) by auto
  have st: "st = i" using r(5) i(1) by (auto simp: load_keys_def result_simps)
  have so1: "store_of h1 = store_of h" using root(3) by (simp add: store_of_def [of h1])
  have db2: "ho_db h2 = Some (store_of h2)" using begin_if_new_Inr [OF r(4)] root(3) so1 by (auto simp: store_of_def dest: begin_Begun)
  have vault: "vault_of env' root = vault_of env root" using assms(6) by (simp add: vault_of_def fun_eq_iff)
  show ?thesis
  proof (cases "in_activation_state st = Initializing")
    case False
    then have "h' = h2" "st' = st" using r(6) by (auto simp: activate_loaded_def)
    then show ?thesis using loaded_again [of h2 root "store_of h2" env' st keks keys] root i st db2 r(5,7-9) assms(4-6) vault by simp
  next
    case True
    from activate_loaded_Inr [OF i(1) r(6) [unfolded st] True [unfolded st]] obtain d where d: "h' = h2\<lparr>ho_db := Some d\<rparr>" "\<not> poisoned d"
      "key_registry d = key_registry (store_of h2)" "maintenance_jobs d = maintenance_jobs (store_of h2)" "installation d = Inr (Some st')"
      "in_vault_id st' = in_vault_id st" "in_installation_id st' = in_installation_id st" "in_activation_state st' = Ready"
      "in_active_kek_version st' = Some 1" using st by auto
    have "maintenance_jobs (store_of h2) = []"
      using begin_if_new_Inr [OF r(4)] so1 assms(3) i(1) st True by (auto dest!: begin_Begun)
    then have load: "load_keys (ie_lib env) root d = Inr (st', keks, keys)" "active_version_of st = 1"
      using load_keys_activated [OF r(5) True d(3) _ d(2) _ d(5,8,9)] d(4) by simp_all
    have "active_version_of st' = 1" using d(9) by (simp add: active_version_of_def)
    then show ?thesis
      using loaded_again [of h' root d env' st' keks keys] root i st d load r(9) assms(4-6) vault by simp
  qed
qed

lemma fresh_start:
  assumes "initialize_vault env h = (Inr w, h')" "ho_db h = None" "aead_correct (ie_lib env)" "env_ok env"
  shows "\<exists>kek. bd_kek (ie_draws env) = Some kek \<and>
      vt_key_ring (lv_vault w) = Some \<lparr>kr_active_version = 1, kr_keys = [1 \<mapsto> kek]\<rparr>"
    "bd_blind_index (ie_draws env) = Some (vt_blind_index_key (lv_vault w))"
    "bd_audit (ie_draws env) = Some (vt_audit_key (lv_vault w))"
    "bd_token_verifier (ie_draws env) = Some (vt_token_verifier_key (lv_vault w))"
proof -
  obtain inst root h1 h2 st keks keys st' where r: "installation (store_of h) = Inr inst" "inst = None \<or> ho_root h \<noteq> None"
    "obtain_root env inst (h\<lparr>ho_db := Some (store_of h)\<rparr>) = (Inr root, h1)" "begin_if_new env root h1 = (Inr (), h2)"
    "load_keys (ie_lib env) root (store_of h2) = Inr (st, keks, keys)" "activate_loaded st h2 = (Inr st', h')"
    "in_activation_state st' = Ready \<or> in_activation_state st' = Maintenance" "in_active_kek_version st' = Some (active_version_of st)"
    "w = \<lparr>lv_vault = vault_of env root (active_version_of st) keks keys, lv_root = Some (rt_key root), lv_db = store_of h'\<rparr>"
    by (rule started [OF assms(1)])
  note root = obtain_root_loads [OF r(3) assms(4)]
  have so1: "store_of h1 = empty_db" using root(3) assms(2) by (simp add: store_of_def)
  have "installation empty_db = Inr None" by (simp add: installation_def query_def lock_def)
  then obtain b d where b: "create_bootstrap (ie_lib env) (ie_draws env) (rt_vault_id root) (rt_installation_id root) (rt_key root) (ie_now env) = Inr b"
    and beg: "begin_initialization_kind b False empty_db = (Inr Begun, d)" and h2: "h2 = h1\<lparr>ho_db := Some d\<rparr>"
    using begin_if_new_Inr [OF r(4)] so1 by auto
  obtain kek blind audit token where draws: "bd_kek (ie_draws env) = Some kek" "bd_blind_index (ie_draws env) = Some blind"
    "bd_audit (ie_draws env) = Some audit" "bd_token_verifier (ie_draws env) = Some token"
    and bw: "create_bootstrap_with_keys (ie_lib env) (ie_draws env) (rt_vault_id root) (rt_installation_id root) (rt_key root) kek
       \<lparr>pk_blind_index = blind, pk_audit = audit, pk_token_verifier = token\<rparr> (ie_now env) = Inr b"
    by (rule create_bootstrap_Inr [OF b])
  have len: "length kek = 32" "portable_keys_ok \<lparr>pk_blind_index = blind, pk_audit = audit, pk_token_verifier = token\<rparr>"
    using assms(4) draws by (simp_all add: env_ok_def portable_keys_ok_def is_none_or_def)
  note un = bootstrap_unwraps [OF bw beg empty_db_sel(1) assms(3) len]
  have so2: "store_of h2 = d" using h2 begin_Begun [OF beg] by auto
  have st: "st = \<lparr>in_vault_id = bs_vault_id b, in_installation_id = bs_installation_id b, in_recovery_epoch = 0,
      in_activation_state = Initializing, in_active_kek_version = None, in_security_semantics_version = 1\<rparr>"
    using r(5) so2 begin_installation [OF beg] by (auto simp: load_keys_def result_simps)
  have "keks = [1 \<mapsto> kek]" using r(5) so2 un by (auto simp: load_keys_def insert_kek_def result_simps)
  moreover have "keys = \<lparr>pk_blind_index = blind, pk_audit = audit, pk_token_verifier = token\<rparr>"
    using r(5) so2 un calculation by (auto simp: load_keys_def result_simps)
  ultimately show "\<exists>kek. bd_kek (ie_draws env) = Some kek \<and>
      vt_key_ring (lv_vault w) = Some \<lparr>kr_active_version = 1, kr_keys = [1 \<mapsto> kek]\<rparr>"
    "bd_blind_index (ie_draws env) = Some (vt_blind_index_key (lv_vault w))"
    "bd_audit (ie_draws env) = Some (vt_audit_key (lv_vault w))"
    "bd_token_verifier (ie_draws env) = Some (vt_token_verifier_key (lv_vault w))"
    using draws r(9) st by (simp_all add: vault_of_def active_version_of_def)
qed

lemma fresh_start_succeeds:
  assumes "ho_db h = None" "ho_root h = None" "ie_create env = Created" "ie_root_key env = Some key"
    and "ie_paths env = Inr ()" "ie_open env = Inr ()" "aead_correct (ie_lib env)" "env_ok env"
    and "create_bootstrap (ie_lib env) (ie_draws env) (ie_vault_id env) (ie_installation_id env) key (ie_now env) = Inr b"
    and "begin_initialization_kind b False empty_db = (Inr Begun, d)"
  shows "\<exists>w h'. initialize_vault env h = (Inr w, h') \<and> is_ready (lv_db w)"
proof -
  let ?root = "\<lparr>rt_vault_id = ie_vault_id env, rt_installation_id = ie_installation_id env, rt_key = key\<rparr>"
  let ?file = "Some \<lparr>rf_bytes = root_key_bytes (ie_vault_id env) (ie_installation_id env) key, rf_restrictive = True\<rparr>"
  have so: "store_of h = empty_db" using assms(1) by (rule store_of_absent)
  have none: "installation empty_db = Inr None" by (simp add: installation_def query_def lock_def)
  have root: "obtain_root env None (h\<lparr>ho_db := Some empty_db\<rparr>) = (Inr ?root, h\<lparr>ho_db := Some empty_db, ho_root := ?file\<rparr>)"
    using assms(2-4) by (simp add: obtain_root_def create_root_def create_root_key_file_def)
  have np: "\<not> poisoned d" using begin_Begun [OF assms(10)] by auto
  have beg: "begin_if_new env ?root (h\<lparr>ho_db := Some empty_db, ho_root := ?file\<rparr>) = (Inr (), h\<lparr>ho_db := Some d, ho_root := ?file\<rparr>)"
    using none assms(9,10) by (simp add: begin_if_new_def reading_def guarded_def sbind_def stored_def begin_initialization_def)
  obtain kek blind audit token where draws: "bd_kek (ie_draws env) = Some kek" "bd_blind_index (ie_draws env) = Some blind"
    "bd_audit (ie_draws env) = Some audit" "bd_token_verifier (ie_draws env) = Some token"
    and bw: "create_bootstrap_with_keys (ie_lib env) (ie_draws env) (ie_vault_id env) (ie_installation_id env) key kek
       \<lparr>pk_blind_index = blind, pk_audit = audit, pk_token_verifier = token\<rparr> (ie_now env) = Inr b"
    by (rule create_bootstrap_Inr [OF assms(9)])
  have len: "length kek = 32" "portable_keys_ok \<lparr>pk_blind_index = blind, pk_audit = audit, pk_token_verifier = token\<rparr>"
    using assms(8) draws by (simp_all add: env_ok_def portable_keys_ok_def is_none_or_def)
  note un = bootstrap_unwraps [OF bw assms(10) empty_db_sel(1) assms(7) len] and inst = begin_installation [OF assms(10)]
  let ?st = "\<lparr>in_vault_id = bs_vault_id b, in_installation_id = bs_installation_id b, in_recovery_epoch = 0,
      in_activation_state = Initializing, in_active_kek_version = None, in_security_semantics_version = 1\<rparr>"
  have load: "load_keys (ie_lib env) ?root d = Inr (?st, [1 \<mapsto> kek], \<lparr>pk_blind_index = blind, pk_audit = audit, pk_token_verifier = token\<rparr>)"
    using un inst by (simp add: load_keys_def validate_kek_registry_state_def insert_kek_def active_version_of_def ensure_def)
  obtain d2 where act: "activate_initialization_kind 1 False d = (Inr (), d2)"
    and inst2: "installation d2 = Inr (Some \<lparr>in_vault_id = bs_vault_id b, in_installation_id = bs_installation_id b,
       in_recovery_epoch = 0, in_activation_state = Ready, in_active_kek_version = Some 1, in_security_semantics_version = 1\<rparr>)"
    using begin_activates [OF assms(10) empty_db_sel(1)] by (auto simp: guard_rows_def)
  have np2: "\<not> poisoned d2" "is_ready d2"
    using inst2 by (auto simp: installation_def result_simps is_ready_def parse_installation_def transpose_map_def split: option.splits)
  have "activate_loaded ?st (h\<lparr>ho_db := Some d, ho_root := ?file\<rparr>) = (Inr \<lparr>in_vault_id = bs_vault_id b, in_installation_id = bs_installation_id b,
       in_recovery_epoch = 0, in_activation_state = Ready, in_active_kek_version = Some 1, in_security_semantics_version = 1\<rparr>,
     h\<lparr>ho_db := Some d2, ho_root := ?file\<rparr>)"
    using act inst2 np np2 by (simp add: activate_loaded_def sbind_def stored_def reading_def guarded_def activate_initialization_def)
  then show ?thesis
    using so none root beg load np np2 assms(2,5,6)
    by (simp add: initialize_vault_def guarded_def sbind_def reading_def open_store_def ensure_def active_version_of_def)
qed

end
