(* ===== verification/Start_Properties.thy ===== *)
theory Start_Properties
  imports App_Initialization Sample_Rotation Sample_Crypto
begin

text \<open>
  What starting a vault promises: the first start leaves a vault that every later start opens with
  the same keys.
\<close>

definition sample_draws :: bootstrap_draws where
  "sample_draws = \<lparr>bd_kek = Some (h32 7), bd_blind_index = Some (h32 2), bd_audit = Some (h32 3), bd_token_verifier = Some (h32 4),
     bd_object_id = (\<lambda>_. sid 31), bd_nonce = (\<lambda>_. Some (replicate 24 5))\<rparr>"

definition sample_env :: init_env where
  "sample_env = \<lparr>ie_lib = sample_lib, ie_paths = Inr (), ie_open = Inr (), ie_create = Created, ie_vault_id = sid 1,
     ie_installation_id = sid 200, ie_root_key = Some (h32 9), ie_draws = sample_draws, ie_now = 1000\<rparr>"

definition empty_host :: host where
  "empty_host = \<lparr>ho_root = None, ho_db = None\<rparr>"

definition sample_wrapped :: "key_kind \<Rightarrow> nat \<Rightarrow> nat option \<Rightarrow> wrapped_key_record" where
  "sample_wrapped kind n wrapping = \<lparr>wk_kind = kind, wk_version = 1, wk_object_id = sid 31, wk_wrapping_kek_version = wrapping,
     wk_nonce = replicate 24 5, wk_ciphertext = h32 n @ replicate 16 0\<rparr>"

definition start_bootstrap :: bootstrap_record where
  "start_bootstrap = \<lparr>bs_vault_id = sid 1, bs_installation_id = sid 200, bs_initialized_at = 1000,
     bs_key_encryption_key = sample_wrapped KeyEncryption 7 None, bs_blind_index_key = sample_wrapped BlindIndex 2 (Some 1),
     bs_audit_key = sample_wrapped Audit 3 (Some 1), bs_token_verifier_key = sample_wrapped TokenVerifier 4 (Some 1)\<rparr>"

lemma sample_sizes [simp]: "length (sid n) = 16" "length (h32 n) = 32" "bd_kek sample_draws = Some (h32 7)"
  by (simp_all add: sid_def h32_def sample_draws_def)

lemma sample_wrap: "wrap_key sample_lib (sid 31) (Some (replicate 24 5)) k (h32 n) vid iid kind okind wrapping = Inr (sample_wrapped kind n wrapping)"
  by (simp add: wrap_key_def seal_def seal_with_nonce_def sample_lib_def sample_wrapped_def try_into_array_def h32_def)

lemma sample_with_keys:
  "create_bootstrap_with_keys sample_lib sample_draws (sid 1) (sid 200) root kek
     \<lparr>pk_blind_index = h32 2, pk_audit = h32 3, pk_token_verifier = h32 4\<rparr> 1000 = Inr start_bootstrap"
  if "kek = h32 7"
  using that by (simp add: create_bootstrap_with_keys_def sample_draws_def sample_wrap start_bootstrap_def)

lemma sample_create: "create_bootstrap sample_lib sample_draws (sid 1) (sid 200) root 1000 = Inr start_bootstrap"
  using sample_with_keys by (simp add: create_bootstrap_def generated_def sample_draws_def)

lemma sample_begin: "\<exists>d. begin_initialization_kind start_bootstrap r empty_db = (Inr Begun, d)"
  by (auto simp: begin_initialization_kind_def rotation_evals empty_db_def start_bootstrap_def sample_wrapped_def key_row_of_def
      installation_row_of_def h32_def sample_defs)

lemma sample_env_ok [simp]: "env_ok sample_env"
  by (simp add: env_ok_def sample_env_def sample_draws_def is_none_or_def)

lemma sample_start: "\<exists>w h'. initialize_vault sample_env empty_host = (Inr w, h') \<and> is_ready (lv_db w)"
proof -
  obtain d where "begin_initialization_kind start_bootstrap False empty_db = (Inr Begun, d)" using sample_begin by blast
  then show ?thesis
    using sample_create [of "h32 9"] sample_lib_correct(1)
    by (intro fresh_start_succeeds [where key = "h32 9" and b = start_bootstrap and d = d])
       (simp_all add: empty_host_def sample_env_def env_ok_def sample_draws_def is_none_or_def)
qed

text \<open>C17. A vault that started once starts again: after a successful start, in a new installation with
  the keys it generated, or after an interrupted one, or on an existing vault, every later start under
  which the files are found again returns the same identity and the same keys and changes neither the
  database nor the provider file.\<close>

theorem vault_reopens:
  assumes "initialize_vault env h = (Inr w, h')" "env_ok env" "aead_correct (ie_lib env)"
    and "maintenance_jobs (store_of h) = [] \<or> (\<exists>i. installation (store_of h) = Inr (Some i) \<and> in_activation_state i \<noteq> Initializing)"
    and "ie_paths env' = Inr ()" "ie_open env' = Inr ()" "ie_lib env' = ie_lib env"
  shows "initialize_vault env' h' = (Inr w, h') \<and>
    (ho_db h = None \<longrightarrow> bd_blind_index (ie_draws env) = Some (vt_blind_index_key (lv_vault w)) \<and>
       bd_audit (ie_draws env) = Some (vt_audit_key (lv_vault w)) \<and>
       bd_token_verifier (ie_draws env) = Some (vt_token_verifier_key (lv_vault w)) \<and>
       (\<exists>kek. bd_kek (ie_draws env) = Some kek \<and>
          vt_key_ring (lv_vault w) = Some \<lparr>kr_active_version = 1, kr_keys = [1 \<mapsto> kek]\<rparr>))"
  using vault_starts_again [OF assms(1,2,4-7)] fresh_start [OF assms(1) _ assms(3,2)] by blast

theorem vault_reopens_witness:
  "\<exists>w h'. initialize_vault sample_env empty_host = (Inr w, h') \<and>
     initialize_vault (sample_env\<lparr>ie_now := 2000, ie_root_key := None\<rparr>) h' = (Inr w, h') \<and>
     vt_audit_key (lv_vault w) = h32 3"
proof -
  obtain w h' where start: "initialize_vault sample_env empty_host = (Inr w, h')" using sample_start by blast
  have "aead_correct (ie_lib sample_env)" using sample_lib_correct(1) by (simp add: sample_env_def)
  then show ?thesis
    using vault_reopens [OF start, of "sample_env\<lparr>ie_now := 2000, ie_root_key := None\<rparr>"] start
    by (simp add: store_of_def empty_host_def) (auto simp: sample_env_def sample_draws_def)
qed

end
