(* ===== verification/Storage_Portable.thy ===== *)
theory Storage_Portable
  imports Storage_Authorization Storage_Identity Storage_Vault
begin

text \<open>
  The portable snapshot of \<open>src/crates/smcv-storage/src/portable.rs\<close>: every durable row except the
  key registry, sessions, idempotency records and maintenance jobs, read under one snapshot, and
  imported in one transaction into an installation that is still initializing.
\<close>

section \<open>Data\<close>

record portable_namespace =
  pn_namespace_id :: uuid
  pn_parent_namespace_id :: "uuid option"
  pn_name_index :: bytes
  pn_metadata_version :: nat
  pn_metadata :: encrypted_record
  pn_lifecycle_state :: string
  pn_revision :: nat
  pn_state_commitment :: bytes
  pn_created_at :: unix_ms
  pn_updated_at :: unix_ms

record portable_secret =
  ps_secret_id :: uuid
  ps_namespace_id :: uuid
  ps_name_index :: bytes
  ps_metadata_version :: nat
  ps_metadata :: encrypted_record
  ps_lifecycle_state :: string
  ps_current_version :: nat
  ps_revision :: nat
  ps_state_commitment :: bytes
  ps_created_at :: unix_ms
  ps_updated_at :: unix_ms
  ps_deleted_at :: "unix_ms option"

record portable_secret_version =
  pv_secret_id :: uuid
  pv_version :: nat
  pv_payload :: encrypted_record
  pv_schedule :: secret_schedule
  pv_created_by :: "uuid option"
  pv_created_at :: unix_ms

record portable_tombstone =
  pt_secret_id :: uuid
  pt_namespace_id :: uuid
  pt_name_index :: bytes
  pt_last_version :: nat
  pt_purged_at :: unix_ms
  pt_retention_cutoff :: unix_ms

record portable_principal =
  pp_principal_id :: uuid
  pp_kind :: principal_kind
  pp_state :: string
  pp_revision :: nat
  pp_state_commitment :: bytes
  pp_created_at :: unix_ms
  pp_updated_at :: unix_ms

record portable_authenticator =
  ph_authenticator_id :: uuid
  ph_principal_id :: uuid
  ph_kind :: authenticator_kind
  ph_credential_lookup :: "bytes option"
  ph_credential_data :: "bytes option"
  ph_password_phc :: "string option"
  ph_state :: string
  ph_created_at :: unix_ms
  ph_last_used_at :: "unix_ms option"
  ph_revoked_at :: "unix_ms option"
  ph_state_commitment :: bytes

record portable_service_identity =
  py_principal_id :: uuid
  py_metadata_version :: nat
  py_metadata :: encrypted_record

record portable_application_credential =
  pc_credential_id :: uuid
  pc_principal_id :: uuid
  pc_lookup_id :: bytes
  pc_verifier :: bytes
  pc_created_at :: unix_ms
  pc_expires_at :: "unix_ms option"
  pc_last_used_at :: "unix_ms option"
  pc_revoked_at :: "unix_ms option"
  pc_revision :: nat
  pc_state_commitment :: bytes

text \<open>\<open>PortablePolicy\<close> has the fields of the policy record of the authorization graph.\<close>

type_synonym portable_policy = policy_record

record portable_snapshot_data =
  px_vault_id :: uuid
  px_source_installation_id :: uuid
  px_source_recovery_epoch :: nat
  px_security_semantics_version :: nat
  px_namespaces :: "portable_namespace list"
  px_secrets :: "portable_secret list"
  px_secret_versions :: "portable_secret_version list"
  px_tombstones :: "portable_tombstone list"
  px_principals :: "portable_principal list"
  px_authenticators :: "portable_authenticator list"
  px_service_identities :: "portable_service_identity list"
  px_application_credentials :: "portable_application_credential list"
  px_authorization_state :: authz_state
  px_policies :: "portable_policy list"
  px_grants :: "policy_grant_record list"
  px_bindings :: "policy_binding_record list"
  px_audit_records :: "audit_record list"

section \<open>Reading\<close>

definition parse_u64 :: "int \<Rightarrow> storage_error + nat" where
  "parse_u64 i = ok_or InvalidData (u64_of_i64 i)"

text \<open>The recursive tree of namespaces: a namespace has depth zero without a parent and one more than
  its parent otherwise; one that reaches no root has none.  Each step needs another row.\<close>

fun row_depth :: "nat \<Rightarrow> namespace_row list \<Rightarrow> bytes \<Rightarrow> nat option" where
  "row_depth 0 ns i = None"
| "row_depth (Suc fuel) ns i =
     (case find (\<lambda>n. n_id n = i) ns of
        None \<Rightarrow> None
      | Some n \<Rightarrow> (case n_parent n of None \<Rightarrow> Some 0 | Some p \<Rightarrow> map_option Suc (row_depth fuel ns p)))"

definition tree_depth :: "namespace_row list \<Rightarrow> namespace_row \<Rightarrow> nat option" where
  "tree_depth ns n = row_depth (length ns) ns (n_id n)"

definition namespace_tree :: "namespace_row list \<Rightarrow> namespace_row list" where
  "namespace_tree ns = sort_key (\<lambda>n. case tree_depth ns n of None \<Rightarrow> 0 | Some k \<Rightarrow> k)
     (sort_key n_id (filter (\<lambda>n. tree_depth ns n \<noteq> None) ns))"

definition read_namespace :: "namespace_row \<Rightarrow> storage_error + portable_namespace" where
  "read_namespace r =
     rbind (parse_uuid (n_id r)) (\<lambda>namespace_id.
     rbind (transpose_map parse_uuid (n_parent r)) (\<lambda>parent.
     rbind (try_into_array 32 InvalidData (n_name_index r)) (\<lambda>name_index.
     rbind (parse_u64 (n_metadata_version r)) (\<lambda>metadata_version.
     rbind (parse_envelope (n_meta r)) (\<lambda>metadata.
     rbind (parse_u64 (n_revision r)) (\<lambda>revision.
     rbind (try_into_array 32 InvalidData (n_commitment r)) (\<lambda>state_commitment.
     Inr \<lparr>pn_namespace_id = namespace_id, pn_parent_namespace_id = parent, pn_name_index = name_index,
          pn_metadata_version = metadata_version, pn_metadata = metadata, pn_lifecycle_state = n_lifecycle r,
          pn_revision = revision, pn_state_commitment = state_commitment, pn_created_at = n_created r,
          pn_updated_at = n_updated r\<rparr>)))))))"

definition read_secret :: "secret_row \<Rightarrow> storage_error + portable_secret" where
  "read_secret r =
     rbind (parse_uuid (s_id r)) (\<lambda>secret_id.
     rbind (parse_uuid (s_namespace_id r)) (\<lambda>namespace_id.
     rbind (try_into_array 32 InvalidData (s_name_index r)) (\<lambda>name_index.
     rbind (parse_u64 (s_metadata_version r)) (\<lambda>metadata_version.
     rbind (parse_envelope (s_meta r)) (\<lambda>metadata.
     rbind (parse_u64 (s_current r)) (\<lambda>current_version.
     rbind (parse_u64 (s_revision r)) (\<lambda>revision.
     rbind (try_into_array 32 InvalidData (s_commitment r)) (\<lambda>state_commitment.
     Inr \<lparr>ps_secret_id = secret_id, ps_namespace_id = namespace_id, ps_name_index = name_index,
          ps_metadata_version = metadata_version, ps_metadata = metadata, ps_lifecycle_state = s_lifecycle r,
          ps_current_version = current_version, ps_revision = revision, ps_state_commitment = state_commitment,
          ps_created_at = s_created r, ps_updated_at = s_updated r, ps_deleted_at = s_deleted r\<rparr>))))))))"

definition read_secret_version :: "version_row \<Rightarrow> storage_error + portable_secret_version" where
  "read_secret_version r =
     rbind (parse_uuid (v_secret_id r)) (\<lambda>secret_id.
     rbind (parse_u64 (v_version r)) (\<lambda>version.
     rbind (parse_envelope (v_payload r)) (\<lambda>payload.
     rbind (transpose_map parse_uuid (v_created_by r)) (\<lambda>created_by.
     Inr \<lparr>pv_secret_id = secret_id, pv_version = version, pv_payload = payload,
          pv_schedule = \<lparr>expires_at = v_expires r, rotation_due_at = v_rotation r\<rparr>,
          pv_created_by = created_by, pv_created_at = v_created r\<rparr>))))"

definition read_tombstone :: "tombstone_row \<Rightarrow> storage_error + portable_tombstone" where
  "read_tombstone r =
     rbind (parse_uuid (t_secret_id r)) (\<lambda>secret_id.
     rbind (parse_uuid (t_namespace_id r)) (\<lambda>namespace_id.
     rbind (try_into_array 32 InvalidData (t_name_index r)) (\<lambda>name_index.
     rbind (parse_u64 (t_last_version r)) (\<lambda>last_version.
     Inr \<lparr>pt_secret_id = secret_id, pt_namespace_id = namespace_id, pt_name_index = name_index,
          pt_last_version = last_version, pt_purged_at = t_purged r, pt_retention_cutoff = t_cutoff r\<rparr>))))"

definition read_principal :: "principal_row \<Rightarrow> storage_error + portable_principal" where
  "read_principal r =
     rbind (parse_uuid (p_id r)) (\<lambda>principal_id.
     rbind (principal_kind_parse (p_kind r)) (\<lambda>kind.
     rbind (parse_u64 (p_revision r)) (\<lambda>revision.
     rbind (try_into_array 32 InvalidData (p_commitment r)) (\<lambda>state_commitment.
     Inr \<lparr>pp_principal_id = principal_id, pp_kind = kind, pp_state = p_state r, pp_revision = revision,
          pp_state_commitment = state_commitment, pp_created_at = p_created r, pp_updated_at = p_updated r\<rparr>))))"

definition read_authenticator :: "authenticator_row \<Rightarrow> storage_error + portable_authenticator" where
  "read_authenticator r =
     rbind (parse_uuid (h_id r)) (\<lambda>authenticator_id.
     rbind (parse_uuid (h_principal r)) (\<lambda>principal_id.
     rbind (authenticator_kind_parse (h_kind r)) (\<lambda>kind.
     rbind (try_into_array 32 InvalidData (h_commitment r)) (\<lambda>state_commitment.
     Inr \<lparr>ph_authenticator_id = authenticator_id, ph_principal_id = principal_id, ph_kind = kind,
          ph_credential_lookup = h_lookup r, ph_credential_data = h_data r, ph_password_phc = h_phc r,
          ph_state = h_state r, ph_created_at = h_created r, ph_last_used_at = h_last_used r,
          ph_revoked_at = h_revoked r, ph_state_commitment = state_commitment\<rparr>))))"

definition read_service_identity :: "service_row \<Rightarrow> storage_error + portable_service_identity" where
  "read_service_identity r =
     rbind (parse_uuid (y_principal r)) (\<lambda>principal_id.
     rbind (parse_u64 (y_metadata_version r)) (\<lambda>metadata_version.
     rbind (parse_envelope (y_meta r)) (\<lambda>metadata.
     Inr \<lparr>py_principal_id = principal_id, py_metadata_version = metadata_version, py_metadata = metadata\<rparr>)))"

definition read_application_credential :: "credential_row \<Rightarrow> storage_error + portable_application_credential" where
  "read_application_credential r =
     rbind (parse_uuid (c_id r)) (\<lambda>credential_id.
     rbind (parse_uuid (c_principal r)) (\<lambda>principal_id.
     rbind (try_into_array 12 InvalidData (c_lookup r)) (\<lambda>lookup_id.
     rbind (try_into_array 32 InvalidData (c_verifier r)) (\<lambda>verifier.
     rbind (parse_u64 (c_revision r)) (\<lambda>revision.
     rbind (try_into_array 32 InvalidData (c_commitment r)) (\<lambda>state_commitment.
     Inr \<lparr>pc_credential_id = credential_id, pc_principal_id = principal_id, pc_lookup_id = lookup_id,
          pc_verifier = verifier, pc_created_at = c_created r, pc_expires_at = c_expires r,
          pc_last_used_at = c_last_used r, pc_revoked_at = c_revoked r, pc_revision = revision,
          pc_state_commitment = state_commitment\<rparr>))))))"

text \<open>Here any value other than one reads as no descendants.\<close>

definition read_grant :: "grant_row \<Rightarrow> storage_error + policy_grant_record" where
  "read_grant r =
     rbind (parse_uuid (g_id r)) (\<lambda>grant_id.
     rbind (parse_uuid (g_policy r)) (\<lambda>policy_id.
     rbind (map_err (\<lambda>_. InvalidData) (action_from_str (g_action r))) (\<lambda>action.
     rbind (parse_resource_kind (g_kind r)) (\<lambda>resource_kind.
     rbind (parse_uuid (g_resource r)) (\<lambda>resource_id.
     rbind (parse_uuid (g_actor r)) (\<lambda>created_by.
     rbind (try_into_array 32 InvalidData (g_commitment r)) (\<lambda>state_commitment.
     Inr \<lparr>pg_grant_id = grant_id, pg_policy_id = policy_id, pg_action = action,
          pg_resource_kind = resource_kind, pg_resource_id = resource_id,
          pg_include_descendants = (g_descendants r = 1), pg_created_by = created_by,
          pg_created_at = g_created r, pg_state_commitment = state_commitment\<rparr>)))))))"

definition ready_installation :: "db \<Rightarrow> storage_error + (uuid \<times> uuid \<times> nat \<times> nat)" where
  "ready_installation d =
     rbind (ok_or Sqlite (case installation_state d of None \<Rightarrow> None
       | Some r \<Rightarrow> if i_activation_state r = ''ready'' then Some r else None)) (\<lambda>r.
     rbind (parse_uuid (i_vault_id r)) (\<lambda>vault_id.
     rbind (parse_uuid (i_installation_id r)) (\<lambda>installation_id.
     rbind (parse_u64 (i_recovery_epoch r)) (\<lambda>epoch.
     rbind (ok_or InvalidData (u32_of_i64 (i_semantics r))) (\<lambda>semantics.
     Inr (vault_id, installation_id, epoch, semantics))))))"

definition portable_snapshot :: "db \<Rightarrow> storage_error + portable_snapshot_data" where
  "portable_snapshot =
     query (\<lambda>d.
       rbind (ready_installation d) (\<lambda>(vault_id, installation_id, epoch, semantics).
       rbind (traverse read_namespace (namespace_tree (rows (namespaces d)))) (\<lambda>ns.
       rbind (traverse read_secret (sort_key s_id (rows (secrets d)))) (\<lambda>ss.
       rbind (traverse read_secret_version (sort_key v_secret_id (sort_key v_version (rows (secret_versions d))))) (\<lambda>vs.
       rbind (traverse read_tombstone (sort_key t_secret_id (rows (tombstones d)))) (\<lambda>ts.
       rbind (traverse read_principal (sort_key p_id (rows (principals d)))) (\<lambda>ps.
       rbind (traverse read_authenticator (sort_key h_id (rows (owner_authenticators d)))) (\<lambda>as.
       rbind (traverse read_service_identity (sort_key y_principal (rows (service_identities d)))) (\<lambda>ys.
       rbind (traverse read_application_credential (sort_key c_id (rows (application_credentials d)))) (\<lambda>cs.
       rbind (parse_authz_state (authorization_state d)) (\<lambda>z.
       rbind (traverse parse_policy (sort_key l_id (rows (policies d)))) (\<lambda>ls.
       rbind (traverse read_grant (sort_key g_id (rows (policy_grants d)))) (\<lambda>gs.
       rbind (traverse parse_binding (sort_key b_principal (sort_key b_policy (rows (policy_bindings d))))) (\<lambda>bs.
       rbind (traverse parse_audit (sort_key a_sequence (audit_events d))) (\<lambda>events.
       Inr \<lparr>px_vault_id = vault_id, px_source_installation_id = installation_id, px_source_recovery_epoch = epoch,
            px_security_semantics_version = semantics, px_namespaces = ns, px_secrets = ss, px_secret_versions = vs,
            px_tombstones = ts, px_principals = ps, px_authenticators = as, px_service_identities = ys,
            px_application_credentials = cs, px_authorization_state = z, px_policies = ls, px_grants = gs,
            px_bindings = bs, px_audit_records = events\<rparr>)))))))))))))))"

section \<open>Importing\<close>

definition sql_u64 :: "nat \<Rightarrow> storage_error + int" where
  "sql_u64 v = ok_or InvalidData (i64_of_u64 v)"

fun principal_kind_str :: "principal_kind \<Rightarrow> string" where
  "principal_kind_str Owner = ''owner''"
| "principal_kind_str Service = ''service''"

definition principal_values :: "portable_principal \<Rightarrow> storage_error + principal_row" where
  "principal_values p =
     rbind (sql_u64 (pp_revision p)) (\<lambda>revision.
     Inr \<lparr>p_id = pp_principal_id p, p_kind = principal_kind_str (pp_kind p), p_state = pp_state p, p_revision = revision,
          p_commitment = pp_state_commitment p, p_created = pp_created_at p, p_updated = pp_updated_at p\<rparr>)"

definition authenticator_values :: "portable_authenticator \<Rightarrow> storage_error + authenticator_row" where
  "authenticator_values a =
     Inr \<lparr>h_id = ph_authenticator_id a, h_principal = ph_principal_id a, h_kind = authenticator_kind_as_str (ph_kind a),
          h_lookup = ph_credential_lookup a, h_data = ph_credential_data a, h_phc = ph_password_phc a, h_state = ph_state a,
          h_created = ph_created_at a, h_last_used = ph_last_used_at a, h_revoked = ph_revoked_at a,
          h_commitment = ph_state_commitment a\<rparr>"

definition service_identity_values :: "portable_service_identity \<Rightarrow> storage_error + service_row" where
  "service_identity_values y =
     rbind (sql_u64 (py_metadata_version y)) (\<lambda>version.
     Inr \<lparr>y_principal = py_principal_id y, y_metadata_version = version, y_meta = enc_cols_of (py_metadata y)\<rparr>)"

definition application_credential_values :: "portable_application_credential \<Rightarrow> storage_error + credential_row" where
  "application_credential_values c =
     rbind (sql_u64 (pc_revision c)) (\<lambda>revision.
     Inr \<lparr>c_id = pc_credential_id c, c_principal = pc_principal_id c, c_lookup = pc_lookup_id c, c_verifier = pc_verifier c,
          c_created = pc_created_at c, c_expires = pc_expires_at c, c_last_used = pc_last_used_at c, c_revoked = pc_revoked_at c,
          c_revision = revision, c_commitment = pc_state_commitment c\<rparr>)"

definition namespace_values :: "portable_namespace \<Rightarrow> storage_error + namespace_row" where
  "namespace_values n =
     rbind (sql_u64 (pn_metadata_version n)) (\<lambda>metadata_version.
     rbind (sql_u64 (pn_revision n)) (\<lambda>revision.
     Inr \<lparr>n_id = pn_namespace_id n, n_parent = pn_parent_namespace_id n, n_name_index = pn_name_index n,
          n_metadata_version = metadata_version, n_meta = enc_cols_of (pn_metadata n), n_lifecycle = pn_lifecycle_state n,
          n_revision = revision, n_commitment = pn_state_commitment n, n_created = pn_created_at n, n_updated = pn_updated_at n\<rparr>))"

definition secret_values :: "portable_secret \<Rightarrow> storage_error + secret_row" where
  "secret_values s =
     rbind (sql_u64 (ps_metadata_version s)) (\<lambda>metadata_version.
     rbind (sql_u64 (ps_current_version s)) (\<lambda>current.
     rbind (sql_u64 (ps_revision s)) (\<lambda>revision.
     Inr \<lparr>s_id = ps_secret_id s, s_namespace_id = ps_namespace_id s, s_name_index = ps_name_index s,
          s_metadata_version = metadata_version, s_meta = enc_cols_of (ps_metadata s), s_lifecycle = ps_lifecycle_state s,
          s_current = current, s_revision = revision, s_commitment = ps_state_commitment s, s_created = ps_created_at s,
          s_updated = ps_updated_at s, s_deleted = ps_deleted_at s\<rparr>)))"

definition secret_version_values :: "portable_secret_version \<Rightarrow> storage_error + version_row" where
  "secret_version_values v =
     rbind (sql_u64 (pv_version v)) (\<lambda>version.
     Inr \<lparr>v_secret_id = pv_secret_id v, v_version = version, v_envelope = 1, v_suite = 1, v_payload = enc_cols_of (pv_payload v),
          v_expires = expires_at (pv_schedule v), v_rotation = rotation_due_at (pv_schedule v), v_created_by = pv_created_by v,
          v_created = pv_created_at v\<rparr>)"

definition tombstone_values :: "portable_tombstone \<Rightarrow> storage_error + tombstone_row" where
  "tombstone_values t =
     rbind (sql_u64 (pt_last_version t)) (\<lambda>last_version.
     Inr \<lparr>t_secret_id = pt_secret_id t, t_namespace_id = pt_namespace_id t, t_name_index = pt_name_index t,
          t_last_version = last_version, t_purged = pt_purged_at t, t_cutoff = pt_retention_cutoff t\<rparr>)"

definition policy_values :: "portable_policy \<Rightarrow> storage_error + policy_row" where
  "policy_values p =
     rbind (sql_u64 (po_revision p)) (\<lambda>revision.
     rbind (sql_u64 (po_metadata_version p)) (\<lambda>metadata_version.
     Inr \<lparr>l_id = po_policy_id p, l_revision = revision, l_state = po_state p, l_metadata_version = metadata_version,
          l_meta = enc_cols_of (po_metadata p), l_commitment = po_state_commitment p, l_created = po_created_at p,
          l_updated = po_updated_at p\<rparr>))"

text \<open>One \<open>INSERT\<close> with the foreign keys of its row, and the loop over the records of a table.\<close>

definition insert_row :: "('r \<Rightarrow> bool) \<Rightarrow> ('r table \<Rightarrow> bool) \<Rightarrow> ('r \<Rightarrow> db \<Rightarrow> bool) \<Rightarrow> (db \<Rightarrow> 'r table) \<Rightarrow>
    ('r table \<Rightarrow> db \<Rightarrow> db) \<Rightarrow> 'r \<Rightarrow> db \<Rightarrow> storage_error + db" where
  "insert_row check uniq refs get put r d =
     rbind (sql_insert check uniq r (get d)) (\<lambda>t.
     rbind (ensure (refs r (put t d)) Sqlite) (\<lambda>_. Inr (put t d)))"

definition insert_rows :: "('p \<Rightarrow> storage_error + 'r) \<Rightarrow> ('r \<Rightarrow> db \<Rightarrow> storage_error + db) \<Rightarrow> 'p list \<Rightarrow> db \<Rightarrow> storage_error + db" where
  "insert_rows values stmt records d = try_fold (\<lambda>d p. rbind (values p) (\<lambda>r. stmt r d)) d records"

definition insert_principals :: "portable_principal list \<Rightarrow> db \<Rightarrow> storage_error + db" where
  "insert_principals = insert_rows principal_values
     (insert_row principal_check principals_unique (\<lambda>r d. True) principals (\<lambda>t d. d\<lparr>principals := t\<rparr>))"

definition insert_authenticators :: "portable_authenticator list \<Rightarrow> db \<Rightarrow> storage_error + db" where
  "insert_authenticators = insert_rows authenticator_values
     (insert_row authenticator_check authenticators_unique (\<lambda>r d. principal_exists d (h_principal r))
       owner_authenticators (\<lambda>t d. d\<lparr>owner_authenticators := t\<rparr>))"

definition insert_service_identities :: "portable_service_identity list \<Rightarrow> db \<Rightarrow> storage_error + db" where
  "insert_service_identities = insert_rows service_identity_values
     (insert_row service_check (unique_key y_principal) (\<lambda>r d. principal_exists d (y_principal r))
       service_identities (\<lambda>t d. d\<lparr>service_identities := t\<rparr>))"

definition insert_application_credentials :: "portable_application_credential list \<Rightarrow> db \<Rightarrow> storage_error + db" where
  "insert_application_credentials = insert_rows application_credential_values
     (insert_row credential_check credentials_unique (\<lambda>r d. principal_exists d (c_principal r))
       application_credentials (\<lambda>t d. d\<lparr>application_credentials := t\<rparr>))"

definition insert_namespaces :: "portable_namespace list \<Rightarrow> db \<Rightarrow> storage_error + db" where
  "insert_namespaces = insert_rows namespace_values
     (insert_row namespace_check namespaces_unique
       (\<lambda>r d. is_none_or (\<lambda>p. tbl_exists (\<lambda>m. n_id m = p) (namespaces d)) (n_parent r))
       namespaces (\<lambda>t d. d\<lparr>namespaces := t\<rparr>))"

definition insert_secrets :: "portable_secret list \<Rightarrow> db \<Rightarrow> storage_error + db" where
  "insert_secrets = insert_rows secret_values
     (insert_row secret_check secrets_unique (\<lambda>r d. tbl_exists (\<lambda>n. n_id n = s_namespace_id r) (namespaces d))
       secrets (\<lambda>t d. d\<lparr>secrets := t\<rparr>))"

definition insert_secret_versions :: "portable_secret_version list \<Rightarrow> db \<Rightarrow> storage_error + db" where
  "insert_secret_versions = insert_rows secret_version_values
     (insert_row version_check versions_unique (\<lambda>r d. tbl_exists (\<lambda>s. s_id s = v_secret_id r) (secrets d))
       secret_versions (\<lambda>t d. d\<lparr>secret_versions := t\<rparr>))"

definition insert_tombstones :: "portable_tombstone list \<Rightarrow> db \<Rightarrow> storage_error + db" where
  "insert_tombstones = insert_rows tombstone_values
     (insert_row tombstone_check (unique_key t_secret_id) (\<lambda>r d. True) tombstones (\<lambda>t d. d\<lparr>tombstones := t\<rparr>))"

definition insert_policies :: "portable_policy list \<Rightarrow> db \<Rightarrow> storage_error + db" where
  "insert_policies = insert_rows policy_values
     (insert_row policy_check (unique_key l_id) (\<lambda>r d. True) policies (\<lambda>t d. d\<lparr>policies := t\<rparr>))"

definition insert_grants :: "policy_grant_record list \<Rightarrow> db \<Rightarrow> storage_error + db" where
  "insert_grants = insert_rows (\<lambda>g. Inr (grant_row_of g))
     (insert_row grant_check grants_unique (\<lambda>r d. policy_exists d (g_policy r) \<and> principal_exists d (g_actor r))
       policy_grants (\<lambda>t d. d\<lparr>policy_grants := t\<rparr>))"

definition insert_bindings :: "policy_binding_record list \<Rightarrow> db \<Rightarrow> storage_error + db" where
  "insert_bindings = insert_rows (\<lambda>b. Inr (binding_row_of b))
     (insert_row binding_check bindings_unique
       (\<lambda>r d. principal_exists d (b_principal r) \<and> policy_exists d (b_policy r) \<and> principal_exists d (b_actor r))
       policy_bindings (\<lambda>t d. d\<lparr>policy_bindings := t\<rparr>))"

definition insert_audit_record :: "audit_record \<Rightarrow> db \<Rightarrow> storage_error + db" where
  "insert_audit_record a d =
     rbind (sql_u64 (ar_sequence a)) (\<lambda>_.
     rbind (sql_u64 (ar_recovery_epoch a)) (\<lambda>_.
     (let r = audit_row_of a in
      if audit_check r \<and> \<not> list_ex (\<lambda>e. a_sequence e = a_sequence r \<or> a_event_id e = a_event_id r) (audit_events d)
      then Inr (d\<lparr>audit_events := audit_events d @ [r]\<rparr>) else Inl Sqlite)))"

definition insert_audit_records :: "audit_record list \<Rightarrow> db \<Rightarrow> storage_error + db" where
  "insert_audit_records = insert_rows Inr insert_audit_record"

text \<open>\<open>PRAGMA foreign_key_check\<close> over every table with references.\<close>

definition foreign_key_check :: "db \<Rightarrow> bool" where
  "foreign_key_check d =
     (fk_namespace_parent d \<and> fk_secret_namespace d \<and> fk_current_version d \<and> fk_version_secret d \<and>
      list_all (\<lambda>h. principal_exists d (h_principal h)) (rows (owner_authenticators d)) \<and>
      list_all (\<lambda>w. principal_exists d (w_principal w) \<and> authenticator_exists d (w_authenticator w)) (rows (sessions d)) \<and>
      list_all (\<lambda>y. principal_exists d (y_principal y)) (rows (service_identities d)) \<and>
      list_all (\<lambda>c. principal_exists d (c_principal c)) (rows (application_credentials d)) \<and>
      list_all (\<lambda>g. policy_exists d (g_policy g) \<and> principal_exists d (g_actor g)) (rows (policy_grants d)) \<and>
      list_all (\<lambda>b. principal_exists d (b_principal b) \<and> policy_exists d (b_policy b) \<and> principal_exists d (b_actor b))
        (rows (policy_bindings d)) \<and>
      list_all (\<lambda>i. principal_exists d (d_principal i)) (rows (idempotency_records d)))"

definition import_target :: "portable_snapshot_data \<Rightarrow> nat \<Rightarrow> db \<Rightarrow> storage_error + db" where
  "import_target snapshot destination_recovery_epoch d =
     rbind (ok_or Sqlite (installation_state d)) (\<lambda>row.
     rbind (ensure (i_activation_state row = ''initializing'') StateConflict) (\<lambda>_.
     rbind (parse_uuid (i_vault_id row)) (\<lambda>vault_id.
     rbind (ensure (vault_id = px_vault_id snapshot) StateConflict) (\<lambda>_.
     rbind (ensure (length (namespaces d) + length (secrets d) + length (principals d) + length (audit_events d) +
       length (policies d) = 0) StateConflict) (\<lambda>_.
     rbind (sql_u64 destination_recovery_epoch) (\<lambda>epoch.
     (let row' = row\<lparr>i_recovery_epoch := epoch, i_semantics := int (px_security_semantics_version snapshot)\<rparr> in
      rbind (ensure (installation_check row') Sqlite) (\<lambda>_. Inr (d\<lparr>installation_state := Some row'\<rparr>)))))))))"

definition import_rows :: "portable_snapshot_data \<Rightarrow> db \<Rightarrow> storage_error + db" where
  "import_rows snapshot d =
     rbind (insert_principals (px_principals snapshot) d) (\<lambda>d.
     rbind (insert_authenticators (px_authenticators snapshot) d) (\<lambda>d.
     rbind (insert_service_identities (px_service_identities snapshot) d) (\<lambda>d.
     rbind (insert_application_credentials (px_application_credentials snapshot) d) (\<lambda>d.
     rbind (insert_namespaces (px_namespaces snapshot) d) (\<lambda>d.
     rbind (insert_secrets (px_secrets snapshot) d) (\<lambda>d.
     rbind (insert_secret_versions (px_secret_versions snapshot) d) (\<lambda>d.
     rbind (insert_tombstones (px_tombstones snapshot) d) (\<lambda>d.
     rbind (insert_policies (px_policies snapshot) d) (\<lambda>d.
     rbind (insert_grants (px_grants snapshot) d) (\<lambda>d.
     rbind (insert_bindings (px_bindings snapshot) d) (\<lambda>d.
     rbind (sql_u64 (as_revision (px_authorization_state snapshot))) (\<lambda>revision.
     (let z = \<lparr>z_revision = revision, z_commitment = as_state_commitment (px_authorization_state snapshot)\<rparr> in
      rbind (ensure (authorization_check z) Sqlite) (\<lambda>_.
      insert_audit_records (px_audit_records snapshot) (d\<lparr>authorization_state := z\<rparr>)))))))))))))))"

definition import_portable_snapshot :: "portable_snapshot_data \<Rightarrow> nat \<Rightarrow> db \<Rightarrow> (storage_error + unit) \<times> db" where
  "import_portable_snapshot snapshot destination_recovery_epoch =
     transaction (\<lambda>d.
       rbind (import_target snapshot destination_recovery_epoch d) (\<lambda>d1.
       rbind (import_rows snapshot d1) (\<lambda>d2.
       rbind (ensure (foreign_key_check d2) InvalidData) (\<lambda>_. Inr ((), d2)))))"

section \<open>What an import copies\<close>

text \<open>The contract between the reader and the writer of a table: writing what was read from a row gives
  the row back.\<close>

locale portable_table =
  fixes read :: "'r \<Rightarrow> storage_error + 'p" and vals :: "'p \<Rightarrow> storage_error + 'r"
    and check :: "'r \<Rightarrow> bool" and uniq :: "'r table \<Rightarrow> bool" and refs :: "'r \<Rightarrow> db \<Rightarrow> bool"
    and get :: "db \<Rightarrow> 'r table" and put :: "'r table \<Rightarrow> db \<Rightarrow> db"
  assumes get_put: "get (put t d) = t"
    and put_put: "put t (put t' d) = put t d"
    and put_get: "put (get d) d = d"
    and read_written: "check r \<Longrightarrow> read r = Inr p \<Longrightarrow> vals p = Inr r"
begin

lemma inserted:
  assumes "insert_rows vals (insert_row check uniq refs get put) ps d = Inr d'"
  shows "\<exists>t rs. d' = put t d \<and> rows t = rows (get d) @ rs \<and> list_all2 (\<lambda>p r. vals p = Inr r) ps rs \<and> list_all check rs"
  using assms unfolding insert_rows_def
proof (induction ps arbitrary: d)
  case Nil
  then show ?case using put_get by (intro exI [of _ "get d"] exI [of _ "[]"]) simp
next
  case (Cons p ps)
  then obtain r where r: "vals p = Inr r" "check r"
    and rest: "try_fold (\<lambda>d p. rbind (vals p) (\<lambda>r. insert_row check uniq refs get put r d)) (put (tbl_insert r (get d)) d) ps = Inr d'"
    by (auto simp: insert_row_def result_simps)
  obtain t rs where "d' = put t (put (tbl_insert r (get d)) d)" "rows t = rows (get (put (tbl_insert r (get d)) d)) @ rs"
    "list_all2 (\<lambda>p r. vals p = Inr r) ps rs" "list_all check rs"
    using Cons.IH [OF rest] by blast
  then show ?case using r by (intro exI [of _ t] exI [of _ "r # rs"]) (simp add: get_put put_put)
qed

lemma copied:
  assumes "traverse read xs = Inr ps" "\<And>r. r \<in> set xs \<Longrightarrow> check r"
    and "insert_rows vals (insert_row check uniq refs get put) ps d = Inr d'"
  shows "\<exists>t. d' = put t d \<and> rows t = rows (get d) @ xs"
proof -
  obtain t rs where t: "d' = put t d" "rows t = rows (get d) @ rs" "list_all2 (\<lambda>p r. vals p = Inr r) ps rs"
    using inserted [OF assms(3)] by blast
  have "vals (ps ! i) = Inr (xs ! i)" if "i < length xs" for i
    using assms(1) that by (intro read_written assms(2)) (auto simp: traverse_Inr_iff list_all2_conv_all_nth)
  then have "rs = xs"
    using assms(1) t(3) by (auto simp: traverse_Inr_iff list_all2_conv_all_nth intro!: nth_equalityI)
  then show ?thesis using t by blast
qed

end

lemma envelope_written:
  assumes "parse_envelope x = Inr e"
  shows "enc_cols_of e = x"
  using assms by (auto simp: parse_envelope_def enc_cols_of_def result_simps)

lemmas portable_evals = parse_u64_def sql_u64_def parse_uuid_def result_simps transpose_map_def

interpretation principal_table: portable_table read_principal principal_values principal_check principals_unique
  "\<lambda>r d. True" principals "\<lambda>t d. d\<lparr>principals := t\<rparr>"
  by unfold_locales (auto simp: read_principal_def principal_values_def principal_kind_parse_def portable_evals split: if_splits)

interpretation authenticator_table: portable_table read_authenticator authenticator_values authenticator_check authenticators_unique
  "\<lambda>r d. principal_exists d (h_principal r)" owner_authenticators "\<lambda>t d. d\<lparr>owner_authenticators := t\<rparr>"
  by unfold_locales (auto simp: read_authenticator_def authenticator_values_def authenticator_kind_parse_def portable_evals split: if_splits)

interpretation service_table: portable_table read_service_identity service_identity_values service_check "unique_key y_principal"
  "\<lambda>r d. principal_exists d (y_principal r)" service_identities "\<lambda>t d. d\<lparr>service_identities := t\<rparr>"
  by unfold_locales (auto simp: read_service_identity_def service_identity_values_def portable_evals dest: envelope_written)

interpretation credential_table: portable_table read_application_credential application_credential_values credential_check credentials_unique
  "\<lambda>r d. principal_exists d (c_principal r)" application_credentials "\<lambda>t d. d\<lparr>application_credentials := t\<rparr>"
  by unfold_locales (auto simp: read_application_credential_def application_credential_values_def portable_evals)

interpretation namespace_table: portable_table read_namespace namespace_values namespace_check namespaces_unique
  "\<lambda>r d. is_none_or (\<lambda>p. tbl_exists (\<lambda>m. n_id m = p) (namespaces d)) (n_parent r)" namespaces "\<lambda>t d. d\<lparr>namespaces := t\<rparr>"
  by unfold_locales (auto simp: read_namespace_def namespace_values_def portable_evals dest: envelope_written split: option.splits)

interpretation secret_table: portable_table read_secret secret_values secret_check secrets_unique
  "\<lambda>r d. tbl_exists (\<lambda>n. n_id n = s_namespace_id r) (namespaces d)" secrets "\<lambda>t d. d\<lparr>secrets := t\<rparr>"
  by unfold_locales (auto simp: read_secret_def secret_values_def portable_evals dest: envelope_written)

interpretation version_table: portable_table read_secret_version secret_version_values version_check versions_unique
  "\<lambda>r d. tbl_exists (\<lambda>s. s_id s = v_secret_id r) (secrets d)" secret_versions "\<lambda>t d. d\<lparr>secret_versions := t\<rparr>"
  by unfold_locales (auto simp: read_secret_version_def secret_version_values_def version_check_def portable_evals
      dest: envelope_written split: option.splits)

interpretation tombstone_table: portable_table read_tombstone tombstone_values tombstone_check "unique_key t_secret_id"
  "\<lambda>r d. True" tombstones "\<lambda>t d. d\<lparr>tombstones := t\<rparr>"
  by unfold_locales (auto simp: read_tombstone_def tombstone_values_def portable_evals)

interpretation policy_table: portable_table parse_policy policy_values policy_check "unique_key l_id"
  "\<lambda>r d. True" policies "\<lambda>t d. d\<lparr>policies := t\<rparr>"
  by unfold_locales (auto simp: parse_policy_def policy_values_def portable_evals dest: envelope_written)

lemma read_grant_written: "grant_check r \<Longrightarrow> read_grant r = Inr p \<Longrightarrow> grant_row_of p = r"
  by (auto simp: read_grant_def grant_row_of_def grant_check_def parse_resource_kind_def action_from_str_def portable_evals
      find_Some_iff split: if_splits option.splits)

interpretation grant_table: portable_table read_grant "\<lambda>g. Inr (grant_row_of g)" grant_check grants_unique
  "\<lambda>r d. policy_exists d (g_policy r) \<and> principal_exists d (g_actor r)" policy_grants "\<lambda>t d. d\<lparr>policy_grants := t\<rparr>"
  by unfold_locales (auto dest: read_grant_written)

interpretation binding_table: portable_table parse_binding "\<lambda>b. Inr (binding_row_of b)" binding_check bindings_unique
  "\<lambda>r d. principal_exists d (b_principal r) \<and> policy_exists d (b_policy r) \<and> principal_exists d (b_actor r)"
  policy_bindings "\<lambda>t d. d\<lparr>policy_bindings := t\<rparr>"
  by unfold_locales (auto simp: parse_binding_def binding_row_of_def portable_evals)

lemma parse_audit_written: "parse_audit r = Inr a \<Longrightarrow> audit_row_of a = r"
  by (auto simp: parse_audit_def audit_row_of_def portable_evals split: option.splits)

lemma audit_copied:
  assumes "traverse parse_audit xs = Inr as" "insert_audit_records as d = Inr d'"
  shows "d' = d\<lparr>audit_events := audit_events d @ xs\<rparr>"
  using assms unfolding insert_audit_records_def insert_rows_def
proof (induction xs arbitrary: as d)
  case Nil
  then show ?case by simp
next
  case (Cons x xs)
  then obtain a as' where as: "as = a # as'" "parse_audit x = Inr a" "traverse parse_audit xs = Inr as'"
    by (auto simp: result_simps)
  then have "try_fold (\<lambda>d p. rbind (Inr p) (\<lambda>r. insert_audit_record r d)) (d\<lparr>audit_events := audit_events d @ [x]\<rparr>) as' = Inr d'"
    using Cons.prems(2) parse_audit_written [OF as(2)]
    by (auto simp: insert_audit_record_def Let_def result_simps split: if_splits)
  from Cons.IH [OF as(3) this] show ?case by simp
qed

text \<open>The rows of the portable tables satisfy the \<open>CHECK\<close> constraints.\<close>

definition checks_hold :: "db \<Rightarrow> bool" where
  "checks_hold d =
     (list_all namespace_check (rows (namespaces d)) \<and> list_all secret_check (rows (secrets d)) \<and>
      list_all version_check (rows (secret_versions d)) \<and> list_all tombstone_check (rows (tombstones d)) \<and>
      list_all principal_check (rows (principals d)) \<and> list_all authenticator_check (rows (owner_authenticators d)) \<and>
      list_all service_check (rows (service_identities d)) \<and> list_all credential_check (rows (application_credentials d)) \<and>
      list_all policy_check (rows (policies d)) \<and> list_all grant_check (rows (policy_grants d)) \<and>
      list_all binding_check (rows (policy_bindings d)))"

text \<open>The second database holds the rows of the first, appended to those of the base.\<close>

definition copied_onto :: "db \<Rightarrow> db \<Rightarrow> db \<Rightarrow> bool" where
  "copied_onto d0 d d' =
     (rows (principals d') = rows (principals d0) @ sort_key p_id (rows (principals d)) \<and>
      rows (owner_authenticators d') = rows (owner_authenticators d0) @ sort_key h_id (rows (owner_authenticators d)) \<and>
      rows (service_identities d') = rows (service_identities d0) @ sort_key y_principal (rows (service_identities d)) \<and>
      rows (application_credentials d') = rows (application_credentials d0) @ sort_key c_id (rows (application_credentials d)) \<and>
      rows (namespaces d') = rows (namespaces d0) @ namespace_tree (rows (namespaces d)) \<and>
      rows (secrets d') = rows (secrets d0) @ sort_key s_id (rows (secrets d)) \<and>
      rows (secret_versions d') = rows (secret_versions d0) @ sort_key v_secret_id (sort_key v_version (rows (secret_versions d))) \<and>
      rows (tombstones d') = rows (tombstones d0) @ sort_key t_secret_id (rows (tombstones d)) \<and>
      rows (policies d') = rows (policies d0) @ sort_key l_id (rows (policies d)) \<and>
      rows (policy_grants d') = rows (policy_grants d0) @ sort_key g_id (rows (policy_grants d)) \<and>
      rows (policy_bindings d') = rows (policy_bindings d0) @ sort_key b_principal (sort_key b_policy (rows (policy_bindings d))) \<and>
      audit_events d' = audit_events d0 @ sort_key a_sequence (audit_events d) \<and>
      authorization_state d' = authorization_state d \<and>
      installation_state d' = installation_state d0 \<and>
      key_registry d' = key_registry d0 \<and>
      restore_guard d' = restore_guard d0 \<and>
      sessions d' = sessions d0 \<and>
      idempotency_records d' = idempotency_records d0 \<and>
      poisoned d' = poisoned d0)"

text \<open>What a snapshot read, table by table.\<close>

lemma snapshot_reads:
  assumes "portable_snapshot d = Inr snap"
  shows "traverse read_principal (sort_key p_id (rows (principals d))) = Inr (px_principals snap)"
    "traverse read_authenticator (sort_key h_id (rows (owner_authenticators d))) = Inr (px_authenticators snap)"
    "traverse read_service_identity (sort_key y_principal (rows (service_identities d))) = Inr (px_service_identities snap)"
    "traverse read_application_credential (sort_key c_id (rows (application_credentials d))) = Inr (px_application_credentials snap)"
    "traverse read_namespace (namespace_tree (rows (namespaces d))) = Inr (px_namespaces snap)"
    "traverse read_secret (sort_key s_id (rows (secrets d))) = Inr (px_secrets snap)"
    "traverse read_secret_version (sort_key v_secret_id (sort_key v_version (rows (secret_versions d)))) = Inr (px_secret_versions snap)"
    "traverse read_tombstone (sort_key t_secret_id (rows (tombstones d))) = Inr (px_tombstones snap)"
    "traverse parse_policy (sort_key l_id (rows (policies d))) = Inr (px_policies snap)"
    "traverse read_grant (sort_key g_id (rows (policy_grants d))) = Inr (px_grants snap)"
    "traverse parse_binding (sort_key b_principal (sort_key b_policy (rows (policy_bindings d)))) = Inr (px_bindings snap)"
    "traverse parse_audit (sort_key a_sequence (audit_events d)) = Inr (px_audit_records snap)"
    "parse_authz_state (authorization_state d) = Inr (px_authorization_state snap)"
  using assms by (auto simp: portable_snapshot_def query_Inr rbind_eq_Inr)

lemma import_rows_copied:
  assumes "portable_snapshot d = Inr snap" "checks_hold d" "import_rows snap d0 = Inr d'"
  shows "copied_onto d0 d d'"
proof -
  have chk: "\<And>r. r \<in> set (rows (principals d)) \<Longrightarrow> principal_check r" "\<And>r. r \<in> set (rows (owner_authenticators d)) \<Longrightarrow> authenticator_check r"
    "\<And>r. r \<in> set (rows (service_identities d)) \<Longrightarrow> service_check r" "\<And>r. r \<in> set (rows (application_credentials d)) \<Longrightarrow> credential_check r"
    "\<And>r. r \<in> set (rows (namespaces d)) \<Longrightarrow> namespace_check r" "\<And>r. r \<in> set (rows (secrets d)) \<Longrightarrow> secret_check r"
    "\<And>r. r \<in> set (rows (secret_versions d)) \<Longrightarrow> version_check r" "\<And>r. r \<in> set (rows (tombstones d)) \<Longrightarrow> tombstone_check r"
    "\<And>r. r \<in> set (rows (policies d)) \<Longrightarrow> policy_check r" "\<And>r. r \<in> set (rows (policy_grants d)) \<Longrightarrow> grant_check r"
    "\<And>r. r \<in> set (rows (policy_bindings d)) \<Longrightarrow> binding_check r"
    using assms(2) by (simp_all add: checks_hold_def list_all_iff)
  have tree: "r \<in> set (rows (namespaces d))" if "r \<in> set (namespace_tree (rows (namespaces d)))" for r
    using that by (simp add: namespace_tree_def)
  note src = snapshot_reads [OF assms(1)]
  obtain d1 d2 d3 d4 d5 d6 d7 d8 d9 d10 d11 n where st: "insert_principals (px_principals snap) d0 = Inr d1"
    "insert_authenticators (px_authenticators snap) d1 = Inr d2" "insert_service_identities (px_service_identities snap) d2 = Inr d3"
    "insert_application_credentials (px_application_credentials snap) d3 = Inr d4" "insert_namespaces (px_namespaces snap) d4 = Inr d5"
    "insert_secrets (px_secrets snap) d5 = Inr d6" "insert_secret_versions (px_secret_versions snap) d6 = Inr d7"
    "insert_tombstones (px_tombstones snap) d7 = Inr d8" "insert_policies (px_policies snap) d8 = Inr d9"
    "insert_grants (px_grants snap) d9 = Inr d10" "insert_bindings (px_bindings snap) d10 = Inr d11"
    and z: "sql_u64 (as_revision (px_authorization_state snap)) = Inr n"
    and last: "insert_audit_records (px_audit_records snap) (d11\<lparr>authorization_state :=
      \<lparr>z_revision = n, z_commitment = as_state_commitment (px_authorization_state snap)\<rparr>\<rparr>) = Inr d'"
    using assms(3) unfolding import_rows_def rbind_eq_Inr Let_def by blast
  have zs: "\<lparr>z_revision = n, z_commitment = as_state_commitment (px_authorization_state snap)\<rparr> = authorization_state d"
    using z src(13) by (cases "authorization_state d"; cases "px_authorization_state snap") (auto simp: parse_authz_state_def sql_u64_def result_simps)
  obtain t1 where t1: "d1 = d0\<lparr>principals := t1\<rparr>" "rows t1 = rows (principals d0) @ sort_key p_id (rows (principals d))"
    using principal_table.copied [OF src(1) _ st(1) [unfolded insert_principals_def]] chk(1) by auto
  obtain t2 where t2: "d2 = d1\<lparr>owner_authenticators := t2\<rparr>" "rows t2 = rows (owner_authenticators d1) @ sort_key h_id (rows (owner_authenticators d))"
    using authenticator_table.copied [OF src(2) _ st(2) [unfolded insert_authenticators_def]] chk(2) by auto
  obtain t3 where t3: "d3 = d2\<lparr>service_identities := t3\<rparr>" "rows t3 = rows (service_identities d2) @ sort_key y_principal (rows (service_identities d))"
    using service_table.copied [OF src(3) _ st(3) [unfolded insert_service_identities_def]] chk(3) by auto
  obtain t4 where t4: "d4 = d3\<lparr>application_credentials := t4\<rparr>" "rows t4 = rows (application_credentials d3) @ sort_key c_id (rows (application_credentials d))"
    using credential_table.copied [OF src(4) _ st(4) [unfolded insert_application_credentials_def]] chk(4) by auto
  obtain t5 where t5: "d5 = d4\<lparr>namespaces := t5\<rparr>" "rows t5 = rows (namespaces d4) @ namespace_tree (rows (namespaces d))"
    using namespace_table.copied [OF src(5) _ st(5) [unfolded insert_namespaces_def]] chk(5) tree by auto
  obtain t6 where t6: "d6 = d5\<lparr>secrets := t6\<rparr>" "rows t6 = rows (secrets d5) @ sort_key s_id (rows (secrets d))"
    using secret_table.copied [OF src(6) _ st(6) [unfolded insert_secrets_def]] chk(6) by auto
  obtain t7 where t7: "d7 = d6\<lparr>secret_versions := t7\<rparr>" "rows t7 = rows (secret_versions d6) @ sort_key v_secret_id (sort_key v_version (rows (secret_versions d)))"
    using version_table.copied [OF src(7) _ st(7) [unfolded insert_secret_versions_def]] chk(7) by auto
  obtain t8 where t8: "d8 = d7\<lparr>tombstones := t8\<rparr>" "rows t8 = rows (tombstones d7) @ sort_key t_secret_id (rows (tombstones d))"
    using tombstone_table.copied [OF src(8) _ st(8) [unfolded insert_tombstones_def]] chk(8) by auto
  obtain t9 where t9: "d9 = d8\<lparr>policies := t9\<rparr>" "rows t9 = rows (policies d8) @ sort_key l_id (rows (policies d))"
    using policy_table.copied [OF src(9) _ st(9) [unfolded insert_policies_def]] chk(9) by auto
  obtain t10 where t10: "d10 = d9\<lparr>policy_grants := t10\<rparr>" "rows t10 = rows (policy_grants d9) @ sort_key g_id (rows (policy_grants d))"
    using grant_table.copied [OF src(10) _ st(10) [unfolded insert_grants_def]] chk(10) by auto
  obtain t11 where t11: "d11 = d10\<lparr>policy_bindings := t11\<rparr>" "rows t11 = rows (policy_bindings d10) @ sort_key b_principal (sort_key b_policy (rows (policy_bindings d)))"
    using binding_table.copied [OF src(11) _ st(11) [unfolded insert_bindings_def]] chk(11) by auto
  note fin = audit_copied [OF src(12) last, unfolded zs]
  show ?thesis using t1 t2 t3 t4 t5 t6 t7 t8 t9 t10 t11 unfolding copied_onto_def fin by simp
qed

lemma import_Inr:
  assumes "import_portable_snapshot snap epoch d0 = (Inr (), d')"
  obtains row where "installation_state d0 = Some row" "i_activation_state row = ''initializing''" "i_vault_id row = px_vault_id snap"
    "namespaces d0 = []" "secrets d0 = []" "principals d0 = []" "audit_events d0 = []" "policies d0 = []"
    "import_rows snap (d0\<lparr>installation_state := Some (row\<lparr>i_recovery_epoch := int epoch,
       i_semantics := int (px_security_semantics_version snap)\<rparr>)\<rparr>) = Inr d'" "foreign_key_check d'" "\<not> poisoned d0" "int epoch \<le> i64_max"
  using assms unfolding import_portable_snapshot_def tx_simps
  by (auto simp: import_target_def Let_def sql_u64_def parse_uuid_def result_simps)

lemma import_failure_unchanged: "import_portable_snapshot snap epoch d = (Inl e, d') \<Longrightarrow> d' = d"
  unfolding import_portable_snapshot_def by (rule transaction_Inl)

text \<open>Without principals, namespaces and policies the references leave the dependent tables empty.\<close>

lemma references_empty:
  assumes "foreign_key_check d" "principals d = []" "secrets d = []"
  shows "rows (owner_authenticators d) = []" "rows (service_identities d) = []" "rows (application_credentials d) = []"
    "rows (secret_versions d) = []" "rows (policy_grants d) = []" "rows (policy_bindings d) = []"
proof -
  have "\<not> principal_exists d b" for b using assms(2) by (simp add: principal_exists_def)
  then show "rows (owner_authenticators d) = []" "rows (service_identities d) = []" "rows (application_credentials d) = []"
    "rows (policy_grants d) = []" "rows (policy_bindings d) = []"
    using assms(1) by (auto simp: foreign_key_check_def list_all_iff intro: equals0I simp flip: set_empty)
  show "rows (secret_versions d) = []"
    using assms(1,3) by (auto simp: foreign_key_check_def fk_version_secret_def intro: equals0I simp flip: set_empty)
qed

lemma import_copies:
  assumes "portable_snapshot d = Inr snap" "checks_hold d" "import_portable_snapshot snap epoch d0 = (Inr (), d')"
    and "foreign_key_check d0" "tombstones d0 = []"
  shows "rows (principals d') = sort_key p_id (rows (principals d)) \<and>
    rows (owner_authenticators d') = sort_key h_id (rows (owner_authenticators d)) \<and>
    rows (service_identities d') = sort_key y_principal (rows (service_identities d)) \<and>
    rows (application_credentials d') = sort_key c_id (rows (application_credentials d)) \<and>
    rows (namespaces d') = namespace_tree (rows (namespaces d)) \<and>
    rows (secrets d') = sort_key s_id (rows (secrets d)) \<and>
    rows (secret_versions d') = sort_key v_secret_id (sort_key v_version (rows (secret_versions d))) \<and>
    rows (tombstones d') = sort_key t_secret_id (rows (tombstones d)) \<and>
    rows (policies d') = sort_key l_id (rows (policies d)) \<and>
    rows (policy_grants d') = sort_key g_id (rows (policy_grants d)) \<and>
    rows (policy_bindings d') = sort_key b_principal (sort_key b_policy (rows (policy_bindings d))) \<and>
    audit_events d' = sort_key a_sequence (audit_events d) \<and>
    authorization_state d' = authorization_state d \<and>
    foreign_key_check d' \<and>
    key_registry d' = key_registry d0 \<and>
    restore_guard d' = restore_guard d0 \<and>
    (\<exists>row. installation_state d' = Some row \<and> i_activation_state row = ''initializing'' \<and> i_vault_id row = px_vault_id snap)"
proof -
  obtain row where row: "installation_state d0 = Some row" "i_activation_state row = ''initializing''" "i_vault_id row = px_vault_id snap"
    and empty: "namespaces d0 = []" "secrets d0 = []" "principals d0 = []" "audit_events d0 = []" "policies d0 = []"
    and rows: "import_rows snap (d0\<lparr>installation_state := Some (row\<lparr>i_recovery_epoch := int epoch,
       i_semantics := int (px_security_semantics_version snap)\<rparr>)\<rparr>) = Inr d'" "foreign_key_check d'"
    by (rule import_Inr [OF assms(3)])
  note cp = import_rows_copied [OF assms(1,2) rows(1), unfolded copied_onto_def]
  show ?thesis using cp row rows(2) empty assms(5) references_empty [OF assms(4) empty(3,2)] by simp
qed

end
