(* ===== verification/Portable_Restore.thy ===== *)
theory Portable_Restore
  imports Storage_Portable "HOL-Library.Multiset"
begin

text \<open>
  Every snapshot of a sound database can be imported: a locale extends the contract of a portable
  table with what makes its insertions succeed, and the order in which namespaces are exported puts
  every parent before its children.
\<close>

section \<open>Insertions that succeed\<close>

locale restorable_table = portable_table +
  fixes dist :: "'r list \<Rightarrow> bool"
  assumes uniq_rows: "uniq t \<longleftrightarrow> dist (rows t)"
    and dist_prefix: "dist (xs @ ys) \<Longrightarrow> dist xs"
begin

lemma restores:
  assumes "traverse read xs = Inr ps" "\<And>r. r \<in> set xs \<Longrightarrow> check r" "dist (rows (get d) @ xs)"
    and "\<And>ys r zs t. xs = ys @ r # zs \<Longrightarrow> rows t = rows (get d) @ ys @ [r] \<Longrightarrow> refs r (put t d)"
  shows "\<exists>t. insert_rows vals (insert_row check uniq refs get put) ps d = Inr (put t d) \<and> rows t = rows (get d) @ xs"
  using assms
proof (induction xs arbitrary: ps d)
  case Nil
  then show ?case by (intro exI [of _ "get d"]) (simp add: insert_rows_def put_get)
next
  case (Cons x xs)
  obtain p ps' where ps: "ps = p # ps'" "read x = Inr p" "traverse read xs = Inr ps'" using Cons.prems(1) by (auto simp: result_simps)
  let ?t = "tbl_insert x (get d)"
  have "uniq ?t" using Cons.prems(3) dist_prefix [of "rows (get d) @ [x]" xs] by (simp add: uniq_rows)
  moreover have "refs x (put ?t d)" using Cons.prems(4) [of "[]" x xs ?t] by simp
  moreover have "vals p = Inr x" using ps(2) Cons.prems(2) by (intro read_written) auto
  ultimately have step: "insert_rows vals (insert_row check uniq refs get put) ps d =
      insert_rows vals (insert_row check uniq refs get put) ps' (put ?t d)"
    using Cons.prems(2) [of x] by (simp add: ps(1) insert_rows_def insert_row_def sql_insert_def ensure_def)
  have "\<exists>t. insert_rows vals (insert_row check uniq refs get put) ps' (put ?t d) = Inr (put t (put ?t d)) \<and>
      rows t = rows (get (put ?t d)) @ xs"
  proof (rule Cons.IH [OF ps(3)])
    show "dist (rows (get (put ?t d)) @ xs)" using Cons.prems(3) by (simp add: get_put)
    fix ys r zs t assume "xs = ys @ r # zs" "rows t = rows (get (put ?t d)) @ ys @ [r]"
    then show "refs r (put t (put ?t d))" using Cons.prems(4) [of "x # ys" r zs t] by (simp add: get_put put_put)
  qed (use Cons.prems(2) in simp)
  then show ?case by (simp add: step put_put get_put)
qed

text \<open>Into an empty table, when the references of a row are to other tables.\<close>

lemma fills:
  assumes "traverse read xs = Inr ps" "\<And>r. r \<in> set xs \<Longrightarrow> check r" "dist xs" "get d = []"
    and "\<And>r t. r \<in> set xs \<Longrightarrow> refs r (put t d)"
  shows "\<exists>t. insert_rows vals (insert_row check uniq refs get put) ps d = Inr (put t d) \<and> rows t = xs"
  using restores [OF assms(1,2), of d] assms(3-5) by (simp add: rows_def)

end

lemma distinct_map_prefix: "distinct (map k (xs @ ys)) \<Longrightarrow> distinct (map k xs)"
  by simp

lemma distinct_filter_prefix: "distinct (map k (filter p (xs @ ys))) \<Longrightarrow> distinct (map k (filter p xs))"
  by simp

interpretation principal_restore: restorable_table read_principal principal_values principal_check principals_unique
  "\<lambda>r d. True" principals "\<lambda>t d. d\<lparr>principals := t\<rparr>"
  "\<lambda>rs. distinct (map p_id rs) \<and> distinct (map p_kind (filter (\<lambda>r. p_kind r = ''owner'') rs))"
  by unfold_locales (auto simp: principals_unique_def unique_key_def unique_where_def)

interpretation authenticator_restore: restorable_table read_authenticator authenticator_values authenticator_check authenticators_unique
  "\<lambda>r d. principal_exists d (h_principal r)" owner_authenticators "\<lambda>t d. d\<lparr>owner_authenticators := t\<rparr>"
  "\<lambda>rs. distinct (map h_id rs) \<and> distinct (map h_lookup (filter (\<lambda>r. h_lookup r \<noteq> None) rs))"
  by unfold_locales (auto simp: authenticators_unique_def unique_key_def unique_where_def)

interpretation service_restore: restorable_table read_service_identity service_identity_values service_check "unique_key y_principal"
  "\<lambda>r d. principal_exists d (y_principal r)" service_identities "\<lambda>t d. d\<lparr>service_identities := t\<rparr>" "\<lambda>rs. distinct (map y_principal rs)"
  by unfold_locales (auto simp: unique_key_def)

interpretation credential_restore: restorable_table read_application_credential application_credential_values credential_check credentials_unique
  "\<lambda>r d. principal_exists d (c_principal r)" application_credentials "\<lambda>t d. d\<lparr>application_credentials := t\<rparr>"
  "\<lambda>rs. distinct (map c_id rs) \<and> distinct (map c_lookup rs)"
  by unfold_locales (auto simp: credentials_unique_def unique_key_def)

interpretation namespace_restore: restorable_table read_namespace namespace_values namespace_check namespaces_unique
  "\<lambda>r d. is_none_or (\<lambda>p. tbl_exists (\<lambda>m. n_id m = p) (namespaces d)) (n_parent r)" namespaces "\<lambda>t d. d\<lparr>namespaces := t\<rparr>"
  "\<lambda>rs. distinct (map n_id rs) \<and> distinct (map (\<lambda>r. (n_parent r, n_name_index r)) (filter (\<lambda>r. n_parent r \<noteq> None) rs)) \<and>
     distinct (map n_name_index (filter (\<lambda>r. n_parent r = None) rs))"
  by unfold_locales (auto simp: namespaces_unique_def unique_key_def unique_where_def)

interpretation secret_restore: restorable_table read_secret secret_values secret_check secrets_unique
  "\<lambda>r d. tbl_exists (\<lambda>n. n_id n = s_namespace_id r) (namespaces d)" secrets "\<lambda>t d. d\<lparr>secrets := t\<rparr>"
  "\<lambda>rs. distinct (map s_id rs) \<and> distinct (map (\<lambda>r. (s_namespace_id r, s_name_index r)) rs)"
  by unfold_locales (auto simp: secrets_unique_def unique_key_def)

interpretation version_restore: restorable_table read_secret_version secret_version_values version_check versions_unique
  "\<lambda>r d. tbl_exists (\<lambda>s. s_id s = v_secret_id r) (secrets d)" secret_versions "\<lambda>t d. d\<lparr>secret_versions := t\<rparr>"
  "\<lambda>rs. distinct (map (\<lambda>r. (v_secret_id r, v_version r)) rs)"
  by unfold_locales (auto simp: versions_unique_def unique_key_def)

interpretation tombstone_restore: restorable_table read_tombstone tombstone_values tombstone_check "unique_key t_secret_id"
  "\<lambda>r d. True" tombstones "\<lambda>t d. d\<lparr>tombstones := t\<rparr>" "\<lambda>rs. distinct (map t_secret_id rs)"
  by unfold_locales (auto simp: unique_key_def)

interpretation policy_restore: restorable_table parse_policy policy_values policy_check "unique_key l_id"
  "\<lambda>r d. True" policies "\<lambda>t d. d\<lparr>policies := t\<rparr>" "\<lambda>rs. distinct (map l_id rs)"
  by unfold_locales (auto simp: unique_key_def)

interpretation grant_restore: restorable_table read_grant "\<lambda>g. Inr (grant_row_of g)" grant_check grants_unique
  "\<lambda>r d. policy_exists d (g_policy r) \<and> principal_exists d (g_actor r)" policy_grants "\<lambda>t d. d\<lparr>policy_grants := t\<rparr>"
  "\<lambda>rs. distinct (map g_id rs) \<and> distinct (map (\<lambda>r. (g_policy r, g_action r, g_kind r, g_resource r, g_descendants r)) rs)"
  by unfold_locales (auto simp: grants_unique_def unique_key_def)

interpretation binding_restore: restorable_table parse_binding "\<lambda>b. Inr (binding_row_of b)" binding_check bindings_unique
  "\<lambda>r d. principal_exists d (b_principal r) \<and> policy_exists d (b_policy r) \<and> principal_exists d (b_actor r)"
  policy_bindings "\<lambda>t d. d\<lparr>policy_bindings := t\<rparr>" "\<lambda>rs. distinct (map (\<lambda>r. (b_principal r, b_policy r)) rs)"
  by unfold_locales (auto simp: bindings_unique_def unique_key_def)

section \<open>Parents come first\<close>

lemma row_depth_mono: "row_depth k ns i = Some m \<Longrightarrow> k \<le> l \<Longrightarrow> row_depth l ns i = Some m"
proof (induction k arbitrary: i m l)
  case (Suc k)
  obtain l' where l: "l = Suc l'" "k \<le> l'" using Suc.prems(2) by (cases l) auto
  obtain n where n: "find (\<lambda>n. n_id n = i) ns = Some n" using Suc.prems(1) by (cases "find (\<lambda>n. n_id n = i) ns") auto
  show ?case
  proof (cases "n_parent n")
    case None
    then show ?thesis using Suc.prems(1) n by (simp add: l)
  next
    case (Some p)
    then obtain j where "row_depth k ns p = Some j" "m = Suc j" using Suc.prems(1) n by auto
    then show ?thesis using Suc.IH [of p j l'] l Some n by simp
  qed
qed simp

lemma parent_depth:
  assumes "distinct (map n_id ns)" "n \<in> set ns" "n_parent n = Some p" "tree_depth ns n = Some k"
  shows "\<exists>m \<in> set ns. n_id m = p \<and> (\<exists>j < k. tree_depth ns m = Some j)"
proof -
  obtain f where f: "length ns = Suc f" using assms(2) by (cases ns) auto
  have "find (\<lambda>m. n_id m = n_id n) ns = Some n"
    using unique_key_find [of n_id "map (Pair 0) ns" n "n_id n"] assms(1,2) by (simp add: unique_key_def rows_def tbl_find_def o_def)
  then obtain j where j: "row_depth f ns p = Some j" "k = Suc j"
    using assms(3,4) by (auto simp: tree_depth_def f)
  obtain f' where "f = Suc f'" using j(1) by (cases f) auto
  then obtain m where m: "find (\<lambda>m. n_id m = p) ns = Some m" using j(1) by (auto split: option.splits)
  have "tree_depth ns m = Some j" using m row_depth_mono [OF j(1), of "length ns"] f by (auto simp: tree_depth_def find_Some_iff)
  moreover have "m \<in> set ns" "n_id m = p" using m by (auto simp: find_Some_iff)
  ultimately show ?thesis using j(2) by blast
qed

lemma namespace_tree_parent:
  assumes "distinct (map n_id ns)" "namespace_tree ns = ys @ n # zs" "n_parent n = Some p"
  shows "\<exists>m \<in> set ys. n_id m = p"
proof -
  let ?d = "\<lambda>n. case tree_depth ns n of None \<Rightarrow> 0 | Some k \<Rightarrow> k"
  have mem: "set (namespace_tree ns) = {n \<in> set ns. tree_depth ns n \<noteq> None}" by (auto simp: namespace_tree_def)
  have "n \<in> set (namespace_tree ns)" by (simp add: assms(2))
  then obtain k where k: "n \<in> set ns" "tree_depth ns n = Some k" by (auto simp: mem)
  then obtain m j where m: "m \<in> set ns" "n_id m = p" "j < k" "tree_depth ns m = Some j"
    using parent_depth [OF assms(1) k(1) assms(3) k(2)] by blast
  have "m \<in> set (ys @ n # zs)" using m by (simp add: mem flip: assms(2))
  moreover have "sorted (map ?d (ys @ n # zs))" unfolding assms(2) [symmetric] namespace_tree_def by simp
  then have "\<forall>z \<in> set (n # zs). k \<le> ?d z" using k(2) by (auto simp: sorted_append)
  ultimately show ?thesis using m by force
qed

section \<open>Every snapshot of a sound database can be imported\<close>

lemma distinct_perm: "mset xs = mset ys \<Longrightarrow> distinct (map k xs) \<longleftrightarrow> distinct (map k ys)"
  by (metis mset_map mset_eq_imp_distinct_iff)

lemma distinct_filter_perm: "mset xs = mset ys \<Longrightarrow> distinct (map k (filter p xs)) \<longleftrightarrow> distinct (map k (filter p ys))"
  by (rule distinct_perm) (simp add: mset_filter)

lemma distinct_sort [simp]:
  "distinct (map k (sort_key f xs)) \<longleftrightarrow> distinct (map k xs)"
  "distinct (map k (filter p (sort_key f xs))) \<longleftrightarrow> distinct (map k (filter p xs))"
  by (rule distinct_perm distinct_filter_perm, simp)+

lemma namespace_tree_perm: "(\<And>n. n \<in> set ns \<Longrightarrow> tree_depth ns n \<noteq> None) \<Longrightarrow> mset (namespace_tree ns) = mset ns"
  by (simp add: namespace_tree_def filter_id_conv)

lemma audit_restores:
  assumes "traverse parse_audit xs = Inr as" "\<And>r. r \<in> set xs \<Longrightarrow> audit_check r"
    and "distinct (map a_sequence (audit_events d @ xs))" "distinct (map a_event_id (audit_events d @ xs))"
  shows "insert_audit_records as d = Inr (d\<lparr>audit_events := audit_events d @ xs\<rparr>)"
  using assms unfolding insert_audit_records_def insert_rows_def
proof (induction xs arbitrary: as d)
  case Nil
  then show ?case by simp
next
  case (Cons x xs)
  then obtain a as' where as: "as = a # as'" "parse_audit x = Inr a" "traverse parse_audit xs = Inr as'" by (auto simp: result_simps)
  have "sql_u64 (ar_sequence a) = Inr (int (ar_sequence a))" "sql_u64 (ar_recovery_epoch a) = Inr (int (ar_recovery_epoch a))"
    using as(2) by (auto simp: parse_audit_def sql_u64_def result_simps)
  moreover have "a_sequence x \<notin> a_sequence ` set (audit_events d)" "a_event_id x \<notin> a_event_id ` set (audit_events d)"
    using Cons.prems(3,4) by simp_all
  then have "\<not> list_ex (\<lambda>e. a_sequence e = a_sequence x \<or> a_event_id e = a_event_id x) (audit_events d)"
    unfolding list_ex_iff image_iff by metis
  ultimately have "insert_audit_record a d = Inr (d\<lparr>audit_events := audit_events d @ [x]\<rparr>)"
    using Cons.prems(2) [of x] parse_audit_written [OF as(2)] by (simp add: insert_audit_record_def)
  then show ?case using Cons.IH [OF as(3), of "d\<lparr>audit_events := audit_events d @ [x]\<rparr>"] Cons.prems(2-4) as(1) by simp
qed

lemmas uniques = namespaces_unique_def secrets_unique_def versions_unique_def principals_unique_def authenticators_unique_def
  credentials_unique_def grants_unique_def bindings_unique_def unique_key_def unique_where_def

lemmas foreign_keys = principal_exists_def policy_exists_def authenticator_exists_def tbl_exists_iff
  fk_namespace_parent_def fk_secret_namespace_def fk_current_version_def fk_version_secret_def

definition uniques_hold :: "db \<Rightarrow> bool" where
  "uniques_hold d =
     (namespaces_unique (namespaces d) \<and> secrets_unique (secrets d) \<and> versions_unique (secret_versions d) \<and>
      unique_key t_secret_id (tombstones d) \<and> principals_unique (principals d) \<and> authenticators_unique (owner_authenticators d) \<and>
      unique_key y_principal (service_identities d) \<and> credentials_unique (application_credentials d) \<and> unique_key l_id (policies d) \<and>
      grants_unique (policy_grants d) \<and> bindings_unique (policy_bindings d) \<and>
      distinct (map a_sequence (audit_events d)) \<and> distinct (map a_event_id (audit_events d)))"

text \<open>What the constraints of the schema make true of a source: \<open>CHECK\<close>, keys, references; and a forest of namespaces.\<close>

definition portable_sound :: "db \<Rightarrow> bool" where
  "portable_sound d =
     (checks_hold d \<and> uniques_hold d \<and> foreign_key_check d \<and> list_all audit_check (audit_events d) \<and>
      authorization_check (authorization_state d) \<and> is_none_or installation_check (installation_state d) \<and>
      list_all (\<lambda>n. tree_depth (rows (namespaces d)) n \<noteq> None) (rows (namespaces d)))"

definition blank :: "db \<Rightarrow> bool" where
  "blank d = (namespaces d = [] \<and> secrets d = [] \<and> secret_versions d = [] \<and> tombstones d = [] \<and> principals d = [] \<and>
     owner_authenticators d = [] \<and> service_identities d = [] \<and> application_credentials d = [] \<and> policies d = [] \<and>
     policy_grants d = [] \<and> policy_bindings d = [] \<and> audit_events d = [] \<and> sessions d = [] \<and> idempotency_records d = [])"

lemma namespaces_restore:
  assumes "traverse read_namespace (namespace_tree (rows (namespaces d))) = Inr ps" "portable_sound d" "namespaces d0 = []"
  shows "\<exists>t. insert_namespaces ps d0 = Inr (d0\<lparr>namespaces := t\<rparr>) \<and> rows t = namespace_tree (rows (namespaces d))"
proof -
  let ?ns = "rows (namespaces d)"
  have perm: "mset (namespace_tree ?ns) = mset ?ns"
    using assms(2) by (intro namespace_tree_perm) (simp add: portable_sound_def list_all_iff)
  have u: "namespaces_unique (namespaces d)" using assms(2) by (simp add: portable_sound_def uniques_hold_def)
  then have parents: "is_none_or (\<lambda>p. \<exists>m \<in> set (ys @ [n]). n_id m = p) (n_parent n)" if "namespace_tree ?ns = ys @ n # zs" for ys n zs
    using namespace_tree_parent [OF _ that] by (cases "n_parent n") (auto simp: uniques is_none_or_def)
  have "\<exists>t. insert_namespaces ps d0 = Inr (d0\<lparr>namespaces := t\<rparr>) \<and> rows t = rows (namespaces d0) @ namespace_tree ?ns"
    unfolding insert_namespaces_def
  proof (rule namespace_restore.restores [OF assms(1)])
    show "namespace_check r" if "r \<in> set (namespace_tree ?ns)" for r
      using that assms(2) by (simp add: portable_sound_def checks_hold_def list_all_iff namespace_tree_def)
  qed (use u parents assms(3) in \<open>simp_all add: uniques distinct_perm [OF perm] distinct_filter_perm [OF perm]\<close>)
  then show ?thesis using assms(3) by simp
qed

text \<open>Table after table, each reference to a table that is already filled.\<close>

lemma import_rows_succeeds:
  assumes "portable_snapshot d = Inr snap" "portable_sound d" "blank d0"
  shows "\<exists>d'. import_rows snap d0 = Inr d'"
proof -
  note src = snapshot_reads [OF assms(1)]
  note snd = assms(2) [unfolded portable_sound_def checks_hold_def uniques_hold_def uniques foreign_key_check_def foreign_keys list_all_iff]
  note empty = assms(3) [unfolded blank_def]
  obtain t1 where t1: "insert_principals (px_principals snap) d0 = Inr (d0\<lparr>principals := t1\<rparr>)" "rows t1 = sort_key p_id (rows (principals d))"
    using principal_restore.fills [OF src(1), of d0] snd empty by (auto simp: insert_principals_def)
  define d1 where "d1 = d0\<lparr>principals := t1\<rparr>"
  obtain t2 where t2: "insert_authenticators (px_authenticators snap) d1 = Inr (d1\<lparr>owner_authenticators := t2\<rparr>)"
    using authenticator_restore.fills [OF src(2), of d1] snd empty t1(2) by (auto simp: insert_authenticators_def d1_def foreign_keys)
  define d2 where "d2 = d1\<lparr>owner_authenticators := t2\<rparr>"
  obtain t3 where t3: "insert_service_identities (px_service_identities snap) d2 = Inr (d2\<lparr>service_identities := t3\<rparr>)"
    using service_restore.fills [OF src(3), of d2] snd empty t1(2) by (auto simp: insert_service_identities_def d2_def d1_def foreign_keys)
  define d3 where "d3 = d2\<lparr>service_identities := t3\<rparr>"
  obtain t4 where t4: "insert_application_credentials (px_application_credentials snap) d3 = Inr (d3\<lparr>application_credentials := t4\<rparr>)"
    using credential_restore.fills [OF src(4), of d3] snd empty t1(2) by (auto simp: insert_application_credentials_def d3_def d2_def d1_def foreign_keys)
  define d4 where "d4 = d3\<lparr>application_credentials := t4\<rparr>"
  have keep4: "principals d4 = t1" "namespaces d4 = []" "secrets d4 = []" "secret_versions d4 = []" "tombstones d4 = []"
    "policies d4 = []" "policy_grants d4 = []" "policy_bindings d4 = []" "audit_events d4 = []"
    using empty by (simp_all add: d4_def d3_def d2_def d1_def)
  obtain t5 where t5: "insert_namespaces (px_namespaces snap) d4 = Inr (d4\<lparr>namespaces := t5\<rparr>)" "rows t5 = namespace_tree (rows (namespaces d))"
    using namespaces_restore [OF src(5), of d4] assms(2) keep4(2) by (auto simp: insert_namespaces_def)
  define d5 where "d5 = d4\<lparr>namespaces := t5\<rparr>"
  have tree: "set (rows t5) = set (rows (namespaces d))" using t5(2) snd by (auto simp: namespace_tree_def)
  obtain t6 where t6: "insert_secrets (px_secrets snap) d5 = Inr (d5\<lparr>secrets := t6\<rparr>)" "rows t6 = sort_key s_id (rows (secrets d))"
    using secret_restore.fills [OF src(6), of d5] snd keep4 tree by (auto simp: insert_secrets_def d5_def)
  define d6 where "d6 = d5\<lparr>secrets := t6\<rparr>"
  obtain t7 where t7: "insert_secret_versions (px_secret_versions snap) d6 = Inr (d6\<lparr>secret_versions := t7\<rparr>)"
    using version_restore.fills [OF src(7), of d6] snd keep4 t6(2) by (auto simp: insert_secret_versions_def d6_def d5_def)
  define d7 where "d7 = d6\<lparr>secret_versions := t7\<rparr>"
  obtain t8 where t8: "insert_tombstones (px_tombstones snap) d7 = Inr (d7\<lparr>tombstones := t8\<rparr>)"
    using tombstone_restore.fills [OF src(8), of d7] snd keep4 by (auto simp: insert_tombstones_def d7_def d6_def d5_def)
  define d8 where "d8 = d7\<lparr>tombstones := t8\<rparr>"
  obtain t9 where t9: "insert_policies (px_policies snap) d8 = Inr (d8\<lparr>policies := t9\<rparr>)" "rows t9 = sort_key l_id (rows (policies d))"
    using policy_restore.fills [OF src(9), of d8] snd keep4 by (auto simp: insert_policies_def d8_def d7_def d6_def d5_def)
  define d9 where "d9 = d8\<lparr>policies := t9\<rparr>"
  have keep9: "principals d9 = t1" "policies d9 = t9" "policy_grants d9 = []" "policy_bindings d9 = []" "audit_events d9 = []"
    using keep4 by (simp_all add: d9_def d8_def d7_def d6_def d5_def)
  obtain t10 where t10: "insert_grants (px_grants snap) d9 = Inr (d9\<lparr>policy_grants := t10\<rparr>)"
    using grant_restore.fills [OF src(10), of d9] snd keep9 t1(2) t9(2) by (auto simp: insert_grants_def foreign_keys)
  define d10 where "d10 = d9\<lparr>policy_grants := t10\<rparr>"
  obtain t11 where t11: "insert_bindings (px_bindings snap) d10 = Inr (d10\<lparr>policy_bindings := t11\<rparr>)"
    using binding_restore.fills [OF src(11), of d10] snd keep9 t1(2) t9(2) by (auto simp: insert_bindings_def d10_def foreign_keys)
  define d11 where "d11 = d10\<lparr>policy_bindings := t11\<rparr>"
  have "audit_events d11 = []" using keep9 by (simp add: d11_def d10_def)
  then have events: "\<exists>d'. insert_audit_records (px_audit_records snap) (d11\<lparr>authorization_state := z\<rparr>) = Inr d'" for z
    using audit_restores [OF src(12), of "d11\<lparr>authorization_state := z\<rparr>"] snd by auto
  have z: "sql_u64 (as_revision (px_authorization_state snap)) = Inr (z_revision (authorization_state d))"
    "as_state_commitment (px_authorization_state snap) = z_commitment (authorization_state d)"
    using src(13) by (cases "px_authorization_state snap"; auto simp: parse_authz_state_def sql_u64_def result_simps)+
  have "authorization_check \<lparr>z_revision = z_revision (authorization_state d), z_commitment = z_commitment (authorization_state d)\<rparr>"
    using snd by (simp add: authorization_check_def)
  then show ?thesis
    using events by (simp add: import_rows_def t1(1) t2 t3 t4 t5(1) t6(1) t7 t8 t9(1) t10 t11 z ensure_def
      flip: d1_def d2_def d3_def d4_def d5_def d6_def d7_def d8_def d9_def d10_def d11_def)
qed

lemma namespace_tree_mset: "portable_sound d \<Longrightarrow> mset (namespace_tree (rows (namespaces d))) = mset (rows (namespaces d))"
  by (intro namespace_tree_perm) (simp add: portable_sound_def list_all_iff)

text \<open>The references survive because every table holds the same set of rows.\<close>

lemma import_references:
  assumes "copied_onto d0 d d'" "portable_sound d" "blank d0"
  shows "foreign_key_check d'"
proof -
  have "set (namespace_tree (rows (namespaces d))) = set (rows (namespaces d))"
    using namespace_tree_mset [OF assms(2)] by (metis set_mset_mset)
  then have same: "set (rows (principals d')) = set (rows (principals d))" "set (rows (owner_authenticators d')) = set (rows (owner_authenticators d))"
    "set (rows (service_identities d')) = set (rows (service_identities d))" "set (rows (application_credentials d')) = set (rows (application_credentials d))"
    "set (rows (namespaces d')) = set (rows (namespaces d))" "set (rows (secrets d')) = set (rows (secrets d))"
    "set (rows (secret_versions d')) = set (rows (secret_versions d))" "set (rows (policies d')) = set (rows (policies d))"
    "set (rows (policy_grants d')) = set (rows (policy_grants d))" "set (rows (policy_bindings d')) = set (rows (policy_bindings d))"
    using assms(1,3) by (simp_all add: copied_onto_def blank_def)
  show ?thesis using assms unfolding portable_sound_def foreign_key_check_def foreign_keys list_all_iff same
    by (simp add: copied_onto_def blank_def)
qed

text \<open>The destination: an installation of the same vault that is still initializing.\<close>

definition import_ready :: "bytes \<Rightarrow> db \<Rightarrow> bool" where
  "import_ready vault d = (\<not> poisoned d \<and> blank d \<and> (case installation_state d of None \<Rightarrow> False
     | Some row \<Rightarrow> i_activation_state row = ''initializing'' \<and> i_vault_id row = vault \<and> installation_check row))"

lemma snapshot_semantics:
  assumes "portable_snapshot d = Inr snap" "portable_sound d"
  shows "px_security_semantics_version snap = 1"
proof -
  obtain row where row: "installation_state d = Some row" "i_semantics row = int (px_security_semantics_version snap)"
    using assms(1) by (auto simp: portable_snapshot_def ready_installation_def query_Inr result_simps split: option.splits if_splits)
  then have "i_semantics row = 1" using assms(2) by (simp add: portable_sound_def is_none_or_def installation_check_def)
  then show ?thesis using row(2) by simp
qed

lemma import_succeeds:
  assumes "portable_snapshot d = Inr snap" "portable_sound d" "import_ready (px_vault_id snap) d0" "int epoch \<le> i64_max"
  shows "\<exists>d'. import_portable_snapshot snap epoch d0 = (Inr (), d')"
proof -
  obtain row where row: "installation_state d0 = Some row" "i_activation_state row = ''initializing''" "i_vault_id row = px_vault_id snap"
    "installation_check row" and ready: "\<not> poisoned d0" "blank d0"
    using assms(3) by (auto simp: import_ready_def split: option.splits)
  let ?row = "row\<lparr>i_recovery_epoch := int epoch, i_semantics := int (px_security_semantics_version snap)\<rparr>"
  let ?d1 = "d0\<lparr>installation_state := Some ?row\<rparr>"
  have "installation_check ?row" using row(4) snapshot_semantics [OF assms(1,2)] by (simp add: installation_check_def)
  then have target: "import_target snap epoch d0 = Inr ?d1"
    using row ready(2) assms(4) by (simp add: import_target_def parse_uuid_def try_into_array_def installation_check_def blank_def sql_u64_def Let_def ensure_def)
  have blank: "blank ?d1" using ready(2) by (simp add: blank_def)
  obtain d' where d': "import_rows snap ?d1 = Inr d'" using import_rows_succeeds [OF assms(1,2) blank] by blast
  have "checks_hold d" using assms(2) by (simp add: portable_sound_def)
  then have "copied_onto ?d1 d d'" using assms(1) d' import_rows_copied by blast
  then have "foreign_key_check d'" using import_references [OF _ assms(2) blank] by blast
  then show ?thesis using target d' ready(1) by (simp add: import_portable_snapshot_def transaction_def lock_def ensure_def foreign_key_check_def)
qed

section \<open>What any import puts into the tables\<close>

lemma audit_filled:
  assumes "insert_audit_records as d = Inr d'"
  shows "d' = d\<lparr>audit_events := audit_events d @ map audit_row_of as\<rparr>"
  using assms unfolding insert_audit_records_def insert_rows_def
proof (induction as arbitrary: d)
  case (Cons a as)
  then have "try_fold (\<lambda>d p. rbind (Inr p) (\<lambda>r. insert_audit_record r d)) (d\<lparr>audit_events := audit_events d @ [audit_row_of a]\<rparr>) as = Inr d'"
    by (auto simp: insert_audit_record_def Let_def result_simps split: if_splits)
  from Cons.IH [OF this] show ?case by simp
qed simp

lemma audit_filled_rows:
  assumes "insert_audit_records as d = Inr d'"
  shows "list_all audit_check (map audit_row_of as) \<and> list_all (\<lambda>a. int (ar_sequence a) \<le> i64_max) as \<and>
    (distinct (map a_sequence (audit_events d)) \<longrightarrow> distinct (map a_sequence (audit_events d')))"
  using assms unfolding insert_audit_records_def insert_rows_def
proof (induction as arbitrary: d)
  case (Cons a as)
  then have a: "audit_check (audit_row_of a)" "int (ar_sequence a) \<le> i64_max" "a_sequence (audit_row_of a) \<notin> a_sequence ` set (audit_events d)"
    and rest: "try_fold (\<lambda>d p. rbind (Inr p) (\<lambda>r. insert_audit_record r d)) (d\<lparr>audit_events := audit_events d @ [audit_row_of a]\<rparr>) as = Inr d'"
    by (auto simp: insert_audit_record_def sql_u64_def Let_def result_simps list_ex_iff split: if_splits)
  show ?case using Cons.IH [OF rest] a by auto
qed simp

context portable_table
begin

lemma keeps_unique:
  assumes "insert_rows vals (insert_row check uniq refs get put) ps d = Inr d'" "uniq (get d)"
  shows "uniq (get d')"
  using assms unfolding insert_rows_def
proof (induction ps arbitrary: d)
  case (Cons p ps)
  then obtain r where "try_fold (\<lambda>d p. rbind (vals p) (\<lambda>r. insert_row check uniq refs get put r d)) (put (tbl_insert r (get d)) d) ps = Inr d'"
    "uniq (tbl_insert r (get d))"
    by (auto simp: insert_row_def sql_insert_def Let_def result_simps split: if_splits)
  then show ?case using Cons.IH [of "put (tbl_insert r (get d)) d"] by (simp add: get_put)
qed simp

end

text \<open>A table with the written forms of some records appended.\<close>

definition appended_rows :: "('p \<Rightarrow> storage_error + 'r) \<Rightarrow> ('r \<Rightarrow> bool) \<Rightarrow> 'p list \<Rightarrow> 'r table \<Rightarrow> 'r table \<Rightarrow> bool" where
  "appended_rows vals check ps t t' =
     (\<exists>rs. rows t' = rows t @ rs \<and> list_all2 (\<lambda>p r. vals p = Inr r) ps rs \<and> list_all check rs)"

text \<open>Whatever the snapshot, an import appends the written forms of its records to every portable table and
  touches no other.\<close>

definition import_appends :: "portable_snapshot_data \<Rightarrow> db \<Rightarrow> db \<Rightarrow> bool" where
  "import_appends snap d d' =
     (appended_rows principal_values principal_check (px_principals snap) (principals d) (principals d') \<and>
      appended_rows authenticator_values authenticator_check (px_authenticators snap) (owner_authenticators d) (owner_authenticators d') \<and>
      appended_rows application_credential_values credential_check (px_application_credentials snap) (application_credentials d) (application_credentials d') \<and>
      appended_rows namespace_values namespace_check (px_namespaces snap) (namespaces d) (namespaces d') \<and>
      appended_rows secret_values secret_check (px_secrets snap) (secrets d) (secrets d') \<and>
      appended_rows secret_version_values version_check (px_secret_versions snap) (secret_versions d) (secret_versions d') \<and>
      appended_rows tombstone_values tombstone_check (px_tombstones snap) (tombstones d) (tombstones d') \<and>
      appended_rows (\<lambda>g. Inr (grant_row_of g)) grant_check (px_grants snap) (policy_grants d) (policy_grants d') \<and>
      audit_events d' = audit_events d @ map audit_row_of (px_audit_records snap) \<and>
      list_all audit_check (map audit_row_of (px_audit_records snap)) \<and> list_all (\<lambda>a. int (ar_sequence a) \<le> i64_max) (px_audit_records snap) \<and>
      (distinct (map a_sequence (audit_events d)) \<longrightarrow> distinct (map a_sequence (audit_events d'))) \<and>
      (namespaces_unique (namespaces d) \<longrightarrow> namespaces_unique (namespaces d')) \<and>
      (secrets_unique (secrets d) \<longrightarrow> secrets_unique (secrets d')) \<and>
      (versions_unique (secret_versions d) \<longrightarrow> versions_unique (secret_versions d')))"

definition import_frame :: "db \<Rightarrow> db \<Rightarrow> bool" where
  "import_frame d d' = (installation_state d' = installation_state d \<and> key_registry d' = key_registry d \<and>
     maintenance_jobs d' = maintenance_jobs d \<and> restore_guard d' = restore_guard d \<and> sessions d' = sessions d \<and>
     idempotency_records d' = idempotency_records d \<and> purge_enabled d' = purge_enabled d \<and> poisoned d' = poisoned d)"

lemma import_rows_effect:
  assumes "import_rows snap d0 = Inr d'"
  shows "import_appends snap d0 d'" "import_frame d0 d'"
proof -
  obtain d1 d2 d3 d4 d5 d6 d7 d8 d9 d10 d11 z where st: "insert_principals (px_principals snap) d0 = Inr d1"
    "insert_authenticators (px_authenticators snap) d1 = Inr d2" "insert_service_identities (px_service_identities snap) d2 = Inr d3"
    "insert_application_credentials (px_application_credentials snap) d3 = Inr d4" "insert_namespaces (px_namespaces snap) d4 = Inr d5"
    "insert_secrets (px_secrets snap) d5 = Inr d6" "insert_secret_versions (px_secret_versions snap) d6 = Inr d7"
    "insert_tombstones (px_tombstones snap) d7 = Inr d8" "insert_policies (px_policies snap) d8 = Inr d9"
    "insert_grants (px_grants snap) d9 = Inr d10" "insert_bindings (px_bindings snap) d10 = Inr d11"
    "insert_audit_records (px_audit_records snap) (d11\<lparr>authorization_state := z\<rparr>) = Inr d'"
    using assms(1) unfolding import_rows_def rbind_eq_Inr Let_def by blast
  note un = st [unfolded insert_principals_def insert_authenticators_def insert_service_identities_def insert_application_credentials_def
      insert_namespaces_def insert_secrets_def insert_secret_versions_def insert_tombstones_def insert_policies_def insert_grants_def insert_bindings_def]
  obtain t1 where t1: "d1 = d0\<lparr>principals := t1\<rparr>" "appended_rows principal_values principal_check (px_principals snap) (principals d0) t1"
    using principal_table.inserted [OF un(1)] unfolding appended_rows_def by blast
  obtain t2 where t2: "d2 = d1\<lparr>owner_authenticators := t2\<rparr>"
    "appended_rows authenticator_values authenticator_check (px_authenticators snap) (owner_authenticators d1) t2"
    using authenticator_table.inserted [OF un(2)] unfolding appended_rows_def by blast
  obtain t3 where t3: "d3 = d2\<lparr>service_identities := t3\<rparr>" using service_table.inserted [OF un(3)] by blast
  obtain t4 where t4: "d4 = d3\<lparr>application_credentials := t4\<rparr>"
    "appended_rows application_credential_values credential_check (px_application_credentials snap) (application_credentials d3) t4"
    using credential_table.inserted [OF un(4)] unfolding appended_rows_def by blast
  obtain t5 where t5: "d5 = d4\<lparr>namespaces := t5\<rparr>" "appended_rows namespace_values namespace_check (px_namespaces snap) (namespaces d4) t5"
    using namespace_table.inserted [OF un(5)] unfolding appended_rows_def by blast
  obtain t6 where t6: "d6 = d5\<lparr>secrets := t6\<rparr>" "appended_rows secret_values secret_check (px_secrets snap) (secrets d5) t6"
    using secret_table.inserted [OF un(6)] unfolding appended_rows_def by blast
  obtain t7 where t7: "d7 = d6\<lparr>secret_versions := t7\<rparr>"
    "appended_rows secret_version_values version_check (px_secret_versions snap) (secret_versions d6) t7"
    using version_table.inserted [OF un(7)] unfolding appended_rows_def by blast
  obtain t8 where t8: "d8 = d7\<lparr>tombstones := t8\<rparr>" "appended_rows tombstone_values tombstone_check (px_tombstones snap) (tombstones d7) t8"
    using tombstone_table.inserted [OF un(8)] unfolding appended_rows_def by blast
  obtain t9 where t9: "d9 = d8\<lparr>policies := t9\<rparr>" using policy_table.inserted [OF un(9)] by blast
  obtain t10 where t10: "d10 = d9\<lparr>policy_grants := t10\<rparr>"
    "appended_rows (\<lambda>g. Inr (grant_row_of g)) grant_check (px_grants snap) (policy_grants d9) t10"
    using grant_table.inserted [OF un(10)] unfolding appended_rows_def by blast
  obtain t11 where t11: "d11 = d10\<lparr>policy_bindings := t11\<rparr>" using binding_table.inserted [OF un(11)] by blast
  have fin: "d' = d11\<lparr>authorization_state := z, audit_events := audit_events d11 @ map audit_row_of (px_audit_records snap)\<rparr>"
    using audit_filled [OF st(12)] by simp
  note final = t11 t10(1) t9 t8(1) t7(1) t6(1) t5(1) t4(1) t3 t2(1) t1(1)
  have sub: "namespaces d4 = namespaces d0" "secrets d5 = secrets d0" "secret_versions d6 = secret_versions d0" "principals d' = t1"
    "owner_authenticators d' = t2" "application_credentials d' = t4" "namespaces d' = t5" "secrets d' = t6" "secret_versions d' = t7"
    "tombstones d' = t8" "policy_grants d' = t10" "owner_authenticators d1 = owner_authenticators d0" "application_credentials d3 = application_credentials d0"
    "tombstones d7 = tombstones d0" "policy_grants d9 = policy_grants d0" "audit_events d11 = audit_events d0"
    by (simp_all add: final fin)
  note rows = t1(2) t2(2) t4(2) t5(2) t6(2) t7(2) t8(2) t10(2)
  have uniq: "namespaces_unique (namespaces d0) \<longrightarrow> namespaces_unique t5" "secrets_unique (secrets d0) \<longrightarrow> secrets_unique t6"
    "versions_unique (secret_versions d0) \<longrightarrow> versions_unique t7"
    using namespace_table.keeps_unique [OF un(5)] secret_table.keeps_unique [OF un(6)] version_table.keeps_unique [OF un(7)] sub(1-3)
      t5(1) t6(1) t7(1) by simp_all
  have log: "audit_events d' = audit_events d0 @ map audit_row_of (px_audit_records snap)" using fin sub(16) by simp
  show "import_appends snap d0 d'"
    using rows uniq log audit_filled_rows [OF un(12)] unfolding import_appends_def sub by (simp add: sub)
  show "import_frame d0 d'" unfolding import_frame_def fin by (simp add: final)
qed

text \<open>Into a blank database, the rows are exactly the written forms.\<close>

lemma import_rows_filled:
  assumes "import_rows snap d0 = Inr d'" "blank d0"
  shows "list_all2 (\<lambda>p r. secret_version_values p = Inr r) (px_secret_versions snap) (rows (secret_versions d'))"
    "list_all version_check (rows (secret_versions d'))"
    "list_all2 (\<lambda>p r. authenticator_values p = Inr r) (px_authenticators snap) (rows (owner_authenticators d'))"
    "list_all2 (\<lambda>p r. application_credential_values p = Inr r) (px_application_credentials snap) (rows (application_credentials d'))"
    "audit_events d' = map audit_row_of (px_audit_records snap)"
    "installation_state d' = installation_state d0" "key_registry d' = key_registry d0" "maintenance_jobs d' = maintenance_jobs d0"
    "restore_guard d' = restore_guard d0" "sessions d' = []" "poisoned d' = poisoned d0"
  using import_rows_effect [OF assms(1)] assms(2)
  by (auto simp: import_appends_def import_frame_def appended_rows_def blank_def)

end
