(* ===== verification/Portable_Properties.thy ===== *)
theory Portable_Properties
  imports Portable_Restore Sample_Vault
begin

text \<open>
  What a portable snapshot promises: a snapshot of a sound database can be imported into a staged
  installation of the same vault, and the import holds the same rows.
\<close>

text \<open>A vault with a child namespace whose identifier sorts before its parent's, and its staged destination.\<close>

definition child_namespace :: namespace_row where
  "child_namespace = \<lparr>n_id = sid 5, n_parent = Some (sid 10), n_name_index = h32 2, n_metadata_version = 1,
     n_meta = enc_cols_of (sealed [4]), n_lifecycle = ''active'', n_revision = 1, n_commitment = h32 0,
     n_created = 1000, n_updated = 1000\<rparr>"

definition source_db :: db where
  "source_db = live_db\<lparr>sessions := [], namespaces := namespaces live_db @ [(2, child_namespace)]\<rparr>"

definition staged_db :: db where
  "staged_db = empty_db\<lparr>installation_state := Some (sample_installation\<lparr>i_installation_id := sid 201,
     i_activation_state := ''initializing''\<rparr>)\<rparr>"

lemma source_tree: "namespace_tree (rows (namespaces source_db)) = rows (namespaces source_db)"
  by (simp add: source_db_def live_db_def child_namespace_def rows_def namespace_tree_def tree_depth_def)

lemma sample_parses [simp]:
  "parse_uuid (sid n) = Inr (sid n)" "try_into_array 32 e (h32 n) = Inr (h32 n)" "parse_u64 1 = Inr 1"
  "parse_envelope (enc_cols_of (sealed p)) = Inr (sealed p)"
  by (simp_all add: parse_uuid_def try_into_array_def parse_u64_def u64_of_i64_def i64_max_def parse_envelope_def enc_cols_of_def sealed_def
      u32_of_i64_def u32_max_def sid_def h32_def)

lemma read_sample_grant [simp]: "read_grant (sample_grant n p) = Inr \<lparr>pg_grant_id = sid n, pg_policy_id = sid p,
    pg_action = SecretValueRead, pg_resource_kind = Namespace, pg_resource_id = sid 10,
    pg_include_descendants = True, pg_created_by = sid 30, pg_created_at = 1000, pg_state_commitment = h32 0\<rparr>"
  by (simp add: read_grant_def sample_grant_def parse_resource_kind_def action_from_str_def all_actions_def)

lemma source_snapshot: "\<exists>snap. portable_snapshot source_db = Inr snap \<and> px_vault_id snap = sid 1"
  by (simp add: portable_snapshot_def query_def lock_def source_tree)
     (simp add: source_db_def child_namespace_def live_db_def empty_db_def rows_def ready_installation_def sample_installation_def
       parse_u64_def try_into_array_def u32_of_i64_def u64_of_i64_def read_namespace_def read_secret_def read_secret_version_def
       read_principal_def read_application_credential_def sample_credential_def
       transpose_map_def principal_kind_parse_def parse_authz_state_def i64_max_def u32_max_def)

lemma source_sound: "portable_sound source_db"
proof -
  have "checks_hold source_db"
    by (simp add: checks_hold_def source_db_def child_namespace_def live_db_def empty_db_def rows_def namespace_check_def secret_check_def
      version_check_def principal_check_def credential_check_def sample_credential_def policy_check_def vault_policy_def grant_check_def
      sample_grant_def binding_check_def sample_binding_def enc_check_def enc_cols_of_def sealed_def is_none_or_def)
  moreover have "uniques_hold source_db"
    by (simp add: uniques_hold_def uniques source_db_def child_namespace_def live_db_def empty_db_def rows_def sample_grant_def sample_credential_def)
  moreover have "foreign_key_check source_db"
    by (simp add: foreign_key_check_def foreign_keys source_db_def child_namespace_def live_db_def empty_db_def rows_def sample_grant_def
      sample_credential_def sample_binding_def is_none_or_def)
  moreover have "list_all audit_check (audit_events source_db)" "authorization_check (authorization_state source_db)"
    "is_none_or installation_check (installation_state source_db)"
    by (simp_all add: source_db_def live_db_def empty_db_def authorization_check_def is_none_or_def installation_check_def sample_installation_def)
  moreover have "list_all (\<lambda>n. tree_depth (rows (namespaces source_db)) n \<noteq> None) (rows (namespaces source_db))"
    by (simp add: source_db_def child_namespace_def live_db_def rows_def tree_depth_def)
  ultimately show ?thesis by (simp add: portable_sound_def)
qed

lemma staged_ready: "import_ready (sid 1) staged_db"
  by (simp add: import_ready_def staged_db_def empty_db_def blank_def installation_check_def sample_installation_def is_none_or_def sid_def)

text \<open>Two databases with the same content in every portable table, whatever the order of the rows.\<close>

definition same_content :: "db \<Rightarrow> db \<Rightarrow> bool" where
  "same_content d d' =
     (mset (rows (namespaces d')) = mset (rows (namespaces d)) \<and> mset (rows (secrets d')) = mset (rows (secrets d)) \<and>
      mset (rows (secret_versions d')) = mset (rows (secret_versions d)) \<and> mset (rows (tombstones d')) = mset (rows (tombstones d)) \<and>
      mset (rows (principals d')) = mset (rows (principals d)) \<and>
      mset (rows (owner_authenticators d')) = mset (rows (owner_authenticators d)) \<and>
      mset (rows (db.service_identities d')) = mset (rows (db.service_identities d)) \<and>
      mset (rows (application_credentials d')) = mset (rows (application_credentials d)) \<and>
      mset (rows (policies d')) = mset (rows (policies d)) \<and> mset (rows (policy_grants d')) = mset (rows (policy_grants d)) \<and>
      mset (rows (policy_bindings d')) = mset (rows (policy_bindings d)) \<and>
      audit_events d' = sort_key a_sequence (audit_events d) \<and> authorization_state d' = authorization_state d)"

text \<open>C18. Export and import are inverse: a snapshot of a database that satisfies the constraints of the
  schema is imported without error into a staged installation of the same vault; afterwards every portable
  table holds exactly the rows of the source, the audit log in sequence order, the references hold, and the
  keys and the state of the destination installation are its own, still initializing.\<close>

theorem portable_roundtrip:
  assumes "portable_snapshot d = Inr snap" "portable_sound d" "import_ready (px_vault_id snap) d0" "int epoch \<le> i64_max"
  shows "\<exists>d'. import_portable_snapshot snap epoch d0 = (Inr (), d') \<and> same_content d d' \<and> foreign_key_check d' \<and>
    key_registry d' = key_registry d0 \<and> \<not> is_ready d'"
proof -
  obtain d' where d': "import_portable_snapshot snap epoch d0 = (Inr (), d')" using import_succeeds [OF assms] by blast
  have "checks_hold d" using assms(2) by (simp add: portable_sound_def)
  have "blank d0" using assms(3) by (simp add: import_ready_def)
  then have "foreign_key_check d0" "tombstones d0 = []" by (simp_all add: blank_def foreign_key_check_def foreign_keys)
  note cp = import_copies [OF assms(1) \<open>checks_hold d\<close> d' this]
  have "same_content d d'" using cp namespace_tree_mset [OF assms(2)] by (simp add: same_content_def)
  moreover have "\<not> is_ready d'" using cp by (auto simp: is_ready_def)
  ultimately show ?thesis using cp d' by blast
qed

theorem portable_roundtrip_witness:
  "\<exists>snap d'. portable_snapshot source_db = Inr snap \<and> import_portable_snapshot snap 1 staged_db = (Inr (), d') \<and> same_content source_db d' \<and>
     \<not> is_ready d'"
proof -
  obtain snap where snap: "portable_snapshot source_db = Inr snap" "px_vault_id snap = sid 1" using source_snapshot by blast
  show ?thesis
    using portable_roundtrip [OF snap(1) source_sound, of staged_db 1] staged_ready snap by (auto simp: i64_max_def)
qed

end
