(* ===== verification/Backup_Logical.thy ===== *)
theory Backup_Logical
  imports Storage_Portable App_Initialization Archive_Stream App_Service
begin

text \<open>
  The logical stream of a backup (\<open>src/crates/smcv-app/src/backup.rs\<close>): a snapshot is written as
  records of a kind, a flag and a JSON payload in which every protected field is decrypted and in
  base64, and read back into lists by kind.  The JSON library is a parameter: for each type of record
  a pair of functions.
\<close>

section \<open>Errors and bounds\<close>

datatype backup_error = Archive archive_error | Storage storage_error | Vault vault_error | InvalidInput | Io | Integrity

definition SCHEMA_VERSION :: nat where "SCHEMA_VERSION = 3"
definition SECURITY_SEMANTICS_VERSION :: nat where "SECURITY_SEMANTICS_VERSION = 1"
definition MAX_LOGICAL_STREAM_BYTES :: nat where "MAX_LOGICAL_STREAM_BYTES = 256 * 1024 * 1024"
definition MAX_PORTABLE_FILE_BYTES :: nat where "MAX_PORTABLE_FILE_BYTES = 8 * 1024 * 1024 * 1024"
definition RECORD_FLAG_CRITICAL :: nat where "RECORD_FLAG_CRITICAL = 1"
definition RECORD_KEYS :: nat where "RECORD_KEYS = 1"
definition RECORD_NAMESPACE :: nat where "RECORD_NAMESPACE = 10"
definition RECORD_SECRET :: nat where "RECORD_SECRET = 11"
definition RECORD_SECRET_VERSION :: nat where "RECORD_SECRET_VERSION = 12"
definition RECORD_TOMBSTONE :: nat where "RECORD_TOMBSTONE = 13"
definition RECORD_PRINCIPAL :: nat where "RECORD_PRINCIPAL = 20"
definition RECORD_AUTHENTICATOR :: nat where "RECORD_AUTHENTICATOR = 21"
definition RECORD_SERVICE_IDENTITY :: nat where "RECORD_SERVICE_IDENTITY = 22"
definition RECORD_APPLICATION_CREDENTIAL :: nat where "RECORD_APPLICATION_CREDENTIAL = 23"
definition RECORD_AUTHORIZATION_STATE :: nat where "RECORD_AUTHORIZATION_STATE = 30"
definition RECORD_POLICY :: nat where "RECORD_POLICY = 31"
definition RECORD_GRANT :: nat where "RECORD_GRANT = 32"
definition RECORD_BINDING :: nat where "RECORD_BINDING = 33"
definition RECORD_AUDIT :: nat where "RECORD_AUDIT = 40"

lemmas record_kinds = RECORD_KEYS_def RECORD_NAMESPACE_def RECORD_SECRET_def RECORD_SECRET_VERSION_def RECORD_TOMBSTONE_def
  RECORD_PRINCIPAL_def RECORD_AUTHENTICATOR_def RECORD_SERVICE_IDENTITY_def RECORD_APPLICATION_CREDENTIAL_def
  RECORD_AUTHORIZATION_STATE_def RECORD_POLICY_def RECORD_GRANT_def RECORD_BINDING_def RECORD_AUDIT_def

section \<open>Records\<close>

text \<open>Protected fields are base64 text.  The tombstones, credentials, grants, bindings, audit events and
  the authorization state have the fields of their portable records.\<close>

record logical_keys =
  lk_blind_index :: string
  lk_audit :: string
  lk_token_verifier :: string

record logical_namespace =
  ln_namespace_id :: uuid
  ln_parent_namespace_id :: "uuid option"
  ln_name_index :: bytes
  ln_metadata_version :: nat
  ln_metadata :: string
  ln_lifecycle_state :: string
  ln_revision :: nat
  ln_state_commitment :: bytes
  ln_created_at :: unix_ms
  ln_updated_at :: unix_ms

record logical_secret =
  ls_secret_id :: uuid
  ls_namespace_id :: uuid
  ls_name_index :: bytes
  ls_metadata_version :: nat
  ls_metadata :: string
  ls_lifecycle_state :: string
  ls_current_version :: nat
  ls_revision :: nat
  ls_state_commitment :: bytes
  ls_created_at :: unix_ms
  ls_updated_at :: unix_ms
  ls_deleted_at :: "unix_ms option"

record logical_secret_version =
  lw_secret_id :: uuid
  lw_version :: nat
  lw_payload :: string
  lw_schedule :: secret_schedule
  lw_created_by :: "uuid option"
  lw_created_at :: unix_ms

record logical_principal =
  lp_principal_id :: uuid
  lp_kind :: string
  lp_state :: string
  lp_revision :: nat
  lp_state_commitment :: bytes
  lp_created_at :: unix_ms
  lp_updated_at :: unix_ms

record logical_authenticator =
  lh_authenticator_id :: uuid
  lh_principal_id :: uuid
  lh_kind :: string
  lh_credential_lookup :: "bytes option"
  lh_credential_data :: "bytes option"
  lh_password_phc :: "string option"
  lh_state :: string
  lh_created_at :: unix_ms
  lh_last_used_at :: "unix_ms option"
  lh_revoked_at :: "unix_ms option"
  lh_state_commitment :: bytes

record logical_service_identity =
  ly_principal_id :: uuid
  ly_metadata_version :: nat
  ly_metadata :: string

record logical_policy =
  ll_policy_id :: uuid
  ll_revision :: nat
  ll_state :: string
  ll_metadata_version :: nat
  ll_metadata :: string
  ll_state_commitment :: bytes
  ll_created_at :: unix_ms
  ll_updated_at :: unix_ms

type_synonym logical_tombstone = portable_tombstone
type_synonym logical_application_credential = portable_application_credential
type_synonym logical_authorization_state = authz_state
type_synonym logical_grant = policy_grant_record
type_synonym logical_binding = policy_binding_record
type_synonym logical_audit = audit_record

record decoded_logical =
  dl_keys :: "logical_keys option"
  dl_namespaces :: "logical_namespace list"
  dl_secrets :: "logical_secret list"
  dl_secret_versions :: "logical_secret_version list"
  dl_tombstones :: "logical_tombstone list"
  dl_principals :: "logical_principal list"
  dl_authenticators :: "logical_authenticator list"
  dl_service_identities :: "logical_service_identity list"
  dl_application_credentials :: "logical_application_credential list"
  dl_authorization_state :: "logical_authorization_state option"
  dl_policies :: "logical_policy list"
  dl_grants :: "logical_grant list"
  dl_bindings :: "logical_binding list"
  dl_audit :: "logical_audit list"
  dl_records :: nat

definition decoded_new :: decoded_logical where
  "decoded_new = \<lparr>dl_keys = None, dl_namespaces = [], dl_secrets = [], dl_secret_versions = [], dl_tombstones = [],
     dl_principals = [], dl_authenticators = [], dl_service_identities = [], dl_application_credentials = [],
     dl_authorization_state = None, dl_policies = [], dl_grants = [], dl_bindings = [], dl_audit = [], dl_records = 0\<rparr>"

text \<open>\<open>serde_json::to_vec\<close> and \<open>serde_json::from_slice\<close> at a type, and the types the stream uses.\<close>

record 'a codec =
  to_vec :: "'a \<Rightarrow> bytes option"
  from_slice :: "bytes \<Rightarrow> 'a option"

record json_lib =
  js_keys :: "logical_keys codec"
  js_namespace :: "logical_namespace codec"
  js_secret :: "logical_secret codec"
  js_secret_version :: "logical_secret_version codec"
  js_tombstone :: "logical_tombstone codec"
  js_principal :: "logical_principal codec"
  js_authenticator :: "logical_authenticator codec"
  js_service_identity :: "logical_service_identity codec"
  js_application_credential :: "logical_application_credential codec"
  js_authorization_state :: "logical_authorization_state codec"
  js_policy :: "logical_policy codec"
  js_grant :: "logical_grant codec"
  js_binding :: "logical_binding codec"
  js_audit :: "logical_audit codec"

section \<open>Writing\<close>

definition append_record :: "'a codec \<Rightarrow> bytes \<Rightarrow> nat \<Rightarrow> 'a \<Rightarrow> backup_error + bytes" where
  "append_record c output kind x =
     rbind (ok_or Integrity (to_vec c x)) (\<lambda>payload.
     rbind (ok_or InvalidInput (u32_of (length payload))) (\<lambda>n.
     rbind (ensure (length output + 8 + length payload \<le> MAX_LOGICAL_STREAM_BYTES) InvalidInput) (\<lambda>_.
     Inr (output @ be_bytes 2 kind @ be_bytes 2 RECORD_FLAG_CRITICAL @ be_bytes 4 n @ payload))))"

definition encode_key :: "crypto_lib \<Rightarrow> bytes \<Rightarrow> string" where
  "encode_key lib key = b64_encode lib key"

definition decrypt_b64 :: "vault \<Rightarrow> encrypted_record \<Rightarrow> object_kind \<Rightarrow> object_kind \<Rightarrow> uuid \<Rightarrow> nat \<Rightarrow> backup_error + string" where
  "decrypt_b64 v encrypted object_kind wrapped_kind object_id version =
     rbind (map_err Vault (decrypt_record v encrypted object_kind wrapped_kind object_id version)) (\<lambda>plaintext.
     Inr (b64_encode (vt_lib v) plaintext))"

definition logical_namespace_of :: "portable_namespace \<Rightarrow> logical_namespace" where
  "logical_namespace_of r = \<lparr>ln_namespace_id = pn_namespace_id r, ln_parent_namespace_id = pn_parent_namespace_id r,
     ln_name_index = pn_name_index r, ln_metadata_version = pn_metadata_version r, ln_metadata = [],
     ln_lifecycle_state = pn_lifecycle_state r, ln_revision = pn_revision r, ln_state_commitment = pn_state_commitment r,
     ln_created_at = pn_created_at r, ln_updated_at = pn_updated_at r\<rparr>"

definition logical_secret_of :: "portable_secret \<Rightarrow> logical_secret" where
  "logical_secret_of r = \<lparr>ls_secret_id = ps_secret_id r, ls_namespace_id = ps_namespace_id r, ls_name_index = ps_name_index r,
     ls_metadata_version = ps_metadata_version r, ls_metadata = [], ls_lifecycle_state = ps_lifecycle_state r,
     ls_current_version = ps_current_version r, ls_revision = ps_revision r, ls_state_commitment = ps_state_commitment r,
     ls_created_at = ps_created_at r, ls_updated_at = ps_updated_at r, ls_deleted_at = ps_deleted_at r\<rparr>"

definition logical_secret_version_of :: "portable_secret_version \<Rightarrow> logical_secret_version" where
  "logical_secret_version_of r = \<lparr>lw_secret_id = pv_secret_id r, lw_version = pv_version r, lw_payload = [],
     lw_schedule = pv_schedule r, lw_created_by = pv_created_by r, lw_created_at = pv_created_at r\<rparr>"

definition logical_principal_of :: "portable_principal \<Rightarrow> logical_principal" where
  "logical_principal_of r = \<lparr>lp_principal_id = pp_principal_id r, lp_kind = principal_kind_str (pp_kind r), lp_state = pp_state r,
     lp_revision = pp_revision r, lp_state_commitment = pp_state_commitment r, lp_created_at = pp_created_at r,
     lp_updated_at = pp_updated_at r\<rparr>"

definition logical_authenticator_of :: "portable_authenticator \<Rightarrow> logical_authenticator" where
  "logical_authenticator_of r = \<lparr>lh_authenticator_id = ph_authenticator_id r, lh_principal_id = ph_principal_id r,
     lh_kind = authenticator_kind_as_str (ph_kind r), lh_credential_lookup = ph_credential_lookup r,
     lh_credential_data = ph_credential_data r, lh_password_phc = ph_password_phc r, lh_state = ph_state r,
     lh_created_at = ph_created_at r, lh_last_used_at = ph_last_used_at r, lh_revoked_at = ph_revoked_at r,
     lh_state_commitment = ph_state_commitment r\<rparr>"

definition logical_service_identity_of :: "portable_service_identity \<Rightarrow> logical_service_identity" where
  "logical_service_identity_of r = \<lparr>ly_principal_id = py_principal_id r, ly_metadata_version = py_metadata_version r, ly_metadata = []\<rparr>"

definition logical_policy_of :: "portable_policy \<Rightarrow> logical_policy" where
  "logical_policy_of r = \<lparr>ll_policy_id = po_policy_id r, ll_revision = po_revision r, ll_state = po_state r,
     ll_metadata_version = po_metadata_version r, ll_metadata = [], ll_state_commitment = po_state_commitment r,
     ll_created_at = po_created_at r, ll_updated_at = po_updated_at r\<rparr>"

definition encode_namespace :: "json_lib \<Rightarrow> vault \<Rightarrow> bytes \<Rightarrow> portable_namespace \<Rightarrow> backup_error + bytes" where
  "encode_namespace js v output row =
     rbind (decrypt_b64 v (pn_metadata row) object_kind.NamespaceMetadata WrappedNamespaceMetadataKey (pn_namespace_id row) (pn_metadata_version row)) (\<lambda>m.
     append_record (js_namespace js) output RECORD_NAMESPACE ((logical_namespace_of row)\<lparr>ln_metadata := m\<rparr>))"

definition encode_secret :: "json_lib \<Rightarrow> vault \<Rightarrow> bytes \<Rightarrow> portable_secret \<Rightarrow> backup_error + bytes" where
  "encode_secret js v output row =
     rbind (decrypt_b64 v (ps_metadata row) object_kind.SecretMetadata WrappedMetadataKey (ps_secret_id row) (ps_metadata_version row)) (\<lambda>m.
     append_record (js_secret js) output RECORD_SECRET ((logical_secret_of row)\<lparr>ls_metadata := m\<rparr>))"

definition encode_secret_version :: "json_lib \<Rightarrow> vault \<Rightarrow> bytes \<Rightarrow> portable_secret_version \<Rightarrow> backup_error + bytes" where
  "encode_secret_version js v output row =
     rbind (decrypt_b64 v (pv_payload row) object_kind.SecretVersion WrappedDataKey (pv_secret_id row) (pv_version row)) (\<lambda>m.
     append_record (js_secret_version js) output RECORD_SECRET_VERSION ((logical_secret_version_of row)\<lparr>lw_payload := m\<rparr>))"

definition encode_service_identity :: "json_lib \<Rightarrow> vault \<Rightarrow> bytes \<Rightarrow> portable_service_identity \<Rightarrow> backup_error + bytes" where
  "encode_service_identity js v output row =
     rbind (decrypt_b64 v (py_metadata row) ServiceIdentityMetadata WrappedServiceIdentityMetadataKey (py_principal_id row) (py_metadata_version row)) (\<lambda>m.
     append_record (js_service_identity js) output RECORD_SERVICE_IDENTITY ((logical_service_identity_of row)\<lparr>ly_metadata := m\<rparr>))"

definition encode_policy :: "json_lib \<Rightarrow> vault \<Rightarrow> bytes \<Rightarrow> portable_policy \<Rightarrow> backup_error + bytes" where
  "encode_policy js v output row =
     rbind (decrypt_b64 v (po_metadata row) PolicyMetadata WrappedPolicyMetadataKey (po_policy_id row) (po_metadata_version row)) (\<lambda>m.
     append_record (js_policy js) output RECORD_POLICY ((logical_policy_of row)\<lparr>ll_metadata := m\<rparr>))"

definition encode_logical_snapshot :: "json_lib \<Rightarrow> vault \<Rightarrow> portable_snapshot_data \<Rightarrow> backup_error + bytes" where
  "encode_logical_snapshot js v snapshot =
     rbind (append_record (js_keys js) [] RECORD_KEYS
       \<lparr>lk_blind_index = encode_key (vt_lib v) (vt_blind_index_key v), lk_audit = encode_key (vt_lib v) (vt_audit_key v),
        lk_token_verifier = encode_key (vt_lib v) (vt_token_verifier_key v)\<rparr>) (\<lambda>output.
     rbind (try_fold (encode_namespace js v) output (px_namespaces snapshot)) (\<lambda>output.
     rbind (try_fold (encode_secret js v) output (px_secrets snapshot)) (\<lambda>output.
     rbind (try_fold (encode_secret_version js v) output (px_secret_versions snapshot)) (\<lambda>output.
     rbind (try_fold (\<lambda>output. append_record (js_tombstone js) output RECORD_TOMBSTONE) output (px_tombstones snapshot)) (\<lambda>output.
     rbind (try_fold (\<lambda>output row. append_record (js_principal js) output RECORD_PRINCIPAL (logical_principal_of row)) output
       (px_principals snapshot)) (\<lambda>output.
     rbind (try_fold (\<lambda>output row. append_record (js_authenticator js) output RECORD_AUTHENTICATOR (logical_authenticator_of row)) output
       (px_authenticators snapshot)) (\<lambda>output.
     rbind (try_fold (encode_service_identity js v) output (px_service_identities snapshot)) (\<lambda>output.
     rbind (try_fold (\<lambda>output. append_record (js_application_credential js) output RECORD_APPLICATION_CREDENTIAL) output
       (px_application_credentials snapshot)) (\<lambda>output.
     rbind (append_record (js_authorization_state js) output RECORD_AUTHORIZATION_STATE (px_authorization_state snapshot)) (\<lambda>output.
     rbind (try_fold (encode_policy js v) output (px_policies snapshot)) (\<lambda>output.
     rbind (try_fold (\<lambda>output. append_record (js_grant js) output RECORD_GRANT) output (px_grants snapshot)) (\<lambda>output.
     rbind (try_fold (\<lambda>output. append_record (js_binding js) output RECORD_BINDING) output (px_bindings snapshot)) (\<lambda>output.
     try_fold (\<lambda>output. append_record (js_audit js) output RECORD_AUDIT) output (px_audit_records snapshot))))))))))))))"

section \<open>Reading\<close>

definition parse_record :: "'a codec \<Rightarrow> bytes \<Rightarrow> backup_error + 'a" where
  "parse_record c payload = ok_or Integrity (from_slice c payload)"

definition push_record :: "'a codec \<Rightarrow> ('a \<Rightarrow> decoded_logical \<Rightarrow> decoded_logical) \<Rightarrow> bytes \<Rightarrow> decoded_logical \<Rightarrow> backup_error + decoded_logical" where
  "push_record c push payload d = rbind (parse_record c payload) (\<lambda>x. Inr (push x d))"

text \<open>The \<open>match\<close> on the kind of a record: the keys must come first and once, the authorization state once.\<close>

definition store_record :: "json_lib \<Rightarrow> nat \<Rightarrow> bytes \<Rightarrow> decoded_logical \<Rightarrow> backup_error + decoded_logical" where
  "store_record js kind payload d =
     (if kind = RECORD_KEYS then
        if dl_keys d \<noteq> None \<or> dl_records d \<noteq> 0 then Inl Integrity
        else push_record (js_keys js) (\<lambda>x d. d\<lparr>dl_keys := Some x\<rparr>) payload d
      else if kind = RECORD_NAMESPACE then push_record (js_namespace js) (\<lambda>x d. d\<lparr>dl_namespaces := dl_namespaces d @ [x]\<rparr>) payload d
      else if kind = RECORD_SECRET then push_record (js_secret js) (\<lambda>x d. d\<lparr>dl_secrets := dl_secrets d @ [x]\<rparr>) payload d
      else if kind = RECORD_SECRET_VERSION then
        push_record (js_secret_version js) (\<lambda>x d. d\<lparr>dl_secret_versions := dl_secret_versions d @ [x]\<rparr>) payload d
      else if kind = RECORD_TOMBSTONE then push_record (js_tombstone js) (\<lambda>x d. d\<lparr>dl_tombstones := dl_tombstones d @ [x]\<rparr>) payload d
      else if kind = RECORD_PRINCIPAL then push_record (js_principal js) (\<lambda>x d. d\<lparr>dl_principals := dl_principals d @ [x]\<rparr>) payload d
      else if kind = RECORD_AUTHENTICATOR then
        push_record (js_authenticator js) (\<lambda>x d. d\<lparr>dl_authenticators := dl_authenticators d @ [x]\<rparr>) payload d
      else if kind = RECORD_SERVICE_IDENTITY then
        push_record (js_service_identity js) (\<lambda>x d. d\<lparr>dl_service_identities := dl_service_identities d @ [x]\<rparr>) payload d
      else if kind = RECORD_APPLICATION_CREDENTIAL then
        push_record (js_application_credential js) (\<lambda>x d. d\<lparr>dl_application_credentials := dl_application_credentials d @ [x]\<rparr>) payload d
      else if kind = RECORD_AUTHORIZATION_STATE then
        if dl_authorization_state d \<noteq> None then Inl Integrity
        else push_record (js_authorization_state js) (\<lambda>x d. d\<lparr>dl_authorization_state := Some x\<rparr>) payload d
      else if kind = RECORD_POLICY then push_record (js_policy js) (\<lambda>x d. d\<lparr>dl_policies := dl_policies d @ [x]\<rparr>) payload d
      else if kind = RECORD_GRANT then push_record (js_grant js) (\<lambda>x d. d\<lparr>dl_grants := dl_grants d @ [x]\<rparr>) payload d
      else if kind = RECORD_BINDING then push_record (js_binding js) (\<lambda>x d. d\<lparr>dl_bindings := dl_bindings d @ [x]\<rparr>) payload d
      else if kind = RECORD_AUDIT then push_record (js_audit js) (\<lambda>x d. d\<lparr>dl_audit := dl_audit d @ [x]\<rparr>) payload d
      else Inl Integrity)"

definition accept_record :: "json_lib \<Rightarrow> decoded_logical \<Rightarrow> nat \<times> bytes \<Rightarrow> backup_error + decoded_logical" where
  "accept_record js d = (\<lambda>(kind, payload).
     rbind (store_record js kind payload d) (\<lambda>d'.
     rbind (ok_or Integrity (checked_add_u64 (dl_records d') 1)) (\<lambda>n. Inr (d'\<lparr>dl_records := n\<rparr>))))"

text \<open>The loop over the bytes that are left; every turn consumes a header of eight bytes and a payload.\<close>

function decode_records :: "json_lib \<Rightarrow> bytes \<Rightarrow> decoded_logical \<Rightarrow> backup_error + decoded_logical" where
  "decode_records js source d =
     (if source = [] then Inr d
      else if length source < 8 then Inl Integrity
      else let n = from_be (take 4 (drop 4 source)); rest = drop 8 source in
        if from_be (take 2 (drop 2 source)) \<noteq> RECORD_FLAG_CRITICAL \<or> length rest < n then Inl Integrity
        else rbind (accept_record js d (from_be (take 2 source), take n rest)) (\<lambda>d'. decode_records js (drop n rest) d'))"
  by pat_completeness auto

termination
  by (relation "measure (\<lambda>(js, source, d). length source)") auto

declare decode_records.simps [simp del]

definition decode_logical_stream :: "json_lib \<Rightarrow> bytes \<Rightarrow> nat \<Rightarrow> backup_error + decoded_logical" where
  "decode_logical_stream js source expected_records =
     rbind (decode_records js source decoded_new) (\<lambda>d.
     rbind (ensure (dl_records d = expected_records \<and> dl_keys d \<noteq> None \<and> dl_authorization_state d \<noteq> None) Integrity) (\<lambda>_. Inr d))"

definition decode_key :: "crypto_lib \<Rightarrow> string \<Rightarrow> backup_error + bytes" where
  "decode_key lib encoded =
     rbind (ok_or Integrity (b64_decode lib encoded)) (\<lambda>key. rbind (ensure (length key = 32) Integrity) (\<lambda>_. Inr key))"

definition decode_vault_keys :: "crypto_lib \<Rightarrow> logical_keys \<Rightarrow> backup_error + portable_vault_keys" where
  "decode_vault_keys lib keys =
     rbind (decode_key lib (lk_blind_index keys)) (\<lambda>blind_index.
     rbind (decode_key lib (lk_audit keys)) (\<lambda>audit.
     rbind (decode_key lib (lk_token_verifier keys)) (\<lambda>token_verifier.
     Inr \<lparr>pk_blind_index = blind_index, pk_audit = audit, pk_token_verifier = token_verifier\<rparr>)))"

section \<open>A written record is read back\<close>

lemma decode_frame:
  assumes "kind < 65536" "length payload < 4294967296"
  shows "decode_records js (record_bytes (kind, 1, payload) @ rest) d =
    rbind (accept_record js d (kind, payload)) (\<lambda>d'. decode_records js rest d')"
proof -
  let ?s = "record_bytes (kind, 1, payload) @ rest"
  have "length (be_bytes 2 kind) = 2" "length (be_bytes 2 1) = 2" "length (be_bytes 4 (length payload)) = 4" by simp_all
  then have "from_be (take 2 ?s) = kind" "from_be (take 2 (drop 2 ?s)) = 1" "from_be (take 4 (drop 4 ?s)) = length payload"
    "drop 8 ?s = payload @ rest" "8 \<le> length ?s"
    using assms by (simp_all add: from_be_be_bytes del: be_bytes.simps)
  then show ?thesis
    by (subst decode_records.simps) (auto simp: Let_def RECORD_FLAG_CRITICAL_def simp del: record_bytes.simps)
qed

text \<open>What the JSON library promises: reading inverts writing, for each type.\<close>

definition codec_ok :: "'a codec \<Rightarrow> bool" where
  "codec_ok c = (\<forall>x b. to_vec c x = Some b \<longrightarrow> from_slice c b = Some x)"

definition json_ok :: "json_lib \<Rightarrow> bool" where
  "json_ok js = (codec_ok (js_keys js) \<and> codec_ok (js_namespace js) \<and> codec_ok (js_secret js) \<and> codec_ok (js_secret_version js) \<and>
     codec_ok (js_tombstone js) \<and> codec_ok (js_principal js) \<and> codec_ok (js_authenticator js) \<and> codec_ok (js_service_identity js) \<and>
     codec_ok (js_application_credential js) \<and> codec_ok (js_authorization_state js) \<and> codec_ok (js_policy js) \<and> codec_ok (js_grant js) \<and>
     codec_ok (js_binding js) \<and> codec_ok (js_audit js))"

lemma append_record_Inr:
  assumes "append_record c out kind x = Inr out'"
  shows "\<exists>p. to_vec c x = Some p \<and> length p < 4294967296 \<and> out' = out @ record_bytes (kind, 1, p) \<and> length out' \<le> MAX_LOGICAL_STREAM_BYTES"
  using assms by (auto simp: append_record_def result_simps u32_of_def u32_max_def RECORD_FLAG_CRITICAL_def simp del: be_bytes.simps split: if_splits)

lemma record_read:
  assumes "append_record c out kind x = Inr out'" "codec_ok c" "kind < 65536"
    and "\<And>p. store_record js kind p d = push_record c push p d" "dl_records (push x d) = n" "n < u64_max"
  shows "\<exists>b. out' = out @ b \<and> 8 \<le> length b \<and> (\<forall>rest. decode_records js (b @ rest) d = decode_records js rest ((push x d)\<lparr>dl_records := Suc n\<rparr>))"
proof -
  obtain p where p: "to_vec c x = Some p" "length p < 4294967296" "out' = out @ record_bytes (kind, 1, p)" using append_record_Inr [OF assms(1)] by blast
  have "from_slice c p = Some x" using assms(2) p(1) by (simp add: codec_ok_def)
  then have "accept_record js d (kind, p) = Inr ((push x d)\<lparr>dl_records := Suc n\<rparr>)"
    using assms(4) [of p] assms(5,6) by (simp add: accept_record_def push_record_def parse_record_def checked_add_u64_def)
  then show ?thesis
    using decode_frame [OF assms(3) p(2), of js _ d] p(3) by (intro exI [of _ "record_bytes (kind, 1, p)"]) simp
qed

text \<open>A prefix of the stream that is read into a state, within the bound of the stream.\<close>

definition reads_to :: "json_lib \<Rightarrow> bytes \<Rightarrow> decoded_logical \<Rightarrow> bool" where
  "reads_to js out d = (length out \<le> MAX_LOGICAL_STREAM_BYTES \<and> 8 * dl_records d \<le> length out \<and>
     (\<forall>rest. decode_records js (out @ rest) decoded_new = decode_records js rest d))"

lemma decode_records_Nil [simp]: "decode_records js [] d = Inr d"
  by (simp add: decode_records.simps)

lemma reads_to_end: "reads_to js out d \<Longrightarrow> decode_records js out decoded_new = Inr d"
  by (simp add: reads_to_def) (metis append_Nil2 decode_records_Nil)

lemma reads_to_record:
  assumes "reads_to js out d" "append_record c out kind x = Inr out'" "codec_ok c" "kind < 65536"
    and "\<And>p. store_record js kind p d = push_record c push p d" "dl_records (push x d) = dl_records d"
  shows "reads_to js out' ((push x d)\<lparr>dl_records := Suc (dl_records d)\<rparr>)"
proof -
  have small: "dl_records d < u64_max" using assms(1) by (simp add: reads_to_def MAX_LOGICAL_STREAM_BYTES_def u64_max_def)
  obtain b where "out' = out @ b" "8 \<le> length b"
    "\<And>rest. decode_records js (b @ rest) d = decode_records js rest ((push x d)\<lparr>dl_records := Suc (dl_records d)\<rparr>)"
    using record_read [OF assms(2-6) small] by blast
  moreover have "length out' \<le> MAX_LOGICAL_STREAM_BYTES" using append_record_Inr [OF assms(2)] by blast
  ultimately show ?thesis using assms(1) by (auto simp: reads_to_def)
qed

text \<open>The records of one table: written by a loop, and read back into its list.\<close>

locale logical_table =
  fixes js :: json_lib and c :: "'l codec" and kind :: nat and plain :: "'p \<Rightarrow> backup_error + 'l"
    and get :: "decoded_logical \<Rightarrow> 'l list" and put :: "'l list \<Rightarrow> decoded_logical \<Rightarrow> decoded_logical"
  assumes kind_bound: "kind < 65536"
    and stored: "store_record js kind p d = push_record c (\<lambda>x d. put (get d @ [x]) d) p d"
    and get_put: "get (put t d) = t" and put_put: "put t (put t' d) = put t d" and put_get: "put (get d) d = d"
    and put_count: "dl_records (put t d) = dl_records d"
    and count_get: "get (d\<lparr>dl_records := n\<rparr>) = get d"
    and count_put: "put t (d\<lparr>dl_records := n\<rparr>) = (put t d)\<lparr>dl_records := n\<rparr>"
begin

lemma table_read:
  assumes "try_fold (\<lambda>out r. rbind (plain r) (append_record c out kind)) out xs = Inr out'" "codec_ok c"
    and "length out \<le> MAX_LOGICAL_STREAM_BYTES"
  shows "\<exists>b ls. traverse plain xs = Inr ls \<and> out' = out @ b \<and> 8 * length ls \<le> length b \<and> length out' \<le> MAX_LOGICAL_STREAM_BYTES \<and>
    (\<forall>d rest. dl_records d + length ls \<le> u64_max \<longrightarrow>
      decode_records js (b @ rest) d = decode_records js rest ((put (get d @ ls) d)\<lparr>dl_records := dl_records d + length ls\<rparr>))"
  using assms
proof (induction xs arbitrary: out)
  case Nil
  have same: "d\<lparr>dl_records := dl_records d\<rparr> = d" for d :: decoded_logical by (cases d) simp
  show ?case using Nil by (intro exI [of _ "[]"]) (simp add: put_get same)
next
  case (Cons x xs)
  then obtain l out1 where l: "plain x = Inr l" "append_record c out kind l = Inr out1"
    and rest: "try_fold (\<lambda>out r. rbind (plain r) (append_record c out kind)) out1 xs = Inr out'"
    by (auto simp: result_simps)
  have len: "length out1 \<le> MAX_LOGICAL_STREAM_BYTES" using append_record_Inr [OF l(2)] by blast
  obtain b ls where ls: "traverse plain xs = Inr ls" "out' = out1 @ b" "8 * length ls \<le> length b" "length out' \<le> MAX_LOGICAL_STREAM_BYTES"
    and read: "\<And>d rest. dl_records d + length ls \<le> u64_max \<Longrightarrow>
      decode_records js (b @ rest) d = decode_records js rest ((put (get d @ ls) d)\<lparr>dl_records := dl_records d + length ls\<rparr>)"
    using Cons.IH [OF rest Cons.prems(2) len] by blast
  obtain p where p: "out1 = out @ record_bytes (kind, 1, p)" using append_record_Inr [OF l(2)] by blast
  let ?b = "record_bytes (kind, 1, p)"
  have first: "decode_records js (?b @ rest) d = decode_records js rest ((put (get d @ [l]) d)\<lparr>dl_records := Suc (dl_records d)\<rparr>)"
    if "dl_records d < u64_max" for d rest
    using record_read [OF l(2) Cons.prems(2) kind_bound stored put_count that] p by auto
  have "decode_records js ((?b @ b) @ rest) d =
      decode_records js rest ((put (get d @ l # ls) d)\<lparr>dl_records := dl_records d + length (l # ls)\<rparr>)"
    if "dl_records d + length (l # ls) \<le> u64_max" for d rest
    using first [of d "b @ rest"] read [of "(put (get d @ [l]) d)\<lparr>dl_records := Suc (dl_records d)\<rparr>" rest] that
    by (simp add: count_get count_put get_put put_put del: record_bytes.simps)
  moreover have "8 \<le> length ?b" by simp
  ultimately show ?case
    using ls p l(1) by (intro exI [of _ "?b @ b"] exI [of _ "l # ls"]) (auto simp del: record_bytes.simps)
qed

lemma reads_to_table:
  assumes "reads_to js out d" "try_fold (\<lambda>out r. rbind (plain r) (append_record c out kind)) out xs = Inr out'" "codec_ok c"
  shows "\<exists>ls. traverse plain xs = Inr ls \<and> reads_to js out' ((put (get d @ ls) d)\<lparr>dl_records := dl_records d + length ls\<rparr>)"
proof -
  obtain b ls where ls: "traverse plain xs = Inr ls" "out' = out @ b" "8 * length ls \<le> length b" "length out' \<le> MAX_LOGICAL_STREAM_BYTES"
    and read: "\<And>rest. dl_records d + length ls \<le> u64_max \<Longrightarrow>
      decode_records js (b @ rest) d = decode_records js rest ((put (get d @ ls) d)\<lparr>dl_records := dl_records d + length ls\<rparr>)"
    using table_read [OF assms(2,3)] assms(1) unfolding reads_to_def by blast
  have "dl_records d + length ls \<le> u64_max"
    using assms(1) ls(2-4) by (simp add: reads_to_def MAX_LOGICAL_STREAM_BYTES_def u64_max_def)
  then show ?thesis using assms(1) ls read by (auto simp: reads_to_def)
qed

end

text \<open>A row with its protected field decrypted.\<close>

definition plain_namespace :: "vault \<Rightarrow> portable_namespace \<Rightarrow> backup_error + logical_namespace" where
  "plain_namespace v row =
     rbind (decrypt_b64 v (pn_metadata row) object_kind.NamespaceMetadata WrappedNamespaceMetadataKey (pn_namespace_id row) (pn_metadata_version row))
       (\<lambda>m. Inr ((logical_namespace_of row)\<lparr>ln_metadata := m\<rparr>))"

definition plain_secret :: "vault \<Rightarrow> portable_secret \<Rightarrow> backup_error + logical_secret" where
  "plain_secret v row =
     rbind (decrypt_b64 v (ps_metadata row) object_kind.SecretMetadata WrappedMetadataKey (ps_secret_id row) (ps_metadata_version row))
       (\<lambda>m. Inr ((logical_secret_of row)\<lparr>ls_metadata := m\<rparr>))"

definition plain_secret_version :: "vault \<Rightarrow> portable_secret_version \<Rightarrow> backup_error + logical_secret_version" where
  "plain_secret_version v row =
     rbind (decrypt_b64 v (pv_payload row) object_kind.SecretVersion WrappedDataKey (pv_secret_id row) (pv_version row))
       (\<lambda>m. Inr ((logical_secret_version_of row)\<lparr>lw_payload := m\<rparr>))"

definition plain_service_identity :: "vault \<Rightarrow> portable_service_identity \<Rightarrow> backup_error + logical_service_identity" where
  "plain_service_identity v row =
     rbind (decrypt_b64 v (py_metadata row) ServiceIdentityMetadata WrappedServiceIdentityMetadataKey (py_principal_id row) (py_metadata_version row))
       (\<lambda>m. Inr ((logical_service_identity_of row)\<lparr>ly_metadata := m\<rparr>))"

definition plain_policy :: "vault \<Rightarrow> portable_policy \<Rightarrow> backup_error + logical_policy" where
  "plain_policy v row =
     rbind (decrypt_b64 v (po_metadata row) PolicyMetadata WrappedPolicyMetadataKey (po_policy_id row) (po_metadata_version row))
       (\<lambda>m. Inr ((logical_policy_of row)\<lparr>ll_metadata := m\<rparr>))"

lemma rbind_assoc: "rbind (rbind m f) g = rbind m (\<lambda>x. rbind (f x) g)"
  by (cases m) simp_all

lemma encodes:
  "encode_namespace js v = (\<lambda>out r. rbind (plain_namespace v r) (append_record (js_namespace js) out RECORD_NAMESPACE))"
  "encode_secret js v = (\<lambda>out r. rbind (plain_secret v r) (append_record (js_secret js) out RECORD_SECRET))"
  "encode_secret_version js v = (\<lambda>out r. rbind (plain_secret_version v r) (append_record (js_secret_version js) out RECORD_SECRET_VERSION))"
  "encode_service_identity js v = (\<lambda>out r. rbind (plain_service_identity v r) (append_record (js_service_identity js) out RECORD_SERVICE_IDENTITY))"
  "encode_policy js v = (\<lambda>out r. rbind (plain_policy v r) (append_record (js_policy js) out RECORD_POLICY))"
  by (simp_all add: fun_eq_iff encode_namespace_def plain_namespace_def encode_secret_def plain_secret_def encode_secret_version_def
      plain_secret_version_def encode_service_identity_def plain_service_identity_def encode_policy_def plain_policy_def rbind_assoc)

interpretation namespace_stream: logical_table js "js_namespace js" RECORD_NAMESPACE "plain_namespace v" dl_namespaces
  "\<lambda>t d. d\<lparr>dl_namespaces := t\<rparr>" for js v
  by unfold_locales (simp_all add: store_record_def record_kinds)

interpretation secret_stream: logical_table js "js_secret js" RECORD_SECRET "plain_secret v" dl_secrets
  "\<lambda>t d. d\<lparr>dl_secrets := t\<rparr>" for js v
  by unfold_locales (simp_all add: store_record_def record_kinds)

interpretation version_stream: logical_table js "js_secret_version js" RECORD_SECRET_VERSION "plain_secret_version v" dl_secret_versions
  "\<lambda>t d. d\<lparr>dl_secret_versions := t\<rparr>" for js v
  by unfold_locales (simp_all add: store_record_def record_kinds)

interpretation tombstone_stream: logical_table js "js_tombstone js" RECORD_TOMBSTONE "Inr" dl_tombstones
  "\<lambda>t d. d\<lparr>dl_tombstones := t\<rparr>" for js
  by unfold_locales (simp_all add: store_record_def record_kinds)

interpretation principal_stream: logical_table js "js_principal js" RECORD_PRINCIPAL "\<lambda>r. Inr (logical_principal_of r)" dl_principals
  "\<lambda>t d. d\<lparr>dl_principals := t\<rparr>" for js
  by unfold_locales (simp_all add: store_record_def record_kinds)

interpretation authenticator_stream: logical_table js "js_authenticator js" RECORD_AUTHENTICATOR "\<lambda>r. Inr (logical_authenticator_of r)" dl_authenticators
  "\<lambda>t d. d\<lparr>dl_authenticators := t\<rparr>" for js
  by unfold_locales (simp_all add: store_record_def record_kinds)

interpretation service_stream: logical_table js "js_service_identity js" RECORD_SERVICE_IDENTITY "plain_service_identity v" dl_service_identities
  "\<lambda>t d. d\<lparr>dl_service_identities := t\<rparr>" for js v
  by unfold_locales (simp_all add: store_record_def record_kinds)

interpretation credential_stream: logical_table js "js_application_credential js" RECORD_APPLICATION_CREDENTIAL "Inr" dl_application_credentials
  "\<lambda>t d. d\<lparr>dl_application_credentials := t\<rparr>" for js
  by unfold_locales (simp_all add: store_record_def record_kinds)

interpretation policy_stream: logical_table js "js_policy js" RECORD_POLICY "plain_policy v" dl_policies
  "\<lambda>t d. d\<lparr>dl_policies := t\<rparr>" for js v
  by unfold_locales (simp_all add: store_record_def record_kinds)

interpretation grant_stream: logical_table js "js_grant js" RECORD_GRANT "Inr" dl_grants
  "\<lambda>t d. d\<lparr>dl_grants := t\<rparr>" for js
  by unfold_locales (simp_all add: store_record_def record_kinds)

interpretation binding_stream: logical_table js "js_binding js" RECORD_BINDING "Inr" dl_bindings
  "\<lambda>t d. d\<lparr>dl_bindings := t\<rparr>" for js
  by unfold_locales (simp_all add: store_record_def record_kinds)

interpretation audit_stream: logical_table js "js_audit js" RECORD_AUDIT "Inr" dl_audit
  "\<lambda>t d. d\<lparr>dl_audit := t\<rparr>" for js
  by unfold_locales (simp_all add: store_record_def record_kinds)

text \<open>A decoded stream that holds the plaintext of a snapshot under a vault.\<close>

definition plain_keys :: "vault \<Rightarrow> logical_keys" where
  "plain_keys v = \<lparr>lk_blind_index = encode_key (vt_lib v) (vt_blind_index_key v), lk_audit = encode_key (vt_lib v) (vt_audit_key v),
     lk_token_verifier = encode_key (vt_lib v) (vt_token_verifier_key v)\<rparr>"

definition plain_image :: "vault \<Rightarrow> portable_snapshot_data \<Rightarrow> decoded_logical \<Rightarrow> bool" where
  "plain_image v snap d =
     (dl_keys d = Some (plain_keys v) \<and>
      traverse (plain_namespace v) (px_namespaces snap) = Inr (dl_namespaces d) \<and>
      traverse (plain_secret v) (px_secrets snap) = Inr (dl_secrets d) \<and>
      traverse (plain_secret_version v) (px_secret_versions snap) = Inr (dl_secret_versions d) \<and>
      dl_tombstones d = px_tombstones snap \<and>
      dl_principals d = map logical_principal_of (px_principals snap) \<and>
      dl_authenticators d = map logical_authenticator_of (px_authenticators snap) \<and>
      traverse (plain_service_identity v) (px_service_identities snap) = Inr (dl_service_identities d) \<and>
      dl_application_credentials d = px_application_credentials snap \<and>
      dl_authorization_state d = Some (px_authorization_state snap) \<and>
      traverse (plain_policy v) (px_policies snap) = Inr (dl_policies d) \<and>
      dl_grants d = px_grants snap \<and> dl_bindings d = px_bindings snap \<and> dl_audit d = px_audit_records snap)"

lemma traverse_map [simp]: "traverse (\<lambda>r. Inr (f r)) xs = Inr (map f xs)" "traverse Inr xs = Inr xs"
  by (induction xs) simp_all

lemma fold_plain: "try_fold (\<lambda>out. append_record c out k) = try_fold (\<lambda>out r. rbind (Inr r) (append_record c out k))"
  "try_fold (\<lambda>out r. append_record c out k (f r)) = try_fold (\<lambda>out r. rbind (Inr (f r)) (append_record c out k))"
  by simp_all

lemma stream_read:
  assumes "encode_logical_snapshot js v snap = Inr bs" "json_ok js"
  shows "\<exists>d. reads_to js bs d \<and> plain_image v snap d"
proof -
  obtain b0 b1 b2 b3 b4 b5 b6 b7 b8 b9 b10 b11 b12 where st:
    "append_record (js_keys js) [] RECORD_KEYS (plain_keys v) = Inr b0"
    "try_fold (encode_namespace js v) b0 (px_namespaces snap) = Inr b1"
    "try_fold (encode_secret js v) b1 (px_secrets snap) = Inr b2"
    "try_fold (encode_secret_version js v) b2 (px_secret_versions snap) = Inr b3"
    "try_fold (\<lambda>output. append_record (js_tombstone js) output RECORD_TOMBSTONE) b3 (px_tombstones snap) = Inr b4"
    "try_fold (\<lambda>output row. append_record (js_principal js) output RECORD_PRINCIPAL (logical_principal_of row)) b4 (px_principals snap) = Inr b5"
    "try_fold (\<lambda>output row. append_record (js_authenticator js) output RECORD_AUTHENTICATOR (logical_authenticator_of row)) b5 (px_authenticators snap) = Inr b6"
    "try_fold (encode_service_identity js v) b6 (px_service_identities snap) = Inr b7"
    "try_fold (\<lambda>output. append_record (js_application_credential js) output RECORD_APPLICATION_CREDENTIAL) b7 (px_application_credentials snap) = Inr b8"
    "append_record (js_authorization_state js) b8 RECORD_AUTHORIZATION_STATE (px_authorization_state snap) = Inr b9"
    "try_fold (encode_policy js v) b9 (px_policies snap) = Inr b10"
    "try_fold (\<lambda>output. append_record (js_grant js) output RECORD_GRANT) b10 (px_grants snap) = Inr b11"
    "try_fold (\<lambda>output. append_record (js_binding js) output RECORD_BINDING) b11 (px_bindings snap) = Inr b12"
    "try_fold (\<lambda>output. append_record (js_audit js) output RECORD_AUDIT) b12 (px_audit_records snap) = Inr bs"
    using assms(1) unfolding encode_logical_snapshot_def plain_keys_def [symmetric] rbind_eq_Inr by blast
  note ok = assms(2) [unfolded json_ok_def]
  let ?S = "\<lambda>ks ns ss vs ts ps hs ys cs zs ls gs bds es n. \<lparr>dl_keys = ks, dl_namespaces = ns, dl_secrets = ss, dl_secret_versions = vs, dl_tombstones = ts, dl_principals = ps, dl_authenticators = hs, dl_service_identities = ys, dl_application_credentials = cs, dl_authorization_state = zs, dl_policies = ls, dl_grants = gs, dl_bindings = bds, dl_audit = es, dl_records = n\<rparr>"
  have "reads_to js [] (?S None [] [] [] [] [] [] [] [] None [] [] [] [] 0)" by (simp add: reads_to_def decoded_new_def)
  from reads_to_record [OF this st(1), of "\<lambda>x d. d\<lparr>dl_keys := Some x\<rparr>"] ok
  have r0: "reads_to js b0 (?S (Some (plain_keys v)) [] [] [] [] [] [] [] [] None [] [] [] [] 1)" by (simp add: store_record_def record_kinds)
  obtain l1 n1 where l1: "traverse (plain_namespace v) (px_namespaces snap) = Inr l1" and r1: "reads_to js b1 (?S (Some (plain_keys v)) l1 [] [] [] [] [] [] [] None [] [] [] [] n1)"
    using namespace_stream.reads_to_table [OF r0 st(2) [unfolded encodes]] ok by auto
  obtain l2 n2 where l2: "traverse (plain_secret v) (px_secrets snap) = Inr l2" and r2: "reads_to js b2 (?S (Some (plain_keys v)) l1 l2 [] [] [] [] [] [] None [] [] [] [] n2)"
    using secret_stream.reads_to_table [OF r1 st(3) [unfolded encodes]] ok by auto
  obtain l3 n3 where l3: "traverse (plain_secret_version v) (px_secret_versions snap) = Inr l3" and r3: "reads_to js b3 (?S (Some (plain_keys v)) l1 l2 l3 [] [] [] [] [] None [] [] [] [] n3)"
    using version_stream.reads_to_table [OF r2 st(4) [unfolded encodes]] ok by auto
  obtain n4 where r4: "reads_to js b4 (?S (Some (plain_keys v)) l1 l2 l3 (px_tombstones snap) [] [] [] [] None [] [] [] [] n4)"
    using tombstone_stream.reads_to_table [OF r3 st(5) [unfolded fold_plain(1)]] ok by auto
  obtain n5 where r5: "reads_to js b5 (?S (Some (plain_keys v)) l1 l2 l3 (px_tombstones snap) (map logical_principal_of (px_principals snap)) [] [] [] None [] [] [] [] n5)"
    using principal_stream.reads_to_table [OF r4 st(6) [unfolded fold_plain(2)]] ok by auto
  obtain n6 where r6: "reads_to js b6 (?S (Some (plain_keys v)) l1 l2 l3 (px_tombstones snap) (map logical_principal_of (px_principals snap)) (map logical_authenticator_of (px_authenticators snap)) [] [] None [] [] [] [] n6)"
    using authenticator_stream.reads_to_table [OF r5 st(7) [unfolded fold_plain(2)]] ok by auto
  obtain l7 n7 where l7: "traverse (plain_service_identity v) (px_service_identities snap) = Inr l7" and r7: "reads_to js b7 (?S (Some (plain_keys v)) l1 l2 l3 (px_tombstones snap) (map logical_principal_of (px_principals snap)) (map logical_authenticator_of (px_authenticators snap)) l7 [] None [] [] [] [] n7)"
    using service_stream.reads_to_table [OF r6 st(8) [unfolded encodes]] ok by auto
  obtain n8 where r8: "reads_to js b8 (?S (Some (plain_keys v)) l1 l2 l3 (px_tombstones snap) (map logical_principal_of (px_principals snap)) (map logical_authenticator_of (px_authenticators snap)) l7 (px_application_credentials snap) None [] [] [] [] n8)"
    using credential_stream.reads_to_table [OF r7 st(9) [unfolded fold_plain(1)]] ok by auto
  obtain n9 where r9: "reads_to js b9 (?S (Some (plain_keys v)) l1 l2 l3 (px_tombstones snap) (map logical_principal_of (px_principals snap)) (map logical_authenticator_of (px_authenticators snap)) l7 (px_application_credentials snap) (Some (px_authorization_state snap)) [] [] [] [] n9)"
    using reads_to_record [OF r8 st(10), of "\<lambda>x d. d\<lparr>dl_authorization_state := Some x\<rparr>"] ok by (simp add: store_record_def record_kinds)
  obtain l10 n10 where l10: "traverse (plain_policy v) (px_policies snap) = Inr l10" and r10: "reads_to js b10 (?S (Some (plain_keys v)) l1 l2 l3 (px_tombstones snap) (map logical_principal_of (px_principals snap)) (map logical_authenticator_of (px_authenticators snap)) l7 (px_application_credentials snap) (Some (px_authorization_state snap)) l10 [] [] [] n10)"
    using policy_stream.reads_to_table [OF r9 st(11) [unfolded encodes]] ok by auto
  obtain n11 where r11: "reads_to js b11 (?S (Some (plain_keys v)) l1 l2 l3 (px_tombstones snap) (map logical_principal_of (px_principals snap)) (map logical_authenticator_of (px_authenticators snap)) l7 (px_application_credentials snap) (Some (px_authorization_state snap)) l10 (px_grants snap) [] [] n11)"
    using grant_stream.reads_to_table [OF r10 st(12) [unfolded fold_plain(1)]] ok by auto
  obtain n12 where r12: "reads_to js b12 (?S (Some (plain_keys v)) l1 l2 l3 (px_tombstones snap) (map logical_principal_of (px_principals snap)) (map logical_authenticator_of (px_authenticators snap)) l7 (px_application_credentials snap) (Some (px_authorization_state snap)) l10 (px_grants snap) (px_bindings snap) [] n12)"
    using binding_stream.reads_to_table [OF r11 st(13) [unfolded fold_plain(1)]] ok by auto
  obtain n13 where r13: "reads_to js bs (?S (Some (plain_keys v)) l1 l2 l3 (px_tombstones snap) (map logical_principal_of (px_principals snap)) (map logical_authenticator_of (px_authenticators snap)) l7 (px_application_credentials snap) (Some (px_authorization_state snap)) l10 (px_grants snap) (px_bindings snap) (px_audit_records snap) n13)"
    using audit_stream.reads_to_table [OF r12 st(14) [unfolded fold_plain(1)]] ok by auto
  have "plain_image v snap (?S (Some (plain_keys v)) l1 l2 l3 (px_tombstones snap) (map logical_principal_of (px_principals snap)) (map logical_authenticator_of (px_authenticators snap)) l7 (px_application_credentials snap) (Some (px_authorization_state snap)) l10 (px_grants snap) (px_bindings snap) (px_audit_records snap) n13)" using l1 l2 l3 l7 l10 by (simp add: plain_image_def)
  then show ?thesis using r13 by blast
qed

text \<open>The number of records the archive counted is the number the reader of the stream counts.\<close>

lemma accept_count: "accept_record js d r = Inr d' \<Longrightarrow> dl_records d' = Suc (dl_records d)"
  by (cases r) (auto simp: accept_record_def store_record_def push_record_def result_simps split: if_splits)

lemma decode_records_count: "decode_records js bs d = Inr d' \<Longrightarrow> framed n bs \<Longrightarrow> dl_records d' = dl_records d + n"
proof (induction js bs d arbitrary: n rule: decode_records.induct)
  case (1 js bs d)
  show ?case
  proof (cases "bs = []")
    case False
    let ?m = "from_be (take 4 (drop 4 bs))" and ?rest = "drop 8 bs"
    obtain d1 where len: "8 \<le> length bs" "from_be (take 2 (drop 2 bs)) = RECORD_FLAG_CRITICAL" "?m \<le> length ?rest"
      and d1: "accept_record js d (from_be (take 2 bs), take ?m ?rest) = Inr d1" "decode_records js (drop ?m ?rest) d1 = Inr d'"
      using "1.prems"(1) False by (subst (asm) decode_records.simps) (auto simp: Let_def result_simps split: if_splits)
    have "framed n (take 8 bs @ ?rest)" using "1.prems"(2) by simp
    then have "0 < n" "framed (n - 1) (drop ?m ?rest)"
      using framed_header [of "take 8 bs" n ?rest] len by (simp_all add: drop_take)
    moreover have "dl_records d' = dl_records d1 + (n - 1)"
      by (rule "1.IH" [OF False _ refl refl _ d1 calculation(2)]) (use len in auto)
    ultimately show ?thesis using accept_count [OF d1(1)] by simp
  qed (use 1 in simp)
qed

lemma stream_roundtrip:
  assumes "encode_logical_snapshot js v snap = Inr bs" "json_ok js" "framed n bs"
  shows "\<exists>d. decode_logical_stream js bs n = Inr d \<and> plain_image v snap d"
proof -
  obtain d where d: "decode_records js bs decoded_new = Inr d" "plain_image v snap d"
    using stream_read [OF assms(1,2)] reads_to_end by blast
  have "dl_records d = n" using decode_records_count [OF d(1) assms(3)] by (simp add: decoded_new_def)
  then have "decode_logical_stream js bs n = Inr d" using d by (simp add: decode_logical_stream_def plain_image_def ensure_def)
  then show ?thesis using d(2) by blast
qed

lemma keys_roundtrip:
  assumes "base64_correct (vt_lib v)" "length (vt_blind_index_key v) = 32" "length (vt_audit_key v) = 32" "length (vt_token_verifier_key v) = 32"
  shows "decode_vault_keys (vt_lib v) (plain_keys v) =
    Inr \<lparr>pk_blind_index = vt_blind_index_key v, pk_audit = vt_audit_key v, pk_token_verifier = vt_token_verifier_key v\<rparr>"
  using assms by (simp add: decode_vault_keys_def decode_key_def plain_keys_def encode_key_def base64_correct_def ensure_def)

end
