(* ===== verification/App_Backup.thy ===== *)
theory App_Backup
  imports Backup_Logical App_Refinement
begin

text \<open>
  Backup and restore (\<open>src/crates/smcv-app/src/backup.rs\<close>): writing, verifying and publishing an
  archive of the vault, and restoring one into new files: the protected fields are encrypted again under
  the destination's key, the state commitments that depend on the installation are computed again, and
  the destination is activated only after it was imported, verified and reopened.
\<close>

section \<open>Reports and environment\<close>

datatype credential_restore_mode = Preserve | Revoke

record backup_file_report =
  br_archive_id :: uuid
  br_archive_bytes :: nat
  br_record_count :: nat
  br_logical_bytes :: nat

record restore_report =
  rr_archive_id :: uuid
  rr_vault_id :: uuid
  rr_installation_id :: uuid
  rr_recovery_epoch :: nat
  rr_imported_records :: nat
  rr_imported_audit_events :: nat
  rr_revoked_application_credentials :: nat
  rr_disabled_source_bound_authenticators :: nat

text \<open>The libraries behind a backup.\<close>

record backup_lib =
  kl_archive :: archive_lib
  kl_json :: json_lib
  kl_password :: password_lib

text \<open>A file as an open finds it.\<close>

record archive_file =
  af_opens :: bool
  af_regular :: bool
  af_bytes :: bytes

definition open_safe_source :: "archive_file \<Rightarrow> backup_error + bytes" where
  "open_safe_source f =
     rbind (ensure (af_opens f) Io) (\<lambda>_.
     rbind (ensure (af_regular f \<and> af_bytes f \<noteq> [] \<and> length (af_bytes f) \<le> MAX_PORTABLE_FILE_BYTES) InvalidInput) (\<lambda>_.
     Inr (af_bytes f)))"

definition inspect_backup_file :: "archive_file \<Rightarrow> backup_error + public_header" where
  "inspect_backup_file f =
     rbind (open_safe_source f) (\<lambda>source.
     map_err (\<lambda>e. Archive (Header e)) (parse_public_header (take MAX_HEADER_BYTES source) (length source)))"

definition verify_backup_file :: "archive_lib \<Rightarrow> archive_file \<Rightarrow> archive_key \<Rightarrow> backup_error + verified_archive" where
  "verify_backup_file al f key =
     rbind (open_safe_source f) (\<lambda>source. map_err Archive (verify_archive al source (length source) key))"

section \<open>Transforming the logical records\<close>

definition encrypt_b64 :: "vault \<Rightarrow> entropy \<Rightarrow> string \<Rightarrow> object_kind \<Rightarrow> object_kind \<Rightarrow> uuid \<Rightarrow> nat \<Rightarrow> backup_error + encrypted_record" where
  "encrypt_b64 v ent encoded object_kind wrapped_kind object_id version =
     rbind (ok_or Integrity (b64_decode (vt_lib v) encoded)) (\<lambda>plaintext.
     map_err Vault (encrypt_record v ent plaintext object_kind wrapped_kind object_id version))"

definition restore_namespace :: "vault \<Rightarrow> entropy \<Rightarrow> logical_namespace \<Rightarrow> backup_error + portable_namespace" where
  "restore_namespace v ent row =
     rbind (encrypt_b64 v ent (ln_metadata row) object_kind.NamespaceMetadata WrappedNamespaceMetadataKey (ln_namespace_id row)
       (ln_metadata_version row)) (\<lambda>metadata.
     rbind (map_err Vault (namespace_state_commitment v (ln_namespace_id row) (ln_parent_namespace_id row) (ln_name_index row)
       (ln_lifecycle_state row) (ln_revision row) (ln_metadata_version row))) (\<lambda>state_commitment.
     Inr \<lparr>pn_namespace_id = ln_namespace_id row, pn_parent_namespace_id = ln_parent_namespace_id row, pn_name_index = ln_name_index row,
          pn_metadata_version = ln_metadata_version row, pn_metadata = metadata, pn_lifecycle_state = ln_lifecycle_state row,
          pn_revision = ln_revision row, pn_state_commitment = state_commitment, pn_created_at = ln_created_at row,
          pn_updated_at = ln_updated_at row\<rparr>))"

text \<open>Collecting into a map keeps the last of equal keys.\<close>

definition schedules_of :: "logical_secret_version list \<Rightarrow> (uuid \<times> nat) \<rightharpoonup> secret_schedule" where
  "schedules_of versions = map_of (rev (map (\<lambda>row. ((lw_secret_id row, lw_version row), lw_schedule row)) versions))"

definition restore_secret :: "vault \<Rightarrow> ((uuid \<times> nat) \<rightharpoonup> secret_schedule) \<Rightarrow> entropy \<Rightarrow> logical_secret \<Rightarrow> backup_error + portable_secret" where
  "restore_secret v schedules ent row =
     rbind (encrypt_b64 v ent (ls_metadata row) object_kind.SecretMetadata WrappedMetadataKey (ls_secret_id row) (ls_metadata_version row)) (\<lambda>metadata.
     rbind (ok_or Integrity (schedules (ls_secret_id row, ls_current_version row))) (\<lambda>schedule.
     rbind (map_err Vault (secret_state_commitment v (ls_secret_id row) (ls_namespace_id row) (ls_name_index row) (ls_lifecycle_state row)
       (ls_current_version row) (ls_revision row) (ls_metadata_version row) schedule)) (\<lambda>state_commitment.
     Inr \<lparr>ps_secret_id = ls_secret_id row, ps_namespace_id = ls_namespace_id row, ps_name_index = ls_name_index row,
          ps_metadata_version = ls_metadata_version row, ps_metadata = metadata, ps_lifecycle_state = ls_lifecycle_state row,
          ps_current_version = ls_current_version row, ps_revision = ls_revision row, ps_state_commitment = state_commitment,
          ps_created_at = ls_created_at row, ps_updated_at = ls_updated_at row, ps_deleted_at = ls_deleted_at row\<rparr>)))"

definition restore_secret_version :: "vault \<Rightarrow> entropy \<Rightarrow> logical_secret_version \<Rightarrow> backup_error + portable_secret_version" where
  "restore_secret_version v ent row =
     rbind (encrypt_b64 v ent (lw_payload row) object_kind.SecretVersion WrappedDataKey (lw_secret_id row) (lw_version row)) (\<lambda>payload.
     Inr \<lparr>pv_secret_id = lw_secret_id row, pv_version = lw_version row, pv_payload = payload, pv_schedule = lw_schedule row,
          pv_created_by = lw_created_by row, pv_created_at = lw_created_at row\<rparr>)"

definition parse_principal_kind :: "string \<Rightarrow> backup_error + principal_kind" where
  "parse_principal_kind text = (if text = ''owner'' then Inr principal_kind.Owner else if text = ''service'' then Inr principal_kind.Service else Inl Integrity)"

definition parse_authenticator_kind :: "string \<Rightarrow> backup_error + authenticator_kind" where
  "parse_authenticator_kind text = (if text = ''password'' then Inr Password else if text = ''passkey'' then Inr Passkey
     else if text = ''recovery'' then Inr authenticator_kind.Recovery else Inl Integrity)"

definition restore_principal :: "logical_principal \<Rightarrow> backup_error + portable_principal" where
  "restore_principal row =
     rbind (parse_principal_kind (lp_kind row)) (\<lambda>kind.
     Inr \<lparr>pp_principal_id = lp_principal_id row, pp_kind = kind, pp_state = lp_state row, pp_revision = lp_revision row,
          pp_state_commitment = lp_state_commitment row, pp_created_at = lp_created_at row, pp_updated_at = lp_updated_at row\<rparr>)"

text \<open>An active passkey is bound to the source and is revoked; the result says whether it was.\<close>

definition restore_authenticator :: "password_lib \<Rightarrow> vault \<Rightarrow> unix_ms \<Rightarrow> logical_authenticator \<Rightarrow> backup_error + (portable_authenticator \<times> bool)" where
  "restore_authenticator pl v now row =
     rbind (parse_authenticator_kind (lh_kind row)) (\<lambda>kind.
     rbind (if kind = Password \<or> kind = authenticator_kind.Recovery
            then rbind (ok_or Integrity (lh_password_phc row)) (\<lambda>text. map_err (\<lambda>_. Integrity) (validate_password_phc pl text))
            else Inr ()) (\<lambda>_.
     let restored = \<lparr>ph_authenticator_id = lh_authenticator_id row, ph_principal_id = lh_principal_id row, ph_kind = kind,
       ph_credential_lookup = lh_credential_lookup row, ph_credential_data = lh_credential_data row, ph_password_phc = lh_password_phc row,
       ph_state = lh_state row, ph_created_at = lh_created_at row, ph_last_used_at = lh_last_used_at row,
       ph_revoked_at = lh_revoked_at row, ph_state_commitment = lh_state_commitment row\<rparr> in
     if kind = Passkey \<and> lh_state row = ''active'' then
       let restored = restored\<lparr>ph_state := ''revoked'', ph_revoked_at := Some now\<rparr> in
       rbind (map_err (\<lambda>_. Integrity) (authenticator_commitment v (ph_authenticator_id restored) (ph_principal_id restored) (ph_kind restored)
         (ph_credential_lookup restored) (ph_credential_data restored) (ph_password_phc restored) (ph_state restored)
         (ph_created_at restored) (ph_last_used_at restored) (ph_revoked_at restored))) (\<lambda>c.
       Inr (restored\<lparr>ph_state_commitment := c\<rparr>, True))
     else Inr (restored, False)))"

definition restore_service_identity :: "vault \<Rightarrow> entropy \<Rightarrow> logical_service_identity \<Rightarrow> backup_error + portable_service_identity" where
  "restore_service_identity v ent row =
     rbind (encrypt_b64 v ent (ly_metadata row) ServiceIdentityMetadata WrappedServiceIdentityMetadataKey (ly_principal_id row)
       (ly_metadata_version row)) (\<lambda>metadata.
     Inr \<lparr>py_principal_id = ly_principal_id row, py_metadata_version = ly_metadata_version row, py_metadata = metadata\<rparr>)"

definition restore_application_credential :: "vault \<Rightarrow> credential_restore_mode \<Rightarrow> unix_ms \<Rightarrow> logical_application_credential \<Rightarrow>
    backup_error + (portable_application_credential \<times> bool)" where
  "restore_application_credential v mode now row =
     (if mode = Revoke \<and> pc_revoked_at row = None then
        rbind (ok_or Integrity (checked_add_u64 (pc_revision row) 1)) (\<lambda>revision.
        let restored = row\<lparr>pc_revoked_at := Some now, pc_revision := revision\<rparr> in
        rbind (map_err (\<lambda>_. Integrity) (application_credential_commitment v (pc_credential_id restored) (pc_principal_id restored)
          (pc_lookup_id restored) (pc_verifier restored) (pc_created_at restored) (pc_expires_at restored) (pc_last_used_at restored)
          (pc_revoked_at restored) (pc_revision restored))) (\<lambda>c.
        Inr (restored\<lparr>pc_state_commitment := c\<rparr>, True)))
      else Inr (row, False))"

text \<open>A loop that collects the rows and counts the ones that changed.\<close>

definition collect_counted :: "('l \<Rightarrow> backup_error + ('p \<times> bool)) \<Rightarrow> 'l list \<Rightarrow> backup_error + ('p list \<times> nat)" where
  "collect_counted f xs = try_fold (\<lambda>(acc, n) row.
     rbind (f row) (\<lambda>(restored, changed).
     rbind (if changed then ok_or Integrity (checked_add_u64 n 1) else Inr n) (\<lambda>n'. Inr (acc @ [restored], n')))) ([], 0) xs"

definition restore_policy :: "vault \<Rightarrow> entropy \<Rightarrow> logical_policy \<Rightarrow> backup_error + portable_policy" where
  "restore_policy v ent row =
     rbind (encrypt_b64 v ent (ll_metadata row) PolicyMetadata WrappedPolicyMetadataKey (ll_policy_id row) (ll_metadata_version row)) (\<lambda>metadata.
     rbind (map_err (\<lambda>_. Integrity) (policy_commitment v (ll_policy_id row) (ll_revision row) (ll_state row) (ll_metadata_version row) metadata
       (ll_created_at row) (ll_updated_at row))) (\<lambda>state_commitment.
     Inr \<lparr>po_policy_id = ll_policy_id row, po_revision = ll_revision row, po_state = ll_state row,
          po_metadata_version = ll_metadata_version row, po_metadata = metadata, po_state_commitment = state_commitment,
          po_created_at = ll_created_at row, po_updated_at = ll_updated_at row\<rparr>))"

definition portable_authorization_commitment :: "vault \<Rightarrow> portable_policy list \<Rightarrow> policy_grant_record list \<Rightarrow> policy_binding_record list \<Rightarrow>
    nat \<Rightarrow> authorization_error + bytes" where
  "portable_authorization_commitment v ps gs bs revision =
     items_commitment v (map policy_item ps @ map grant_item gs @ map binding_item bs) revision"

text \<open>Each encryption draws its own entropy, here by the kind of the object and its place in the list.\<close>

definition transform_all :: "(nat \<Rightarrow> entropy) \<Rightarrow> (entropy \<Rightarrow> 'l \<Rightarrow> backup_error + 'p) \<Rightarrow> 'l list \<Rightarrow> backup_error + 'p list" where
  "transform_all ents f xs = traverse (\<lambda>(i, row). f (ents i) row) (enumerate 0 xs)"

definition transform_logical_snapshot :: "password_lib \<Rightarrow> (object_kind \<Rightarrow> nat \<Rightarrow> entropy) \<Rightarrow> vault \<Rightarrow> decoded_logical \<Rightarrow>
    verified_archive \<Rightarrow> credential_restore_mode \<Rightarrow> unix_ms \<Rightarrow> backup_error + (portable_snapshot_data \<times> nat \<times> nat)" where
  "transform_logical_snapshot pl ents v decoded verified mode now =
     (let schedules = schedules_of (dl_secret_versions decoded) in
     rbind (transform_all (ents object_kind.NamespaceMetadata) (restore_namespace v) (dl_namespaces decoded)) (\<lambda>ns.
     rbind (transform_all (ents object_kind.SecretMetadata) (restore_secret v schedules) (dl_secrets decoded)) (\<lambda>ss.
     rbind (transform_all (ents object_kind.SecretVersion) (restore_secret_version v) (dl_secret_versions decoded)) (\<lambda>vs.
     rbind (traverse restore_principal (dl_principals decoded)) (\<lambda>ps.
     rbind (collect_counted (restore_authenticator pl v now) (dl_authenticators decoded)) (\<lambda>(hs, disabled_authenticators).
     rbind (transform_all (ents ServiceIdentityMetadata) (restore_service_identity v) (dl_service_identities decoded)) (\<lambda>ys.
     rbind (collect_counted (restore_application_credential v mode now) (dl_application_credentials decoded)) (\<lambda>(cs, revoked_credentials).
     rbind (ok_or Integrity (dl_authorization_state decoded)) (\<lambda>authorization.
     rbind (transform_all (ents PolicyMetadata) (restore_policy v) (dl_policies decoded)) (\<lambda>ls.
     rbind (map_err (\<lambda>_. Integrity) (portable_authorization_commitment v ls (dl_grants decoded) (dl_bindings decoded)
       (as_revision authorization))) (\<lambda>commitment.
     Inr (\<lparr>px_vault_id = am_logical_vault_id (va_metadata verified), px_source_installation_id = am_source_installation_id (va_metadata verified),
           px_source_recovery_epoch = am_source_recovery_epoch (va_metadata verified),
           px_security_semantics_version = am_security_semantics_version (va_metadata verified), px_namespaces = ns, px_secrets = ss,
           px_secret_versions = vs, px_tombstones = dl_tombstones decoded, px_principals = ps, px_authenticators = hs,
           px_service_identities = ys, px_application_credentials = cs,
           px_authorization_state = \<lparr>as_revision = as_revision authorization, as_state_commitment = commitment\<rparr>,
           px_policies = ls, px_grants = dl_grants decoded, px_bindings = dl_bindings decoded, px_audit_records = dl_audit decoded\<rparr>,
          revoked_credentials, disabled_authenticators))))))))))))"

section \<open>Verifying the destination\<close>

definition kinds_of :: "portable_principal list \<Rightarrow> uuid \<rightharpoonup> principal_kind" where
  "kinds_of ps = map_of (rev (map (\<lambda>row. (pp_principal_id row, pp_kind row)) ps))"

definition verify_ancestry :: "db \<Rightarrow> portable_namespace \<Rightarrow> backup_error + unit" where
  "verify_ancestry d n =
     rbind (map_err Storage (namespace_ancestors_inclusive (pn_namespace_id n) d)) (\<lambda>ancestors.
     rbind (ensure (ancestors \<noteq> []) Integrity) (\<lambda>_.
     rbind (ensure (length ancestors \<le> 33 \<and> distinct ancestors) Integrity) (\<lambda>_.
     rbind (map_err Storage (namespace (last ancestors) d)) (\<lambda>root.
     ensure (nr_parent root = None) Integrity))))"

definition verify_history :: "portable_secret_version list \<Rightarrow> portable_secret \<Rightarrow> backup_error + unit" where
  "verify_history vs s =
     (let actual = map pv_version (filter (\<lambda>x. pv_secret_id x = ps_secret_id s) vs) in
      ensure (length (remdups actual) = ps_current_version s \<and> list_all (\<lambda>n. n \<in> set actual) [1..<Suc (ps_current_version s)]) Integrity)"

definition grant_target_exists :: "portable_snapshot_data \<Rightarrow> policy_grant_record \<Rightarrow> bool" where
  "grant_target_exists snapshot g =
     (case pg_resource_kind g of
        Namespace \<Rightarrow> pg_resource_id g \<in> pn_namespace_id ` set (px_namespaces snapshot)
      | Secret \<Rightarrow> pg_resource_id g \<in> ps_secret_id ` set (px_secrets snapshot))"

definition verify_restored_relationships :: "portable_snapshot_data \<Rightarrow> db \<Rightarrow> backup_error + unit" where
  "verify_restored_relationships snapshot d =
     (let kinds = kinds_of (px_principals snapshot); ids = ps_secret_id ` set (px_secrets snapshot) in
     rbind (ensure (distinct (map pn_namespace_id (px_namespaces snapshot)) \<and> distinct (map ps_secret_id (px_secrets snapshot)) \<and>
       distinct (map pp_principal_id (px_principals snapshot))) Integrity) (\<lambda>_.
     rbind (traverse (verify_ancestry d) (px_namespaces snapshot)) (\<lambda>_.
     rbind (traverse (verify_history (px_secret_versions snapshot)) (px_secrets snapshot)) (\<lambda>_.
     rbind (ensure (list_all (\<lambda>x. pv_secret_id x \<in> ids) (px_secret_versions snapshot) \<and>
       list_all (\<lambda>t. pt_secret_id t \<notin> ids) (px_tombstones snapshot)) Integrity) (\<lambda>_.
     rbind (ensure (list_all (\<lambda>h. kinds (ph_principal_id h) = Some principal_kind.Owner) (px_authenticators snapshot)) Integrity) (\<lambda>_.
     rbind (ensure (list_all (\<lambda>y. kinds (py_principal_id y) = Some principal_kind.Service) (px_service_identities snapshot)) Integrity) (\<lambda>_.
     rbind (ensure (list_all (\<lambda>c. kinds (pc_principal_id c) = Some principal_kind.Service) (px_application_credentials snapshot)) Integrity) (\<lambda>_.
     rbind (ensure (list_all (\<lambda>g. grant_target_exists snapshot g \<and> kinds (pg_created_by g) = Some principal_kind.Owner) (px_grants snapshot)) Integrity) (\<lambda>_.
     ensure (list_all (\<lambda>b. kinds (pb_principal_id b) = Some principal_kind.Service \<and> kinds (pb_created_by b) = Some principal_kind.Owner)
       (px_bindings snapshot)) Integrity)))))))))"

definition verify_restored_namespace :: "vault \<Rightarrow> db \<Rightarrow> portable_namespace \<Rightarrow> backup_error + unit" where
  "verify_restored_namespace v d n =
     rbind (map_err Storage (namespace (pn_namespace_id n) d)) (\<lambda>durable.
     rbind (map_err Vault (verify_namespace_state v durable)) (\<lambda>_.
     rbind (map_err Vault (decrypt_record v (nr_metadata durable) object_kind.NamespaceMetadata WrappedNamespaceMetadataKey
       (pn_namespace_id n) (pn_metadata_version n))) (\<lambda>_. Inr ())))"

definition verify_restored_secret :: "vault \<Rightarrow> db \<Rightarrow> portable_secret \<Rightarrow> backup_error + unit" where
  "verify_restored_secret v d s =
     rbind (map_err Storage (secret (ps_secret_id s) d)) (\<lambda>durable.
     rbind (map_err Vault (verify_secret_state v durable)) (\<lambda>_.
     rbind (map_err Vault (decrypt_record v (sr_metadata durable) object_kind.SecretMetadata WrappedMetadataKey
       (ps_secret_id s) (ps_metadata_version s))) (\<lambda>_. Inr ())))"

definition verify_restored_version :: "vault \<Rightarrow> portable_secret_version \<Rightarrow> backup_error + unit" where
  "verify_restored_version v x =
     rbind (map_err Vault (decrypt_record v (pv_payload x) object_kind.SecretVersion WrappedDataKey (pv_secret_id x) (pv_version x))) (\<lambda>_. Inr ())"

definition verify_restored_principal :: "vault \<Rightarrow> db \<Rightarrow> portable_principal \<Rightarrow> backup_error + unit" where
  "verify_restored_principal v d p =
     rbind (map_err Storage (principal (pp_principal_id p) d)) (\<lambda>durable.
     map_err (\<lambda>_. Integrity) (verify_principal_commitment v durable))"

definition verify_restored_authenticator :: "vault \<Rightarrow> portable_authenticator \<Rightarrow> backup_error + unit" where
  "verify_restored_authenticator v a =
     rbind (map_err (\<lambda>_. Integrity) (authenticator_commitment v (ph_authenticator_id a) (ph_principal_id a) (ph_kind a) (ph_credential_lookup a)
       (ph_credential_data a) (ph_password_phc a) (ph_state a) (ph_created_at a) (ph_last_used_at a) (ph_revoked_at a))) (\<lambda>expected.
     ensure (expected = ph_state_commitment a) Integrity)"

definition verify_restored_credential :: "vault \<Rightarrow> db \<Rightarrow> portable_application_credential \<Rightarrow> backup_error + unit" where
  "verify_restored_credential v d c =
     rbind (map_err Storage (application_credential (pc_credential_id c) d)) (\<lambda>durable.
     map_err (\<lambda>_. Integrity) (verify_application_credential_commitment v durable))"

definition empty_initial_authorization :: "portable_snapshot_data \<Rightarrow> bool" where
  "empty_initial_authorization snapshot =
     (px_policies snapshot = [] \<and> px_grants snapshot = [] \<and> px_bindings snapshot = [] \<and>
      as_revision (px_authorization_state snapshot) = 1 \<and> as_state_commitment (px_authorization_state snapshot) = replicate 32 0)"

text \<open>The first argument is what \<open>PRAGMA quick_check\<close> reports.\<close>

definition verify_restored_snapshot :: "storage_error + bool \<Rightarrow> vault \<Rightarrow> portable_snapshot_data \<Rightarrow> db \<Rightarrow> backup_error + unit" where
  "verify_restored_snapshot quick v snapshot d =
     rbind (map_err Storage quick) (\<lambda>sound.
     rbind (ensure sound Integrity) (\<lambda>_.
     rbind (verify_restored_relationships snapshot d) (\<lambda>_.
     rbind (traverse (verify_restored_namespace v d) (px_namespaces snapshot)) (\<lambda>_.
     rbind (traverse (verify_restored_secret v d) (px_secrets snapshot)) (\<lambda>_.
     rbind (traverse (verify_restored_version v) (px_secret_versions snapshot)) (\<lambda>_.
     rbind (traverse (verify_restored_principal v d) (px_principals snapshot)) (\<lambda>_.
     rbind (traverse (verify_restored_authenticator v) (px_authenticators snapshot)) (\<lambda>_.
     rbind (traverse (verify_restored_credential v d) (px_application_credentials snapshot)) (\<lambda>_.
     rbind (if empty_initial_authorization snapshot then Inr ()
            else rbind (map_err (\<lambda>_. Integrity) (verified_authorization_snapshot v d)) (\<lambda>_. Inr ())) (\<lambda>_.
     rbind (map_err Vault (verify_audit_chain v d)) (\<lambda>_. Inr ())))))))))))"

section \<open>Restoring\<close>

text \<open>The files the cleanup guard of a restore removes.\<close>

datatype destination_path = DatabaseWal | DatabaseShm | DatabasePath | RootKeyPath

text \<open>\<open>re_removed\<close> says which removals the file system carries out.\<close>

record restore_env =
  re_init :: init_env
  re_reopen :: init_env
  re_entropy :: "object_kind \<Rightarrow> nat \<Rightarrow> entropy"
  re_request_id :: uuid
  re_event_id :: uuid
  re_quick_check :: "storage_error + bool"
  re_removed :: "destination_path \<Rightarrow> bool"

definition collect_chunk :: "bytes \<Rightarrow> bytes \<Rightarrow> (archive_error + unit) \<times> bytes" where
  "collect_chunk chunk canonical =
     (if length canonical + length chunk > MAX_LOGICAL_STREAM_BYTES then (Inl InvalidBound, canonical) else (Inr (), canonical @ chunk))"

definition read_logical_archive :: "backup_lib \<Rightarrow> archive_key \<Rightarrow> archive_file \<Rightarrow>
    backup_error + (verified_archive \<times> decoded_logical \<times> portable_vault_keys \<times> nat)" where
  "read_logical_archive bl key f =
     rbind (open_safe_source f) (\<lambda>source.
     case decode_archive (kl_archive bl) source (length source) key collect_chunk [] of (r, canonical) \<Rightarrow>
     rbind (map_err Archive r) (\<lambda>verified.
     rbind (ensure (am_source_schema_version (va_metadata verified) = SCHEMA_VERSION \<and>
       am_security_semantics_version (va_metadata verified) = SECURITY_SEMANTICS_VERSION) Integrity) (\<lambda>_.
     rbind (decode_logical_stream (kl_json bl) canonical (va_record_count verified)) (\<lambda>decoded.
     rbind (ok_or Integrity (dl_keys decoded)) (\<lambda>logical.
     rbind (decode_vault_keys (al_crypto (kl_archive bl)) logical) (\<lambda>keys.
     rbind (ok_or Integrity (checked_add_u64 (am_source_recovery_epoch (va_metadata verified)) 1)) (\<lambda>epoch.
     Inr (verified, decoded, keys, epoch))))))))"

text \<open>A call on the open destination database.\<close>

definition on_destination :: "(db \<Rightarrow> (storage_error + 'a) \<times> db) \<Rightarrow> host \<Rightarrow> (backup_error + 'a) \<times> host" where
  "on_destination op h = (case op (store_of h) of (r, d) \<Rightarrow> (map_err Storage r, h\<lparr>ho_db := Some d\<rparr>))"

definition restored_context :: "uuid \<Rightarrow> unix_ms \<Rightarrow> vault_operation_context" where
  "restored_context request_id now = \<lparr>oc_request_id = request_id, oc_actor = None, oc_credential_kind = None, oc_credential_id = None, oc_now = now\<rparr>"

definition restore_destination :: "backup_lib \<Rightarrow> restore_env \<Rightarrow> archive_key \<Rightarrow> credential_restore_mode \<Rightarrow> unix_ms \<Rightarrow> archive_file \<Rightarrow>
    host \<Rightarrow> (backup_error + restore_report) \<times> host" where
  "restore_destination bl env key mode now f =
     guarded (read_logical_archive bl key f) (\<lambda>(verified, decoded, keys, destination_epoch).
     sbind (storing (\<lambda>_. InvalidInput) (\<lambda>w. w) (initialize_restore_staging (re_init env) (am_logical_vault_id (va_metadata verified)) keys)) (\<lambda>w.
     let v = lv_vault w in
     guarded (transform_logical_snapshot (kl_password bl) (re_entropy env) v decoded verified mode now)
       (\<lambda>(snapshot, revoked_credentials, disabled_authenticators).
     sbind (on_destination (import_portable_snapshot snapshot destination_epoch)) (\<lambda>_.
     reading (\<lambda>h. map_err Vault (build_audit v (re_event_id env) ''backup:restore'' ''vault'' (Some (vt_vault_id v))
       (restored_context (re_request_id env) now) (store_of h))) (\<lambda>audit.
     sbind (on_destination (append_audit audit)) (\<lambda>_.
     reading (\<lambda>h. verify_restored_snapshot (re_quick_check env) v snapshot (store_of h)) (\<lambda>_.
     sbind (storing (\<lambda>_. Integrity) (\<lambda>x. x) (verify_restore_staging_reopen (re_reopen env) (vt_vault_id v) (vt_installation_id v))) (\<lambda>_.
     sbind (on_destination (activate_restored_initialization 1)) (\<lambda>_.
     Pair (Inr \<lparr>rr_archive_id = ph_archive_id (va_header verified), rr_vault_id = vt_vault_id v, rr_installation_id = vt_installation_id v,
       rr_recovery_epoch = destination_epoch, rr_imported_records = va_record_count verified,
       rr_imported_audit_events = length (px_audit_records snapshot), rr_revoked_application_credentials = revoked_credentials,
       rr_disabled_source_bound_authenticators = disabled_authenticators\<rparr>))))))))))"

text \<open>\<open>RestoreDestinationCleanup\<close>: unless disarmed, the guard removes the destination files one by one, and
  goes on when a removal fails.  The content of the database is that of its file together with its two side
  files, which have none of their own here.\<close>

definition remove_path :: "restore_env \<Rightarrow> destination_path \<Rightarrow> host \<Rightarrow> host" where
  "remove_path env p h =
     (if re_removed env p then
        (case p of DatabaseWal \<Rightarrow> h | DatabaseShm \<Rightarrow> h | DatabasePath \<Rightarrow> h\<lparr>ho_db := None\<rparr> | RootKeyPath \<Rightarrow> h\<lparr>ho_root := None\<rparr>)
      else h)"

definition remove_destination :: "restore_env \<Rightarrow> host \<Rightarrow> host" where
  "remove_destination env h = fold (remove_path env) [DatabaseWal, DatabaseShm, DatabasePath, RootKeyPath] h"

definition restore_backup_file :: "backup_lib \<Rightarrow> restore_env \<Rightarrow> archive_key \<Rightarrow> credential_restore_mode \<Rightarrow> unix_ms \<Rightarrow> archive_file \<Rightarrow>
    host \<Rightarrow> (backup_error + restore_report) \<times> host" where
  "restore_backup_file bl env key mode now f h =
     (if now < 0 \<or> ho_db h \<noteq> None \<or> ho_root h \<noteq> None then (Inl InvalidInput, h)
      else case restore_destination bl env key mode now f h of
        (Inl e, h') \<Rightarrow> (Inl e, remove_destination env h')
      | (Inr report, h') \<Rightarrow> (Inr report, h'))"

section \<open>Creating\<close>

text \<open>The database, the file at the destination and the partial file; what the file system answers.\<close>

record backup_place =
  bp_db :: db
  bp_destination :: "bytes option"
  bp_temporary :: "bytes option"

record backup_env =
  be_extension :: bool
  be_prepared :: bool
  be_created :: bool
  be_room :: nat
  be_synced :: bool
  be_reopened :: bool
  be_measured :: bool
  be_linked :: bool
  be_unlinked :: bool
  be_directory_synced :: bool
  be_removed :: bool
  be_archive :: archive_entropy
  be_request_id :: uuid
  be_event_id :: uuid

text \<open>A cursor over bytes fills each read until they end.\<close>

function cursor_reads :: "nat \<Rightarrow> bytes \<Rightarrow> bytes list" where
  "cursor_reads n bs = (if bs = [] \<or> n = 0 then [] else take n bs # cursor_reads n (drop n bs))"
  by pat_completeness auto

termination
  by (relation "measure (\<lambda>(n, bs). length bs)") auto

declare cursor_reads.simps [simp del]

definition backup_metadata :: "portable_snapshot_data \<Rightarrow> unix_ms \<Rightarrow> archive_metadata" where
  "backup_metadata snapshot now = \<lparr>am_logical_vault_id = px_vault_id snapshot, am_source_installation_id = px_source_installation_id snapshot,
     am_source_recovery_epoch = px_source_recovery_epoch snapshot, am_source_schema_version = SCHEMA_VERSION,
     am_security_semantics_version = px_security_semantics_version snapshot, am_created_at = now\<rparr>"

definition write_temporary :: "archive_lib \<Rightarrow> backup_env \<Rightarrow> archive_key \<Rightarrow> archive_metadata \<Rightarrow> bytes \<Rightarrow> backup_place \<Rightarrow>
    (backup_error + archive_summary) \<times> backup_place" where
  "write_temporary al env key metadata logical s =
     (case write_archive al (be_archive env) (map Inr (cursor_reads (ao_chunk_bytes default_options) logical)) key metadata default_options
         \<lparr>sk_written = [], sk_room = be_room env\<rparr> of
        (r, k) \<Rightarrow> (map_err Archive r, s\<lparr>bp_temporary := Some (sk_written k)\<rparr>))"

definition write_and_verify_backup :: "backup_lib \<Rightarrow> backup_env \<Rightarrow> vault \<Rightarrow> archive_key \<Rightarrow> unix_ms \<Rightarrow> backup_place \<Rightarrow>
    (backup_error + verified_archive) \<times> backup_place" where
  "write_and_verify_backup bl env v key now =
     reading (\<lambda>s. map_err Storage (portable_snapshot (bp_db s))) (\<lambda>snapshot.
     guarded (encode_logical_snapshot (kl_json bl) v snapshot) (\<lambda>logical.
     guarded (ensure (be_created env) Io) (\<lambda>_.
     sbind (write_temporary (kl_archive bl) env key (backup_metadata snapshot now) logical) (\<lambda>_.
     guarded (ensure (be_synced env) Io) (\<lambda>_.
     guarded (ensure (be_reopened env) Io) (\<lambda>_.
     reading (\<lambda>s. rbind (ok_or Io (bp_temporary s)) (\<lambda>written.
       map_err Archive (verify_archive (kl_archive bl) written (length written) key))) (\<lambda>verified.
     Pair (Inr verified))))))))"

definition remove_temporary :: "backup_env \<Rightarrow> backup_place \<Rightarrow> backup_place" where
  "remove_temporary env s = (if be_removed env then s\<lparr>bp_temporary := None\<rparr> else s)"

text \<open>\<open>PublishedBackupCleanup\<close>: unless disarmed, the guard removes the published file.\<close>

definition remove_published :: "backup_env \<Rightarrow> backup_place \<Rightarrow> backup_place" where
  "remove_published env s = (if be_removed env then s\<lparr>bp_destination := None\<rparr> else s)"

text \<open>Each failing step up to the link removes the partial file before its error is returned, and the guard armed
  by the link removes the published file.\<close>

definition on_failure :: "('s \<Rightarrow> 's) \<Rightarrow> ('s \<Rightarrow> ('e + 'a) \<times> 's) \<Rightarrow> 's \<Rightarrow> ('e + 'a) \<times> 's" where
  "on_failure cleanup m s = (case m s of (Inl e, s') \<Rightarrow> (Inl e, cleanup s') | (Inr x, s') \<Rightarrow> (Inr x, s'))"

definition log_backup :: "backup_env \<Rightarrow> vault \<Rightarrow> unix_ms \<Rightarrow> verified_archive \<Rightarrow> backup_place \<Rightarrow> (backup_error + unit) \<times> backup_place" where
  "log_backup env v now verified s =
     (case build_audit v (be_event_id env) ''backup:create'' ''archive'' (Some (ph_archive_id (va_header verified)))
         (restored_context (be_request_id env) now) (bp_db s) of
        Inl e \<Rightarrow> (Inl (Vault e), s)
      | Inr audit \<Rightarrow> (case append_audit audit (bp_db s) of (r, d) \<Rightarrow> (map_err Storage r, s\<lparr>bp_db := d\<rparr>)))"

definition create_backup_file :: "backup_lib \<Rightarrow> backup_env \<Rightarrow> vault \<Rightarrow> archive_key \<Rightarrow> unix_ms \<Rightarrow> backup_place \<Rightarrow>
    (backup_error + backup_file_report) \<times> backup_place" where
  "create_backup_file bl env v key now =
     guarded (ensure (0 \<le> now \<and> be_extension env) InvalidInput) (\<lambda>_.
     guarded (ensure (be_prepared env) InvalidInput) (\<lambda>_.
     reading (\<lambda>s. ensure (bp_destination s = None) InvalidInput) (\<lambda>_.
     sbind (on_failure (remove_temporary env)
       (sbind (write_and_verify_backup bl env v key now) (\<lambda>verified.
        reading (\<lambda>s. rbind (ensure (be_measured env) Io) (\<lambda>_. ok_or Io (map_option length (bp_temporary s)))) (\<lambda>archive_bytes.
        sbind (log_backup env v now verified) (\<lambda>_.
        reading (\<lambda>s. ensure (be_linked env) Io) (\<lambda>_.
        Pair (Inr (verified, archive_bytes)))))))) (\<lambda>(verified, archive_bytes).
     \<lambda>s. on_failure (remove_published env)
       (sbind (on_failure (remove_temporary env) (\<lambda>s. if be_unlinked env then (Inr (), s\<lparr>bp_temporary := None\<rparr>) else (Inl Io, s))) (\<lambda>_.
        guarded (ensure (be_directory_synced env) Io) (\<lambda>_.
        Pair (Inr \<lparr>br_archive_id = ph_archive_id (va_header verified), br_archive_bytes = archive_bytes,
          br_record_count = va_record_count verified, br_logical_bytes = va_logical_bytes verified\<rparr>))))
       (s\<lparr>bp_destination := bp_temporary s\<rparr>)))))"

end
