(* ===== verification/Store_Runs.thy ===== *)
theory Store_Runs
  imports Store_Steps Portable_Restore
begin

text \<open>
  Runs of everything that commits to the database: the operations of \<open>Store_Steps\<close> and the import of a
  portable snapshot, which writes the tables of a staged installation directly.  An import checks the
  schema and the references of what it writes, not the audit chain nor the histories, so the runs take a
  condition on the imported snapshots as a parameter; what needs none is shown for every snapshot.
\<close>

section \<open>Steps\<close>

inductive commit_step :: "(portable_snapshot_data \<Rightarrow> bool) \<Rightarrow> db \<Rightarrow> db \<Rightarrow> bool" for ok where
  operation: "store_step d d' \<Longrightarrow> commit_step ok d d'"
| import_snapshot: "ok snap \<Longrightarrow> import_portable_snapshot snap epoch d = (Inr (), d') \<Longrightarrow> commit_step ok d d'"

abbreviation commit_run :: "(portable_snapshot_data \<Rightarrow> bool) \<Rightarrow> db \<Rightarrow> db \<Rightarrow> bool" where
  "commit_run ok \<equiv> (commit_step ok)\<^sup>*\<^sup>*"

abbreviation any_snapshot :: "portable_snapshot_data \<Rightarrow> bool" where
  "any_snapshot \<equiv> \<lambda>_. True"

lemma operations_commit: "store_run d d' \<Longrightarrow> commit_run ok d d'"
  by (induction rule: rtranclp_induct) (auto intro: operation rtranclp.rtrancl_into_rtrancl)

text \<open>What an import did to the database it found.\<close>

lemma import_effect:
  assumes "import_portable_snapshot snap epoch d = (Inr (), d')"
  shows "import_appends snap d d'" "sessions d' = sessions d" "purge_enabled d' = purge_enabled d"
    "audit_events d = []" "secrets d = []" "namespaces d = []" "foreign_key_check d'"
    "\<exists>row. installation_state d = Some row \<and> i_activation_state row = ''initializing''"
proof -
  obtain row where row: "installation_state d = Some row" "i_activation_state row = ''initializing''"
    and empty: "namespaces d = []" "secrets d = []" "audit_events d = []"
    and rows: "import_rows snap (d\<lparr>installation_state := Some (row\<lparr>i_recovery_epoch := int epoch,
       i_semantics := int (px_security_semantics_version snap)\<rparr>)\<rparr>) = Inr d'" "foreign_key_check d'"
    by (rule import_Inr [OF assms])
  note eff = import_rows_effect [OF rows(1)]
  have "import_appends snap (d\<lparr>installation_state := x\<rparr>) d' = import_appends snap d d'" for x by (simp add: import_appends_def)
  then show "import_appends snap d d'" using eff(1) by simp
  show "sessions d' = sessions d" "purge_enabled d' = purge_enabled d" using eff(2) by (simp_all add: import_frame_def)
  show "audit_events d = []" "secrets d = []" "namespaces d = []" "foreign_key_check d'" using empty rows(2) by simp_all
  show "\<exists>row. installation_state d = Some row \<and> i_activation_state row = ''initializing''" using row by blast
qed

section \<open>The audit log\<close>

text \<open>The log in the order of its primary key, and that it is a chain.\<close>

definition audit_log :: "db \<Rightarrow> audit_row list" where
  "audit_log d = sort_key a_sequence (audit_events d)"

definition log_ok :: "db \<Rightarrow> bool" where
  "log_ok d = audit_chain 0 zero_commitment (audit_log d)"

definition snapshot_chained :: "portable_snapshot_data \<Rightarrow> bool" where
  "snapshot_chained snap = audit_chain 0 zero_commitment (sort_key a_sequence (map audit_row_of (px_audit_records snap)))"

lemma sort_key_again [simp]: "sort_key f (sort_key f xs) = sort_key f xs"
  by (simp add: sort_key_id_if_sorted)

lemma log_length [simp]: "length (audit_log d) = length (audit_events d)"
  by (simp add: audit_log_def)

lemma last_event_log: "last_event (audit_log d) = last_event (audit_events d)"
  by (simp add: last_event_def audit_log_def)

lemma chain_ok_log: "chain_ok d \<Longrightarrow> audit_log d = audit_events d \<and> log_ok d"
  by (auto simp: chain_ok_def log_ok_def audit_log_def)

lemma ordered_head:
  "audit_head_on (d\<lparr>audit_events := audit_log d\<rparr>) = audit_head_on d"
  "require_audit_head a (d\<lparr>audit_events := audit_log d\<rparr>) = require_audit_head a d"
  by (simp_all add: audit_head_on_def require_audit_head_def last_event_log)

lemma ordered_chain: "log_ok d \<Longrightarrow> chain_ok (d\<lparr>audit_events := audit_log d\<rparr>)"
  by (simp add: log_ok_def chain_ok_def)

lemma log_head:
  assumes "log_ok d"
  shows "audit_head_on d = Inr \<lparr>head_sequence = length (audit_events d), head_commitment = chain_tip zero_commitment (audit_log d)\<rparr>"
  using chain_head [OF ordered_chain [OF assms]] by (simp add: ordered_head)

lemma log_append:
  assumes "audit_chain 0 zero_commitment (sort_key a_sequence es @ [r])"
  shows "sort_key a_sequence (es @ [r]) = sort_key a_sequence es @ [r]"
proof (rule properties_for_sort_key)
  show "sorted (map a_sequence (sort_key a_sequence es @ [r]))" using audit_chain_sorted [OF assms] .
  show "filter (\<lambda>x. a_sequence k = a_sequence x) (sort_key a_sequence es @ [r]) = filter (\<lambda>x. a_sequence k = a_sequence x) (es @ [r])" for k
    using sort_key_stable [of a_sequence "a_sequence k" es] by (simp add: eq_commute)
qed simp

lemma appended_log:
  assumes "log_ok d" "audit_appended a d d'"
  shows "log_ok d'"
proof -
  let ?o = "d\<lparr>audit_events := audit_log d\<rparr>"
  have "audit_appended a ?o (?o\<lparr>audit_events := audit_log d @ [audit_row_of a]\<rparr>)"
    using assms(2) by (simp add: audit_appended_def ordered_head)
  then have "audit_chain 0 zero_commitment (audit_log d @ [audit_row_of a])"
    using audit_appended_chain [OF ordered_chain [OF assms(1)]] by (fastforce simp: chain_ok_def)
  moreover from this have "audit_log d' = audit_log d @ [audit_row_of a]"
    using assms(2) log_append by (simp add: audit_log_def audit_appended_def)
  ultimately show ?thesis by (simp add: log_ok_def)
qed

lemma commit_log:
  assumes "commit_step snapshot_chained d d'" "log_ok d"
  shows "log_ok d'"
  using assms(1)
proof cases
  case operation
  then show ?thesis using step_log [OF operation] appended_log assms(2) by (auto simp: log_ok_def audit_log_def)
next
  case (import_snapshot snap epoch)
  then show ?thesis using import_effect(1,4) [OF import_snapshot(2)]
    by (simp add: log_ok_def audit_log_def snapshot_chained_def import_appends_def)
qed

lemma run_log: "commit_run snapshot_chained d d' \<Longrightarrow> log_ok d \<Longrightarrow> log_ok d'"
  by (induction rule: rtranclp_induct) (auto intro: commit_log)

text \<open>The snapshot of a database whose log is a chain can be imported on such a run.\<close>

lemma exported_chained:
  assumes "portable_snapshot d = Inr snap" "log_ok d"
  shows "snapshot_chained snap"
proof -
  have "map audit_row_of as = xs" if "traverse parse_audit xs = Inr as" for xs as
    using that by (induction xs arbitrary: as) (auto simp: result_simps parse_audit_written)
  then have "map audit_row_of (px_audit_records snap) = audit_log d"
    using snapshot_reads(12) [OF assms(1)] by (simp add: audit_log_def)
  then show ?thesis using assms(2) by (simp add: snapshot_chained_def log_ok_def audit_log_def)
qed

text \<open>No run removes or edits an event, whatever is imported.\<close>

lemma commit_prefix: "commit_step ok d d' \<Longrightarrow> \<exists>es. audit_events d' = audit_events d @ es"
  by (erule commit_step.cases) (auto dest: step_prefix dest!: import_effect(1) simp: import_appends_def)

lemma commits_prefix: "commit_run ok d d' \<Longrightarrow> \<exists>es. audit_events d' = audit_events d @ es"
proof (induction rule: rtranclp_induct)
  case (step y z)
  then show ?case using commit_prefix [OF step.hyps(2)] by auto
qed simp

context audited_operation
begin

lemma stale_log_refused:
  assumes "log_ok d" "ar_sequence b \<le> length (audit_events d)"
  shows "\<exists>e. op i b d = (Inl e, d)"
proof (cases "op i b d")
  case (Pair r d')
  show ?thesis
  proof (cases r)
    case (Inl e)
    then show ?thesis using Pair failure_unchanged by blast
  next
    case (Inr x)
    then have "require_audit_head b d = Inr ()"
      using Pair success_appended by (simp add: audit_appended_def)
    then show ?thesis using assms(2) log_head [OF assms(1)] by (simp add: require_audit_head_def result_simps)
  qed
qed

end

text \<open>A page of the log is the slice after the cursor.\<close>

lemma log_page:
  assumes "log_ok d" "\<not> poisoned d" "0 < limit" "limit \<le> 1000" "int k \<le> i64_max"
  shows "audit_records_after k limit d = traverse parse_audit (take limit (drop k (audit_log d)))"
proof -
  have "filter P (sort_key a_sequence es) = sort_key a_sequence (filter P es)" for P es
    by (simp add: filter_sort)
  then have "audit_records_after k limit d = audit_records_after k limit (d\<lparr>audit_events := audit_log d\<rparr>)"
    by (simp add: audit_records_after_def query_def lock_def audit_log_def flip: filter_sort)
  then show ?thesis using audit_page [OF ordered_chain [OF assms(1)]] assms(2-5) by simp
qed

section \<open>The records\<close>

text \<open>A snapshot in which every secret has the versions 1 up to its current one and is marked as deleted exactly
  when it is.\<close>

definition snapshot_histories :: "portable_snapshot_data \<Rightarrow> bool" where
  "snapshot_histories snap = list_all (\<lambda>s.
     pv_version ` set (filter (\<lambda>x. pv_secret_id x = ps_secret_id s) (px_secret_versions snap)) = {1..ps_current_version s} \<and>
     (ps_lifecycle_state s = ''deleted'') = (ps_deleted_at s \<noteq> None)) (px_secrets snap)"

lemma written_versions:
  assumes "list_all2 (\<lambda>p r. secret_version_values p = Inr r) ps rs"
  shows "set (map v_version (filter (\<lambda>v. v_secret_id v = i) rs)) = int ` pv_version ` set (filter (\<lambda>x. pv_secret_id x = i) ps)"
  using assms by (induction rule: list_all2_induct) (auto simp: secret_version_values_def sql_u64_def result_simps)

lemma written_secrets:
  assumes "list_all2 (\<lambda>p r. secret_values p = Inr r) ps rs" "r \<in> set rs"
  shows "\<exists>p \<in> set ps. s_id r = ps_secret_id p \<and> s_current r = int (ps_current_version p) \<and>
    s_lifecycle r = ps_lifecycle_state p \<and> s_deleted r = ps_deleted_at p"
  using assms by (induction rule: list_all2_induct) (auto simp: secret_values_def sql_u64_def result_simps)

lemma imported_histories:
  assumes "import_portable_snapshot snap epoch d = (Inr (), d')" "records_ok d" "s \<in> set (rows (secrets d'))"
  obtains p where "p \<in> set (px_secrets snap)" "s_current s = int (ps_current_version p)" "s_lifecycle s = ps_lifecycle_state p"
    "s_deleted s = ps_deleted_at p" "version_numbers (s_id s) (secret_versions d') =
       int ` pv_version ` set (filter (\<lambda>x. pv_secret_id x = ps_secret_id p) (px_secret_versions snap))"
proof -
  note eff = import_effect [OF assms(1)]
  have none: "rows (secret_versions d) = []"
    using assms(2) eff(5) by (auto simp: records_ok_def references_ok_def fk_version_secret_def intro: equals0I simp flip: set_empty)
  obtain ss where ss: "rows (secrets d') = ss" "list_all2 (\<lambda>p r. secret_values p = Inr r) (px_secrets snap) ss"
    using eff(1,5) by (auto simp: import_appends_def appended_rows_def)
  have vs: "list_all2 (\<lambda>p r. secret_version_values p = Inr r) (px_secret_versions snap) (rows (secret_versions d'))"
    using eff(1) none by (auto simp: import_appends_def appended_rows_def)
  obtain p where p: "p \<in> set (px_secrets snap)" "s_id s = ps_secret_id p" "s_current s = int (ps_current_version p)"
    "s_lifecycle s = ps_lifecycle_state p" "s_deleted s = ps_deleted_at p"
    using written_secrets [OF ss(2)] assms(3) ss(1) by auto
  then show thesis using that written_versions [OF vs, of "s_id s"] by (simp add: version_numbers_def tbl_select_def)
qed

lemma import_schema:
  assumes "import_portable_snapshot snap epoch d = (Inr (), d')" "records_ok d"
  shows "keys_ok d' \<and> rows_checked d' \<and> references_ok d' \<and> purge_enabled d' = 0"
  using import_effect [OF assms(1)] assms(2)
  by (auto simp: records_ok_def keys_ok_def rows_checked_def references_ok_def foreign_key_check_def import_appends_def appended_rows_def)

lemma import_records:
  assumes "import_portable_snapshot snap epoch d = (Inr (), d')" "snapshot_histories snap" "records_ok d"
  shows "records_ok d'"
proof -
  have "version_numbers (s_id s) (secret_versions d') = {1..s_current s} \<and> (s_lifecycle s = ''deleted'') = (s_deleted s \<noteq> None)"
    if "s \<in> set (rows (secrets d'))" for s
    by (rule imported_histories [OF assms(1,3) that])
      (use assms(2) in \<open>auto simp: snapshot_histories_def list_all_iff image_int_atLeastAtMost\<close>)
  then show ?thesis using import_schema [OF assms(1,3)] by (simp add: records_ok_def versions_complete_def deletion_marked_def)
qed

lemma commit_records: "commit_step snapshot_histories d d' \<Longrightarrow> records_ok d \<Longrightarrow> records_ok d'"
  by (erule commit_step.cases) (blast intro: step_records import_records)+

lemma commits_records: "commit_run snapshot_histories d d' \<Longrightarrow> records_ok d \<Longrightarrow> records_ok d'"
  by (induction rule: rtranclp_induct) (auto intro: commit_records)

lemma find_append_Some: "find P xs = Some x \<Longrightarrow> find P (xs @ ys) = Some x"
  by (induction xs) auto

lemma commit_versions:
  assumes "commit_step ok d d'"
  shows "version_kept d d'" "tombstoned j d \<Longrightarrow> tombstoned j d'"
proof -
  have "version_kept d d' \<and> (tombstoned j d \<longrightarrow> tombstoned j d')"
    using assms
  proof cases
    case operation then show ?thesis using step_versions [OF operation] by blast
  next
    case (import_snapshot snap epoch)
    note eff = import_effect(1) [OF import_snapshot(2)]
    have "version_row_at i n d' = Some v" if "version_row_at i n d = Some v" for i n v
      using eff that unfolding version_row_at_def tbl_find_def import_appends_def appended_rows_def
      by (auto intro: find_append_Some)
    then show ?thesis using eff
      by (auto simp: version_kept_def tombstoned_def import_appends_def appended_rows_def tbl_exists_iff)
  qed
  then show "version_kept d d'" "tombstoned j d \<Longrightarrow> tombstoned j d'" by blast+
qed

lemma commits_versions: "commit_run ok d d' \<Longrightarrow> version_kept d d'"
proof (induction rule: rtranclp_induct)
  case base
  then show ?case by (rule version_kept_refl)
next
  case (step y z)
  then show ?case using commit_versions [OF step.hyps(2)] unfolding version_kept_def by metis
qed

lemmas step_effects = append_audit_Inr create_policy_Inr add_policy_grant_Inr archive_policy_Inr bind_policy_Inr
    create_service_identity_Inr enroll_owner_Inr add_owner_authenticator_Inr create_session_Inr
    touch_session_Inr revoke_session_Inr create_application_credential_Inr
    mark_application_credential_used_Inr revoke_application_credential_Inr
    reserve_idempotency_effect replace_root_wrappings_Inr begin_kek_rotation_Inr
    advance_rotation_stage_Inr finish_kek_rotation_Inr create_namespace_Inr
    move_namespace_Inr create_secret_Inr append_secret_version_Inr change_secret_lifecycle_Inr purge_secret_Inr

section \<open>Credentials, sessions and the graph revision\<close>

lemma commit_revoked:
  assumes "commit_step ok d d'" "credential_row_at i d = Some c" "c_revoked c \<noteq> None"
  shows "credential_row_at i d' = Some c"
  using assms(1)
proof cases
  case operation then show ?thesis using step_revoked assms(2,3) by blast
next
  case (import_snapshot snap epoch)
  then show ?thesis using import_effect(1) [OF import_snapshot(2)] assms(2)
    unfolding credential_row_at_def tbl_find_def import_appends_def appended_rows_def by (auto intro: find_append_Some)
qed

lemma commits_revoked:
  "commit_run ok d d' \<Longrightarrow> credential_row_at i d = Some c \<Longrightarrow> c_revoked c \<noteq> None \<Longrightarrow> credential_row_at i d' = Some c"
  by (induction rule: rtranclp_induct) (auto intro: commit_revoked)

lemma commit_sessions: "commit_step ok d d' \<Longrightarrow> session_cap d \<Longrightarrow> session_cap d'"
  by (erule commit_step.cases) (blast intro: step_sessions, auto dest!: import_effect(2) simp: session_cap_def)

lemma commits_sessions: "commit_run ok d d' \<Longrightarrow> session_cap d \<Longrightarrow> session_cap d'"
  by (induction rule: rtranclp_induct) (auto intro: commit_sessions)

text \<open>No grant is ever removed.\<close>

lemma step_grants:
  assumes "store_step d d'"
  shows "set (rows (policy_grants d)) \<subseteq> set (rows (policy_grants d'))"
  using assms
proof cases
  case (rotation_apply kj items now x)
  then have "erase_wrappings d' = erase_wrappings d" by (auto dest: apply_erase)
  then show ?thesis using erase_graph(1) [of d] erase_graph(1) [of d'] by (simp add: policy_graph_def)
qed (auto dest!: step_effects begin_effect activate_effect)

lemma commit_grants: "commit_step ok d d' \<Longrightarrow> set (rows (policy_grants d)) \<subseteq> set (rows (policy_grants d'))"
  by (erule commit_step.cases) (blast dest: step_grants, auto dest!: import_effect(1) simp: import_appends_def appended_rows_def)

lemma commits_grants: "commit_run ok d d' \<Longrightarrow> set (rows (policy_grants d)) \<subseteq> set (rows (policy_grants d'))"
  by (induction rule: rtranclp_induct) (auto dest: commit_grants)

text \<open>An installation in service: it has left its initialization, which no operation brings back.\<close>

definition in_service :: "db \<Rightarrow> bool" where
  "in_service d = (\<exists>row. installation_state d = Some row \<and> i_activation_state row \<noteq> ''initializing'')"

lemma begin_in_service:
  assumes "begin_initialization_kind b r d = (Inr x, d')" "in_service d"
  shows "d' = d"
proof (cases x)
  case Begun
  then show ?thesis using begin_Begun [of b r d d'] assms by (simp add: in_service_def)
qed (use assms in \<open>auto simp: begin_initialization_kind_def transaction_Inr insert_installation_def result_simps
        split: sum.splits option.splits if_splits\<close>)

lemma activate_in_service: "activate_initialization_kind kek r d = (Inr x, d') \<Longrightarrow> in_service d \<Longrightarrow> in_service d'"
  using activate_Inr [of kek r d x d'] by (auto simp: in_service_def split: if_splits)

lemma rewrap_installation:
  assumes "apply_rewrap_batch job items now d = (Inr job', d')"
  shows "installation_state d' = installation_state d"
proof -
  have "installation_state (erase_wrappings e) = installation_state e" for e by (simp add: erase_wrappings_def)
  then show ?thesis using apply_erase [OF assms] by metis
qed

lemma step_in_service:
  assumes "store_step d d'" "in_service d"
  shows "in_service d'"
  using assms(1)
proof cases
  case initialize then show ?thesis using begin_in_service assms(2) by blast
next
  case activate then show ?thesis using activate_in_service assms(2) by blast
next
  case rotation_apply then show ?thesis using rewrap_installation assms(2) by (fastforce simp: in_service_def)
qed (use assms(2) in \<open>auto simp: in_service_def dest!: step_effects\<close>)

text \<open>So nothing is imported into an installation in service, and its graph changes only with its revision.\<close>

lemma commit_in_service:
  assumes "commit_step ok d d'" "in_service d"
  shows "store_step d d'" "in_service d'"
proof -
  show step: "store_step d d'"
    using assms by cases (auto simp: in_service_def dest!: import_effect(8))
  show "in_service d'" using step assms(2) by (rule step_in_service)
qed

lemma commits_in_service: "commit_run ok d d' \<Longrightarrow> in_service d \<Longrightarrow> store_run d d' \<and> in_service d'"
proof (induction rule: rtranclp_induct)
  case (step y z)
  then show ?case using commit_in_service [OF step.hyps(2)] by (auto intro: rtranclp.rtrancl_into_rtrancl)
qed simp

section \<open>What a rotation does not rewrap\<close>

definition policy_meta_at :: "uuid \<Rightarrow> db \<Rightarrow> enc_cols option" where
  "policy_meta_at i d = map_option l_meta (tbl_find (\<lambda>l. l_id l = i) (policies d))"

definition service_meta_at :: "uuid \<Rightarrow> db \<Rightarrow> enc_cols option" where
  "service_meta_at i d = map_option y_meta (tbl_find (\<lambda>y. y_principal y = i) (service_identities d))"

lemma archived_meta:
  "map_option l_meta (tbl_find (\<lambda>l. l_id l = i) (tbl_update (archive_where j n) (archive_set n pc u) t)) =
   map_option l_meta (tbl_find (\<lambda>l. l_id l = i) t)"
proof -
  have "l_meta (if archive_where j n z then archive_set n pc u z else z) = l_meta z" for z by (simp add: archive_set_def)
  moreover have "l_id (archive_set n pc u r) = l_id r" for r by (simp add: archive_set_def)
  ultimately show ?thesis
    using tbl_find_update [of "archive_where j n" l_id "archive_set n pc u" i t] by (simp only: option.map_comp o_def)
qed

lemma step_metadata:
  assumes "store_step d d'"
  shows "policy_meta_at i d = Some m \<Longrightarrow> policy_meta_at i d' = Some m" "service_meta_at j d = Some n \<Longrightarrow> service_meta_at j d' = Some n"
proof -
  have "(policy_meta_at i d = Some m \<longrightarrow> policy_meta_at i d' = Some m) \<and> (service_meta_at j d = Some n \<longrightarrow> service_meta_at j d' = Some n)"
    using assms
  proof cases
    case (policy_archive k n pc u e cm a x)
    from archive_policy_Inr [OF this] have "policies d' = tbl_update (archive_where k n) (archive_set n pc u) (policies d)"
      "service_identities d' = service_identities d" by simp_all
    then have "policy_meta_at i d' = policy_meta_at i d" "service_meta_at j d' = service_meta_at j d"
      using archived_meta by (simp_all add: policy_meta_at_def service_meta_at_def)
    then show ?thesis by simp
  next
    case (rotation_apply kj items now x)
    then have "erase_wrappings d' = erase_wrappings d" by (rule apply_erase)
    then show ?thesis using erase_same_fields(8,9) [of d' d] by (simp add: policy_meta_at_def service_meta_at_def)
  qed (auto simp: policy_meta_at_def service_meta_at_def tbl_find_insert dest!: step_effects begin_effect activate_effect)
  then show "policy_meta_at i d = Some m \<Longrightarrow> policy_meta_at i d' = Some m" "service_meta_at j d = Some n \<Longrightarrow> service_meta_at j d' = Some n"
    by blast+
qed

lemma run_metadata:
  assumes "store_run d d'"
  shows "policy_meta_at i d = Some m \<Longrightarrow> policy_meta_at i d' = Some m" "service_meta_at j d = Some n \<Longrightarrow> service_meta_at j d' = Some n"
  using assms by (induction rule: rtranclp_induct) (auto dest: step_metadata)

lemma begun_in_service: "begin_kek_rotation job source k now a d = (Inr x, d') \<Longrightarrow> in_service d'"
  by (auto dest!: begin_kek_rotation_Inr simp: in_service_def)

end
