(* ===== verification/Backup_Restore.thy ===== *)
theory Backup_Restore
  imports App_Backup Store_Runs
begin

text \<open>
  What backup and restore keep.  A published archive holds the snapshot of the vault and reads back to
  it; a restore encrypts every value again so that the destination decrypts it to the same bytes, and
  puts only a verified database in service; a backup that fails leaves no file behind.
\<close>

section \<open>What was published\<close>

lemma on_failure_Inr [simp]: "on_failure c m s = (Inr x, s') \<longleftrightarrow> m s = (Inr x, s')"
  by (auto simp: on_failure_def split: prod.splits sum.splits)

lemma write_temporary_Inr:
  "write_temporary al env key md logical s = (Inr summary, s') \<longleftrightarrow>
   (\<exists>k. write_archive al (be_archive env) (map Inr (cursor_reads (ao_chunk_bytes default_options) logical)) key md default_options
      \<lparr>sk_written = [], sk_room = be_room env\<rparr> = (Inr summary, k) \<and> s' = s\<lparr>bp_temporary := Some (sk_written k)\<rparr>)"
  by (auto simp: write_temporary_def result_simps split: prod.splits)

lemma write_and_verify_Inr:
  assumes "write_and_verify_backup bl env v key now s = (Inr verified, s')"
  obtains snap logical summary k where "portable_snapshot (bp_db s) = Inr snap"
    "encode_logical_snapshot (kl_json bl) v snap = Inr logical"
    "write_archive (kl_archive bl) (be_archive env) (map Inr (cursor_reads (ao_chunk_bytes default_options) logical)) key
       (backup_metadata snap now) default_options \<lparr>sk_written = [], sk_room = be_room env\<rparr> = (Inr summary, k)"
    "verify_archive (kl_archive bl) (sk_written k) (length (sk_written k)) key = Inr verified"
    "s' = s\<lparr>bp_temporary := Some (sk_written k)\<rparr>"
  using assms unfolding write_and_verify_backup_def
  by (auto simp: sbind_Inr guarded_Inr reading_Inr write_temporary_Inr map_err_eq_Inr rbind_eq_Inr ok_or_eq_Inr)

lemma log_backup_frame: "log_backup env v now verified s = (r, s') \<Longrightarrow> \<exists>d. s' = s\<lparr>bp_db := d\<rparr>"
proof -
  have "\<exists>d. s = s\<lparr>bp_db := d\<rparr>" by (rule exI [of _ "bp_db s"]) simp
  then show "log_backup env v now verified s = (r, s') \<Longrightarrow> ?thesis"
    unfolding log_backup_def by (auto split: sum.splits prod.splits)
qed

lemma create_backup_Inr:
  assumes "create_backup_file bl env v key now s = (Inr report, s')"
  obtains snap logical summary k verified where "0 \<le> now" "portable_snapshot (bp_db s) = Inr snap"
    "encode_logical_snapshot (kl_json bl) v snap = Inr logical"
    "write_archive (kl_archive bl) (be_archive env) (map Inr (cursor_reads (ao_chunk_bytes default_options) logical)) key
       (backup_metadata snap now) default_options \<lparr>sk_written = [], sk_room = be_room env\<rparr> = (Inr summary, k)"
    "verify_archive (kl_archive bl) (sk_written k) (length (sk_written k)) key = Inr verified"
    "bp_destination s' = Some (sk_written k)" "bp_temporary s' = None"
proof -
  obtain verified s1 s2 where now: "0 \<le> now"
    and w: "write_and_verify_backup bl env v key now s = (Inr verified, s1)"
    and l: "log_backup env v now verified s1 = (Inr (), s2)"
    and s': "s' = s2\<lparr>bp_destination := bp_temporary s2, bp_temporary := None\<rparr>"
    using assms unfolding create_backup_file_def guarded_Inr reading_Inr sbind_Inr
    by (auto simp: sbind_Inr guarded_Inr reading_Inr ensure_eq_Inr rbind_eq_Inr split: if_splits)
  from write_and_verify_Inr [OF w] obtain snap logical summary k where
    c: "portable_snapshot (bp_db s) = Inr snap"
    "encode_logical_snapshot (kl_json bl) v snap = Inr logical"
    "write_archive (kl_archive bl) (be_archive env) (map Inr (cursor_reads (ao_chunk_bytes default_options) logical)) key
       (backup_metadata snap now) default_options \<lparr>sk_written = [], sk_room = be_room env\<rparr> = (Inr summary, k)"
    "verify_archive (kl_archive bl) (sk_written k) (length (sk_written k)) key = Inr verified"
    "s1 = s\<lparr>bp_temporary := Some (sk_written k)\<rparr>" by blast
  obtain d where "s2 = s1\<lparr>bp_db := d\<rparr>" using log_backup_frame [OF l] by blast
  then have "bp_destination s' = Some (sk_written k)" "bp_temporary s' = None" using s' c(5) by simp_all
  then show thesis using that now c(1-4) by blast
qed

section \<open>Reading it back\<close>

lemma cursor_reads_Nil [simp]: "cursor_reads n [] = []"
  by (simp add: cursor_reads.simps)

lemma cursor_reads_chunks:
  assumes "0 < n"
  shows "stream_chunks (map Inr (cursor_reads n bs)) = cursor_reads n bs \<and> concat (cursor_reads n bs) = bs \<and>
    list_all (\<lambda>b. length b \<le> n) (cursor_reads n bs)"
  using assms
proof (induction n bs rule: cursor_reads.induct)
  case (1 n bs)
  show ?case
  proof (cases "bs = []")
    case False
    then have "cursor_reads n bs = take n bs # cursor_reads n (drop n bs)" using "1.prems" by (subst cursor_reads.simps) simp
    then show ?thesis using "1.IH" "1.prems" False by simp
  qed simp
qed

lemma written_archive_length:
  assumes "aead_correct (al_crypto al)" "archive_entropy_ok ent" "list_all (\<lambda>b. length b \<le> ao_chunk_bytes p) (stream_chunks reads)"
    and "write_archive al ent reads key md p \<lparr>sk_written = [], sk_room = room\<rparr> = (Inr summary, k)"
  shows "length (sk_written k) = as_archive_bytes summary" "sk_written k \<noteq> []"
proof -
  obtain header dek encoded k2 st k3 where "archive_parts al ent reads key md p summary header dek encoded k2 st k3 k"
    using write_archive_parts [OF assms(4,1,2)] by blast
  then obtain n1 ct1 n3 ct3 where p: "sk_written k2 = encoded @ frame_bytes 0 1 n1 ct1" "length n1 = 24"
    "write_chunks al ent dek reads (start_state (ao_record_limit p) (length encoded + (38 + length ct1))) k2 = (Inr st, k3)"
    "sk_written k = sk_written k3 @ frame_bytes (st_sequence st) 3 n3 ct3" "length n3 = 24"
    "as_archive_bytes summary = st_bytes st + (38 + length ct3)"
    unfolding archive_parts_def by blast
  obtain body where "sk_written k3 = sk_written k2 @ body" "st_bytes st = length encoded + (38 + length ct1) + length body"
    using written_chunks_decode [OF assms(1) _ assms(3) p(3), of "\<lambda>_ _. (Inr (), ())"] assms(2)
    by (auto simp: start_state_def u64_max_def archive_entropy_ok_def)
  then show "length (sk_written k) = as_archive_bytes summary" "sk_written k \<noteq> []" using p by (simp_all add: frame_bytes_def)
qed

lemma feed_collect:
  "length acc + length (concat chunks) \<le> MAX_LOGICAL_STREAM_BYTES \<Longrightarrow> feed collect_chunk chunks acc = (Inr (), acc @ concat chunks)"
  by (induction chunks arbitrary: acc) (simp_all add: collect_chunk_def sbind_def guarded_def)

text \<open>What the libraries promise.\<close>

definition backup_lib_ok :: "backup_lib \<Rightarrow> bool" where
  "backup_lib_ok bl = (aead_correct (al_crypto (kl_archive bl)) \<and> base64_correct (al_crypto (kl_archive bl)) \<and>
     digest_correct (al_crypto (kl_archive bl)) \<and> json_correct (kl_archive bl) \<and> json_ok (kl_json bl))"

definition vault_keys_ok :: "vault \<Rightarrow> bool" where
  "vault_keys_ok v = (length (vt_blind_index_key v) = 32 \<and> length (vt_audit_key v) = 32 \<and> length (vt_token_verifier_key v) = 32)"

definition vault_keys :: "vault \<Rightarrow> portable_vault_keys" where
  "vault_keys v = \<lparr>pk_blind_index = vt_blind_index_key v, pk_audit = vt_audit_key v, pk_token_verifier = vt_token_verifier_key v\<rparr>"

lemma snapshot_installation:
  assumes "portable_snapshot d = Inr snap" "is_none_or installation_check (installation_state d)"
  shows "px_security_semantics_version snap = 1" "length (px_vault_id snap) = 16" "length (px_source_installation_id snap) = 16"
    "int (px_source_recovery_epoch snap) \<le> i64_max"
proof -
  obtain row where row: "installation_state d = Some row" "i_semantics row = int (px_security_semantics_version snap)"
    "px_vault_id snap = i_vault_id row" "px_source_installation_id snap = i_installation_id row"
    "i_recovery_epoch row = int (px_source_recovery_epoch snap)" "int (px_source_recovery_epoch snap) \<le> i64_max"
    using assms(1) by (auto simp: portable_snapshot_def ready_installation_def query_Inr parse_u64_def parse_uuid_def result_simps
        split: option.splits if_splits)
  then have "installation_check row" using assms(2) by (simp add: is_none_or_def)
  then show "px_security_semantics_version snap = 1" "length (px_vault_id snap) = 16" "length (px_source_installation_id snap) = 16"
    "int (px_source_recovery_epoch snap) \<le> i64_max"
    using row by (simp_all add: installation_check_def)
qed

lemma archive_reads_back:
  assumes "backup_lib_ok bl" "archive_entropy_ok (be_archive env)" "vt_lib v = al_crypto (kl_archive bl)" "vault_keys_ok v"
    and "portable_snapshot d = Inr snap" "is_none_or installation_check (installation_state d)" "0 \<le> now" "now \<le> i64_max"
    and "encode_logical_snapshot (kl_json bl) v snap = Inr logical"
    and "write_archive (kl_archive bl) (be_archive env) (map Inr (cursor_reads (ao_chunk_bytes default_options) logical)) key
       (backup_metadata snap now) default_options \<lparr>sk_written = [], sk_room = be_room env\<rparr> = (Inr summary, k)"
    and "open_safe_source f = Inr (sk_written k)"
  shows "\<exists>verified decoded. read_logical_archive bl key f =
      Inr (verified, decoded, vault_keys v, Suc (px_source_recovery_epoch snap)) \<and>
    va_metadata verified = backup_metadata snap now \<and> va_record_count verified = as_record_count summary \<and> plain_image v snap decoded"
proof -
  let ?al = "kl_archive bl" and ?chunks = "cursor_reads (ao_chunk_bytes default_options) logical" and ?md = "backup_metadata snap now"
  have lib: "aead_correct (al_crypto ?al)" "base64_correct (vt_lib v)" "digest_correct (al_crypto ?al)" "json_correct ?al" "json_ok (kl_json bl)"
    using assms(1,3) by (simp_all add: backup_lib_ok_def)
  have "0 < ao_chunk_bytes default_options" by (simp add: default_options_def)
  note ch = cursor_reads_chunks [OF this, of logical]
  note inst = snapshot_installation [OF assms(5,6)]
  have md: "metadata_typed ?md"
    using inst assms(7,8) by (simp add: metadata_typed_def backup_metadata_def SCHEMA_VERSION_def u32_max_def u64_max_def i64_max_def i64_min_def)
  have small: "length (sk_written k) \<le> MAX_ARCHIVE_BYTES"
    using assms(11) by (auto simp: open_safe_source_def result_simps MAX_PORTABLE_FILE_BYTES_def MAX_ARCHIVE_BYTES_def)
  have len: "as_archive_bytes summary \<le> MAX_ARCHIVE_BYTES"
    using written_archive_length(1) [OF lib(1) assms(2) _ assms(10)] ch small by simp
  have "list_all (\<lambda>b. length b \<le> ao_chunk_bytes default_options) (stream_chunks (map Inr ?chunks))" using ch by simp
  note wr = written_archive_decodes [OF lib(1,4,3) assms(2) md this assms(10) len, of collect_chunk "[]"]
  then obtain header where dec: "decode_archive ?al (sk_written k) (length (sk_written k)) key collect_chunk [] =
        sbind (feed collect_chunk ?chunks) (\<lambda>_. Pair (Inr \<lparr>va_header = header, va_metadata = ?md,
          va_record_count = as_record_count summary, va_logical_bytes = length logical,
          va_logical_digest = sha256 (al_crypto ?al) logical\<rparr>)) []" and fr: "framed (as_record_count summary) logical"
    using ch by auto
  obtain dd where "reads_to (kl_json bl) logical dd" using stream_read [OF assms(9) lib(5)] by blast
  then have "feed collect_chunk ?chunks [] = (Inr (), logical)" using feed_collect [of "[]" ?chunks] ch by (simp add: reads_to_def)
  then have dec': "decode_archive ?al (sk_written k) (length (sk_written k)) key collect_chunk [] = (Inr \<lparr>va_header = header, va_metadata = ?md,
          va_record_count = as_record_count summary, va_logical_bytes = length logical,
          va_logical_digest = sha256 (al_crypto ?al) logical\<rparr>, logical)"
    using dec by (simp add: sbind_def guarded_def)
  obtain decoded where d: "decode_logical_stream (kl_json bl) logical (as_record_count summary) = Inr decoded" "plain_image v snap decoded"
    using stream_roundtrip [OF assms(9) lib(5) fr] by blast
  have keys: "decode_vault_keys (al_crypto ?al) (plain_keys v) = Inr (vault_keys v)"
    using keys_roundtrip [OF lib(2)] assms(3,4) by (simp add: vault_keys_ok_def vault_keys_def)
  have "checked_add_u64 (px_source_recovery_epoch snap) 1 = Some (Suc (px_source_recovery_epoch snap))"
    using inst(4) by (simp add: checked_add_u64_def i64_max_def u64_max_def)
  moreover have "dl_keys decoded = Some (plain_keys v)" using d(2) by (simp add: plain_image_def)
  ultimately show ?thesis
    using assms(11) dec' d keys inst(1) unfolding read_logical_archive_def
    by (simp add: backup_metadata_def SECURITY_SEMANTICS_VERSION_def ensure_def)
qed

text \<open>What a backup needs of the file system.\<close>

definition backup_env_ok :: "backup_env \<Rightarrow> bool" where
  "backup_env_ok env = (be_extension env \<and> be_prepared env \<and> be_created env \<and> be_synced env \<and> be_reopened env \<and> be_measured env \<and>
     be_linked env \<and> be_unlinked env \<and> be_directory_synced env)"

text \<open>An archive that was written within the size a reader accepts verifies and is published.\<close>

lemma create_backup_succeeds:
  assumes "backup_lib_ok bl" "archive_entropy_ok (be_archive env)" "backup_env_ok env" "0 \<le> now" "now \<le> i64_max"
    and "bp_destination s = None" "portable_snapshot (bp_db s) = Inr snap" "is_none_or installation_check (installation_state (bp_db s))"
    and "encode_logical_snapshot (kl_json bl) v snap = Inr logical"
    and "write_archive (kl_archive bl) (be_archive env) (map Inr (cursor_reads (ao_chunk_bytes default_options) logical)) key
       (backup_metadata snap now) default_options \<lparr>sk_written = [], sk_room = be_room env\<rparr> = (Inr summary, k)"
    and "as_archive_bytes summary \<le> MAX_ARCHIVE_BYTES"
    and "build_audit v (be_event_id env) ''backup:create'' ''archive'' (Some (as_archive_id summary)) (restored_context (be_request_id env) now) (bp_db s) = Inr a"
    and "append_audit a (bp_db s) = (Inr (), d')"
  shows "\<exists>report. create_backup_file bl env v key now s = (Inr report, s\<lparr>bp_db := d', bp_destination := Some (sk_written k), bp_temporary := None\<rparr>)"
proof -
  let ?chunks = "cursor_reads (ao_chunk_bytes default_options) logical"
  have lib: "aead_correct (al_crypto (kl_archive bl))" "digest_correct (al_crypto (kl_archive bl))" "json_correct (kl_archive bl)"
    using assms(1) by (simp_all add: backup_lib_ok_def)
  note inst = snapshot_installation [OF assms(7,8)]
  have md: "metadata_typed (backup_metadata snap now)"
    using inst assms(4,5) by (simp add: metadata_typed_def backup_metadata_def SCHEMA_VERSION_def u32_max_def u64_max_def i64_max_def i64_min_def)
  have "0 < ao_chunk_bytes default_options" by (simp add: default_options_def)
  then have "list_all (\<lambda>b. length b \<le> ao_chunk_bytes default_options) (stream_chunks (map Inr ?chunks))"
    using cursor_reads_chunks [of "ao_chunk_bytes default_options" logical] by simp
  from written_archive_decodes [OF lib(1,3,2) assms(2) md this assms(10,11), of "\<lambda>_. Pair (Inr ())" "()"]
  obtain header where header: "ph_archive_id header = as_archive_id summary"
    and dec: "decode_archive (kl_archive bl) (sk_written k) (length (sk_written k)) key (\<lambda>_. Pair (Inr ())) () =
      sbind (feed (\<lambda>_. Pair (Inr ())) (stream_chunks (map Inr ?chunks))) (\<lambda>_. Pair (Inr \<lparr>va_header = header, va_metadata = backup_metadata snap now,
          va_record_count = as_record_count summary, va_logical_bytes = length (concat (stream_chunks (map Inr ?chunks))),
          va_logical_digest = sha256 (al_crypto (kl_archive bl)) (concat (stream_chunks (map Inr ?chunks)))\<rparr>)) ()"
    by blast
  have "feed (\<lambda>_. Pair (Inr ())) bs () = (Inr (), ())" for bs by (induction bs) (simp_all add: sbind_def guarded_def)
  then obtain verified where ver: "verify_archive (kl_archive bl) (sk_written k) (length (sk_written k)) key = Inr verified"
    "ph_archive_id (va_header verified) = as_archive_id summary"
    using dec header by (simp add: verify_archive_def sbind_def guarded_def)
  have "write_and_verify_backup bl env v key now s = (Inr verified, s\<lparr>bp_temporary := Some (sk_written k)\<rparr>)"
    using assms(3,7,9,10) ver
    by (simp add: write_and_verify_backup_def write_temporary_def reading_def guarded_def sbind_def ensure_def backup_env_ok_def)
  moreover have "log_backup env v now verified (s\<lparr>bp_temporary := Some (sk_written k)\<rparr>) = (Inr (), s\<lparr>bp_temporary := Some (sk_written k), bp_db := d'\<rparr>)"
    using assms(12,13) ver(2) by (simp add: log_backup_def)
  ultimately show ?thesis using assms(3,4,6)
    by (simp add: create_backup_file_def reading_def guarded_def sbind_def ensure_def backup_env_ok_def on_failure_def)
qed

section \<open>Values survive the transformation\<close>

lemma decrypt_restored:
  assumes "decrypt_b64 v e kind wkind i n = Inr text" "encrypt_b64 w ent text kind wkind i n = Inr e'"
    and "vt_lib w = vt_lib v" "base64_correct (vt_lib v)" "aead_correct (vt_lib v)" "entropy_ok ent"
  shows "\<exists>p. decrypt_record v e kind wkind i n = Inr p \<and> encrypt_record w ent p kind wkind i n = Inr e' \<and> decrypt_record w e' kind wkind i n = Inr p"
proof -
  obtain p where p: "decrypt_record v e kind wkind i n = Inr p" "text = b64_encode (vt_lib v) p"
    using assms(1) by (auto simp: decrypt_b64_def result_simps)
  then have en: "encrypt_record w ent p kind wkind i n = Inr e'"
    using assms(2-4) by (simp add: encrypt_b64_def base64_correct_def result_simps)
  then have "decrypt_record w e' kind wkind i n = Inr p"
    using assms(3,5,6) by (intro decrypt_encrypt_record [of w ent]) (auto simp: entropy_ok_def is_none_or_def split: option.splits)
  then show ?thesis using p(1) en by blast
qed

lemma transform_all_Inr: "transform_all ents f xs = Inr ys \<Longrightarrow> list_all2 (\<lambda>x y. \<exists>i. f (ents i) x = Inr y) xs ys"
proof -
  assume "transform_all ents f xs = Inr ys"
  then have "list_all2 (\<lambda>p y. f (ents (fst p)) (snd p) = Inr y) (enumerate 0 xs) ys"
    by (simp add: transform_all_def traverse_Inr_iff case_prod_beta)
  then show ?thesis by (auto simp: list_all2_conv_all_nth nth_enumerate_eq)
qed

lemma traverse_all2: "traverse f xs = Inr ys \<longleftrightarrow> list_all2 (\<lambda>x y. f x = Inr y) xs ys"
  by (simp add: traverse_Inr_iff)

text \<open>The versions of the snapshot that is imported are those of the source with their payload encrypted again.\<close>

definition reencrypted :: "vault \<Rightarrow> vault \<Rightarrow> portable_secret_version \<Rightarrow> portable_secret_version \<Rightarrow> bool" where
  "reencrypted v w x y = (\<exists>p ent. entropy_ok ent \<and> y = x\<lparr>pv_payload := pv_payload y\<rparr> \<and>
     decrypt_record v (pv_payload x) object_kind.SecretVersion WrappedDataKey (pv_secret_id x) (pv_version x) = Inr p \<and>
     encrypt_record w ent p object_kind.SecretVersion WrappedDataKey (pv_secret_id x) (pv_version x) = Inr (pv_payload y))"

lemma transform_Inr:
  assumes "transform_logical_snapshot pl ents w decoded verified mode now = Inr (snap', revoked, disabled)"
  shows "list_all2 (\<lambda>x y. \<exists>i. restore_secret_version w (ents object_kind.SecretVersion i) x = Inr y) (dl_secret_versions decoded) (px_secret_versions snap')"
    "px_vault_id snap' = am_logical_vault_id (va_metadata verified)" "px_audit_records snap' = dl_audit decoded"
    "px_tombstones snap' = dl_tombstones decoded" "px_grants snap' = dl_grants decoded" "px_bindings snap' = dl_bindings decoded"
    "list_all2 (\<lambda>x y. \<exists>i. restore_secret w (schedules_of (dl_secret_versions decoded)) (ents object_kind.SecretMetadata i) x = Inr y)
       (dl_secrets decoded) (px_secrets snap')"
    "list_all2 (\<lambda>x y. \<exists>i. restore_namespace w (ents object_kind.NamespaceMetadata i) x = Inr y) (dl_namespaces decoded) (px_namespaces snap')"
    "\<exists>n. collect_counted (restore_authenticator pl w now) (dl_authenticators decoded) = Inr (px_authenticators snap', n)"
    "\<exists>n. collect_counted (restore_application_credential w mode now) (dl_application_credentials decoded) = Inr (px_application_credentials snap', n)"
    "traverse restore_principal (dl_principals decoded) = Inr (px_principals snap')"
  using assms unfolding transform_logical_snapshot_def Let_def rbind_eq_Inr
  by (auto dest!: transform_all_Inr simp: rbind_eq_Inr)

lemma versions_reencrypted:
  assumes "transform_logical_snapshot pl ents w decoded verified mode now = Inr (snap', revoked, disabled)" "plain_image v snap decoded"
    and "vt_lib w = vt_lib v" "base64_correct (vt_lib v)" "aead_correct (vt_lib v)" "\<And>k i. entropy_ok (ents k i)"
  shows "list_all2 (reencrypted v w) (px_secret_versions snap) (px_secret_versions snap')"
proof -
  have plain: "list_all2 (\<lambda>x l. plain_secret_version v x = Inr l) (px_secret_versions snap) (dl_secret_versions decoded)"
    using assms(2) by (simp add: plain_image_def traverse_all2)
  have step: "reencrypted v w x y"
    if "plain_secret_version v x = Inr l" "\<exists>i. restore_secret_version w (ents object_kind.SecretVersion i) l = Inr y" for x l y
  proof -
    note prems = that
    obtain i enc where t: "decrypt_b64 v (pv_payload x) object_kind.SecretVersion WrappedDataKey (pv_secret_id x) (pv_version x) = Inr enc"
      "encrypt_b64 w (ents object_kind.SecretVersion i) enc object_kind.SecretVersion WrappedDataKey (pv_secret_id x) (pv_version x) = Inr (pv_payload y)"
      "y = x\<lparr>pv_payload := pv_payload y\<rparr>"
      using prems by (cases x) (auto simp: plain_secret_version_def restore_secret_version_def logical_secret_version_of_def result_simps)
    then show ?thesis using decrypt_restored [OF t(1,2) assms(3-5)] assms(6) unfolding reencrypted_def by blast
  qed
  show ?thesis by (rule list_all2_trans [OF step plain transform_Inr(1) [OF assms(1)]])
qed

lemma find_related: "list_all2 R xs ys \<Longrightarrow> (\<And>x y. R x y \<Longrightarrow> P x = Q y) \<Longrightarrow> rel_option R (find P xs) (find Q ys)"
  by (induction rule: list_all2_induct) auto

lemma parse_encrypted_envelope: "parse_envelope x = Inr e \<Longrightarrow> enc_check 16777216 x \<Longrightarrow> parse_encrypted x = Inr e"
  by (auto simp: parse_envelope_def parse_encrypted_def enc_check_def result_simps)

text \<open>The values of the destination are those of the source.\<close>

lemma restored_values:
  assumes "traverse read_secret_version xs = Inr ps" "list_all2 (reencrypted v w) ps qs" "list_all2 (\<lambda>q r. secret_version_values q = Inr r) qs ys"
    and "list_all version_check xs" "list_all version_check ys" "set xs = set (rows (secret_versions d))" "ys = rows (secret_versions d')"
    and "versions_unique (secret_versions d)" "aead_correct (vt_lib w)" "ring_ok w"
  shows "vault_values w d' = vault_values v d"
proof -
  let ?R = "\<lambda>x y. (v_secret_id y, v_version y) = (v_secret_id x, v_version x) \<and> version_value w y = version_value v x"
  have R: "?R x y" if "read_secret_version x = Inr p" "reencrypted v w p q" "secret_version_values q = Inr y" "version_check x" "version_check y"
    for x p q y
  proof -
    note prems = that
    obtain e where e: "parse_envelope (v_payload x) = Inr e" "pv_payload p = e" "pv_secret_id p = v_secret_id x" "v_version x = int (pv_version p)"
      using prems(1) by (auto simp: read_secret_version_def parse_u64_def parse_uuid_def result_simps)
    obtain pl ent where r: "entropy_ok ent" "q = p\<lparr>pv_payload := pv_payload q\<rparr>"
      "decrypt_record v e object_kind.SecretVersion WrappedDataKey (v_secret_id x) (pv_version p) = Inr pl"
      "encrypt_record w ent pl object_kind.SecretVersion WrappedDataKey (v_secret_id x) (pv_version p) = Inr (pv_payload q)"
      using prems(2) e by (auto simp: reencrypted_def)
    have "pv_secret_id q = pv_secret_id p" "pv_version q = pv_version p" by (subst r(2), simp)+
    then have y: "v_secret_id y = v_secret_id x" "v_version y = int (pv_version p)" "v_payload y = enc_cols_of (pv_payload q)"
      using prems(3) e(3) by (auto simp: secret_version_values_def sql_u64_def result_simps)
    have "parse_encrypted (v_payload x) = Inr e" using parse_encrypted_envelope [OF e(1)] prems(4) by (simp add: version_check_def)
    then have "version_value v x = Some pl" using r(3) e(4) by (simp add: version_value_def)
    moreover have "version_value w y = Some pl" by (rule encrypted_value [OF assms(9,10) r(1,4) prems(5) y(3,1,2)])
    ultimately show ?thesis using y e(4) by simp
  qed
  have related: "list_all2 ?R xs ys"
    using assms(1-5) R unfolding traverse_all2 list_all2_conv_all_nth list_all_length by metis
  show ?thesis
  proof (rule ext, clarify)
    fix i n
    let ?P = "\<lambda>r. (v_secret_id r, v_version r) = (i, int n)"
    have "find ?P xs = version_row_at i (int n) d"
    proof (cases "find ?P xs")
      case None
      then have "find ?P (rows (secret_versions d)) = None" using assms(6) by (simp add: find_None_iff)
      then show ?thesis using None by (simp add: version_row_at_def tbl_find_def)
    next
      case (Some r)
      then have "r \<in> set (rows (secret_versions d))" "?P r" using assms(6) by (auto simp: find_Some_iff)
      then show ?thesis using Some version_row_at_unique [OF assms(8), of r] by simp
    qed
    moreover have "version_row_at i (int n) d' = find ?P ys" by (simp add: version_row_at_def tbl_find_def assms(7))
    moreover have "rel_option ?R (find ?P xs) (find ?P ys)" by (rule find_related [OF related]) simp
    ultimately show "vault_values w d' (i, n) = vault_values v d (i, n)"
      by (auto simp: vault_values_def option_rel_Some1 option.rel_sel split: option.splits elim: option.rel_cases)
  qed
qed

section \<open>What a restore did\<close>

lemma on_destination_Inr: "on_destination op h = (Inr x, h') \<longleftrightarrow> (\<exists>d. op (store_of h) = (Inr x, d) \<and> h' = h\<lparr>ho_db := Some d\<rparr>)"
  by (auto simp: on_destination_def result_simps split: prod.splits)

lemma reopen_same: "verify_restore_staging_reopen env vid iid h = (Inr (), h') \<Longrightarrow> h' = h\<lparr>ho_db := Some (store_of h)\<rparr>"
  unfolding verify_restore_staging_reopen_def by (auto simp: guarded_Inr sbind_Inr reading_Inr open_store_Inr)

lemma import_unpoisoned: "import_portable_snapshot snap epoch d = (Inr (), d') \<Longrightarrow> blank d \<Longrightarrow> \<not> poisoned d'"
  by (elim import_Inr) (auto dest!: import_rows_filled(11) simp: blank_def)

lemma restore_destination_Inr:
  assumes "restore_destination bl env key mode now f h = (Inr report, h')"
  obtains verified decoded keys epoch w h1 snap' revoked disabled d2 audit d3 d4 where
    "read_logical_archive bl key f = Inr (verified, decoded, keys, epoch)"
    "initialize_restore_staging (re_init env) (am_logical_vault_id (va_metadata verified)) keys h = (Inr w, h1)"
    "transform_logical_snapshot (kl_password bl) (re_entropy env) (lv_vault w) decoded verified mode now = Inr (snap', revoked, disabled)"
    "import_portable_snapshot snap' epoch (store_of h1) = (Inr (), d2)"
    "append_audit audit (d2\<lparr>poisoned := False\<rparr>) = (Inr (), d3)"
    "verify_restored_snapshot (re_quick_check env) (lv_vault w) snap' (d3\<lparr>poisoned := False\<rparr>) = Inr ()"
    "activate_restored_initialization 1 (d3\<lparr>poisoned := False\<rparr>) = (Inr (), d4)" "h' = h1\<lparr>ho_db := Some d4\<rparr>"
    "rr_recovery_epoch report = epoch"
proof -
  obtain verified decoded keys epoch where rd: "read_logical_archive bl key f = Inr (verified, decoded, keys, epoch)"
    using assms unfolding restore_destination_def guarded_Inr by auto
  note rest = assms [unfolded restore_destination_def rd, simplified guarded_simps prod.case Let_def]
  obtain w h1 where st: "initialize_restore_staging (re_init env) (am_logical_vault_id (va_metadata verified)) keys h = (Inr w, h1)"
    using rest by (auto simp: sbind_Inr storing_Inr)
  obtain snap' revoked disabled where tr:
    "transform_logical_snapshot (kl_password bl) (re_entropy env) (lv_vault w) decoded verified mode now = Inr (snap', revoked, disabled)"
    using rest st by (auto simp: sbind_Inr storing_Inr guarded_Inr)
  obtain d2 audit d3 d4 where "import_portable_snapshot snap' epoch (store_of h1) = (Inr (), d2)"
    "append_audit audit (d2\<lparr>poisoned := False\<rparr>) = (Inr (), d3)"
    "verify_restored_snapshot (re_quick_check env) (lv_vault w) snap' (d3\<lparr>poisoned := False\<rparr>) = Inr ()"
    "activate_restored_initialization 1 (d3\<lparr>poisoned := False\<rparr>) = (Inr (), d4)" "h' = h1\<lparr>ho_db := Some d4\<rparr>"
    "rr_recovery_epoch report = epoch"
    using rest st tr by (auto simp: sbind_Inr storing_Inr guarded_Inr reading_Inr on_destination_Inr dest!: reopen_same)
  then show thesis using that rd st tr by blast
qed

lemma restored_start:
  assumes "initialize_restore_staging env vid keys h = (Inr w, h1)" "aead_correct (ie_lib env)" "env_ok env" "portable_keys_ok keys" "length vid = 16"
    and "key_registry d = key_registry (store_of h1)" "\<not> poisoned d" "maintenance_jobs d = []"
    and "installation_state d = Some row" "parse_installation row = Inr st" "in_vault_id st = vid" "in_installation_id st = vt_installation_id (lv_vault w)"
    and "in_activation_state st = Ready" "in_active_kek_version st = Some 1"
    and "ie_paths env' = Inr ()" "ie_open env' = Inr ()" "ie_lib env' = ie_lib env"
  shows "initialize_vault env' (h1\<lparr>ho_db := Some d\<rparr>) =
    (Inr \<lparr>lv_vault = lv_vault w, lv_root = lv_root w, lv_db = d\<rparr>, h1\<lparr>ho_db := Some d\<rparr>)"
proof -
  obtain root kek b d0 where sg: "ho_db h = None" "ho_root h = None"
    "root = \<lparr>rt_vault_id = vid, rt_installation_id = ie_installation_id env, rt_key = rt_key root\<rparr>" "ie_root_key env = Some (rt_key root)"
    "bd_kek (ie_draws env) = Some kek"
    "create_bootstrap_with_keys (ie_lib env) (ie_draws env) vid (ie_installation_id env) (rt_key root) kek keys (ie_now env) = Inr b"
    "begin_initialization_kind b True empty_db = (Inr Begun, d0)"
    "w = \<lparr>lv_vault = vault_of env root 1 [1 \<mapsto> kek] keys, lv_root = Some (rt_key root), lv_db = d0\<rparr>"
    "h1 = \<lparr>ho_root = Some \<lparr>rf_bytes = root_key_bytes vid (ie_installation_id env) (rt_key root), rf_restrictive = True\<rparr>, ho_db = Some d0\<rparr>"
    using staged [OF assms(1)] by metis
  have len: "length kek = 32" "length (rt_key root) = 32" "length (ie_installation_id env) = 16"
    using assms(3) sg(4,5) by (simp_all add: env_ok_def is_none_or_def)
  note un = bootstrap_unwraps [OF sg(6,7) empty_db_sel(1) assms(2) len(1) assms(4)] and inst = begin_installation [OF sg(7)]
  have root: "rt_vault_id root = vid" "rt_installation_id root = ie_installation_id env" using sg(3) by (metis root_key_record.select_convs(1,2))+
  have np: "\<not> poisoned d0" using begin_Begun [OF sg(7)] by auto
  have so: "store_of h1 = d0" using np by (simp add: sg(9) store_of_def)
  let ?st0 = "\<lparr>in_vault_id = bs_vault_id b, in_installation_id = bs_installation_id b, in_recovery_epoch = 0,
      in_activation_state = Initializing, in_active_kek_version = None, in_security_semantics_version = 1\<rparr>"
  have load0: "load_keys (ie_lib env) root d0 = Inr (?st0, [1 \<mapsto> kek], keys)"
    using un inst root by (simp add: load_keys_def validate_kek_registry_state_def insert_kek_def active_version_of_def ensure_def)
  have "installation d = Inr (Some st)" using assms(7,9,10) by (simp add: installation_def query_def lock_def)
  then have load: "load_keys (ie_lib env) root d = Inr (st, [1 \<mapsto> kek], keys)"
    using load_keys_activated [OF load0 _ _ np assms(7,8) _ assms(13,14)] assms(6) so by simp
  have fl: "load_root_key_file (ho_root h1) = Inr root"
    using load_root_key_bytes [OF assms(5) len(3,2)] sg(3) by (simp add: sg(9))
  have iid: "in_installation_id st = rt_installation_id root" using assms(12) sg(8) by (simp add: vault_of_def)
  have "active_version_of st = 1" using assms(14) by (simp add: active_version_of_def)
  moreover have "vault_of env' root = vault_of env root" using assms(17) by (simp add: vault_of_def fun_eq_iff)
  ultimately show ?thesis
    using loaded_again [of "h1\<lparr>ho_db := Some d\<rparr>" root d env' st "[1 \<mapsto> kek]" keys] fl load assms(7,11,13-17) iid root(1) sg(8,9) by simp
qed

section \<open>A restored vault holds what was backed up\<close>

text \<open>What the schema guarantees of the source.\<close>

definition source_ok :: "db \<Rightarrow> bool" where
  "source_ok d = (is_none_or installation_check (installation_state d) \<and> list_all version_check (rows (secret_versions d)) \<and>
     versions_unique (secret_versions d))"

lemma audit_rows_again: "traverse parse_audit xs = Inr as \<Longrightarrow> map audit_row_of as = xs"
  by (induction xs arbitrary: as) (auto simp: result_simps parse_audit_written)

lemma staged_blank:
  assumes "initialize_restore_staging env vid keys h = (Inr w, h1)"
  shows "blank (store_of h1)" "maintenance_jobs (store_of h1) = []" "\<not> poisoned (store_of h1)"
    "vt_vault_id (lv_vault w) = vid" "vt_installation_id (lv_vault w) = ie_installation_id env" "vt_lib (lv_vault w) = ie_lib env"
    "ring_ok (lv_vault w)" "vault_keys (lv_vault w) = keys"
    "\<exists>row. installation_state (store_of h1) = Some row \<and> i_installation_id row = ie_installation_id env"
proof -
  obtain root kek b d0 where sg:
    "root = \<lparr>rt_vault_id = vid, rt_installation_id = ie_installation_id env, rt_key = rt_key root\<rparr>"
    "create_bootstrap_with_keys (ie_lib env) (ie_draws env) vid (ie_installation_id env) (rt_key root) kek keys (ie_now env) = Inr b"
    "begin_initialization_kind b True empty_db = (Inr Begun, d0)"
    "w = \<lparr>lv_vault = vault_of env root 1 [1 \<mapsto> kek] keys, lv_root = Some (rt_key root), lv_db = d0\<rparr>"
    "h1 = \<lparr>ho_root = Some \<lparr>rf_bytes = root_key_bytes vid (ie_installation_id env) (rt_key root), rf_restrictive = True\<rparr>, ho_db = Some d0\<rparr>"
    using staged [OF assms] by metis
  note eff = begin_Begun [OF sg(3)]
  have d0: "store_of h1 = d0" "\<not> poisoned d0" using eff by (auto simp: sg(5) store_of_def)
  have root: "rt_vault_id root = vid" "rt_installation_id root = ie_installation_id env" using sg(1) by (metis root_key_record.select_convs(1,2))+
  have "bs_installation_id b = ie_installation_id env"
    using sg(2) by (auto simp: create_bootstrap_with_keys_def Let_def result_simps)
  then show "\<exists>row. installation_state (store_of h1) = Some row \<and> i_installation_id row = ie_installation_id env"
    using eff d0 by (auto simp: installation_row_of_def)
  show "blank (store_of h1)" "maintenance_jobs (store_of h1) = []" "\<not> poisoned (store_of h1)"
    using eff d0 by (auto simp: blank_def empty_db_def)
  show "vt_vault_id (lv_vault w) = vid" "vt_installation_id (lv_vault w) = ie_installation_id env" "vt_lib (lv_vault w) = ie_lib env"
    "ring_ok (lv_vault w)" "vault_keys (lv_vault w) = keys"
    using root by (simp_all add: sg(4) vault_of_def ring_ok_def is_none_or_def u32_max_def vault_keys_def)
qed

lemma restore_effect:
  assumes "restore_destination bl env key mode now f h = (Inr report, h')"
    and "read_logical_archive bl key f = Inr (verified, decoded, keys, epoch)"
  obtains w h1 snap' revoked disabled audit d where
    "initialize_restore_staging (re_init env) (am_logical_vault_id (va_metadata verified)) keys h = (Inr w, h1)"
    "transform_logical_snapshot (kl_password bl) (re_entropy env) (lv_vault w) decoded verified mode now = Inr (snap', revoked, disabled)"
    "list_all2 (\<lambda>p r. secret_version_values p = Inr r) (px_secret_versions snap') (rows (secret_versions d))"
    "list_all version_check (rows (secret_versions d))"
    "list_all2 (\<lambda>p r. authenticator_values p = Inr r) (px_authenticators snap') (rows (owner_authenticators d))"
    "list_all2 (\<lambda>p r. application_credential_values p = Inr r) (px_application_credentials snap') (rows (application_credentials d))"
    "audit_events d = map audit_row_of (px_audit_records snap') @ [audit_row_of audit]" "sessions d = []"
    "key_registry d = key_registry (store_of h1)" "maintenance_jobs d = []" "\<not> poisoned d"
    "\<exists>row. installation_state d = Some row \<and> i_vault_id row = px_vault_id snap' \<and> i_installation_id row = vt_installation_id (lv_vault w) \<and>
       i_recovery_epoch row = int epoch \<and> int epoch \<le> i64_max \<and> i_activation_state row = ''ready'' \<and> i_active_kek row = Some 1 \<and>
       i_semantics row = int (px_security_semantics_version snap')"
    "h' = h1\<lparr>ho_db := Some d\<rparr>"
proof -
  obtain verified' decoded' keys' epoch' w h1 snap' revoked disabled d2 audit d3 d4 where
    rd: "read_logical_archive bl key f = Inr (verified', decoded', keys', epoch')"
    and st': "initialize_restore_staging (re_init env) (am_logical_vault_id (va_metadata verified')) keys' h = (Inr w, h1)"
    and tr': "transform_logical_snapshot (kl_password bl) (re_entropy env) (lv_vault w) decoded' verified' mode now = Inr (snap', revoked, disabled)"
    and im': "import_portable_snapshot snap' epoch' (store_of h1) = (Inr (), d2)"
    and au: "append_audit audit (d2\<lparr>poisoned := False\<rparr>) = (Inr (), d3)"
    and ac: "activate_restored_initialization 1 (d3\<lparr>poisoned := False\<rparr>) = (Inr (), d4)" "h' = h1\<lparr>ho_db := Some d4\<rparr>"
    by (rule restore_destination_Inr [OF assms(1)])
  have same: "verified' = verified" "decoded' = decoded" "keys' = keys" "epoch' = epoch" using rd assms(2) by simp_all
  note st = st' [unfolded same] and tr = tr' [unfolded same] and im = im' [unfolded same]
  note blank = staged_blank [OF st]
  obtain row0 where row0: "installation_state (store_of h1) = Some row0" "i_activation_state row0 = ''initializing''" "i_vault_id row0 = px_vault_id snap'"
    and rows: "import_rows snap' ((store_of h1)\<lparr>installation_state := Some (row0\<lparr>i_recovery_epoch := int epoch,
       i_semantics := int (px_security_semantics_version snap')\<rparr>)\<rparr>) = Inr d2" and ep: "int epoch \<le> i64_max"
    by (rule import_Inr [OF im])
  have "blank ((store_of h1)\<lparr>installation_state := Some (row0\<lparr>i_recovery_epoch := int epoch,
       i_semantics := int (px_security_semantics_version snap')\<rparr>)\<rparr>)" using blank(1) by (simp add: blank_def)
  note fill = import_rows_filled [OF rows this]
  have d3: "d3 = d2\<lparr>poisoned := False, audit_events := audit_events d2 @ [audit_row_of audit]\<rparr>" using append_audit_Inr [OF au] by simp
  have d4: "d4 = d3\<lparr>poisoned := False, installation_state := Some (row0\<lparr>i_recovery_epoch := int epoch,
      i_semantics := int (px_security_semantics_version snap'), i_activation_state := ''ready'', i_active_kek := Some 1\<rparr>),
      restore_guard := map_option (\<lambda>_. 0) (restore_guard d3)\<rparr>"
    using activate_Inr [OF ac(1) [unfolded activate_restored_initialization_def]] row0(2) fill(6) d3 by auto
  have id: "i_installation_id row0 = vt_installation_id (lv_vault w)" using blank(5,9) row0(1) by auto
  show thesis
    by (rule that [OF st tr, of d4 audit]) (use fill blank row0 ep id ac(2) in \<open>simp_all add: d4 d3\<close>)
qed

lemma snapshot_rows:
  assumes "portable_snapshot d = Inr snap"
  shows "traverse read_secret_version (sort_key v_secret_id (sort_key v_version (rows (secret_versions d)))) = Inr (px_secret_versions snap)"
    "traverse parse_audit (sort_key a_sequence (audit_events d)) = Inr (px_audit_records snap)"
    "traverse read_application_credential (sort_key c_id (rows (application_credentials d))) = Inr (px_application_credentials snap)"
    "traverse read_authenticator (sort_key h_id (rows (owner_authenticators d))) = Inr (px_authenticators snap)"
  using assms unfolding portable_snapshot_def query_Inr rbind_eq_Inr by (auto simp: rbind_eq_Inr)

text \<open>A restored installation is ready and is read as such.\<close>

lemma ready_installation_read:
  assumes "i_recovery_epoch row = int epoch" "int epoch \<le> i64_max" "i_activation_state row = ''ready''" "i_active_kek row = Some 1" "i_semantics row = 1"
    and "length (i_vault_id row) = 16" "length (i_installation_id row) = 16"
  shows "\<exists>st. parse_installation row = Inr st \<and> in_vault_id st = i_vault_id row \<and> in_installation_id st = i_installation_id row \<and>
    in_activation_state st = Ready \<and> in_active_kek_version st = Some 1"
  using assms by (intro exI [of _ "\<lparr>in_vault_id = i_vault_id row, in_installation_id = i_installation_id row, in_recovery_epoch = epoch,
      in_activation_state = Ready, in_active_kek_version = Some 1, in_security_semantics_version = 1\<rparr>"])
    (simp add: parse_installation_def parse_uuid_def ensure_def activation_state_parse_def u64_of_i64_def u32_of_i64_def u32_max_def)

lemma restored_ready:
  assumes "initialize_restore_staging env (am_logical_vault_id (va_metadata verified)) (vault_keys v) h = (Inr w, h1)"
    and "transform_logical_snapshot pl ents (lv_vault w) decoded verified mode now = Inr (snap', revoked, disabled)"
    and "va_metadata verified = backup_metadata snap made" "px_security_semantics_version snap = 1" "length (px_vault_id snap) = 16"
    and "vault_keys_ok v" "aead_correct (vt_lib v)" "env_ok env" "ie_lib env = vt_lib v"
    and "key_registry d = key_registry (store_of h1)" "maintenance_jobs d = []" "\<not> poisoned d"
    and "\<exists>row. installation_state d = Some row \<and> i_vault_id row = px_vault_id snap' \<and> i_installation_id row = vt_installation_id (lv_vault w) \<and>
       i_recovery_epoch row = int epoch \<and> int epoch \<le> i64_max \<and> i_activation_state row = ''ready'' \<and> i_active_kek row = Some 1 \<and>
       i_semantics row = int (px_security_semantics_version snap')"
    and "ie_paths env' = Inr ()" "ie_open env' = Inr ()" "ie_lib env' = vt_lib v"
  shows "initialize_vault env' (h1\<lparr>ho_db := Some d\<rparr>) =
    (Inr \<lparr>lv_vault = lv_vault w, lv_root = lv_root w, lv_db = d\<rparr>, h1\<lparr>ho_db := Some d\<rparr>)"
proof -
  have ids: "am_logical_vault_id (va_metadata verified) = px_vault_id snap" "px_security_semantics_version snap' = 1" "px_vault_id snap' = px_vault_id snap"
    using assms(2-4) by (auto simp: backup_metadata_def transform_logical_snapshot_def Let_def rbind_eq_Inr)
  obtain row where row: "installation_state d = Some row" "i_vault_id row = px_vault_id snap" "i_installation_id row = vt_installation_id (lv_vault w)"
    "i_recovery_epoch row = int epoch" "int epoch \<le> i64_max" "i_activation_state row = ''ready''" "i_active_kek row = Some 1" "i_semantics row = 1"
    using assms(13) ids by auto
  moreover have "length (i_vault_id row) = 16" "length (i_installation_id row) = 16"
    using row(2,3) staged_blank(5) [OF assms(1)] assms(5,8) by (simp_all add: env_ok_def)
  ultimately obtain st where st: "parse_installation row = Inr st" "in_vault_id st = px_vault_id snap"
    "in_installation_id st = vt_installation_id (lv_vault w)" "in_activation_state st = Ready" "in_active_kek_version st = Some 1"
    using ready_installation_read [OF row(4-8)] by auto
  have keys: "portable_keys_ok (vault_keys v)" using assms(6) by (simp add: portable_keys_ok_def vault_keys_def vault_keys_ok_def)
  show ?thesis by (rule restored_start [OF assms(1) _ assms(8) keys _ assms(10,12,11) row(1) st(1)]) (use assms ids st in simp_all)
qed

lemma published_reads_back:
  assumes "backup_lib_ok bl" "archive_entropy_ok (be_archive benv)" "vt_lib v = al_crypto (kl_archive bl)" "vault_keys_ok v"
    and "source_ok (bp_db s)" "now \<le> i64_max"
    and "create_backup_file bl benv v key now s = (Inr report, s')" "bp_destination s' = Some written" "open_safe_source f = Inr written"
  obtains snap verified decoded where "portable_snapshot (bp_db s) = Inr snap" "va_metadata verified = backup_metadata snap now"
    "read_logical_archive bl key f = Inr (verified, decoded, vault_keys v, Suc (px_source_recovery_epoch snap))" "plain_image v snap decoded"
proof -
  obtain snap logical summary k where c: "0 \<le> now" "portable_snapshot (bp_db s) = Inr snap" "encode_logical_snapshot (kl_json bl) v snap = Inr logical"
    "write_archive (kl_archive bl) (be_archive benv) (map Inr (cursor_reads (ao_chunk_bytes default_options) logical)) key
       (backup_metadata snap now) default_options \<lparr>sk_written = [], sk_room = be_room benv\<rparr> = (Inr summary, k)"
    "bp_destination s' = Some (sk_written k)"
    by (rule create_backup_Inr [OF assms(7)])
  have "is_none_or installation_check (installation_state (bp_db s))" "open_safe_source f = Inr (sk_written k)"
    using assms(5,8,9) c(5) by (simp_all add: source_ok_def)
  then show thesis using that c(2) archive_reads_back [OF assms(1-4) c(2) _ c(1) assms(6) c(3,4)] by blast
qed

lemma restore_backup_Inr: "restore_backup_file bl env key mode now f h = (Inr report, h') \<Longrightarrow> restore_destination bl env key mode now f h = (Inr report, h')"
  by (auto simp: restore_backup_file_def split: if_splits sum.splits prod.splits)

section \<open>Credentials of the source\<close>

lemma collect_counted_Inr: "collect_counted f xs = Inr (ys, n) \<Longrightarrow> list_all2 (\<lambda>x y. \<exists>b. f x = Inr (y, b)) xs ys"
proof -
  have "try_fold (\<lambda>(acc, n) row. rbind (f row) (\<lambda>(restored, changed).
      rbind (if changed then ok_or Integrity (checked_add_u64 n 1) else Inr n) (\<lambda>n'. Inr (acc @ [restored], n')))) (acc, m) xs = Inr (ys, n) \<Longrightarrow>
    \<exists>zs. ys = acc @ zs \<and> list_all2 (\<lambda>x y. \<exists>b. f x = Inr (y, b)) xs zs" for acc m
  proof (induction xs arbitrary: acc m)
    case (Cons x xs)
    then obtain y b m' where y: "f x = Inr (y, b)" and "try_fold (\<lambda>(acc, n) row. rbind (f row) (\<lambda>(restored, changed).
      rbind (if changed then ok_or Integrity (checked_add_u64 n 1) else Inr n) (\<lambda>n'. Inr (acc @ [restored], n')))) (acc @ [y], m') xs = Inr (ys, n)"
      by (auto simp: rbind_eq_Inr)
    from Cons.IH [OF this(2)] show ?case using y by auto
  qed simp
  then show "collect_counted f xs = Inr (ys, n) \<Longrightarrow> ?thesis" unfolding collect_counted_def by fastforce
qed

lemma restored_credential_revoked: "restore_application_credential w Revoke now x = Inr (y, b) \<Longrightarrow> pc_revoked_at y \<noteq> None"
  by (auto simp: restore_application_credential_def Let_def result_simps split: if_splits)

lemma restored_passkey_revoked: "restore_authenticator pl w now x = Inr (y, b) \<Longrightarrow> ph_kind y = Passkey \<Longrightarrow> ph_state y \<noteq> ''active''"
  by (auto simp: restore_authenticator_def Let_def result_simps split: if_splits)

lemma related_all: "list_all2 R xs ys \<Longrightarrow> (\<And>x y. R x y \<Longrightarrow> x \<in> set xs \<Longrightarrow> P y) \<Longrightarrow> list_all P ys"
  by (induction rule: list_all2_induct) auto

section \<open>Failures\<close>

lemma on_failure_Inl: "on_failure c m s = (Inl e, s') \<longleftrightarrow> (\<exists>s1. m s = (Inl e, s1) \<and> s' = c s1)"
  by (auto simp: on_failure_def split: prod.splits sum.splits)

lemma write_frame:
  assumes "write_and_verify_backup bl env v key now s = (r, s')"
  shows "bp_db s' = bp_db s \<and> bp_destination s' = bp_destination s"
proof -
  have "\<exists>b. write_temporary al env key md logical s = (r, s1) \<longrightarrow> s1 = s\<lparr>bp_temporary := b\<rparr>" for al md logical r s1
    by (auto simp: write_temporary_def split: prod.splits)
  then show ?thesis using assms unfolding write_and_verify_backup_def
    by (auto simp: reading_def guarded_def sbind_def write_temporary_def split: sum.splits prod.splits)
qed

lemma log_frame:
  assumes "log_backup env v now verified s = (r, s')"
  shows "bp_destination s' = bp_destination s \<and> bp_temporary s' = bp_temporary s \<and>
    (bp_db s' = bp_db s \<or> (\<exists>a. append_audit a (bp_db s) = (Inr (), bp_db s')))"
proof (cases "build_audit v (be_event_id env) ''backup:create'' ''archive'' (Some (ph_archive_id (va_header verified)))
         (restored_context (be_request_id env) now) (bp_db s)")
  case (Inr a)
  obtain q d where q: "append_audit a (bp_db s) = (q, d)" by fastforce
  then have "s' = s\<lparr>bp_db := d\<rparr>" using assms Inr by (simp add: log_backup_def)
  then show ?thesis using q append.failure_unchanged [of a "bp_db s"] by (cases q) auto
qed (use assms in \<open>simp add: log_backup_def\<close>)

text \<open>Up to the link, only the partial file and the audit log change.\<close>

lemma prepared_frame:
  assumes "sbind (write_and_verify_backup bl env v key now) (\<lambda>verified.
        reading (\<lambda>s. rbind (ensure (be_measured env) Io) (\<lambda>_. ok_or Io (map_option length (bp_temporary s)))) (\<lambda>archive_bytes.
        sbind (log_backup env v now verified) (\<lambda>_.
        reading (\<lambda>s. ensure (be_linked env) Io) (\<lambda>_.
        Pair (Inr (verified, archive_bytes)))))) s = (r, s')"
  shows "bp_destination s' = bp_destination s \<and> (bp_db s' = bp_db s \<or> (\<exists>a. append_audit a (bp_db s) = (Inr (), bp_db s')))"
proof -
  obtain q s1 where w: "write_and_verify_backup bl env v key now s = (q, s1)" by fastforce
  show ?thesis
  proof (cases q)
    case (Inr verified)
    obtain q2 s2 where l: "log_backup env v now verified s1 = (q2, s2)" by fastforce
    have "s' = s1 \<or> s' = s2" using assms w Inr l
      by (auto simp: sbind_def reading_def guarded_def split: sum.splits prod.splits)
    then show ?thesis using write_frame [OF w] log_frame [OF l] by auto
  qed (use assms w write_frame [OF w] in \<open>auto simp: sbind_def\<close>)
qed

text \<open>After the link, a failure takes the published file away again.\<close>

lemma unpublished:
  assumes "on_failure (remove_published env)
       (sbind (on_failure (remove_temporary env) (\<lambda>s. if be_unlinked env then (Inr (), s\<lparr>bp_temporary := None\<rparr>) else (Inl Io, s))) (\<lambda>_.
        guarded (ensure (be_directory_synced env) Io) (\<lambda>_. Pair (Inr x)))) s = (Inl e, s')" "be_removed env"
  shows "bp_destination s' = None \<and> bp_temporary s' = None \<and> bp_db s' = bp_db s"
  using assms by (auto simp: on_failure_Inl sbind_Inl guarded_Inl remove_published_def remove_temporary_def split: if_splits)

section \<open>Grants on secrets that are gone\<close>

lemma snapshot_grants:
  assumes "portable_snapshot d = Inr snap"
  shows "traverse read_grant (sort_key g_id (rows (policy_grants d))) = Inr (px_grants snap)"
    "traverse read_secret (sort_key s_id (rows (secrets d))) = Inr (px_secrets snap)"
  using assms unfolding portable_snapshot_def query_Inr rbind_eq_Inr by (auto simp: rbind_eq_Inr)

lemma related_image: "list_all2 R xs ys \<Longrightarrow> (\<And>x y. R x y \<Longrightarrow> f x = g y) \<Longrightarrow> f ` set xs = g ` set ys"
  by (induction rule: list_all2_induct) auto

lemma related_member: "list_all2 R xs ys \<Longrightarrow> x \<in> set xs \<Longrightarrow> \<exists>y \<in> set ys. R x y"
  by (induction rule: list_all2_induct) auto

lemma transformed_secret_ids:
  assumes "transform_logical_snapshot pl ents w decoded verified mode now = Inr (snap', revoked, disabled)" "plain_image v snap decoded"
    and "portable_snapshot d = Inr snap"
  shows "ps_secret_id ` set (px_secrets snap') = s_id ` set (rows (secrets d))"
proof -
  have "list_all2 (\<lambda>r p. read_secret r = Inr p) (sort_key s_id (rows (secrets d))) (px_secrets snap)"
    using snapshot_grants(2) [OF assms(3)] by (simp add: traverse_all2)
  then have "s_id ` set (sort_key s_id (rows (secrets d))) = ps_secret_id ` set (px_secrets snap)"
    by (rule related_image) (auto simp: read_secret_def parse_uuid_def result_simps)
  moreover have "list_all2 (\<lambda>x l. plain_secret v x = Inr l) (px_secrets snap) (dl_secrets decoded)"
    using assms(2) by (simp add: plain_image_def traverse_all2)
  then have "ps_secret_id ` set (px_secrets snap) = ls_secret_id ` set (dl_secrets decoded)"
    by (rule related_image) (auto simp: plain_secret_def logical_secret_of_def result_simps)
  moreover have "ls_secret_id ` set (dl_secrets decoded) = ps_secret_id ` set (px_secrets snap')"
    by (rule related_image [OF transform_Inr(7) [OF assms(1)]]) (auto simp: restore_secret_def result_simps)
  ultimately show ?thesis by simp
qed

lemma grant_in_snapshot:
  assumes "portable_snapshot d = Inr snap" "g \<in> set (rows (policy_grants d))" "g_kind g = ''secret''"
  shows "\<exists>x \<in> set (px_grants snap). pg_resource_kind x = Secret \<and> pg_resource_id x = g_resource g"
proof -
  have "list_all2 (\<lambda>r p. read_grant r = Inr p) (sort_key g_id (rows (policy_grants d))) (px_grants snap)"
    using snapshot_grants(1) [OF assms(1)] by (simp add: traverse_all2)
  moreover have "g \<in> set (sort_key g_id (rows (policy_grants d)))" using assms(2) by simp
  ultimately obtain x where "x \<in> set (px_grants snap)" "read_grant g = Inr x" by (blast dest: related_member)
  then show ?thesis using assms(3) by (intro bexI [of _ x]) (auto simp: read_grant_def parse_uuid_def parse_resource_kind_def result_simps)
qed

lemma verified_grants: "verify_restored_snapshot qc v snap d = Inr () \<Longrightarrow> g \<in> set (px_grants snap) \<Longrightarrow> grant_target_exists snap g"
  by (auto simp: verify_restored_snapshot_def verify_restored_relationships_def Let_def result_simps list_all_iff)

text \<open>A file at a path that opens as a regular file with the given content.\<close>

definition regular_file :: "bytes \<Rightarrow> archive_file" where
  "regular_file b = \<lparr>af_opens = True, af_regular = True, af_bytes = b\<rparr>"

text \<open>The published archive verifies again.\<close>

lemma published_verifies:
  assumes "create_backup_file bl env v key now s = (Inr report, s')" "bp_destination s' = Some written" "open_safe_source f = Inr written"
  shows "\<exists>verified. verify_backup_file (kl_archive bl) f key = Inr verified"
  by (rule create_backup_Inr [OF assms(1)]) (use assms(2,3) in \<open>auto simp: verify_backup_file_def\<close>)

text \<open>A grant on a secret that is not in the database: no archive of it is ever restored.\<close>

lemma dangling_unrestorable:
  assumes "backup_lib_ok bl" "archive_entropy_ok (be_archive benv)" "vt_lib v = al_crypto (kl_archive bl)" "vault_keys_ok v"
    and "g \<in> set (rows (policy_grants (bp_db s)))" "g_kind g = ''secret''" "\<not> tbl_exists (\<lambda>r. s_id r = g_resource g) (secrets (bp_db s))"
    and "source_ok (bp_db s)" "now \<le> i64_max"
    and "create_backup_file bl benv v key now s = (Inr breport, s')" "bp_destination s' = Some written" "open_safe_source f = Inr written"
  shows "isl (fst (restore_backup_file bl env key mode later f h))"
proof (rule ccontr)
  assume "\<not> isl (fst (restore_backup_file bl env key mode later f h))"
  then obtain report h' where res: "restore_backup_file bl env key mode later f h = (Inr report, h')"
    by (metis isl_def obj_sumE prod.collapse)
  obtain snap verified decoded where snap: "portable_snapshot (bp_db s) = Inr snap"
    and rd: "read_logical_archive bl key f = Inr (verified, decoded, vault_keys v, Suc (px_source_recovery_epoch snap))"
    and im: "plain_image v snap decoded"
    by (rule published_reads_back [OF assms(1-4,8-12)])
  obtain w :: live and snap' revoked disabled d3 where
    tr: "transform_logical_snapshot (kl_password bl) (re_entropy env) (lv_vault w) decoded verified mode later = Inr (snap', revoked, disabled)"
    and ok: "verify_restored_snapshot (re_quick_check env) (lv_vault w) snap' d3 = Inr ()"
    by (rule restore_destination_Inr [OF restore_backup_Inr [OF res]]) (use rd in auto)
  have gone: "g_resource g \<notin> s_id ` set (rows (secrets (bp_db s)))" using assms(7) by (auto simp: tbl_exists_iff)
  obtain x where "x \<in> set (px_grants snap)" "pg_resource_kind x = Secret" "pg_resource_id x = g_resource g"
    using grant_in_snapshot [OF snap assms(5,6)] by auto
  moreover have "px_grants snap' = px_grants snap" using transform_Inr(5) [OF tr] im by (simp add: plain_image_def)
  ultimately show False using verified_grants [OF ok, of x] gone transformed_secret_ids [OF tr im snap] by (simp add: grant_target_exists_def)
qed

section \<open>Only a verified database is put in service\<close>

text \<open>The databases that a successful restore of some archive leaves.\<close>

definition restored_vault :: "db \<Rightarrow> bool" where
  "restored_vault d = (\<exists>bl env key mode now f h report h'.
     restore_backup_file bl env key mode now f h = (Inr report, h') \<and> ho_db h' = Some d)"

lemma authentic_chain:
  assumes "authentic_from v n c rs" "list_all audit_check (map audit_row_of rs)" "list_all (\<lambda>r. int (ar_sequence r) \<le> i64_max) rs"
  shows "audit_chain n c (map audit_row_of rs)"
  using assms by (induction rs arbitrary: n c) (auto simp: audit_row_of_def)

lemma verified_log:
  assumes "verify_audit_chain v d = Inr res" "distinct (map a_sequence (audit_events d))" "\<not> poisoned d"
    and "list_all audit_check (audit_events d)" "list_all (\<lambda>r. 0 < a_sequence r \<and> a_sequence r \<le> i64_max) (audit_events d)"
  shows "log_ok d"
proof -
  have scan: "scan_after 0 d = audit_log d"
    using assms(5) by (simp add: scan_after_def audit_log_def list_all_iff filter_id_conv)
  obtain rs where rs: "traverse parse_audit (audit_log d) = Inr rs" "authentic_from v 0 zero_commitment rs"
    using assms(1) unfolding verify_audit_chain_iff [OF assms(2,3)] scan by blast
  have map: "map audit_row_of rs = audit_log d" by (rule audit_rows_again [OF rs(1)])
  have "set (audit_log d) = set (audit_events d)" by (simp add: audit_log_def)
  then have "list_all audit_check (map audit_row_of rs)" "list_all (\<lambda>r. a_sequence r \<le> i64_max) (map audit_row_of rs)"
    using assms(4,5) by (auto simp: map list_all_iff)
  moreover from this(2) have "list_all (\<lambda>r. int (ar_sequence r) \<le> i64_max) rs" by (simp add: list.pred_map o_def audit_row_of_def)
  ultimately show ?thesis using authentic_chain [OF rs(2)] by (simp add: log_ok_def map)
qed

lemma appended_distinct:
  assumes "append_audit a d = (Inr (), d')" "distinct (map a_sequence (audit_events d))"
  shows "distinct (map a_sequence (audit_events d'))"
proof -
  have "a_sequence (audit_row_of a) \<notin> a_sequence ` set (audit_events d)"
    using assms(1) by (auto simp: append_audit_def audited_def transaction_Inr insert_audit_def result_simps Let_def list_ex_iff split: if_splits)
  then show ?thesis using append_audit_Inr [OF assms(1)] assms(2) by auto
qed

lemma staged_records: "initialize_restore_staging env vid keys h = (Inr w, h1) \<Longrightarrow> records_ok (store_of h1)"
proof -
  assume st: "initialize_restore_staging env vid keys h = (Inr w, h1)"
  obtain b d0 where d0: "begin_initialization_kind b True empty_db = (Inr Begun, d0)" "ho_db h1 = Some d0"
    using staged [OF st] by (metis host.select_convs(2))
  then have "store_of h1 = d0" using begin_Begun [OF d0(1)] by (auto simp: store_of_def)
  then show ?thesis using step_records [OF initialize [OF d0(1)] records_ok_empty] by simp
qed

lemma verify_history_Inr:
  assumes "verify_history vs s = Inr ()"
  shows "pv_version ` set (filter (\<lambda>x. pv_secret_id x = ps_secret_id s) vs) = {1..ps_current_version s}"
proof -
  let ?actual = "map pv_version (filter (\<lambda>x. pv_secret_id x = ps_secret_id s) vs)"
  have "card (set ?actual) = ps_current_version s" "{1..ps_current_version s} \<subseteq> set ?actual"
    using assms unfolding verify_history_def Let_def ensure_eq_Inr by (auto simp: list_all_iff length_remdups_card_conv)
  then have "{1..ps_current_version s} = set ?actual" by (intro card_subset_eq) simp_all
  then show ?thesis by simp
qed

lemma verified_relationships:
  assumes "verify_restored_snapshot qc v snap d = Inr ()"
  shows "s \<in> set (px_secrets snap) \<Longrightarrow> pv_version ` set (filter (\<lambda>x. pv_secret_id x = ps_secret_id s) (px_secret_versions snap)) = {1..ps_current_version s}"
    "t \<in> set (px_tombstones snap) \<Longrightarrow> pt_secret_id t \<notin> ps_secret_id ` set (px_secrets snap)"
    "\<exists>res. verify_audit_chain v d = Inr res"
proof -
  have hist: "\<exists>us. traverse (verify_history (px_secret_versions snap)) (px_secrets snap) = Inr us"
    and tomb: "list_all (\<lambda>t. pt_secret_id t \<notin> ps_secret_id ` set (px_secrets snap)) (px_tombstones snap)"
    and chain: "\<exists>res. verify_audit_chain v d = Inr res"
    using assms unfolding verify_restored_snapshot_def verify_restored_relationships_def Let_def
    by (auto simp: rbind_eq_Inr ensure_eq_Inr map_err_eq_Inr)
  then show "\<exists>res. verify_audit_chain v d = Inr res" "t \<in> set (px_tombstones snap) \<Longrightarrow> pt_secret_id t \<notin> ps_secret_id ` set (px_secrets snap)"
    by (auto simp: list_all_iff)
  obtain us where us: "list_all2 (\<lambda>s u. verify_history (px_secret_versions snap) s = Inr u) (px_secrets snap) us"
    using hist by (auto simp: traverse_all2)
  show "pv_version ` set (filter (\<lambda>x. pv_secret_id x = ps_secret_id s) (px_secret_versions snap)) = {1..ps_current_version s}"
    if "s \<in> set (px_secrets snap)"
  proof (rule verify_history_Inr)
    show "verify_history (px_secret_versions snap) s = Inr ()" using related_member [OF us that] by auto
  qed
qed

text \<open>What is known of a database in service after a restore, from the import and from its verification.\<close>

definition restored_sound :: "db \<Rightarrow> bool" where
  "restored_sound d =
     (is_ready d \<and> keys_ok d \<and> rows_checked d \<and> references_ok d \<and> versions_complete d \<and> purge_enabled d = 0 \<and>
      (list_all (\<lambda>e. 0 < a_sequence e) (audit_events d) \<longrightarrow> log_ok d) \<and>
      list_all (\<lambda>t. \<not> tbl_exists (\<lambda>s. s_id s = t_secret_id t) (secrets d)) (rows (tombstones d)) \<and>
      list_all (\<lambda>g. if g_kind g = ''secret'' then tbl_exists (\<lambda>s. s_id s = g_resource g) (secrets d)
        else tbl_exists (\<lambda>n. n_id n = g_resource g) (namespaces d)) (rows (policy_grants d)))"

text \<open>An import into the blank staged database writes exactly the records of the snapshot.\<close>

lemma written_ids:
  "list_all2 (\<lambda>p r. secret_values p = Inr r) ps rs \<Longrightarrow> s_id ` set rs = ps_secret_id ` set ps"
  "list_all2 (\<lambda>p r. namespace_values p = Inr r) ns ms \<Longrightarrow> n_id ` set ms = pn_namespace_id ` set ns"
  "list_all2 (\<lambda>p r. tombstone_values p = Inr r) ts us \<Longrightarrow> t_secret_id ` set us = pt_secret_id ` set ts"
  by (erule related_image [symmetric], (auto simp: secret_values_def namespace_values_def tombstone_values_def result_simps)[1])+

lemma verified_import:
  assumes "import_portable_snapshot snap epoch d = (Inr (), d')" "blank d" "records_ok d" "verify_restored_snapshot qc v snap d3 = Inr ()"
  shows "keys_ok d' \<and> rows_checked d' \<and> references_ok d' \<and> versions_complete d' \<and> purge_enabled d' = 0 \<and>
    list_all (\<lambda>t. \<not> tbl_exists (\<lambda>s. s_id s = t_secret_id t) (secrets d')) (rows (tombstones d')) \<and>
    list_all (\<lambda>g. if g_kind g = ''secret'' then tbl_exists (\<lambda>s. s_id s = g_resource g) (secrets d')
        else tbl_exists (\<lambda>n. n_id n = g_resource g) (namespaces d')) (rows (policy_grants d'))"
proof -
  note rel = verified_relationships [OF assms(4)]
  have eff: "list_all2 (\<lambda>p r. secret_values p = Inr r) (px_secrets snap) (rows (secrets d'))"
    "list_all2 (\<lambda>p r. namespace_values p = Inr r) (px_namespaces snap) (rows (namespaces d'))"
    "list_all2 (\<lambda>p r. tombstone_values p = Inr r) (px_tombstones snap) (rows (tombstones d'))"
    "list_all2 (\<lambda>g r. Inr (grant_row_of g) = (Inr r :: storage_error + grant_row)) (px_grants snap) (rows (policy_grants d'))"
    using import_effect(1) [OF assms(1)] assms(2) by (auto simp: import_appends_def appended_rows_def blank_def)
  note ids = written_ids(1) [OF eff(1)] written_ids(2) [OF eff(2)] written_ids(3) [OF eff(3)]
  have at: "tbl_exists (\<lambda>s. s_id s = i) (secrets d') \<longleftrightarrow> i \<in> ps_secret_id ` set (px_secrets snap)"
    "tbl_exists (\<lambda>n. n_id n = i) (namespaces d') \<longleftrightarrow> i \<in> pn_namespace_id ` set (px_namespaces snap)" for i
    unfolding ids(1,2) [symmetric] by (auto simp: tbl_exists_iff)
  have "version_numbers (s_id s) (secret_versions d') = {1..s_current s}" if "s \<in> set (rows (secrets d'))" for s
    by (rule imported_histories [OF assms(1,3) that]) (use rel(1) in \<open>simp add: image_int_atLeastAtMost\<close>)
  then have "versions_complete d'" by (simp add: versions_complete_def)
  moreover have "list_all (\<lambda>t. \<not> tbl_exists (\<lambda>s. s_id s = t_secret_id t) (secrets d')) (rows (tombstones d'))"
    unfolding at list_all_iff
  proof
    fix t assume "t \<in> set (rows (tombstones d'))"
    then have "t_secret_id t \<in> pt_secret_id ` set (px_tombstones snap)" unfolding ids(3) [symmetric] by (rule imageI)
    then obtain x where x: "x \<in> set (px_tombstones snap)" "t_secret_id t = pt_secret_id x" by auto
    show "t_secret_id t \<notin> ps_secret_id ` set (px_secrets snap)" using rel(2) [OF x(1)] x(2) by simp
  qed
  moreover have "if g_kind r = ''secret'' then tbl_exists (\<lambda>s. s_id s = g_resource r) (secrets d')
        else tbl_exists (\<lambda>n. n_id n = g_resource r) (namespaces d')" if "grant_row_of g = r" "g \<in> set (px_grants snap)" for g r
  proof -
    have "grant_target_exists snap g" using verified_grants [OF assms(4) that(2)] .
    then show ?thesis unfolding at that(1) [symmetric] by (cases "pg_resource_kind g") (simp_all add: grant_target_exists_def grant_row_of_def)
  qed
  then have "list_all (\<lambda>r. if g_kind r = ''secret'' then tbl_exists (\<lambda>s. s_id s = g_resource r) (secrets d')
        else tbl_exists (\<lambda>n. n_id n = g_resource r) (namespaces d')) (rows (policy_grants d'))"
    by (intro related_all [OF eff(4)]) blast
  ultimately show ?thesis using import_schema [OF assms(1,3)] by blast
qed

lemma restored_vault_sound: "restored_vault d \<Longrightarrow> restored_sound d"
proof -
  assume "restored_vault d"
  then obtain bl env key mode now f h report h' where "restore_backup_file bl env key mode now f h = (Inr report, h')" and hd: "ho_db h' = Some d"
    by (auto simp: restored_vault_def)
  note res = restore_backup_Inr [OF this(1)]
  obtain vid keys epoch w h1 snap' d2 audit d3 d4 where
    st: "initialize_restore_staging (re_init env) vid keys h = (Inr w, h1)"
    and im: "import_portable_snapshot snap' epoch (store_of h1) = (Inr (), d2)"
    and au: "append_audit audit (d2\<lparr>poisoned := False\<rparr>) = (Inr (), d3)"
    and ver: "verify_restored_snapshot (re_quick_check env) (lv_vault w) snap' (d3\<lparr>poisoned := False\<rparr>) = Inr ()"
    and ac: "activate_restored_initialization 1 (d3\<lparr>poisoned := False\<rparr>) = (Inr (), d4)" and h': "h' = h1\<lparr>ho_db := Some d4\<rparr>"
    by (rule restore_destination_Inr [OF res]) (rule that)
  have d: "d = d4" using hd h' by simp
  note blank = staged_blank(1) [OF st] and imp = verified_import [OF im staged_blank(1) [OF st] staged_records [OF st] ver]
  have d3: "d3 = d2\<lparr>poisoned := False, audit_events := audit_events d2 @ [audit_row_of audit]\<rparr>" "audit_appended audit (d2\<lparr>poisoned := False\<rparr>) d3"
    using append_audit_Inr [OF au] by auto
  obtain inst g where d4: "d4 = d3\<lparr>poisoned := False, installation_state := Some inst, restore_guard := g\<rparr>" "i_activation_state inst = ''ready''"
  proof -
    obtain row where row: "installation_state d3 = Some row" "if i_activation_state row = ''ready'' then d4 = d3\<lparr>poisoned := False\<rparr> else
        d4 = d3\<lparr>poisoned := False, installation_state := Some (row\<lparr>i_activation_state := ''ready'', i_active_kek := Some (int 1)\<rparr>),
               restore_guard := map_option (\<lambda>_. 0) (restore_guard d3)\<rparr>"
      using activate_Inr [OF ac [unfolded activate_restored_initialization_def]] by auto
    show thesis
    proof (cases "i_activation_state row = ''ready''")
      case True
      then have "d4 = d3\<lparr>poisoned := False, installation_state := Some row, restore_guard := restore_guard d3\<rparr>" using row by (cases d3) simp
      then show ?thesis using that True by blast
    next
      case False
      then show ?thesis using that row(2) by simp
    qed
  qed
  have "distinct (map a_sequence (audit_events (store_of h1)))" using import_effect(4) [OF im] by simp
  then have "distinct (map a_sequence (audit_events d2))" using import_effect(1) [OF im] unfolding import_appends_def by blast
  then have seqs: "distinct (map a_sequence (audit_events d3))" using appended_distinct [OF au] by simp
  have chk: "list_all audit_check (audit_events d3)" "list_all (\<lambda>e. a_sequence e \<le> i64_max) (audit_events d3)"
    using import_effect(1,4) [OF im] d3 by (auto simp: import_appends_def audit_appended_def list.pred_map o_def audit_row_of_def)
  obtain r where "verify_audit_chain (lv_vault w) (d3\<lparr>poisoned := False\<rparr>) = Inr r" using verified_relationships(3) [OF ver] by blast
  then have "log_ok (d3\<lparr>poisoned := False\<rparr>)" if "list_all (\<lambda>e. 0 < a_sequence e) (audit_events d3)"
    using that seqs chk by (intro verified_log) (auto simp: list_all_iff)
  then have log: "list_all (\<lambda>e. 0 < a_sequence e) (audit_events d) \<longrightarrow> log_ok d" by (simp add: d d4 log_ok_def audit_log_def)
  have tabs: "secrets d2 = secrets d" "namespaces d2 = namespaces d" "secret_versions d2 = secret_versions d" "tombstones d2 = tombstones d"
    "policy_grants d2 = policy_grants d" "purge_enabled d2 = purge_enabled d" by (simp_all add: d d4 d3(1))
  have same: "keys_ok d2 = keys_ok d" "rows_checked d2 = rows_checked d" "references_ok d2 = references_ok d" "versions_complete d2 = versions_complete d"
    by (simp_all add: keys_ok_def rows_checked_def references_ok_def versions_complete_def fk_namespace_parent_def fk_secret_namespace_def
        fk_version_secret_def fk_current_version_def tabs)
  have "is_ready d" by (simp add: d d4 is_ready_def)
  then show ?thesis using imp log unfolding tabs same restored_sound_def by blast
qed

end
