(* ===== verification/Sample_Backup.thy ===== *)
theory Sample_Backup
  imports Backup_Restore Portable_Properties Archive_Properties Start_Properties "HOL-Library.Code_Target_Numeral"
begin

text \<open>
  A vault that is backed up and restored: the libraries, the source, the logical records a backup of it
  writes, and the evaluation of the two operations on it.
\<close>

section \<open>The source and the libraries\<close>

text \<open>A codec for the records of a table: the position of the record.\<close>

definition table_codec :: "(unit \<Rightarrow> 'a list) \<Rightarrow> 'a codec" where
  "table_codec t = \<lparr>to_vec = (\<lambda>x. map_option (\<lambda>(i, y). [word_of_nat i]) (find (\<lambda>(i, y). y = x) (enumerate 0 (take 256 (t ()))))),
     from_slice = (\<lambda>b. case b of [w] \<Rightarrow> (if unat w < length (t ()) then Some (t () ! unat w) else None) | _ \<Rightarrow> None)\<rparr>"

definition trip_db :: db where
  "trip_db = live_db\<lparr>sessions := [], policies := [], policy_grants := [], policy_bindings := [], authorization_state := authorization_state empty_db\<rparr>"

definition trip_keys :: "unit \<Rightarrow> logical_keys list" where
  "trip_keys u = [plain_keys sample_vault]"

definition trip_namespaces :: "unit \<Rightarrow> logical_namespace list" where
  "trip_namespaces u = [\<lparr>ln_namespace_id = sid 10, ln_parent_namespace_id = None, ln_name_index = h32 0, ln_metadata_version = 1, ln_metadata = text_encode [2],
     ln_lifecycle_state = ''active'', ln_revision = 1, ln_state_commitment = h32 0, ln_created_at = 1000, ln_updated_at = 1000\<rparr>]"

definition trip_secrets :: "unit \<Rightarrow> logical_secret list" where
  "trip_secrets u = [\<lparr>ls_secret_id = sid 20, ls_namespace_id = sid 10, ls_name_index = h32 1, ls_metadata_version = 1, ls_metadata = text_encode [3],
     ls_lifecycle_state = ''active'', ls_current_version = 1, ls_revision = 1, ls_state_commitment = h32 0, ls_created_at = 1000,
     ls_updated_at = 1000, ls_deleted_at = None\<rparr>]"

definition trip_versions :: "unit \<Rightarrow> logical_secret_version list" where
  "trip_versions u = [\<lparr>lw_secret_id = sid 20, lw_version = 1, lw_payload = text_encode [42, 43], lw_schedule = default_schedule, lw_created_by = None,
     lw_created_at = 1000\<rparr>]"

definition trip_principals :: "unit \<Rightarrow> logical_principal list" where
  "trip_principals u = [\<lparr>lp_principal_id = sid 30, lp_kind = ''owner'', lp_state = ''active'', lp_revision = 1, lp_state_commitment = h32 0,
       lp_created_at = 900, lp_updated_at = 900\<rparr>,
     \<lparr>lp_principal_id = sid 31, lp_kind = ''service'', lp_state = ''active'', lp_revision = 1, lp_state_commitment = h32 0,
       lp_created_at = 950, lp_updated_at = 950\<rparr>]"

definition trip_credentials :: "unit \<Rightarrow> logical_application_credential list" where
  "trip_credentials u = [\<lparr>pc_credential_id = sid 50, pc_principal_id = sid 31, pc_lookup_id = replicate 12 9, pc_verifier = h32 0, pc_created_at = 1000,
     pc_expires_at = None, pc_last_used_at = None, pc_revoked_at = None, pc_revision = 1, pc_state_commitment = h32 0\<rparr>]"

definition trip_authorization :: "unit \<Rightarrow> logical_authorization_state list" where
  "trip_authorization u = [\<lparr>as_revision = 1, as_state_commitment = h32 0\<rparr>, \<lparr>as_revision = 7, as_state_commitment = h32 0\<rparr>]"

definition trip_tombstones :: "unit \<Rightarrow> logical_tombstone list" where
  "trip_tombstones u = [\<lparr>pt_secret_id = sid 20, pt_namespace_id = sid 10, pt_name_index = h32 1, pt_last_version = 1, pt_purged_at = 1500, pt_retention_cutoff = 1200\<rparr>]"

definition trip_policies :: "unit \<Rightarrow> logical_policy list" where
  "trip_policies u = [\<lparr>ll_policy_id = sid 60, ll_revision = 1, ll_state = ''active'', ll_metadata_version = 1, ll_metadata = text_encode [1],
     ll_state_commitment = h32 0, ll_created_at = 1000, ll_updated_at = 1000\<rparr>]"

definition trip_grants :: "unit \<Rightarrow> logical_grant list" where
  "trip_grants u = [\<lparr>pg_grant_id = sid 61, pg_policy_id = sid 60, pg_action = SecretValueRead, pg_resource_kind = Secret, pg_resource_id = sid 20,
     pg_include_descendants = False, pg_created_by = sid 30, pg_created_at = 1000, pg_state_commitment = h32 0\<rparr>]"

definition purge_event :: audit_record where
  "purge_event = sample_audit 1 90 ''secret:purge'' ''secret'' 20 ''allowed'' owner_oper"

definition trip_events :: "unit \<Rightarrow> logical_audit list" where "trip_events u = [purge_event]"

definition no_rows :: "unit \<Rightarrow> 'a list" where "no_rows u = []"

definition trip_json :: json_lib where
  "trip_json = \<lparr>js_keys = table_codec trip_keys, js_namespace = table_codec trip_namespaces, js_secret = table_codec trip_secrets,
     js_secret_version = table_codec trip_versions, js_tombstone = table_codec trip_tombstones, js_principal = table_codec trip_principals,
     js_authenticator = table_codec no_rows, js_service_identity = table_codec no_rows,
     js_application_credential = table_codec trip_credentials, js_authorization_state = table_codec trip_authorization,
     js_policy = table_codec trip_policies, js_grant = table_codec trip_grants, js_binding = table_codec no_rows, js_audit = table_codec trip_events\<rparr>"

definition trip_lib :: backup_lib where
  "trip_lib = \<lparr>kl_archive = sample_archive_lib, kl_json = trip_json, kl_password = \<lparr>pl_parse = (\<lambda>_. None), pl_hash = (\<lambda>_ _. None), pl_verify = (\<lambda>_ _. False)\<rparr>\<rparr>"

definition trip_env :: backup_env where
  "trip_env = \<lparr>be_extension = True, be_prepared = True, be_created = True, be_room = 100000, be_synced = True, be_reopened = True, be_measured = True,
     be_linked = True, be_unlinked = True, be_directory_synced = True, be_removed = True, be_archive = sample_archive_entropy,
     be_request_id = sid 80, be_event_id = sid 81\<rparr>"

definition trip_restore :: restore_env where
  "trip_restore = \<lparr>re_init = sample_env, re_reopen = sample_env, re_entropy = (\<lambda>_ _. sample_entropy), re_request_id = sid 82, re_event_id = sid 83,
     re_quick_check = Inr True, re_removed = (\<lambda>_. True)\<rparr>"

definition trip_place :: backup_place where "trip_place = \<lparr>bp_db = trip_db, bp_destination = None, bp_temporary = None\<rparr>"

definition trip_file :: "bytes \<Rightarrow> archive_file" where "trip_file b = \<lparr>af_opens = True, af_regular = True, af_bytes = b\<rparr>"

definition trip_snap :: portable_snapshot_data where
  "trip_snap = \<lparr>px_vault_id = sid 1, px_source_installation_id = sid 200, px_source_recovery_epoch = 0, px_security_semantics_version = 1,
     px_namespaces = [\<lparr>pn_namespace_id = sid 10, pn_parent_namespace_id = None, pn_name_index = h32 0, pn_metadata_version = 1,
       pn_metadata = sealed [2], pn_lifecycle_state = ''active'', pn_revision = 1, pn_state_commitment = h32 0, pn_created_at = 1000, pn_updated_at = 1000\<rparr>],
     px_secrets = [\<lparr>ps_secret_id = sid 20, ps_namespace_id = sid 10, ps_name_index = h32 1, ps_metadata_version = 1, ps_metadata = sealed [3],
       ps_lifecycle_state = ''active'', ps_current_version = 1, ps_revision = 1, ps_state_commitment = h32 0, ps_created_at = 1000,
       ps_updated_at = 1000, ps_deleted_at = None\<rparr>],
     px_secret_versions = [\<lparr>pv_secret_id = sid 20, pv_version = 1, pv_payload = sealed [42, 43], pv_schedule = default_schedule,
       pv_created_by = None, pv_created_at = 1000\<rparr>],
     px_tombstones = [],
     px_principals = [\<lparr>pp_principal_id = sid 30, pp_kind = principal_kind.Owner, pp_state = ''active'', pp_revision = 1, pp_state_commitment = h32 0,
         pp_created_at = 900, pp_updated_at = 900\<rparr>,
       \<lparr>pp_principal_id = sid 31, pp_kind = principal_kind.Service, pp_state = ''active'', pp_revision = 1, pp_state_commitment = h32 0,
         pp_created_at = 950, pp_updated_at = 950\<rparr>],
     px_authenticators = [], px_service_identities = [], px_application_credentials = trip_credentials (),
     px_authorization_state = \<lparr>as_revision = 1, as_state_commitment = h32 0\<rparr>, px_policies = [], px_grants = [], px_bindings = [], px_audit_records = []\<rparr>"

lemma zero_h32: "zero_commitment = h32 0"
  by (simp add: zero_commitment_def h32_def)

lemma trip_snapshot: "portable_snapshot trip_db = Inr trip_snap"
  by (simp add: portable_snapshot_def query_def lock_def trip_db_def live_db_def empty_db_def rows_def ready_installation_def sample_installation_def
      namespace_tree_def tree_depth_def)
    (simp add: trip_snap_def trip_credentials_def parse_u64_def try_into_array_def u32_of_i64_def u64_of_i64_def read_namespace_def read_secret_def read_secret_version_def
       read_principal_def read_application_credential_def sample_credential_def default_schedule_def
       transpose_map_def principal_kind_parse_def parse_authz_state_def i64_max_def u32_max_def zero_h32)

text \<open>One record of the stream: its kind, the flag of a critical record, the index of its value.\<close>

definition trip_record :: "nat \<Rightarrow> byte \<Rightarrow> bytes" where
  "trip_record kind b = be_bytes 2 kind @ be_bytes 2 1 @ be_bytes 4 1 @ [b]"

definition trip_stream :: bytes where
  "trip_stream = concat [trip_record 1 0, trip_record 10 0, trip_record 11 0, trip_record 12 0, trip_record 20 0, trip_record 20 1,
     trip_record 23 0, trip_record 30 0]"

lemma length_trip_record [simp]: "length (trip_record kind b) = 9"
  by (simp add: trip_record_def)

lemma trip_append:
  "to_vec c x = Some [b] \<Longrightarrow> length out \<le> 1000 \<Longrightarrow> append_record c out kind x = Inr (out @ trip_record kind b)"
  by (simp add: append_record_def u32_of_def u32_max_def ensure_def MAX_LOGICAL_STREAM_BYTES_def trip_record_def RECORD_FLAG_CRITICAL_def)

lemma trip_decrypted [simp]: "decrypt_b64 sample_vault (sealed p) kind wk i n = Inr (text_encode p)"
  by (simp add: decrypt_b64_def) (simp add: sample_lib_def)

lemma trip_table: "to_vec (table_codec t) x = map_option (\<lambda>(i, y). [word_of_nat i]) (find (\<lambda>(i, y). y = x) (enumerate 0 (take 256 (t ()))))"
  by (simp add: table_codec_def)

lemmas trip_tables = trip_table trip_keys_def trip_namespaces_def trip_secrets_def trip_versions_def trip_principals_def trip_credentials_def
  trip_authorization_def trip_tombstones_def trip_policies_def trip_grants_def trip_events_def

lemmas record_kinds = RECORD_KEYS_def RECORD_NAMESPACE_def RECORD_SECRET_def RECORD_SECRET_VERSION_def RECORD_TOMBSTONE_def RECORD_PRINCIPAL_def
  RECORD_APPLICATION_CREDENTIAL_def RECORD_AUTHORIZATION_STATE_def RECORD_POLICY_def RECORD_GRANT_def RECORD_AUDIT_def

lemma trip_encoded: "encode_logical_snapshot trip_json sample_vault trip_snap = Inr trip_stream"
  unfolding encode_logical_snapshot_def plain_keys_def [symmetric] trip_json_def json_lib.simps trip_snap_def portable_snapshot_data.simps
  by (simp add: trip_append trip_tables encode_namespace_def encode_secret_def encode_secret_version_def
      logical_namespace_of_def logical_secret_of_def logical_secret_version_of_def logical_principal_of_def record_kinds trip_stream_def)

section \<open>A purge that strands a grant\<close>

definition gone_db :: db where
  "gone_db = trip_db\<lparr>secrets := map (apsnd (\<lambda>s. s\<lparr>s_lifecycle := ''deleted'', s_deleted := Some 1000\<rparr>)) (secrets live_db),
     policies := [(1, vault_policy 60)],
     policy_grants := [(1, (sample_grant 61 60)\<lparr>g_kind := ''secret'', g_resource := sid 20, g_descendants := 0\<rparr>)],
     authorization_state := authorization_state live_db\<rparr>"

definition stranding_purge :: secret_purge where
  "stranding_purge = \<lparr>sp_secret_id = sid 20, sp_expected_revision = 1, sp_retention_cutoff = 1200, sp_purged_at = 1500\<rparr>"

definition purged_db :: db where
  "purged_db = logged purge_event (gone_db\<lparr>secrets := [], secret_versions := [], tombstones := [(1, \<lparr>t_secret_id = sid 20, t_namespace_id = sid 10,
     t_name_index = h32 1, t_last_version = 1, t_purged = 1500, t_cutoff = 1200\<rparr>)]\<rparr>)"

lemma purge_runs: "purge_secret stranding_purge purge_event gone_db = (Inr (), purged_db)"
proof -
  have ready: "ready 0 gone_db"
    by (simp add: ready_def gone_db_def trip_db_def live_db_def empty_db_def chain_ok_def chain_tip_def fk_current_version_def zero_h32 rows_def)
  have "texts_ok ''secret:purge'' ''secret'' ''allowed'' owner_oper" "fresh_event 90 gone_db"
    by (simp_all add: texts_ok_def is_none_or_def is_ascii_def owner_oper_def fresh_event_def gone_db_def trip_db_def live_db_def empty_db_def)
  note run = sample_audited [OF ready this(1) owner_oper(3) this(2)]
  have "sql_i64 (sp_expected_revision stranding_purge) = Inr 1" by (simp add: stranding_purge_def sql_i64_def i64_of_u64_def i64_max_def)
  then show ?thesis
    unfolding purge_secret_def purge_event_def purged_db_def
    by (simp only: guarded_simps) (rule run; simp add: stranding_purge_def gone_db_def trip_db_def live_db_def empty_db_def tbl_find_def rows_def ensure_def Let_def
      sql_insert_def tombstone_check_def unique_key_def sql_delete_guarded_def tbl_delete_def tbl_insert_def next_rowid_def fk_current_version_def)
qed

definition purged_snap :: portable_snapshot_data where
  "purged_snap = trip_snap\<lparr>px_secrets := [], px_secret_versions := [], px_tombstones := trip_tombstones (),
     px_policies := [\<lparr>po_policy_id = sid 60, po_revision = 1, po_state = ''active'', po_metadata_version = 1, po_metadata = sealed [1],
       po_state_commitment = h32 0, po_created_at = 1000, po_updated_at = 1000\<rparr>],
     px_grants := trip_grants (), px_authorization_state := \<lparr>as_revision = 7, as_state_commitment = h32 0\<rparr>, px_audit_records := [purge_event]\<rparr>"

definition purged_stream :: bytes where
  "purged_stream = concat [trip_record 1 0, trip_record 10 0, trip_record 13 0, trip_record 20 0, trip_record 20 1, trip_record 23 0,
     trip_record 30 1, trip_record 31 0, trip_record 32 0, trip_record 40 0]"

lemma purge_event_read: "parse_audit (audit_row_of purge_event) = Inr purge_event"
  by (simp add: parse_audit_def audit_row_of_def purge_event_def sample_audit_def owner_oper_def u8_of_i64_def u64_of_i64_def i64_max_def
      transpose_map_def try_into_array_def parse_uuid_def)

lemma purged_snapshot: "portable_snapshot purged_db = Inr purged_snap"
  by (simp add: portable_snapshot_def query_def lock_def purged_db_def gone_db_def trip_db_def live_db_def empty_db_def rows_def ready_installation_def
      sample_installation_def namespace_tree_def tree_depth_def)
    (simp add: purged_snap_def trip_snap_def trip_tombstones_def trip_grants_def trip_credentials_def parse_u64_def try_into_array_def u32_of_i64_def
       u64_of_i64_def read_namespace_def read_tombstone_def purge_event_read read_grant_def sample_grant_def parse_resource_kind_def action_from_str_def all_actions_def
       read_principal_def read_application_credential_def sample_credential_def
       transpose_map_def principal_kind_parse_def parse_authz_state_def i64_max_def u32_max_def)

lemma purged_encoded: "encode_logical_snapshot trip_json sample_vault purged_snap = Inr purged_stream"
  unfolding encode_logical_snapshot_def plain_keys_def [symmetric] trip_json_def json_lib.simps purged_snap_def trip_snap_def portable_snapshot_data.simps
    portable_snapshot_data.update_convs
  by (simp add: trip_append trip_tables encode_namespace_def encode_policy_def
      logical_namespace_of_def logical_policy_of_def logical_principal_of_def record_kinds purged_stream_def)

section \<open>The backups run\<close>

lemma table_codec_ok: "codec_ok (table_codec t)"
proof -
  have "from_slice (table_codec t) b = Some x" if "to_vec (table_codec t) x = Some b" for x b
  proof -
    note prems = that
    obtain i y where "find (\<lambda>(i, y). y = x) (enumerate 0 (take 256 (t ()))) = Some (i, y)" "b = [word_of_nat i]"
      using prems by (auto simp: table_codec_def)
    then have "i < length (take 256 (t ()))" "take 256 (t ()) ! i = x" "b = [word_of_nat i]"
      by (auto simp: find_Some_iff nth_enumerate_eq)
    moreover from this have "unat (word_of_nat i :: byte) = i" by (simp add: unat_of_nat)
    ultimately show ?thesis by (simp add: table_codec_def)
  qed
  then show ?thesis by (simp add: codec_ok_def)
qed

lemma trip_lib_ok: "backup_lib_ok trip_lib"
  using sample_lib_correct sample_json sample_digest_correct
  by (simp add: backup_lib_ok_def trip_lib_def json_ok_def trip_json_def table_codec_ok)

definition small_archive :: "portable_snapshot_data \<Rightarrow> bytes \<Rightarrow> bool" where
  "small_archive snap logical =
     (case write_archive sample_archive_lib sample_archive_entropy (map Inr (cursor_reads (ao_chunk_bytes default_options) logical)) archive_sample_key
         (backup_metadata snap 2000) default_options \<lparr>sk_written = [], sk_room = 100000\<rparr> of
        (Inl e, k) \<Rightarrow> False
      | (Inr summary, k) \<Rightarrow> as_archive_id summary = sid 7 \<and> as_archive_bytes summary \<le> 1000 \<and> sk_written k \<noteq> [] \<and> length (sk_written k) \<le> 1000)"

lemma trip_small: "small_archive trip_snap trip_stream" "small_archive purged_snap purged_stream"
  by code_simp+

lemma sample_backup_parts:
  assumes "small_archive snap logical" "ready n d" "fresh_event 81 d"
  obtains summary k a where "write_archive sample_archive_lib sample_archive_entropy (map Inr (cursor_reads (ao_chunk_bytes default_options) logical))
       archive_sample_key (backup_metadata snap 2000) default_options \<lparr>sk_written = [], sk_room = 100000\<rparr> = (Inr summary, k)"
    "as_archive_bytes summary \<le> 1000" "sk_written k \<noteq> []" "length (sk_written k) \<le> 1000"
    "build_audit sample_vault (sid 81) ''backup:create'' ''archive'' (Some (as_archive_id summary)) (restored_context (sid 80) 2000) d = Inr a"
    "append_audit a d = (Inr (), logged a d)"
proof -
  let ?oper = "restored_context (sid 80) 2000"
  obtain summary k where w: "write_archive sample_archive_lib sample_archive_entropy (map Inr (cursor_reads (ao_chunk_bytes default_options) logical)) archive_sample_key
         (backup_metadata snap 2000) default_options \<lparr>sk_written = [], sk_room = 100000\<rparr> = (Inr summary, k)"
    and id: "as_archive_id summary = sid 7" "as_archive_bytes summary \<le> 1000" "sk_written k \<noteq> []" "length (sk_written k) \<le> 1000"
    using assms(1) by (auto simp: small_archive_def split: prod.splits sum.splits)
  have oper: "texts_ok ''backup:create'' ''archive'' ''allowed'' ?oper" "uuids_ok ?oper"
    by (simp_all add: texts_ok_def uuids_ok_def restored_context_def is_none_or_def is_ascii_def)
  let ?a = "sample_audit (Suc n) 81 ''backup:create'' ''archive'' 7 ''allowed'' ?oper"
  have "build_audit sample_vault (sid 81) ''backup:create'' ''archive'' (Some (as_archive_id summary)) ?oper d = Inr ?a"
    using sample_build [OF assms(2) oper(1)] by (simp add: build_audit_def id)
  moreover have "append_audit ?a d = (Inr (), logged ?a d)" using sample_append [OF assms(2) oper assms(3)] assms(2) by (simp add: ready_def)
  ultimately show thesis using that w id by blast
qed

lemma sample_backup_runs:
  assumes "portable_snapshot d = Inr snap" "encode_logical_snapshot trip_json sample_vault snap = Inr logical" "small_archive snap logical"
    and "ready n d" "fresh_event 81 d"
  shows "\<exists>report b d'. create_backup_file trip_lib trip_env sample_vault archive_sample_key 2000 \<lparr>bp_db = d, bp_destination = None, bp_temporary = None\<rparr> =
      (Inr report, \<lparr>bp_db = d', bp_destination = Some b, bp_temporary = None\<rparr>) \<and> open_safe_source (trip_file b) = Inr b"
proof -
  let ?s = "\<lparr>bp_db = d, bp_destination = None, bp_temporary = None\<rparr>"
  obtain summary k a where w: "write_archive sample_archive_lib sample_archive_entropy (map Inr (cursor_reads (ao_chunk_bytes default_options) logical))
       archive_sample_key (backup_metadata snap 2000) default_options \<lparr>sk_written = [], sk_room = 100000\<rparr> = (Inr summary, k)"
    "as_archive_bytes summary \<le> 1000" "sk_written k \<noteq> []" "length (sk_written k) \<le> 1000"
    "build_audit sample_vault (sid 81) ''backup:create'' ''archive'' (Some (as_archive_id summary)) (restored_context (sid 80) 2000) d = Inr a"
    "append_audit a d = (Inr (), logged a d)"
    by (rule sample_backup_parts [OF assms(3-5)])
  have inst: "is_none_or installation_check (installation_state d)"
    using assms(4) by (simp add: ready_def is_none_or_def installation_check_def sample_installation_def)
  have "\<exists>report. create_backup_file trip_lib trip_env sample_vault archive_sample_key 2000 ?s =
      (Inr report, ?s\<lparr>bp_db := logged a d, bp_destination := Some (sk_written k), bp_temporary := None\<rparr>)"
    using trip_lib_ok sample_archive_entropy_ok assms(1,2) w inst
    by (intro create_backup_succeeds [where summary = summary and snap = snap and logical = logical])
      (simp_all add: trip_env_def backup_env_ok_def i64_max_def trip_lib_def MAX_ARCHIVE_BYTES_def)
  moreover have "open_safe_source (trip_file (sk_written k)) = Inr (sk_written k)"
    using w(3,4) by (simp add: open_safe_source_def trip_file_def ensure_def MAX_PORTABLE_FILE_BYTES_def)
  ultimately show ?thesis by auto
qed

section \<open>The restore runs\<close>

text \<open>What a restore does once the archive was read and the destination staged.\<close>

definition finish_restore :: "portable_snapshot_data \<Rightarrow> host \<Rightarrow> (backup_error + unit) \<times> host" where
  "finish_restore snapshot =
     sbind (on_destination (import_portable_snapshot snapshot 1)) (\<lambda>_.
     reading (\<lambda>h. map_err backup_error.Vault (build_audit sample_vault (sid 83) ''backup:restore'' ''vault'' (Some (sid 1))
       (restored_context (sid 82) 3000) (store_of h))) (\<lambda>audit.
     sbind (on_destination (append_audit audit)) (\<lambda>_.
     reading (\<lambda>h. verify_restored_snapshot (Inr True) sample_vault snapshot (store_of h)) (\<lambda>_.
     sbind (storing (\<lambda>_. backup_error.Integrity) (\<lambda>x. x) (verify_restore_staging_reopen sample_env (sid 1) (sid 200))) (\<lambda>_.
     on_destination (activate_restored_initialization 1))))))"

definition revoked_snap :: portable_snapshot_data where
  "revoked_snap = trip_snap\<lparr>px_application_credentials := map (\<lambda>c. c\<lparr>pc_revoked_at := Some 3000, pc_revision := 2\<rparr>) (trip_credentials ())\<rparr>"

definition trip_staged :: host where
  "trip_staged = snd (initialize_restore_staging sample_env (sid 1) (vault_keys sample_vault) empty_host)"

lemma restore_finishes: "\<not> isl (fst (finish_restore revoked_snap trip_staged))"
  by code_simp

lemma trip_staging: "\<exists>w. initialize_restore_staging sample_env (sid 1) (vault_keys sample_vault) empty_host = (Inr w, trip_staged) \<and> lv_vault w = sample_vault"
proof -
  have keys: "vault_keys sample_vault = \<lparr>pk_blind_index = h32 2, pk_audit = h32 3, pk_token_verifier = h32 4\<rparr>" by (simp add: vault_keys_def sample_vault_def)
  obtain d where "begin_initialization_kind start_bootstrap True empty_db = (Inr Begun, d)" using sample_begin by blast
  then have "begin_restore_initialization start_bootstrap empty_db = (Inr Begun, d)" by (simp add: begin_restore_initialization_def)
  then obtain w h' where "initialize_restore_staging sample_env (sid 1) \<lparr>pk_blind_index = h32 2, pk_audit = h32 3, pk_token_verifier = h32 4\<rparr> empty_host = (Inr w, h')"
    "lv_vault w = sample_vault"
    using sample_with_keys [of "h32 7" "h32 9"]
    by (simp add: initialize_restore_staging_def guarded_def reading_def sbind_def create_root_def create_root_key_file_def empty_host_def sample_env_def
        generated_def open_store_def store_of_def stored_def ensure_def vault_of_def sample_vault_def)
  then show ?thesis by (simp add: trip_staged_def keys)
qed

lemma trip_encrypted [simp]: "encrypt_b64 sample_vault sample_entropy (text_encode p) kind wk i n = Inr (sealed p)"
  using text_roundtrip [of p] by (simp add: encrypt_b64_def) (simp add: sample_lib_def)

lemma trip_transformed:
  assumes "plain_image sample_vault trip_snap decoded" "va_metadata verified = backup_metadata trip_snap 2000"
  shows "\<exists>disabled. transform_logical_snapshot pl (\<lambda>_ _. sample_entropy) sample_vault decoded verified Revoke 3000 = Inr (revoked_snap, 1, disabled)"
proof -
  have rows: "dl_namespaces decoded = trip_namespaces ()" "dl_secrets decoded = trip_secrets ()" "dl_secret_versions decoded = trip_versions ()"
    "dl_principals decoded = trip_principals ()" "dl_application_credentials decoded = trip_credentials ()" "dl_authenticators decoded = []"
    "dl_service_identities decoded = []" "dl_policies decoded = []" "dl_grants decoded = []" "dl_bindings decoded = []" "dl_audit decoded = []"
    "dl_tombstones decoded = []" "dl_authorization_state decoded = Some \<lparr>as_revision = 1, as_state_commitment = h32 0\<rparr>"
    using assms(1) by (simp_all add: plain_image_def trip_snap_def plain_namespace_def plain_secret_def plain_secret_version_def
      logical_namespace_of_def logical_secret_of_def logical_secret_version_of_def logical_principal_of_def trip_tables)
  have graph: "portable_authorization_commitment sample_vault [] [] [] 1 = Inr (h32 0)"
    by (simp add: portable_authorization_commitment_def items_commitment_def empty_graph_fields_def sample_digest sample_text sample_lengths)
  have credential: "application_credential_commitment sample_vault (sid 50) (sid 31) (replicate 12 9) (h32 0) 1000 None None (Some 3000) 2 = Inr (h32 0)"
    by (simp add: application_credential_commitment_def sample_text sample_lengths length_hex_encode debug_option_def dec_int_def dec_nat.simps)
  have two: "(2::nat) = Suc (Suc 0)" and bump: "checked_add_u64 (Suc 0) (Suc 0) = Some (Suc (Suc 0))" "checked_add_u64 (Suc 0) 1 = Some (Suc (Suc 0))"
      "checked_add_u64 0 1 = Some 1" "checked_add_u64 0 (Suc 0) = Some 1"
    by (simp_all add: checked_add_u64_def u64_max_def)
  show ?thesis
    by (simp add: transform_logical_snapshot_def rows assms(2) transform_all_def collect_counted_def schedules_of_def trip_tables
      restore_namespace_def restore_secret_def restore_secret_version_def restore_principal_def restore_application_credential_def graph [simplified] credential [unfolded numeral_2_eq_2] two bump
      sample_namespace_commitment sample_secret_commitment parse_principal_kind_def revoked_snap_def backup_metadata_def trip_snap_def)
qed

lemma trip_restores:
  assumes "read_logical_archive trip_lib archive_sample_key f = Inr (verified, decoded, vault_keys sample_vault, 1)"
    and "plain_image sample_vault trip_snap decoded" "va_metadata verified = backup_metadata trip_snap 2000"
  shows "\<exists>report h'. restore_backup_file trip_lib trip_restore archive_sample_key Revoke 3000 f empty_host = (Inr report, h')"
proof -
  obtain w where st: "initialize_restore_staging sample_env (sid 1) (vault_keys sample_vault) empty_host = (Inr w, trip_staged)" "lv_vault w = sample_vault"
    using trip_staging by blast
  obtain disabled where tr: "transform_logical_snapshot (kl_password trip_lib) (\<lambda>_ _. sample_entropy) sample_vault decoded verified Revoke 3000 =
      Inr (revoked_snap, 1, disabled)"
    using trip_transformed [OF assms(2,3)] by blast
  obtain h' where fin: "finish_restore revoked_snap trip_staged = (Inr (), h')"
    using restore_finishes by (cases "finish_restore revoked_snap trip_staged"; cases "fst (finish_restore revoked_snap trip_staged)") auto
  have md: "am_logical_vault_id (va_metadata verified) = sid 1" using assms(3) by (simp add: backup_metadata_def trip_snap_def)
  have "\<exists>report h'. restore_destination trip_lib trip_restore archive_sample_key Revoke 3000 f empty_host = (Inr report, h')"
  proof -
    obtain h1 a h2 h3 where "on_destination (import_portable_snapshot revoked_snap 1) trip_staged = (Inr (), h1)"
      "build_audit sample_vault (sid 83) ''backup:restore'' ''vault'' (Some (sid 1)) (restored_context (sid 82) 3000) (store_of h1) = Inr a"
      "on_destination (append_audit a) h1 = (Inr (), h2)" "verify_restored_snapshot (Inr True) sample_vault revoked_snap (store_of h2) = Inr ()"
      "verify_restore_staging_reopen sample_env (sid 1) (sid 200) h2 = (Inr (), h3)" "on_destination (activate_restored_initialization 1) h3 = (Inr (), h')"
      using fin unfolding finish_restore_def by (auto simp: sbind_Inr reading_Inr storing_Inr map_err_eq_Inr)
    then show ?thesis using tr st md
      by (simp add: restore_destination_def assms(1) trip_restore_def sbind_def guarded_def reading_def storing_def)
  qed
  then show ?thesis by (auto simp: restore_backup_file_def empty_host_def)
qed

lemma trip_sources: "source_ok trip_db" "source_ok purged_db" "vault_keys_ok sample_vault" "vt_lib sample_vault = al_crypto (kl_archive trip_lib)"
  "archive_entropy_ok (be_archive trip_env)"
  using sample_archive_entropy_ok
  by (simp_all add: source_ok_def purged_db_def gone_db_def trip_db_def live_db_def empty_db_def is_none_or_def installation_check_def sample_installation_def rows_def
      version_check_def enc_check_def enc_cols_of_def sealed_def versions_unique_def unique_key_def vault_keys_ok_def sample_vault_def trip_lib_def trip_env_def)

lemma trip_runs:
  "\<exists>breport s' b report h'. create_backup_file trip_lib trip_env sample_vault archive_sample_key 2000 trip_place = (Inr breport, s') \<and>
     bp_destination s' = Some b \<and> open_safe_source (trip_file b) = Inr b \<and>
     restore_backup_file trip_lib trip_restore archive_sample_key Revoke 3000 (trip_file b) empty_host = (Inr report, h')"
proof -
  have ready: "ready 0 trip_db" "fresh_event 81 trip_db"
    by (simp_all add: ready_def fresh_event_def trip_db_def live_db_def empty_db_def chain_ok_def chain_tip_def fk_current_version_def zero_h32 rows_def)
  obtain breport b d' where made: "create_backup_file trip_lib trip_env sample_vault archive_sample_key 2000 trip_place =
      (Inr breport, \<lparr>bp_db = d', bp_destination = Some b, bp_temporary = None\<rparr>)" "open_safe_source (trip_file b) = Inr b"
    using sample_backup_runs [OF trip_snapshot trip_encoded trip_small(1) ready] unfolding trip_place_def by blast
  have "source_ok (bp_db trip_place)" "(2000::int) \<le> i64_max" using trip_sources(1) by (simp_all add: trip_place_def i64_max_def)
  moreover have "bp_destination \<lparr>bp_db = d', bp_destination = Some b, bp_temporary = None\<rparr> = Some b" by simp
  ultimately obtain snap verified decoded where rd: "portable_snapshot (bp_db trip_place) = Inr snap" "va_metadata verified = backup_metadata snap 2000"
    "read_logical_archive trip_lib archive_sample_key (trip_file b) = Inr (verified, decoded, vault_keys sample_vault, Suc (px_source_recovery_epoch snap))"
    "plain_image sample_vault snap decoded"
    using made by (elim published_reads_back [OF trip_lib_ok trip_sources(5,4,3)])
  have "snap = trip_snap" using rd(1) trip_snapshot by (simp add: trip_place_def)
  moreover from this have "Suc (px_source_recovery_epoch snap) = 1" by (simp add: trip_snap_def)
  ultimately show ?thesis using trip_restores [of "trip_file b" verified decoded] rd(2-4) made by auto
qed

lemma purged_backup_parts:
  "\<exists>summary k event d2.
    write_archive sample_archive_lib sample_archive_entropy (map Inr (cursor_reads (ao_chunk_bytes default_options) purged_stream)) archive_sample_key
         (backup_metadata purged_snap 2000) default_options \<lparr>sk_written = [], sk_room = 100000\<rparr> = (Inr summary, k) \<and>
    as_archive_bytes summary \<le> MAX_PORTABLE_FILE_BYTES \<and>
    build_audit sample_vault (sid 81) ''backup:create'' ''archive'' (Some (as_archive_id summary)) (restored_context (sid 80) 2000) purged_db = Inr event \<and>
    append_audit event purged_db = (Inr (), d2)"
proof -
  have ready: "ready 0 (gone_db\<lparr>secrets := [], secret_versions := [], tombstones := [(1, \<lparr>t_secret_id = sid 20, t_namespace_id = sid 10,
     t_name_index = h32 1, t_last_version = 1, t_purged = 1500, t_cutoff = 1200\<rparr>)]\<rparr>)"
    by (simp add: ready_def gone_db_def trip_db_def live_db_def empty_db_def chain_ok_def chain_tip_def fk_current_version_def zero_h32 rows_def)
  have "ready 1 purged_db" unfolding purged_db_def purge_event_def
    using ready_logged [OF ready _ owner_oper(3), where e = 90]
    by (simp add: texts_ok_def is_none_or_def is_ascii_def owner_oper_def fresh_event_def gone_db_def trip_db_def live_db_def empty_db_def)
  moreover have "fresh_event 81 purged_db"
    by (simp add: fresh_event_def purged_db_def gone_db_def trip_db_def live_db_def empty_db_def audit_row_of_def purge_event_def sample_audit_def)
  ultimately show ?thesis by (rule sample_backup_parts [OF trip_small(2)]) (force simp: MAX_PORTABLE_FILE_BYTES_def)
qed

text \<open>A backup whose directory cannot be synchronised after the archive was published.\<close>

lemma unsynced:
  assumes "create_backup_file bl env v key now s = (Inr report, s')"
  shows "\<exists>s2. create_backup_file bl (env\<lparr>be_directory_synced := False\<rparr>) v key now s = (Inl backup_error.Io, s2)"
proof -
  have "write_temporary al (env\<lparr>be_directory_synced := False\<rparr>) = write_temporary al env" for al by (simp add: fun_eq_iff write_temporary_def)
  then have same: "write_and_verify_backup bl (env\<lparr>be_directory_synced := False\<rparr>) v key now = write_and_verify_backup bl env v key now"
    by (simp add: write_and_verify_backup_def)
  have logs: "log_backup (env\<lparr>be_directory_synced := False\<rparr>) = log_backup env" by (simp add: fun_eq_iff log_backup_def)
  show ?thesis
    using assms unfolding create_backup_file_def guarded_Inr reading_Inr sbind_Inr
    by (auto simp: same logs sbind_def guarded_def reading_def ensure_def on_failure_def split: sum.splits prod.splits if_splits)
qed

lemma trip_unsynced:
  "\<exists>s'. create_backup_file trip_lib (trip_env\<lparr>be_directory_synced := False\<rparr>) sample_vault archive_sample_key 2000 trip_place = (Inl backup_error.Io, s')"
  using trip_runs unsynced by blast

section \<open>A run with an import\<close>

lemma revoked_snap_ok: "snapshot_chained revoked_snap" "snapshot_histories revoked_snap"
  by (simp_all add: snapshot_chained_def snapshot_histories_def revoked_snap_def trip_snap_def atLeastAtMost_singleton_iff)

lemma import_run:
  obtains d a d' where "\<forall>ok. ok revoked_snap \<longrightarrow> commit_run ok empty_db d" "import_portable_snapshot revoked_snap 1 (store_of trip_staged) = (Inr (), d)"
    "append_audit a d = (Inr (), d')"
proof -
  obtain w where st: "initialize_restore_staging sample_env (sid 1) (vault_keys sample_vault) empty_host = (Inr w, trip_staged)"
    using trip_staging by blast
  obtain b d0 where d0: "begin_initialization_kind b True empty_db = (Inr Begun, d0)" "ho_db trip_staged = Some d0"
    using staged [OF st] by (metis host.select_convs(2))
  then have store: "store_of trip_staged = d0" using begin_Begun [OF d0(1)] by (auto simp: store_of_def)
  obtain h' where "finish_restore revoked_snap trip_staged = (Inr (), h')"
    using restore_finishes by (cases "finish_restore revoked_snap trip_staged"; cases "fst (finish_restore revoked_snap trip_staged)") auto
  then obtain d a d' where im: "import_portable_snapshot revoked_snap 1 (store_of trip_staged) = (Inr (), d)"
    and ap: "append_audit a (d\<lparr>poisoned := False\<rparr>) = (Inr (), d')"
    unfolding finish_restore_def by (auto simp: sbind_Inr reading_Inr on_destination_Inr store_of_def)
  have "\<not> poisoned d" using import_unpoisoned [OF im staged_blank(1) [OF st]] .
  then have "d\<lparr>poisoned := False\<rparr> = d" by (cases d) simp
  then have ap': "append_audit a d = (Inr (), d')" using ap by simp
  have "commit_run ok empty_db d" if "ok revoked_snap" for ok
    using operation [OF initialize [OF d0(1)], of ok] import_snapshot [of ok, OF that im] store by auto
  then show thesis using that [OF _ im ap'] by blast
qed

end
