(* ===== verification/Backup_Properties.thy ===== *)
theory Backup_Properties
  imports Sample_Backup
begin

text \<open>Properties of backup and restore, with the sample vault they are instantiated on.\<close>

text \<open>C4. A backup that is created and a restore of it that succeeds give a vault that starts, with any secret
  version reading as the same bytes under the new key hierarchy as in the source, the same blind index, audit
  and token keys, the audit log of the source followed by the one event of the restore, and no session.\<close>

theorem restore_preserves_vault:
  assumes "backup_lib_ok bl" "archive_entropy_ok (be_archive benv)" "vt_lib v = al_crypto (kl_archive bl)" "vault_keys_ok v"
    and "source_ok (bp_db s)" "now \<le> i64_max"
    and "create_backup_file bl benv v key now s = (Inr breport, s')" "bp_destination s' = Some written" "open_safe_source f = Inr written"
    and "restore_backup_file bl env key mode later f h = (Inr report, h')"
    and "env_ok (re_init env)" "ie_lib (re_init env) = vt_lib v" "\<And>k i. entropy_ok (re_entropy env k i)"
    and "ie_paths env' = Inr ()" "ie_open env' = Inr ()" "ie_lib env' = vt_lib v"
  shows "\<exists>w. initialize_vault env' h' = (Inr w, h') \<and> vault_values (lv_vault w) (lv_db w) = vault_values v (bp_db s) \<and>
    vault_keys (lv_vault w) = vault_keys v \<and> (\<exists>e. audit_events (lv_db w) = sort_key a_sequence (audit_events (bp_db s)) @ [e]) \<and>
    sessions (lv_db w) = []"
proof -
  obtain snap verified decoded where snap: "portable_snapshot (bp_db s) = Inr snap" and md: "va_metadata verified = backup_metadata snap now"
    and rd: "read_logical_archive bl key f = Inr (verified, decoded, vault_keys v, Suc (px_source_recovery_epoch snap))"
    and im: "plain_image v snap decoded"
    by (rule published_reads_back [OF assms(1-9)])
  have src: "is_none_or installation_check (installation_state (bp_db s))" "list_all version_check (rows (secret_versions (bp_db s)))"
    "versions_unique (secret_versions (bp_db s))" using assms(5) by (simp_all add: source_ok_def)
  have lib: "aead_correct (vt_lib v)" "base64_correct (vt_lib v)" using assms(1,3) by (simp_all add: backup_lib_ok_def)
  obtain w h1 snap' revoked disabled audit d where
    st: "initialize_restore_staging (re_init env) (am_logical_vault_id (va_metadata verified)) (vault_keys v) h = (Inr w, h1)"
    and tr: "transform_logical_snapshot (kl_password bl) (re_entropy env) (lv_vault w) decoded verified mode later = Inr (snap', revoked, disabled)"
    and vs: "list_all2 (\<lambda>p r. secret_version_values p = Inr r) (px_secret_versions snap') (rows (secret_versions d))"
      "list_all version_check (rows (secret_versions d))"
    and au: "audit_events d = map audit_row_of (px_audit_records snap') @ [audit_row_of audit]" "sessions d = []"
    and d: "key_registry d = key_registry (store_of h1)" "maintenance_jobs d = []" "\<not> poisoned d"
    and row: "\<exists>row. installation_state d = Some row \<and> i_vault_id row = px_vault_id snap' \<and> i_installation_id row = vt_installation_id (lv_vault w) \<and>
       i_recovery_epoch row = int (Suc (px_source_recovery_epoch snap)) \<and> int (Suc (px_source_recovery_epoch snap)) \<le> i64_max \<and>
       i_activation_state row = ''ready'' \<and> i_active_kek row = Some 1 \<and> i_semantics row = int (px_security_semantics_version snap')"
    and h': "h' = h1\<lparr>ho_db := Some d\<rparr>"
    by (rule restore_effect [OF restore_backup_Inr [OF assms(10)] rd])
  note blank = staged_blank [OF st] and inst = snapshot_installation [OF snap src(1)] and rws = snapshot_rows [OF snap]
  have start: "initialize_vault env' h' = (Inr \<lparr>lv_vault = lv_vault w, lv_root = lv_root w, lv_db = d\<rparr>, h')"
    unfolding h' by (rule restored_ready [OF st tr md inst(1,2) assms(4) lib(1) assms(11,12) d row assms(14-16)])
  have "vt_lib (lv_vault w) = vt_lib v" using blank(6) assms(12) by simp
  note re = versions_reencrypted [OF tr im this lib(2,1) assms(13)]
  have "vault_values (lv_vault w) d = vault_values v (bp_db s)"
    by (rule restored_values [OF rws(1) re vs(1) _ vs(2) _ refl src(3)]) (use src(2) lib(1) blank(6,7) assms(12) in \<open>simp_all add: list_all_iff\<close>)
  moreover have "audit_events d = sort_key a_sequence (audit_events (bp_db s)) @ [audit_row_of audit]"
    using au(1) transform_Inr(3) [OF tr] im audit_rows_again [OF rws(2)] by (simp add: plain_image_def)
  ultimately show ?thesis using start au(2) blank(8) by simp
qed

theorem restore_preserves_vault_witness:
  "\<exists>breport s' b report h' w. create_backup_file trip_lib trip_env sample_vault archive_sample_key 2000 trip_place = (Inr breport, s') \<and>
     bp_destination s' = Some b \<and> restore_backup_file trip_lib trip_restore archive_sample_key Revoke 3000 (trip_file b) empty_host = (Inr report, h') \<and>
     initialize_vault (sample_env\<lparr>ie_root_key := None\<rparr>) h' = (Inr w, h') \<and> vault_values (lv_vault w) (lv_db w) (sid 20, 1) = Some [42, 43]"
proof -
  obtain breport s' b report h' where run: "create_backup_file trip_lib trip_env sample_vault archive_sample_key 2000 trip_place = (Inr breport, s')"
    "bp_destination s' = Some b" "open_safe_source (trip_file b) = Inr b"
    "restore_backup_file trip_lib trip_restore archive_sample_key Revoke 3000 (trip_file b) empty_host = (Inr report, h')"
    using trip_runs by blast
  have "source_ok (bp_db trip_place)" "(2000::int) \<le> i64_max" using trip_sources(1) by (simp_all add: trip_place_def i64_max_def)
  note keeps = restore_preserves_vault [OF trip_lib_ok trip_sources(5,4,3) this run, of "sample_env\<lparr>ie_root_key := None\<rparr>"]
  have "\<exists>w. initialize_vault (sample_env\<lparr>ie_root_key := None\<rparr>) h' = (Inr w, h') \<and>
      vault_values (lv_vault w) (lv_db w) = vault_values sample_vault (bp_db trip_place)"
    using keeps by (simp add: trip_restore_def entropy_ok_def sample_entropy_def is_none_or_def) (auto simp: sample_env_def)
  moreover have "vault_values sample_vault (bp_db trip_place) (sid 20, 1) = Some [42, 43]"
    by (simp add: vault_values_def version_row_at_def version_value_def trip_place_def trip_db_def live_db_def tbl_find_def rows_def u64_of_i64_def i64_max_def)
  ultimately show ?thesis using run by metis
qed

text \<open>C9. Whatever the archive, a restore that revokes leaves every application credential revoked, no passkey of
  the source active and no session.\<close>

theorem restore_revokes:
  assumes "restore_backup_file bl env key Revoke now f h = (Inr report, h')"
  shows "\<exists>d. ho_db h' = Some d \<and> list_all (\<lambda>c. c_revoked c \<noteq> None) (rows (application_credentials d)) \<and>
    list_all (\<lambda>a. h_kind a = ''passkey'' \<longrightarrow> h_state a \<noteq> ''active'') (rows (owner_authenticators d)) \<and> sessions d = []"
proof -
  note res = restore_backup_Inr [OF assms]
  obtain verified decoded keys epoch where rd: "read_logical_archive bl key f = Inr (verified, decoded, keys, epoch)"
    by (rule restore_destination_Inr [OF res]) blast
  obtain w h1 snap' revoked disabled d where
    st: "initialize_restore_staging (re_init env) (am_logical_vault_id (va_metadata verified)) keys h = (Inr w, h1)"
    and tr: "transform_logical_snapshot (kl_password bl) (re_entropy env) (lv_vault w) decoded verified Revoke now = Inr (snap', revoked, disabled)"
    and hs: "list_all2 (\<lambda>p r. authenticator_values p = Inr r) (px_authenticators snap') (rows (owner_authenticators d))"
    and cs: "list_all2 (\<lambda>p r. application_credential_values p = Inr r) (px_application_credentials snap') (rows (application_credentials d))"
    and d: "sessions d = []" "h' = h1\<lparr>ho_db := Some d\<rparr>"
    by (rule restore_effect [OF res rd]) (rule that)
  have "list_all (\<lambda>c. pc_revoked_at c \<noteq> None) (px_application_credentials snap')"
    using transform_Inr(10) [OF tr] by (auto dest!: collect_counted_Inr elim!: related_all dest: restored_credential_revoked)
  then have "list_all (\<lambda>c. c_revoked c \<noteq> None) (rows (application_credentials d))"
    by (intro related_all [OF cs]) (auto simp: application_credential_values_def result_simps list_all_iff)
  moreover have "list_all (\<lambda>a. ph_kind a = Passkey \<longrightarrow> ph_state a \<noteq> ''active'') (px_authenticators snap')"
    using transform_Inr(9) [OF tr] by (auto dest!: collect_counted_Inr elim!: related_all dest: restored_passkey_revoked)
  then have "list_all (\<lambda>a. h_kind a = ''passkey'' \<longrightarrow> h_state a \<noteq> ''active'') (rows (owner_authenticators d))"
    by (intro related_all [OF hs])
      (auto simp: authenticator_values_def result_simps list_all_iff authenticator_kind_inject [of _ Passkey, simplified])
  ultimately show ?thesis using d by simp
qed

theorem restore_revokes_witness:
  "\<exists>b report h' d. restore_backup_file trip_lib trip_restore archive_sample_key Revoke 3000 (trip_file b) empty_host = (Inr report, h') \<and>
     ho_db h' = Some d \<and> list_all (\<lambda>c. c_revoked c \<noteq> None) (rows (application_credentials d))"
proof -
  obtain b report h' where run: "restore_backup_file trip_lib trip_restore archive_sample_key Revoke 3000 (trip_file b) empty_host = (Inr report, h')"
    using trip_runs by blast
  then show ?thesis using restore_revokes [OF run] by blast
qed



text \<open>C10. A backup that fails publishes nothing: where the file system lets its guards remove files, no archive and no
  partial file is left, and the database has at most one more audit event.\<close>

theorem failed_backup_leaves_nothing:
  assumes "create_backup_file bl env v key now s = (Inl e, s')" "be_removed env" "bp_temporary s = None"
  shows "bp_destination s' = bp_destination s \<and> bp_temporary s' = None \<and>
    (bp_db s' = bp_db s \<or> (\<exists>a. append_audit a (bp_db s) = (Inr (), bp_db s')))"
proof -
  let ?prepare = "sbind (write_and_verify_backup bl env v key now) (\<lambda>verified.
        reading (\<lambda>s. rbind (ensure (be_measured env) Io) (\<lambda>_. ok_or Io (map_option length (bp_temporary s)))) (\<lambda>archive_bytes.
        sbind (log_backup env v now verified) (\<lambda>_. reading (\<lambda>s. ensure (be_linked env) Io) (\<lambda>_. Pair (Inr (verified, archive_bytes))))))"
  obtain r s1 where p: "?prepare s = (r, s1)" by fastforce
  note kept = prepared_frame [OF p]
  consider "s' = s" | "s' = remove_temporary env s1" | x :: backup_file_report where "bp_destination s = None"
    "on_failure (remove_published env)
       (sbind (on_failure (remove_temporary env) (\<lambda>s. if be_unlinked env then (Inr (), s\<lparr>bp_temporary := None\<rparr>) else (Inl Io, s))) (\<lambda>_.
        guarded (ensure (be_directory_synced env) Io) (\<lambda>_. Pair (Inr x)))) (s1\<lparr>bp_destination := bp_temporary s1\<rparr>) = (Inl e, s')"
    using assms(1) p unfolding create_backup_file_def guarded_Inl reading_Inl sbind_Inl [of "on_failure _ _"] on_failure_Inl [of "remove_temporary env" ?prepare]
    by (auto simp: ensure_eq_Inr)
  then show ?thesis
  proof cases
    case 3
    then show ?thesis using unpublished [OF 3(2) assms(2)] kept by auto
  qed (use kept assms(2,3) in \<open>auto simp: remove_temporary_def\<close>)
qed

theorem failed_backup_leaves_nothing_witness:
  "\<exists>s'. create_backup_file trip_lib (trip_env\<lparr>be_directory_synced := False\<rparr>) sample_vault archive_sample_key 2000 trip_place =
       (Inl backup_error.Io, s') \<and>
     bp_destination s' = None \<and> bp_temporary s' = None"
proof -
  obtain s' where run: "create_backup_file trip_lib (trip_env\<lparr>be_directory_synced := False\<rparr>) sample_vault archive_sample_key 2000 trip_place =
      (Inl backup_error.Io, s')"
    using trip_unsynced by blast
  then show ?thesis using failed_backup_leaves_nothing [OF run] by (simp add: trip_env_def trip_place_def)
qed



end
