(* ===== verification/Sample_Session.thy ===== *)
theory Sample_Session
  imports Samples
begin

text \<open>A third concrete history: an owner is enrolled with a password and opens a session.\<close>

definition sample_authenticator :: owner_authenticator_insert where
  "sample_authenticator = \<lparr>oi_authenticator_id = sid 76, oi_kind = Password, oi_credential_lookup = None, oi_credential_data = None,
     oi_password_phc = Some (replicate 40 CHR ''p''), oi_state_commitment = h32 77\<rparr>"

definition sample_session :: session_insert where
  "sample_session = \<lparr>ws_session_id = sid 78, ws_lookup_id = sid 79, ws_verifier = h32 79, ws_csrf_verifier = h32 80,
     ws_principal_id = sid 70, ws_authenticator_id = sid 76, ws_auth_method = Password, ws_created_at = 1000, ws_idle_expires_at = 2000,
     ws_absolute_expires_at = 3000, ws_recent_auth_at = 1000, ws_state_commitment = h32 81,
     ws_expected_authenticator_state_commitment = h32 77, ws_authenticator_state_commitment = h32 82, ws_authenticator_credential_data = None\<rparr>"

definition enrolled_db :: db where
  "enrolled_db = snd (enroll_owner (sid 70) (h32 74) (h32 75) sample_authenticator 900 (sample_event 1) empty_db)"

definition session_db :: db where
  "session_db = snd (create_session sample_session (sample_event 2) enrolled_db)"

lemma succeeded: "\<not> isl (fst r) \<Longrightarrow> r = (Inr (), snd r)"
  by (cases r; cases "fst r") auto

lemma enrolled_ok: "enroll_owner (sid 70) (h32 74) (h32 75) sample_authenticator 900 (sample_event 1) empty_db = (Inr (), enrolled_db)"
  unfolding enrolled_db_def by (rule succeeded) code_simp

lemma session_ok: "create_session sample_session (sample_event 2) enrolled_db = (Inr (), session_db)"
  unfolding session_db_def by (rule succeeded) code_simp

lemma session_reachable: "store_run empty_db session_db"
  using owner_enroll [OF enrolled_ok] session_create [OF session_ok] by (metis r_into_rtranclp rtranclp.rtrancl_into_rtrancl)

lemma session_counted: "tbl_count (\<lambda>w. w_principal w = sid 70) (sessions session_db) = 1"
  by code_simp

end
