(* ===== verification/Spec2Isabelle.thy ===== *)
theory Spec2Isabelle
  imports Vault_Properties Archive_Properties Rotation_Properties Start_Properties Portable_Properties Backup_Properties Sample_Session
begin

text \<open>
  A verification of the Secret Management and Credential Vault (the Rust workspace under
  \<open>src/crates/\<close>).

  \<^bold>\<open>The program.\<close>  The vault keeps secrets in one SQLite database.  Every value and every piece of
  metadata is sealed under a data key of its own, that key is wrapped by a key-encryption key, and
  that one by a root key held in a provider file.  The layers, each calling the one above it:
  \<open>smcv-core\<close> (domain types), \<open>smcv-crypto\<close> (canonical encodings, sealing, commitments, tokens),
  \<open>smcv-storage\<close> (the tables and their transactions), \<open>smcv-backup\<close> (the encrypted archive format),
  \<open>smcv-app\<close> (the operations: vault records, authentication, authorization, service identities, key
  rotation, initialization, backups) and the \<open>smcv-server\<close> and \<open>smcv-cli\<close> front ends.  Every change
  of the database is one transaction that also appends an event to a hash-linked audit log.

  \<^bold>\<open>Conventions.\<close>  A fallible function returns a sum, the error on the left.  A function that changes
  the database takes it last and returns the result with the database afterwards (\<open>transaction\<close>,
  \<open>audited\<close>, \<open>sbind\<close>, \<open>reading\<close>): a failed transaction gives back the database it was given.  A table
  is the list of its rows with their rowids, an \<open>UPDATE\<close> or \<open>INSERT\<close> checks the \<open>CHECK\<close> constraints,
  keys, foreign keys and triggers of the schema (\<open>Sql_Table\<close>, \<open>Storage_Schema\<close>).  Bytes are 8-bit
  words; \<open>u32\<close>, \<open>u64\<close> and \<open>i64\<close> values are numbers with the conversions and checked additions of the
  code written out (\<open>Prelude\<close>).  The cryptographic primitives, Argon2 and JSON are parameters: records
  of functions, with what their documentation promises as the hypotheses \<open>aead_correct\<close>,
  \<open>mac_correct\<close>, \<open>digest_correct\<close>, \<open>base64_correct\<close>, \<open>json_correct\<close> and \<open>json_ok\<close>, satisfied by
  concrete instances in \<open>Sample_Crypto\<close>, \<open>Archive_Properties\<close> and \<open>Sample_Backup\<close>.  Randomness, clocks,
  fresh identifiers and what the file system answers are arguments (\<open>entropy\<close>, \<open>init_env\<close>,
  \<open>backup_env\<close>, \<open>restore_env\<close>).
  The locks of the application are modelled by their poisoned state only: an operation runs to its end
  before the next, which is what the mutexes around the connection and the audit gate give.

  \<^bold>\<open>The theories.\<close>
  \<^item> \<open>Prelude\<close>, \<open>Sql_Table\<close>: results, bytes, machine integers, tables.
  \<^item> \<open>Core_Domain\<close>: \<open>smcv-core\<close>.  \<open>Crypto_Adapter\<close>: \<open>smcv-crypto\<close>.
  \<^item> \<open>Storage_Schema\<close>, \<open>Storage_Audit\<close>, \<open>Storage_Records\<close>, \<open>Storage_Vault\<close>, \<open>Storage_Identity\<close>,
    \<open>Storage_Authorization\<close>, \<open>Storage_Rotation\<close>, \<open>Storage_Idempotency\<close>: the modules of \<open>smcv-storage\<close>, one
    definition per function.  \<open>Store_Steps\<close> is the step relation of the operations of an installation,
    \<open>Records_Invariant\<close> the invariants of its runs.  \<open>Store_Runs\<close> adds the import of a portable snapshot,
    the one other committed change: \<open>commit_run ok\<close> is a run of operations and of imports of snapshots that
    satisfy \<open>ok\<close>.  The import itself checks neither the chain of the events nor the histories it writes,
    so properties of these name the snapshots they hold for (\<open>snapshot_chained\<close>, which every exported
    snapshot satisfies, and \<open>snapshot_histories\<close>), and start from the migrated database or from one that a restore
    verified; all others hold for any snapshot.  The locale \<open>audited_operation\<close> states what
    every audited transaction promises and is interpreted by each of them.
  \<^item> \<open>Text_Format\<close>, \<open>App_Codec\<close>, \<open>App_Operation\<close>, \<open>App_Vault\<close>, \<open>App_Records\<close>: vault operations over the store;
    \<open>App_Refinement\<close> reads the tables as a map from secret and version to value and shows that the
    operations refine operations on that map; \<open>App_Integrity\<close> shows that committed state verifies.
  \<^item> \<open>App_Authentication\<close>, \<open>App_Session\<close>, \<open>App_Authorization\<close>, \<open>App_Policy\<close>, \<open>App_Service\<close>, \<open>App_Facade\<close>:
    who may do what, up to the facade \<open>AuthorizedVault\<close>.
  \<^item> \<open>App_Rotation\<close>: \<open>smcv-app/src/rotation.rs\<close> with the loaded keys and the database as one state;
    its loop is total by a measure, the outer loop is a \<open>partial_function\<close> shown to return.
  \<^item> \<open>Root_Key\<close>, \<open>App_Initialization\<close>: the provider file and \<open>smcv-app/src/initialization.rs\<close>, with the
    provider file and the database file as one \<open>host\<close>: start, resumption, staging of a restore, reopening.
  \<^item> \<open>Archive_Format\<close>, \<open>Archive_Header\<close>, \<open>Archive_Records\<close>, \<open>Archive_Stream\<close>: \<open>smcv-backup\<close>, writer and reader.
  \<^item> \<open>Storage_Portable\<close>, \<open>Portable_Restore\<close>: \<open>smcv-storage/src/portable.rs\<close>, the snapshot of every portable
    table and its import.  The locale \<open>portable_table\<close> states that writing what was read from a row gives
    the row back, \<open>restorable_table\<close> extends it with what makes insertions succeed.
  \<^item> \<open>Backup_Logical\<close>, \<open>App_Backup\<close>, \<open>Backup_Restore\<close>: \<open>smcv-app/src/backup.rs\<close>.  The stream of logical
    records, its encoder and its decoder (the locale \<open>logical_table\<close>, once per kind of record), creation,
    inspection, verification and restore with their cleanup guards, and what a restored vault holds.
  \<^item> \<open>Samples\<close>, \<open>Sample_Session\<close>, \<open>Sample_Rotation\<close>, \<open>Sample_Crypto\<close>, \<open>Sample_Vault\<close>, \<open>Sample_Update\<close>,
    \<open>Sample_Backup\<close>: concrete databases, keys and runs, at which the properties are evaluated.
  \<^item> \<open>Vault_Properties\<close>, \<open>Rotation_Properties\<close>, \<open>Archive_Properties\<close>, \<open>Start_Properties\<close>, \<open>Portable_Properties\<close>,
    \<open>Backup_Properties\<close> and this theory: the properties.

  \<^bold>\<open>What is shown.\<close>  Along every run of the store, imports included, the audit log only grows, payloads of
  versions are immutable, revocations are final and limits hold; the log is a gapless chain, stale writers
  are refused and secret histories are contiguous; in service the revision of the policy graph identifies it.
  Initialization resumes and activates.  A rotation stores its progress, finishes only with nothing it counts left
  under the old key, retires that key alone, returns, and loses no value; it leaves policy and service metadata
  under the retired key.  Encodings are injective, tokens, headers, recovery keys and archives round trip, and
  a reader refuses what is truncated or extended.  A service obtains a value only through an active bound grant
  and never reaches what belongs to the owner.  A vault that started starts again with its keys.  A backup
  restores to a vault in which every version reads as the same bytes under new keys, a restore can revoke every
  credential and puts only a verified database in service, and a backup that fails leaves nothing behind.

  \<^bold>\<open>Not modelled.\<close>  Opening SQLite files, their pragmas and the runner of the migrations (the schema the
  migrations leave is modelled); passkeys, whose ceremony is a library's; HTTP routing and background
  jobs of the server; the command line.  A \<open>host\<close> has the two files a restore writes and no directories: the parent
  directories that \<open>prepare_parent\<close> creates for them, which a failed restore leaves, are outside the model, and the
  \<open>-wal\<close> and \<open>-shm\<close> files beside the database, which the guard also removes, have no content of their own.  The sink of
  an archive is a file, whose last \<open>flush\<close> does nothing, and the manifests of an archive, which are records of
  texts and numbers, always serialise.
\<close>

section \<open>The audit chain\<close>

lemma db3_reachable: "store_run empty_db db3"
  using namespace_create [OF db1_ok] secret_create [OF db2_ok] version_append [OF db3_ok]
  by (metis r_into_rtranclp rtranclp.rtrancl_into_rtrancl)

lemma db3_db5: "store_run db3 db5"
  using lifecycle_change [OF db4_ok] secret_purge [OF db5_ok]
  by (metis r_into_rtranclp rtranclp.rtrancl_into_rtrancl)

lemma db5_reachable: "store_run empty_db db5"
  using db3_reachable db3_db5 by (rule rtranclp_trans)

text \<open>Where the history of a vault starts: at the migrated database, or at the one that a restore put in service.
  The verification of a restore does not look at an event with sequence zero, so an archive must not hold one.\<close>

definition vault_start :: "db \<Rightarrow> bool" where
  "vault_start d = (d = empty_db \<or> restored_vault d \<and> list_all (\<lambda>e. 0 < a_sequence e) (audit_events d))"

lemma start_log: "vault_start d \<Longrightarrow> log_ok d"
  using chain_ok_log [OF chain_ok_empty] restored_vault_sound [of d] by (auto simp: vault_start_def restored_sound_def)

lemmas vault_log = run_log [OF _ start_log]

lemma migrated_start: "vault_start empty_db"
  by (simp add: vault_start_def)



text \<open>C15. The audit log is append-only: no committed operation, the import of any snapshot included, removes,
  reorders or edits an event.\<close>

theorem audit_log_append_only:
  assumes "commit_run any_snapshot d d'"
  shows "\<exists>es. audit_events d' = audit_events d @ es"
  using assms by (rule commits_prefix)

theorem audit_log_append_only_witness: "\<exists>es. audit_events db5 = audit_events db3 @ es"
  using operations_commit [OF db3_db5] by (rule audit_log_append_only)

text \<open>C19. An audit event computed from an earlier head cannot commit: in every reachable
  database each of the 21 operations that append an event, given such an event, is refused and changes
  nothing.  So a retried or concurrent mutation is never recorded twice and the chain never forks.\<close>

theorem stale_event_refused:
  assumes "vault_start d0" "commit_run snapshot_chained d0 d" "ar_sequence b \<le> length (audit_events d)"
  shows "(\<exists>e. append_audit b d = (Inl e, d)) \<and>
    (\<exists>e. create_namespace ns b d = (Inl e, d)) \<and>
    (\<exists>e. move_namespace m b d = (Inl e, d)) \<and>
    (\<exists>e. create_secret s b d = (Inl e, d)) \<and>
    (\<exists>e. append_secret_version v b d = (Inl e, d)) \<and>
    (\<exists>e. change_secret_lifecycle c b d = (Inl e, d)) \<and>
    (\<exists>e. purge_secret p b d = (Inl e, d)) \<and>
    (\<exists>e. create_policy po n cm b d = (Inl e, d)) \<and>
    (\<exists>e. add_policy_grant g n cm b d = (Inl e, d)) \<and>
    (\<exists>e. bind_policy bi n cm b d = (Inl e, d)) \<and>
    (\<exists>e. archive_policy i k pc u n cm b d = (Inl e, d)) \<and>
    (\<exists>e. create_service_identity sv b d = (Inl e, d)) \<and>
    (\<exists>e. enroll_owner i pc zc h now b d = (Inl e, d)) \<and>
    (\<exists>e. create_session ws b d = (Inl e, d)) \<and>
    (\<exists>e. revoke_session i lu at cm b d = (Inl e, d)) \<and>
    (\<exists>e. create_application_credential ci b d = (Inl e, d)) \<and>
    (\<exists>e. revoke_application_credential i n at cm b d = (Inl e, d)) \<and>
    (\<exists>e. finish_kek_rotation job now b d = (Inl e, d)) \<and>
    (\<exists>e. add_owner_authenticator i h now b d = (Inl e, d)) \<and>
    (\<exists>e. replace_root_wrappings jid keys now b d = (Inl e, d)) \<and>
    (\<exists>e. begin_kek_rotation jid source key now b d = (Inl e, d))"
proof (intro conjI)
  note stale = vault_log [OF assms(2,1)] assms(3)
  show "\<exists>e. append_audit b d = (Inl e, d)" using stale by (rule append.stale_log_refused)
  show "\<exists>e. create_namespace ns b d = (Inl e, d)" using stale by (rule create_ns.stale_log_refused)
  show "\<exists>e. move_namespace m b d = (Inl e, d)" using stale by (rule move_ns.stale_log_refused)
  show "\<exists>e. create_secret s b d = (Inl e, d)" using stale by (rule create_sec.stale_log_refused)
  show "\<exists>e. append_secret_version v b d = (Inl e, d)" using stale by (rule append_ver.stale_log_refused)
  show "\<exists>e. change_secret_lifecycle c b d = (Inl e, d)" using stale by (rule lifecycle.stale_log_refused)
  show "\<exists>e. purge_secret p b d = (Inl e, d)" using stale by (rule purge.stale_log_refused)
  show "\<exists>e. create_policy po n cm b d = (Inl e, d)"
    using policy_create.stale_log_refused [OF stale, of "(po, n, cm)"] by simp
  show "\<exists>e. add_policy_grant g n cm b d = (Inl e, d)"
    using grant_add.stale_log_refused [OF stale, of "(g, n, cm)"] by simp
  show "\<exists>e. bind_policy bi n cm b d = (Inl e, d)"
    using policy_bind.stale_log_refused [OF stale, of "(bi, n, cm)"] by simp
  show "\<exists>e. archive_policy i k pc u n cm b d = (Inl e, d)"
    using policy_archive.stale_log_refused [OF stale, of "(i, k, pc, u, n, cm)"] by simp
  show "\<exists>e. create_service_identity sv b d = (Inl e, d)" using stale by (rule service_create.stale_log_refused)
  show "\<exists>e. enroll_owner i pc zc h now b d = (Inl e, d)"
    using owner_enroll.stale_log_refused [OF stale, of "(i, pc, zc, h, now)"] by simp
  show "\<exists>e. create_session ws b d = (Inl e, d)" using stale by (rule session_create.stale_log_refused)
  show "\<exists>e. revoke_session i lu at cm b d = (Inl e, d)"
    using session_revoke.stale_log_refused [OF stale, of "(i, lu, at, cm)"] by simp
  show "\<exists>e. create_application_credential ci b d = (Inl e, d)" using stale by (rule credential_create.stale_log_refused)
  show "\<exists>e. revoke_application_credential i n at cm b d = (Inl e, d)"
    using credential_revoke.stale_log_refused [OF stale, of "(i, n, at, cm)"] by simp
  show "\<exists>e. finish_kek_rotation job now b d = (Inl e, d)"
    using rotation_finish.stale_log_refused [OF stale, of "(job, now)"] by simp
  show "\<exists>e. add_owner_authenticator i h now b d = (Inl e, d)"
    using authenticator_add.stale_log_refused [OF stale, of "(i, h, now)"] by simp
  show "\<exists>e. replace_root_wrappings jid keys now b d = (Inl e, d)"
    using root_replace.stale_log_refused [OF stale, of "(jid, keys, now)"] by simp
  show "\<exists>e. begin_kek_rotation jid source key now b d = (Inl e, d)"
    using rotation_begin.stale_log_refused [OF stale, of "(jid, source, key, now)"] by simp
qed

theorem stale_event_refused_witness:
  "ar_sequence (sample_event 5) \<le> length (audit_events db5) \<and>
   (\<exists>e. purge_secret sample_purge (sample_event 5) db5 = (Inl e, db5))"
proof -
  have le: "ar_sequence (sample_event 5) \<le> length (audit_events db5)"
    by (simp add: db_defs sample_event_def)
  show ?thesis
    using le stale_event_refused [OF migrated_start operations_commit [OF db5_reachable] le, where p = sample_purge,
        THEN conjunct2, THEN conjunct2, THEN conjunct2, THEN conjunct2, THEN conjunct2, THEN conjunct2,
        THEN conjunct1] by (rule conjI)
qed

section \<open>Records\<close>

text \<open>C7. No lost update on a secret: after a new version was appended against a revision, every
  other append or lifecycle change computed from that revision or an earlier one is refused
  and changes nothing.\<close>

theorem concurrent_update_refused:
  assumes "append_secret_version v a d = (Inr x, d')"
    and "sv_secret_id w = sv_secret_id v" "sv_expected_revision w \<le> sv_expected_revision v"
    and "lc_secret_id c = sv_secret_id v" "lc_expected_revision c \<le> sv_expected_revision v"
  shows "(\<exists>e. append_secret_version w b d' = (Inl e, d')) \<and>
    (\<exists>e. change_secret_lifecycle c b d' = (Inl e, d'))"
proof -
  have "secret_revision (sv_secret_id v) d' = Some (int (sv_expected_revision v) + 1)"
    using assms(1) by (rule append_ver.advances)
  then show ?thesis
    using assms(2-5) append_ver.stale_refused [of w d' b] lifecycle.stale_refused [of c d' b] by simp
qed

theorem concurrent_update_refused_witness:
  "\<exists>e. append_secret_version sample_version (sample_event 4) db3 = (Inl e, db3)"
  using concurrent_update_refused [OF db3_ok, of sample_version
      "sample_delete\<lparr>lc_expected_revision := 1\<rparr>" "sample_event 4"]
  by (simp add: sample_version_def sample_delete_def)



text \<open>C20. A version is immutable: whatever operations and imports commit, its sealed payload stays readable
  under its number and unchanged (only the wrapping of its data key may be replaced), until
  its secret has been purged and a tombstone remembers it.\<close>

theorem version_payload_immutable:
  assumes "commit_run any_snapshot d d'" "version_row_at i n d = Some v"
  shows "(\<exists>v'. version_row_at i n d' = Some v' \<and> sealed_payload v' = sealed_payload v) \<or> tombstoned i d'"
  using commits_versions [OF assms(1)] assms(2) by (simp add: version_kept_def)

theorem version_payload_immutable_witness:
  "(\<exists>v'. version_row_at (sid 20) 2 db5 = Some v' \<and>
      sealed_payload v' = sealed_payload (appended_version sample_version)) \<or> tombstoned (sid 20) db5"
  by (rule version_payload_immutable [OF operations_commit [OF db3_db5]])
     (simp add: version_row_at_def db_defs tbl_find_def rows_def sample_defs)

text \<open>C21. A purge destroys a secret only if it is deleted at the expected revision and its deletion
  is not after the retention cutoff; afterwards the secret and all its versions are gone, a
  tombstone keeps its last version number, and every other secret and version is untouched.\<close>

theorem purge_guarded:
  assumes "purge_secret p a d = (Inr x, d')"
  shows "(\<exists>s t. s \<in> set (rows (secrets d)) \<and> s_id s = sp_secret_id p \<and>
      s_revision s = int (sp_expected_revision p) \<and> s_lifecycle s = ''deleted'' \<and>
      s_deleted s = Some t \<and> t \<le> sp_retention_cutoff p \<and>
      rows (tombstones d') = rows (tombstones d) @ [tombstone_of p s]) \<and>
    rows (secrets d') = filter (\<lambda>s. s_id s \<noteq> sp_secret_id p) (rows (secrets d)) \<and>
    rows (secret_versions d') = filter (\<lambda>v. v_secret_id v \<noteq> sp_secret_id p) (rows (secret_versions d)) \<and>
    namespaces d' = namespaces d \<and> purge_enabled d' = 0"
  using purge_secret_Inr [OF assms] by (auto dest: tbl_find_Some)

theorem purge_guarded_witness:
  "rows (secrets db5) = filter (\<lambda>s. s_id s \<noteq> sp_secret_id sample_purge) (rows (secrets db4))"
  using purge_guarded [OF db5_ok] by blast

section \<open>Identities and policies\<close>

text \<open>C22. Revocation of an application credential is final: along every run, imports included, its row stays exactly as
  the revocation left it, and no later use of the credential is accepted.\<close>

theorem revoked_credential_final:
  assumes "commit_run any_snapshot d d'" "credential_row_at i d = Some c" "c_revoked c \<noteq> None"
  shows "credential_row_at i d' = Some c \<and>
    (\<exists>e. mark_application_credential_used i n now cm d' = (Inl e, d'))"
  using commits_revoked [OF assms] revoked_unusable assms(3) by blast

definition revoked_sample :: credential_row where
  "revoked_sample = \<lparr>c_id = sid 60, c_principal = sid 61, c_lookup = replicate 12 1, c_verifier = h32 62,
     c_created = 1000, c_expires = None, c_last_used = None, c_revoked = Some 1500, c_revision = 2,
     c_commitment = h32 63\<rparr>"

definition revoked_db :: db where
  "revoked_db = empty_db\<lparr>application_credentials := [(1, revoked_sample)]\<rparr>"

theorem revoked_credential_final_witness:
  "\<exists>e. mark_application_credential_used (sid 60) 2 2000 (h32 64)
     (revoked_db\<lparr>audit_events := [audit_row_of (sample_event 1)]\<rparr>) =
     (Inl e, revoked_db\<lparr>audit_events := [audit_row_of (sample_event 1)]\<rparr>)"
proof -
  have "append_audit (sample_event 1) revoked_db = (Inr (), revoked_db\<lparr>audit_events := [audit_row_of (sample_event 1)]\<rparr>)"
    by (simp add: append_audit_def revoked_db_def empty_db_def eval_defs sample_defs fk_current_version_def)
  then have "commit_run any_snapshot revoked_db (revoked_db\<lparr>audit_events := [audit_row_of (sample_event 1)]\<rparr>)"
    using audit_append operation by blast
  moreover have "credential_row_at (sid 60) revoked_db = Some revoked_sample"
    by (simp add: credential_row_at_def revoked_db_def revoked_sample_def tbl_find_def rows_def)
  ultimately show ?thesis
    using revoked_credential_final [of revoked_db _ "sid 60" revoked_sample] by (simp add: revoked_sample_def)
qed

text \<open>C23. In every reachable database no principal has more than 32 sessions.\<close>

theorem reachable_session_cap:
  assumes "commit_run any_snapshot empty_db d"
  shows "tbl_count (\<lambda>w. w_principal w = p) (sessions d) \<le> 32"
  using commits_sessions [OF assms]
  by (simp add: session_cap_def MAX_ACTIVE_SESSIONS_PER_PRINCIPAL_def empty_db_def tbl_count_def tbl_select_def)

theorem reachable_session_cap_witness:
  "tbl_count (\<lambda>w. w_principal w = sid 70) (sessions session_db) = 1 \<and> tbl_count (\<lambda>w. w_principal w = sid 70) (sessions session_db) \<le> 32"
  using session_counted reachable_session_cap [OF operations_commit [OF session_reachable]] by blast

text \<open>C24. The revision of the authorization graph identifies it: from any moment at which the installation is in
  service on, it never falls, and between two moments with one revision the policies, grants and bindings are the
  same.  (Before that, the import of a restore may set both; in service no import commits.)\<close>

theorem graph_revision_identifies:
  assumes "commit_run any_snapshot d d'" "in_service d"
  shows "graph_revision d \<le> graph_revision d' \<and>
    (graph_revision d' = graph_revision d \<longrightarrow> policy_graph d' = policy_graph d)"
  using commits_in_service [OF assms] run_graph by blast

theorem graph_revision_identifies_witness:
  "rows (policies rot3) = [policy_row_of sample_policy] \<and> graph_revision rot6 = graph_revision rot3 \<and> policy_graph rot6 = policy_graph rot3"
proof -
  have "rows (policies rot3) = [policy_row_of sample_policy]" by (simp add: rot3_def rows_def)
  moreover have rev: "graph_revision rot6 = graph_revision rot3" by (simp add: rotation_dbs graph_revision_def)
  moreover have "in_service rot3" by (simp add: in_service_def rot3_def rot2_def installation_in_def)
  ultimately show ?thesis using graph_revision_identifies [OF operations_commit [OF rot3_rot6]] by blast
qed

section \<open>Initialization\<close>

text \<open>C25. Beginning an initialization is idempotent: a second call with the same bootstrap record,
  after a crash for example, resumes and changes nothing, and each registered key reads back.\<close>

theorem initialization_resumes:
  assumes "begin_initialization b d = (Inr Begun, d')"
  shows "begin_initialization b d' = (Inr Resumed, d') \<and>
    (\<forall>k \<in> set (bootstrap_keys b). wrapped_key (wk_kind k) (wk_version k) d' = Inr k)"
  using assms begin_resumes begin_wrapped_key unfolding begin_initialization_def by blast

theorem initialization_resumes_witness:
  "begin_initialization sample_bootstrap rot1 = (Inr Resumed, rot1)"
  using initialization_resumes [of sample_bootstrap empty_db rot1] rot1_ok
  by (simp add: begin_initialization_def)

text \<open>C26. An initialization begun on an empty key registry can be activated with key version 1, and
  the installation then reads as ready under the identities of the bootstrap record.\<close>

theorem initialization_activates:
  assumes "begin_initialization b d = (Inr Begun, d')" "key_registry d = []" "restore_guard d = None"
  shows "\<exists>d''. activate_initialization 1 d' = (Inr (), d'') \<and>
     installation d'' = Inr (Some \<lparr>in_vault_id = bs_vault_id b, in_installation_id = bs_installation_id b,
       in_recovery_epoch = 0, in_activation_state = Ready, in_active_kek_version = Some 1,
       in_security_semantics_version = 1\<rparr>)"
  using assms begin_activates [of b False d d']
  by (simp add: begin_initialization_def activate_initialization_def guard_rows_def)

theorem initialization_activates_witness:
  "\<exists>d''. activate_initialization 1 rot1 = (Inr (), d'') \<and>
     installation d'' = Inr (Some \<lparr>in_vault_id = sid 201, in_installation_id = sid 200,
       in_recovery_epoch = 0, in_activation_state = Ready, in_active_kek_version = Some 1,
       in_security_semantics_version = 1\<rparr>)"
  using initialization_activates [of sample_bootstrap empty_db rot1] rot1_ok
  by (simp add: begin_initialization_def sample_bootstrap_def empty_db_def)

text \<open>C27. A restore in progress cannot be activated by the ordinary path: after a restore has begun,
  the generic activation is refused with a state conflict and changes nothing.\<close>

theorem restore_needs_own_activation:
  assumes "begin_restore_initialization b d = (Inr Begun, d')"
  shows "activate_initialization kek d' = (Inl StateConflict, d')"
  using assms by (rule restore_guard_blocks)

theorem restore_needs_own_activation_witness:
  "activate_initialization 1 (rot1\<lparr>restore_guard := Some 1\<rparr>) =
     (Inl StateConflict, rot1\<lparr>restore_guard := Some 1\<rparr>)"
proof (rule restore_needs_own_activation)
  show "begin_restore_initialization sample_bootstrap empty_db = (Inr Begun, rot1\<lparr>restore_guard := Some 1\<rparr>)"
    by (auto simp: begin_restore_initialization_def begin_initialization_kind_def rotation_evals
        rotation_dbs rotation_samples)
qed

section \<open>Key rotation\<close>

text \<open>C28. A rewrap batch replaces wrappings and nothing else: blanking the wrapped keys and the jobs, the two
  databases are equal, and each item moves one row from the source to the target key.  The checkpoint rises and is
  stored: the row of this job carries the checkpoint of the job that is returned, so that the rotation resumes
  after the batch, and every other job row is as it was.\<close>

theorem rewrap_batch_progress:
  assumes "apply_rewrap_batch job items now d = (Inr job', d')" "kj_source job \<noteq> kj_target job"
  shows "erase_wrappings d' = erase_wrappings d \<and>
    source_inventory (int (kj_source job)) d' + length items = source_inventory (int (kj_source job)) d \<and>
    source_inventory (int (kj_source job)) d' < source_inventory (int (kj_source job)) d \<and>
    kj_last_row_id job < kj_last_row_id job' \<and> kj_stage job' = kj_stage job \<and>
    rows (maintenance_jobs d') = map (\<lambda>j. if j_id j = kj_job_id job
      then j\<lparr>j_last_row := kj_last_row_id job', j_updated := now\<rparr> else j) (rows (maintenance_jobs d)) \<and>
    require_job job' d' = Inr ()"
proof -
  obtain l d1 js where items: "items \<noteq> []"
    and fold: "try_fold (apply_rewrap_item job) (kj_last_row_id job, d) items = Inr (l, d1)"
    and d': "d' = d1\<lparr>maintenance_jobs := js\<rparr>" "job' = job\<lparr>kj_last_row_id := l\<rparr>"
    using assms(1) by (rule apply_rewrap_batch_Inr)
  note rules = apply_rewrap_items(1) [OF fold] apply_rewrap_items(2) [OF fold items]
    apply_rewrap_items(3) [OF fold assms(2)]
  have "0 < length items" using items by simp
  then have "source_inventory (int (kj_source job)) d1 < source_inventory (int (kj_source job)) d"
    using rules(3) by linarith
  then show ?thesis using rules apply_rewrap_batch_job [OF assms(1)] by (simp add: d')
qed

theorem rewrap_batch_progress_witness:
  "source_inventory 1 rot5 + 3 = source_inventory 1 rot4 \<and> erase_wrappings rot5 = erase_wrappings rot4 \<and>
   require_job (sample_job Auxiliary 4) rot5 = Inr ()"
  using rewrap_batch_progress [OF rot5_ok] by (simp add: sample_job_def sample_batch_def)

text \<open>C29. A rotation finishes only from its last stage with an empty inventory of the tables it
  counts: no key of the registry, no namespace, secret or version is still wrapped by the
  source; then the source key becomes retired, every other row of the key registry is as it was, and the vault is
  ready on the target.\<close>

theorem rotation_finish_complete:
  assumes "finish_kek_rotation job now a d = (Inr x, d')"
  shows "kj_stage job = Finalize \<and> source_inventory (int (kj_source job)) d' = 0 \<and>
    (\<exists>inst. installation_state d' = Some inst \<and> i_activation_state inst = ''ready'' \<and>
       i_active_kek inst = Some (int (kj_target job))) \<and>
    rows (key_registry d') = map (\<lambda>k. if k_kind k = ''kek'' \<and> k_version k = int (kj_source job)
      then k\<lparr>k_state := ''retired''\<rparr> else k) (rows (key_registry d)) \<and>
    tbl_exists (\<lambda>k. k_kind k = ''kek'' \<and> k_version k = int (kj_source job) \<and> k_state k = ''retired'') (key_registry d')"
proof -
  obtain js inst where d': "d' = logged a (d\<lparr>key_registry := tbl_update
         (\<lambda>k. k_kind k = ''kek'' \<and> k_version k = int (kj_source job) \<and> k_state k = ''retiring'')
         (\<lambda>k. k\<lparr>k_state := ''retired''\<rparr>) (key_registry d),
         maintenance_jobs := js, installation_state := Some (inst\<lparr>i_activation_state := ''ready''\<rparr>)\<rparr>)"
    and inst: "i_active_kek inst = Some (int (kj_target job))"
    and inv: "source_inventory (int (kj_source job)) d = 0" and stage: "kj_stage job = Finalize"
    using finish_kek_rotation_Inr [OF assms] by blast
  have "source_inventory (int (kj_source job)) d' = 0" using inv by (auto simp: source_inventory_def d')
  moreover have "\<exists>inst. installation_state d' = Some inst \<and> i_activation_state inst = ''ready'' \<and> i_active_kek inst = Some (int (kj_target job))"
    using inst by (simp add: d')
  ultimately show ?thesis using stage finish_registry [OF assms] finish_retires [OF assms] by blast
qed

theorem rotation_finish_complete_witness:
  "source_inventory 1 rot6 = 0 \<and> (\<exists>inst. installation_state rot6 = Some inst \<and>
     i_activation_state inst = ''ready'' \<and> i_active_kek inst = Some 2)"
  using rotation_finish_complete [OF rot6_ok] by (simp add: sample_job_def)

text \<open>C30. A rotation from its beginning to its end, with any operations between, leaves the metadata of every policy
  and every service identity as the rotation found it, wrapped by the key it was wrapped by, and retires its
  source key: what the source key wrapped there stays under a retired key, although the rotation reports that
  nothing is left.\<close>

theorem retired_key_still_wraps_policy:
  assumes "begin_kek_rotation jid source key now a d0 = (Inr job, d1)" "commit_run any_snapshot d1 d2"
    and "finish_kek_rotation job' later b d2 = (Inr x, d3)" "kj_source job' = source"
  shows "(\<forall>i m. policy_meta_at i d0 = Some m \<longrightarrow> policy_meta_at i d3 = Some m) \<and>
    (\<forall>i m. service_meta_at i d0 = Some m \<longrightarrow> service_meta_at i d3 = Some m) \<and>
    tbl_exists (\<lambda>k. k_kind k = ''kek'' \<and> k_version k = int source \<and> k_state k = ''retired'') (key_registry d3)"
proof -
  have "store_run d1 d2" using commits_in_service [OF assms(2) begun_in_service [OF assms(1)]] by blast
  then have "store_run d0 d3"
    using rotation_begin [OF assms(1)] rotation_finish [OF assms(3)] by (meson converse_rtranclp_into_rtranclp rtranclp.rtrancl_into_rtrancl)
  then show ?thesis using run_metadata finish_retires [OF assms(3)] assms(4) by blast
qed

theorem retired_key_still_wraps_policy_witness:
  "policy_meta_at (sid 40) rot6 = Some (enc_cols_of (sample_sealed 5)) \<and> x_kek (enc_cols_of (sample_sealed 5)) = 1 \<and>
   tbl_exists (\<lambda>k. k_kind k = ''kek'' \<and> k_version k = 1 \<and> k_state k = ''retired'') (key_registry rot6) \<and>
   is_ready rot6 \<and> source_inventory 1 rot6 = 0"
proof -
  have "policy_meta_at (sid 40) rot3 = Some (enc_cols_of (sample_sealed 5))"
    by (simp add: policy_meta_at_def rot3_def policy_row_of_def sample_policy_def tbl_find_def rows_def)
  moreover have "x_kek (enc_cols_of (sample_sealed 5)) = 1" by (simp add: enc_cols_of_def sample_sealed_def)
  moreover have "is_ready rot6" by (simp add: is_ready_def rot6_def installation_in_def)
  moreover have "source_inventory 1 rot6 = 0"
    by (simp add: source_inventory_def rotation_dbs rotation_samples rows_def tbl_count_def tbl_select_def)
  ultimately show ?thesis
    using retired_key_still_wraps_policy [OF rot4_ok operations_commit [OF rot4_finalize] rot6_ok] by (simp add: sample_job_def)
qed

section \<open>Idempotent creation\<close>

text \<open>C31. A reserved idempotency key answers a retry that follows the reservation within its lifetime with the
  identifier it reserved, and refuses a request with another fingerprint or kind under the same key.\<close>

theorem idempotent_retry:
  assumes "reserve_idempotency q d = (Inr r, d')" "\<not> ir_reused r" "retry_of q q'"
  shows "fst (reserve_idempotency q' d') =
    (if iq_request_fingerprint q' = iq_request_fingerprint q \<and> iq_response_kind q' = iq_response_kind q
     then Inr \<lparr>ir_response_id = ir_response_id r, ir_reused = True\<rparr> else Inl storage_error.Conflict)"
  using assms by (rule reserve_retry)

definition sample_request :: idempotency_request where
  "sample_request = \<lparr>iq_principal_id = sid 70, iq_key_verifier = h32 71, iq_request_fingerprint = h32 72,
     iq_response_kind = ''secret'', iq_proposed_response_id = sid 73, iq_now = 1000, iq_expires_at = 2000\<rparr>"

definition principal_db :: db where
  "principal_db = empty_db\<lparr>principals := [(1, owner_row (sid 70) (h32 74) 900)]\<rparr>"

theorem idempotent_retry_witness:
  "fst (reserve_idempotency (sample_request\<lparr>iq_proposed_response_id := sid 75, iq_now := 1500\<rparr>)
     (snd (reserve_idempotency sample_request principal_db))) =
   Inr \<lparr>ir_response_id = sid 73, ir_reused = True\<rparr>"
proof -
  have first: "reserve_idempotency sample_request principal_db =
      (Inr \<lparr>ir_response_id = sid 73, ir_reused = False\<rparr>,
       principal_db\<lparr>idempotency_records := [(1, idempotency_row_of sample_request)]\<rparr>)"
    by (simp add: reserve_idempotency_def principal_db_def empty_db_def sample_request_def eval_defs
        idempotency_row_of_def idempotency_check_def idempotency_unique_def principal_exists_def
        fk_current_version_def owner_row_def sample_defs)
  have "retry_of sample_request (sample_request\<lparr>iq_proposed_response_id := sid 75, iq_now := 1500\<rparr>)"
    by (simp add: retry_of_def sample_request_def)
  then show ?thesis using idempotent_retry [OF first] first by (simp add: sample_request_def)
qed

section \<open>Reading the log\<close>

text \<open>C32. In every reachable database a page of the audit log is the slice of the events after the cursor,
  each parsed to the record that was appended.\<close>

theorem audit_page_is_slice:
  assumes "vault_start d0" "commit_run snapshot_chained d0 d" "\<not> poisoned d" "0 < limit" "limit \<le> 1000" "int k \<le> i64_max"
    and "take limit (drop k (audit_log d)) = map audit_row_of rs" "list_all audit_record_ok rs"
  shows "audit_records_after k limit d = Inr rs"
proof -
  have "audit_records_after k limit d = traverse parse_audit (map audit_row_of rs)"
    using log_page [OF vault_log [OF assms(2,1)] assms(3-6)] assms(7) by simp
  moreover have "traverse parse_audit (map audit_row_of rs) = Inr rs"
    using assms(8) by (induction rs) (auto simp: parse_audit_row_of)
  ultimately show ?thesis by simp
qed

theorem audit_page_is_slice_witness:
  "audit_records_after 1 2 db5 = Inr (map sample_event [2, 3])"
proof (rule audit_page_is_slice [OF migrated_start operations_commit [OF db5_reachable]])
  have "audit_log db5 = audit_events db5" using chain_ok_log [OF reachable_chain [OF db5_reachable]] by blast
  then show "take 2 (drop 1 (audit_log db5)) = map audit_row_of (map sample_event [2, 3])"
    by (simp add: db_defs numeral_eq_Suc)
  show "list_all audit_record_ok (map sample_event [2, 3])"
    by (simp add: audit_record_ok_def eval_defs sample_defs)
qed (simp_all add: db_defs i64_max_def)

section \<open>Canonical encodings and credentials\<close>

text \<open>C33. The associated data authenticated with every record determines its context: two contexts
  with one encoding agree on vault, installation, object kind, object and version.\<close>

theorem aad_injective:
  assumes "context_ok c" "context_ok d" "encode_aad c = encode_aad d"
  shows "c = d"
  using encode_aad_inject [OF assms(1,2)] assms(3) by blast

definition sample_context :: "nat \<Rightarrow> record_context" where
  "sample_context n = \<lparr>rc_vault_id = sid 201, rc_installation_id = sid 200, rc_object_kind = SecretVersion,
     rc_object_id = sid 20, rc_object_version = n\<rparr>"

theorem aad_injective_witness: "encode_aad (sample_context 1) \<noteq> encode_aad (sample_context 2)"
  using aad_injective [of "sample_context 1" "sample_context 2"]
  by (auto simp: context_ok_def sample_context_def sid_def u64_max_def)

text \<open>C34. The message an audit commitment authenticates determines the event: two admissible inputs
  with one message are equal, in both commitment versions, although actor, credential and
  target are optional and the texts have variable length.\<close>

theorem audit_message_injective:
  assumes "audit_input_typed i" "audit_input_check i = Inr ()"
    and "audit_input_typed j" "audit_input_check j = Inr ()"
    and "audit_message i = audit_message j"
  shows "i = j"
  using audit_message_inject [OF assms(1-4)] assms(5) by blast

definition sample_audit_input :: "uuid option \<Rightarrow> audit_commitment_input" where
  "sample_audit_input target =
     \<lparr>ai_commitment_version = 2, ai_previous = h32 0, ai_sequence = 1, ai_event_id = sid 1,
      ai_installation_id = sid 200, ai_recovery_epoch = 0, ai_occurred_at = 1000, ai_request_id = sid 1,
      ai_actor = Some (sid 70), ai_credential_kind = Some ''session'', ai_credential_id = Some (sid 71),
      ai_action = ''secret:create'', ai_target_kind = ''secret'', ai_target_id = target,
      ai_outcome = ''success''\<rparr>"

theorem audit_message_injective_witness:
  "audit_message (sample_audit_input None) \<noteq> audit_message (sample_audit_input (Some (sid 20)))"
proof -
  have "audit_input_typed (sample_audit_input t)" if "t = None \<or> t = Some (sid 20)" for t
    using that by (auto simp: audit_input_typed_def sample_audit_input_def sid_def h32_def u64_max_def
        i64_min_def i64_max_def)
  moreover have "audit_input_check (sample_audit_input t) = Inr ()" for t
    by (simp add: audit_input_check_def bounded_audit_text_def sample_audit_input_def is_ascii_def)
  moreover have "sample_audit_input None \<noteq> sample_audit_input (Some (sid 20))"
    by (simp add: sample_audit_input_def)
  ultimately show ?thesis
    using audit_message_injective [of "sample_audit_input None" "sample_audit_input (Some (sid 20))"] by auto
qed

text \<open>C35. An issued application token is accepted with the lookup identifier and the verifier that
  were stored for it, and its lookup identifier is recovered from the presented text.\<close>

theorem issued_token_verifies:
  assumes "base64_correct c" "length l = 12" "length s = 32"
    and "issue_token c (Some l) (Some s) key = Inr t"
  shows "verify_token c key (it_plaintext t) (it_lookup_id t) (it_verifier t) = Inr True \<and>
    token_lookup_id c (it_plaintext t) = Some l"
  using verify_issued_token [OF assms] by blast

theorem issued_token_verifies_witness:
  "\<exists>t. issue_token sample_lib (Some (replicate 12 1)) (Some (h32 2)) (h32 3) = Inr t \<and>
     verify_token sample_lib (h32 3) (it_plaintext t) (it_lookup_id t) (it_verifier t) = Inr True"
proof -
  obtain t where t: "issue_token sample_lib (Some (replicate 12 1)) (Some (h32 2)) (h32 3) = Inr t"
    by (simp add: issue_token_def Let_def)
  have "length (replicate 12 1) = 12" "length (h32 2) = 32" by (simp_all add: h32_def)
  then show ?thesis using issued_token_verifies [OF sample_lib_correct(3) _ _ t] t by blast
qed

text \<open>C36. A presented token is accepted only if it is well formed, names the stored lookup identifier
  exactly, and the stored verifier is the keyed digest of its secret.\<close>

theorem accepted_token_genuine:
  assumes "verify_token c key presented lookup_id verifier = Inr True"
  shows "\<exists>l s st. presented = ''smcv_v1.'' @ lookup_id @ ''.'' @ st \<and> b64_decode c lookup_id = Some l \<and>
    b64_decode c st = Some s \<and> length l = 12 \<and> length s = 32 \<and> verifier = token_verifier c key l s"
  using assms by (rule verify_token_accepts)

theorem accepted_token_genuine_witness:
  "\<exists>t l s st. issue_token sample_lib (Some (replicate 12 1)) (Some (h32 2)) (h32 3) = Inr t \<and>
     it_plaintext t = ''smcv_v1.'' @ it_lookup_id t @ ''.'' @ st \<and>
     b64_decode sample_lib (it_lookup_id t) = Some l \<and> b64_decode sample_lib st = Some s \<and>
     it_verifier t = token_verifier sample_lib (h32 3) l s"
proof -
  obtain t where t: "issue_token sample_lib (Some (replicate 12 1)) (Some (h32 2)) (h32 3) = Inr t"
    by (simp add: issue_token_def Let_def)
  have "length (replicate 12 1) = 12" "length (h32 2) = 32" by (simp_all add: h32_def)
  then have "verify_token sample_lib (h32 3) (it_plaintext t) (it_lookup_id t) (it_verifier t) = Inr True"
    using verify_issued_token(1) [OF sample_lib_correct(3) _ _ t] by blast
  then show ?thesis using accepted_token_genuine t by blast
qed

end
